(* ===== verification/Js_Prelude.thy ===== *)
theory Js_Prelude
  imports Complex_Main "HOL-Library.Multiset"
begin

text \<open>
  Shared vocabulary of the development: the part of the ECMAScript standard library that the web
  application uses on strings and arrays, the sum type for thrown errors, and the generic lemmas
  about them. A string is a HOL \<open>string\<close>, that is, a list of code units below 256; white space
  and lower-casing follow the standard on that range (the no-break space U+00A0 is white space,
  and the letters U+00C0 to U+00DE but U+00D7 have lower-case forms 32 above).
\<close>

named_theorems js_simps \<open>how the effects of the runtime unfold\<close>

section \<open>Errors as values\<close>

text \<open>
  What a \<open>throw\<close> can carry: the class \<open>PlatformAPIError\<close> of \<open>lib/api-utils.ts\<close>, an ordinary
  \<open>Error\<close> with its message (a \<open>TypeError\<close> of the runtime is one), or a value that is not an
  \<open>Error\<close> at all.
\<close>

datatype js_error =
    PlatformAPIError (err_message: string) (err_status: int) (err_retryAfter: "string option")
  | ErrorMessage string
  | NonError

type_synonym 'a result = "js_error + 'a"

definition error_message :: "js_error \<Rightarrow> string option" where
  "error_message e = (case e of
     PlatformAPIError m _ _ \<Rightarrow> Some m | ErrorMessage m \<Rightarrow> Some m | NonError \<Rightarrow> None)"

text \<open>The idiom \<open>error instanceof Error ? error.message : fallback\<close>.\<close>

definition message_or :: "js_error \<Rightarrow> string \<Rightarrow> string" where
  "message_or e fallback = (case error_message e of Some m \<Rightarrow> m | None \<Rightarrow> fallback)"

lemma message_or_simps [simp]:
  "message_or (PlatformAPIError m s r) f = m"
  "message_or (ErrorMessage m) f = m"
  "message_or NonError f = f"
  by (simp_all add: message_or_def error_message_def)

section \<open>Nullish coalescing and truthiness\<close>

definition coalesce :: "'a option \<Rightarrow> 'a \<Rightarrow> 'a" where
  "coalesce x d = (case x of Some v \<Rightarrow> v | None \<Rightarrow> d)"

lemma coalesce_simps [simp]: "coalesce (Some v) d = v" "coalesce None d = d"
  by (simp_all add: coalesce_def)

text \<open>The idiom \<open>s || undefined\<close> on a possibly missing string: the empty string is falsy.\<close>

definition or_undefined :: "string option \<Rightarrow> string option" where
  "or_undefined x = (case x of Some s \<Rightarrow> (if s = [] then None else Some s) | None \<Rightarrow> None)"

lemma or_undefined_simps [simp]:
  "or_undefined None = None"
  "or_undefined (Some []) = None"
  "or_undefined (Some (c # s)) = Some (c # s)"
  by (simp_all add: or_undefined_def)

lemma or_undefined_eq_Some: "or_undefined x = Some s \<longleftrightarrow> x = Some s \<and> s \<noteq> []"
  by (auto simp: or_undefined_def split: option.splits if_splits)

lemma or_undefined_idem [simp]: "or_undefined (or_undefined x) = or_undefined x"
  by (auto simp: or_undefined_def split: option.splits)

section \<open>Strings\<close>

definition is_ws :: "char \<Rightarrow> bool" where
  "is_ws c \<longleftrightarrow> (let n = (of_char c :: nat) in (9 \<le> n \<and> n \<le> 13) \<or> n = 32 \<or> n = 160)"

definition trim_start :: "string \<Rightarrow> string" where
  "trim_start s = dropWhile is_ws s"

definition trim_end :: "string \<Rightarrow> string" where
  "trim_end s = rev (dropWhile is_ws (rev s))"

definition trim :: "string \<Rightarrow> string" where
  "trim s = trim_end (trim_start s)"

definition to_lower_char :: "char \<Rightarrow> char" where
  "to_lower_char c = (let n = (of_char c :: nat) in
     if (65 \<le> n \<and> n \<le> 90) \<or> (192 \<le> n \<and> n \<le> 222 \<and> n \<noteq> 215) then char_of (n + 32) else c)"

definition toLowerCase :: "string \<Rightarrow> string" where
  "toLowerCase s = map to_lower_char s"

fun split_on :: "char \<Rightarrow> string \<Rightarrow> string list" where
  "split_on d [] = [[]]"
| "split_on d (c # cs) =
     (if c = d then [] # split_on d cs
      else (case split_on d cs of [] \<Rightarrow> [[c]] | w # ws \<Rightarrow> (c # w) # ws))"

fun join_with :: "string \<Rightarrow> string list \<Rightarrow> string" where
  "join_with sep [] = []"
| "join_with sep [x] = x"
| "join_with sep (x # y # zs) = x @ sep @ join_with sep (y # zs)"

definition starts_with :: "string \<Rightarrow> string \<Rightarrow> bool" where
  "starts_with s p \<longleftrightarrow> take (length p) s = p"

fun includes_str :: "string \<Rightarrow> string \<Rightarrow> bool" where
  "includes_str [] p = (p = [])"
| "includes_str (c # cs) p = (starts_with (c # cs) p \<or> includes_str cs p)"

definition replace_char :: "char \<Rightarrow> char \<Rightarrow> string \<Rightarrow> string" where
  "replace_char a b s = map (\<lambda>c. if c = a then b else c) s"

fun all_digits :: "string \<Rightarrow> bool" where
  "all_digits s = (s \<noteq> [] \<and> list_all (\<lambda>c. 48 \<le> (of_char c :: nat) \<and> (of_char c :: nat) \<le> 57) s)"

subsection \<open>Trimming\<close>

lemma set_trim_start: "set (trim_start s) \<subseteq> set s"
  by (auto simp: trim_start_def dest: set_dropWhileD)

lemma set_trim_end: "set (trim_end s) \<subseteq> set s"
  using set_dropWhileD by (fastforce simp: trim_end_def)

lemma set_trim: "set (trim s) \<subseteq> set s"
  using set_trim_end [of "trim_start s"] set_trim_start [of s] by (auto simp: trim_def)

text \<open>A string is its own trimming exactly when neither end is white space.\<close>

definition trimmed :: "string \<Rightarrow> bool" where
  "trimmed s \<longleftrightarrow> s = [] \<or> (\<not> is_ws (hd s) \<and> \<not> is_ws (last s))"

lemma trim_start_id: "s = [] \<or> \<not> is_ws (hd s) \<Longrightarrow> trim_start s = s"
  by (cases s) (auto simp: trim_start_def)

lemma trim_end_id: "s = [] \<or> \<not> is_ws (last s) \<Longrightarrow> trim_end s = s"
  by (cases s rule: rev_cases) (auto simp: trim_end_def)

lemma trim_id: "trimmed s \<Longrightarrow> trim s = s"
  by (auto simp: trim_def trimmed_def trim_start_id trim_end_id)

lemma trim_Nil [simp]: "trim [] = []"
  by (simp add: trim_id trimmed_def)

lemma hd_trim_start: "trim_start s \<noteq> [] \<Longrightarrow> \<not> is_ws (hd (trim_start s))"
  by (simp add: trim_start_def hd_dropWhile)

lemma last_trim_end: "trim_end s \<noteq> [] \<Longrightarrow> \<not> is_ws (last (trim_end s))"
  by (simp add: trim_end_def last_rev hd_dropWhile)

lemma trim_end_prefix: "\<exists>w. s = trim_end s @ w \<and> list_all is_ws w"
proof -
  have "rev s = takeWhile is_ws (rev s) @ dropWhile is_ws (rev s)" by simp
  then have "s = rev (dropWhile is_ws (rev s)) @ rev (takeWhile is_ws (rev s))"
    by (metis rev_append rev_rev_ident)
  moreover have "list_all is_ws (rev (takeWhile is_ws (rev s)))"
    by (auto simp: list_all_iff dest: set_takeWhileD)
  ultimately show ?thesis unfolding trim_end_def by blast
qed

lemma hd_trim_end: "trim_end s \<noteq> [] \<Longrightarrow> hd (trim_end s) = hd s"
  by (metis hd_append2 trim_end_prefix)

lemma trimmed_trim [simp]: "trimmed (trim s)"
proof (cases "trim s = []")
  case False
  then have ne: "trim_end (trim_start s) \<noteq> []" by (simp add: trim_def)
  then have "trim_start s \<noteq> []" by (auto simp: trim_end_def)
  then have "\<not> is_ws (hd (trim s))"
    using hd_trim_start hd_trim_end [OF ne] by (simp add: trim_def)
  moreover have "\<not> is_ws (last (trim s))"
    using last_trim_end [OF ne] by (simp add: trim_def)
  ultimately show ?thesis by (simp add: trimmed_def)
qed (simp add: trimmed_def)

lemma trim_idem [simp]: "trim (trim s) = trim s"
  by (simp add: trim_id)

subsection \<open>Splitting and joining\<close>

lemma split_on_not_Nil [simp]: "split_on d s \<noteq> []"
  by (induction s) (auto split: list.splits)

lemma split_on_no_delim: "d \<notin> set s \<Longrightarrow> split_on d s = [s]"
  by (induction s) auto

lemma split_on_append: "d \<notin> set x \<Longrightarrow> split_on d (x @ d # y) = x # split_on d y"
  by (induction x) auto

lemma split_on_no_delim_in_parts: "w \<in> set (split_on d s) \<Longrightarrow> d \<notin> set w"
  by (induction s arbitrary: w) (auto split: list.splits if_splits)

lemma join_split_on: "join_with [d] (split_on d s) = s"
proof (induction s)
  case (Cons c cs)
  obtain w ws where sp: "split_on d cs = w # ws"
    by (meson list.exhaust split_on_not_Nil)
  show ?case
    using Cons sp by (cases ws) auto
qed simp

lemma split_join_with:
  assumes "ws \<noteq> []" and "\<forall>w \<in> set ws. d \<notin> set w"
  shows "split_on d (join_with [d] ws) = ws"
  using assms
proof (induction ws rule: list_nonempty_induct)
  case (cons x xs)
  then show ?case
    by (cases xs) (simp_all add: split_on_no_delim split_on_append)
qed (simp add: split_on_no_delim)

lemma starts_with_append [simp]: "starts_with (p @ s) p"
  by (simp add: starts_with_def)

lemma starts_with_iff: "starts_with s p \<longleftrightarrow> (\<exists>r. s = p @ r)"
  by (metis append_eq_conv_conj append_take_drop_id starts_with_def)

lemma starts_with_Nil [simp]: "starts_with s []"
  by (simp add: starts_with_def)

lemma starts_with_Cons [simp]:
  "starts_with [] (d # p) = False"
  "starts_with (c # s) (d # p) = (c = d \<and> starts_with s p)"
  by (auto simp: starts_with_def)

section \<open>Arrays\<close>

text \<open>
  \<open>Array.prototype.sort\<close> with a comparator. ECMAScript requires the result to be a sorted
  permutation in which elements that compare equal keep their order, whenever the comparator is
  consistent; insertion from the right computes that result.
\<close>

fun insert_cmp :: "('a \<Rightarrow> 'a \<Rightarrow> bool) \<Rightarrow> 'a \<Rightarrow> 'a list \<Rightarrow> 'a list" where
  "insert_cmp le x [] = [x]"
| "insert_cmp le x (y # ys) = (if le x y then x # y # ys else y # insert_cmp le x ys)"

definition sort_cmp :: "('a \<Rightarrow> 'a \<Rightarrow> bool) \<Rightarrow> 'a list \<Rightarrow> 'a list" where
  "sort_cmp le xs = foldr (insert_cmp le) xs []"

lemma sort_cmp_simps [simp]:
  "sort_cmp le [] = []"
  "sort_cmp le (x # xs) = insert_cmp le x (sort_cmp le xs)"
  by (simp_all add: sort_cmp_def)

lemma mset_insert_cmp [simp]: "mset (insert_cmp le x xs) = add_mset x (mset xs)"
  by (induction xs) auto

lemma mset_sort_cmp [simp]: "mset (sort_cmp le xs) = mset xs"
  by (induction xs) auto

lemma set_sort_cmp [simp]: "set (sort_cmp le xs) = set xs"
  by (metis mset_sort_cmp set_mset_mset)

lemma length_sort_cmp [simp]: "length (sort_cmp le xs) = length xs"
  by (metis mset_sort_cmp size_mset)

lemma distinct_sort_cmp [simp]: "distinct (sort_cmp le xs) = distinct xs"
  by (metis mset_sort_cmp mset_eq_imp_distinct_iff)

text \<open>The contract of a consistent comparator, as a locale: a total preorder.\<close>

locale total_preorder =
  fixes le :: "'a \<Rightarrow> 'a \<Rightarrow> bool"
  assumes le_total: "le x y \<or> le y x"
    and le_trans: "le x y \<Longrightarrow> le y z \<Longrightarrow> le x z"
begin

lemma le_refl: "le x x"
  using le_total by blast

lemma sorted_insert_cmp: "sorted_wrt le xs \<Longrightarrow> sorted_wrt le (insert_cmp le x xs)"
proof (induction xs)
  case (Cons y ys)
  show ?case
  proof (cases "le x y")
    case True
    with Cons.prems show ?thesis by (auto intro: le_trans)
  next
    case False
    then have "le y x" using le_total by blast
    moreover have "set (insert_cmp le x ys) = insert x (set ys)"
      by (metis mset_insert_cmp set_mset_add_mset_insert set_mset_mset)
    ultimately show ?thesis using False Cons by auto
  qed
qed simp

lemma sorted_sort_cmp: "sorted_wrt le (sort_cmp le xs)"
  by (induction xs) (simp_all add: sorted_insert_cmp)

text \<open>Stability: the elements equivalent to a given one keep their relative order.\<close>

lemma filter_insert_cmp:
  "filter (\<lambda>y. le a y \<and> le y a) (insert_cmp le x xs)
     = (if le a x \<and> le x a then x # filter (\<lambda>y. le a y \<and> le y a) xs
        else filter (\<lambda>y. le a y \<and> le y a) xs)"
proof (induction xs)
  case (Cons y ys)
  show ?case
  proof (cases "le x y")
    case False
    then have "\<not> (le a x \<and> le x a \<and> le a y \<and> le y a)" using le_trans by blast
    with False Cons show ?thesis by auto
  qed auto
qed simp

lemma sort_cmp_stable:
  "filter (\<lambda>y. le a y \<and> le y a) (sort_cmp le xs) = filter (\<lambda>y. le a y \<and> le y a) xs"
  by (induction xs) (simp_all add: filter_insert_cmp)

text \<open>Any prefix of the sorted array dominates what it leaves out.\<close>

lemma take_sort_cmp_dominates:
  assumes "x \<in> set (take n (sort_cmp le xs))" and "y \<in> set (drop n (sort_cmp le xs))"
  shows "le x y"
proof -
  have "sorted_wrt le (take n (sort_cmp le xs) @ drop n (sort_cmp le xs))"
    by (simp add: sorted_sort_cmp)
  with assms show ?thesis unfolding sorted_wrt_append by blast
qed

end

text \<open>
  \<open>localeCompare\<close> belongs to the host's locale and is a parameter \<open>lc\<close> of what uses it. Its
  documented contract is that of a consistent comparison; the comparison of code units meets it.
\<close>

locale collation = names: total_preorder "\<lambda>a b. lc a b \<le> (0::int)"
  for lc :: "string \<Rightarrow> string \<Rightarrow> int"

fun ordinal_compare :: "string \<Rightarrow> string \<Rightarrow> int" where
  "ordinal_compare [] [] = 0"
| "ordinal_compare [] (_ # _) = - 1"
| "ordinal_compare (_ # _) [] = 1"
| "ordinal_compare (a # as) (b # bs) =
     (if (of_char a :: nat) < of_char b then - 1
      else if (of_char b :: nat) < of_char a then 1 else ordinal_compare as bs)"

lemma ordinal_compare_total: "ordinal_compare x y \<le> 0 \<or> ordinal_compare y x \<le> 0"
  by (induction x y rule: ordinal_compare.induct) auto

lemma ordinal_compare_le_Cons:
  "ordinal_compare (a # as) (b # bs) \<le> 0 \<longleftrightarrow>
     (of_char a :: nat) < of_char b \<or> (of_char a :: nat) = of_char b \<and> ordinal_compare as bs \<le> 0"
  by auto

lemma ordinal_compare_trans:
  "ordinal_compare x y \<le> 0 \<Longrightarrow> ordinal_compare y z \<le> 0 \<Longrightarrow> ordinal_compare x z \<le> 0"
proof (induction x y arbitrary: z rule: ordinal_compare.induct)
  case (4 a as b bs)
  show ?case
  proof (cases z)
    case Nil
    with 4 show ?thesis by simp
  next
    case (Cons c cs)
    have ab: "(of_char a :: nat) < of_char b \<or> (of_char a :: nat) = of_char b \<and> ordinal_compare as bs \<le> 0"
      using "4.prems"(1) by (simp only: ordinal_compare_le_Cons)
    have bc: "(of_char b :: nat) < of_char c \<or> (of_char b :: nat) = of_char c \<and> ordinal_compare bs cs \<le> 0"
      using "4.prems"(2) Cons by (simp only: ordinal_compare_le_Cons)
    have "(of_char a :: nat) = of_char b \<Longrightarrow> ordinal_compare as bs \<le> 0 \<Longrightarrow> ordinal_compare bs cs \<le> 0 \<Longrightarrow>
        ordinal_compare as cs \<le> 0"
      using "4.IH" [of cs] by (metis less_irrefl)
    with ab bc show ?thesis
      unfolding Cons ordinal_compare_le_Cons by (elim disjE) auto
  qed
next
  case 1
  then show ?case by (cases z) simp_all
next
  case (2 b bs)
  then show ?case by (cases z) simp_all
qed simp

interpretation ordinal: collation ordinal_compare
  by unfold_locales (rule ordinal_compare_total, rule ordinal_compare_trans)

text \<open>Two sorted arrangements of the same elements agree when the order separates them.\<close>

lemma sorted_wrt_mset_unique:
  assumes "sorted_wrt le xs" and "sorted_wrt le ys" and "mset xs = mset ys"
    and anti: "\<And>x y. x \<in> set xs \<Longrightarrow> y \<in> set xs \<Longrightarrow> le x y \<Longrightarrow> le y x \<Longrightarrow> x = y"
  shows "xs = ys"
  using assms
proof (induction xs arbitrary: ys)
  case (Cons x xs)
  then obtain y ys' where ys: "ys = y # ys'" by (cases ys) auto
  have "set (x # xs) = set (y # ys')" using Cons.prems(3) ys by (metis set_mset_mset)
  then have "y = x \<or> (y \<in> set xs \<and> x \<in> set ys')" by auto
  then have "x = y"
    using Cons.prems(1,2) ys Cons.prems(4) [of x y] by auto
  with Cons ys show ?case by auto
qed simp

text \<open>\<open>Object.values(...).every\<close> and the settled results of \<open>Promise.allSettled\<close>
  (\<open>lib/promise-utils.ts\<close> works on them).\<close>

datatype 'a settled = Fulfilled (settled_value: 'a) | Rejected js_error

definition settle :: "'a result \<Rightarrow> 'a settled" where
  "settle r = (case r of Inl e \<Rightarrow> Rejected e | Inr v \<Rightarrow> Fulfilled v)"

lemma settle_simps [simp]: "settle (Inl e) = Rejected e" "settle (Inr v) = Fulfilled v"
  by (simp_all add: settle_def)

end
