(* ===== verification/Js_Number.thy ===== *)
theory Js_Number
  imports Js_Prelude
begin

text \<open>
  ECMAScript numbers as far as the application uses them: IEEE double values as rationals with
  \<open>NaN\<close> and the infinities (the sign of zero is not represented), rounding of an exact value to the
  nearest double, the string conversions \<open>Number(s)\<close>, \<open>Number.parseInt(s, 10)\<close> and
  \<open>String(n)\<close>, and the lemmas that make the conversions exact on integers up to \<open>2^53\<close>.
\<close>

datatype js_num = NaN | PosInfinity | NegInfinity | Finite rat

definition is_finite :: "js_num \<Rightarrow> bool" where
  "is_finite x = (case x of Finite _ \<Rightarrow> True | _ \<Rightarrow> False)"

definition is_integer :: "js_num \<Rightarrow> bool" where
  "is_integer x = (case x of Finite q \<Rightarrow> of_int \<lfloor>q\<rfloor> = q | _ \<Rightarrow> False)"

section \<open>Rounding to a double\<close>

fun bitlen :: "nat \<Rightarrow> nat" where
  "bitlen n = (if n = 0 then 0 else Suc (bitlen (n div 2)))"

declare bitlen.simps [simp del]

definition round_half_even :: "rat \<Rightarrow> int" where
  "round_half_even q = (let f = \<lfloor>q\<rfloor>; d = q - of_int f in
     if d < 1 / 2 then f else if d > 1 / 2 then f + 1 else if even f then f else f + 1)"

text \<open>The exponent of the unit in the last place of the double nearest to \<open>q\<close>.\<close>

definition ulp_exp :: "rat \<Rightarrow> int" where
  "ulp_exp q = (let (a, b) = quotient_of q;
                    e0 = int (bitlen (nat \<bar>a\<bar>)) - int (bitlen (nat b));
                    e = (if 2 powi e0 \<le> \<bar>q\<bar> then e0 else e0 - 1)
                in max (e - 52) (-1074))"

definition to_double :: "rat \<Rightarrow> js_num" where
  "to_double q = (if q = 0 then Finite 0 else
     (let u = ulp_exp q; r = of_int (round_half_even (q / 2 powi u)) * 2 powi u
      in if 2 ^ 1024 \<le> \<bar>r\<bar> then (if r > 0 then PosInfinity else NegInfinity) else Finite r))"

section \<open>Decimal digits\<close>

definition is_digit :: "char \<Rightarrow> bool" where
  "is_digit c \<longleftrightarrow> 48 \<le> (of_char c :: nat) \<and> (of_char c :: nat) \<le> 57"

definition digit_val :: "char \<Rightarrow> nat" where
  "digit_val c = of_char c - 48"

fun digits_of :: "nat \<Rightarrow> string" where
  "digits_of n = (if n < 10 then [char_of (48 + n)]
                  else digits_of (n div 10) @ [char_of (48 + n mod 10)])"

declare digits_of.simps [simp del]

definition digits_value :: "string \<Rightarrow> nat" where
  "digits_value s = foldl (\<lambda>a c. 10 * a + digit_val c) 0 s"

definition int_to_string :: "int \<Rightarrow> string" where
  "int_to_string n = (if n < 0 then ''-'' @ digits_of (nat (- n)) else digits_of (nat n))"

section \<open>Reading numbers\<close>

definition read_sign :: "string \<Rightarrow> bool \<times> string" where
  "read_sign s = (case s of
     [] \<Rightarrow> (False, [])
   | c # r \<Rightarrow> if c = CHR ''-'' then (True, r) else if c = CHR ''+'' then (False, r) else (False, s))"

text \<open>\<open>Number.parseInt(s, 10)\<close>: the longest run of digits after white space and a sign.\<close>

definition parseInt :: "string \<Rightarrow> js_num" where
  "parseInt s = (let (neg, u) = read_sign (trim_start s); ds = takeWhile is_digit u in
     if ds = [] then NaN
     else to_double ((if neg then - 1 else 1) * of_nat (digits_value ds)))"

definition read_exponent :: "string \<Rightarrow> int option" where
  "read_exponent s = (case s of
     [] \<Rightarrow> Some 0
   | c # r \<Rightarrow> if c = CHR ''e'' \<or> c = CHR ''E''
       then (let (neg, u) = read_sign r in
             if u \<noteq> [] \<and> list_all is_digit u
             then Some ((if neg then - 1 else 1) * int (digits_value u)) else None)
       else None)"

definition read_decimal :: "string \<Rightarrow> rat option" where
  "read_decimal s = (let ip = takeWhile is_digit s; r1 = dropWhile is_digit s;
       fp = (case r1 of c # r \<Rightarrow> (if c = CHR ''.'' then takeWhile is_digit r else []) | [] \<Rightarrow> []);
       r2 = (case r1 of c # r \<Rightarrow> (if c = CHR ''.'' then dropWhile is_digit r else r1) | [] \<Rightarrow> []) in
     if ip = [] \<and> fp = [] then None
     else (case read_exponent r2 of None \<Rightarrow> None
           | Some e \<Rightarrow> Some (of_nat (digits_value (ip @ fp)) * 10 powi (e - int (length fp)))))"

definition radix_digit :: "char \<Rightarrow> nat option" where
  "radix_digit c = (let n = (of_char c :: nat) in
     if 48 \<le> n \<and> n \<le> 57 then Some (n - 48)
     else if 97 \<le> n \<and> n \<le> 102 then Some (n - 87)
     else if 65 \<le> n \<and> n \<le> 70 then Some (n - 55) else None)"

fun read_radix :: "nat \<Rightarrow> nat \<Rightarrow> string \<Rightarrow> nat option" where
  "read_radix b a [] = Some a"
| "read_radix b a (c # s) = (case radix_digit c of
     Some d \<Rightarrow> (if d < b then read_radix b (b * a + d) s else None) | None \<Rightarrow> None)"

definition radix_literal :: "string \<Rightarrow> (nat \<times> string) option" where
  "radix_literal t = (case t of
     z # x # r \<Rightarrow> if z = CHR ''0'' then
         (if x = CHR ''x'' \<or> x = CHR ''X'' then Some (16, r)
          else if x = CHR ''o'' \<or> x = CHR ''O'' then Some (8, r)
          else if x = CHR ''b'' \<or> x = CHR ''B'' then Some (2, r) else None)
       else None
   | _ \<Rightarrow> None)"

text \<open>\<open>Number(s)\<close> on a string: the StringToNumber grammar of ECMAScript.\<close>

definition js_Number :: "string \<Rightarrow> js_num" where
  "js_Number s = (let t = trim s in
     if t = [] then Finite 0
     else (case radix_literal t of
       Some (b, r) \<Rightarrow> (if r = [] then NaN else
          (case read_radix b 0 r of Some n \<Rightarrow> to_double (of_nat n) | None \<Rightarrow> NaN))
     | None \<Rightarrow> (let (neg, u) = read_sign t in
          if u = ''Infinity'' then (if neg then NegInfinity else PosInfinity)
          else (case read_decimal u of
             Some q \<Rightarrow> to_double (if neg then - q else q) | None \<Rightarrow> NaN))))"

section \<open>Writing numbers\<close>

text \<open>
  \<open>Number::toString\<close>: an integer of magnitude at most \<open>2^53\<close> is written in decimal; otherwise the
  shortest digit string that reads back to the same double is laid out as the standard says.
\<close>

fun dec_point :: "nat \<Rightarrow> rat \<Rightarrow> int" where
  "dec_point 0 q = int (length (digits_of (nat \<lfloor>q\<rfloor>)))"
| "dec_point (Suc fuel) q =
     (if 1 \<le> q then int (length (digits_of (nat \<lfloor>q\<rfloor>))) else dec_point fuel (10 * q) - 1)"

fun shortest_digits :: "nat \<Rightarrow> nat \<Rightarrow> int \<Rightarrow> rat \<Rightarrow> nat" where
  "shortest_digits 0 k n q = nat (round_half_even (q * 10 powi (int k - n)))"
| "shortest_digits (Suc fuel) k n q =
     (let s = round_half_even (q * 10 powi (int k - n)) in
      if to_double (of_int s * 10 powi (n - int k)) = Finite q then nat s
      else shortest_digits fuel (Suc k) n q)"

definition layout_digits :: "string \<Rightarrow> int \<Rightarrow> string" where
  "layout_digits ds n = (let k = int (length ds) in
     if k \<le> n \<and> n \<le> 21 then ds @ replicate (nat (n - k)) (CHR ''0'')
     else if 0 < n \<and> n \<le> 21 then take (nat n) ds @ ''.'' @ drop (nat n) ds
     else if - 6 < n \<and> n \<le> 0 then ''0.'' @ replicate (nat (- n)) (CHR ''0'') @ ds
     else take 1 ds @ (if k = 1 then [] else ''.'' @ drop 1 ds) @ ''e'' @
          (if n \<ge> 1 then ''+'' else ''-'') @ digits_of (nat \<bar>n - 1\<bar>))"

definition rat_to_string :: "rat \<Rightarrow> string" where
  "rat_to_string q = (let a = \<bar>q\<bar>; n = dec_point 400 a in
     (if q < 0 then ''-'' else []) @ layout_digits (digits_of (shortest_digits 17 1 n a)) n)"

definition num_to_string :: "js_num \<Rightarrow> string" where
  "num_to_string x = (case x of
     NaN \<Rightarrow> ''NaN'' | PosInfinity \<Rightarrow> ''Infinity'' | NegInfinity \<Rightarrow> ''-Infinity''
   | Finite q \<Rightarrow> if of_int \<lfloor>q\<rfloor> = q \<and> \<bar>q\<bar> \<le> 2 ^ 53 then int_to_string \<lfloor>q\<rfloor> else rat_to_string q)"

section \<open>Arithmetic and comparison\<close>

definition js_add :: "js_num \<Rightarrow> js_num \<Rightarrow> js_num" where
  "js_add x y = (case (x, y) of
     (Finite a, Finite b) \<Rightarrow> to_double (a + b)
   | (Finite _, y) \<Rightarrow> y
   | (x, Finite _) \<Rightarrow> x
   | (PosInfinity, PosInfinity) \<Rightarrow> PosInfinity
   | (NegInfinity, NegInfinity) \<Rightarrow> NegInfinity
   | _ \<Rightarrow> NaN)"

text \<open>\<open>x < y\<close>, \<open>x - y\<close> and \<open>x * y\<close> on numbers; a comparison with \<open>NaN\<close> is false.\<close>

definition js_less :: "js_num \<Rightarrow> js_num \<Rightarrow> bool" where
  "js_less x y = (case (x, y) of
     (Finite a, Finite b) \<Rightarrow> a < b
   | (NegInfinity, Finite _) \<Rightarrow> True | (NegInfinity, PosInfinity) \<Rightarrow> True
   | (Finite _, PosInfinity) \<Rightarrow> True | _ \<Rightarrow> False)"

definition js_neg :: "js_num \<Rightarrow> js_num" where
  "js_neg x = (case x of NaN \<Rightarrow> NaN | PosInfinity \<Rightarrow> NegInfinity | NegInfinity \<Rightarrow> PosInfinity
     | Finite q \<Rightarrow> Finite (- q))"

definition js_sub :: "js_num \<Rightarrow> js_num \<Rightarrow> js_num" where
  "js_sub x y = js_add x (js_neg y)"

definition js_mul_finite :: "js_num \<Rightarrow> rat \<Rightarrow> js_num" where
  "js_mul_finite x b = (case x of
     Finite a \<Rightarrow> to_double (a * b)
   | NaN \<Rightarrow> NaN
   | PosInfinity \<Rightarrow> if b = 0 then NaN else if b > 0 then PosInfinity else NegInfinity
   | NegInfinity \<Rightarrow> if b = 0 then NaN else if b > 0 then NegInfinity else PosInfinity)"

definition math_max :: "js_num \<Rightarrow> js_num \<Rightarrow> js_num" where
  "math_max x y = (if x = NaN \<or> y = NaN then NaN else if js_less x y then y else x)"

definition math_min :: "js_num \<Rightarrow> js_num \<Rightarrow> js_num" where
  "math_min x y = (if x = NaN \<or> y = NaN then NaN else if js_less y x then y else x)"

section \<open>Exactness on integers up to \<open>2^53\<close>\<close>

lemma bitlen_bounds: "0 < n \<Longrightarrow> 2 ^ (bitlen n - 1) \<le> n \<and> n < 2 ^ bitlen n"
proof (induction n rule: bitlen.induct)
  case (1 n)
  show ?case
  proof (cases "n div 2 = 0")
    case True
    with "1.prems" have "n = 1" by simp
    then show ?thesis by (simp add: bitlen.simps)
  next
    case False
    have b: "bitlen n = Suc (bitlen (n div 2))" using "1.prems" by (simp add: bitlen.simps)
    have IH: "2 ^ (bitlen (n div 2) - 1) \<le> n div 2 \<and> n div 2 < 2 ^ bitlen (n div 2)"
      using 1 False by simp
    obtain k where k: "bitlen (n div 2) = Suc k"
      using False by (cases "bitlen (n div 2)") (auto simp: bitlen.simps)
    show ?thesis using IH b k by auto
  qed
qed

lemma bitlen_1 [simp]: "bitlen (Suc 0) = 1"
  by (simp add: bitlen.simps)

lemma bitlen_pow2: "bitlen (2 ^ k) = Suc k"
  by (induction k) (simp_all add: bitlen.simps)

lemma bitlen_le: "0 < n \<Longrightarrow> n < 2 ^ k \<Longrightarrow> bitlen n \<le> k"
proof (rule ccontr)
  assume n: "0 < n" "n < 2 ^ k" and "\<not> bitlen n \<le> k"
  then have "(2::nat) ^ k \<le> 2 ^ (bitlen n - 1)" by (intro power_increasing) auto
  with bitlen_bounds [OF n(1)] n(2) show False by linarith
qed

lemma round_half_even_of_int [simp]: "round_half_even (of_int m) = m"
  by (simp add: round_half_even_def)

lemma to_double_exact:
  assumes "q / 2 powi ulp_exp q = of_int m" and "\<bar>q\<bar> < 2 ^ 1024"
  shows "to_double q = Finite q"
proof (cases "q = 0")
  case False
  have "q = of_int m * 2 powi ulp_exp q" using assms(1) by (simp add: field_simps)
  then have "of_int (round_half_even (q / 2 powi ulp_exp q)) * 2 powi ulp_exp q = q"
    by (simp only: assms(1) round_half_even_of_int)
  with False assms(2) show ?thesis by (simp add: to_double_def Let_def)
qed (simp add: to_double_def)

lemma ulp_exp_of_int:
  assumes "n \<noteq> 0"
  shows "ulp_exp (of_int n) = max (int (bitlen (nat \<bar>n\<bar>)) - 53) (-1074)"
proof -
  let ?b = "bitlen (nat \<bar>n\<bar>)"
  have b: "2 ^ (?b - 1) \<le> nat \<bar>n\<bar>" using bitlen_bounds [of "nat \<bar>n\<bar>"] assms by simp
  have b1: "1 \<le> ?b" using assms by (simp add: bitlen.simps)
  have "(2::int) ^ (?b - 1) = int (2 ^ (?b - 1))" by simp
  also have "\<dots> \<le> \<bar>n\<bar>" using b by linarith
  finally have "(2::rat) ^ (?b - 1) \<le> \<bar>of_int n\<bar>"
    by (metis of_int_abs of_int_le_iff of_int_numeral of_int_power)
  moreover have "(2::rat) powi (int ?b - 1) = 2 ^ (?b - 1)"
    using b1 by (metis int_ops(2) of_nat_diff power_int_of_nat)
  ultimately show ?thesis
    by (simp add: ulp_exp_def Let_def)
qed

lemma to_double_of_int: "\<bar>n\<bar> \<le> 2 ^ 53 \<Longrightarrow> to_double (of_int n) = Finite (of_int n)"
proof (cases "n = 0")
  case False
  assume n: "\<bar>n\<bar> \<le> 2 ^ 53"
  let ?u = "ulp_exp (of_int n)"
  have big: "\<bar>of_int n :: rat\<bar> < 2 ^ 1024"
  proof -
    have "\<bar>n\<bar> < 2 ^ 1024" using n by simp
    then show ?thesis by (metis of_int_abs of_int_less_iff of_int_numeral of_int_power)
  qed
  show ?thesis
  proof (cases "\<bar>n\<bar> = 2 ^ 53")
    case True
    have "nat \<bar>n\<bar> = 2 ^ 53" using True by simp
    then have "bitlen (nat \<bar>n\<bar>) = 54" by (simp only: bitlen_pow2)
    then have u: "?u = 1" using False by (simp add: ulp_exp_of_int)
    have "(of_int n :: rat) / 2 powi ?u = of_int (n div 2)"
    proof -
      have "n = 9007199254740992 \<or> n = - 9007199254740992" using True by auto
      then have "even n" by auto
      then have "n = 2 * (n div 2)" by simp
      then have "(of_int n :: rat) = 2 * of_int (n div 2)" by (metis of_int_mult of_int_numeral)
      then show ?thesis unfolding u by simp
    qed
    with big show ?thesis by (rule to_double_exact [rotated])
  next
    case lt: False
    then have "nat \<bar>n\<bar> < 2 ^ 53" using n by (simp add: nat_less_iff)
    then have "bitlen (nat \<bar>n\<bar>) \<le> 53" using False by (intro bitlen_le) auto
    then have u: "?u \<le> 0" using False by (simp add: ulp_exp_of_int)
    have "(of_int n :: rat) / 2 powi ?u = of_int (n * 2 ^ nat (- ?u))"
      using u by (simp add: power_int_def field_simps power_inverse)
    with big show ?thesis by (rule to_double_exact [rotated])
  qed
qed (simp add: to_double_def)

text \<open>Rounding an integer gives an integer: where the unit in the last place is below one, the
  value is kept, and elsewhere it is a multiple of that unit.\<close>

lemma to_double_of_int_integral:
  assumes "to_double (of_int n) = Finite q"
  shows "q \<in> \<int>"
proof (cases "n = 0")
  case True
  then show ?thesis using assms by (simp add: to_double_def)
next
  case False
  let ?u = "ulp_exp (of_int n)" and ?m = "round_half_even (of_int n / 2 powi ulp_exp (of_int n))"
  have q: "q = of_int ?m * 2 powi ?u"
    using assms False by (auto simp: to_double_def Let_def split: if_splits)
  show ?thesis
  proof (cases "0 \<le> ?u")
    case True
    then have "q = of_int (?m * 2 ^ nat ?u)" unfolding q by (simp add: power_int_def)
    then show ?thesis by (metis Ints_of_int)
  next
    case neg: False
    then have "(of_int n :: rat) / 2 powi ?u = of_int (n * 2 ^ nat (- ?u))"
      by (simp add: power_int_def field_simps power_inverse)
    then have "q = of_int (n * 2 ^ nat (- ?u)) * 2 powi ?u"
      unfolding q by (metis round_half_even_of_int)
    also have "\<dots> = of_int n" using neg by (simp add: power_int_def field_simps power_inverse)
    finally show ?thesis by simp
  qed
qed

lemma Ints_floor_iff: "(q :: rat) \<in> \<int> \<longleftrightarrow> of_int \<lfloor>q\<rfloor> = q"
  by (metis Ints_cases Ints_of_int floor_of_int)

section \<open>Decimal round trips\<close>

lemma char_digit [simp]: "d < 10 \<Longrightarrow> is_digit (char_of (48 + d))" "d < 10 \<Longrightarrow> digit_val (char_of (48 + d)) = d"
  by (simp_all add: is_digit_def digit_val_def)

lemma digits_of_all_digits: "list_all is_digit (digits_of n)"
  by (induction n rule: digits_of.induct) (subst digits_of.simps, simp)

lemma digits_of_not_Nil [simp]: "digits_of n \<noteq> []"
  by (subst digits_of.simps) simp

lemma digits_value_snoc: "digits_value (s @ [c]) = 10 * digits_value s + digit_val c"
  by (simp add: digits_value_def)

lemma digits_value_digits_of [simp]: "digits_value (digits_of n) = n"
proof (induction n rule: digits_of.induct)
  case (1 n)
  show ?case
  proof (cases "n < 10")
    case True
    then show ?thesis by (subst digits_of.simps) (simp add: digits_value_def)
  next
    case False
    with 1 show ?thesis by (subst digits_of.simps) (simp add: digits_value_snoc)
  qed
qed

lemma is_digit_not_ws: "is_digit c \<Longrightarrow> \<not> is_ws c"
  by (auto simp: is_digit_def is_ws_def Let_def)

lemma is_digit_not_sign: "is_digit c \<Longrightarrow> c \<noteq> CHR ''-'' \<and> c \<noteq> CHR ''+'' \<and> c \<noteq> CHR ''I''"
  by (auto simp: is_digit_def)

lemma digits_of_hd_last: "is_digit (hd (digits_of n))" "is_digit (last (digits_of n))"
  using digits_of_all_digits [of n] by (simp_all add: list_all_iff)

lemma read_sign_digits: "list_all is_digit s \<Longrightarrow> s \<noteq> [] \<Longrightarrow> read_sign s = (False, s)"
  by (cases s) (auto simp: read_sign_def dest: is_digit_not_sign)

lemma takeWhile_all: "list_all P s \<Longrightarrow> takeWhile P s = s \<and> dropWhile P s = []"
  by (auto simp: list_all_iff)

lemma trim_start_int_to_string: "trim_start (int_to_string n) = int_to_string n"
proof -
  have "\<not> is_ws (hd (digits_of k))" for k by (simp add: digits_of_hd_last is_digit_not_ws)
  then show ?thesis
    by (intro trim_start_id) (auto simp: int_to_string_def is_ws_def Let_def)
qed

lemma parseInt_digits:
  assumes "read_sign (trim_start s) = (neg, ds)" and "list_all is_digit ds" and "ds \<noteq> []"
  shows "parseInt s = to_double ((if neg then - 1 else 1) * of_nat (digits_value ds))"
proof -
  have tw: "takeWhile is_digit ds = ds" using assms(2) takeWhile_all by blast
  show ?thesis unfolding parseInt_def Let_def assms(1) prod.case tw using assms(3) by simp
qed

lemma parseInt_int_to_string: "\<bar>n\<bar> \<le> 2 ^ 53 \<Longrightarrow> parseInt (int_to_string n) = Finite (of_int n)"
proof (cases "n < 0")
  case True
  assume n: "\<bar>n\<bar> \<le> 2 ^ 53"
  have "read_sign (trim_start (int_to_string n)) = (True, digits_of (nat (- n)))"
    using True by (simp add: trim_start_int_to_string) (simp add: int_to_string_def read_sign_def)
  from parseInt_digits [OF this digits_of_all_digits digits_of_not_Nil]
  have "parseInt (int_to_string n) = to_double (- of_nat (nat (- n)))" by simp
  also have "- of_nat (nat (- n)) = (of_int n :: rat)" using True by (simp add: of_nat_nat)
  finally show ?thesis using to_double_of_int [OF n] by simp
next
  case False
  assume n: "\<bar>n\<bar> \<le> 2 ^ 53"
  have "read_sign (trim_start (int_to_string n)) = (False, digits_of (nat n))"
    using False
    by (simp add: trim_start_int_to_string)
      (simp add: int_to_string_def read_sign_digits digits_of_all_digits)
  from parseInt_digits [OF this digits_of_all_digits digits_of_not_Nil]
  have "parseInt (int_to_string n) = to_double (of_nat (nat n))" by simp
  also have "of_nat (nat n) = (of_int n :: rat)" using False by (simp add: of_nat_nat)
  finally show ?thesis using to_double_of_int [OF n] by simp
qed

text \<open>What \<open>parseInt\<close> returns is \<open>NaN\<close>, an infinity or an integer.\<close>

lemma parseInt_integral: "parseInt s = Finite q \<Longrightarrow> q \<in> \<int>"
proof -
  assume p: "parseInt s = Finite q"
  define neg u where "neg = fst (read_sign (trim_start s))" and "u = snd (read_sign (trim_start s))"
  define n where "n = (if neg then - 1 else 1) * int (digits_value (takeWhile is_digit u))"
  have "((if neg then - 1 else 1) * of_nat (digits_value (takeWhile is_digit u)) :: rat) = of_int n"
    by (simp add: n_def)
  then have "to_double (of_int n) = Finite q"
    using p by (auto simp: parseInt_def Let_def neg_def u_def split: prod.splits if_splits)
  then show ?thesis by (rule to_double_of_int_integral)
qed

lemma num_to_string_int: "\<bar>n\<bar> \<le> 2 ^ 53 \<Longrightarrow> num_to_string (Finite (of_int n)) = int_to_string n"
proof -
  assume "\<bar>n\<bar> \<le> 2 ^ 53"
  then have "\<bar>of_int n :: rat\<bar> \<le> 2 ^ 53"
    by (metis of_int_abs of_int_le_iff of_int_numeral of_int_power)
  then show ?thesis by (simp add: num_to_string_def)
qed

text \<open>\<open>Number\<close> reads a decimal numeral back.\<close>

lemma is_digit_not_radix_mark:
  "is_digit x \<Longrightarrow> x \<notin> {CHR ''x'', CHR ''X'', CHR ''o'', CHR ''O'', CHR ''b'', CHR ''B''}"
  by (auto simp: is_digit_def)

lemma radix_literal_digits: "list_all is_digit s \<Longrightarrow> radix_literal s = None"
proof (cases s)
  case (Cons z t)
  assume d: "list_all is_digit s"
  show ?thesis
  proof (cases t)
    case Nil
    with Cons show ?thesis by (simp add: radix_literal_def)
  next
    case tail: (Cons x r)
    then have "is_digit x" using d Cons by simp
    with is_digit_not_radix_mark [of x] Cons tail show ?thesis
      by (simp add: radix_literal_def)
  qed
qed (simp add: radix_literal_def)

lemma read_decimal_digits:
  assumes "list_all is_digit s" and "s \<noteq> []"
  shows "read_decimal s = Some (of_nat (digits_value s))"
proof -
  have tw: "takeWhile is_digit s = s" "dropWhile is_digit s = []"
    using assms(1) takeWhile_all by blast+
  show ?thesis
    unfolding read_decimal_def Let_def tw using assms(2) by (simp add: read_exponent_def)
qed

lemma js_Number_digits:
  assumes "list_all is_digit s" and "s \<noteq> []"
  shows "js_Number s = to_double (of_nat (digits_value s))"
proof -
  have "trimmed s"
    using assms by (auto simp: trimmed_def list_all_iff dest!: is_digit_not_ws)
  moreover have "s \<noteq> ''Infinity''"
    using assms by (auto simp: is_digit_def)
  ultimately show ?thesis
    using assms
    by (simp add: js_Number_def Let_def trim_id radix_literal_digits read_sign_digits
        read_decimal_digits)
qed

lemma js_Number_int_to_string:
  assumes "0 \<le> n" and "n \<le> 2 ^ 53"
  shows "js_Number (int_to_string n) = Finite (of_int n)"
proof -
  have "js_Number (int_to_string n) = to_double (of_nat (nat n))"
    using assms(1) by (simp add: int_to_string_def js_Number_digits digits_of_all_digits)
  also have "of_nat (nat n) = (of_int n :: rat)" using assms(1) by (simp add: of_nat_nat)
  finally show ?thesis using to_double_of_int [of n] assms by simp
qed

lemma int_to_string_not_Nil [simp]: "int_to_string n \<noteq> []"
  by (simp add: int_to_string_def)

lemma int_to_string_inject [simp]: "int_to_string m = int_to_string n \<longleftrightarrow> m = n"
proof
  assume eq: "int_to_string m = int_to_string n"
  have sign: "hd (digits_of k) \<noteq> CHR ''-''" for k
    using digits_of_hd_last(1) [of k] is_digit_not_sign by blast
  have "hd (int_to_string k) = CHR ''-'' \<longleftrightarrow> k < 0" for k
    using sign by (simp add: int_to_string_def)
  then have "m < 0 \<longleftrightarrow> n < 0" using eq by metis
  with eq have "digits_of (nat \<bar>m\<bar>) = digits_of (nat \<bar>n\<bar>)"
    by (auto simp: int_to_string_def split: if_splits)
  then have "nat \<bar>m\<bar> = nat \<bar>n\<bar>" by (metis digits_value_digits_of)
  with \<open>m < 0 \<longleftrightarrow> n < 0\<close> show "m = n" by linarith
qed simp

end
