(* ===== verification/Attack_Feed.thy ===== *)
theory Attack_Feed
  imports Js_Number "HOL-Library.Sublist"
begin

text \<open>
  The attack feed shared by both dashboards: the query parsing of \<open>lib/dashboard-utils.ts\<close> and
  \<open>lib/route-query.ts\<close>, paging, the merge of a streamed page into the page on screen, the event
  handler built on it, the filter options, and the highlight timer of
  \<open>components/hooks/use-attack-highlights.ts\<close>.
\<close>

section \<open>Data\<close>

record AttackEvent =
  ae_id :: string
  ae_attacker :: string
  ae_victim :: string
  ae_service :: string
  ae_tick :: int
  ae_verdict :: string

record 'i feed_page =
  items :: "'i list"
  pg_limit :: int
  pg_offset :: int
  total_count :: int
  has_prev :: bool
  has_next :: bool

type_synonym AttackFeedPage = "AttackEvent feed_page"

record AttackFilters =
  af_limit :: string
  af_offset :: string
  af_attacker :: string
  af_victim :: string
  af_service :: string
  af_tickFrom :: string
  af_tickTo :: string

datatype direction = Prev | Next

section \<open>Query parsing\<close>

definition parsePositiveInteger :: "string option \<Rightarrow> int option \<Rightarrow> int \<Rightarrow> int option" where
  "parsePositiveInteger raw fallback mx = (case raw of
     None \<Rightarrow> fallback
   | Some s \<Rightarrow> if s = [] then fallback else
       (case parseInt s of
          Finite q \<Rightarrow> if q \<le> 0 then fallback
                      else if mx > 0 \<and> q > of_int mx then Some mx else Some \<lfloor>q\<rfloor>
        | _ \<Rightarrow> fallback))"

definition parseNonNegativeInteger :: "string option \<Rightarrow> int option" where
  "parseNonNegativeInteger raw = (case raw of
     None \<Rightarrow> None
   | Some s \<Rightarrow> if s = [] then None else
       (case parseInt s of Finite q \<Rightarrow> if q < 0 then None else Some \<lfloor>q\<rfloor> | _ \<Rightarrow> None))"

definition parseTextFilter :: "string option \<Rightarrow> string option" where
  "parseTextFilter raw = (case raw of
     None \<Rightarrow> None
   | Some s \<Rightarrow> if s = [] then None else (let t = trim s in if t = [] then None else Some t))"

definition parseLowercaseTextFilter :: "string option \<Rightarrow> string option" where
  "parseLowercaseTextFilter raw = map_option toLowerCase (parseTextFilter raw)"

record AttackFeedQuery =
  aq_limit :: "int option"
  aq_offset :: "int option"
  aq_attacker :: "string option"
  aq_victim :: "string option"
  aq_service :: "string option"
  aq_tick_from :: "int option"
  aq_tick_to :: "int option"

definition parseAttackFeedQuery :: "(string \<Rightarrow> string option) \<Rightarrow> int \<Rightarrow> int \<Rightarrow> AttackFeedQuery" where
  "parseAttackFeedQuery searchParams defaultLimit maxLimit =
     \<lparr> aq_limit = parsePositiveInteger (searchParams ''limit'') (Some defaultLimit) maxLimit,
       aq_offset = parseNonNegativeInteger (searchParams ''offset''),
       aq_attacker = parseTextFilter (searchParams ''attacker''),
       aq_victim = parseTextFilter (searchParams ''victim''),
       aq_service = parseTextFilter (searchParams ''service''),
       aq_tick_from = parseNonNegativeInteger (searchParams ''tick_from''),
       aq_tick_to = parseNonNegativeInteger (searchParams ''tick_to'') \<rparr>"

section \<open>Filters and paging\<close>

definition isDefaultAttackFilters :: "AttackFilters \<Rightarrow> AttackFilters \<Rightarrow> bool" where
  "isDefaultAttackFilters filters defaults \<longleftrightarrow>
     af_limit filters = af_limit defaults \<and>
     af_offset filters = af_offset defaults \<and>
     af_attacker filters = af_attacker defaults \<and>
     af_victim filters = af_victim defaults \<and>
     af_service filters = af_service defaults \<and>
     af_tickFrom filters = af_tickFrom defaults \<and>
     af_tickTo filters = af_tickTo defaults"

text \<open>
  The offset arithmetic of a page turn. It stands once in \<open>computePageOffset\<close> and is repeated in
  \<open>pageCheckerRuns\<close> and \<open>pageSchedulerEvents\<close> of \<open>use-organizer-dashboard.ts\<close>; the sum is a
  double.
\<close>

definition next_page_offset :: "string \<Rightarrow> string \<Rightarrow> direction \<Rightarrow> int \<Rightarrow> int \<Rightarrow> string" where
  "next_page_offset limitStr offsetStr dir defaultLimit maxLimit = (
     let limit = coalesce (parsePositiveInteger (Some limitStr) (Some defaultLimit) maxLimit) defaultLimit;
         currentOffset = coalesce (parseNonNegativeInteger (Some offsetStr)) 0;
         nextOffset = (case dir of
            Prev \<Rightarrow> to_double (of_int (max 0 (currentOffset - limit)))
          | Next \<Rightarrow> to_double (of_int (currentOffset + limit)))
     in num_to_string nextOffset)"

definition computePageOffset :: "AttackFilters \<Rightarrow> direction \<Rightarrow> int \<Rightarrow> int \<Rightarrow> AttackFilters" where
  "computePageOffset filters dir defaultLimit maxLimit =
     filters\<lparr>af_offset :=
       next_page_offset (af_limit filters) (af_offset filters) dir defaultLimit maxLimit\<rparr>"

text \<open>\<open>buildAttackFilterOptions\<close>: a \<open>Set\<close> keeps first insertions in order; \<open>lc a b\<close> stands for
  \<open>a.localeCompare(b)\<close>, the collation of the host's locale.\<close>

fun add_values :: "string list \<Rightarrow> string list \<Rightarrow> string list" where
  "add_values values [] = values"
| "add_values values (candidate # cs) =
     (let trimmed_c = trim candidate in
      add_values (if trimmed_c = [] \<or> trimmed_c \<in> set values then values else values @ [trimmed_c]) cs)"

definition buildAttackFilterOptions ::
  "(string \<Rightarrow> string \<Rightarrow> int) \<Rightarrow> string list \<Rightarrow> string \<Rightarrow> string list" where
  "buildAttackFilterOptions lc candidates current =
     sort_cmp (\<lambda>a b. lc a b \<le> 0) (add_values (add_values [] candidates) [current])"

section \<open>Merging a streamed page\<close>

definition collectNewAttackIDs :: "AttackFeedPage \<Rightarrow> AttackFeedPage \<Rightarrow> string list" where
  "collectNewAttackIDs currentPage nextPage = (
     let currentIDs = set (map ae_id (items currentPage)) in
     take 4 (map ae_id (filter (\<lambda>item. ae_id item \<notin> currentIDs) (items nextPage))))"

fun merge_items :: "int \<Rightarrow> AttackEvent list \<Rightarrow> string set \<Rightarrow> AttackEvent list \<Rightarrow> AttackEvent list" where
  "merge_items limit merged seenIDs [] = merged"
| "merge_items limit merged seenIDs (item # rest) =
     (if ae_id item \<in> seenIDs then merge_items limit merged seenIDs rest
      else (let merged' = merged @ [item] in
            if int (length merged') \<ge> limit then merged'
            else merge_items limit merged' (insert (ae_id item) seenIDs) rest))"

definition mergeRealtimeAttackPage ::
  "AttackFeedPage \<Rightarrow> AttackFeedPage \<Rightarrow> string \<Rightarrow> AttackFeedPage" where
  "mergeRealtimeAttackPage currentPage streamedPage requestedLimit = (
     let limit = coalesce (parsePositiveInteger (Some requestedLimit) (Some (pg_limit streamedPage)) 0)
                   (pg_limit streamedPage) in
     if limit \<le> pg_limit streamedPage then streamedPage
     else (let mergedItems = merge_items limit (items streamedPage)
                 (set (map ae_id (items streamedPage))) (items currentPage) in
       streamedPage\<lparr>items := mergedItems, pg_limit := limit,
         has_next := total_count streamedPage > int (length mergedItems)\<rparr>))"

text \<open>
  What the \<open>onmessage\<close> handler does with one event: nothing when the feed is not live or the frame
  does not parse, otherwise \<open>setPage\<close> with the merged page and, when there are new identifiers,
  \<open>scheduleHighlights\<close>.
\<close>

datatype feed_effect = NoEffect | SetPage AttackFeedPage "string list option"

definition handleRealtimeAttackMessage ::
  "bool \<Rightarrow> AttackFeedPage \<Rightarrow> string \<Rightarrow> AttackFeedPage option \<Rightarrow> feed_effect" where
  "handleRealtimeAttackMessage isLive currentPage limitStr parsedData = (
     if \<not> isLive then NoEffect
     else (case parsedData of
       None \<Rightarrow> NoEffect
     | Some nextPage \<Rightarrow>
        (let mergedPage = mergeRealtimeAttackPage currentPage nextPage limitStr;
             nextHighlights = collectNewAttackIDs currentPage mergedPage in
         SetPage mergedPage (if length nextHighlights > 0 then Some nextHighlights else None))))"

section \<open>The highlight timer\<close>

text \<open>
  The hook's state: the highlighted identifiers, the ref that holds the pending timer, and the
  timers the browser will still fire; \<open>timer_seq\<close> numbers the timers \<open>setTimeout\<close> hands out.
\<close>

record highlight_state =
  highlightedAttackIDs :: "string list"
  timeoutRef :: "nat option"
  armed :: "nat set"
  timer_seq :: nat

definition initial_highlights :: highlight_state where
  "initial_highlights =
     \<lparr> highlightedAttackIDs = [], timeoutRef = None, armed = {}, timer_seq = 0 \<rparr>"

definition clear_ref_timer :: "highlight_state \<Rightarrow> highlight_state" where
  "clear_ref_timer st = (case timeoutRef st of
     None \<Rightarrow> st | Some t \<Rightarrow> st\<lparr>armed := armed st - {t}\<rparr>)"

definition scheduleAttackHighlights :: "string list \<Rightarrow> highlight_state \<Rightarrow> highlight_state" where
  "scheduleAttackHighlights ids st = (let s1 = clear_ref_timer st; t = timer_seq s1 in
     s1\<lparr>highlightedAttackIDs := ids, timeoutRef := Some t,
        armed := insert t (armed s1), timer_seq := Suc t\<rparr>)"

definition clearAttackHighlights :: "highlight_state \<Rightarrow> highlight_state" where
  "clearAttackHighlights st = (case timeoutRef st of
     None \<Rightarrow> st\<lparr>highlightedAttackIDs := []\<rparr>
   | Some t \<Rightarrow> (clear_ref_timer st)\<lparr>timeoutRef := None, highlightedAttackIDs := []\<rparr>)"

definition fire_timer :: "nat \<Rightarrow> highlight_state \<Rightarrow> highlight_state" where
  "fire_timer t st = st\<lparr>highlightedAttackIDs := [], timeoutRef := None, armed := armed st - {t}\<rparr>"

definition unmount_highlights :: "highlight_state \<Rightarrow> highlight_state" where
  "unmount_highlights st = clear_ref_timer st"

inductive highlight_step :: "highlight_state \<Rightarrow> highlight_state \<Rightarrow> bool" where
  schedule: "highlight_step st (scheduleAttackHighlights ids st)"
| clear: "highlight_step st (clearAttackHighlights st)"
| fire: "t \<in> armed st \<Longrightarrow> highlight_step st (fire_timer t st)"

inductive highlight_reachable :: "highlight_state \<Rightarrow> bool" where
  initial: "highlight_reachable initial_highlights"
| step: "highlight_reachable st \<Longrightarrow> highlight_step st st' \<Longrightarrow> highlight_reachable st'"

inductive_cases highlight_stepE: "highlight_step st st'"

section \<open>Lemmas on parsing\<close>

lemma parsePositiveInteger_range:
  assumes "0 < d" and "d \<le> mx"
  shows "\<exists>n. parsePositiveInteger raw (Some d) mx = Some n \<and> 1 \<le> n \<and> n \<le> mx"
proof (cases "parsePositiveInteger raw (Some d) mx = Some d \<or> parsePositiveInteger raw (Some d) mx = Some mx")
  case False
  then obtain s q where s: "raw = Some s" "parseInt s = Finite q" "0 < q" "q \<le> of_int mx"
    and v: "parsePositiveInteger raw (Some d) mx = Some \<lfloor>q\<rfloor>"
    using assms
    by (auto simp: parsePositiveInteger_def split: option.splits if_splits js_num.splits)
  have "of_int \<lfloor>q\<rfloor> = q" using parseInt_integral [OF s(2)] by (simp add: Ints_floor_iff)
  then have "1 \<le> \<lfloor>q\<rfloor>" using s(3) by (metis int_one_le_iff_zero_less of_int_0_less_iff)
  moreover have "\<lfloor>q\<rfloor> \<le> mx" using s(4) by linarith
  ultimately show ?thesis using v by auto
qed (use assms in auto)

lemma parseNonNegativeInteger_nonneg: "parseNonNegativeInteger raw = Some n \<Longrightarrow> 0 \<le> n"
  by (auto simp: parseNonNegativeInteger_def split: option.splits if_splits js_num.splits)

lemma parseNonNegativeInteger_int_to_string:
  "0 \<le> n \<Longrightarrow> n \<le> 2 ^ 53 \<Longrightarrow> parseNonNegativeInteger (Some (int_to_string n)) = Some n"
  using parseInt_int_to_string [of n] by (simp add: parseNonNegativeInteger_def)

lemma parseTextFilter_Some: "parseTextFilter raw = Some t \<Longrightarrow> t \<noteq> [] \<and> trimmed t"
  by (auto simp: parseTextFilter_def Let_def split: option.splits if_splits)

text \<open>
  Whatever the query string holds, the attack-feed query that reaches the upstream has a limit
  between 1 and 200, offsets and tick bounds that are absent or non-negative, and text filters that
  are absent or non-empty without surrounding white space.
\<close>

lemma parseAttackFeedQuery_bounds:
  "let q = parseAttackFeedQuery searchParams 12 200 in
   (\<exists>n. aq_limit q = Some n \<and> 1 \<le> n \<and> n \<le> 200) \<and>
   pred_option (\<lambda>n. 0 \<le> n) (aq_offset q) \<and>
   pred_option (\<lambda>n. 0 \<le> n) (aq_tick_from q) \<and>
   pred_option (\<lambda>n. 0 \<le> n) (aq_tick_to q) \<and>
   pred_option (\<lambda>t. t \<noteq> [] \<and> trimmed t) (aq_attacker q) \<and>
   pred_option (\<lambda>t. t \<noteq> [] \<and> trimmed t) (aq_victim q) \<and>
   pred_option (\<lambda>t. t \<noteq> [] \<and> trimmed t) (aq_service q)"
proof -
  have nn: "pred_option (\<lambda>n. 0 \<le> n) (parseNonNegativeInteger r)" for r
    using parseNonNegativeInteger_nonneg [of r] by (cases "parseNonNegativeInteger r") auto
  have tx: "pred_option (\<lambda>t. t \<noteq> [] \<and> trimmed t) (parseTextFilter r)" for r
    using parseTextFilter_Some [of r] by (cases "parseTextFilter r") auto
  show ?thesis
    using parsePositiveInteger_range [of 12 200 "searchParams ''limit''"]
    by (simp add: parseAttackFeedQuery_def Let_def nn tx)
qed

section \<open>Paging\<close>

text \<open>
  The contract every paged list of the dashboards follows: its filters carry a limit and an offset
  as text, and turning the page rewrites the offset with \<open>next_page_offset\<close>.
\<close>

locale paged_filters =
  fixes limit_of :: "'f \<Rightarrow> string" and offset_of :: "'f \<Rightarrow> string"
    and with_offset :: "string \<Rightarrow> 'f \<Rightarrow> 'f" and page :: "'f \<Rightarrow> direction \<Rightarrow> 'f"
    and dl :: int and mx :: int
  assumes page_def: "page f d = with_offset (next_page_offset (limit_of f) (offset_of f) d dl mx) f"
    and offset_with [simp]: "offset_of (with_offset s f) = s"
    and limit_with [simp]: "limit_of (with_offset s f) = limit_of f"
    and with_with [simp]: "with_offset s (with_offset t f) = with_offset s f"
    and dl_pos: "0 < dl" and dl_le: "dl \<le> mx" and mx_le: "mx \<le> 2 ^ 52"
begin

lemma limit_value:
  "\<exists>n. parsePositiveInteger (Some (limit_of f)) (Some dl) mx = Some n \<and> 1 \<le> n \<and> n \<le> mx"
  using parsePositiveInteger_range [OF dl_pos dl_le] .

lemma page_next:
  assumes "parsePositiveInteger (Some (limit_of f)) (Some dl) mx = Some n"
    and "coalesce (parseNonNegativeInteger (Some (offset_of f))) 0 = k"
    and "0 \<le> k" and "k + n \<le> 2 ^ 53" and "0 < n"
  shows "page f Next = with_offset (int_to_string (k + n)) f"
proof -
  have "to_double (of_int (k + n)) = Finite (of_int (k + n))"
    using assms by (intro to_double_of_int) auto
  then show ?thesis
    using assms num_to_string_int [of "k + n"] by (simp add: page_def next_page_offset_def)
qed

lemma page_prev:
  assumes "parsePositiveInteger (Some (limit_of f)) (Some dl) mx = Some n"
    and "coalesce (parseNonNegativeInteger (Some (offset_of f))) 0 = k"
    and "0 \<le> k" and "k \<le> 2 ^ 53" and "0 < n"
  shows "page f Prev = with_offset (int_to_string (max 0 (k - n))) f"
proof -
  have "to_double (of_int (max 0 (k - n))) = Finite (of_int (max 0 (k - n)))"
    using assms by (intro to_double_of_int) auto
  then show ?thesis
    using assms num_to_string_int [of "max 0 (k - n)"] by (simp add: page_def next_page_offset_def)
qed

text \<open>Going forward and back returns to the same rows, with the offset in canonical form.\<close>

lemma page_next_prev:
  assumes k: "coalesce (parseNonNegativeInteger (Some (offset_of f))) 0 = k" and le: "k \<le> 2 ^ 52"
  shows "page (page f Next) Prev = with_offset (int_to_string k) f"
proof -
  obtain n where n: "parsePositiveInteger (Some (limit_of f)) (Some dl) mx = Some n"
    and pos: "1 \<le> n" and nle: "n \<le> mx"
    using limit_value by blast
  have k0: "0 \<le> k"
    using k parseNonNegativeInteger_nonneg
    by (cases "parseNonNegativeInteger (Some (offset_of f))") auto
  have sum: "k + n \<le> 2 ^ 53" using le nle mx_le by simp
  have nxt: "page f Next = with_offset (int_to_string (k + n)) f"
    using page_next [OF n k k0 sum] pos by simp
  have "page (page f Next) Prev = with_offset (int_to_string (max 0 (k + n - n))) (page f Next)"
    using page_prev [of "page f Next" n "k + n"] n nxt k0 sum pos
      parseNonNegativeInteger_int_to_string [of "k + n"] by simp
  then show ?thesis using k0 nxt by simp
qed

end

interpretation attack_pages: paged_filters af_limit af_offset
  "\<lambda>s f. f\<lparr>af_offset := s\<rparr>" "\<lambda>f d. computePageOffset f d 12 200" 12 200
  by unfold_locales (simp_all add: computePageOffset_def)

text \<open>
  Turning to the next page and back shows the same rows again: the filters differ from the
  original ones at most in that the offset is written in canonical decimal form.
\<close>

lemma computePageOffset_next_prev:
  assumes "coalesce (parseNonNegativeInteger (Some (af_offset filters))) 0 = k" and "k \<le> 2 ^ 52"
  shows "computePageOffset (computePageOffset filters Next 12 200) Prev 12 200
           = filters\<lparr>af_offset := int_to_string k\<rparr>"
  using attack_pages.page_next_prev [OF assms] .

lemma computePageOffset_next_prev_witness:
  "let f = \<lparr>af_limit = ''50'', af_offset = ''100'', af_attacker = ''red'', af_victim = [],
            af_service = [], af_tickFrom = [], af_tickTo = []\<rparr> in
   coalesce (parseNonNegativeInteger (Some (af_offset f))) 0 = 100 \<and>
   computePageOffset (computePageOffset f Next 12 200) Prev 12 200 = f"
proof -
  let ?f = "\<lparr>af_limit = ''50'', af_offset = ''100'', af_attacker = ''red'', af_victim = [],
            af_service = [], af_tickFrom = [], af_tickTo = []\<rparr>"
  have s: "int_to_string 100 = ''100''" by code_simp
  have k: "coalesce (parseNonNegativeInteger (Some (af_offset ?f))) 0 = 100"
    using parseNonNegativeInteger_int_to_string [of 100] s by simp
  show ?thesis using k computePageOffset_next_prev [OF k] s by simp
qed

section \<open>Lemmas on merging\<close>

lemma merge_items_extends:
  "\<exists>ext. merge_items limit merged seen cur = merged @ ext \<and> subseq ext cur \<and>
     (\<forall>x \<in> set ext. ae_id x \<notin> seen)"
proof (induction cur arbitrary: merged seen)
  case (Cons x xs)
  show ?case
  proof (cases "ae_id x \<in> seen")
    case True
    with Cons.IH [of merged seen] show ?thesis by auto
  next
    case False
    obtain ext where "merge_items limit (merged @ [x]) (insert (ae_id x) seen) xs = (merged @ [x]) @ ext"
      "subseq ext xs" "\<forall>y \<in> set ext. ae_id y \<notin> insert (ae_id x) seen"
      using Cons.IH by blast
    with False show ?thesis
      by (intro exI [of _ "if limit \<le> int (length merged) + 1 then [x] else x # ext"])
        (auto simp: Let_def)
  qed
qed simp

lemma merge_items_distinct:
  assumes "distinct (map ae_id merged)" and "set (map ae_id merged) \<subseteq> seen"
  shows "distinct (map ae_id (merge_items limit merged seen cur))"
  using assms
proof (induction cur arbitrary: merged seen)
  case (Cons x xs)
  show ?case
  proof (cases "ae_id x \<in> seen")
    case False
    then have "ae_id x \<notin> set (map ae_id merged)" using Cons.prems(2) by blast
    then have "distinct (map ae_id (merged @ [x]))" using Cons.prems(1) by auto
    moreover have "set (map ae_id (merged @ [x])) \<subseteq> insert (ae_id x) seen" using Cons.prems(2) by auto
    ultimately show ?thesis using False Cons.IH by (simp add: Let_def)
  qed (use Cons in simp)
qed simp

lemma merge_items_length:
  "int (length merged) < limit \<Longrightarrow> int (length (merge_items limit merged seen cur)) \<le> limit"
  by (induction cur arbitrary: merged seen) (auto simp: Let_def)

text \<open>Nothing of the current page is lost while there is room.\<close>

lemma merge_items_complete:
  assumes "int (length (merge_items limit merged seen cur)) < limit"
    and "seen = set (map ae_id merged)" and "x \<in> set cur"
  shows "ae_id x \<in> set (map ae_id (merge_items limit merged seen cur))"
  using assms
proof (induction cur arbitrary: merged seen)
  case (Cons y ys)
  show ?case
  proof (cases "ae_id y \<in> seen")
    case True
    moreover have "ae_id y \<in> set (map ae_id (merge_items limit merged seen ys))"
      using True Cons.prems(2) merge_items_extends [of limit merged seen ys] by auto
    ultimately show ?thesis using Cons by auto
  next
    case False
    then have room: "\<not> limit \<le> int (length (merged @ [y]))"
      using Cons.prems(1) by (auto simp: Let_def split: if_splits)
    let ?r = "merge_items limit (merged @ [y]) (insert (ae_id y) seen) ys"
    have eq: "merge_items limit merged seen (y # ys) = ?r" using False room by (simp add: Let_def)
    have "ae_id y \<in> set (map ae_id ?r)"
      using merge_items_extends [of limit "merged @ [y]" "insert (ae_id y) seen" ys] by auto
    moreover have "x \<in> set ys \<Longrightarrow> ae_id x \<in> set (map ae_id ?r)"
      using Cons.IH [of "merged @ [y]" "insert (ae_id y) seen"] Cons.prems eq by auto
    ultimately show ?thesis using Cons.prems(3) eq by auto
  qed
qed simp

lemma mergeRealtimeAttackPage_facts:
  fixes current streamed requestedLimit
  assumes "distinct (map ae_id (items streamed))"
    and "int (length (items streamed)) \<le> pg_limit streamed"
  defines "m \<equiv> mergeRealtimeAttackPage current streamed requestedLimit"
  shows "distinct (map ae_id (items m))"
    and "\<exists>ext. items m = items streamed @ ext \<and> subseq ext (items current)"
    and "int (length (items m)) \<le> pg_limit m"
    and "pg_limit streamed \<le> pg_limit m"
    and "pg_limit streamed < pg_limit m \<longrightarrow> int (length (items m)) < pg_limit m \<longrightarrow>
           set (map ae_id (items current)) \<subseteq> set (map ae_id (items m))"
proof -
  define limit where "limit = coalesce
    (parsePositiveInteger (Some requestedLimit) (Some (pg_limit streamed)) 0) (pg_limit streamed)"
  define merged where "merged = merge_items limit (items streamed)
    (set (map ae_id (items streamed))) (items current)"
  have m: "m = (if limit \<le> pg_limit streamed then streamed
     else streamed\<lparr>items := merged, pg_limit := limit, has_next := total_count streamed > int (length merged)\<rparr>)"
    by (simp add: m_def mergeRealtimeAttackPage_def limit_def merged_def Let_def)
  show "distinct (map ae_id (items m))"
    using assms(1) merge_items_distinct [OF assms(1) order_refl] by (simp add: m merged_def)
  show "\<exists>ext. items m = items streamed @ ext \<and> subseq ext (items current)"
    using merge_items_extends [of limit "items streamed"] by (simp add: m merged_def) blast
  show "int (length (items m)) \<le> pg_limit m"
    using assms(2) merge_items_length [of "items streamed" limit] by (simp add: m merged_def)
  show "pg_limit streamed \<le> pg_limit m" by (simp add: m)
  show "pg_limit streamed < pg_limit m \<longrightarrow> int (length (items m)) < pg_limit m \<longrightarrow>
           set (map ae_id (items current)) \<subseteq> set (map ae_id (items m))"
    using merge_items_complete [of limit "items streamed"] by (auto simp: m merged_def)
qed

text \<open>
  C26. Merging a streamed page, itself without repeated identifiers and no longer than its own limit,
  into the page on screen keeps the streamed rows first and in order,
  adds only rows of the current page, never shows an identifier twice, never exceeds the page
  limit, and drops a row of the current page only when the limit is reached.
\<close>

theorem mergeRealtimeAttackPage_correct:
  assumes "distinct (map ae_id (items streamed))"
    and "int (length (items streamed)) \<le> pg_limit streamed"
  shows "let m = mergeRealtimeAttackPage current streamed requestedLimit in
     distinct (map ae_id (items m)) \<and>
     (\<exists>ext. items m = items streamed @ ext \<and> subseq ext (items current)) \<and>
     int (length (items m)) \<le> pg_limit m \<and>
     (pg_limit streamed < pg_limit m \<longrightarrow> int (length (items m)) < pg_limit m \<longrightarrow>
        set (map ae_id (items current)) \<subseteq> set (map ae_id (items m)))"
  unfolding Let_def
  using mergeRealtimeAttackPage_facts [OF assms, of current requestedLimit] by blast

definition sample_event :: "string \<Rightarrow> AttackEvent" where
  "sample_event i = \<lparr>ae_id = i, ae_attacker = ''red'', ae_victim = ''blue'', ae_service = ''web'',
     ae_tick = 3, ae_verdict = ''accepted''\<rparr>"

definition sample_page :: "int \<Rightarrow> string list \<Rightarrow> AttackFeedPage" where
  "sample_page l ids = \<lparr>items = map sample_event ids, pg_limit = l, pg_offset = 0,
     total_count = 9, has_prev = False, has_next = True\<rparr>"

lemma items_sample_page [simp]:
  "items (sample_page l ids) = map sample_event ids" "pg_limit (sample_page l ids) = l"
  by (simp_all add: sample_page_def)

lemma ae_id_sample_event [simp]: "ae_id (sample_event i) = i"
  by (simp add: sample_event_def)

theorem mergeRealtimeAttackPage_correct_witness:
  "let s = sample_page 2 [''e5'', ''e4'']; c = sample_page 4 [''e4'', ''e3'', ''e2'']; m = mergeRealtimeAttackPage c s ''4'' in
   distinct (map ae_id (items m)) \<and> int (length (items m)) \<le> pg_limit m"
  using mergeRealtimeAttackPage_correct
    [of "sample_page 2 [''e5'', ''e4'']" "sample_page 4 [''e4'', ''e3'', ''e2'']" "''4''"]
  by (simp add: Let_def)

text \<open>
  The identifiers that get highlighted are exactly the first four rows the stream brings that
  the page on screen did not have; rows carried over from the screen are never highlighted.
\<close>

lemma collectNewAttackIDs_merged:
  "collectNewAttackIDs current (mergeRealtimeAttackPage current streamed requestedLimit)
     = take 4 (map ae_id (filter (\<lambda>e. ae_id e \<notin> set (map ae_id (items current))) (items streamed)))"
proof -
  obtain ext where
    ext: "items (mergeRealtimeAttackPage current streamed requestedLimit) = items streamed @ ext"
      "subseq ext (items current)"
  proof -
    have "\<exists>ext. items (mergeRealtimeAttackPage current streamed requestedLimit) = items streamed @ ext \<and>
        subseq ext (items current)"
      using merge_items_extends by (simp add: mergeRealtimeAttackPage_def Let_def) blast
    with that show ?thesis by blast
  qed
  have "filter (\<lambda>e. ae_id e \<notin> set (map ae_id (items current))) ext = []"
    using list_emb_set [OF ext(2)] by (force simp: filter_empty_conv)
  then show ?thesis by (simp add: collectNewAttackIDs_def Let_def ext(1))
qed

section \<open>The highlight timer is never leaked\<close>

definition highlight_inv :: "highlight_state \<Rightarrow> bool" where
  "highlight_inv st \<longleftrightarrow>
     armed st = set_option (timeoutRef st) \<and>
     (highlightedAttackIDs st \<noteq> [] \<longrightarrow> timeoutRef st \<noteq> None) \<and>
     (\<forall>t \<in> armed st. t < timer_seq st)"

lemma highlight_step_inv: "highlight_step st st' \<Longrightarrow> highlight_inv st \<Longrightarrow> highlight_inv st'"
  by (erule highlight_stepE)
    (auto simp: highlight_inv_def scheduleAttackHighlights_def clearAttackHighlights_def
      clear_ref_timer_def fire_timer_def Let_def split: option.splits)

lemma highlight_reachable_inv: "highlight_reachable st \<Longrightarrow> highlight_inv st"
proof (induction rule: highlight_reachable.induct)
  case initial
  show ?case by (simp add: highlight_inv_def initial_highlights_def)
qed (rule highlight_step_inv)

text \<open>
  In every state the highlight hook can reach, the browser holds exactly the timer the ref
  records and no other, highlighted rows always have a timer that will clear them, and unmounting
  leaves no timer behind.
\<close>

lemma highlight_timer_invariant:
  assumes "highlight_reachable st"
  shows "armed st = set_option (timeoutRef st) \<and>
     (highlightedAttackIDs st \<noteq> [] \<longrightarrow> (\<exists>t \<in> armed st. highlightedAttackIDs (fire_timer t st) = [])) \<and>
     armed (unmount_highlights st) = {}"
proof -
  have "highlight_inv st" using assms by (rule highlight_reachable_inv)
  then show ?thesis
    by (auto simp: highlight_inv_def unmount_highlights_def clear_ref_timer_def fire_timer_def
        split: option.splits)
qed

lemma highlight_timer_invariant_witness:
  "let st = scheduleAttackHighlights [''e9''] initial_highlights in
   highlightedAttackIDs st = [''e9''] \<and> armed st = {0} \<and> armed (unmount_highlights st) = {}"
proof -
  have "highlight_reachable (scheduleAttackHighlights [''e9''] initial_highlights)"
    by (intro highlight_reachable.step [OF highlight_reachable.initial] highlight_step.schedule)
  from highlight_timer_invariant [OF this] show ?thesis
    by (simp add: scheduleAttackHighlights_def initial_highlights_def clear_ref_timer_def Let_def)
qed

section \<open>Filter options\<close>

lemma set_add_values: "set (add_values vs cs) = set vs \<union> (trim ` set cs - {[]})"
  by (induction cs arbitrary: vs) (auto simp: Let_def)

lemma distinct_add_values: "distinct vs \<Longrightarrow> distinct (add_values vs cs)"
  by (induction cs arbitrary: vs) (auto simp: Let_def)

text \<open>
  The options of a filter drop-down are the trimmed non-empty candidates together with the
  current filter value (so a deep-linked filter stays selectable), each once, in collation order.
  The hypothesis is the documented contract of \<open>localeCompare\<close>: a consistent comparison.
\<close>

lemma buildAttackFilterOptions_correct:
  assumes "collation lc"
  shows "let opts = buildAttackFilterOptions lc candidates current in
     set opts = trim ` (insert current (set candidates)) - {[]} \<and> distinct opts \<and>
     sorted_wrt (\<lambda>a b. lc a b \<le> 0) opts"
  using total_preorder.sorted_sort_cmp [OF collation.axioms [OF assms]]
  by (auto simp: buildAttackFilterOptions_def set_add_values distinct_add_values Let_def
      simp del: add_values.simps)

lemma buildAttackFilterOptions_correct_witness:
  "set (buildAttackFilterOptions ordinal_compare ['' gamma'', ''pi'', ''pi ''] ''rho'')
     = trim ` (insert ''rho'' (set ['' gamma'', ''pi'', ''pi ''])) - {[]} \<and>
   sorted_wrt (\<lambda>a b. ordinal_compare a b \<le> 0)
     (buildAttackFilterOptions ordinal_compare ['' gamma'', ''pi'', ''pi ''] ''rho'')"
  using buildAttackFilterOptions_correct
    [OF ordinal.collation_axioms, of "['' gamma'', ''pi'', ''pi '']" "''rho''"]
  by (simp only: Let_def)

end
