(* ===== verification/Scoring_Leaders.thy ===== *)
theory Scoring_Leaders
  imports Js_Prelude
begin

text \<open>
  The award-candidate leaders of \<open>lib/scoring-leaders.ts\<close>: the three scoring categories of the
  scoreboard, each sorted from high to low with ties broken by team name, cut to the top \<open>N\<close>.
  Scores are finite doubles, represented exactly as rationals; \<open>lc a b\<close> stands for
  \<open>a.localeCompare(b)\<close>, the collation of the host's locale.
\<close>

record AdminGameScoreServiceRow =
  ss_challenge_id :: int
  ss_service :: string
  ss_attack :: rat
  ss_defense :: rat
  ss_sla :: rat
  ss_total :: rat

record AdminGameScoreRow =
  sr_rank :: int
  sr_team :: string
  sr_attack :: rat
  sr_defense :: rat
  sr_sla :: rat
  sr_total :: rat
  sr_delta :: string
  sr_services :: "AdminGameScoreServiceRow list option"

record CategoryLeader =
  cl_team :: string
  cl_score :: rat
  cl_rank :: int

record CategoryLeadersSummary =
  attacker :: "CategoryLeader list"
  defender :: "CategoryLeader list"
  availability :: "CategoryLeader list"

definition DEFAULT_TOP_N :: int where
  "DEFAULT_TOP_N = 3"

text \<open>The comparator: negative or zero means that \<open>a\<close> may stand before \<open>b\<close>.\<close>

definition leader_compare ::
  "(string \<Rightarrow> string \<Rightarrow> int) \<Rightarrow> (AdminGameScoreRow \<Rightarrow> rat) \<Rightarrow> AdminGameScoreRow \<Rightarrow> AdminGameScoreRow \<Rightarrow> rat" where
  "leader_compare lc select a b = (let diff = select b - select a in
     if diff \<noteq> 0 then diff else of_int (lc (sr_team a) (sr_team b)))"

definition pick ::
  "(string \<Rightarrow> string \<Rightarrow> int) \<Rightarrow> AdminGameScoreRow list \<Rightarrow> int \<Rightarrow> (AdminGameScoreRow \<Rightarrow> rat) \<Rightarrow> CategoryLeader list" where
  "pick lc scoreRows limit select = (
     let sorted = sort_cmp (\<lambda>a b. leader_compare lc select a b \<le> 0) scoreRows in
     map (\<lambda>(index, row). \<lparr>cl_team = sr_team row, cl_score = select row, cl_rank = int index + 1\<rparr>)
       (enumerate 0 (take (nat limit) sorted)))"

definition computeCategoryLeaders ::
  "(string \<Rightarrow> string \<Rightarrow> int) \<Rightarrow> AdminGameScoreRow list \<Rightarrow> int \<Rightarrow> CategoryLeadersSummary" where
  "computeCategoryLeaders lc scoreRows topN = (let limit = max 0 topN in
     \<lparr> attacker = pick lc scoreRows limit sr_attack,
       defender = pick lc scoreRows limit sr_defense,
       availability = pick lc scoreRows limit sr_sla \<rparr>)"

section \<open>The comparator is consistent\<close>

text \<open>
  The contract the sort relies on follows from the contract of the collation: the comparator of a
  category is a total preorder whenever \<open>localeCompare\<close> is.
\<close>

context collation
begin

lemma leader_compare_total:
  "leader_compare lc select a b \<le> 0 \<or> leader_compare lc select b a \<le> 0"
  using names.le_total by (auto simp: leader_compare_def Let_def)

lemma leader_compare_trans:
  "leader_compare lc select a b \<le> 0 \<Longrightarrow> leader_compare lc select b c \<le> 0 \<Longrightarrow>
   leader_compare lc select a c \<le> 0"
  using names.le_trans by (auto simp: leader_compare_def Let_def split: if_splits)

end

sublocale collation \<subseteq> leaders: total_preorder "\<lambda>a b. leader_compare lc select a b \<le> 0" for select
  by unfold_locales (rule leader_compare_total, rule leader_compare_trans)

context collation
begin

lemmas leaders_sorted = leaders.sorted_sort_cmp
lemmas leaders_dominate = leaders.take_sort_cmp_dominates

end

lemma leader_compare_score: "leader_compare lc select a b \<le> 0 \<Longrightarrow> select b \<le> select a"
  by (auto simp: leader_compare_def Let_def split: if_splits)

section \<open>What a category holds\<close>

lemma pick_nth:
  assumes "i < length (pick lc rows limit select)"
  shows "pick lc rows limit select ! i =
     (let row = sort_cmp (\<lambda>a b. leader_compare lc select a b \<le> 0) rows ! i in
      \<lparr>cl_team = sr_team row, cl_score = select row, cl_rank = int i + 1\<rparr>)"
  using assms by (simp add: pick_def Let_def nth_enumerate_eq)

lemma length_pick [simp]: "length (pick lc rows limit select) = min (nat limit) (length rows)"
  by (simp add: pick_def Let_def)

lemma pick_ranks: "map cl_rank (pick lc rows limit select) = map (\<lambda>i. int i + 1) [0..<min (nat limit) (length rows)]"
  by (rule nth_equalityI) (simp_all add: pick_nth Let_def)

lemma pick_teams:
  "map (\<lambda>l. (cl_team l, cl_score l)) (pick lc rows limit select)
     = map (\<lambda>r. (sr_team r, select r)) (take (nat limit) (sort_cmp (\<lambda>a b. leader_compare lc select a b \<le> 0) rows))"
  by (rule nth_equalityI) (simp_all add: pick_nth Let_def)

lemma pick_selects_top:
  assumes "collation lc"
  shows "\<exists>chosen rest.
     mset (chosen @ rest) = mset rows \<and>
     map (\<lambda>l. (cl_team l, cl_score l)) (pick lc rows limit select) = map (\<lambda>r. (sr_team r, select r)) chosen \<and>
     length chosen = min (nat limit) (length rows) \<and>
     map cl_rank (pick lc rows limit select) = map (\<lambda>i. int i + 1) [0..<length chosen] \<and>
     sorted_wrt (\<lambda>a b. leader_compare lc select a b \<le> 0) chosen \<and>
     (\<forall>a \<in> set chosen. \<forall>b \<in> set rest. leader_compare lc select a b \<le> 0 \<and> select b \<le> select a)"
proof -
  define le where "le = (\<lambda>a b. leader_compare lc select a b \<le> 0)"
  define s where "s = sort_cmp le rows"
  have sorted: "sorted_wrt le (take (nat limit) s)"
    unfolding s_def le_def by (rule sorted_wrt_take) (rule collation.leaders_sorted [OF assms])
  have dom: "le a b \<and> select b \<le> select a"
    if "a \<in> set (take (nat limit) s)" "b \<in> set (drop (nat limit) s)" for a b
  proof -
    have "leader_compare lc select a b \<le> 0"
      using that unfolding s_def le_def by (rule collation.leaders_dominate [OF assms])
    with leader_compare_score [OF this] show ?thesis by (simp add: le_def)
  qed
  have "mset (take (nat limit) s @ drop (nat limit) s) = mset rows"
    by (simp only: append_take_drop_id s_def mset_sort_cmp)
  moreover have "map (\<lambda>l. (cl_team l, cl_score l)) (pick lc rows limit select)
      = map (\<lambda>r. (sr_team r, select r)) (take (nat limit) s)"
    by (simp add: pick_teams s_def le_def)
  moreover have "length (take (nat limit) s) = min (nat limit) (length rows)"
    by (simp add: s_def min.commute)
  ultimately show ?thesis
    using sorted dom pick_ranks [of lc rows limit select] unfolding le_def
    by (intro exI [of _ "take (nat limit) s"] exI [of _ "drop (nat limit) s"]) simp
qed

text \<open>
  Each award category lists the \<open>min N\<close> best rows of the scoreboard: ranks run \<open>1, 2, ...\<close>,
  the listed rows and the rows left out together are the scoreboard, and every listed row precedes
  every row left out in the order "higher score first, ties by team name".
\<close>

lemma computeCategoryLeaders_top:
  assumes "collation lc"
    and "(leaders, select) \<in> {(attacker (computeCategoryLeaders lc rows topN), sr_attack),
           (defender (computeCategoryLeaders lc rows topN), sr_defense),
           (availability (computeCategoryLeaders lc rows topN), sr_sla)}"
  shows "\<exists>chosen rest.
     mset (chosen @ rest) = mset rows \<and>
     map (\<lambda>l. (cl_team l, cl_score l)) leaders = map (\<lambda>r. (sr_team r, select r)) chosen \<and>
     length chosen = min (nat (max 0 topN)) (length rows) \<and>
     map cl_rank leaders = map (\<lambda>i. int i + 1) [0..<length chosen] \<and>
     sorted_wrt (\<lambda>a b. leader_compare lc select a b \<le> 0) chosen \<and>
     (\<forall>a \<in> set chosen. \<forall>b \<in> set rest. leader_compare lc select a b \<le> 0 \<and> select b \<le> select a)"
proof -
  have "leaders = pick lc rows (max 0 topN) select"
    using assms(2) by (auto simp: computeCategoryLeaders_def Let_def)
  then show ?thesis using pick_selects_top [OF assms(1)] by simp
qed

definition sample_row :: "string \<Rightarrow> rat \<Rightarrow> AdminGameScoreRow" where
  "sample_row t a = \<lparr>sr_rank = 1, sr_team = t, sr_attack = a, sr_defense = - a, sr_sla = 10,
     sr_total = 10, sr_delta = ''0'', sr_services = None\<rparr>"

lemma computeCategoryLeaders_top_witness:
  "\<exists>chosen rest. mset (chosen @ rest) = mset [sample_row ''red'' 5, sample_row ''blue'' 7] \<and>
     length chosen = 1 \<and> (\<forall>a \<in> set chosen. \<forall>b \<in> set rest. sr_attack b \<le> sr_attack a)"
proof -
  let ?rows = "[sample_row ''red'' 5, sample_row ''blue'' 7]"
  have "(attacker (computeCategoryLeaders ordinal_compare ?rows 1), sr_attack) \<in>
      {(attacker (computeCategoryLeaders ordinal_compare ?rows 1), sr_attack),
       (defender (computeCategoryLeaders ordinal_compare ?rows 1), sr_defense),
       (availability (computeCategoryLeaders ordinal_compare ?rows 1), sr_sla)}" by simp
  from computeCategoryLeaders_top [OF ordinal.collation_axioms this]
  obtain chosen rest where c: "mset (chosen @ rest) = mset ?rows"
      "length chosen = min (nat (max 0 1)) (length ?rows)"
      "\<forall>a \<in> set chosen. \<forall>b \<in> set rest.
         leader_compare ordinal_compare sr_attack a b \<le> 0 \<and> sr_attack b \<le> sr_attack a"
    by blast
  show ?thesis
    by (rule exI [of _ chosen], rule exI [of _ rest]) (use c in simp)
qed

text \<open>
  C27. The leaders do not depend on the order in which the scoreboard lists its rows: any two
  arrangements of the same rows give the same summary, provided the collation separates the
  team names of the scoreboard and no two rows share a name.
\<close>

theorem computeCategoryLeaders_order_independent:
  assumes "collation lc"
    and "\<forall>x \<in> sr_team ` set rows. \<forall>y \<in> sr_team ` set rows. lc x y \<le> 0 \<and> lc y x \<le> 0 \<longrightarrow> x = y"
    and "distinct (map sr_team rows)"
    and "mset rows' = mset rows"
  shows "computeCategoryLeaders lc rows' topN = computeCategoryLeaders lc rows topN"
proof -
  have same: "sort_cmp (\<lambda>a b. leader_compare lc select a b \<le> 0) rows'
      = sort_cmp (\<lambda>a b. leader_compare lc select a b \<le> 0) rows" for select
  proof (rule sorted_wrt_mset_unique)
    show "sorted_wrt (\<lambda>a b. leader_compare lc select a b \<le> 0)
        (sort_cmp (\<lambda>a b. leader_compare lc select a b \<le> 0) rows')"
      "sorted_wrt (\<lambda>a b. leader_compare lc select a b \<le> 0)
        (sort_cmp (\<lambda>a b. leader_compare lc select a b \<le> 0) rows)"
      by (rule collation.leaders_sorted [OF assms(1)])+
    show "mset (sort_cmp (\<lambda>a b. leader_compare lc select a b \<le> 0) rows')
        = mset (sort_cmp (\<lambda>a b. leader_compare lc select a b \<le> 0) rows)"
      using assms(4) by simp
    fix x y
    assume xy: "x \<in> set (sort_cmp (\<lambda>a b. leader_compare lc select a b \<le> 0) rows')"
      "y \<in> set (sort_cmp (\<lambda>a b. leader_compare lc select a b \<le> 0) rows')"
      and le: "leader_compare lc select x y \<le> 0" "leader_compare lc select y x \<le> 0"
    have s: "set rows' = set rows" using assms(4) by (metis set_mset_mset)
    from le have "lc (sr_team x) (sr_team y) \<le> 0 \<and> lc (sr_team y) (sr_team x) \<le> 0"
      by (auto simp: leader_compare_def Let_def split: if_splits)
    then have "sr_team x = sr_team y" using xy s assms(2) by auto
    then show "x = y" using xy s assms(3) by (auto simp: distinct_map inj_on_def)
  qed
  show ?thesis by (simp add: computeCategoryLeaders_def pick_def same)
qed

theorem computeCategoryLeaders_order_independent_witness:
  "computeCategoryLeaders ordinal_compare [sample_row ''red'' 5, sample_row ''blue'' 5] 3
     = computeCategoryLeaders ordinal_compare [sample_row ''blue'' 5, sample_row ''red'' 5] 3"
  by (rule computeCategoryLeaders_order_independent [OF ordinal.collation_axioms])
    (simp_all add: sample_row_def)

end
