(* ===== verification/Team_Csv.thy ===== *)
theory Team_Csv
  imports Js_Prelude
begin

text \<open>
  The bulk-import and export of \<open>lib/team-csv.ts\<close>: the CSV reader that groups player rows into
  teams, and the CSV writer that quotes cells and neutralises spreadsheet formulas.
\<close>

section \<open>Data\<close>

record TeamCsvPlayer =
  cp_display_name :: string
  cp_email :: string
  cp_password :: string
  cp_role :: string

record TeamCsvRow =
  ct_name :: string
  ct_contact_email :: string
  ct_players :: "TeamCsvPlayer list"

abbreviation QUOTE :: char where "QUOTE \<equiv> CHR 0x22"
abbreviation COMMA :: char where "COMMA \<equiv> CHR '',''"
abbreviation LF :: char where "LF \<equiv> CHR 0x0A"
abbreviation CR :: char where "CR \<equiv> CHR 0x0D"
abbreviation TAB :: char where "TAB \<equiv> CHR 0x09"

section \<open>Reading\<close>

text \<open>The scanner of \<open>splitCsvLine\<close>; its loop variables are \<open>current\<close>, \<open>inQuotes\<close> and \<open>cells\<close>.\<close>

fun split_csv :: "string \<Rightarrow> string \<Rightarrow> bool \<Rightarrow> string list \<Rightarrow> string list" where
  "split_csv [] current inQuotes cells = cells @ [trim current]"
| "split_csv (c # rest) current inQuotes cells =
     (if c = QUOTE then
        (if inQuotes \<and> rest \<noteq> [] \<and> hd rest = QUOTE
         then split_csv (tl rest) (current @ [QUOTE]) inQuotes cells
         else split_csv rest current (\<not> inQuotes) cells)
      else if c = COMMA \<and> \<not> inQuotes then split_csv rest [] inQuotes (cells @ [trim current])
      else split_csv rest (current @ [c]) inQuotes cells)"

definition splitCsvLine :: "string \<Rightarrow> string list" where
  "splitCsvLine line = split_csv line [] False []"

text \<open>\<open>text.split(/\r?\n/)\<close>: a carriage return before a line feed belongs to the separator.\<close>

definition strip_cr :: "string \<Rightarrow> string" where
  "strip_cr s = (if s \<noteq> [] \<and> last s = CR then butlast s else s)"

definition split_lines :: "string \<Rightarrow> string list" where
  "split_lines s = (let ps = split_on LF s in map strip_cr (butlast ps) @ [last ps])"

fun index_of :: "string list \<Rightarrow> string \<Rightarrow> nat option" where
  "index_of [] x = None"
| "index_of (y # ys) x = (if x = y then Some 0 else map_option Suc (index_of ys x))"

text \<open>\<open>cells[i]\<close>, where \<open>i\<close> may be the \<open>-1\<close> of a missing column: \<open>undefined\<close> out of range.\<close>

definition cell_at :: "string list \<Rightarrow> nat option \<Rightarrow> string option" where
  "cell_at cells i = (case i of None \<Rightarrow> None
     | Some k \<Rightarrow> if k < length cells then Some (cells ! k) else None)"

definition column :: "bool \<Rightarrow> string list \<Rightarrow> string list \<Rightarrow> string \<Rightarrow> nat \<Rightarrow> string \<Rightarrow> string" where
  "column hasHeader header cells name pos fallback =
     coalesce (cell_at cells (if hasHeader then index_of header name else Some pos)) fallback"

text \<open>The \<open>Map\<close> of teams keeps insertion order.\<close>

type_synonym team_map = "(string \<times> TeamCsvRow) list"

definition map_set_if_absent :: "string \<Rightarrow> TeamCsvRow \<Rightarrow> team_map \<Rightarrow> team_map" where
  "map_set_if_absent k v m = (if k \<in> fst ` set m then m else m @ [(k, v)])"

definition push_player :: "string \<Rightarrow> TeamCsvPlayer \<Rightarrow> team_map \<Rightarrow> team_map" where
  "push_player k p m = map (\<lambda>(k', row). if k' = k then (k', row\<lparr>ct_players := ct_players row @ [p]\<rparr>)
     else (k', row)) m"

definition team_key :: "string \<Rightarrow> string \<Rightarrow> string" where
  "team_key teamName contactEmail =
     toLowerCase (trim teamName) @ ''|'' @ toLowerCase (trim contactEmail)"

definition import_line :: "bool \<Rightarrow> string list \<Rightarrow> team_map \<Rightarrow> string \<Rightarrow> team_map" where
  "import_line hasHeader header teams line = (
     let cells = splitCsvLine line;
         teamName = column hasHeader header cells ''team_name'' 0 [];
         contactEmail = column hasHeader header cells ''contact_email'' 1 [] in
     if trim teamName = [] \<or> trim contactEmail = [] then teams
     else (let key = team_key teamName contactEmail;
               teams' = map_set_if_absent key
                 \<lparr>ct_name = trim teamName, ct_contact_email = trim contactEmail, ct_players = []\<rparr> teams;
               displayName = column hasHeader header cells ''player_display_name'' 2 [];
               email = column hasHeader header cells ''player_email'' 3 [];
               password = column hasHeader header cells ''player_password'' 4 [];
               role = column hasHeader header cells ''player_role'' 5 ''member'' in
           if trim displayName \<noteq> [] \<and> trim email \<noteq> [] \<and> trim password \<noteq> []
           then push_player key
             \<lparr>cp_display_name = trim displayName, cp_email = trim email, cp_password = trim password,
              cp_role = (if trim role = [] then ''member'' else trim role)\<rparr> teams'
           else teams'))"

definition parseTeamCsv :: "string \<Rightarrow> TeamCsvRow list" where
  "parseTeamCsv text = (
     let lines = filter (\<lambda>l. l \<noteq> []) (map trim (split_lines text)) in
     case lines of
       [] \<Rightarrow> []
     | first # others \<Rightarrow>
        (let header = map toLowerCase (splitCsvLine first);
             hasHeader = (''team_name'' \<in> set header \<or> ''contact_email'' \<in> set header);
             rows = (if hasHeader then others else lines) in
         map snd (foldl (import_line hasHeader header) [] rows)))"

section \<open>Writing\<close>

definition ascii_digit :: "char \<Rightarrow> bool" where
  "ascii_digit c \<longleftrightarrow> 48 \<le> (of_char c :: nat) \<and> (of_char c :: nat) \<le> 57"

text \<open>The pattern \<open>/^[+-]?\d+(\.\d+)?$/\<close>.\<close>

definition plain_number :: "string \<Rightarrow> bool" where
  "plain_number v = (
     let u = (case v of c # r \<Rightarrow> if c = CHR ''+'' \<or> c = CHR ''-'' then r else v | [] \<Rightarrow> []);
         rest = dropWhile ascii_digit u in
     takeWhile ascii_digit u \<noteq> [] \<and>
     (case rest of [] \<Rightarrow> True | c # r \<Rightarrow> c = CHR ''.'' \<and> r \<noteq> [] \<and> list_all ascii_digit r))"

text \<open>The pattern \<open>/^\s*[=+\-@\t\r]/\<close>: white space, and then a trigger, which may itself be a tab or
  a carriage return among the leading white space.\<close>

definition formula_trigger :: "string \<Rightarrow> bool" where
  "formula_trigger v = (
     (\<exists>c \<in> set (takeWhile is_ws v). c = TAB \<or> c = CR) \<or>
     (case dropWhile is_ws v of
        c # _ \<Rightarrow> c = CHR ''='' \<or> c = CHR ''+'' \<or> c = CHR ''-'' \<or> c = CHR ''@'' | [] \<Rightarrow> False))"

definition neutralizeFormula :: "string \<Rightarrow> string" where
  "neutralizeFormula value =
     (if plain_number value \<or> \<not> formula_trigger value then value else CHR 0x27 # value)"

definition needs_quotes :: "string \<Rightarrow> bool" where
  "needs_quotes v = list_ex (\<lambda>c. c = QUOTE \<or> c = COMMA \<or> c = CR \<or> c = LF) v"

definition escape_quotes :: "string \<Rightarrow> string" where
  "escape_quotes v = concat (map (\<lambda>c. if c = QUOTE then [QUOTE, QUOTE] else [c]) v)"

definition csv_cell :: "string \<Rightarrow> string" where
  "csv_cell cell = (let value = neutralizeFormula cell in
     if needs_quotes value then QUOTE # escape_quotes value @ [QUOTE] else value)"

definition toCsv :: "string list list \<Rightarrow> string" where
  "toCsv rows = join_with [LF] (map (\<lambda>row. join_with [COMMA] (map csv_cell row)) rows)"

section \<open>Reading back what was written\<close>

lemma split_csv_plain:
  "\<forall>c \<in> set v. c \<noteq> QUOTE \<and> c \<noteq> COMMA \<Longrightarrow>
   split_csv (v @ rest) cur False cells = split_csv rest (cur @ v) False cells"
  by (induction v arbitrary: cur) auto

lemma split_csv_quoted:
  "rest = [] \<or> hd rest \<noteq> QUOTE \<Longrightarrow>
   split_csv (escape_quotes v @ QUOTE # rest) cur True cells = split_csv rest (cur @ v) False cells"
  by (induction v arbitrary: cur) (auto simp: escape_quotes_def)

lemma split_csv_cell:
  assumes "rest = [] \<or> hd rest = COMMA"
  shows "split_csv (csv_cell c @ rest) [] False cells = split_csv rest (neutralizeFormula c) False cells"
proof (cases "needs_quotes (neutralizeFormula c)")
  case True
  moreover have "rest = [] \<or> hd rest \<noteq> QUOTE" using assms by auto
  ultimately show ?thesis
    using split_csv_quoted [of rest "neutralizeFormula c" "[]" cells]
    by (simp add: csv_cell_def Let_def)
next
  case False
  then show ?thesis
    using split_csv_plain [of "neutralizeFormula c" rest "[]" cells]
    by (auto simp: csv_cell_def Let_def needs_quotes_def list_ex_iff)
qed

lemma split_csv_row:
  "row \<noteq> [] \<Longrightarrow> split_csv (join_with [COMMA] (map csv_cell row)) [] False cells
     = cells @ map (\<lambda>c. trim (neutralizeFormula c)) row"
proof (induction row arbitrary: cells rule: list_nonempty_induct)
  case (single x)
  show ?case using split_csv_cell [of "[]" x cells] by simp
next
  case (cons x xs)
  then show ?case
    using split_csv_cell [of "COMMA # join_with [COMMA] (map csv_cell xs)" x cells]
    by (cases xs) simp_all
qed

text \<open>
  C28. Reading an exported row back gives its cells: \<open>splitCsvLine\<close> undoes the quoting of \<open>toCsv\<close>
  for every row, whatever quotes, commas or line breaks the cells hold, up to the trimming of the
  reader and the apostrophe that neutralises a formula.
\<close>

theorem splitCsvLine_toCsv_row:
  assumes "row \<noteq> []"
  shows "splitCsvLine (toCsv [row]) = map (\<lambda>c. trim (neutralizeFormula c)) row"
  using split_csv_row [OF assms, of "[]"] by (simp add: splitCsvLine_def toCsv_def)

theorem splitCsvLine_toCsv_row_witness:
  "splitCsvLine (toCsv [[''Red, Team'', [QUOTE], ''=1+1'']]) = [''Red, Team'', [QUOTE], CHR 0x27 # ''=1+1'']"
proof -
  have "map (\<lambda>c. trim (neutralizeFormula c)) [''Red, Team'', [QUOTE], ''=1+1''] =
      [''Red, Team'', [QUOTE], CHR 0x27 # ''=1+1'']" by code_simp
  then show ?thesis using splitCsvLine_toCsv_row [of "[''Red, Team'', [QUOTE], ''=1+1'']"] by simp
qed

section \<open>No exported cell starts a formula\<close>

text \<open>
  CSV and formula injection: the text of every exported cell either is a plain signed decimal
  number or does not start, after any white space, with a character on which a spreadsheet starts a
  formula; cells that do not need it are exported unchanged.
\<close>

lemma neutralizeFormula_safe:
  "(plain_number (neutralizeFormula v) \<or> \<not> formula_trigger (neutralizeFormula v)) \<and>
   (neutralizeFormula v = v \<or> neutralizeFormula v = CHR 0x27 # v \<and> formula_trigger v)"
  by (auto simp: neutralizeFormula_def formula_trigger_def is_ws_def)

lemma neutralizeFormula_safe_witness:
  "\<not> formula_trigger (neutralizeFormula ''=SUM(A1)'') \<and> neutralizeFormula ''=SUM(A1)'' \<noteq> ''=SUM(A1)''"
proof -
  have "\<not> plain_number (neutralizeFormula ''=SUM(A1)'')" "neutralizeFormula ''=SUM(A1)'' \<noteq> ''=SUM(A1)''"
    by code_simp+
  with neutralizeFormula_safe [of "''=SUM(A1)''"] show ?thesis by blast
qed

section \<open>What the import produces\<close>

definition player_ok :: "TeamCsvPlayer \<Rightarrow> bool" where
  "player_ok p \<longleftrightarrow> (\<forall>f \<in> {cp_display_name p, cp_email p, cp_password p, cp_role p}. f \<noteq> [] \<and> trimmed f)"

definition team_entry_ok :: "string \<times> TeamCsvRow \<Rightarrow> bool" where
  "team_entry_ok e \<longleftrightarrow> (case e of (k, row) \<Rightarrow>
     k = toLowerCase (ct_name row) @ ''|'' @ toLowerCase (ct_contact_email row) \<and>
     ct_name row \<noteq> [] \<and> trimmed (ct_name row) \<and>
     ct_contact_email row \<noteq> [] \<and> trimmed (ct_contact_email row) \<and>
     list_all player_ok (ct_players row))"

definition team_map_inv :: "team_map \<Rightarrow> bool" where
  "team_map_inv m \<longleftrightarrow> distinct (map fst m) \<and> list_all team_entry_ok m"

lemma fst_push_player [simp]: "map fst (push_player k p m) = map fst m"
  by (induction m) (auto simp: push_player_def)

lemma push_player_inv: "team_map_inv m \<Longrightarrow> player_ok p \<Longrightarrow> team_map_inv (push_player k p m)"
  unfolding team_map_inv_def fst_push_player
  by (auto simp: push_player_def list_all_iff team_entry_ok_def split: prod.splits if_splits)

lemma map_set_if_absent_inv:
  "team_map_inv m \<Longrightarrow> team_entry_ok (k, row) \<Longrightarrow> team_map_inv (map_set_if_absent k row m)"
  by (auto simp: team_map_inv_def map_set_if_absent_def)

lemma player_ok_trim:
  assumes "trim d \<noteq> []" "trim e \<noteq> []" "trim w \<noteq> []"
  shows "player_ok \<lparr>cp_display_name = trim d, cp_email = trim e, cp_password = trim w, cp_role = ''member''\<rparr>"
    and "trim r \<noteq> [] \<Longrightarrow>
      player_ok \<lparr>cp_display_name = trim d, cp_email = trim e, cp_password = trim w, cp_role = trim r\<rparr>"
proof -
  have "trimmed ''member''" by code_simp
  then show "player_ok \<lparr>cp_display_name = trim d, cp_email = trim e, cp_password = trim w, cp_role = ''member''\<rparr>"
    and "trim r \<noteq> [] \<Longrightarrow>
      player_ok \<lparr>cp_display_name = trim d, cp_email = trim e, cp_password = trim w, cp_role = trim r\<rparr>"
    using assms by (auto simp: player_ok_def)
qed

lemma import_line_inv: "team_map_inv m \<Longrightarrow> team_map_inv (import_line hh header m line)"
  unfolding import_line_def Let_def
  by (auto intro!: push_player_inv map_set_if_absent_inv player_ok_trim
      simp: team_entry_ok_def team_key_def)

lemma foldl_import_inv: "team_map_inv m \<Longrightarrow> team_map_inv (foldl (import_line hh header) m rows)"
  by (induction rows arbitrary: m) (simp_all add: import_line_inv)

text \<open>
  Whatever text is imported, every team has a non-empty trimmed name and contact address, every
  player has non-empty trimmed fields (the role defaults to \<open>member\<close>), and no two teams of the
  result agree in both name and contact address up to letter case.
\<close>

lemma parseTeamCsv_well_formed:
  "list_all (\<lambda>t. ct_name t \<noteq> [] \<and> trimmed (ct_name t) \<and> ct_contact_email t \<noteq> [] \<and>
      trimmed (ct_contact_email t) \<and> list_all player_ok (ct_players t)) (parseTeamCsv text) \<and>
   distinct (map (\<lambda>t. (toLowerCase (ct_name t), toLowerCase (ct_contact_email t))) (parseTeamCsv text))"
proof -
  have "\<exists>hh header rows. parseTeamCsv text = map snd (foldl (import_line hh header) [] rows)"
  proof (cases "filter (\<lambda>l. l \<noteq> []) (map trim (split_lines text))")
    case Nil
    then have "parseTeamCsv text = map snd (foldl (import_line False []) [] [])"
      by (simp add: parseTeamCsv_def)
    then show ?thesis by blast
  next
    case (Cons first others)
    show ?thesis unfolding parseTeamCsv_def Let_def Cons list.case by blast
  qed
  then obtain hh header rows where
    "parseTeamCsv text = map snd (foldl (import_line hh header) [] rows)" by blast
  then obtain m where m: "parseTeamCsv text = map snd m" "team_map_inv m"
    using foldl_import_inv [of "[]"] by (auto simp: team_map_inv_def)
  let ?f = "\<lambda>t. (toLowerCase (ct_name t), toLowerCase (ct_contact_email t))"
  have "distinct (map (\<lambda>t. (\<lambda>(a, b). a @ ''|'' @ b) (?f t)) (map snd m))"
  proof -
    have "map (\<lambda>t. (\<lambda>(a, b). a @ ''|'' @ b) (?f t)) (map snd m) = map fst m"
      using m(2) by (auto simp: team_map_inv_def team_entry_ok_def list_all_iff)
    with m(2) show ?thesis unfolding team_map_inv_def by (simp only:)
  qed
  then have "distinct (map (\<lambda>(a, b). a @ ''|'' @ b) (map ?f (map snd m)))"
    by (simp only: map_map comp_def)
  then have "distinct (map ?f (map snd m))" by (rule distinct_map [THEN iffD1, THEN conjunct1])
  then show ?thesis
    using m by (auto simp: team_map_inv_def team_entry_ok_def list_all_iff)
qed

text \<open>
  The grouping key joins name and contact address with a bar, so two teams whose fields hold a bar
  can share a key: the second is dropped and its players would join the first.
\<close>

lemma parseTeamCsv_bar_collision:
  "map ct_name (parseTeamCsv (''a|b,c'' @ [LF] @ ''a,b|c'')) = [''a|b'']"
  by code_simp

end
