(* ===== verification/Http_Core.thy ===== *)
theory Http_Core
  imports Js_Number "HOL-Library.Word"
begin

text \<open>
  The HTTP layer of the web server: JSON values, headers, requests and replies, the effects of a
  server-side handler (upstream calls and thrown errors), and on top of them the helpers of
  \<open>lib/api-utils.ts\<close> and \<open>lib/api-handler.ts\<close>. Upstream services, \<open>process.env\<close>, the clock, the
  MAC of the Web Crypto API, \<open>JSON.parse\<close>, \<open>TextDecoder\<close> and the parser behind \<open>new URL(s).origin\<close>
  (\<open>None\<close> where it throws) belong to the host and are the fields of the record \<open>host\<close>, an argument of every definition that uses them.
\<close>

section \<open>JSON values\<close>

datatype json =
    JNull
  | JBool bool
  | JNum rat
  | JStr string
  | JArr "json list"
  | JObj "(string \<times> json) list"

text \<open>\<open>JSON.stringify\<close> leaves out the properties that are undefined.\<close>

definition json_object :: "(string \<times> json option) list \<Rightarrow> json" where
  "json_object ps = JObj (List.map_filter (\<lambda>(k, v). map_option (Pair k) v) ps)"

text \<open>Reading a property; \<open>None\<close> is \<open>undefined\<close>. Under optional chaining null gives undefined too.\<close>

definition json_prop :: "json option \<Rightarrow> string \<Rightarrow> json option" where
  "json_prop v k = (case v of Some (JObj kvs) \<Rightarrow> map_of kvs k | _ \<Rightarrow> None)"

lemma json_object_absent:
  "list_all (\<lambda>(k', v). k' \<noteq> k \<or> v = None) ps \<Longrightarrow> json_prop (Some (json_object ps)) k = None"
  by (induction ps) (auto simp: json_object_def json_prop_def split: option.splits)

definition truthy :: "json option \<Rightarrow> bool" where
  "truthy v = (case v of
     None \<Rightarrow> False | Some JNull \<Rightarrow> False | Some (JBool b) \<Rightarrow> b | Some (JNum q) \<Rightarrow> q \<noteq> 0
   | Some (JStr s) \<Rightarrow> s \<noteq> [] | Some (JArr _) \<Rightarrow> True | Some (JObj _) \<Rightarrow> True)"

fun json_to_string :: "json \<Rightarrow> string" where
  "json_to_string JNull = ''null''"
| "json_to_string (JBool b) = (if b then ''true'' else ''false'')"
| "json_to_string (JNum q) = num_to_string (Finite q)"
| "json_to_string (JStr s) = s"
| "json_to_string (JArr xs) =
     join_with '','' (map (\<lambda>x. if x = JNull then [] else json_to_string x) xs)"
| "json_to_string (JObj kvs) = ''[object Object]''"

text \<open>\<open>v?.trim()\<close> on a JSON property: a value that is neither nullish nor a string has no method
  \<open>trim\<close>, and the call throws.\<close>

definition trim_prop :: "json option \<Rightarrow> string option result" where
  "trim_prop v = (case v of
     None \<Rightarrow> Inr None | Some JNull \<Rightarrow> Inr None | Some (JStr s) \<Rightarrow> Inr (Some (trim s))
   | Some _ \<Rightarrow> Inl (ErrorMessage ''trim is not a function''))"

section \<open>Requests, responses and the host\<close>

type_synonym headers = "(string \<times> string) list"

definition hget :: "headers \<Rightarrow> string \<Rightarrow> string option" where
  "hget h name = map_of h (toLowerCase name)"

definition hset :: "string \<Rightarrow> string \<Rightarrow> headers \<Rightarrow> headers" where
  "hset name v h = (toLowerCase name, v) # filter (\<lambda>(k, _). k \<noteq> toLowerCase name) h"

record request_init =
  ri_method :: "string option"
  ri_headers :: headers
  ri_body :: "json option"

definition no_init :: request_init where
  "no_init = \<lparr>ri_method = None, ri_headers = [], ri_body = None\<rparr>"

definition post_init :: request_init where
  "post_init = \<lparr>ri_method = Some ''POST'', ri_headers = [], ri_body = None\<rparr>"

definition verb_init :: "string \<Rightarrow> request_init" where
  "verb_init m = \<lparr>ri_method = Some m, ri_headers = [], ri_body = None\<rparr>"

definition body_init :: "string \<Rightarrow> json \<Rightarrow> request_init" where
  "body_init m b = \<lparr>ri_method = Some m, ri_headers = [], ri_body = Some b\<rparr>"

record request =
  rq_method :: string
  rq_url :: string
  rq_headers :: headers
  rq_body :: "json option"

text \<open>An upstream response: \<open>rs_json\<close> is what \<open>response.json()\<close> gives (\<open>None\<close> when it rejects),
  \<open>rs_body\<close> the body stream (\<open>None\<close> for null).\<close>

record response =
  rs_status :: int
  rs_headers :: headers
  rs_json :: "json option"
  rs_body :: "string option"

definition resp_ok :: "response \<Rightarrow> bool" where
  "resp_ok r \<longleftrightarrow> 200 \<le> rs_status r \<and> rs_status r \<le> 299"

type_synonym bytes = "8 word list"

record 'w host =
  fetch_fn :: "request \<Rightarrow> 'w \<Rightarrow> response result \<times> 'w"
  env :: "string \<Rightarrow> string option"
  clock :: "'w \<Rightarrow> int"
  hmac_sha256 :: "bytes \<Rightarrow> bytes \<Rightarrow> bytes"
  json_parse :: "string \<Rightarrow> json option"
  utf8_decode :: "bytes \<Rightarrow> string"
  cookie_jar :: "string \<Rightarrow> string option"
  incoming_headers :: "headers option"
  url_origin :: "string \<Rightarrow> string option"

record 'w world =
  net :: 'w
  sent :: "request list"

text \<open>A server-side computation: it may call upstream services, and it returns or throws.\<close>

type_synonym ('w, 'a) js = "'w world \<Rightarrow> 'a result \<times> 'w world"

definition js_return :: "'a \<Rightarrow> ('w, 'a) js" where
  "js_return v = (\<lambda>w. (Inr v, w))"

definition js_throw :: "js_error \<Rightarrow> ('w, 'a) js" where
  "js_throw e = (\<lambda>w. (Inl e, w))"

definition js_lift :: "'a result \<Rightarrow> ('w, 'a) js" where
  "js_lift r = (\<lambda>w. (r, w))"

definition js_bind :: "('w, 'a) js \<Rightarrow> ('a \<Rightarrow> ('w, 'b) js) \<Rightarrow> ('w, 'b) js" where
  "js_bind m f = (\<lambda>w. case m w of (Inl e, w') \<Rightarrow> (Inl e, w') | (Inr v, w') \<Rightarrow> f v w')"

definition js_catch :: "('w, 'a) js \<Rightarrow> (js_error \<Rightarrow> ('w, 'a) js) \<Rightarrow> ('w, 'a) js" where
  "js_catch m handler = (\<lambda>w. case m w of (Inl e, w') \<Rightarrow> handler e w' | (Inr v, w') \<Rightarrow> (Inr v, w'))"

definition js_fetch :: "'w host \<Rightarrow> request \<Rightarrow> ('w, response) js" where
  "js_fetch h rq = (\<lambda>w. case fetch_fn h rq (net w) of
     (r, n) \<Rightarrow> (r, w\<lparr>net := n, sent := sent w @ [rq]\<rparr>))"

text \<open>\<open>Promise.allSettled\<close> and \<open>Promise.all\<close> start every computation whatever becomes of the others.
  When several fail, \<open>Promise.all\<close> reports the one that fails first; here, the first of the list.\<close>

definition js_settle :: "('w, 'a) js \<Rightarrow> ('w, 'a settled) js" where
  "js_settle m = (\<lambda>w. case m w of (r, w') \<Rightarrow> (Inr (settle r), w'))"

fun js_settle_all :: "('w, 'a) js list \<Rightarrow> ('w, 'a settled list) js" where
  "js_settle_all [] = js_return []"
| "js_settle_all (m # ms) = js_bind (js_settle m) (\<lambda>s. js_bind (js_settle_all ms) (\<lambda>ss. js_return (s # ss)))"

fun all_fulfilled :: "'a settled list \<Rightarrow> 'a list result" where
  "all_fulfilled [] = Inr []"
| "all_fulfilled (Rejected e # ss) = Inl e"
| "all_fulfilled (Fulfilled v # ss) = (case all_fulfilled ss of Inl e \<Rightarrow> Inl e | Inr vs \<Rightarrow> Inr (v # vs))"

definition js_all :: "('w, 'a) js list \<Rightarrow> ('w, 'a list) js" where
  "js_all ms = js_bind (js_settle_all ms) (\<lambda>ss. js_lift (all_fulfilled ss))"

lemmas js_defs = js_return_def js_throw_def js_lift_def js_bind_def js_catch_def

section \<open>lib/api-utils.ts\<close>

text \<open>The constructor of \<open>PlatformAPIError\<close>.\<close>

definition new_PlatformAPIError :: "string \<Rightarrow> int \<Rightarrow> string option \<Rightarrow> js_error" where
  "new_PlatformAPIError message status retryAfter =
     PlatformAPIError message status (or_undefined (map_option trim retryAfter))"

record UpstreamErrorDetails =
  ue_detail :: string
  ue_retryAfter :: "string option"
  ue_status :: int

definition upstreamErrorDetails :: "js_error \<Rightarrow> string \<Rightarrow> UpstreamErrorDetails" where
  "upstreamErrorDetails error fallback = (case error of
     PlatformAPIError m s r \<Rightarrow> \<lparr>ue_detail = m, ue_retryAfter = r, ue_status = s\<rparr>
   | _ \<Rightarrow> \<lparr>ue_detail = message_or error fallback, ue_retryAfter = None, ue_status = 502\<rparr>)"

datatype query_value = QStr string | QNum js_num

definition utf8_encode_char :: "char \<Rightarrow> nat list" where
  "utf8_encode_char c = (let n = (of_char c :: nat) in
     if n < 128 then [n] else [192 + n div 64, 128 + n mod 64])"

definition hex_digit :: "nat \<Rightarrow> char" where
  "hex_digit d = (if d < 10 then char_of (48 + d) else char_of (55 + d))"

text \<open>The \<open>application/x-www-form-urlencoded\<close> serialiser of \<open>URLSearchParams\<close>.\<close>

definition form_encode_byte :: "nat \<Rightarrow> string" where
  "form_encode_byte n =
     (if n = 32 then ''+''
      else if n = 42 \<or> n = 45 \<or> n = 46 \<or> n = 95 \<or> (48 \<le> n \<and> n \<le> 57) \<or> (65 \<le> n \<and> n \<le> 90) \<or>
              (97 \<le> n \<and> n \<le> 122) then [char_of n]
      else [CHR ''%'', hex_digit (n div 16), hex_digit (n mod 16)])"

definition form_encode :: "string \<Rightarrow> string" where
  "form_encode s = concat (map (\<lambda>c. concat (map form_encode_byte (utf8_encode_char c))) s)"

definition query_text :: "query_value option \<Rightarrow> string option" where
  "query_text v = (case v of
     None \<Rightarrow> None
   | Some (QStr s) \<Rightarrow> if s = [] then None else Some s
   | Some (QNum x) \<Rightarrow> if x = NaN then None else Some (num_to_string x))"

definition query_entries :: "(string \<times> query_value option) list \<Rightarrow> (string \<times> string) list" where
  "query_entries query = List.map_filter (\<lambda>(key, v). map_option (Pair key) (query_text v)) query"

definition encode_params :: "(string \<times> string) list \<Rightarrow> string" where
  "encode_params ps = join_with ''&'' (map (\<lambda>(k, v). form_encode k @ ''='' @ form_encode v) ps)"

definition buildQueryString :: "(string \<times> query_value option) list \<Rightarrow> string" where
  "buildQueryString query = (let encoded = encode_params (query_entries query) in
     if encoded = [] then [] else ''?'' @ encoded)"

definition firstForwardedAddress :: "string option \<Rightarrow> string option" where
  "firstForwardedAddress value = (case value of
     None \<Rightarrow> None
   | Some v \<Rightarrow> find (\<lambda>entry. entry \<noteq> []) (map trim (split_on (CHR '','') v)))"

text \<open>The body of an incoming request, as \<open>request.json().catch(() => null)\<close> reads it.\<close>

definition parseTeamBody :: "json option \<Rightarrow> (string option \<times> string option) result" where
  "parseTeamBody body = (case trim_prop (json_prop body ''name'') of
     Inl e \<Rightarrow> Inl e
   | Inr name \<Rightarrow> (case trim_prop (json_prop body ''contact_email'') of
       Inl e \<Rightarrow> Inl e | Inr contactEmail \<Rightarrow> Inr (name, contactEmail)))"

definition parseApiError :: "response \<Rightarrow> string \<Rightarrow> string result" where
  "parseApiError r path = (
     let fallback = ''API request to '' @ path @ '' failed with status '' @ int_to_string (rs_status r);
         contentType = coalesce (hget (rs_headers r) ''content-type'') [];
         isJsonLike = (includes_str contentType ''application/json'' \<or> includes_str contentType ''+json'') in
     if \<not> isJsonLike then Inr fallback
     else (case rs_json r of
       None \<Rightarrow> Inr fallback
     | Some payload \<Rightarrow>
        if \<not> truthy (Some payload) then Inr fallback
        else (case payload of
          JObj kvs \<Rightarrow>
            (if truthy (map_of kvs ''message'') then Inr (json_to_string (the (map_of kvs ''message'')))
             else if truthy (map_of kvs ''detail'') then Inr (json_to_string (the (map_of kvs ''detail'')))
             else if truthy (map_of kvs ''title'') then Inr (json_to_string (the (map_of kvs ''title'')))
             else Inr fallback)
        | JArr _ \<Rightarrow> Inr fallback
        | _ \<Rightarrow> Inl (ErrorMessage ''cannot use the in operator on a primitive''))))"

definition processApiResponse :: "response \<Rightarrow> string \<Rightarrow> json option result" where
  "processApiResponse r path =
     (if \<not> resp_ok r then
        (case parseApiError r path of
           Inl e \<Rightarrow> Inl e
         | Inr m \<Rightarrow> Inl (new_PlatformAPIError m (rs_status r) (hget (rs_headers r) ''retry-after'')))
      else if rs_status r = 204 then Inr None
      else (case rs_json r of
         Some j \<Rightarrow> Inr (Some j) | None \<Rightarrow> Inl (ErrorMessage ''response body is not JSON'')))"

definition auth_headers :: "string option \<Rightarrow> request_init \<Rightarrow> headers" where
  "auth_headers token init = (
     let h1 = (case or_undefined token of
                 Some t \<Rightarrow> hset ''Authorization'' (''Bearer '' @ t) (ri_headers init)
               | None \<Rightarrow> ri_headers init) in
     if hget h1 ''Content-Type'' = None then hset ''Content-Type'' ''application/json'' h1 else h1)"

definition init_request :: "string \<Rightarrow> request_init \<Rightarrow> headers \<Rightarrow> request" where
  "init_request url init hs =
     \<lparr>rq_method = coalesce (ri_method init) ''GET'', rq_url = url, rq_headers = hs,
      rq_body = ri_body init\<rparr>"

definition authenticatedFetch ::
  "'w host \<Rightarrow> string \<Rightarrow> string \<Rightarrow> string option \<Rightarrow> request_init \<Rightarrow> ('w, json option) js" where
  "authenticatedFetch h baseUrl path token init =
     js_bind (js_fetch h (init_request (baseUrl @ path) init (auth_headers token init)))
       (\<lambda>r. js_lift (processApiResponse r path))"

section \<open>lib/api-handler.ts\<close>

text \<open>What a route sends back. Cookies are those set with \<open>response.cookies.set\<close>; their value is what
  the code passes, a string or whatever an upstream put in its place (\<open>None\<close> is undefined).\<close>

datatype reply_body = JsonBody json | TextBody string | EmptyBody

record session_cookie =
  ck_name :: string
  ck_value :: "json option"
  ck_httpOnly :: bool
  ck_sameSite :: string
  ck_secure :: bool
  ck_path :: string
  ck_maxAge :: int

record reply =
  rp_status :: int
  rp_headers :: headers
  rp_body :: reply_body
  rp_cookies :: "session_cookie list"

text \<open>\<open>NextResponse.json(data)\<close>: \<open>undefined\<close> has no JSON text, and the call throws.\<close>

definition next_json :: "json option \<Rightarrow> reply result" where
  "next_json data = (case data of
     Some j \<Rightarrow> Inr \<lparr>rp_status = 200, rp_headers = [(''content-type'', ''application/json'')],
                rp_body = JsonBody j, rp_cookies = []\<rparr>
   | None \<Rightarrow> Inl (ErrorMessage ''Value is not JSON serializable''))"

definition problemResponse :: "int \<Rightarrow> string \<Rightarrow> string \<Rightarrow> reply" where
  "problemResponse status title detail =
     \<lparr>rp_status = status, rp_headers = [(''content-type'', ''application/problem+json'')],
      rp_body = JsonBody (JObj [(''title'', JStr title), (''status'', JNum (of_int status)), (''detail'', JStr detail)]),
      rp_cookies = []\<rparr>"

definition not_authenticated_message :: string where
  "not_authenticated_message = ''participant session is not authenticated.''"

definition upstreamErrorResponse :: "js_error \<Rightarrow> string \<Rightarrow> string \<Rightarrow> reply" where
  "upstreamErrorResponse error fallback title =
     (if error_message error = Some not_authenticated_message
      then problemResponse 403 ''Authentication required'' not_authenticated_message
      else (let details = upstreamErrorDetails error fallback;
                response = problemResponse (ue_status details) title (ue_detail details) in
        case or_undefined (ue_retryAfter details) of
          Some r \<Rightarrow> response\<lparr>rp_headers := hset ''Retry-After'' r (rp_headers response)\<rparr>
        | None \<Rightarrow> response))"

definition upstream_title :: string where
  "upstream_title = ''Upstream request failed''"

definition handleAdminIdRoute ::
  "(string \<Rightarrow> string option) \<Rightarrow> string \<Rightarrow> string \<Rightarrow> string \<Rightarrow> (int \<Rightarrow> ('w, json option) js) \<Rightarrow> ('w, reply) js" where
  "handleAdminIdRoute params idParamName idName actionName actionFn =
     (case or_undefined (params idParamName) of
        None \<Rightarrow> js_return (problemResponse 400 ''Invalid request'' (idName @ '' is invalid.''))
      | Some idStr \<Rightarrow> (case js_Number idStr of
          Finite q \<Rightarrow>
            if of_int \<lfloor>q\<rfloor> \<noteq> q \<or> q \<le> 0
            then js_return (problemResponse 400 ''Invalid request'' (idName @ '' is invalid.''))
            else js_catch (js_bind (actionFn \<lfloor>q\<rfloor>) (\<lambda>data. js_lift (next_json data)))
                   (\<lambda>e. js_return (upstreamErrorResponse e (actionName @ '' failed'') upstream_title))
        | _ \<Rightarrow> js_return (problemResponse 400 ''Invalid request'' (idName @ '' is invalid.''))))"

definition handleParticipantIdRoute ::
  "(string \<Rightarrow> string option) \<Rightarrow> string \<Rightarrow> string \<Rightarrow> string \<Rightarrow> (int \<Rightarrow> ('w, json option) js) \<Rightarrow> ('w, reply) js" where
  "handleParticipantIdRoute params idParamName idName actionName actionFn =
     (case or_undefined (params idParamName) of
        None \<Rightarrow> js_return (problemResponse 400 ''Invalid request'' (idName @ '' is invalid.''))
      | Some idStr \<Rightarrow> (case js_Number idStr of
          Finite q \<Rightarrow>
            if of_int \<lfloor>q\<rfloor> \<noteq> q \<or> q \<le> 0
            then js_return (problemResponse 400 ''Invalid request'' (idName @ '' is invalid.''))
            else js_catch (js_bind (actionFn \<lfloor>q\<rfloor>) (\<lambda>data. js_lift (next_json data)))
                   (\<lambda>e. js_return (upstreamErrorResponse e (actionName @ '' failed'') upstream_title))
        | _ \<Rightarrow> js_return (problemResponse 400 ''Invalid request'' (idName @ '' is invalid.''))))"

text \<open>Copying a fixed list of headers when they are present and non-empty.\<close>

fun copy_headers :: "string list \<Rightarrow> headers \<Rightarrow> headers \<Rightarrow> headers" where
  "copy_headers [] src acc = acc"
| "copy_headers (name # names) src acc =
     copy_headers names src (case or_undefined (hget src name) of
       Some v \<Rightarrow> hset name v acc | None \<Rightarrow> acc)"

definition forwardUpstreamResponse :: "response \<Rightarrow> reply" where
  "forwardUpstreamResponse r =
     \<lparr>rp_status = rs_status r,
      rp_headers = copy_headers [''content-type'', ''retry-after''] (rs_headers r) [],
      rp_body = TextBody (coalesce (rs_body r) []), rp_cookies = []\<rparr>"

text \<open>The shape most routes share: \<open>try { NextResponse.json(await action) } catch { upstreamErrorResponse }\<close>.\<close>

definition json_route :: "('w, json option) js \<Rightarrow> string \<Rightarrow> string \<Rightarrow> ('w, reply) js" where
  "json_route action fallback title =
     js_catch (js_bind action (\<lambda>data. js_lift (next_json data)))
       (\<lambda>e. js_return (upstreamErrorResponse e fallback title))"

section \<open>Headers and upstream calls\<close>

lemma map_of_filter_neq: "map_of (filter (\<lambda>(k, _). k \<noteq> a) h) b = (if b = a then None else map_of h b)"
  by (induction h) auto

lemma hget_hset [simp]:
  "hget (hset n v h) m = (if toLowerCase n = toLowerCase m then Some v else hget h m)"
  by (auto simp: hget_def hset_def map_of_filter_neq)

lemma hget_Nil [simp]: "hget [] n = None"
  by (simp add: hget_def)

lemma sent_js_fetch: "sent (snd (js_fetch h rq w)) = sent w @ [rq]"
  by (simp add: js_fetch_def split: prod.splits)

lemma authenticatedFetch_run:
  "authenticatedFetch h baseUrl path token init w = (
     let rq = init_request (baseUrl @ path) init (auth_headers token init);
         (r, n) = fetch_fn h rq (net w);
         w' = w\<lparr>net := n, sent := sent w @ [rq]\<rparr> in
     (case r of Inl e \<Rightarrow> Inl e | Inr resp \<Rightarrow> processApiResponse resp path, w'))"
  by (simp add: authenticatedFetch_def js_defs js_fetch_def Let_def split: prod.splits sum.splits)

text \<open>
  Every authenticated call issues exactly one request, to the base address followed by the
  path; it carries the bearer token exactly when there is a non-empty one, always declares a content
  type, and leaves every other header of the caller as it was.
\<close>

lemma authenticatedFetch_request:
  "\<exists>rq. sent (snd (authenticatedFetch h baseUrl path token init w)) = sent w @ [rq] \<and>
     rq_url rq = baseUrl @ path \<and> rq_body rq = ri_body init \<and>
     hget (rq_headers rq) ''authorization'' =
       (case or_undefined token of Some t \<Rightarrow> Some (''Bearer '' @ t)
        | None \<Rightarrow> hget (ri_headers init) ''authorization'') \<and>
     hget (rq_headers rq) ''content-type'' \<noteq> None \<and>
     (\<forall>n. toLowerCase n \<notin> {''authorization'', ''content-type''} \<longrightarrow>
        hget (rq_headers rq) n = hget (ri_headers init) n)"
proof -
  let ?rq = "init_request (baseUrl @ path) init (auth_headers token init)"
  have lower: "toLowerCase ''Authorization'' = ''authorization''" "toLowerCase ''authorization'' = ''authorization''"
    "toLowerCase ''Content-Type'' = ''content-type''" "toLowerCase ''content-type'' = ''content-type''"
    by code_simp+
  have "sent (snd (authenticatedFetch h baseUrl path token init w)) = sent w @ [?rq]"
    by (simp add: authenticatedFetch_run Let_def split: prod.splits)
  moreover have "hget (rq_headers ?rq) ''authorization'' =
       (case or_undefined token of Some t \<Rightarrow> Some (''Bearer '' @ t)
        | None \<Rightarrow> hget (ri_headers init) ''authorization'')"
    by (simp add: init_request_def auth_headers_def Let_def lower split: option.splits)
  moreover have "hget (rq_headers ?rq) ''content-type'' \<noteq> None"
    by (simp add: init_request_def auth_headers_def Let_def lower split: option.splits)
      (simp add: hget_def lower)
  moreover have "\<forall>n. toLowerCase n \<notin> {''authorization'', ''content-type''} \<longrightarrow>
        hget (rq_headers ?rq) n = hget (ri_headers init) n"
    by (auto simp add: init_request_def auth_headers_def Let_def lower split: option.splits)
  ultimately show ?thesis
    by (intro exI [of _ ?rq]) (simp add: init_request_def)
qed

text \<open>A host whose upstream answers every request from a fixed table; the examples run on it.\<close>

definition table_host :: "(request \<Rightarrow> response result) \<Rightarrow> unit host" where
  "table_host answer = \<lparr>fetch_fn = (\<lambda>rq n. (answer rq, n)), env = (\<lambda>_. None), clock = (\<lambda>_. 0),
     hmac_sha256 = (\<lambda>k m. k @ m), json_parse = (\<lambda>_. None), utf8_decode = map (\<lambda>b. char_of (unat b)),
     cookie_jar = (\<lambda>_. None), incoming_headers = None,
     url_origin = Some\<rparr>"

definition idle :: "unit world" where
  "idle = \<lparr>net = (), sent = []\<rparr>"

lemma authenticatedFetch_request_witness:
  "\<exists>rq. sent (snd (authenticatedFetch (table_host (\<lambda>_. Inl NonError)) ''http://api'' ''/x'' (Some ''t'')
       \<lparr>ri_method = None, ri_headers = [(''x-a'', ''1'')], ri_body = None\<rparr> idle)) = [rq] \<and>
     hget (rq_headers rq) ''authorization'' = Some ''Bearer t'' \<and> hget (rq_headers rq) ''X-A'' = Some ''1''"
proof -
  have l: "toLowerCase ''X-A'' = ''x-a''" by code_simp
  show ?thesis
    using authenticatedFetch_request [of "table_host (\<lambda>_. Inl NonError)" "''http://api''" "''/x''" "Some ''t''"
        "\<lparr>ri_method = None, ri_headers = [(''x-a'', ''1'')], ri_body = None\<rparr>" idle] l
    by (auto simp: idle_def hget_def dest!: spec [of _ "''X-A''"])
qed

section \<open>Errors keep their status\<close>

definition primitive_payload :: "json option \<Rightarrow> bool" where
  "primitive_payload v = (case v of
     Some (JBool b) \<Rightarrow> b | Some (JNum q) \<Rightarrow> q \<noteq> 0 | Some (JStr s) \<Rightarrow> s \<noteq> [] | _ \<Rightarrow> False)"

lemma json_route_total: "\<exists>rep w'. json_route action fallback title w = (Inr rep, w')"
  by (simp add: json_route_def js_defs split: prod.splits sum.splits)

text \<open>An error body the parser of errors throws on: declared as JSON, and a primitive other than \<open>null\<close>,
  \<open>false\<close>, zero and the empty string.\<close>

definition unreadable_error :: "response \<Rightarrow> bool" where
  "unreadable_error r \<longleftrightarrow> (let contentType = coalesce (hget (rs_headers r) ''content-type'') [] in
     (includes_str contentType ''application/json'' \<or> includes_str contentType ''+json'') \<and> primitive_payload (rs_json r))"

lemma parseApiError_unreadable:
  "parseApiError r path = Inl e \<longleftrightarrow> unreadable_error r \<and> e = ErrorMessage ''cannot use the in operator on a primitive''"
  by (auto simp: parseApiError_def unreadable_error_def primitive_payload_def truthy_def Let_def
      split: option.splits json.splits)

lemma json_route_upstream_error:
  assumes "fetch_fn h (init_request (baseUrl @ path) init (auth_headers token init)) (net w) = (Inr r, n)" and "\<not> resp_ok r"
  shows "fst (json_route (authenticatedFetch h baseUrl path token init) fallback title w) = Inr (upstreamErrorResponse
    (case parseApiError r path of
       Inl e \<Rightarrow> e
     | Inr m \<Rightarrow> new_PlatformAPIError m (rs_status r) (hget (rs_headers r) ''retry-after'')) fallback title)"
  using assms by (simp add: json_route_def js_defs authenticatedFetch_run Let_def processApiResponse_def split: sum.splits)

lemma upstreamErrorResponse_platform:
  assumes "m \<noteq> not_authenticated_message"
  shows "rp_status (upstreamErrorResponse (new_PlatformAPIError m status ra) fallback title) = status"
    and "hget (rp_headers (upstreamErrorResponse (new_PlatformAPIError m status ra) fallback title)) ''retry-after''
      = or_undefined (map_option trim ra)"
proof -
  have lower: "toLowerCase ''Retry-After'' = ''retry-after''" "toLowerCase ''retry-after'' = ''retry-after''"
    by code_simp+
  have base: "hget [(''content-type'', v)] ''retry-after'' = None" for v by (simp add: hget_def lower)
  have idem: "or_undefined (Some a) = Some a" if "or_undefined x = Some a" for x a
    using that by (simp add: or_undefined_eq_Some)
  show "rp_status (upstreamErrorResponse (new_PlatformAPIError m status ra) fallback title) = status"
    using assms by (simp add: upstreamErrorResponse_def new_PlatformAPIError_def error_message_def
        upstreamErrorDetails_def problemResponse_def Let_def split: option.splits)
  show "hget (rp_headers (upstreamErrorResponse (new_PlatformAPIError m status ra) fallback title)) ''retry-after''
      = or_undefined (map_option trim ra)"
    using assms idem [of "map_option trim ra"]
    by (cases "or_undefined (map_option trim ra)")
      (simp_all add: upstreamErrorResponse_def new_PlatformAPIError_def error_message_def
        upstreamErrorDetails_def problemResponse_def Let_def lower base)
qed

text \<open>
  C8. What a proxy route makes of an upstream error. In general it answers with the status of the
  upstream, whatever it is and whatever the error body holds, and with its \<open>Retry-After\<close> value, without
  surrounding white space, if there is one that is not blank. There are exactly two exceptions: where the
  body is declared as JSON and is a bare truthy primitive, the parser of errors throws, and the answer is
  502 without \<open>Retry-After\<close>; and where the error text is the one that stands for a missing participant
  session, the answer is 403 without \<open>Retry-After\<close>.
\<close>

theorem json_route_preserves_upstream_status:
  assumes "fetch_fn h (init_request (baseUrl @ path) init (auth_headers token init)) (net w) = (Inr r, n)"
    and "\<not> resp_ok r"
  shows "\<exists>rep. fst (json_route (authenticatedFetch h baseUrl path token init) fallback title w) = Inr rep \<and>
    (rp_status rep, hget (rp_headers rep) ''retry-after'') =
      (if unreadable_error r then (502, None)
       else if parseApiError r path = Inr not_authenticated_message then (403, None)
       else (rs_status r, or_undefined (map_option trim (hget (rs_headers r) ''retry-after''))))"
proof -
  have l: "toLowerCase ''retry-after'' = ''retry-after''" by code_simp
  show ?thesis
  proof (cases "parseApiError r path")
    case (Inl e)
    then have "unreadable_error r" "e = ErrorMessage ''cannot use the in operator on a primitive''"
      by (simp_all add: parseApiError_unreadable)
    moreover have "''cannot use the in operator on a primitive'' \<noteq> not_authenticated_message" by code_simp
    ultimately show ?thesis
      by (simp add: json_route_upstream_error [OF assms] Inl upstreamErrorResponse_def error_message_def
          upstreamErrorDetails_def problemResponse_def Let_def hget_def l)
  next
    case (Inr m)
    then have "\<not> unreadable_error r" using parseApiError_unreadable [of r path] by auto
    then show ?thesis
      using upstreamErrorResponse_platform [of m]
      by (cases "m = not_authenticated_message")
        (simp_all add: json_route_upstream_error [OF assms] Inr upstreamErrorResponse_def new_PlatformAPIError_def
          error_message_def problemResponse_def hget_def l)
  qed
qed

definition too_many :: response where
  "too_many = \<lparr>rs_status = 429,
     rs_headers = [(''content-type'', ''application/problem+json''), (''retry-after'', '' 5 '')],
     rs_json = Some (JObj [(''detail'', JStr ''slow down'')]), rs_body = Some []\<rparr>"

theorem json_route_preserves_upstream_status_witness:
  "\<exists>rep. fst (json_route (authenticatedFetch (table_host (\<lambda>_. Inr too_many)) ''http://api'' ''/x'' None no_init)
       ''f'' ''t'' idle) = Inr rep \<and> rp_status rep = 429 \<and> hget (rp_headers rep) ''retry-after'' = Some ''5''"
proof -
  have f: "fetch_fn (table_host (\<lambda>_. Inr too_many))
       (init_request (''http://api'' @ ''/x'') no_init (auth_headers None no_init)) (net idle) = (Inr too_many, ())"
    by (simp add: table_host_def)
  have "\<not> resp_ok too_many" "\<not> unreadable_error too_many"
    "parseApiError too_many ''/x'' \<noteq> Inr not_authenticated_message"
    "or_undefined (map_option trim (hget (rs_headers too_many) ''retry-after'')) = Some ''5''"
    by code_simp+
  with json_route_preserves_upstream_status [OF f, of "''f''" "''t''"] show ?thesis
    by (simp add: too_many_def)
qed

section \<open>Routes that carry an identifier\<close>

text \<open>The contract both identifier routes keep: a positive integer reaches the action, anything
  else is refused before the action runs.\<close>

definition id_of :: "string option \<Rightarrow> int option" where
  "id_of s = (case or_undefined s of
     None \<Rightarrow> None
   | Some t \<Rightarrow> (case js_Number t of
       Finite q \<Rightarrow> if of_int \<lfloor>q\<rfloor> = q \<and> q > 0 then Some \<lfloor>q\<rfloor> else None
     | _ \<Rightarrow> None))"

locale id_route =
  fixes route :: "(string \<Rightarrow> string option) \<Rightarrow> string \<Rightarrow> string \<Rightarrow> string \<Rightarrow>
    (int \<Rightarrow> ('w, json option) js) \<Rightarrow> ('w, reply) js"
  assumes accepts: "id_of (params key) = Some n \<Longrightarrow>
      route params key idName act f = json_route (f n) (act @ '' failed'') upstream_title"
    and refuses: "id_of (params key) = None \<Longrightarrow>
      route params key idName act f w = (Inr (problemResponse 400 ''Invalid request'' (idName @ '' is invalid.'')), w)"
begin

lemma only_ids:
  "(\<exists>n > 0. id_of (params key) = Some n \<and>
      route params key idName act f w = json_route (f n) (act @ '' failed'') upstream_title w) \<or>
   route params key idName act f w = (Inr (problemResponse 400 ''Invalid request'' (idName @ '' is invalid.'')), w)"
proof (cases "id_of (params key)")
  case (Some n)
  then have "n > 0"
    by (auto simp: id_of_def split: option.splits js_num.splits if_splits)
  with Some accepts show ?thesis by auto
qed (simp add: refuses)

lemma never_throws: "\<exists>rep w'. route params key idName act f w = (Inr rep, w')"
  using only_ids [of params key idName act f w] json_route_total by metis

end

lemma id_of_decimal: "0 < n \<Longrightarrow> n < 2 ^ 53 \<Longrightarrow> id_of (Some (int_to_string n)) = Some n"
  by (auto simp: id_of_def or_undefined_def js_Number_int_to_string split: option.splits)

interpretation admin_id: id_route handleAdminIdRoute
  by unfold_locales
    (auto simp: handleAdminIdRoute_def id_of_def json_route_def js_return_def
      split: option.splits js_num.splits if_splits)

interpretation participant_id: id_route handleParticipantIdRoute
  by unfold_locales
    (auto simp: handleParticipantIdRoute_def id_of_def json_route_def js_return_def
      split: option.splits js_num.splits if_splits)

text \<open>
  C9. An identifier route runs its action only on a positive integer: every decimal identifier in
  the exact range of a double reaches the action with that very number, and whatever is not the
  numeral of a positive integer is answered with 400 before anything is sent upstream. Both forms of
  the handler behave alike, and neither ever throws.
\<close>

theorem id_routes_only_positive_integers:
  "(0 < n \<and> n < 2 ^ 53 \<and> params key = Some (int_to_string n) \<longrightarrow>
      handleAdminIdRoute params key idName act f = json_route (f n) (act @ '' failed'') upstream_title) \<and>
   (\<not> (\<exists>m > 0. id_of (params key) = Some m) \<longrightarrow>
      handleAdminIdRoute params key idName act f w
        = (Inr (problemResponse 400 ''Invalid request'' (idName @ '' is invalid.'')), w)) \<and>
   handleParticipantIdRoute params key idName act f w = handleAdminIdRoute params key idName act f w \<and>
   (\<exists>rep w'. handleAdminIdRoute params key idName act f w = (Inr rep, w'))"
proof (intro conjI impI)
  assume "0 < n \<and> n < 2 ^ 53 \<and> params key = Some (int_to_string n)"
  then show "handleAdminIdRoute params key idName act f = json_route (f n) (act @ '' failed'') upstream_title"
    using id_of_decimal by (intro admin_id.accepts) simp
next
  assume "\<not> (\<exists>m > 0. id_of (params key) = Some m)"
  then show "handleAdminIdRoute params key idName act f w
      = (Inr (problemResponse 400 ''Invalid request'' (idName @ '' is invalid.'')), w)"
    using admin_id.only_ids [of params key idName act f w] by blast
next
  show "handleParticipantIdRoute params key idName act f w = handleAdminIdRoute params key idName act f w"
    by (simp add: handleParticipantIdRoute_def handleAdminIdRoute_def)
qed (rule admin_id.never_throws)

theorem id_routes_only_positive_integers_witness:
  "handleAdminIdRoute (\<lambda>_. Some (int_to_string 42)) ''teamId'' ''team_id'' ''delete team''
       (\<lambda>n. js_return (Some (JNum (of_int n))) :: (unit, json option) js)
     = json_route (js_return (Some (JNum 42))) ''delete team failed'' upstream_title"
  using id_routes_only_positive_integers [of 42 "\<lambda>_. Some (int_to_string 42)" "''teamId''"
      "''team_id''" "''delete team''" "\<lambda>n. js_return (Some (JNum (of_int n))) :: (unit, json option) js" idle]
  by simp

section \<open>Query strings\<close>

text \<open>The reader of the form encoding: percent escapes, plus signs, and two-byte UTF-8 sequences.\<close>

definition hex_value :: "char \<Rightarrow> nat" where
  "hex_value c = (let n = of_char c in if n \<le> 57 then n - 48 else n - 55)"

fun form_bytes :: "string \<Rightarrow> nat list" where
  "form_bytes (c # cs) =
     (if c = CHR ''+'' then 32 # form_bytes cs
      else if c = CHR ''%'' then
        (case cs of a # b # ds \<Rightarrow> (16 * hex_value a + hex_value b) # form_bytes ds | _ \<Rightarrow> of_char c # form_bytes cs)
      else of_char c # form_bytes cs)"
| "form_bytes [] = []"

fun utf8_latin :: "nat list \<Rightarrow> string" where
  "utf8_latin [] = []"
| "utf8_latin (b # bs) =
     (if b < 128 then char_of b # utf8_latin bs
      else (case bs of c # cs \<Rightarrow> char_of ((b - 192) * 64 + (c - 128)) # utf8_latin cs | [] \<Rightarrow> []))"

definition form_decode :: "string \<Rightarrow> string" where
  "form_decode s = utf8_latin (form_bytes s)"

definition parse_pair :: "string \<Rightarrow> string \<times> string" where
  "parse_pair s = (form_decode (takeWhile (\<lambda>c. c \<noteq> CHR ''='') s),
     form_decode (drop 1 (dropWhile (\<lambda>c. c \<noteq> CHR ''='') s)))"

definition parse_query :: "string \<Rightarrow> (string \<times> string) list" where
  "parse_query s = (case s of [] \<Rightarrow> [] | _ # body \<Rightarrow> map parse_pair (split_on (CHR ''&'') body))"

lemma hex_value_digit: "d < 16 \<Longrightarrow> hex_value (hex_digit d) = d"
  by (auto simp: hex_value_def hex_digit_def Let_def)

lemma form_bytes_encode:
  assumes "n < 256"
  shows "form_bytes (form_encode_byte n @ s) = n # form_bytes s"
proof -
  have *: "of_char (char_of n :: char) = n" using assms by simp
  have p: "(CHR ''+'' :: char) = char_of (43::nat)" "(CHR ''%'' :: char) = char_of (37::nat)" by code_simp+
  have ne: "char_of n \<noteq> CHR ''+''" "char_of n \<noteq> CHR ''%''" if "n \<noteq> 43" "n \<noteq> 37"
    using that assms unfolding p by (auto simp: char_of_eq_iff take_bit_eq_mod)
  have "16 * (n div 16) + n mod 16 = n" by simp
  moreover have "n div 16 < 16" "n mod 16 < 16" using assms by auto
  ultimately show ?thesis
    using ne * by (auto simp: form_encode_byte_def hex_value_digit)
qed

lemma form_bytes_encode_list:
  "\<forall>n \<in> set ns. n < 256 \<Longrightarrow> form_bytes (concat (map form_encode_byte ns) @ s) = ns @ form_bytes s"
  by (induction ns) (simp_all add: form_bytes_encode)

lemma utf8_latin_encode: "utf8_latin (utf8_encode_char c @ bs) = c # utf8_latin bs"
proof -
  have "64 * (of_char c div 64) + of_char c mod 64 = (of_char c :: nat)" by simp
  then show ?thesis
    by (simp add: utf8_encode_char_def Let_def mult.commute)
qed

lemma utf8_bytes: "n \<in> set (utf8_encode_char c) \<Longrightarrow> n < 256"
proof -
  have "of_char c div 64 < (4 :: nat)"
    by (rule less_mult_imp_div_less) (use nat_of_char_less_256 [of c] in simp)
  then show "n \<in> set (utf8_encode_char c) \<Longrightarrow> n < 256"
    by (auto simp: utf8_encode_char_def Let_def split: if_splits)
qed

lemma form_decode_encode: "form_decode (form_encode s) = s"
proof -
  have "form_bytes (form_encode s) = concat (map utf8_encode_char s)"
    unfolding form_encode_def
    by (induction s) (simp_all add: form_bytes_encode_list utf8_bytes)
  moreover have "utf8_latin (concat (map utf8_encode_char s)) = s"
    by (induction s) (simp_all add: utf8_latin_encode)
  ultimately show ?thesis by (simp add: form_decode_def)
qed

definition form_safe :: "char \<Rightarrow> bool" where
  "form_safe c \<longleftrightarrow> c \<noteq> CHR ''='' \<and> c \<noteq> CHR ''&''"

lemma form_safe_byte:
  assumes "n < 256"
  shows "list_all form_safe (form_encode_byte n)"
proof -
  have p: "(CHR ''='' :: char) = char_of (61::nat)" "(CHR ''&'' :: char) = char_of (38::nat)" by code_simp+
  have "form_safe (char_of n)" if "n \<noteq> 61" "n \<noteq> 38" "n < 256" for n :: nat
    using that unfolding form_safe_def p by (auto simp: char_of_eq_iff take_bit_eq_mod)
  moreover have "n div 16 < 16" "n mod 16 < 16" using assms by auto
  ultimately show ?thesis
    using assms by (auto simp: form_encode_byte_def hex_digit_def form_safe_def)
qed

lemma form_safe_encode: "list_all form_safe (form_encode s)"
  using form_safe_byte utf8_bytes by (fastforce simp: form_encode_def list_all_iff)

lemma form_encode_no_equals: "c \<in> set (form_encode s) \<Longrightarrow> c \<noteq> CHR ''='' \<and> c \<noteq> CHR ''&''"
  using form_safe_encode [of s] by (auto simp: list_all_iff form_safe_def)

lemma parse_pair_encode: "parse_pair (form_encode k @ ''='' @ form_encode v) = (k, v)"
proof -
  have ne: "\<And>c. c \<in> set (form_encode k) \<Longrightarrow> c \<noteq> CHR ''=''" using form_encode_no_equals by blast
  show ?thesis
    by (simp add: parse_pair_def takeWhile_append2 dropWhile_append2 ne form_decode_encode)
qed

lemma parse_encode_params:
  "ps \<noteq> [] \<Longrightarrow> map parse_pair (split_on (CHR ''&'') (encode_params ps)) = ps"
proof -
  assume "ps \<noteq> []"
  let ?ws = "map (\<lambda>(k, v). form_encode k @ ''='' @ form_encode v) ps"
  have "\<forall>w \<in> set ?ws. CHR ''&'' \<notin> set w" using form_encode_no_equals by auto
  then have "split_on (CHR ''&'') (encode_params ps) = ?ws"
    unfolding encode_params_def by (rule split_join_with [rotated]) (use \<open>ps \<noteq> []\<close> in simp)
  then show ?thesis by (simp only: map_map) (simp add: o_def case_prod_beta parse_pair_encode [simplified])
qed

lemma encode_params_eq_Nil: "encode_params ps = [] \<longleftrightarrow> ps = []"
  by (cases ps rule: remdups_adj.cases) (auto simp: encode_params_def)

text \<open>
  The query string that a call builds is read back by a form-decoding server as exactly the
  pairs that were given, in their order, less the undefined, empty and not-a-number values; without
  any pair left it is empty. No value, whatever characters it has, can add or change a parameter.
\<close>

lemma buildQueryString_roundtrip: "parse_query (buildQueryString query) = query_entries query"
  by (cases "query_entries query = []")
    (simp_all add: buildQueryString_def Let_def encode_params_eq_Nil parse_query_def parse_encode_params)

end
