(* ===== verification/Session_Token.thy ===== *)
theory Session_Token
  imports Http_Core
begin

text \<open>
  Participant sessions: the verification of the signed session token (\<open>lib/session-token.ts\<close>), its
  validation by the platform API (\<open>lib/session-validation.ts\<close>) and the session cookie
  (\<open>lib/participant-session-cookie.ts\<close>). The MAC, \<open>JSON.parse\<close> and \<open>TextDecoder\<close> are those of the
  host; base64 decoding, the comparison of signatures and every check on the decoded token are here.
\<close>

unbundle bit_operations_syntax

section \<open>Base64\<close>

text \<open>\<open>atob\<close>: ASCII white space is dropped, up to two padding signs at the end of a multiple of four
  are dropped, and then every character must be of the alphabet and the length must not be one more
  than a multiple of four.\<close>

definition ascii_ws :: "char \<Rightarrow> bool" where
  "ascii_ws c \<longleftrightarrow> (of_char c :: nat) \<in> {9, 10, 12, 13, 32}"

definition b64_value :: "char \<Rightarrow> nat option" where
  "b64_value c = (let n = (of_char c :: nat) in
     if 65 \<le> n \<and> n \<le> 90 then Some (n - 65)
     else if 97 \<le> n \<and> n \<le> 122 then Some (n - 71)
     else if 48 \<le> n \<and> n \<le> 57 then Some (n + 4)
     else if n = 43 then Some 62
     else if n = 47 then Some 63
     else None)"

fun b64_values :: "string \<Rightarrow> nat list option" where
  "b64_values [] = Some []"
| "b64_values (c # cs) = (case b64_value c of
     None \<Rightarrow> None
   | Some v \<Rightarrow> map_option (Cons v) (b64_values cs))"

fun decode_sextets :: "nat list \<Rightarrow> nat list" where
  "decode_sextets (a # b # c # d # rest) =
     (4 * a + b div 16) # (16 * (b mod 16) + c div 4) # (64 * (c mod 4) + d) # decode_sextets rest"
| "decode_sextets [a, b, c] = [4 * a + b div 16, 16 * (b mod 16) + c div 4]"
| "decode_sextets [a, b] = [4 * a + b div 16]"
| "decode_sextets [a] = []"
| "decode_sextets [] = []"

definition drop_padding :: "string \<Rightarrow> string" where
  "drop_padding s =
     (if length s mod 4 \<noteq> 0 then s
      else if drop (length s - 2) s = ''=='' then take (length s - 2) s
      else if drop (length s - 1) s = ''='' then take (length s - 1) s
      else s)"

definition atob :: "string \<Rightarrow> string option" where
  "atob s = (let t = drop_padding (filter (\<lambda>c. \<not> ascii_ws c) s) in
     if length t mod 4 = 1 then None
     else map_option (\<lambda>vs. map char_of (decode_sextets vs)) (b64_values t))"

definition to_bytes :: "string \<Rightarrow> bytes" where
  "to_bytes s = map (\<lambda>c. word_of_nat (of_char c)) s"

definition encode_utf8 :: "string \<Rightarrow> bytes" where
  "encode_utf8 s = map word_of_nat (concat (map utf8_encode_char s))"

text \<open>From the URL alphabet to the standard one, with the padding put back.\<close>

definition from_base64url :: "string \<Rightarrow> string" where
  "from_base64url s = (let normalized = replace_char (CHR ''_'') (CHR ''/'') (replace_char (CHR ''-'') (CHR ''+'') s) in
     normalized @ (if length s mod 4 = 0 then [] else replicate (4 - length s mod 4) (CHR ''='')))"

section \<open>lib/session-token.ts\<close>

definition decodeBase64Url :: "'w host \<Rightarrow> string \<Rightarrow> string option" where
  "decodeBase64Url h value = map_option (\<lambda>binary. utf8_decode h (to_bytes binary)) (atob (from_base64url value))"

fun xor_diff :: "bytes \<Rightarrow> bytes \<Rightarrow> 8 word \<Rightarrow> 8 word" where
  "xor_diff (a # as) (b # bs) diff = xor_diff as bs (diff OR (a XOR b))"
| "xor_diff _ _ diff = diff"

definition timingSafeEqual :: "bytes \<Rightarrow> bytes \<Rightarrow> bool" where
  "timingSafeEqual a b = (if length a \<noteq> length b then False else xor_diff a b 0 = 0)"

definition parse_segment :: "'w host \<Rightarrow> string \<Rightarrow> json option" where
  "parse_segment h part = (case decodeBase64Url h part of None \<Rightarrow> None | Some t \<Rightarrow> json_parse h t)"

definition decodeJWTClaims :: "'w host \<Rightarrow> string \<Rightarrow> json option" where
  "decodeJWTClaims h token = (case split_on (CHR ''.'') token of
     [p0, p1, p2] \<Rightarrow> parse_segment h p1
   | _ \<Rightarrow> None)"

definition token_mac :: "'w host \<Rightarrow> string \<Rightarrow> string \<Rightarrow> string \<Rightarrow> bytes" where
  "token_mac h trimmedSecret p0 p1 =
     hmac_sha256 h (encode_utf8 trimmedSecret) (encode_utf8 (p0 @ ''.'' @ p1))"

definition token_expired :: "json \<Rightarrow> int \<Rightarrow> bool" where
  "token_expired claims now = (case json_prop (Some claims) ''exp'' of
     Some (JNum e) \<Rightarrow> e \<le> of_int (now div 1000)
   | _ \<Rightarrow> False)"

text \<open>\<open>None\<close> is the result null, which every failure and every exception gives; claims that are the
  JSON value null make the access to \<open>claims.exp\<close> throw.\<close>

definition verifyParticipantSessionToken :: "'w host \<Rightarrow> int \<Rightarrow> string \<Rightarrow> string \<Rightarrow> json option" where
  "verifyParticipantSessionToken h now token secret = (
     let trimmedSecret = trim secret in
     if trim token = [] \<or> trimmedSecret = [] then None
     else (case split_on (CHR ''.'') token of
       [p0, p1, p2] \<Rightarrow>
         (case parse_segment h p0 of
            None \<Rightarrow> None
          | Some header \<Rightarrow>
              if json_prop (Some header) ''alg'' \<noteq> Some (JStr ''HS256'') \<or>
                 json_prop (Some header) ''typ'' \<noteq> Some (JStr ''JWT'') then None
              else (case atob (from_base64url p2) of
                None \<Rightarrow> None
              | Some provided \<Rightarrow>
                  if \<not> timingSafeEqual (token_mac h trimmedSecret p0 p1) (to_bytes provided) then None
                  else (case parse_segment h p1 of
                    None \<Rightarrow> None
                  | Some claims \<Rightarrow>
                      if claims = JNull then None
                      else if token_expired claims now then None
                      else Some claims)))
     | _ \<Rightarrow> None))"

section \<open>lib/session-validation.ts\<close>

record ValidatedParticipantSession =
  vs_player_id :: rat
  vs_team_id :: rat
  vs_team_name :: string
  vs_team_contact_email :: string
  vs_display_name :: string
  vs_email :: string
  vs_role :: string

datatype ParticipantSessionValidation =
  Validated ValidatedParticipantSession | Deactivated | NotValidated

definition trimBaseUrl :: "string \<Rightarrow> string" where
  "trimBaseUrl value = rev (dropWhile (\<lambda>c. c = CHR ''/'') (rev (trim value)))"

definition apiBaseUrl :: "'w host \<Rightarrow> string" where
  "apiBaseUrl h = trimBaseUrl (coalesce (env h ''AD_PLATFORM_API_URL'') ''http://127.0.0.1:8080'')"

definition string_or_empty :: "json option \<Rightarrow> string" where
  "string_or_empty v = (case v of Some (JStr s) \<Rightarrow> s | _ \<Rightarrow> [])"

definition validated_payload :: "json \<Rightarrow> ParticipantSessionValidation" where
  "validated_payload payload = (let p = json_prop (Some payload) in
     case (p ''player_id'', p ''team_id'', p ''role'') of
       (Some (JNum player), Some (JNum team), Some (JStr role)) \<Rightarrow>
         Validated \<lparr>vs_player_id = player, vs_team_id = team,
           vs_team_name = string_or_empty (p ''team_name''),
           vs_team_contact_email = string_or_empty (p ''team_contact_email''),
           vs_display_name = string_or_empty (p ''display_name''),
           vs_email = string_or_empty (p ''email''), vs_role = role\<rparr>
     | _ \<Rightarrow> NotValidated)"

definition session_request :: "'w host \<Rightarrow> string \<Rightarrow> request" where
  "session_request h token = \<lparr>rq_method = ''GET'', rq_url = apiBaseUrl h @ ''/api/v2/session'',
     rq_headers = [(''authorization'', ''Bearer '' @ token)], rq_body = None\<rparr>"

definition session_answer :: "response \<Rightarrow> ParticipantSessionValidation" where
  "session_answer r =
     (if \<not> resp_ok r then
        (if rs_status r = 403 \<and> json_prop (rs_json r) ''title'' = Some (JStr ''Access deactivated'')
         then Deactivated else NotValidated)
      else (case rs_json r of Some payload \<Rightarrow> validated_payload payload | None \<Rightarrow> NotValidated))"

definition validateParticipantSessionWithAPI :: "'w host \<Rightarrow> string \<Rightarrow> ('w, ParticipantSessionValidation) js" where
  "validateParticipantSessionWithAPI h token =
     (if trim token = [] then js_return NotValidated
      else js_catch
        (js_bind (js_fetch h (session_request h token)) (\<lambda>r. js_return (session_answer r)))
        (\<lambda>_. js_return NotValidated))"

section \<open>lib/participant-session-cookie.ts\<close>

definition participantSessionCookieName :: string where
  "participantSessionCookieName = ''ad_platform_team_jwt''"

definition sessionCookieSecure :: "'w host \<Rightarrow> bool" where
  "sessionCookieSecure h \<longleftrightarrow> env h ''NODE_ENV'' = Some ''production''"

definition participantSessionCookie :: "'w host \<Rightarrow> json option \<Rightarrow> int \<Rightarrow> session_cookie" where
  "participantSessionCookie h value maxAge =
     \<lparr>ck_name = participantSessionCookieName, ck_value = value, ck_httpOnly = True, ck_sameSite = ''lax'',
      ck_secure = sessionCookieSecure h, ck_path = ''/'', ck_maxAge = maxAge\<rparr>"

section \<open>Comparing signatures\<close>

lemma word_or_eq_0: "(a OR b = 0) = (a = 0 \<and> b = 0)" for a b :: "8 word"
  by (metis or_eq_0_iff)

lemma word_xor_eq_0: "(a XOR b = 0) = (a = b)" for a b :: "8 word"
  by (metis bit.xor_cancel_right bit.xor_self bit.xor_left_self xor.right_neutral)

lemma xor_diff_eq_0:
  "length a = length b \<Longrightarrow> xor_diff a b d = 0 \<longleftrightarrow> d = 0 \<and> a = b"
  by (induction a b d rule: xor_diff.induct) (auto simp: word_or_eq_0 word_xor_eq_0)

lemma timingSafeEqual_iff: "timingSafeEqual a b \<longleftrightarrow> a = b"
  by (auto simp: timingSafeEqual_def xor_diff_eq_0)

section \<open>The encoder that issued tokens use\<close>

text \<open>The unpadded URL encoding of RFC 4648, as the issuer of the tokens uses it.\<close>

definition url_char :: "nat \<Rightarrow> char" where
  "url_char v = (if v < 26 then char_of (65 + v) else if v < 52 then char_of (71 + v)
     else if v < 62 then char_of (v - 4) else if v = 62 then CHR ''-'' else CHR ''_'')"

fun encode_sextets :: "nat list \<Rightarrow> nat list" where
  "encode_sextets (x # y # z # rest) =
     (x div 4) # (16 * (x mod 4) + y div 16) # (4 * (y mod 16) + z div 64) # (z mod 64) # encode_sextets rest"
| "encode_sextets [x, y] = [x div 4, 16 * (x mod 4) + y div 16, 4 * (y mod 16)]"
| "encode_sextets [x] = [x div 4, 16 * (x mod 4)]"
| "encode_sextets [] = []"

definition encode_base64url :: "bytes \<Rightarrow> string" where
  "encode_base64url bs = map url_char (encode_sextets (map unat bs))"

definition issue_token :: "'w host \<Rightarrow> string \<Rightarrow> bytes \<Rightarrow> bytes \<Rightarrow> string" where
  "issue_token h secret header claims = (
     let p0 = encode_base64url header; p1 = encode_base64url claims in
     p0 @ ''.'' @ p1 @ ''.'' @ encode_base64url (token_mac h (trim secret) p0 p1))"

definition std_char :: "char \<Rightarrow> char" where
  "std_char c = (if c = CHR ''-'' then CHR ''+'' else if c = CHR ''_'' then CHR ''/'' else c)"

lemma char_eq_code: "c = d \<longleftrightarrow> of_char c = (of_char d :: nat)"
  by (metis char_of_char)

lemma char_codes:
  "of_char (CHR ''-'') = (45 :: nat)" "of_char (CHR ''_'') = (95 :: nat)" "of_char (CHR ''.'') = (46 :: nat)"
  "of_char (CHR ''+'') = (43 :: nat)" "of_char (CHR ''/'') = (47 :: nat)" "of_char (CHR ''='') = (61 :: nat)"
  by code_simp+

lemma url_char_code:
  "v < 64 \<Longrightarrow> of_char (url_char v) = (if v < 26 then 65 + v else if v < 52 then 71 + v
     else if v < 62 then v - 4 else if v = 62 then 45 else 95)"
  by (simp add: url_char_def char_codes)

lemma std_char_code:
  "of_char (std_char c) = (let n = (of_char c :: nat) in if n = 45 then 43 else if n = 95 then 47 else n)"
  by (simp add: std_char_def char_eq_code char_codes Let_def)

lemma url_char_facts:
  assumes "v < 64"
  shows "b64_value (std_char (url_char v)) = Some v" "url_char v \<noteq> CHR ''.''" "\<not> is_ws (url_char v)"
proof -
  show "b64_value (std_char (url_char v)) = Some v"
    using assms unfolding b64_value_def std_char_code url_char_code [OF assms] Let_def
    by (simp split: if_splits) arith
  show "url_char v \<noteq> CHR ''.''"
    unfolding char_eq_code url_char_code [OF assms] char_codes by (simp split: if_splits) arith
  show "\<not> is_ws (url_char v)"
    unfolding is_ws_def url_char_code [OF assms] Let_def using assms by (simp split: if_splits) arith
qed

lemma b64_value_not_special:
  assumes "b64_value c = Some v"
  shows "\<not> ascii_ws c" "c \<noteq> CHR ''=''"
  using assms by (auto simp: b64_value_def ascii_ws_def Let_def split: if_splits)

lemma normalize_map:
  "replace_char (CHR ''_'') (CHR ''/'') (replace_char (CHR ''-'') (CHR ''+'') s) = map std_char s"
  by (auto simp: replace_char_def std_char_def)

lemma encode_sextets_less: "\<forall>x \<in> set xs. x < 256 \<Longrightarrow> v \<in> set (encode_sextets xs) \<Longrightarrow> v < 64"
proof (induction xs arbitrary: v rule: encode_sextets.induct)
  case (1 x y z rest)
  have "v \<in> {x div 4, 16 * (x mod 4) + y div 16, 4 * (y mod 16) + z div 64, z mod 64} \<or> v \<in> set (encode_sextets rest)"
    using "1.prems"(2) by auto
  moreover have "x < 256" "y < 256" "z < 256" using "1.prems"(1) by auto
  ultimately show ?case using "1.IH" "1.prems"(1) by auto
qed auto

lemma decode_encode_sextets:
  "\<forall>x \<in> set xs. x < 256 \<Longrightarrow> decode_sextets (encode_sextets xs) = xs"
  by (induction xs rule: encode_sextets.induct) auto

lemma length_encode_sextets: "length (encode_sextets xs) mod 4 \<noteq> 1"
  by (induction xs rule: encode_sextets.induct) auto

lemma b64_values_encode:
  "\<forall>v \<in> set vs. v < 64 \<Longrightarrow> b64_values (map std_char (map url_char vs)) = Some vs"
  by (induction vs) (simp_all add: url_char_facts)

lemma filter_alphabet: "b64_values t = Some vs \<Longrightarrow> filter (\<lambda>c. \<not> ascii_ws c) t = t"
  by (induction t arbitrary: vs) (auto simp: b64_value_not_special split: option.splits)

lemma no_padding_sign: "b64_values t = Some vs \<Longrightarrow> CHR ''='' \<notin> set t"
  by (induction t arbitrary: vs) (auto dest: b64_value_not_special(2) split: option.splits)

lemma drop_padding_pad:
  assumes "CHR ''='' \<notin> set t" and "length t mod 4 \<noteq> 1"
  shows "drop_padding (t @ (if length t mod 4 = 0 then [] else replicate (4 - length t mod 4) (CHR ''=''))) = t"
proof -
  have last: "drop k t \<noteq> [CHR ''='']" "drop k t \<noteq> ''==''" for k
    using assms(1) set_drop_subset [of k t] by auto
  consider "length t mod 4 = 0" | "length t mod 4 = 2" | "length t mod 4 = 3"
    using assms(2) by linarith
  then show ?thesis
  proof cases
    case 1
    then show ?thesis using last by (simp add: drop_padding_def)
  next
    case 2
    then have "length (t @ ''=='') mod 4 = 0" by (simp add: mod_Suc)
    moreover have "replicate (4 - length t mod 4) (CHR ''='') = ''==''"
      using 2 by (simp add: numeral_2_eq_2)
    ultimately show ?thesis using 2 by (simp add: drop_padding_def)
  next
    case 3
    then have l: "length (t @ ''='') mod 4 = 0" by (simp add: mod_Suc)
    have r: "replicate (4 - length t mod 4) (CHR ''='') = ''=''" using 3 by simp
    have "drop (length (t @ ''='') - 2) (t @ ''='') \<noteq> ''==''"
    proof
      assume "drop (length (t @ ''='') - 2) (t @ ''='') = ''==''"
      then have "drop (length t - 1) t @ ''='' = ''==''" by simp
      then show False using last [of "length t - 1"] by simp
    qed
    with l show ?thesis unfolding r using 3 by (simp add: drop_padding_def)
  qed
qed

lemma byte_less: "unat b < 256" for b :: "8 word"
  using unsigned_less [of b, where ?'a = nat] by simp

lemma atob_encode: "atob (from_base64url (encode_base64url bs)) = Some (map (\<lambda>b. char_of (unat b)) bs)"
proof -
  let ?xs = "map unat bs"
  let ?s = "encode_base64url bs"
  have small: "\<forall>x \<in> set ?xs. x < 256" by (auto simp: byte_less)
  then have vals: "b64_values (map std_char ?s) = Some (encode_sextets ?xs)"
    unfolding encode_base64url_def using b64_values_encode encode_sextets_less by blast
  let ?pad = "if length ?s mod 4 = 0 then [] else replicate (4 - length ?s mod 4) (CHR ''='')"
  have f: "from_base64url ?s = map std_char ?s @ ?pad"
    by (simp add: from_base64url_def normalize_map)
  have ws: "filter (\<lambda>c. \<not> ascii_ws c) ?pad = ?pad"
    by (simp add: ascii_ws_def char_codes)
  have len: "length (map std_char ?s) mod 4 \<noteq> 1"
    using length_encode_sextets [of ?xs] by (simp add: encode_base64url_def)
  have "drop_padding (map std_char ?s @ ?pad) = map std_char ?s"
    using drop_padding_pad [OF no_padding_sign [OF vals] len] unfolding length_map .
  then have "drop_padding (filter (\<lambda>c. \<not> ascii_ws c) (from_base64url ?s)) = map std_char ?s"
    unfolding f filter_append ws filter_alphabet [OF vals] .
  then show ?thesis
    using len by (simp add: atob_def vals decode_encode_sextets [OF small] o_def)
qed

lemma to_bytes_chars: "to_bytes (map (\<lambda>b. char_of (unat b)) bs) = bs"
proof -
  have "word_of_nat (of_char (char_of (unat b) :: char)) = (b :: 8 word)" for b :: "8 word"
    using byte_less [of b] by simp
  then show ?thesis by (simp add: to_bytes_def o_def)
qed

lemma parse_segment_encode: "parse_segment h (encode_base64url bs) = json_parse h (utf8_decode h bs)"
  by (simp add: parse_segment_def decodeBase64Url_def atob_encode to_bytes_chars)

lemma encode_base64url_chars:
  assumes "c \<in> set (encode_base64url bs)"
  shows "c \<noteq> CHR ''.''" "\<not> is_ws c"
proof -
  obtain v where "v \<in> set (encode_sextets (map unat bs))" "c = url_char v"
    using assms by (auto simp: encode_base64url_def)
  moreover have "\<forall>x \<in> set (map unat bs). x < 256" by (auto simp: byte_less)
  ultimately have "v < 64" "c = url_char v" using encode_sextets_less by blast+
  then show "c \<noteq> CHR ''.''" "\<not> is_ws c" using url_char_facts(2,3) by (simp_all only:) simp_all
qed

lemma split_issued:
  assumes "CHR ''.'' \<notin> set a" and "CHR ''.'' \<notin> set b" and "CHR ''.'' \<notin> set c"
  shows "split_on (CHR ''.'') (a @ ''.'' @ b @ ''.'' @ c) = [a, b, c]"
  using assms by (simp add: split_on_append split_on_no_delim)

section \<open>What an accepted token is\<close>

definition hs256_header :: "json \<Rightarrow> bool" where
  "hs256_header header \<longleftrightarrow> json_prop (Some header) ''alg'' = Some (JStr ''HS256'') \<and>
     json_prop (Some header) ''typ'' = Some (JStr ''JWT'')"

lemma verify_eq_Some:
  "verifyParticipantSessionToken h now token secret = Some claims \<longleftrightarrow>
     trim token \<noteq> [] \<and> trim secret \<noteq> [] \<and>
     (\<exists>p0 p1 p2 header sig. split_on (CHR ''.'') token = [p0, p1, p2] \<and>
        parse_segment h p0 = Some header \<and> hs256_header header \<and>
        atob (from_base64url p2) = Some sig \<and> to_bytes sig = token_mac h (trim secret) p0 p1 \<and>
        parse_segment h p1 = Some claims \<and> claims \<noteq> JNull \<and> \<not> token_expired claims now)"
  (is "?lhs \<longleftrightarrow> ?rhs")
proof
  show "?lhs \<Longrightarrow> ?rhs"
    unfolding verifyParticipantSessionToken_def Let_def timingSafeEqual_iff hs256_header_def
    by (simp split: if_splits list.splits option.splits)
  show "?rhs \<Longrightarrow> ?lhs"
    unfolding verifyParticipantSessionToken_def Let_def timingSafeEqual_iff hs256_header_def by fastforce
qed

text \<open>
  C2. A session token is accepted only when it is authentic and current: it has three parts, its
  header names HS256 and JWT, its third part decodes to the MAC of the first two under the trimmed
  secret, and the claims returned are those of the second part, which have not expired. An empty
  secret accepts nothing.
\<close>

theorem verifyParticipantSessionToken_sound:
  assumes "verifyParticipantSessionToken h now token secret = Some claims"
  shows "\<exists>p0 p1 p2 header sig. token = p0 @ ''.'' @ p1 @ ''.'' @ p2 \<and>
     parse_segment h p0 = Some header \<and> json_prop (Some header) ''alg'' = Some (JStr ''HS256'') \<and>
     atob (from_base64url p2) = Some sig \<and>
     to_bytes sig = hmac_sha256 h (encode_utf8 (trim secret)) (encode_utf8 (p0 @ ''.'' @ p1)) \<and>
     parse_segment h p1 = Some claims \<and> trim secret \<noteq> [] \<and>
     (\<forall>e. json_prop (Some claims) ''exp'' = Some (JNum e) \<longrightarrow> of_int (now div 1000) < e)"
proof -
  from assms obtain p0 p1 p2 header sig where
    p: "split_on (CHR ''.'') token = [p0, p1, p2]" "parse_segment h p0 = Some header" "hs256_header header"
      "atob (from_base64url p2) = Some sig" "to_bytes sig = token_mac h (trim secret) p0 p1"
      "parse_segment h p1 = Some claims" "\<not> token_expired claims now" "trim secret \<noteq> []"
    unfolding verify_eq_Some by (elim conjE exE)
  have "token = p0 @ ''.'' @ p1 @ ''.'' @ p2"
    using join_split_on [of "CHR ''.''" token] p(1) by simp
  moreover have "of_int (now div 1000) < e" if "json_prop (Some claims) ''exp'' = Some (JNum e)" for e
    using p(7) that by (simp add: token_expired_def)
  ultimately show ?thesis
    using p unfolding hs256_header_def token_mac_def
    by (elim conjE) (intro exI conjI allI impI; assumption)
qed

lemma trim_eq_Nil: "trim s = [] \<longleftrightarrow> list_all is_ws s"
proof
  assume "trim s = []"
  then have "\<not> (trim_start s \<noteq> [] \<and> \<not> is_ws (hd (trim_start s)))"
    using hd_trim_start [of s] trim_end_prefix [of "trim_start s"]
    by (auto simp: trim_def) (metis hd_in_set list_all_iff trim_start_def hd_dropWhile)
  then have "trim_start s = []" using hd_trim_start by blast
  then show "list_all is_ws s" by (simp add: trim_start_def dropWhile_eq_Nil_conv list_all_iff)
next
  assume "list_all is_ws s"
  then have "trim_start s = []" by (simp add: trim_start_def dropWhile_eq_Nil_conv list_all_iff)
  then show "trim s = []" by (simp add: trim_def trim_end_def)
qed

lemma verify_issued:
  assumes "trim secret \<noteq> []"
    and "json_parse h (utf8_decode h header) = Some hj" and "hs256_header hj"
    and "json_parse h (utf8_decode h payload) = Some claims" and "claims \<noteq> JNull"
    and "\<not> token_expired claims now"
  shows "verifyParticipantSessionToken h now (issue_token h secret header payload) secret = Some claims"
proof -
  let ?p0 = "encode_base64url header" and ?p1 = "encode_base64url payload"
  let ?p2 = "encode_base64url (token_mac h (trim secret) ?p0 ?p1)"
  have t: "issue_token h secret header payload = ?p0 @ ''.'' @ ?p1 @ ''.'' @ ?p2"
    by (simp add: issue_token_def Let_def)
  have sp: "split_on (CHR ''.'') (issue_token h secret header payload) = [?p0, ?p1, ?p2]"
    unfolding t by (rule split_issued) (use encode_base64url_chars(1) in blast)+
  have "trim (issue_token h secret header payload) \<noteq> []"
    unfolding trim_eq_Nil t by (simp add: is_ws_def char_codes)
  with assms sp show ?thesis
    unfolding verify_eq_Some by (simp add: parse_segment_encode atob_encode to_bytes_chars)
qed

text \<open>
  C3. Every token that an issuer builds in the standard way (unpadded URL-safe base64 of header and
  claims, and the MAC of the two parts under the shared secret) is accepted until it expires, and
  yields exactly its claims, for any MAC function and any bytes.
\<close>

theorem verifyParticipantSessionToken_complete:
  assumes "trim secret \<noteq> []"
    and "json_parse h (utf8_decode h header) = Some hj"
    and "json_prop (Some hj) ''alg'' = Some (JStr ''HS256'')" and "json_prop (Some hj) ''typ'' = Some (JStr ''JWT'')"
    and "json_parse h (utf8_decode h payload) = Some claims" and "claims \<noteq> JNull"
    and "\<forall>e. json_prop (Some claims) ''exp'' = Some (JNum e) \<longrightarrow> of_int (now div 1000) < e"
  shows "verifyParticipantSessionToken h now (issue_token h secret header payload) secret = Some claims"
  by (rule verify_issued)
    (use assms in \<open>auto simp: hs256_header_def token_expired_def split: option.splits json.splits\<close>)

text \<open>A host with a toy MAC and a two-entry JSON reader, for the examples.\<close>

definition token_host :: "(request \<Rightarrow> response result) \<Rightarrow> unit host" where
  "token_host answer = (table_host answer)\<lparr>
     env := (\<lambda>k. if k = ''TEAM_JWT_SECRET'' then Some ''s3cret'' else None),
     json_parse := (\<lambda>t. if t = ''H'' then Some (JObj [(''alg'', JStr ''HS256''), (''typ'', JStr ''JWT'')])
       else if t = ''C'' then Some (JObj [(''role'', JStr ''organizer''), (''exp'', JNum 100)]) else None)\<rparr>"

lemma token_host_parse:
  "json_parse (token_host a) (utf8_decode (token_host a) [72]) = Some (JObj [(''alg'', JStr ''HS256''), (''typ'', JStr ''JWT'')])"
  "json_parse (token_host a) (utf8_decode (token_host a) [67]) = Some (JObj [(''role'', JStr ''organizer''), (''exp'', JNum 100)])"
proof -
  have "[char_of (unat (72 :: 8 word))] = ''H''" "[char_of (unat (67 :: 8 word))] = ''C''" by code_simp+
  then show "json_parse (token_host a) (utf8_decode (token_host a) [72]) = Some (JObj [(''alg'', JStr ''HS256''), (''typ'', JStr ''JWT'')])"
    "json_parse (token_host a) (utf8_decode (token_host a) [67]) = Some (JObj [(''role'', JStr ''organizer''), (''exp'', JNum 100)])"
    by (simp_all add: token_host_def table_host_def)
qed

lemma verify_token_host:
  assumes "now < 100000"
  shows "verifyParticipantSessionToken (token_host a) now (issue_token (token_host a) ''s3cret'' [72] [67]) ''s3cret''
     = Some (JObj [(''role'', JStr ''organizer''), (''exp'', JNum 100)])"
proof (rule verify_issued [OF _ token_host_parse(1) _ token_host_parse(2)])
  show "trim ''s3cret'' \<noteq> []" by code_simp
  have "now div 1000 < 100" using assms by linarith
  then have "of_int (now div 1000) < (of_int 100 :: rat)" unfolding of_int_less_iff .
  then show "\<not> token_expired (JObj [(''role'', JStr ''organizer''), (''exp'', JNum 100)]) now"
    by (simp add: token_expired_def json_prop_def)
qed (simp_all add: hs256_header_def json_prop_def)

theorem verifyParticipantSessionToken_sound_witness:
  "\<exists>p0 p1 p2. issue_token (token_host (\<lambda>_. Inl NonError)) ''s3cret'' [72] [67] = p0 @ ''.'' @ p1 @ ''.'' @ p2 \<and>
     parse_segment (token_host (\<lambda>_. Inl NonError)) p1 = Some (JObj [(''role'', JStr ''organizer''), (''exp'', JNum 100)])"
  using verifyParticipantSessionToken_sound [OF verify_token_host [of 0 "\<lambda>_. Inl NonError"]] by simp blast

theorem verifyParticipantSessionToken_complete_witness:
  "verifyParticipantSessionToken (token_host (\<lambda>_. Inl NonError)) 99999
       (issue_token (token_host (\<lambda>_. Inl NonError)) ''s3cret'' [72] [67]) ''s3cret''
     = Some (JObj [(''role'', JStr ''organizer''), (''exp'', JNum 100)])"
proof (rule verifyParticipantSessionToken_complete [OF _ token_host_parse(1) _ _ token_host_parse(2)])
  show "trim ''s3cret'' \<noteq> []" by code_simp
qed (simp_all add: json_prop_def)

section \<open>Validation by the API\<close>

lemma validate_run:
  "validateParticipantSessionWithAPI h token w =
     (if trim token = [] then (Inr NotValidated, w)
      else case fetch_fn h (session_request h token) (net w) of
        (r, n) \<Rightarrow> (Inr (case r of Inl _ \<Rightarrow> NotValidated | Inr resp \<Rightarrow> session_answer resp),
                  w\<lparr>net := n, sent := sent w @ [session_request h token]\<rparr>))"
  by (simp add: validateParticipantSessionWithAPI_def js_defs js_fetch_def split: prod.splits sum.splits)

lemma session_answer_Validated:
  "session_answer r = Validated s \<longleftrightarrow> resp_ok r \<and> (\<exists>payload. rs_json r = Some payload \<and> validated_payload payload = Validated s)"
  by (auto simp: session_answer_def split: option.splits if_splits)

lemma validated_payload_role:
  "validated_payload payload = Validated s \<Longrightarrow> json_prop (Some payload) ''role'' = Some (JStr (vs_role s))"
  by (auto simp: validated_payload_def Let_def split: option.splits json.splits)

end
