(* ===== verification/Edge_Proxy.thy ===== *)
theory Edge_Proxy
  imports Session_Token
begin

text \<open>
  The edge proxy (\<open>proxy.ts\<close>) that stands before every admin page, admin route and session route:
  cross-site mutations are refused, and organizer surfaces are passed on only with a session that
  verifies and that the platform API confirms to be an organizer's.
\<close>

section \<open>proxy.ts\<close>

text \<open>The parts of a \<open>NextRequest\<close> the proxy reads; \<open>nr_host\<close> and \<open>nr_protocol\<close> are those of \<open>nextUrl\<close>.\<close>

record next_request =
  nr_method :: string
  nr_pathname :: string
  nr_headers :: headers
  nr_host :: string
  nr_protocol :: string
  nr_cookies :: "string \<Rightarrow> string option"

datatype proxy_outcome = PassOn | RedirectTo string | DenyWith reply

definition unauthorizedApi :: "string \<Rightarrow> proxy_outcome" where
  "unauthorizedApi detail = DenyWith \<lparr>rp_status = 403, rp_headers = [(''content-type'', ''application/json'')],
     rp_body = JsonBody (JObj [(''title'', JStr ''Authentication required''), (''status'', JNum 403),
       (''detail'', JStr detail)]), rp_cookies = []\<rparr>"

definition isSafeMethod :: "string \<Rightarrow> bool" where
  "isSafeMethod m \<longleftrightarrow> m = ''GET'' \<or> m = ''HEAD'' \<or> m = ''OPTIONS''"

definition isBrowserMutationRoute :: "string \<Rightarrow> bool" where
  "isBrowserMutationRoute pathname \<longleftrightarrow>
     starts_with pathname ''/api/admin/'' \<or> starts_with pathname ''/api/platform/services/'' \<or>
     starts_with pathname ''/api/platform/session/''"

definition strip_colon :: "string \<Rightarrow> string" where
  "strip_colon s = (if s \<noteq> [] \<and> last s = CHR '':'' then butlast s else s)"

definition requestOrigin :: "next_request \<Rightarrow> string" where
  "requestOrigin rq = (
     let host = coalesce (hget (nr_headers rq) ''host'') (nr_host rq);
         forwardedProto = map_option (\<lambda>v. trim (hd (split_on (CHR '','') v))) (hget (nr_headers rq) ''x-forwarded-proto'');
         protocol = coalesce (or_undefined forwardedProto) (strip_colon (nr_protocol rq)) in
     protocol @ ''://'' @ host)"

definition sameOriginBrowserMutation :: "'w host \<Rightarrow> next_request \<Rightarrow> bool" where
  "sameOriginBrowserMutation h rq =
     (if isSafeMethod (nr_method rq) \<or> \<not> isBrowserMutationRoute (nr_pathname rq) then True
      else (let expectedOrigin = requestOrigin rq in
        if map_option toLowerCase (hget (nr_headers rq) ''sec-fetch-site'') = Some ''cross-site'' then False
        else (case or_undefined (hget (nr_headers rq) ''origin'') of
          Some origin \<Rightarrow> url_origin h origin = Some expectedOrigin
        | None \<Rightarrow> (case or_undefined (hget (nr_headers rq) ''referer'') of
            Some referer \<Rightarrow> url_origin h referer = Some expectedOrigin
          | None \<Rightarrow> True))))"

definition organizerSession :: "'w host \<Rightarrow> next_request \<Rightarrow> ('w, ValidatedParticipantSession option) js" where
  "organizerSession h rq = (\<lambda>w.
     case or_undefined (map_option trim (nr_cookies rq participantSessionCookieName)) of
       None \<Rightarrow> (Inr None, w)
     | Some token \<Rightarrow>
        (let secret = coalesce (map_option trim (env h ''TEAM_JWT_SECRET'')) [] in
         if secret = [] then (Inr None, w)
         else if \<not> truthy (verifyParticipantSessionToken h (clock h (net w)) token secret) then (Inr None, w)
         else js_bind (validateParticipantSessionWithAPI h token)
           (\<lambda>v. js_return (case v of Validated s \<Rightarrow> Some s | _ \<Rightarrow> None)) w))"

definition proxy :: "'w host \<Rightarrow> next_request \<Rightarrow> ('w, proxy_outcome) js" where
  "proxy h rq =
     (if \<not> sameOriginBrowserMutation h rq
      then js_return (unauthorizedApi ''cross-site mutation requests are not allowed.'')
      else js_bind (organizerSession h rq) (\<lambda>session.
        let organizer = (case session of Some s \<Rightarrow> vs_role s = ''organizer'' | None \<Rightarrow> False) in
        js_return (
          if starts_with (nr_pathname rq) ''/api/admin/'' then
            (if \<not> organizer then
               unauthorizedApi (if session \<noteq> None then ''please authenticate as organizer.''
                 else ''please authenticate before accessing organizer routes.'')
             else PassOn)
          else if \<not> starts_with (nr_pathname rq) ''/admin'' then PassOn
          else if session = None then RedirectTo ''/login''
          else if \<not> organizer then RedirectTo ''/''
          else PassOn)))"

section \<open>Who gets through\<close>

lemma organizerSession_Some:
  assumes "organizerSession h rq w = (Inr (Some s), w')"
  shows "\<exists>token claims. map_option trim (nr_cookies rq participantSessionCookieName) = Some token \<and> token \<noteq> [] \<and>
     verifyParticipantSessionToken h (clock h (net w)) token (trim (the (env h ''TEAM_JWT_SECRET''))) = Some claims \<and>
     env h ''TEAM_JWT_SECRET'' \<noteq> None \<and>
     validateParticipantSessionWithAPI h token w = (Inr (Validated s), w')"
proof -
  obtain token where token: "or_undefined (map_option trim (nr_cookies rq participantSessionCookieName)) = Some token"
    using assms by (cases "or_undefined (map_option trim (nr_cookies rq participantSessionCookieName))")
      (auto simp: organizerSession_def)
  obtain secret where secret: "env h ''TEAM_JWT_SECRET'' = Some secret"
    using assms token by (cases "env h ''TEAM_JWT_SECRET''") (auto simp: organizerSession_def)
  obtain claims where "verifyParticipantSessionToken h (clock h (net w)) token (trim secret) = Some claims"
    using assms token secret
    by (cases "verifyParticipantSessionToken h (clock h (net w)) token (trim secret)")
      (auto simp: organizerSession_def truthy_def Let_def split: if_splits)
  moreover have "validateParticipantSessionWithAPI h token w = (Inr (Validated s), w')"
    using assms token secret
    by (auto simp: organizerSession_def js_bind_def js_return_def Let_def
        split: if_splits prod.splits sum.splits ParticipantSessionValidation.splits)
  ultimately show ?thesis
    using token secret by (auto simp: or_undefined_eq_Some)
qed

lemma organizerSession_total: "\<exists>v w'. organizerSession h rq w = (Inr v, w')"
  by (simp add: organizerSession_def js_bind_def js_return_def validate_run Let_def split: option.splits prod.splits)

lemma proxy_total: "\<exists>v w'. proxy h rq w = (Inr v, w')"
  using organizerSession_total [of h rq w] by (auto simp: proxy_def js_defs Let_def)

lemma proxy_pass_cases:
  assumes "proxy h rq w = (Inr PassOn, w')"
    and "starts_with (nr_pathname rq) ''/api/admin/'' \<or> starts_with (nr_pathname rq) ''/admin''"
  shows "\<exists>s. organizerSession h rq w = (Inr (Some s), w') \<and> vs_role s = ''organizer''"
proof -
  obtain v w'' where v: "organizerSession h rq w = (Inr v, w'')" using organizerSession_total by blast
  show ?thesis
    using assms v
    by (cases v) (auto simp: proxy_def js_defs unauthorizedApi_def Let_def split: if_splits)
qed

text \<open>
  C1. Organizer surfaces are reachable by organizers only: a request for an admin page or an admin
  route is passed on only when its session cookie holds a token that verifies under the configured
  secret, and the platform API, asked with that very token after the verification, answered with a
  session whose role is organizer. In particular with no configured secret nobody passes.
\<close>

theorem proxy_admin_requires_organizer:
  assumes "proxy h rq w = (Inr PassOn, w')"
    and "starts_with (nr_pathname rq) ''/api/admin/'' \<or> starts_with (nr_pathname rq) ''/admin''"
  shows "\<exists>cookie secret claims resp n.
     nr_cookies rq ''ad_platform_team_jwt'' = Some cookie \<and> env h ''TEAM_JWT_SECRET'' = Some secret \<and>
     verifyParticipantSessionToken h (clock h (net w)) (trim cookie) (trim secret) = Some claims \<and>
     fetch_fn h (session_request h (trim cookie)) (net w) = (Inr resp, n) \<and> resp_ok resp \<and>
     json_prop (rs_json resp) ''role'' = Some (JStr ''organizer'') \<and>
     sent w' = sent w @ [session_request h (trim cookie)]"
proof -
  obtain s where s: "organizerSession h rq w = (Inr (Some s), w')" "vs_role s = ''organizer''"
    using proxy_pass_cases [OF assms] by blast
  then obtain token claims where t: "map_option trim (nr_cookies rq participantSessionCookieName) = Some token"
    "token \<noteq> []" "verifyParticipantSessionToken h (clock h (net w)) token (trim (the (env h ''TEAM_JWT_SECRET''))) = Some claims"
    "env h ''TEAM_JWT_SECRET'' \<noteq> None" "validateParticipantSessionWithAPI h token w = (Inr (Validated s), w')"
    using organizerSession_Some [OF s(1)] by blast
  obtain r n where f: "fetch_fn h (session_request h token) (net w) = (r, n)" by fastforce
  then obtain resp where resp: "r = Inr resp" "session_answer resp = Validated s"
    "sent w' = sent w @ [session_request h token]"
    using t(5) by (auto simp: validate_run split: if_splits sum.splits)
  then have "resp_ok resp" "json_prop (rs_json resp) ''role'' = Some (JStr ''organizer'')"
    using s(2) validated_payload_role by (auto simp: session_answer_Validated)
  with t f resp show ?thesis by (auto simp: participantSessionCookieName_def)
qed

definition organizer_answer :: "request \<Rightarrow> response result" where
  "organizer_answer _ = Inr \<lparr>rs_status = 200, rs_headers = [], rs_json = Some (JObj [(''player_id'', JNum 1),
     (''team_id'', JNum 1), (''role'', JStr ''organizer'')]), rs_body = None\<rparr>"

definition admin_request :: next_request where
  "admin_request = \<lparr>nr_method = ''GET'', nr_pathname = ''/admin/teams'', nr_headers = [], nr_host = ''ad.example'',
     nr_protocol = ''https:'', nr_cookies = (\<lambda>_. Some (issue_token (token_host organizer_answer) ''s3cret'' [72] [67]))\<rparr>"

lemma trim_issued: "trim (issue_token h secret he cl) = issue_token h secret he cl"
proof -
  have "\<not> is_ws c" if "c \<in> set (issue_token h secret he cl)" for c
    using that encode_base64url_chars(2) by (auto simp: issue_token_def Let_def is_ws_def char_codes)
  moreover have "issue_token h secret he cl \<noteq> []" by (simp add: issue_token_def Let_def)
  ultimately show ?thesis by (simp add: trim_id trimmed_def)
qed

lemma proxy_admin_example:
  "\<exists>w'. proxy (token_host organizer_answer) admin_request idle = (Inr PassOn, w')"
proof -
  let ?h = "token_host organizer_answer" and ?t = "issue_token (token_host organizer_answer) ''s3cret'' [72] [67]"
  have v: "verifyParticipantSessionToken ?h 0 ?t ''s3cret'' = Some (JObj [(''role'', JStr ''organizer''), (''exp'', JNum 100)])"
    by (rule verify_token_host) simp
  have tr: "trim ''s3cret'' = ''s3cret''" by code_simp
  have ne: "?t \<noteq> []" by (simp add: issue_token_def Let_def)
  have c: "clock ?h n = 0" "env ?h ''TEAM_JWT_SECRET'' = Some ''s3cret''" for n
    by (simp_all add: token_host_def table_host_def)
  have o: "or_undefined (map_option trim (nr_cookies admin_request participantSessionCookieName)) = Some ?t"
    using ne by (simp add: admin_request_def trim_issued or_undefined_eq_Some)
  have a: "\<exists>s. session_answer (projr (organizer_answer rq)) = Validated s \<and> vs_role s = ''organizer''" for rq
    by (simp add: session_answer_def organizer_answer_def resp_ok_def validated_payload_def json_prop_def Let_def)
  have f: "fetch_fn ?h rq n = (Inr (projr (organizer_answer rq)), n)" for rq n
    by (simp add: token_host_def table_host_def organizer_answer_def)
  obtain s where s: "session_answer (projr (organizer_answer (session_request ?h ?t))) = Validated s" "vs_role s = ''organizer''"
    using a by blast
  have "\<exists>w'. organizerSession ?h admin_request idle = (Inr (Some s), w')"
    using v ne s(1) by (simp add: organizerSession_def o c tr truthy_def js_defs validate_run f trim_issued)
  moreover have "sameOriginBrowserMutation ?h admin_request"
    by (simp add: sameOriginBrowserMutation_def admin_request_def isSafeMethod_def)
  ultimately show ?thesis
    using s(2) by (auto simp: proxy_def js_defs admin_request_def)
qed

theorem proxy_admin_requires_organizer_witness:
  "\<exists>cookie resp n. nr_cookies admin_request ''ad_platform_team_jwt'' = Some cookie \<and>
     fetch_fn (token_host organizer_answer) (session_request (token_host organizer_answer) (trim cookie)) (net idle) = (Inr resp, n) \<and>
     json_prop (rs_json resp) ''role'' = Some (JStr ''organizer'')"
proof -
  obtain w' where w: "proxy (token_host organizer_answer) admin_request idle = (Inr PassOn, w')"
    using proxy_admin_example by blast
  have "starts_with (nr_pathname admin_request) ''/api/admin/'' \<or> starts_with (nr_pathname admin_request) ''/admin''"
    by (simp add: admin_request_def)
  from proxy_admin_requires_organizer [OF w this] show ?thesis by blast
qed

section \<open>Cross-site requests\<close>

text \<open>
  C7. A mutation of an admin, service or session route that a browser sends from another origin is
  answered with 403 and reaches neither the route nor the platform API: this holds when the browser
  marks it as cross-site, when its Origin header does not parse to the expected origin, and, without
  an Origin, when its Referer does not.
\<close>

theorem proxy_rejects_cross_site_mutation:
  assumes "nr_method rq \<notin> {''GET'', ''HEAD'', ''OPTIONS''}" and "isBrowserMutationRoute (nr_pathname rq)"
    and "map_option toLowerCase (hget (nr_headers rq) ''sec-fetch-site'') = Some ''cross-site'' \<or>
     (\<exists>origin. hget (nr_headers rq) ''origin'' = Some origin \<and> origin \<noteq> [] \<and>
        url_origin h origin \<noteq> Some (requestOrigin rq)) \<or>
     (\<exists>referer. hget (nr_headers rq) ''origin'' = None \<and> hget (nr_headers rq) ''referer'' = Some referer \<and>
        referer \<noteq> [] \<and> url_origin h referer \<noteq> Some (requestOrigin rq))"
  shows "\<exists>rep. proxy h rq w = (Inr (DenyWith rep), w) \<and> rp_status rep = 403"
proof -
  have u: "or_undefined (Some s) = Some s" if "s \<noteq> []" for s
    using that by (simp add: or_undefined_eq_Some)
  have "\<not> sameOriginBrowserMutation h rq"
    using assms u by (auto simp: sameOriginBrowserMutation_def isSafeMethod_def Let_def)
  then show ?thesis by (simp add: proxy_def unauthorizedApi_def js_return_def)
qed

definition forged_request :: next_request where
  "forged_request = admin_request\<lparr>nr_method := ''POST'', nr_pathname := ''/api/admin/teams'',
     nr_headers := [(''host'', ''ad.example''), (''origin'', ''https://evil.example'')]\<rparr>"

theorem proxy_rejects_cross_site_mutation_witness:
  "\<exists>rep. proxy (token_host organizer_answer) forged_request idle = (Inr (DenyWith rep), idle) \<and> rp_status rep = 403"
proof -
  have l: "toLowerCase ''origin'' = ''origin''" by code_simp
  have "nr_method forged_request \<notin> {''GET'', ''HEAD'', ''OPTIONS''}" "isBrowserMutationRoute (nr_pathname forged_request)"
    by (simp_all add: forged_request_def isBrowserMutationRoute_def)
  moreover have "hget (nr_headers forged_request) ''origin'' = Some ''https://evil.example''"
    by (simp add: forged_request_def hget_def l)
  moreover have "url_origin (token_host organizer_answer) ''https://evil.example'' \<noteq> Some (requestOrigin forged_request)"
    by (simp add: token_host_def table_host_def) code_simp
  ultimately show ?thesis
    using proxy_rejects_cross_site_mutation [of forged_request "token_host organizer_answer" idle] by blast
qed

end
