(* ===== verification/Participant_Api.thy ===== *)
theory Participant_Api
  imports Session_Token Attack_Feed
begin

text \<open>
  The participant side of the platform client (\<open>lib/platform-api.ts\<close>): the session of the caller, and
  one definition per call. React's \<open>cache\<close> only spares repeated calls while one page is rendered; here
  every use computes anew, which is what a route handler does.
\<close>

section \<open>The session\<close>

datatype session_source = FromCookie | FromEnv | NoSource

record ParticipantSession =
  ps_authenticated :: bool
  ps_token :: "string option"
  ps_teamID :: "rat option"
  ps_playerID :: "rat option"
  ps_teamName :: "string option"
  ps_teamContactEmail :: "string option"
  ps_displayName :: "string option"
  ps_email :: "string option"
  ps_role :: "string option"
  ps_source :: session_source
  ps_reason :: "string option"

definition platformRequestHeaders :: "'w host \<Rightarrow> headers \<Rightarrow> headers" where
  "platformRequestHeaders h initial = (case incoming_headers h of
     None \<Rightarrow> initial
   | Some incoming \<Rightarrow> (case firstForwardedAddress (hget incoming ''x-forwarded-for'') of
       Some clientAddress \<Rightarrow> hset ''X-Forwarded-For'' clientAddress initial
     | None \<Rightarrow> initial))"

definition participantApiBaseUrl :: "'w host \<Rightarrow> string" where
  "participantApiBaseUrl h = trimBaseUrl (coalesce (env h ''AD_PLATFORM_PUBLIC_BASE_URL'') (apiBaseUrl h))"

definition participantRealtimeBaseUrl :: string where
  "participantRealtimeBaseUrl = ''/api/platform/realtime''"

definition claimNumber :: "json option \<Rightarrow> string \<Rightarrow> rat option" where
  "claimNumber claims key = (case json_prop claims key of Some (JNum q) \<Rightarrow> Some q | _ \<Rightarrow> None)"

definition claimString :: "json option \<Rightarrow> string \<Rightarrow> string option" where
  "claimString claims key = (case json_prop claims key of Some (JStr s) \<Rightarrow> Some s | _ \<Rightarrow> None)"

text \<open>The validated session as the object it is in the code.\<close>

definition session_object :: "ValidatedParticipantSession \<Rightarrow> json" where
  "session_object v = JObj [(''player_id'', JNum (vs_player_id v)), (''team_id'', JNum (vs_team_id v)),
     (''team_name'', JStr (vs_team_name v)), (''team_contact_email'', JStr (vs_team_contact_email v)),
     (''display_name'', JStr (vs_display_name v)), (''email'', JStr (vs_email v)), (''role'', JStr (vs_role v))]"

definition authenticatedSession :: "string \<Rightarrow> session_source \<Rightarrow> json option \<Rightarrow> ParticipantSession" where
  "authenticatedSession token source claims =
     \<lparr>ps_authenticated = True, ps_token = Some token,
      ps_teamID = claimNumber claims ''team_id'', ps_playerID = claimNumber claims ''player_id'',
      ps_teamName = claimString claims ''team_name'',
      ps_teamContactEmail = claimString claims ''team_contact_email'',
      ps_displayName = claimString claims ''display_name'', ps_email = claimString claims ''email'',
      ps_role = claimString claims ''role'', ps_source = source, ps_reason = None\<rparr>"

definition no_session :: "string option \<Rightarrow> ParticipantSession" where
  "no_session reason =
     \<lparr>ps_authenticated = False, ps_token = None, ps_teamID = None, ps_playerID = None, ps_teamName = None,
      ps_teamContactEmail = None, ps_displayName = None, ps_email = None, ps_role = None,
      ps_source = NoSource, ps_reason = reason\<rparr>"

definition cookieParticipantToken :: "'w host \<Rightarrow> string option" where
  "cookieParticipantToken h = map_option trim (cookie_jar h participantSessionCookieName)"

definition validated_session ::
  "'w host \<Rightarrow> string \<Rightarrow> session_source \<Rightarrow> ('w, ParticipantSession) js" where
  "validated_session h token source =
     js_bind (validateParticipantSessionWithAPI h token) (\<lambda>validated. js_return (case validated of
       Deactivated \<Rightarrow> no_session (Some ''deactivated'')
     | Validated v \<Rightarrow> authenticatedSession token source (Some (session_object v))
     | NotValidated \<Rightarrow> no_session None))"

definition getParticipantSession :: "'w host \<Rightarrow> ('w, ParticipantSession) js" where
  "getParticipantSession h = (\<lambda>w.
     case or_undefined (map_option trim (env h ''AD_PLATFORM_TEAM_JWT'')) of
       Some directToken \<Rightarrow> validated_session h directToken FromEnv w
     | None \<Rightarrow> (case or_undefined (cookieParticipantToken h) of
         None \<Rightarrow> (Inr (no_session None), w)
       | Some cookieToken \<Rightarrow>
          (let cookieSecret = coalesce (map_option trim (env h ''TEAM_JWT_SECRET'')) [] in
           if \<not> truthy (verifyParticipantSessionToken h (clock h (net w)) cookieToken cookieSecret)
           then (Inr (no_session None), w)
           else validated_session h cookieToken FromCookie w)))"

definition getParticipantToken :: "'w host \<Rightarrow> ('w, string) js" where
  "getParticipantToken h = js_bind (getParticipantSession h) (\<lambda>session.
     if \<not> ps_authenticated session \<or> or_undefined (ps_token session) = None
     then js_throw (ErrorMessage not_authenticated_message)
     else js_return (the (ps_token session)))"

section \<open>Calls that issue a new token\<close>

definition json_content :: headers where
  "json_content = [(''content-type'', ''application/json'')]"

definition bearer_content :: "string \<Rightarrow> headers" where
  "bearer_content token = [(''content-type'', ''application/json''), (''authorization'', ''Bearer '' @ token)]"

text \<open>The reply of these calls: an error status throws, and the token is read from the payload, where
  a payload null has no properties.\<close>

definition token_answer :: "string \<Rightarrow> response \<Rightarrow> json option result" where
  "token_answer path r =
     (if \<not> resp_ok r then
        (case parseApiError r path of
           Inl e \<Rightarrow> Inl e
         | Inr m \<Rightarrow> Inl (new_PlatformAPIError m (rs_status r) (hget (rs_headers r) ''retry-after'')))
      else (case rs_json r of
         None \<Rightarrow> Inl (ErrorMessage ''response body is not JSON'')
       | Some JNull \<Rightarrow> Inl (ErrorMessage ''cannot read properties of null'')
       | Some payload \<Rightarrow> Inr (json_prop (Some payload) ''token'')))"

definition token_call ::
  "'w host \<Rightarrow> string \<Rightarrow> string \<Rightarrow> headers \<Rightarrow> json \<Rightarrow> ('w, json option) js" where
  "token_call h m path hs body =
     js_bind (js_fetch h \<lparr>rq_method = m, rq_url = apiBaseUrl h @ path,
        rq_headers = platformRequestHeaders h hs, rq_body = Some body\<rparr>)
       (\<lambda>r. js_lift (token_answer path r))"

definition authenticateParticipant :: "'w host \<Rightarrow> json \<Rightarrow> json \<Rightarrow> ('w, json option) js" where
  "authenticateParticipant h email password =
     token_call h ''POST'' ''/api/v2/authenticate'' json_content
       (JObj [(''email'', email), (''password'', password)])"

definition registerParticipant :: "'w host \<Rightarrow> string \<Rightarrow> string \<Rightarrow> json \<Rightarrow> ('w, json option) js" where
  "registerParticipant h displayName email password =
     token_call h ''POST'' ''/api/v2/register'' json_content
       (JObj [(''display_name'', JStr displayName), (''email'', JStr email), (''password'', password)])"

definition joinCurrentParticipantTeam :: "'w host \<Rightarrow> string \<Rightarrow> ('w, json option) js" where
  "joinCurrentParticipantTeam h teamKey = js_bind (getParticipantToken h) (\<lambda>token.
     token_call h ''POST'' ''/api/v2/me/team'' (bearer_content token) (JObj [(''team_key'', JStr teamKey)]))"

definition transferCurrentTeamCaptain :: "'w host \<Rightarrow> rat \<Rightarrow> ('w, json option) js" where
  "transferCurrentTeamCaptain h playerID = js_bind (getParticipantToken h) (\<lambda>token.
     token_call h ''POST'' ''/api/v2/me/team/captain'' (bearer_content token) (JObj [(''player_id'', JNum playerID)]))"

record ProfileUpdate =
  pu_displayName :: string
  pu_email :: string
  pu_teamName :: string
  pu_teamContactEmail :: string

definition updateCurrentParticipantProfile :: "'w host \<Rightarrow> ProfileUpdate \<Rightarrow> ('w, json option) js" where
  "updateCurrentParticipantProfile h input = js_bind (getParticipantToken h) (\<lambda>token.
     token_call h ''PUT'' ''/api/v2/me/profile'' (bearer_content token)
       (JObj [(''display_name'', JStr (pu_displayName input)), (''email'', JStr (pu_email input)),
         (''team_name'', JStr (pu_teamName input)), (''team_contact_email'', JStr (pu_teamContactEmail input))]))"

section \<open>Reading calls\<close>

definition participantFetch :: "'w host \<Rightarrow> string \<Rightarrow> request_init \<Rightarrow> ('w, json option) js" where
  "participantFetch h path init = js_bind (getParticipantToken h) (\<lambda>token.
     authenticatedFetch h (apiBaseUrl h) path (Some token)
       (init\<lparr>ri_headers := platformRequestHeaders h (ri_headers init)\<rparr>))"

definition participantFetchResponse :: "'w host \<Rightarrow> string \<Rightarrow> request_init \<Rightarrow> ('w, response) js" where
  "participantFetchResponse h path init = js_bind (getParticipantToken h) (\<lambda>token.
     js_bind (js_fetch h (init_request (apiBaseUrl h @ path) init
         (hset ''Authorization'' (''Bearer '' @ token) (platformRequestHeaders h (ri_headers init)))))
       (\<lambda>r. if \<not> resp_ok r then
          (case parseApiError r path of
             Inl e \<Rightarrow> js_throw e
           | Inr m \<Rightarrow> js_throw (new_PlatformAPIError m (rs_status r) (hget (rs_headers r) ''retry-after'')))
        else js_return r))"

definition publicFetch :: "'w host \<Rightarrow> string \<Rightarrow> ('w, json option) js" where
  "publicFetch h path =
     authenticatedFetch h (apiBaseUrl h) path None (no_init\<lparr>ri_headers := platformRequestHeaders h []\<rparr>)"

definition listCurrentTeamMembers :: "'w host \<Rightarrow> ('w, json option) js" where
  "listCurrentTeamMembers h = participantFetch h ''/api/v2/me/team/members'' no_init"

definition listChallenges :: "'w host \<Rightarrow> ('w, json option) js" where
  "listChallenges h = publicFetch h ''/api/v2/challenges''"

definition listServices :: "'w host \<Rightarrow> ('w, json option) js" where
  "listServices h = participantFetch h ''/api/v2/services'' no_init"

definition listScoreboard :: "'w host \<Rightarrow> ('w, json option) js" where
  "listScoreboard h = publicFetch h ''/api/v2/scoreboard''"

definition getScoreboardFreezeStatus :: "'w host \<Rightarrow> ('w, json option) js" where
  "getScoreboardFreezeStatus h = publicFetch h ''/api/v2/scoreboard/freeze''"

definition getGameStatus :: "'w host \<Rightarrow> ('w, json option) js" where
  "getGameStatus h = publicFetch h ''/api/v2/game/status''"

definition query_int :: "int option \<Rightarrow> query_value option" where
  "query_int v = map_option (\<lambda>n. QNum (Finite (of_int n))) v"

definition attack_query :: "AttackFeedQuery \<Rightarrow> (string \<times> query_value option) list" where
  "attack_query q = [(''limit'', query_int (aq_limit q)), (''offset'', query_int (aq_offset q)),
     (''attacker'', map_option QStr (aq_attacker q)), (''victim'', map_option QStr (aq_victim q)),
     (''service'', map_option QStr (aq_service q)), (''tick_from'', query_int (aq_tick_from q)),
     (''tick_to'', query_int (aq_tick_to q))]"

definition listAttackFeed :: "'w host \<Rightarrow> AttackFeedQuery \<Rightarrow> ('w, json option) js" where
  "listAttackFeed h query = publicFetch h (''/api/v2/attacks'' @ buildQueryString (attack_query query))"

definition listTeamServices :: "'w host \<Rightarrow> ('w, json option) js" where
  "listTeamServices h = participantFetch h ''/api/v2/team/services'' no_init"

text \<open>An identifier inside a path: \<open>String(id)\<close>.\<close>

definition id_text :: "int \<Rightarrow> string" where
  "id_text n = num_to_string (Finite (of_int n))"

definition unlockService :: "'w host \<Rightarrow> int \<Rightarrow> string \<Rightarrow> ('w, json option) js" where
  "unlockService h challengeID proof = participantFetch h (''/api/v2/services/'' @ id_text challengeID @ ''/unlock'')
     (body_init ''POST'' (JObj [(''proof'', JStr proof)]))"

definition createSSHSession :: "'w host \<Rightarrow> int \<Rightarrow> ('w, json option) js" where
  "createSSHSession h challengeID =
     participantFetch h (''/api/v2/services/'' @ id_text challengeID @ ''/ssh-session'') post_init"

definition factoryResetService :: "'w host \<Rightarrow> int \<Rightarrow> ('w, json option) js" where
  "factoryResetService h challengeID =
     participantFetch h (''/api/v2/services/'' @ id_text challengeID @ ''/reset/factory'') post_init"

definition restartService :: "'w host \<Rightarrow> int \<Rightarrow> ('w, json option) js" where
  "restartService h challengeID =
     participantFetch h (''/api/v2/services/'' @ id_text challengeID @ ''/reset/restart'') post_init"

definition downloadChallengeSource :: "'w host \<Rightarrow> int \<Rightarrow> ('w, response) js" where
  "downloadChallengeSource h challengeID =
     participantFetchResponse h (''/api/v2/challenges/'' @ id_text challengeID @ ''/source'') no_init"

definition downloadParticipantWireGuard :: "'w host \<Rightarrow> ('w, response) js" where
  "downloadParticipantWireGuard h = participantFetchResponse h ''/api/v2/me/wireguard'' no_init"

definition submitFlags :: "'w host \<Rightarrow> string list \<Rightarrow> ('w, json option) js" where
  "submitFlags h flags =
     participantFetch h ''/api/v2/submit'' (body_init ''POST'' (JObj [(''flags'', JArr (map JStr flags))]))"

definition changeParticipantPassword :: "'w host \<Rightarrow> json \<Rightarrow> json \<Rightarrow> ('w, json option) js" where
  "changeParticipantPassword h currentPassword newPassword =
     participantFetch h ''/api/v2/me/password''
       (body_init ''PUT'' (JObj [(''current_password'', currentPassword), (''new_password'', newPassword)]))"

definition listAnnouncements :: "'w host \<Rightarrow> ('w, json option) js" where
  "listAnnouncements h = publicFetch h ''/api/v2/announcements''"

section \<open>Who is authenticated\<close>

lemma validated_session_run:
  "validated_session h token source w = (let (r, w') = validateParticipantSessionWithAPI h token w in
     (Inr (case r of
        Inr (Validated v) \<Rightarrow> authenticatedSession token source (Some (session_object v))
      | Inr Deactivated \<Rightarrow> no_session (Some ''deactivated'')
      | _ \<Rightarrow> no_session None), w'))"
  by (simp add: validated_session_def js_defs validate_run Let_def
      split: prod.splits sum.splits ParticipantSessionValidation.splits)

lemma getParticipantSession_total: "\<exists>s w'. getParticipantSession h w = (Inr s, w')"
  by (simp add: getParticipantSession_def validated_session_run Let_def split: option.splits prod.splits)

lemma authenticated_fields [simp]:
  "ps_authenticated (authenticatedSession t src c)" "ps_token (authenticatedSession t src c) = Some t"
  "\<not> ps_authenticated (no_session r)" "ps_token (no_session r) = None"
  by (simp_all add: authenticatedSession_def no_session_def)

lemma validated_session_authenticated:
  assumes "validated_session h token source w = (Inr s, w')" and "ps_authenticated s"
  shows "\<exists>v resp n. s = authenticatedSession token source (Some (session_object v)) \<and>
     fetch_fn h (session_request h token) (net w) = (Inr resp, n) \<and> session_answer resp = Validated v \<and>
     sent w' = sent w @ [session_request h token]"
  using assms
  by (auto simp: validated_session_run validate_run Let_def
      split: if_splits prod.splits sum.splits ParticipantSessionValidation.splits)

definition session_token_ok :: "'w host \<Rightarrow> int \<Rightarrow> string \<Rightarrow> bool" where
  "session_token_ok h now token \<longleftrightarrow>
     map_option trim (env h ''AD_PLATFORM_TEAM_JWT'') = Some token \<or>
     (\<exists>cookie secret claims. cookie_jar h participantSessionCookieName = Some cookie \<and> token = trim cookie \<and>
        env h ''TEAM_JWT_SECRET'' = Some secret \<and> verifyParticipantSessionToken h now token (trim secret) = Some claims)"

lemma verify_empty_secret: "verifyParticipantSessionToken h now token [] = None"
  by (simp add: verifyParticipantSessionToken_def)

lemma getParticipantSession_cases:
  assumes "getParticipantSession h w = (Inr s, w')" and "ps_authenticated s"
  shows "\<exists>token source. session_token_ok h (clock h (net w)) token \<and>
     validated_session h token source w = (Inr s, w')"
proof (cases "or_undefined (map_option trim (env h ''AD_PLATFORM_TEAM_JWT''))")
  case (Some t)
  then have "session_token_ok h (clock h (net w)) t"
    by (simp add: session_token_ok_def or_undefined_eq_Some)
  moreover have "validated_session h t FromEnv w = (Inr s, w')"
    using assms Some by (simp add: getParticipantSession_def)
  ultimately show ?thesis by blast
next
  case None
  with assms obtain t where t: "or_undefined (cookieParticipantToken h) = Some t"
    by (cases "or_undefined (cookieParticipantToken h)") (auto simp: getParticipantSession_def)
  let ?secret = "coalesce (map_option trim (env h ''TEAM_JWT_SECRET'')) []"
  have v: "validated_session h t FromCookie w = (Inr s, w')"
    and "truthy (verifyParticipantSessionToken h (clock h (net w)) t ?secret)"
    using assms None t by (auto simp: getParticipantSession_def Let_def split: if_splits)
  then obtain claims where c: "verifyParticipantSessionToken h (clock h (net w)) t ?secret = Some claims"
    by (cases "verifyParticipantSessionToken h (clock h (net w)) t ?secret") (auto simp: truthy_def)
  then obtain secret where "env h ''TEAM_JWT_SECRET'' = Some secret"
    by (cases "env h ''TEAM_JWT_SECRET''") (auto simp: verify_empty_secret)
  with c t have "session_token_ok h (clock h (net w)) t"
    by (auto simp: session_token_ok_def or_undefined_eq_Some cookieParticipantToken_def)
  with v show ?thesis by blast
qed

text \<open>
  C4. A participant counts as authenticated only on the word of the platform API: the session is
  authenticated only when the token is the configured one or a cookie token that verifies, the API was
  asked with this token and answered 2xx, and then the identity shown (team, player, role) is exactly
  what the API answered, never what the token claims. The computation of a session never throws.
\<close>

theorem getParticipantSession_authenticated:
  "\<exists>s w'. getParticipantSession h w = (Inr s, w') \<and>
     (ps_authenticated s \<longrightarrow> (\<exists>token v resp n.
        ps_token s = Some token \<and> session_token_ok h (clock h (net w)) token \<and>
        fetch_fn h (session_request h token) (net w) = (Inr resp, n) \<and> resp_ok resp \<and>
        session_answer resp = Validated v \<and> ps_teamID s = Some (vs_team_id v) \<and>
        ps_playerID s = Some (vs_player_id v) \<and> ps_role s = Some (vs_role v)))"
proof -
  obtain s w' where s: "getParticipantSession h w = (Inr s, w')" using getParticipantSession_total by blast
  have "\<exists>token v resp n. ps_token s = Some token \<and> session_token_ok h (clock h (net w)) token \<and>
        fetch_fn h (session_request h token) (net w) = (Inr resp, n) \<and> resp_ok resp \<and>
        session_answer resp = Validated v \<and> ps_teamID s = Some (vs_team_id v) \<and>
        ps_playerID s = Some (vs_player_id v) \<and> ps_role s = Some (vs_role v)" if a: "ps_authenticated s"
  proof -
    obtain token source where t: "session_token_ok h (clock h (net w)) token"
      "validated_session h token source w = (Inr s, w')"
      using getParticipantSession_cases [OF s a] by blast
    then obtain v resp n where v: "s = authenticatedSession token source (Some (session_object v))"
      "fetch_fn h (session_request h token) (net w) = (Inr resp, n)" "session_answer resp = Validated v"
      using validated_session_authenticated [OF t(2) a] by blast
    then have "resp_ok resp" by (simp add: session_answer_Validated)
    moreover have "ps_token s = Some token" "ps_teamID s = Some (vs_team_id v)"
      "ps_playerID s = Some (vs_player_id v)" "ps_role s = Some (vs_role v)"
      by (simp_all add: v(1)) (simp_all add: authenticatedSession_def claimNumber_def claimString_def
          session_object_def json_prop_def)
    ultimately show ?thesis using t(1) v by blast
  qed
  with s show ?thesis by blast
qed

definition env_token_host :: "unit host" where
  "env_token_host = (table_host (\<lambda>_. Inr \<lparr>rs_status = 200, rs_headers = [], rs_json = Some (JObj [(''player_id'', JNum 7),
       (''team_id'', JNum 3), (''role'', JStr ''member'')]), rs_body = None\<rparr>))
     \<lparr>env := (\<lambda>k. if k = ''AD_PLATFORM_TEAM_JWT'' then Some ''tok'' else None)\<rparr>"

theorem getParticipantSession_authenticated_witness:
  "\<exists>s w'. getParticipantSession env_token_host idle = (Inr s, w') \<and> ps_authenticated s \<and> ps_teamID s = Some 3"
proof -
  have "ps_authenticated (projr (fst (getParticipantSession env_token_host idle)))"
    by code_simp
  then obtain s w' where s: "getParticipantSession env_token_host idle = (Inr s, w')" "ps_authenticated s"
    using getParticipantSession_total [of env_token_host idle] by auto
  have "fetch_fn env_token_host rq n = (Inr resp, m) \<Longrightarrow> session_answer resp = Validated v \<Longrightarrow> vs_team_id v = 3" for rq n resp m v
    by (auto simp: env_token_host_def table_host_def session_answer_def resp_ok_def validated_payload_def json_prop_def)
  with s getParticipantSession_authenticated [of env_token_host idle] show ?thesis by fastforce
qed

section \<open>Calls on behalf of the participant\<close>

lemma getParticipantToken_run:
  "getParticipantToken h w = (case getParticipantSession h w of
     (Inl e, w') \<Rightarrow> (Inl e, w')
   | (Inr s, w') \<Rightarrow> (if ps_authenticated s \<and> or_undefined (ps_token s) \<noteq> None then (Inr (the (ps_token s)), w')
                   else (Inl (ErrorMessage not_authenticated_message), w')))"
  by (auto simp: getParticipantToken_def js_defs split: prod.splits sum.splits)

lemma getParticipantToken_error:
  "fst (getParticipantToken h w) = Inl e \<Longrightarrow> e = ErrorMessage not_authenticated_message"
  using getParticipantSession_total [of h w]
  by (auto simp: getParticipantToken_run split: if_splits)

lemma getParticipantToken_sent:
  "\<exists>rqs. sent (snd (getParticipantToken h w)) = sent w @ rqs \<and>
     (\<forall>rq \<in> set rqs. rq_url rq = apiBaseUrl h @ ''/api/v2/session'')"
proof -
  have v: "\<exists>rqs. sent (snd (validated_session h t src w)) = sent w @ rqs \<and>
     (\<forall>rq \<in> set rqs. rq_url rq = apiBaseUrl h @ ''/api/v2/session'')" for t src
    by (auto simp: validated_session_run validate_run session_request_def Let_def split: prod.splits)
  have s: "\<exists>rqs. sent (snd (getParticipantSession h w)) = sent w @ rqs \<and>
     (\<forall>rq \<in> set rqs. rq_url rq = apiBaseUrl h @ ''/api/v2/session'')"
    unfolding getParticipantSession_def using v by (auto simp: Let_def split: option.splits)
  obtain x w' where "getParticipantSession h w = (Inr x, w')" using getParticipantSession_total by blast
  with s show ?thesis by (auto simp: getParticipantToken_run)
qed

text \<open>
  The contract of a call made on behalf of the participant: it asks for the token of the session
  first, and without one it throws that error having sent nothing but the session check.
\<close>

locale session_guarded =
  fixes call :: "'w host \<Rightarrow> ('w, 'a) js"
  assumes needs_token: "fst (getParticipantToken h w) = Inl e \<Longrightarrow> call h w = (Inl e, snd (getParticipantToken h w))"
begin

lemma unauthenticated:
  assumes "fst (getParticipantToken h w) = Inl e"
  shows "fst (call h w) = Inl (ErrorMessage not_authenticated_message)"
    and "\<exists>rqs. sent (snd (call h w)) = sent w @ rqs \<and>
      (\<forall>rq \<in> set rqs. rq_url rq = apiBaseUrl h @ ''/api/v2/session'')"
  using needs_token [OF assms] getParticipantToken_error [OF assms] getParticipantToken_sent [of h w] by auto

end

lemma guarded_bind: "fst (m w) = Inl e \<Longrightarrow> js_bind m f w = (Inl e, snd (m w))"
  by (cases "m w") (simp add: js_bind_def)

interpretation guarded_fetch: session_guarded "\<lambda>h. participantFetch h path init" for path init
  by unfold_locales (simp add: participantFetch_def guarded_bind)

interpretation guarded_download: session_guarded "\<lambda>h. participantFetchResponse h path init" for path init
  by unfold_locales (simp add: participantFetchResponse_def guarded_bind)

interpretation guarded_join: session_guarded "\<lambda>h. joinCurrentParticipantTeam h teamKey" for teamKey
  by unfold_locales (simp add: joinCurrentParticipantTeam_def guarded_bind)

interpretation guarded_transfer: session_guarded "\<lambda>h. transferCurrentTeamCaptain h playerID" for playerID
  by unfold_locales (simp add: transferCurrentTeamCaptain_def guarded_bind)

interpretation guarded_profile: session_guarded "\<lambda>h. updateCurrentParticipantProfile h input" for input
  by unfold_locales (simp add: updateCurrentParticipantProfile_def guarded_bind)

text \<open>With a token, the request carries exactly that token and the client's own address.\<close>

lemma hget_platformRequestHeaders:
  "toLowerCase n \<noteq> ''x-forwarded-for'' \<Longrightarrow> hget (platformRequestHeaders h hs) n = hget hs n"
proof -
  assume n: "toLowerCase n \<noteq> ''x-forwarded-for''"
  have l: "toLowerCase ''X-Forwarded-For'' = ''x-forwarded-for''" by code_simp
  from n show ?thesis
    by (simp add: platformRequestHeaders_def l split: option.splits)
qed

text \<open>
  C5. A call on behalf of the participant carries the token of the validated session and no other:
  without a validated session it throws the authentication error, having sent at most the session
  check; with one, after the session check it sends one request to the platform API whose
  authorization is that token, whatever headers the caller asked for.
\<close>

theorem participantFetch_uses_validated_token:
  "(\<exists>rqs. fst (participantFetch h path init w) = Inl (ErrorMessage not_authenticated_message) \<and>
       sent (snd (participantFetch h path init w)) = sent w @ rqs \<and>
       (\<forall>rq \<in> set rqs. rq_url rq = apiBaseUrl h @ ''/api/v2/session'')) \<or>
   (\<exists>token v rq resp n. fetch_fn h (session_request h token) (net w) = (Inr resp, n) \<and>
       session_answer resp = Validated v \<and> session_token_ok h (clock h (net w)) token \<and>
       sent (snd (participantFetch h path init w)) = sent w @ [session_request h token, rq] \<and>
       rq_url rq = apiBaseUrl h @ path \<and> hget (rq_headers rq) ''authorization'' = Some (''Bearer '' @ token))"
proof (cases "fst (getParticipantToken h w)")
  case (Inl e)
  then show ?thesis using guarded_fetch.unauthenticated [OF Inl] by blast
next
  case (Inr token)
  obtain s w' where s: "getParticipantSession h w = (Inr s, w')" using getParticipantSession_total by blast
  with Inr have a: "ps_authenticated s" "ps_token s = Some token" "token \<noteq> []" "getParticipantToken h w = (Inr token, w')"
    by (auto simp: getParticipantToken_run or_undefined_eq_Some split: if_splits)
  obtain t source where t: "session_token_ok h (clock h (net w)) t" "validated_session h t source w = (Inr s, w')"
    using getParticipantSession_cases [OF s a(1)] by blast
  obtain v resp n where v: "s = authenticatedSession t source (Some (session_object v))"
    "fetch_fn h (session_request h t) (net w) = (Inr resp, n)" "session_answer resp = Validated v"
    "sent w' = sent w @ [session_request h t]"
    using validated_session_authenticated [OF t(2) a(1)] by blast
  have "t = token" using v(1) a(2) by simp
  let ?init = "init\<lparr>ri_headers := platformRequestHeaders h (ri_headers init)\<rparr>"
  let ?rq = "init_request (apiBaseUrl h @ path) ?init (auth_headers (Some token) ?init)"
  have l: "toLowerCase ''Authorization'' = ''authorization''" "toLowerCase ''authorization'' = ''authorization''"
    "toLowerCase ''Content-Type'' = ''content-type''" by code_simp+
  have "sent (snd (participantFetch h path init w)) = sent w' @ [?rq]"
    using a(4) by (simp add: participantFetch_def js_bind_def authenticatedFetch_run Let_def split: prod.splits)
  moreover have "hget (rq_headers ?rq) ''authorization'' = Some (''Bearer '' @ token)"
    using a(3) by (cases token) (simp_all add: init_request_def auth_headers_def Let_def l)
  moreover have "rq_url ?rq = apiBaseUrl h @ path" by (simp add: init_request_def)
  ultimately show ?thesis using v t(1) \<open>t = token\<close> by auto
qed

theorem participantFetch_uses_validated_token_witness:
  "\<exists>rq. sent (snd (participantFetch env_token_host ''/api/v2/services'' no_init idle))
        = [session_request env_token_host ''tok'', rq] \<and>
     hget (rq_headers rq) ''authorization'' = Some ''Bearer tok''"
proof -
  have "isl (fst (participantFetch env_token_host ''/api/v2/services'' no_init idle)) = False" by code_simp
  then have ne: "fst (participantFetch env_token_host ''/api/v2/services'' no_init idle) \<noteq> Inl e" for e by auto
  have tok: "session_token_ok env_token_host now t \<Longrightarrow> t = ''tok''" for now t
  proof -
    have "trim ''tok'' = ''tok''" by code_simp
    then show "session_token_ok env_token_host now t \<Longrightarrow> t = ''tok''"
      by (auto simp: session_token_ok_def env_token_host_def table_host_def)
  qed
  show ?thesis
    using participantFetch_uses_validated_token [of env_token_host "''/api/v2/services''" no_init idle] ne tok
    by (auto simp: idle_def)
qed

end
