(* ===== verification/Admin_Api.thy ===== *)
theory Admin_Api
  imports Participant_Api
begin

text \<open>
  The organizer side of the platform client (\<open>lib/admin-api.ts\<close>): base addresses, the server-held
  admin token, one definition per call, and the proxying of event streams
  (\<open>lib/realtime-proxy.ts\<close>). Metrics are in theory \<open>Prometheus\<close>.
\<close>

section \<open>Addresses and token\<close>

definition adminBaseUrl :: "'w host \<Rightarrow> string" where
  "adminBaseUrl h = trimBaseUrl (coalesce (env h ''AD_PLATFORM_API_URL'') ''http://127.0.0.1:8080'')"

definition gameCoreBaseUrl :: "'w host \<Rightarrow> string" where
  "gameCoreBaseUrl h = trimBaseUrl (coalesce (env h ''AD_PLATFORM_GAME_CORE_URL'') ''http://127.0.0.1:8081'')"

definition submissionServiceBaseUrl :: "'w host \<Rightarrow> string" where
  "submissionServiceBaseUrl h =
     trimBaseUrl (coalesce (env h ''AD_PLATFORM_SUBMISSION_SERVICE_URL'') ''http://127.0.0.1:8082'')"

definition realtimeGatewayBaseUrl :: "'w host \<Rightarrow> string" where
  "realtimeGatewayBaseUrl h = trimBaseUrl (coalesce (env h ''AD_PLATFORM_REALTIME_URL'') ''http://127.0.0.1:8086'')"

definition controllerMetricsBaseUrl :: "'w host \<Rightarrow> string" where
  "controllerMetricsBaseUrl h = trimBaseUrl (coalesce (env h ''AD_PLATFORM_CONTROLLER_METRICS_URL'')
     (coalesce (env h ''AD_PLATFORM_CONTROLLER_URL'') ''http://127.0.0.1:8084''))"

definition wireGuardGatewayBaseUrl :: "'w host \<Rightarrow> string" where
  "wireGuardGatewayBaseUrl h =
     trimBaseUrl (coalesce (env h ''AD_PLATFORM_WIREGUARD_GATEWAY_URL'') ''http://127.0.0.1:8087'')"

definition organizerApiBaseUrl :: "'w host \<Rightarrow> string" where
  "organizerApiBaseUrl h = trimBaseUrl (coalesce (env h ''AD_PLATFORM_PUBLIC_BASE_URL'') (adminBaseUrl h))"

definition getAdminToken :: "'w host \<Rightarrow> ('w, string) js" where
  "getAdminToken h = (case or_undefined (map_option trim (env h ''ADMIN_API_TOKEN'')) of
     None \<Rightarrow> js_throw (ErrorMessage ''ADMIN_API_TOKEN must be set for server-side admin API calls'')
   | Some token \<Rightarrow> js_return token)"

definition adminFetch :: "'w host \<Rightarrow> string \<Rightarrow> request_init \<Rightarrow> ('w, json option) js" where
  "adminFetch h path init =
     js_bind (getAdminToken h) (\<lambda>token. authenticatedFetch h (adminBaseUrl h) path (Some token) init)"

definition adminProxyFetch :: "'w host \<Rightarrow> string \<Rightarrow> request_init \<Rightarrow> ('w, response) js" where
  "adminProxyFetch h path init = js_bind (getAdminToken h) (\<lambda>token.
     js_fetch h (init_request (adminBaseUrl h @ path) init
       (foldl (\<lambda>hs (k, v). hset k v hs)
         (hset ''Content-Type'' ''application/json''
           (if token \<noteq> [] then hset ''Authorization'' (''Bearer '' @ token) [] else []))
         (ri_headers init))))"

definition adminPublicFetch :: "'w host \<Rightarrow> string \<Rightarrow> ('w, json option) js" where
  "adminPublicFetch h path = authenticatedFetch h (adminBaseUrl h) path None no_init"

definition fetchText :: "'w host \<Rightarrow> string \<Rightarrow> string \<Rightarrow> ('w, string) js" where
  "fetchText h baseUrl path =
     js_bind (js_fetch h \<lparr>rq_method = ''GET'', rq_url = baseUrl @ path, rq_headers = [], rq_body = None\<rparr>)
       (\<lambda>r. if \<not> resp_ok r then js_throw (ErrorMessage (''request to '' @ path @ '' failed''))
            else js_return (coalesce (rs_body r) []))"

section \<open>Inputs\<close>

record CreateTeamInput =
  ti_name :: string
  ti_contact_email :: string

record CreatePlayerInput =
  pi_team_id :: json
  pi_display_name :: string
  pi_email :: string
  pi_password :: json
  pi_role :: string

record CreateChallengeInput =
  ci_name :: string
  ci_baseline_image :: string
  ci_checker_image :: string
  ci_source_bundle_path :: "string option"
  ci_service_port :: "js_num option"
  ci_service_subnet_octet :: "js_num option"
  ci_egress_enabled :: "bool option"

record UpdatePlayerInput =
  up_display_name :: string
  up_email :: string
  up_role :: string

record UpdateChallengeInput =
  uc_name :: string
  uc_baseline_image :: string
  uc_checker_image :: string
  uc_source_bundle_path :: "string option"
  uc_egress_enabled :: "bool option"

text \<open>\<open>JSON.stringify\<close> prints a number that is not finite as null.\<close>

definition num_json :: "js_num \<Rightarrow> json" where
  "num_json x = (case x of Finite q \<Rightarrow> JNum q | _ \<Rightarrow> JNull)"

definition team_input_json :: "CreateTeamInput \<Rightarrow> json" where
  "team_input_json i = JObj [(''name'', JStr (ti_name i)), (''contact_email'', JStr (ti_contact_email i))]"

definition player_input_json :: "CreatePlayerInput \<Rightarrow> json" where
  "player_input_json i = JObj [(''team_id'', pi_team_id i), (''display_name'', JStr (pi_display_name i)),
     (''email'', JStr (pi_email i)), (''password'', pi_password i), (''role'', JStr (pi_role i))]"

definition challenge_input_json :: "CreateChallengeInput \<Rightarrow> json" where
  "challenge_input_json i = json_object [(''name'', Some (JStr (ci_name i))),
     (''baseline_image'', Some (JStr (ci_baseline_image i))), (''checker_image'', Some (JStr (ci_checker_image i))),
     (''source_bundle_path'', map_option JStr (ci_source_bundle_path i)),
     (''service_port'', map_option num_json (ci_service_port i)),
     (''service_subnet_octet'', map_option num_json (ci_service_subnet_octet i)),
     (''egress_enabled'', map_option JBool (ci_egress_enabled i))]"

definition player_update_json :: "UpdatePlayerInput \<Rightarrow> json" where
  "player_update_json i = JObj [(''display_name'', JStr (up_display_name i)), (''email'', JStr (up_email i)),
     (''role'', JStr (up_role i))]"

definition challenge_update_json :: "UpdateChallengeInput \<Rightarrow> json" where
  "challenge_update_json i = json_object [(''name'', Some (JStr (uc_name i))),
     (''baseline_image'', Some (JStr (uc_baseline_image i))), (''checker_image'', Some (JStr (uc_checker_image i))),
     (''source_bundle_path'', map_option JStr (uc_source_bundle_path i)),
     (''egress_enabled'', map_option JBool (uc_egress_enabled i))]"

type_synonym query_params = "(string \<times> query_value option) list"

section \<open>Calls\<close>

text \<open>Identifiers are numbers of the language: a route that does not check them can pass \<open>NaN\<close>.\<close>

definition listAdminTeams :: "'w host \<Rightarrow> ('w, json option) js" where
  "listAdminTeams h = adminFetch h ''/api/v2/admin/teams'' no_init"

definition createAdminTeam :: "'w host \<Rightarrow> CreateTeamInput \<Rightarrow> ('w, json option) js" where
  "createAdminTeam h input = adminFetch h ''/api/v2/admin/teams'' (body_init ''POST'' (team_input_json input))"

definition deleteAdminTeam :: "'w host \<Rightarrow> js_num \<Rightarrow> ('w, json option) js" where
  "deleteAdminTeam h teamID = adminFetch h (''/api/v2/admin/teams/'' @ num_to_string teamID) (verb_init ''DELETE'')"

definition updateAdminTeam :: "'w host \<Rightarrow> js_num \<Rightarrow> CreateTeamInput \<Rightarrow> ('w, json option) js" where
  "updateAdminTeam h teamID input =
     adminFetch h (''/api/v2/admin/teams/'' @ num_to_string teamID)
       (body_init ''PUT'' (team_input_json input))"

definition deactivateAdminTeam :: "'w host \<Rightarrow> js_num \<Rightarrow> ('w, json option) js" where
  "deactivateAdminTeam h teamID =
     adminFetch h (''/api/v2/admin/teams/'' @ num_to_string teamID @ ''/deactivate'')
       post_init"

definition reactivateAdminTeam :: "'w host \<Rightarrow> js_num \<Rightarrow> ('w, json option) js" where
  "reactivateAdminTeam h teamID =
     adminFetch h (''/api/v2/admin/teams/'' @ num_to_string teamID @ ''/reactivate'')
       post_init"

definition putAdminChallengeMaintenance :: "'w host \<Rightarrow> js_num \<Rightarrow> ('w, json option) js" where
  "putAdminChallengeMaintenance h challengeID =
     adminFetch h (''/api/v2/admin/challenges/'' @ num_to_string challengeID @ ''/maintenance'')
       post_init"

definition rotateAdminChallengeUnlockProof :: "'w host \<Rightarrow> js_num \<Rightarrow> ('w, json option) js" where
  "rotateAdminChallengeUnlockProof h challengeID =
     adminFetch h (''/api/v2/admin/challenges/'' @ num_to_string challengeID @ ''/rotate-unlock-proof'')
       post_init"

definition resumeAdminChallenge :: "'w host \<Rightarrow> js_num \<Rightarrow> ('w, json option) js" where
  "resumeAdminChallenge h challengeID =
     adminFetch h (''/api/v2/admin/challenges/'' @ num_to_string challengeID @ ''/resume'')
       post_init"

definition listAdminPlayers :: "'w host \<Rightarrow> ('w, json option) js" where
  "listAdminPlayers h = adminFetch h ''/api/v2/admin/players'' no_init"

definition createAdminPlayer :: "'w host \<Rightarrow> CreatePlayerInput \<Rightarrow> ('w, json option) js" where
  "createAdminPlayer h input = adminFetch h ''/api/v2/admin/players'' (body_init ''POST'' (player_input_json input))"

definition deleteAdminPlayer :: "'w host \<Rightarrow> js_num \<Rightarrow> ('w, json option) js" where
  "deleteAdminPlayer h playerID =
     adminFetch h (''/api/v2/admin/players/'' @ num_to_string playerID)
       (verb_init ''DELETE'')"

definition updateAdminPlayer :: "'w host \<Rightarrow> js_num \<Rightarrow> UpdatePlayerInput \<Rightarrow> ('w, json option) js" where
  "updateAdminPlayer h playerID input =
     adminFetch h (''/api/v2/admin/players/'' @ num_to_string playerID)
       (body_init ''PUT'' (player_update_json input))"

definition deactivateAdminPlayer :: "'w host \<Rightarrow> js_num \<Rightarrow> ('w, json option) js" where
  "deactivateAdminPlayer h playerID =
     adminFetch h (''/api/v2/admin/players/'' @ num_to_string playerID @ ''/deactivate'')
       post_init"

definition reactivateAdminPlayer :: "'w host \<Rightarrow> js_num \<Rightarrow> ('w, json option) js" where
  "reactivateAdminPlayer h playerID =
     adminFetch h (''/api/v2/admin/players/'' @ num_to_string playerID @ ''/reactivate'')
       post_init"

definition getAdminPlayerWireGuard :: "'w host \<Rightarrow> js_num \<Rightarrow> ('w, json option) js" where
  "getAdminPlayerWireGuard h playerID =
     adminFetch h (''/api/v2/admin/players/'' @ num_to_string playerID @ ''/wireguard'')
       no_init"

definition rotateAdminPlayerWireGuard :: "'w host \<Rightarrow> js_num \<Rightarrow> ('w, json option) js" where
  "rotateAdminPlayerWireGuard h playerID =
     adminFetch h (''/api/v2/admin/players/'' @ num_to_string playerID @ ''/wireguard/rotate'')
       post_init"

definition revokeAdminPlayerWireGuard :: "'w host \<Rightarrow> js_num \<Rightarrow> ('w, json option) js" where
  "revokeAdminPlayerWireGuard h playerID =
     adminFetch h (''/api/v2/admin/players/'' @ num_to_string playerID @ ''/wireguard/revoke'')
       post_init"

definition getAdminWireGuardGatewayStatus :: "'w host \<Rightarrow> ('w, json option) js" where
  "getAdminWireGuardGatewayStatus h = adminFetch h ''/api/v2/admin/wireguard/status'' no_init"

definition reconcileAdminWireGuardGateway :: "'w host \<Rightarrow> ('w, json option) js" where
  "reconcileAdminWireGuardGateway h = adminFetch h ''/api/v2/admin/wireguard/reconcile'' post_init"

definition teardownAdminWireGuardGateway :: "'w host \<Rightarrow> ('w, json option) js" where
  "teardownAdminWireGuardGateway h = adminFetch h ''/api/v2/admin/wireguard/teardown'' post_init"

definition getAdminAccessStatus :: "'w host \<Rightarrow> ('w, json option) js" where
  "getAdminAccessStatus h = adminFetch h ''/api/v2/admin/access/status'' no_init"

definition reconcileAdminAccess :: "'w host \<Rightarrow> ('w, json option) js" where
  "reconcileAdminAccess h = adminFetch h ''/api/v2/admin/access/reconcile'' post_init"

definition teardownAdminAccess :: "'w host \<Rightarrow> ('w, json option) js" where
  "teardownAdminAccess h = adminFetch h ''/api/v2/admin/access/teardown'' post_init"

definition listAdminChallenges :: "'w host \<Rightarrow> ('w, json option) js" where
  "listAdminChallenges h = adminFetch h ''/api/v2/admin/challenges'' no_init"

definition createAdminChallenge :: "'w host \<Rightarrow> CreateChallengeInput \<Rightarrow> ('w, json option) js" where
  "createAdminChallenge h input =
     adminFetch h ''/api/v2/admin/challenges''
       (body_init ''POST'' (challenge_input_json input))"

definition deleteAdminChallenge :: "'w host \<Rightarrow> js_num \<Rightarrow> ('w, json option) js" where
  "deleteAdminChallenge h challengeID =
     adminFetch h (''/api/v2/admin/challenges/'' @ num_to_string challengeID)
       (verb_init ''DELETE'')"

definition updateAdminChallenge :: "'w host \<Rightarrow> js_num \<Rightarrow> UpdateChallengeInput \<Rightarrow> ('w, json option) js" where
  "updateAdminChallenge h challengeID input =
     adminFetch h (''/api/v2/admin/challenges/'' @ num_to_string challengeID)
       (body_init ''PUT'' (challenge_update_json input))"

definition deployAdminChallenge :: "'w host \<Rightarrow> js_num \<Rightarrow> ('w, json option) js" where
  "deployAdminChallenge h challengeID =
     adminFetch h (''/api/v2/admin/challenges/'' @ num_to_string challengeID @ ''/deploy'')
       post_init"

definition validateAdminChallenge :: "'w host \<Rightarrow> js_num \<Rightarrow> ('w, json option) js" where
  "validateAdminChallenge h challengeID =
     adminFetch h (''/api/v2/admin/challenges/'' @ num_to_string challengeID @ ''/validate'')
       post_init"

definition listAdminDeployments :: "'w host \<Rightarrow> ('w, json option) js" where
  "listAdminDeployments h = adminFetch h ''/api/v2/admin/deployments'' no_init"

definition deleteAdminDeployment :: "'w host \<Rightarrow> js_num \<Rightarrow> ('w, json option) js" where
  "deleteAdminDeployment h deploymentID =
     adminFetch h (''/api/v2/admin/deployments/'' @ num_to_string deploymentID)
       (verb_init ''DELETE'')"

definition listAdminAuditLogs :: "'w host \<Rightarrow> query_params \<Rightarrow> ('w, json option) js" where
  "listAdminAuditLogs h query = adminFetch h (''/api/v2/admin/audit-logs'' @ buildQueryString query) no_init"

definition reconcileAdminDeployments :: "'w host \<Rightarrow> ('w, json option) js" where
  "reconcileAdminDeployments h = adminFetch h ''/api/v2/admin/deployments/reconcile'' post_init"

definition getAdminGameStatus :: "'w host \<Rightarrow> ('w, json option) js" where
  "getAdminGameStatus h = adminFetch h ''/api/v2/admin/game/status'' no_init"

definition getAdminOperationsStatus :: "'w host \<Rightarrow> ('w, json option) js" where
  "getAdminOperationsStatus h = adminFetch h ''/api/v2/admin/operations/status'' no_init"

definition getAdminGameMatchStatus :: "'w host \<Rightarrow> ('w, json option) js" where
  "getAdminGameMatchStatus h = adminFetch h ''/api/v2/admin/game/match'' no_init"

definition startAdminGameMatch :: "'w host \<Rightarrow> ('w, json option) js" where
  "startAdminGameMatch h = adminFetch h ''/api/v2/admin/game/match/start'' post_init"

definition pauseAdminGameMatch :: "'w host \<Rightarrow> ('w, json option) js" where
  "pauseAdminGameMatch h = adminFetch h ''/api/v2/admin/game/match/pause'' post_init"

definition resumeAdminGameMatch :: "'w host \<Rightarrow> ('w, json option) js" where
  "resumeAdminGameMatch h = adminFetch h ''/api/v2/admin/game/match/resume'' post_init"

definition stopAdminGameMatch :: "'w host \<Rightarrow> ('w, json option) js" where
  "stopAdminGameMatch h = adminFetch h ''/api/v2/admin/game/match/stop'' post_init"

definition updateAdminGameMatchSchedule :: "'w host \<Rightarrow> json \<Rightarrow> ('w, json option) js" where
  "updateAdminGameMatchSchedule h input =
     adminFetch h ''/api/v2/admin/game/match/schedule''
       (body_init ''PUT'' (input))"

definition advanceAdminGameTick :: "'w host \<Rightarrow> ('w, json option) js" where
  "advanceAdminGameTick h = adminFetch h ''/api/v2/admin/game/ticks/advance'' post_init"

definition listAdminCheckerRuns :: "'w host \<Rightarrow> query_params \<Rightarrow> ('w, json option) js" where
  "listAdminCheckerRuns h query = adminFetch h (''/api/v2/admin/game/checker-runs'' @ buildQueryString query) no_init"

definition getAdminGameSchedulerStatus :: "'w host \<Rightarrow> ('w, json option) js" where
  "getAdminGameSchedulerStatus h = adminFetch h ''/api/v2/admin/game/scheduler'' no_init"

definition listAdminGameSchedulerEvents :: "'w host \<Rightarrow> query_params \<Rightarrow> ('w, json option) js" where
  "listAdminGameSchedulerEvents h query =
     adminFetch h (''/api/v2/admin/game/scheduler/events'' @ buildQueryString query)
       no_init"

definition startAdminGameScheduler :: "'w host \<Rightarrow> ('w, json option) js" where
  "startAdminGameScheduler h = adminFetch h ''/api/v2/admin/game/scheduler/start'' post_init"

definition stopAdminGameScheduler :: "'w host \<Rightarrow> ('w, json option) js" where
  "stopAdminGameScheduler h = adminFetch h ''/api/v2/admin/game/scheduler/stop'' post_init"

definition updateAdminGameScheduler :: "'w host \<Rightarrow> rat \<Rightarrow> ('w, json option) js" where
  "updateAdminGameScheduler h intervalSeconds =
     adminFetch h ''/api/v2/admin/game/scheduler/interval''
       (body_init ''PUT'' (JObj [(''interval_seconds'', JNum intervalSeconds)]))"

definition listAdminGameScoreboard :: "'w host \<Rightarrow> ('w, json option) js" where
  "listAdminGameScoreboard h = adminFetch h ''/api/v2/admin/game/scoreboard'' no_init"

definition getAdminScoreboardFreeze :: "'w host \<Rightarrow> ('w, json option) js" where
  "getAdminScoreboardFreeze h = adminFetch h ''/api/v2/admin/game/scoreboard/freeze'' no_init"

definition setAdminScoreboardFreeze :: "'w host \<Rightarrow> string \<Rightarrow> (string option) \<Rightarrow> ('w, json option) js" where
  "setAdminScoreboardFreeze h freeze_at unfreeze_at =
     adminFetch h ''/api/v2/admin/game/scoreboard/freeze''
       (body_init ''POST'' (json_object [(''freeze_at'', Some (JStr freeze_at)), (''unfreeze_at'', map_option JStr unfreeze_at)]))"

definition clearAdminScoreboardFreeze :: "'w host \<Rightarrow> ('w, json option) js" where
  "clearAdminScoreboardFreeze h = adminFetch h ''/api/v2/admin/game/scoreboard/unfreeze'' post_init"

definition recomputeAdminGameScoring :: "'w host \<Rightarrow> ('w, json option) js" where
  "recomputeAdminGameScoring h = adminFetch h ''/api/v2/admin/game/scoring/recompute'' post_init"

definition auditAdminGameScoring :: "'w host \<Rightarrow> ('w, json option) js" where
  "auditAdminGameScoring h = adminFetch h ''/api/v2/admin/game/scoring/audit'' no_init"

definition getAdminPlatformSettings :: "'w host \<Rightarrow> ('w, json option) js" where
  "getAdminPlatformSettings h = adminFetch h ''/api/v2/admin/platform/settings'' no_init"

definition updateAdminPlatformSettings :: "'w host \<Rightarrow> string \<Rightarrow> rat \<Rightarrow> ('w, json option) js" where
  "updateAdminPlatformSettings h flag_format_prefix max_team_members =
     adminFetch h ''/api/v2/admin/platform/settings''
       (body_init ''PUT'' (JObj [(''flag_format_prefix'', JStr flag_format_prefix), (''max_team_members'', JNum max_team_members)]))"

definition reloadAdminFlagFormat :: "'w host \<Rightarrow> ('w, json option) js" where
  "reloadAdminFlagFormat h = adminFetch h ''/api/v2/admin/platform/settings/reload'' post_init"

definition listAdminAnnouncements :: "'w host \<Rightarrow> ('w, json option) js" where
  "listAdminAnnouncements h = adminFetch h ''/api/v2/admin/announcements'' no_init"

definition createAdminAnnouncement :: "'w host \<Rightarrow> string \<Rightarrow> ('w, json option) js" where
  "createAdminAnnouncement h body =
     adminFetch h ''/api/v2/admin/announcements''
       (body_init ''POST'' (JObj [(''body'', JStr body)]))"

definition deleteAdminAnnouncement :: "'w host \<Rightarrow> js_num \<Rightarrow> ('w, json option) js" where
  "deleteAdminAnnouncement h announcementID =
     adminFetch h (''/api/v2/admin/announcements/'' @ num_to_string announcementID)
       (verb_init ''DELETE'')"

definition listAdminGameAttacks :: "'w host \<Rightarrow> AttackFeedQuery \<Rightarrow> ('w, json option) js" where
  "listAdminGameAttacks h query = adminPublicFetch h (''/api/v2/attacks'' @ buildQueryString (attack_query query))"

definition bulkImportAdminTeams :: "'w host \<Rightarrow> json list \<Rightarrow> ('w, int \<times> json) js" where
  "bulkImportAdminTeams h teams = js_bind (getAdminToken h) (\<lambda>token.
     js_bind (js_fetch h \<lparr>rq_method = ''POST'', rq_url = adminBaseUrl h @ ''/api/v2/admin/import/teams'',
         rq_headers = [(''authorization'', ''Bearer '' @ token), (''content-type'', ''application/json'')],
         rq_body = Some (JObj [(''teams'', JArr teams)])\<rparr>)
       (\<lambda>r. if rs_status r \<noteq> 200 \<and> rs_status r \<noteq> 422 then
          (case parseApiError r ''/api/v2/admin/import/teams'' of
             Inl e \<Rightarrow> js_throw e
           | Inr m \<Rightarrow> js_throw (new_PlatformAPIError m (rs_status r) (hget (rs_headers r) ''retry-after'')))
        else (case rs_json r of
           None \<Rightarrow> js_throw (ErrorMessage ''response body is not JSON'')
         | Some body \<Rightarrow> js_return (rs_status r, body))))"

section \<open>lib/realtime-proxy.ts\<close>

definition streamResponseHeaders :: headers where
  "streamResponseHeaders = [(''content-type'', ''text/event-stream''), (''cache-control'', ''no-cache, no-transform''),
     (''connection'', ''keep-alive''), (''x-accel-buffering'', ''no'')]"

definition realtimeBaseUrl :: "'w host \<Rightarrow> string" where
  "realtimeBaseUrl h = trimBaseUrl (coalesce (env h ''AD_PLATFORM_REALTIME_URL'') ''http://127.0.0.1:8086'')"

definition adminRealtimeToken :: "'w host \<Rightarrow> string result" where
  "adminRealtimeToken h = (case or_undefined (map_option trim (env h ''REALTIME_ADMIN_TOKEN'')) of
     Some token \<Rightarrow> Inr token
   | None \<Rightarrow> (case or_undefined (map_option trim (env h ''ADMIN_API_TOKEN'')) of
       Some token \<Rightarrow> Inr token
     | None \<Rightarrow> Inl (ErrorMessage
         ''REALTIME_ADMIN_TOKEN or ADMIN_API_TOKEN must be set for realtime admin proxy calls'')))"

text \<open>What the proxy answers: an upstream body is passed on as a stream, and the failure message stands
  in where there is none.\<close>

definition failure_body :: "string \<Rightarrow> reply_body" where
  "failure_body failureMessage = JsonBody (JObj [(''status'', JStr ''failed''), (''message'', JStr failureMessage)])"

definition stream_reply :: "string \<Rightarrow> response \<Rightarrow> reply" where
  "stream_reply failureMessage upstream =
     (if \<not> resp_ok upstream then
        (let base = [(''content-type'', coalesce (hget (rs_headers upstream) ''content-type'') ''application/json'')] in
         \<lparr>rp_status = rs_status upstream,
          rp_headers = (case or_undefined (hget (rs_headers upstream) ''retry-after'') of
             Some r \<Rightarrow> hset ''Retry-After'' r base | None \<Rightarrow> base),
          rp_body = (case rs_body upstream of Some b \<Rightarrow> TextBody b | None \<Rightarrow> failure_body failureMessage),
          rp_cookies = []\<rparr>)
      else (case rs_body upstream of
         None \<Rightarrow> \<lparr>rp_status = 502, rp_headers = [(''content-type'', ''application/json'')],
                  rp_body = failure_body failureMessage, rp_cookies = []\<rparr>
       | Some b \<Rightarrow> \<lparr>rp_status = 200, rp_headers = streamResponseHeaders, rp_body = TextBody b, rp_cookies = []\<rparr>))"

definition stream_request :: "'w host \<Rightarrow> string \<Rightarrow> headers option \<Rightarrow> headers \<Rightarrow> request" where
  "stream_request h path request_headers hs =
     (let forwardedFor = firstForwardedAddress (case request_headers of None \<Rightarrow> None | Some rh \<Rightarrow> hget rh ''x-forwarded-for'');
          base = (''accept'', ''text/event-stream'') #
            (case forwardedFor of Some a \<Rightarrow> [(''x-forwarded-for'', a)] | None \<Rightarrow> []) in
      \<lparr>rq_method = ''GET'', rq_url = realtimeBaseUrl h @ path,
       rq_headers = foldl (\<lambda>acc (k, v). hset k v acc) base hs, rq_body = None\<rparr>)"

definition proxyRealtimeStream ::
  "'w host \<Rightarrow> string \<Rightarrow> string \<Rightarrow> headers option \<Rightarrow> headers \<Rightarrow> ('w, reply) js" where
  "proxyRealtimeStream h path failureMessage request_headers hs =
     js_bind (js_fetch h (stream_request h path request_headers hs))
       (\<lambda>upstream. js_return (stream_reply failureMessage upstream))"

definition proxyPublicRealtimeStream :: "'w host \<Rightarrow> string \<Rightarrow> string \<Rightarrow> headers option \<Rightarrow> ('w, reply) js" where
  "proxyPublicRealtimeStream h path failureMessage rh = proxyRealtimeStream h path failureMessage rh []"

definition proxyAdminRealtimeStream :: "'w host \<Rightarrow> string \<Rightarrow> string \<Rightarrow> headers option \<Rightarrow> ('w, reply) js" where
  "proxyAdminRealtimeStream h path failureMessage rh =
     js_bind (js_lift (adminRealtimeToken h)) (\<lambda>token.
       proxyRealtimeStream h path failureMessage rh [(''Authorization'', ''Bearer '' @ token)])"

section \<open>The admin token\<close>

definition admin_token :: "'w host \<Rightarrow> string option" where
  "admin_token h = or_undefined (map_option trim (env h ''ADMIN_API_TOKEN''))"

lemma getAdminToken_run:
  "getAdminToken h w = (case admin_token h of
     None \<Rightarrow> (Inl (ErrorMessage ''ADMIN_API_TOKEN must be set for server-side admin API calls''), w)
   | Some token \<Rightarrow> (Inr token, w))"
  by (simp add: getAdminToken_def admin_token_def js_defs split: option.splits)

text \<open>
  The contract of a call with the admin token: without a configured token it throws and sends nothing;
  with one it sends exactly one request, to its own path at the admin address, with that token.
\<close>

locale admin_call =
  fixes call :: "'w host \<Rightarrow> ('w, 'a) js" and path :: string
  assumes without_token: "admin_token h = None \<Longrightarrow>
      call h w = (Inl (ErrorMessage ''ADMIN_API_TOKEN must be set for server-side admin API calls''), w)"
    and with_token: "admin_token h = Some token \<Longrightarrow>
      \<exists>rq. sent (snd (call h w)) = sent w @ [rq] \<and> rq_url rq = adminBaseUrl h @ path \<and>
        hget (rq_headers rq) ''authorization'' = Some (''Bearer '' @ token)"
begin

lemma at_most_one_request: "length (sent (snd (call h w))) \<le> Suc (length (sent w))"
  using without_token [of h w] with_token [of h _ w] by (cases "admin_token h") fastforce+

lemma token_stays_home:
  assumes "sent (snd (call h w)) = sent w @ rqs" and "rq \<in> set rqs"
  shows "\<exists>token. admin_token h = Some token \<and> rq_url rq = adminBaseUrl h @ path \<and>
    hget (rq_headers rq) ''authorization'' = Some (''Bearer '' @ token)"
proof (cases "admin_token h")
  case None
  then have "rqs = []" using assms(1) without_token [of h w] by simp
  with assms(2) show ?thesis by simp
next
  case (Some token)
  obtain rq' where rq': "sent (snd (call h w)) = sent w @ [rq']" "rq_url rq' = adminBaseUrl h @ path"
    "hget (rq_headers rq') ''authorization'' = Some (''Bearer '' @ token)"
    using with_token [OF Some, of w] by blast
  have "rq = rq'" using rq'(1) assms by simp
  with rq' Some show ?thesis by simp
qed

end

lemma lower_names:
  "toLowerCase ''Authorization'' = ''authorization''" "toLowerCase ''authorization'' = ''authorization''"
  "toLowerCase ''Content-Type'' = ''content-type''" "toLowerCase ''content-type'' = ''content-type''"
  by code_simp+

interpretation admin_fetch: admin_call "\<lambda>h. adminFetch h path init" path for path init
proof
  fix h :: "'w host" and w
  show "admin_token h = None \<Longrightarrow> adminFetch h path init w
      = (Inl (ErrorMessage ''ADMIN_API_TOKEN must be set for server-side admin API calls''), w)"
    by (simp add: adminFetch_def js_bind_def getAdminToken_run)
  fix token
  assume t: "admin_token h = Some token"
  let ?rq = "init_request (adminBaseUrl h @ path) init (auth_headers (Some token) init)"
  have "token \<noteq> []" using t by (simp add: admin_token_def or_undefined_eq_Some)
  then have "hget (rq_headers ?rq) ''authorization'' = Some (''Bearer '' @ token)"
    by (cases token) (simp_all add: init_request_def auth_headers_def Let_def lower_names)
  moreover have "sent (snd (adminFetch h path init w)) = sent w @ [?rq]"
    using t by (simp add: adminFetch_def js_bind_def getAdminToken_run authenticatedFetch_run Let_def split: prod.splits)
  ultimately show "\<exists>rq. sent (snd (adminFetch h path init w)) = sent w @ [rq] \<and> rq_url rq = adminBaseUrl h @ path \<and>
      hget (rq_headers rq) ''authorization'' = Some (''Bearer '' @ token)"
    by (intro exI [of _ ?rq]) (simp add: init_request_def)
qed

lemma js_bind_fetch: "js_bind (js_fetch h rq) f w = (case fetch_fn h rq (net w) of
   (Inl e, n) \<Rightarrow> (Inl e, w\<lparr>net := n, sent := sent w @ [rq]\<rparr>)
 | (Inr r, n) \<Rightarrow> f r (w\<lparr>net := n, sent := sent w @ [rq]\<rparr>))"
  by (simp add: js_bind_def js_fetch_def split: prod.splits sum.splits)

interpretation admin_import: admin_call "\<lambda>h. bulkImportAdminTeams h teams" "''/api/v2/admin/import/teams''" for teams
proof
  fix h :: "'w host" and w
  show "admin_token h = None \<Longrightarrow> bulkImportAdminTeams h teams w
      = (Inl (ErrorMessage ''ADMIN_API_TOKEN must be set for server-side admin API calls''), w)"
    by (simp add: bulkImportAdminTeams_def js_bind_def getAdminToken_run)
  fix token
  assume t: "admin_token h = Some token"
  show "\<exists>rq. sent (snd (bulkImportAdminTeams h teams w)) = sent w @ [rq] \<and>
      rq_url rq = adminBaseUrl h @ ''/api/v2/admin/import/teams'' \<and>
      hget (rq_headers rq) ''authorization'' = Some (''Bearer '' @ token)"
    unfolding bulkImportAdminTeams_def guarded_bind js_bind_def [of "getAdminToken h"] getAdminToken_run t
    by (simp add: js_bind_fetch js_throw_def js_return_def hget_def lower_names
        split: prod.splits sum.splits option.splits)
qed

interpretation admin_proxy: admin_call "\<lambda>h. adminProxyFetch h path post_init" path for path
proof
  fix h :: "'w host" and w
  show "admin_token h = None \<Longrightarrow> adminProxyFetch h path post_init w
      = (Inl (ErrorMessage ''ADMIN_API_TOKEN must be set for server-side admin API calls''), w)"
    by (simp add: adminProxyFetch_def js_bind_def getAdminToken_run)
  fix token
  assume t: "admin_token h = Some token"
  then have "token \<noteq> []" by (simp add: admin_token_def or_undefined_eq_Some)
  with t show "\<exists>rq. sent (snd (adminProxyFetch h path post_init w)) = sent w @ [rq] \<and> rq_url rq = adminBaseUrl h @ path \<and>
      hget (rq_headers rq) ''authorization'' = Some (''Bearer '' @ token)"
    by (simp add: adminProxyFetch_def js_bind_def getAdminToken_run sent_js_fetch post_init_def init_request_def lower_names)
qed

text \<open>The streams of the realtime gateway go to an address of their own.\<close>

lemma proxyRealtimeStream_sent:
  "sent (snd (proxyRealtimeStream h path m rh hs w)) = sent w @ [stream_request h path rh hs]"
  unfolding proxyRealtimeStream_def js_bind_fetch by (simp add: js_return_def split: prod.splits sum.splits)

lemma stream_request_authorization:
  "hget (rq_headers (stream_request h path rh [])) ''authorization'' = None"
  "hget (rq_headers (stream_request h path rh [(''Authorization'', v)])) ''authorization'' = Some v"
  by (simp_all add: stream_request_def Let_def lower_names) (simp add: hget_def lower_names split: option.splits)

text \<open>A call sends its bearer token to one address: without a token it sends nothing, and with one it
  sends exactly one request, to that address and with that token.\<close>

definition sends_bearer :: "string \<Rightarrow> string option \<Rightarrow> ('w, 'a) js \<Rightarrow> 'w world \<Rightarrow> bool" where
  "sends_bearer url token act w \<longleftrightarrow> (case token of
     None \<Rightarrow> sent (snd (act w)) = sent w
   | Some t \<Rightarrow> \<exists>rq. sent (snd (act w)) = sent w @ [rq] \<and> rq_url rq = url \<and>
       hget (rq_headers rq) ''authorization'' = Some (''Bearer '' @ t))"

definition sends_no_bearer :: "string \<Rightarrow> ('w, 'a) js \<Rightarrow> 'w world \<Rightarrow> bool" where
  "sends_no_bearer url act w \<longleftrightarrow> (\<exists>rq. sent (snd (act w)) = sent w @ [rq] \<and> rq_url rq = url \<and>
     hget (rq_headers rq) ''authorization'' = None)"

context admin_call
begin

lemma sends_admin_token: "sends_bearer (adminBaseUrl h @ path) (admin_token h) (call h) w"
  unfolding sends_bearer_def using without_token [of h w] with_token [of h _ w] by (auto split: option.splits)

end

definition realtime_token :: "'w host \<Rightarrow> string option" where
  "realtime_token h = (case or_undefined (map_option trim (env h ''REALTIME_ADMIN_TOKEN'')) of
     Some token \<Rightarrow> Some token | None \<Rightarrow> admin_token h)"

lemma adminRealtimeToken_run:
  "adminRealtimeToken h = (case realtime_token h of Some token \<Rightarrow> Inr token
   | None \<Rightarrow> Inl (ErrorMessage ''REALTIME_ADMIN_TOKEN or ADMIN_API_TOKEN must be set for realtime admin proxy calls''))"
  by (simp add: adminRealtimeToken_def realtime_token_def admin_token_def split: option.splits)

lemma stream_request_url: "rq_url (stream_request h path rh hs) = realtimeBaseUrl h @ path"
  by (simp add: stream_request_def Let_def)

lemma admin_stream_sends: "sends_bearer (realtimeBaseUrl h @ path) (realtime_token h) (proxyAdminRealtimeStream h path m rh) w"
proof (cases "realtime_token h")
  case None
  then show ?thesis by (simp add: sends_bearer_def proxyAdminRealtimeStream_def adminRealtimeToken_run js_defs)
next
  case (Some token)
  then have "proxyAdminRealtimeStream h path m rh w
      = proxyRealtimeStream h path m rh [(''Authorization'', ''Bearer '' @ token)] w"
    by (simp add: proxyAdminRealtimeStream_def adminRealtimeToken_run js_bind_def js_lift_def)
  with Some stream_request_authorization(2) [of h path rh "''Bearer '' @ token"] show ?thesis
    by (simp add: sends_bearer_def proxyRealtimeStream_sent stream_request_url)
qed

lemma public_stream_sends: "sends_no_bearer (realtimeBaseUrl h @ path) (proxyPublicRealtimeStream h path m rh) w"
  by (simp add: sends_no_bearer_def proxyPublicRealtimeStream_def proxyRealtimeStream_sent stream_request_authorization
      stream_request_url)

lemma public_fetch_sends: "sends_no_bearer (adminBaseUrl h @ path) (adminPublicFetch h path) w"
proof -
  have "hget (auth_headers None no_init) ''authorization'' = None"
    by (simp add: auth_headers_def no_init_def lower_names)
  then show ?thesis
    unfolding sends_no_bearer_def adminPublicFetch_def authenticatedFetch_run
    by (auto simp: Let_def init_request_def split: prod.splits)
qed

text \<open>
  C22. The server's organizer tokens go only where they belong. The three ways of calling the admin API
  (ordinary calls, proxied calls and the import of teams) send exactly one request, to their own path at
  the configured admin address, with the configured admin token, and nothing when no token is configured.
  A proxied organizer stream sends exactly one request, to its path at the configured realtime address,
  with the realtime token; where only the admin token is configured, that token goes there in its place,
  and nothing is sent where neither is. The public attack feed and the public streams carry no token.
\<close>

theorem admin_token_confined:
  "sends_bearer (adminBaseUrl h @ path) (admin_token h) (adminFetch h path init) w \<and>
   sends_bearer (adminBaseUrl h @ path) (admin_token h) (adminProxyFetch h path post_init) w \<and>
   sends_bearer (adminBaseUrl h @ ''/api/v2/admin/import/teams'') (admin_token h) (bulkImportAdminTeams h teams) w \<and>
   sends_bearer (realtimeBaseUrl h @ path)
     (case or_undefined (map_option trim (env h ''REALTIME_ADMIN_TOKEN'')) of Some token \<Rightarrow> Some token | None \<Rightarrow> admin_token h)
     (proxyAdminRealtimeStream h path m rh) w \<and>
   sends_no_bearer (realtimeBaseUrl h @ path) (proxyPublicRealtimeStream h path m rh) w \<and>
   sends_no_bearer (adminBaseUrl h @ ''/api/v2/attacks'' @ buildQueryString (attack_query query)) (listAdminGameAttacks h query) w"
  using admin_fetch.sends_admin_token admin_proxy.sends_admin_token admin_import.sends_admin_token
    admin_stream_sends [of h path m rh w] public_stream_sends public_fetch_sends
  unfolding realtime_token_def listAdminGameAttacks_def by blast

definition admin_host :: "(request \<Rightarrow> response result) \<Rightarrow> unit host" where
  "admin_host answer = (table_host answer)\<lparr>env := (\<lambda>k. if k = ''ADMIN_API_TOKEN'' then Some ''root'' else None)\<rparr>"

section \<open>Event streams\<close>

text \<open>
  A proxied event stream tells the client what the realtime gateway said: on success with a body
  it is a 200 event stream that no proxy may buffer or cache, a success without a body becomes 502,
  and an error keeps its status and its \<open>Retry-After\<close>. The public streams carry no token, the admin
  streams carry the realtime token, or the admin token where no realtime token is set.
\<close>

lemma realtime_streams_preserve_outcome:
  "(resp_ok upstream \<and> rs_body upstream = Some b \<longrightarrow>
      rp_status (stream_reply m upstream) = 200 \<and> rp_body (stream_reply m upstream) = TextBody b \<and>
      hget (rp_headers (stream_reply m upstream)) ''content-type'' = Some ''text/event-stream'') \<and>
   (resp_ok upstream \<and> rs_body upstream = None \<longrightarrow> rp_status (stream_reply m upstream) = 502) \<and>
   (\<not> resp_ok upstream \<longrightarrow> rp_status (stream_reply m upstream) = rs_status upstream \<and>
      hget (rp_headers (stream_reply m upstream)) ''retry-after'' = or_undefined (hget (rs_headers upstream) ''retry-after'')) \<and>
   (\<exists>rq. sent (snd (proxyPublicRealtimeStream h path m rh w)) = sent w @ [rq] \<and>
      hget (rq_headers rq) ''authorization'' = None) \<and>
   (adminRealtimeToken h = Inr token \<longrightarrow>
      (\<exists>rq. sent (snd (proxyAdminRealtimeStream h path m rh w)) = sent w @ [rq] \<and>
         hget (rq_headers rq) ''authorization'' = Some (''Bearer '' @ token)))"
proof (intro conjI impI)
  show "\<exists>rq. sent (snd (proxyPublicRealtimeStream h path m rh w)) = sent w @ [rq] \<and>
      hget (rq_headers rq) ''authorization'' = None"
    unfolding proxyPublicRealtimeStream_def proxyRealtimeStream_sent
    using stream_request_authorization(1) by blast
next
  assume t: "adminRealtimeToken h = Inr token"
  let ?hs = "[(''Authorization'', ''Bearer '' @ token)]"
  have "proxyAdminRealtimeStream h path m rh w = proxyRealtimeStream h path m rh ?hs w"
    using t by (simp add: proxyAdminRealtimeStream_def js_defs)
  then show "\<exists>rq. sent (snd (proxyAdminRealtimeStream h path m rh w)) = sent w @ [rq] \<and>
         hget (rq_headers rq) ''authorization'' = Some (''Bearer '' @ token)"
    using proxyRealtimeStream_sent stream_request_authorization(2) by metis
next
  assume n: "\<not> resp_ok upstream"
  have l: "toLowerCase ''Retry-After'' = ''retry-after''" "toLowerCase ''retry-after'' = ''retry-after''" by code_simp+
  show "hget (rp_headers (stream_reply m upstream)) ''retry-after'' = or_undefined (hget (rs_headers upstream) ''retry-after'')"
    using n by (cases "or_undefined (hget (rs_headers upstream) ''retry-after'')")
      (simp_all add: stream_reply_def Let_def l, simp add: hget_def l)
qed (simp_all add: stream_reply_def streamResponseHeaders_def hget_def lower_names Let_def)

lemma realtime_streams_preserve_outcome_witness:
  "rp_status (stream_reply ''m'' \<lparr>rs_status = 503, rs_headers = [(''retry-after'', ''9'')], rs_json = None, rs_body = None\<rparr>) = 503 \<and>
   (\<exists>rq. sent (snd (proxyAdminRealtimeStream (admin_host (\<lambda>_. Inl NonError)) ''/s'' ''m'' None idle)) = sent idle @ [rq] \<and>
      hget (rq_headers rq) ''authorization'' = Some ''Bearer root'')"
proof -
  have "adminRealtimeToken (admin_host (\<lambda>_. Inl NonError)) = Inr ''root''" by code_simp
  moreover have "\<not> resp_ok \<lparr>rs_status = 503, rs_headers = [(''retry-after'', ''9'')], rs_json = None, rs_body = None\<rparr>"
    by code_simp
  ultimately show ?thesis
    using realtime_streams_preserve_outcome [of "\<lparr>rs_status = 503, rs_headers = [(''retry-after'', ''9'')], rs_json = None, rs_body = None\<rparr>"
        "[]" "''m''" "admin_host (\<lambda>_. Inl NonError)" "''/s''" None idle "''root''"] by simp
qed

end
