(* ===== verification/Prometheus.thy ===== *)
theory Prometheus
  imports Admin_Api
begin

text \<open>
  The metrics reader of \<open>lib/admin-api.ts\<close>: the text exposition format is parsed line by line, single
  values and sums are looked up, and the five services are condensed into one snapshot.
\<close>

section \<open>Numbers and dates of the runtime\<close>

definition js_at_least_1 :: "js_num \<Rightarrow> bool" where
  "js_at_least_1 x = (case x of Finite q \<Rightarrow> 1 \<le> q | PosInfinity \<Rightarrow> True | _ \<Rightarrow> False)"

definition pad_left :: "nat \<Rightarrow> string \<Rightarrow> string" where
  "pad_left n s = replicate (n - length s) (CHR ''0'') @ s"

text \<open>\<open>toISOString\<close> of a time in milliseconds since 1970, by the proleptic Gregorian calendar.\<close>

definition civil_date :: "int \<Rightarrow> int \<times> int \<times> int" where
  "civil_date days = (
     let z = days + 719468; era = z div 146097; doe = z mod 146097;
         yoe = (doe - doe div 1460 + doe div 36524 - doe div 146096) div 365;
         doy = doe - (365 * yoe + yoe div 4 - yoe div 100);
         mp = (5 * doy + 2) div 153;
         d = doy - (153 * mp + 2) div 5 + 1;
         m = (if mp < 10 then mp + 3 else mp - 9)
     in (yoe + era * 400 + (if m \<le> 2 then 1 else 0), m, d))"

definition toISOString :: "int \<Rightarrow> string" where
  "toISOString ms = (
     let (y, m, d) = civil_date (ms div 86400000); t = ms mod 86400000;
         p = (\<lambda>n v. pad_left n (int_to_string v));
         year = (if 0 \<le> y \<and> y \<le> 9999 then p 4 y else (if y < 0 then ''-'' else ''+'') @ p 6 \<bar>y\<bar>)
     in year @ ''-'' @ p 2 m @ ''-'' @ p 2 d @ ''T'' @ p 2 (t div 3600000) @ '':'' @ p 2 (t div 60000 mod 60) @
        '':'' @ p 2 (t div 1000 mod 60) @ ''.'' @ p 3 (t mod 1000) @ ''Z'')"

section \<open>parsePrometheus\<close>

record PromLine =
  pl_name :: string
  pl_labels :: "(string \<times> string) list"
  pl_value :: js_num

definition name_start :: "char \<Rightarrow> bool" where
  "name_start c \<longleftrightarrow> (let n = (of_char c :: nat) in (97 \<le> n \<and> n \<le> 122) \<or> (65 \<le> n \<and> n \<le> 90) \<or> n = 95 \<or> n = 58)"

definition name_char :: "char \<Rightarrow> bool" where
  "name_char c \<longleftrightarrow> name_start c \<or> is_digit c"

text \<open>The number at the end of a line: \<open>-?(?:\d+\.?\d*|\.\d+)(?:[eE][+-]?\d+)?\<close>.\<close>

definition matches_value :: "string \<Rightarrow> bool" where
  "matches_value s \<longleftrightarrow> read_decimal (case s of c # r \<Rightarrow> if c = CHR ''-'' then r else s | [] \<Rightarrow> []) \<noteq> None"

text \<open>The pattern of a sample line, with its three groups: name, label text and value text.\<close>

definition match_line :: "string \<Rightarrow> (string \<times> string \<times> string) option" where
  "match_line line = (
     let name = takeWhile name_char line; r = dropWhile name_char line in
     if name = [] \<or> \<not> name_start (hd name) then None
     else (
       let labelled = (case r of c # r' \<Rightarrow>
               if c = CHR ''{'' then
                 (case dropWhile (\<lambda>c. c \<noteq> CHR ''}'') r' of
                    [] \<Rightarrow> None
                  | _ # r'' \<Rightarrow> Some (takeWhile (\<lambda>c. c \<noteq> CHR ''}'') r', r''))
               else Some ([], r)
             | [] \<Rightarrow> Some ([], [])) in
       case labelled of
         None \<Rightarrow> None
       | Some (labels, r2) \<Rightarrow>
           (let v = dropWhile is_ws r2 in
            if r2 = [] \<or> \<not> is_ws (hd r2) \<or> \<not> matches_value v then None else Some (name, labels, v))))"

definition count_quotes :: "string \<Rightarrow> nat" where
  "count_quotes s = length (filter (\<lambda>c. c = CHR 0x22) s)"

text \<open>Labels are separated at the commas that an even number of quotes follows.\<close>

fun split_labels :: "string \<Rightarrow> string list" where
  "split_labels [] = [[]]"
| "split_labels (c # cs) =
     (if c = CHR '','' \<and> even (count_quotes cs) then [] # split_labels cs
      else (case split_labels cs of [] \<Rightarrow> [[c]] | w # ws \<Rightarrow> (c # w) # ws))"

definition strip_quotes :: "string \<Rightarrow> string" where
  "strip_quotes s = (
     let t = (case s of c # r \<Rightarrow> if c = CHR 0x22 then r else s | [] \<Rightarrow> []) in
     if t \<noteq> [] \<and> last t = CHR 0x22 then butlast t else t)"

definition parse_label :: "string \<Rightarrow> (string \<times> string) option" where
  "parse_label entry = (case split_on (CHR ''='') entry of
     rawKey # rawLabelValue # _ \<Rightarrow>
       if rawKey = [] \<or> rawLabelValue = [] then None
       else Some (trim rawKey, strip_quotes (trim rawLabelValue))
   | _ \<Rightarrow> None)"

text \<open>A later label of the same name replaces an earlier one: the newest comes first in the list.\<close>

definition parse_labels :: "string \<Rightarrow> (string \<times> string) list" where
  "parse_labels rawLabels = (if rawLabels = [] then []
     else rev (List.map_filter parse_label (split_labels rawLabels)))"

definition parse_line :: "string \<Rightarrow> PromLine option" where
  "parse_line rawLine = (let line = trim rawLine in
     if line = [] \<or> starts_with line ''#'' then None
     else (case match_line line of
       None \<Rightarrow> None
     | Some (name, rawLabels, rawValue) \<Rightarrow>
         if js_Number rawValue = NaN then None
         else Some \<lparr>pl_name = name, pl_labels = parse_labels rawLabels, pl_value = js_Number rawValue\<rparr>))"

definition parsePrometheus :: "string \<Rightarrow> PromLine list" where
  "parsePrometheus text = List.map_filter parse_line (split_on (CHR 0x0A) text)"

section \<open>Looking values up\<close>

definition metricValue :: "PromLine list \<Rightarrow> string \<Rightarrow> (string \<times> string) list \<Rightarrow> js_num option" where
  "metricValue rows metricName expectedLabels =
     map_option pl_value (find (\<lambda>row. pl_name row = metricName \<and>
       list_all (\<lambda>(k, v). map_of (pl_labels row) k = Some v) expectedLabels) (rev rows))"

definition metricSum :: "PromLine list \<Rightarrow> string \<Rightarrow> js_num option" where
  "metricSum rows metricName = (let matching = filter (\<lambda>row. pl_name row = metricName) rows in
     if matching = [] then None
     else Some (foldl (\<lambda>sum row. js_add sum (pl_value row)) (Finite 0) matching))"

definition metricBool :: "js_num option \<Rightarrow> bool option" where
  "metricBool v = map_option js_at_least_1 v"

section \<open>getAdminOperationsMetrics\<close>

definition null_num :: "js_num option \<Rightarrow> json" where
  "null_num v = (case v of None \<Rightarrow> JNull | Some x \<Rightarrow> num_json x)"

definition null_bool :: "bool option \<Rightarrow> json" where
  "null_bool v = (case v of None \<Rightarrow> JNull | Some b \<Rightarrow> JBool b)"

definition match_state_metric :: "PromLine list \<Rightarrow> string" where
  "match_state_metric gameCore = (
     let state_is = (\<lambda>s. metricValue gameCore ''adplatform_game_core_match_state'' [(''state'', s)] = Some (Finite 1)) in
     if state_is ''running'' then ''running'' else if state_is ''finished'' then ''finished''
     else if state_is ''not_started'' then ''not_started'' else ''unknown'')"

definition game_core_section :: "PromLine list \<Rightarrow> json" where
  "game_core_section rows = JObj [
     (''match_state'', JStr (match_state_metric rows)),
     (''total_ticks'', null_num (metricValue rows ''adplatform_game_core_total_ticks'' [])),
     (''checker_runs_total'', null_num (metricValue rows ''adplatform_game_core_checker_runs_total'' [(''status'', ''all'')])),
     (''checker_runs_failed'', null_num (metricValue rows ''adplatform_game_core_checker_runs_total'' [(''status'', ''failed'')])),
     (''scheduler_running'', null_bool (metricBool (metricValue rows ''adplatform_game_core_scheduler_running'' [])))]"

definition verdict_metric :: "PromLine list \<Rightarrow> string \<Rightarrow> json" where
  "verdict_metric rows c = null_num (metricValue rows ''adplatform_submission_service_submit_verdicts_total'' [(''class'', c)])"

definition submission_section :: "PromLine list \<Rightarrow> json" where
  "submission_section rows = JObj [
     (''submit_requests_total'', null_num (metricValue rows ''adplatform_submission_service_submit_requests_total'' [])),
     (''submit_failures_total'', null_num (metricValue rows ''adplatform_submission_service_submit_failures_total'' [])),
     (''attack_feed_requests_total'', null_num (metricValue rows ''adplatform_submission_service_attack_feed_requests_total'' [])),
     (''verdicts'', JObj [(''correct'', verdict_metric rows ''correct''), (''duplicate'', verdict_metric rows ''duplicate''),
        (''invalid'', verdict_metric rows ''invalid''), (''unknown'', verdict_metric rows ''unknown'')])]"

definition controller_operation :: "PromLine list \<Rightarrow> string \<Rightarrow> json" where
  "controller_operation rows op =
     null_num (metricValue rows ''adplatform_controller_service_operation_requests_total'' [(''operation'', op)])"

definition controller_section :: "PromLine list \<Rightarrow> json" where
  "controller_section rows = JObj [
     (''deployment_reconcile_requests'', controller_operation rows ''deployment_reconcile''),
     (''access_reconcile_requests'', controller_operation rows ''access_reconcile''),
     (''service_access_reconcile_requests'', controller_operation rows ''service_access_reconcile''),
     (''ssh_credential_requests'', controller_operation rows ''ssh_credential''),
     (''access_policies_total'', null_num (metricValue rows ''adplatform_controller_service_access_policies_total'' [])),
     (''access_last_apply_success'',
        null_bool (metricBool (metricValue rows ''adplatform_controller_service_access_last_apply_success'' [])))]"

definition realtime_section :: "PromLine list \<Rightarrow> json" where
  "realtime_section rows = JObj [
     (''last_sync_success'', null_bool (metricBool (metricValue rows ''adplatform_realtime_gateway_last_sync_success'' []))),
     (''sync_errors_total'', null_num (metricValue rows ''adplatform_realtime_gateway_sync_errors_total'' [])),
     (''subscribers_total'', null_num (metricSum rows ''adplatform_realtime_gateway_subscribers'')),
     (''snapshot_bytes_total'', null_num (metricSum rows ''adplatform_realtime_gateway_snapshot_bytes''))]"

definition wireguard_peers :: "PromLine list \<Rightarrow> string \<Rightarrow> json" where
  "wireguard_peers rows s = null_num (metricValue rows ''adplatform_wireguard_gateway_peer_counts'' [(''status'', s)])"

definition wireguard_section :: "PromLine list \<Rightarrow> json" where
  "wireguard_section rows = JObj [
     (''reconcile_requests'',
        null_num (metricValue rows ''adplatform_wireguard_gateway_operation_requests_total'' [(''operation'', ''reconcile'')])),
     (''peers_total'', wireguard_peers rows ''total''), (''peers_active'', wireguard_peers rows ''active''),
     (''peers_revoked'', wireguard_peers rows ''revoked''),
     (''last_apply_success'',
        null_bool (metricBool (metricValue rows ''adplatform_wireguard_gateway_last_apply_success'' [])))]"

definition metrics_snapshot :: "int \<Rightarrow> string list \<Rightarrow> json" where
  "metrics_snapshot now texts = (let rows = (\<lambda>i. parsePrometheus (texts ! i)) in
     JObj [(''generated_at'', JStr (toISOString now)), (''game_core'', game_core_section (rows 0)),
       (''submission_service'', submission_section (rows 1)), (''controller_service'', controller_section (rows 2)),
       (''realtime_gateway'', realtime_section (rows 3)), (''wireguard_gateway'', wireguard_section (rows 4))])"

definition getAdminOperationsMetrics :: "'w host \<Rightarrow> ('w, json option) js" where
  "getAdminOperationsMetrics h =
     js_bind (js_all [fetchText h (gameCoreBaseUrl h) ''/metrics'', fetchText h (submissionServiceBaseUrl h) ''/metrics'',
         fetchText h (controllerMetricsBaseUrl h) ''/metrics'', fetchText h (realtimeGatewayBaseUrl h) ''/metrics'',
         fetchText h (wireGuardGatewayBaseUrl h) ''/metrics''])
       (\<lambda>texts w. (Inr (Some (metrics_snapshot (clock h (net w)) texts)), w))"

section \<open>What a well-formed exposition is read as\<close>

text \<open>
  The lines the services write at \<open>/metrics\<close>: comments (\<open># HELP\<close> and \<open># TYPE\<close>) and samples, which have a
  name, labels in braces if there are any, and a decimal value, as the formats \<open>%d\<close>, \<open>%.0f\<close> and \<open>%.6f\<close>
  print it: a sign, digits, and the digits behind the point if there are any.
\<close>

type_synonym decimal = "bool \<times> string \<times> string"

datatype exposition_line = Comment string | Sample string "(string \<times> string) list" decimal

definition render_label :: "string \<times> string \<Rightarrow> string" where
  "render_label kv = fst kv @ [CHR ''='', CHR 0x22] @ snd kv @ [CHR 0x22]"

definition render_labels :: "(string \<times> string) list \<Rightarrow> string" where
  "render_labels labels = (if labels = [] then [] else ''{'' @ join_with '','' (map render_label labels) @ ''}'')"

definition render_decimal :: "decimal \<Rightarrow> string" where
  "render_decimal v = (case v of (neg, ip, fp) \<Rightarrow>
     (if neg then ''-'' else []) @ ip @ (if fp = [] then [] else ''.'' @ fp))"

definition decimal_value :: "decimal \<Rightarrow> rat" where
  "decimal_value v = (case v of (neg, ip, fp) \<Rightarrow>
     (if neg then - 1 else 1) * (of_nat (digits_value (ip @ fp)) / 10 ^ length fp))"

definition decimal_ok :: "decimal \<Rightarrow> bool" where
  "decimal_ok v = (case v of (neg, ip, fp) \<Rightarrow> ip \<noteq> [] \<and> list_all is_digit ip \<and> list_all is_digit fp)"

definition render_line :: "exposition_line \<Rightarrow> string" where
  "render_line l = (case l of
     Comment c \<Rightarrow> ''#'' @ c
   | Sample name labels v \<Rightarrow> name @ render_labels labels @ '' '' @ render_decimal v)"

definition render_exposition :: "exposition_line list \<Rightarrow> string" where
  "render_exposition ls = concat (map (\<lambda>l. render_line l @ [CHR 0x0A]) ls)"

definition plain_name :: "string \<Rightarrow> bool" where
  "plain_name s \<longleftrightarrow> s \<noteq> [] \<and> name_start (hd s) \<and> list_all name_char s"

definition plain_value :: "string \<Rightarrow> bool" where
  "plain_value v \<longleftrightarrow> list_all (\<lambda>c. c \<notin> {CHR 0x22, CHR ''='', CHR ''}'', CHR 0x0A}) v"

fun no_split :: "string \<Rightarrow> bool" where
  "no_split [] \<longleftrightarrow> True"
| "no_split (c # cs) \<longleftrightarrow> (c = CHR '','' \<longrightarrow> odd (count_quotes cs)) \<and> no_split cs"

lemma count_quotes_simps [simp]:
  "count_quotes [] = 0" "count_quotes (c # cs) = (if c = CHR 0x22 then 1 else 0) + count_quotes cs"
  "count_quotes (xs @ ys) = count_quotes xs + count_quotes ys"
  by (simp_all add: count_quotes_def)

lemma split_labels_not_Nil: "split_labels s \<noteq> []"
  by (induction s) (auto split: list.splits)

lemma split_labels_append:
  "no_split e \<Longrightarrow> even (count_quotes rest) \<Longrightarrow>
     split_labels (e @ rest) = (e @ hd (split_labels rest)) # tl (split_labels rest)"
proof (induction e)
  case Nil
  then show ?case using split_labels_not_Nil [of rest] by simp
next
  case (Cons c cs)
  then have "c = CHR '','' \<longrightarrow> odd (count_quotes (cs @ rest))" by simp
  with Cons show ?case by simp
qed

lemma no_split_append: "no_split xs \<Longrightarrow> even (count_quotes ys) \<Longrightarrow> no_split ys \<Longrightarrow> no_split (xs @ ys)"
  by (induction xs) auto

lemma no_commas: "CHR '','' \<notin> set s \<Longrightarrow> no_split s"
  by (induction s) auto

lemma count_quotes_none: "CHR 0x22 \<notin> set v \<Longrightarrow> count_quotes v = 0"
  by (induction v) auto

lemma no_split_quoted: "CHR 0x22 \<notin> set v \<Longrightarrow> no_split (v @ [CHR 0x22])"
  by (induction v) (auto simp: count_quotes_none)

lemma name_char_excludes:
  assumes "name_char c"
  shows "c \<noteq> CHR '',''" "c \<noteq> CHR 0x22" "c \<noteq> CHR ''=''" "c \<noteq> CHR ''{''" "c \<noteq> CHR ''}''" "c \<noteq> CHR 0x0A"
    "c \<noteq> CHR ''#''" "\<not> is_ws c"
  using assms by (auto simp: name_char_def name_start_def is_digit_def is_ws_def Let_def)

lemma plain_name_chars: "plain_name k \<Longrightarrow> c \<in> set k \<Longrightarrow> name_char c"
  by (auto simp: plain_name_def list_all_iff)

definition label_ok :: "string \<times> string \<Rightarrow> bool" where
  "label_ok kv \<longleftrightarrow> plain_name (fst kv) \<and> plain_value (snd kv)"

lemma plain_value_chars: "plain_value v \<Longrightarrow> CHR 0x22 \<notin> set v \<and> CHR ''='' \<notin> set v \<and> CHR ''}'' \<notin> set v \<and> CHR 0x0A \<notin> set v"
  by (auto simp: plain_value_def list_all_iff)

lemma render_label_quotes:
  assumes "label_ok kv"
  shows "no_split (render_label kv)" "count_quotes (render_label kv) = 2"
    "CHR ''}'' \<notin> set (render_label kv)" "CHR 0x0A \<notin> set (render_label kv)"
proof -
  have k: "CHR '','' \<notin> set (fst kv)" "CHR 0x22 \<notin> set (fst kv)" "CHR ''}'' \<notin> set (fst kv)" "CHR 0x0A \<notin> set (fst kv)"
    using assms plain_name_chars name_char_excludes unfolding label_ok_def by blast+
  have v: "CHR 0x22 \<notin> set (snd kv)" "CHR ''}'' \<notin> set (snd kv)" "CHR 0x0A \<notin> set (snd kv)"
    using assms plain_value_chars unfolding label_ok_def by blast+
  show "count_quotes (render_label kv) = 2"
    using k v by (simp add: render_label_def count_quotes_none)
  show "no_split (render_label kv)"
    unfolding render_label_def
    by (rule no_split_append) (use k v no_commas no_split_quoted in \<open>simp_all add: count_quotes_none\<close>)
  show "CHR ''}'' \<notin> set (render_label kv)" "CHR 0x0A \<notin> set (render_label kv)"
    using k v by (auto simp: render_label_def)
qed

lemma join_render_facts:
  "list_all label_ok ls \<Longrightarrow> even (count_quotes (join_with '','' (map render_label ls))) \<and>
     CHR ''}'' \<notin> set (join_with '','' (map render_label ls)) \<and> CHR 0x0A \<notin> set (join_with '','' (map render_label ls))"
proof (induction ls rule: induct_list012)
  case (3 x y zs)
  then show ?case using render_label_quotes [of x] by auto
qed (use render_label_quotes in auto)

lemma split_labels_join:
  "ls \<noteq> [] \<Longrightarrow> list_all label_ok ls \<Longrightarrow> split_labels (join_with '','' (map render_label ls)) = map render_label ls"
proof (induction ls rule: induct_list012)
  case (2 x)
  then show ?case using split_labels_append [of "render_label x" "[]"] render_label_quotes [of x] by simp
next
  case (3 x y zs)
  let ?r = "join_with '','' (map render_label (y # zs))"
  have r: "even (count_quotes ?r)" using join_render_facts [of "y # zs"] 3 by simp
  have "split_labels (render_label x @ '','' @ ?r) = (render_label x @ hd (split_labels ('','' @ ?r))) # tl (split_labels ('','' @ ?r))"
    by (rule split_labels_append) (use 3 r render_label_quotes in auto)
  also have "split_labels ('','' @ ?r) = [] # map render_label (y # zs)"
    using 3 r by simp
  finally show ?case by simp
qed simp

lemma parse_label_render: "label_ok kv \<Longrightarrow> parse_label (render_label kv) = Some kv"
proof -
  assume ok: "label_ok kv"
  then have k: "CHR ''='' \<notin> set (fst kv)" "fst kv \<noteq> []" and v: "CHR ''='' \<notin> set (snd kv)"
    and ws: "\<And>c. c \<in> set (fst kv) \<Longrightarrow> \<not> is_ws c"
    using plain_name_chars name_char_excludes plain_value_chars unfolding label_ok_def plain_name_def by blast+
  let ?q = "CHR 0x22 # snd kv @ [CHR 0x22]"
  have "render_label kv = fst kv @ CHR ''='' # ?q" by (simp add: render_label_def)
  then have "split_on (CHR ''='') (render_label kv) = [fst kv, ?q]"
    using k v by (simp add: split_on_append split_on_no_delim)
  moreover have "trim (fst kv) = fst kv" using k(2) ws by (intro trim_id) (simp add: trimmed_def)
  moreover have "trim ?q = ?q" by (intro trim_id) (simp add: trimmed_def is_ws_def)
  ultimately show "parse_label (render_label kv) = Some kv"
    using k(2) by (simp add: parse_label_def strip_quotes_def)
qed

lemma parse_labels_render:
  assumes "list_all label_ok ls"
  shows "parse_labels (join_with '','' (map render_label ls)) = rev ls"
proof (cases "ls = []")
  case False
  have "List.map_filter parse_label (map render_label ls) = ls"
    using assms by (induction ls) (simp_all add: parse_label_render)
  moreover have "join_with '','' (map render_label ls) \<noteq> []"
    using False by (cases ls rule: remdups_adj.cases) (auto simp: render_label_def)
  ultimately show ?thesis using split_labels_join [OF False assms] by (simp add: parse_labels_def)
qed (simp add: parse_labels_def)

lemma to_double_not_NaN: "to_double q \<noteq> NaN"
  by (simp add: to_double_def Let_def)

lemma read_decimal_point:
  assumes "list_all is_digit ip" and "ip \<noteq> []" and "list_all is_digit fp"
  shows "read_decimal (ip @ (if fp = [] then [] else ''.'' @ fp)) = Some (of_nat (digits_value (ip @ fp)) / 10 ^ length fp)"
proof (cases "fp = []")
  case True
  then show ?thesis using read_decimal_digits [OF assms(1,2)] by simp
next
  case False
  have "\<not> is_digit (CHR ''.'')" by code_simp
  then have ip: "takeWhile is_digit (ip @ CHR ''.'' # fp) = ip" "dropWhile is_digit (ip @ CHR ''.'' # fp) = CHR ''.'' # fp"
    using assms(1) by (simp_all add: takeWhile_append2 dropWhile_append2 list_all_iff)
  have fp: "takeWhile is_digit fp = fp" "dropWhile is_digit fp = []"
    using assms(3) by (simp_all add: takeWhile_eq_all_conv list_all_iff)
  show ?thesis
    using assms(2) False
    by (simp add: read_decimal_def Let_def ip fp read_exponent_def power_int_minus divide_inverse)
qed

lemma decimal_shape:
  assumes "decimal_ok (neg, ip, fp)"
  obtains d r where "ip @ (if fp = [] then [] else ''.'' @ fp) = d # r" and "is_digit d" and "r = [] \<or> is_digit (hd r) \<or> hd r = CHR ''.''"
proof -
  obtain d ds where ip: "ip = d # ds" "is_digit d" "list_all is_digit ds"
    using assms by (cases ip) (auto simp: decimal_ok_def)
  show ?thesis
  proof (rule that [of d "ds @ (if fp = [] then [] else ''.'' @ fp)"])
    show "ds @ (if fp = [] then [] else ''.'' @ fp) = [] \<or> is_digit (hd (ds @ (if fp = [] then [] else ''.'' @ fp))) \<or>
        hd (ds @ (if fp = [] then [] else ''.'' @ fp)) = CHR ''.''"
      using ip(3) by (cases ds) auto
  qed (use ip in simp_all)
qed

lemma render_decimal_chars:
  assumes "decimal_ok v" and "c \<in> set (render_decimal v)"
  shows "is_digit c \<or> c = CHR ''-'' \<or> c = CHR ''.''"
  using assms by (cases v) (auto simp: decimal_ok_def render_decimal_def list_all_iff split: if_splits)

lemma render_decimal_not_ws: "decimal_ok v \<Longrightarrow> c \<in> set (render_decimal v) \<Longrightarrow> \<not> is_ws c \<and> c \<noteq> CHR 0x0A"
  using render_decimal_chars [of v c] is_digit_not_ws [of c] by (auto simp: is_ws_def is_digit_def)

lemma render_decimal_not_Nil: "decimal_ok v \<Longrightarrow> render_decimal v \<noteq> []"
  by (cases v) (auto simp: decimal_ok_def render_decimal_def)

lemma trim_render_decimal: "decimal_ok v \<Longrightarrow> trim (render_decimal v) = render_decimal v"
  using render_decimal_not_ws render_decimal_not_Nil
  by (intro trim_id) (simp add: trimmed_def)

lemma matches_value_decimal: "decimal_ok v \<Longrightarrow> matches_value (render_decimal v)"
proof -
  assume ok: "decimal_ok v"
  obtain neg ip fp where v: "v = (neg, ip, fp)" by (cases v)
  obtain d r where "ip @ (if fp = [] then [] else ''.'' @ fp) = d # r" "is_digit d"
    using decimal_shape ok v by metis
  then have eq: "(case render_decimal v of c # r \<Rightarrow> if c = CHR ''-'' then r else render_decimal v | [] \<Rightarrow> [])
      = ip @ (if fp = [] then [] else ''.'' @ fp)"
    using is_digit_not_sign by (auto simp: v render_decimal_def)
  then show ?thesis
    using ok read_decimal_point [of ip fp] unfolding matches_value_def eq by (simp add: v decimal_ok_def)
qed

lemma js_Number_decimal: "decimal_ok v \<Longrightarrow> js_Number (render_decimal v) = to_double (decimal_value v)"
proof -
  assume ok: "decimal_ok v"
  obtain neg ip fp where v: "v = (neg, ip, fp)" by (cases v)
  let ?u = "ip @ (if fp = [] then [] else ''.'' @ fp)"
  obtain d r where u: "?u = d # r" "is_digit d" "r = [] \<or> is_digit (hd r) \<or> hd r = CHR ''.''"
    using decimal_shape ok v by metis
  have shape: "render_decimal v = (if neg then CHR ''-'' # d # r else d # r)"
    using u(1) by (auto simp: v render_decimal_def)
  have "radix_literal (render_decimal v) = None"
    using u(3) is_digit_not_radix_mark [of "hd r"] by (cases r) (auto simp: shape radix_literal_def)
  moreover have "read_sign (render_decimal v) = (neg, ?u)"
    using is_digit_not_sign [OF u(2)] by (simp add: shape u(1) read_sign_def)
  moreover have "?u \<noteq> ''Infinity''" using u(2) by (auto simp: u(1) is_digit_def)
  moreover have "read_decimal ?u = Some (of_nat (digits_value (ip @ fp)) / 10 ^ length fp)"
    using ok by (intro read_decimal_point) (simp_all add: v decimal_ok_def)
  ultimately show ?thesis
    using trim_render_decimal [OF ok] render_decimal_not_Nil [OF ok] by (simp add: js_Number_def Let_def decimal_value_def v)
qed

lemma takeWhile_until: "\<forall>c \<in> set xs. P c \<Longrightarrow> \<not> P d \<Longrightarrow> takeWhile P (xs @ d # ys) = xs \<and> dropWhile P (xs @ d # ys) = d # ys"
  by (simp add: takeWhile_append2 dropWhile_append2)

lemma match_line_render:
  assumes "plain_name name" and "list_all label_ok ls" and "decimal_ok v"
  shows "match_line (render_line (Sample name ls v)) = Some (name, join_with '','' (map render_label ls), render_decimal v)"
proof -
  let ?j = "join_with '','' (map render_label ls)" and ?v = "render_decimal v"
  let ?rest = "render_labels ls @ '' '' @ ?v"
  have sp: "is_ws (CHR '' '')" "\<not> name_char (CHR '' '')" "\<not> name_char (CHR ''{'')" by code_simp+
  obtain c r where rest: "?rest = c # r" "\<not> name_char c" using sp by (cases "ls = []") (auto simp: render_labels_def)
  then have nm: "takeWhile name_char (name @ ?rest) = name" "dropWhile name_char (name @ ?rest) = ?rest"
    using takeWhile_until [of name name_char c r] plain_name_chars [OF assms(1)] by simp_all
  have "\<forall>c \<in> set ?j. c \<noteq> CHR ''}''" using join_render_facts [OF assms(2)] by blast
  from takeWhile_until [OF this, of "CHR ''}''" "CHR '' '' # ?v"]
  have j: "takeWhile (\<lambda>c. c \<noteq> CHR ''}'') (?j @ CHR ''}'' # CHR '' '' # ?v) = ?j"
    "dropWhile (\<lambda>c. c \<noteq> CHR ''}'') (?j @ CHR ''}'' # CHR '' '' # ?v) = CHR ''}'' # CHR '' '' # ?v" by blast+
  have dw: "dropWhile is_ws ?v = ?v"
    using render_decimal_not_ws [OF assms(3)] render_decimal_not_Nil [OF assms(3)] by (cases ?v) auto
  have ne: "name \<noteq> []" "name_start (hd name)" using assms(1) by (simp_all add: plain_name_def)
  show ?thesis
  proof (cases "ls = []")
    case True
    then have "render_line (Sample name ls v) = name @ ?rest" "?rest = CHR '' '' # ?v"
      by (simp_all add: render_line_def render_labels_def)
    with nm True show ?thesis
      unfolding match_line_def Let_def using ne sp matches_value_decimal [OF assms(3)] by (simp add: dw)
  next
    case False
    then have "render_line (Sample name ls v) = name @ ?rest" "?rest = CHR ''{'' # ?j @ CHR ''}'' # CHR '' '' # ?v"
      by (simp_all add: render_line_def render_labels_def)
    with nm show ?thesis
      unfolding match_line_def Let_def using ne sp matches_value_decimal [OF assms(3)] by (simp add: dw j)
  qed
qed

definition line_ok :: "exposition_line \<Rightarrow> bool" where
  "line_ok l = (case l of
     Comment c \<Rightarrow> CHR 0x0A \<notin> set c
   | Sample name labels v \<Rightarrow> plain_name name \<and> list_all label_ok labels \<and> decimal_ok v)"

text \<open>The row a line stands for: none for a comment, and the double nearest to the decimal for a sample.\<close>

definition line_row :: "exposition_line \<Rightarrow> PromLine option" where
  "line_row l = (case l of
     Comment c \<Rightarrow> None
   | Sample name labels v \<Rightarrow> Some \<lparr>pl_name = name, pl_labels = rev labels, pl_value = to_double (decimal_value v)\<rparr>)"

lemma parse_comment: "parse_line (CHR ''#'' # c) = None"
proof -
  have "\<exists>r. trim (CHR ''#'' # c) = CHR ''#'' # r"
    by (auto simp: trim_def trim_start_def trim_end_def is_ws_def dropWhile_append
        intro!: exI [of _ "rev (dropWhile is_ws (rev c))"])
  then show ?thesis by (auto simp: parse_line_def)
qed

lemma parse_sample:
  assumes "plain_name name" and "list_all label_ok ls" and "decimal_ok v"
  shows "parse_line (render_line (Sample name ls v))
    = Some \<lparr>pl_name = name, pl_labels = rev ls, pl_value = to_double (decimal_value v)\<rparr>"
proof -
  let ?l = "render_line (Sample name ls v)"
  have ne: "name \<noteq> []" "name_start (hd name)" using assms(1) by (auto simp: plain_name_def)
  then have hdl: "hd ?l = hd name" "?l \<noteq> []" by (simp_all add: render_line_def)
  have nc: "name_char (hd name)" using ne by (simp add: name_char_def)
  have "last ?l \<in> set (render_decimal v)" using render_decimal_not_Nil [OF assms(3)] by (simp add: render_line_def)
  then have "\<not> is_ws (last ?l)" using render_decimal_not_ws [OF assms(3)] by blast
  then have tr: "trim ?l = ?l" using nc hdl name_char_excludes(8) by (intro trim_id) (simp add: trimmed_def)
  have "\<not> starts_with ?l ''#''" using hdl nc name_char_excludes(7) by (cases ?l) auto
  then show ?thesis
    using hdl(2) by (simp add: parse_line_def tr match_line_render [OF assms] to_double_not_NaN
        js_Number_decimal [OF assms(3)] parse_labels_render [OF assms(2)])
qed

lemma parse_line_render: "line_ok l \<Longrightarrow> parse_line (render_line l) = line_row l"
  by (cases l) (simp_all add: line_ok_def line_row_def parse_sample, simp add: render_line_def parse_comment)

lemma render_line_no_newline:
  assumes "line_ok l"
  shows "CHR 0x0A \<notin> set (render_line l)"
proof (cases l)
  case (Sample name ls v)
  have "CHR 0x0A \<notin> set name"
    using assms plain_name_chars name_char_excludes(6) by (auto simp: Sample line_ok_def)
  moreover have "CHR 0x0A \<notin> set (render_decimal v)"
    using assms render_decimal_not_ws [of v "CHR 0x0A"] by (auto simp: Sample line_ok_def)
  ultimately show ?thesis
    using assms join_render_facts [of ls] by (auto simp: Sample line_ok_def render_line_def render_labels_def)
qed (use assms in \<open>simp add: line_ok_def render_line_def\<close>)

lemma parse_exposition_Cons:
  "line_ok l \<Longrightarrow> parsePrometheus (render_line l @ CHR 0x0A # rest) = (case line_row l of None \<Rightarrow> [] | Some r \<Rightarrow> [r]) @ parsePrometheus rest"
  using render_line_no_newline [of l] parse_line_render [of l]
  by (simp add: parsePrometheus_def split_on_append map_filter_simps split: option.splits)

text \<open>
  C23. Reading what the services write at \<open>/metrics\<close> gives back the samples that were written: for every
  sequence of lines, each ended by a line break, that are comments or samples with a plain metric name,
  any number of labels (none included) with plain names, and a decimal value with or without digits
  behind the point, the parsed rows are the samples in their order, with their labels and the double
  nearest to the written decimal. Label values may hold anything, commas included, but quotes, closing
  braces, line breaks and equals signs; for these the parser does go wrong.
\<close>

theorem parsePrometheus_roundtrip:
  assumes "list_all line_ok ls"
  shows "parsePrometheus (render_exposition ls) = List.map_filter line_row ls"
  using assms
proof (induction ls)
  case Nil
  then show ?case by (simp add: render_exposition_def parsePrometheus_def parse_line_def map_filter_simps)
next
  case (Cons l ls)
  then have "parsePrometheus (render_exposition (l # ls))
      = (case line_row l of None \<Rightarrow> [] | Some r \<Rightarrow> [r]) @ parsePrometheus (render_exposition ls)"
    using parse_exposition_Cons [of l "render_exposition ls"] by (simp add: render_exposition_def)
  with Cons show ?case by (simp add: map_filter_simps split: option.splits)
qed

definition sample_exposition :: "exposition_line list" where
  "sample_exposition = [Comment '' HELP up Whether it is up.'', Comment '' TYPE up gauge'', Sample ''up'' [] (False, ''1'', []),
     Sample ''n_total'' [(''job'', ''a,b''), (''state'', ''x'')] (False, ''42'', []),
     Sample ''seconds_sum'' [(''operation'', ''sync'')] (False, ''15'', ''000000'')]"

theorem parsePrometheus_roundtrip_witness:
  "parsePrometheus (render_exposition sample_exposition) =
     [\<lparr>pl_name = ''up'', pl_labels = [], pl_value = Finite 1\<rparr>,
      \<lparr>pl_name = ''n_total'', pl_labels = [(''state'', ''x''), (''job'', ''a,b'')], pl_value = Finite 42\<rparr>,
      \<lparr>pl_name = ''seconds_sum'', pl_labels = [(''operation'', ''sync'')], pl_value = Finite 15\<rparr>]"
proof -
  have d: "decimal_value (False, ''1'', []) = 1" "decimal_value (False, ''42'', []) = 42"
    "decimal_value (False, ''15'', ''000000'') = 15"
    by (simp_all add: decimal_value_def digits_value_def digit_val_def)
  have t: "to_double 1 = Finite 1" "to_double 42 = Finite 42" "to_double 15 = Finite 15"
    using to_double_of_int [of 1] to_double_of_int [of 42] to_double_of_int [of 15] by simp_all
  have "list_all line_ok sample_exposition" by code_simp
  then show ?thesis using parsePrometheus_roundtrip [of sample_exposition]
    by (simp add: sample_exposition_def line_row_def map_filter_simps d t)
qed

text \<open>
  A label value that contains an equals sign is cut at it, although it stands inside quotes.
\<close>

lemma parse_label_truncates_equals: "parse_label (render_label (''q'', ''a=b'')) = Some (''q'', ''a'')"
  by code_simp

section \<open>Looking up\<close>

lemma metricValue_snoc:
  "metricValue (rows @ [row]) name labels =
     (if pl_name row = name \<and> list_all (\<lambda>(k, v). map_of (pl_labels row) k = Some v) labels
      then Some (pl_value row) else metricValue rows name labels)"
  by (simp add: metricValue_def)

lemma js_add_int: "\<bar>a + b\<bar> \<le> 2 ^ 53 \<Longrightarrow> js_add (Finite (of_int a)) (Finite (of_int b)) = Finite (of_int (a + b))"
  using to_double_of_int [of "a + b"] by (simp add: js_add_def)

lemma foldl_js_add:
  assumes "\<bar>a\<bar> + sum_list (map abs ns) \<le> 2 ^ 53"
  shows "foldl (\<lambda>sum n. js_add sum (Finite (of_int n))) (Finite (of_int a)) ns = Finite (of_int (a + sum_list ns))"
  using assms
proof (induction ns arbitrary: a)
  case (Cons n ns)
  have "0 \<le> sum_list (map abs ns)" by (rule sum_list_nonneg) auto
  then have "\<bar>a + n\<bar> \<le> 2 ^ 53" "\<bar>a + n\<bar> + sum_list (map abs ns) \<le> 2 ^ 53"
    using Cons.prems by simp_all
  with Cons.IH [of "a + n"] show ?case by (simp only: foldl.simps js_add_int) (simp add: algebra_simps)
qed simp

text \<open>
  A total over labelled samples is exact: as long as the magnitudes of the integer samples of a
  metric add up to at most \<open>2^53\<close>, the floating-point sum is the true sum of all samples of that metric,
  whatever their labels, and of no other metric; without a sample the total is null.
\<close>

lemma metricSum_exact:
  assumes "map pl_value (filter (\<lambda>row. pl_name row = name) rows) = map (\<lambda>n. Finite (of_int n)) ns"
    and "sum_list (map abs ns) \<le> 2 ^ 53"
  shows "metricSum rows name = (if ns = [] then None else Some (Finite (of_int (sum_list ns))))"
proof -
  let ?m = "filter (\<lambda>row. pl_name row = name) rows"
  have "foldl (\<lambda>sum row. js_add sum (pl_value row)) (Finite 0) ?m = foldl js_add (Finite 0) (map pl_value ?m)"
    by (simp add: foldl_map)
  also have "\<dots> = foldl (\<lambda>sum n. js_add sum (Finite (of_int n))) (Finite (of_int 0)) ns"
    by (simp add: assms(1) foldl_map)
  also have "\<dots> = Finite (of_int (sum_list ns))" using foldl_js_add [of 0 ns] assms(2) by simp
  finally show ?thesis
    using assms(1) by (auto simp: metricSum_def Let_def)
qed

definition counter_row :: "string \<times> int \<Rightarrow> PromLine" where
  "counter_row c = \<lparr>pl_name = fst c, pl_labels = [], pl_value = Finite (of_int (snd c))\<rparr>"

lemma metricSum_exact_witness:
  "metricSum (map counter_row [(''subs'', 3), (''other'', 9), (''subs'', 4)]) ''subs''
     = Some (Finite 7)"
proof -
  have "map pl_value (filter (\<lambda>row. pl_name row = ''subs'')
      (map counter_row [(''subs'', 3), (''other'', 9), (''subs'', 4)]))
      = map (\<lambda>n. Finite (of_int n)) [3, 4]"
    by (simp add: counter_row_def)
  from metricSum_exact [OF this] show ?thesis by simp
qed

end
