(* ===== verification/Api_Routes.thy ===== *)
theory Api_Routes
  imports Prometheus
begin

text \<open>
  The route handlers under \<open>app/api\<close>. A handler gets the JSON body of its request (\<open>None\<close> where
  \<open>request.json()\<close> rejects), its path parameters and its search parameters, and it replies or throws;
  an error that leaves a handler is answered by the framework with status 500.
\<close>

section \<open>Participant routes\<close>

type_synonym ('w) route = "('w, reply) js"

definition announcements_GET :: "'w host \<Rightarrow> 'w route" where
  "announcements_GET h = json_route (listAnnouncements h) ''announcements unavailable'' ''Announcements unavailable''"

definition attacks_GET :: "'w host \<Rightarrow> (string \<Rightarrow> string option) \<Rightarrow> 'w route" where
  "attacks_GET h searchParams =
     json_route (listAttackFeed h (parseAttackFeedQuery searchParams 12 200)) ''attack feed failed'' upstream_title"

definition passthroughHeaders :: "headers \<Rightarrow> headers" where
  "passthroughHeaders hs =
     copy_headers [''content-type'', ''content-disposition'', ''content-length'', ''cache-control''] hs []"

definition passthrough_reply :: "response \<Rightarrow> reply" where
  "passthrough_reply r = \<lparr>rp_status = rs_status r, rp_headers = passthroughHeaders (rs_headers r),
     rp_body = (case rs_body r of Some b \<Rightarrow> TextBody b | None \<Rightarrow> EmptyBody), rp_cookies = []\<rparr>"

definition positive_integer :: "js_num \<Rightarrow> int option" where
  "positive_integer x = (case x of Finite q \<Rightarrow> if of_int \<lfloor>q\<rfloor> = q \<and> 0 < q then Some \<lfloor>q\<rfloor> else None | _ \<Rightarrow> None)"

definition bad_request :: "string \<Rightarrow> 'w route" where
  "bad_request detail = js_return (problemResponse 400 ''Invalid request'' detail)"

definition challenge_source_GET :: "'w host \<Rightarrow> string \<Rightarrow> 'w route" where
  "challenge_source_GET h challengeId = (case positive_integer (js_Number challengeId) of
     None \<Rightarrow> bad_request ''challenge id is invalid.''
   | Some challengeID \<Rightarrow> js_catch
       (js_bind (downloadChallengeSource h challengeID) (\<lambda>r. js_return (passthrough_reply r)))
       (\<lambda>e. js_return (upstreamErrorResponse e ''challenge source download failed'' ''Source download failed'')))"

definition me_wireguard_GET :: "'w host \<Rightarrow> 'w route" where
  "me_wireguard_GET h = js_catch
     (js_bind (downloadParticipantWireGuard h) (\<lambda>r. js_return (passthrough_reply r)))
     (\<lambda>e. js_return (upstreamErrorResponse e ''wireguard config download failed'' ''VPN config download failed''))"

definition realtime_attacks_stream_GET :: "'w host \<Rightarrow> headers \<Rightarrow> 'w route" where
  "realtime_attacks_stream_GET h rh =
     proxyPublicRealtimeStream h ''/public/v1/attacks/stream'' ''participant realtime attacks failed'' (Some rh)"

definition realtime_scoreboard_stream_GET :: "'w host \<Rightarrow> headers \<Rightarrow> 'w route" where
  "realtime_scoreboard_stream_GET h rh =
     proxyPublicRealtimeStream h ''/public/v1/scoreboard/stream'' ''participant realtime scoreboard failed'' (Some rh)"

definition reset_factory_POST :: "'w host \<Rightarrow> (string \<Rightarrow> string option) \<Rightarrow> 'w route" where
  "reset_factory_POST h params =
     handleParticipantIdRoute params ''challengeId'' ''challenge id'' ''factory reset'' (factoryResetService h)"

definition reset_restart_POST :: "'w host \<Rightarrow> (string \<Rightarrow> string option) \<Rightarrow> 'w route" where
  "reset_restart_POST h params =
     handleParticipantIdRoute params ''challengeId'' ''challenge id'' ''restart'' (restartService h)"

definition ssh_session_POST :: "'w host \<Rightarrow> (string \<Rightarrow> string option) \<Rightarrow> 'w route" where
  "ssh_session_POST h params =
     handleParticipantIdRoute params ''challengeId'' ''challenge id'' ''ssh session creation'' (createSSHSession h)"

definition unlock_POST :: "'w host \<Rightarrow> string \<Rightarrow> json option \<Rightarrow> 'w route" where
  "unlock_POST h challengeId body = (case positive_integer (js_Number challengeId) of
     None \<Rightarrow> bad_request ''challenge id is invalid.''
   | Some challengeID \<Rightarrow>
       js_bind (js_lift (trim_prop (json_prop body ''proof''))) (\<lambda>proof.
         case or_undefined proof of
           None \<Rightarrow> bad_request ''unlock proof is invalid.''
         | Some p \<Rightarrow> json_route (unlockService h challengeID p) ''unlock request failed'' ''Unlock request failed''))"

text \<open>A reply that logs the participant in: the cookie is set with the token the API issued.\<close>

definition session_max_age :: int where
  "session_max_age = 60 * 60 * 24"

definition token_reply :: "'w host \<Rightarrow> (string \<times> json) list \<Rightarrow> json option \<Rightarrow> reply" where
  "token_reply h payload token = \<lparr>rp_status = 200, rp_headers = [(''content-type'', ''application/json'')],
     rp_body = JsonBody (JObj payload), rp_cookies = [participantSessionCookie h token session_max_age]\<rparr>"

definition token_route ::
  "'w host \<Rightarrow> (string \<times> json) list \<Rightarrow> ('w, json option) js \<Rightarrow> string \<Rightarrow> string \<Rightarrow> 'w route" where
  "token_route h payload action fallback title =
     js_catch (js_bind action (\<lambda>token. js_return (token_reply h payload token)))
       (\<lambda>e. js_return (upstreamErrorResponse e fallback title))"

text \<open>\<open>password.trim()\<close> on a property that defaults to the empty string.\<close>

definition json_or_empty :: "json option \<Rightarrow> json" where
  "json_or_empty v = (case v of None \<Rightarrow> JStr [] | Some JNull \<Rightarrow> JStr [] | Some j \<Rightarrow> j)"

definition login_POST :: "'w host \<Rightarrow> json option \<Rightarrow> 'w route" where
  "login_POST h body =
     js_bind (js_lift (trim_prop (json_prop body ''email''))) (\<lambda>email0.
       let email = coalesce email0 []; password = json_or_empty (json_prop body ''password'') in
       if email = [] then bad_request ''email and password are required.''
       else js_bind (js_lift (trim_prop (Some password))) (\<lambda>p.
         if p = Some [] then bad_request ''email and password are required.''
         else token_route h [(''authenticated'', JBool True)] (authenticateParticipant h (JStr email) password)
           ''participant authentication failed'' ''Authentication failed''))"

definition logout_POST :: "'w host \<Rightarrow> 'w route" where
  "logout_POST h = js_return \<lparr>rp_status = 204, rp_headers = [], rp_body = EmptyBody,
     rp_cookies = [participantSessionCookie h (Some (JStr [])) 0]\<rparr>"

definition password_PUT :: "'w host \<Rightarrow> json option \<Rightarrow> 'w route" where
  "password_PUT h body = (
     let current = json_or_empty (json_prop body ''current_password'');
         new = json_or_empty (json_prop body ''new_password'') in
     if \<not> truthy (Some current) \<or> \<not> truthy (Some new)
     then bad_request ''current_password and new_password are required.''
     else js_catch
       (js_bind (changeParticipantPassword h current new) (\<lambda>data. case data of
          None \<Rightarrow> js_throw (ErrorMessage ''cannot read properties of undefined'')
        | Some JNull \<Rightarrow> js_throw (ErrorMessage ''cannot read properties of null'')
        | Some d \<Rightarrow> js_return \<lparr>rp_status = 200, rp_headers = [(''content-type'', ''application/json'')],
             rp_body = JsonBody (json_object [(''updated'', json_prop (Some d) ''updated'')]),
             rp_cookies = [participantSessionCookie h (json_prop (Some d) ''token'') session_max_age]\<rparr>))
       (\<lambda>e. js_return (upstreamErrorResponse e ''password change failed'' ''Password change unavailable'')))"

text \<open>\<open>body?.a?.trim() || body?.b?.trim() || ""\<close>: the second property is only read when the first is
  missing or blank.\<close>

definition first_text :: "json option \<Rightarrow> string \<Rightarrow> string \<Rightarrow> string result" where
  "first_text body a b = (case trim_prop (json_prop body a) of
     Inl e \<Rightarrow> Inl e
   | Inr x \<Rightarrow> (case or_undefined x of
       Some s \<Rightarrow> Inr s
     | None \<Rightarrow> (case trim_prop (json_prop body b) of Inl e \<Rightarrow> Inl e | Inr y \<Rightarrow> Inr (coalesce y []))))"

definition readProfileUpdate :: "json option \<Rightarrow> ProfileUpdate result" where
  "readProfileUpdate body = (case first_text body ''display_name'' ''displayName'' of
     Inl e \<Rightarrow> Inl e
   | Inr displayName \<Rightarrow> (case trim_prop (json_prop body ''email'') of
       Inl e \<Rightarrow> Inl e
     | Inr email \<Rightarrow> (case first_text body ''team_name'' ''teamName'' of
         Inl e \<Rightarrow> Inl e
       | Inr teamName \<Rightarrow> (case first_text body ''team_contact_email'' ''teamContactEmail'' of
           Inl e \<Rightarrow> Inl e
         | Inr teamContactEmail \<Rightarrow> Inr \<lparr>pu_displayName = displayName, pu_email = coalesce email [],
             pu_teamName = teamName, pu_teamContactEmail = teamContactEmail\<rparr>))))"

definition profile_PUT :: "'w host \<Rightarrow> json option \<Rightarrow> 'w route" where
  "profile_PUT h body = js_bind (js_lift (readProfileUpdate body)) (\<lambda>profile.
     if pu_displayName profile = [] \<or> pu_email profile = [] then bad_request ''display name and email are required.''
     else token_route h [(''updated'', JBool True)] (updateCurrentParticipantProfile h profile)
       ''profile update failed'' ''Profile update failed'')"

definition register_POST :: "'w host \<Rightarrow> json option \<Rightarrow> 'w route" where
  "register_POST h body =
     js_bind (js_lift (first_text body ''display_name'' ''displayName'')) (\<lambda>displayName.
     js_bind (js_lift (trim_prop (json_prop body ''email''))) (\<lambda>email0.
       let email = coalesce email0 []; password = json_or_empty (json_prop body ''password'') in
       if displayName = [] \<or> email = [] then bad_request ''display name, email, and password are required.''
       else js_bind (js_lift (trim_prop (Some password))) (\<lambda>p.
         if p = Some [] then bad_request ''display name, email, and password are required.''
         else token_route h [(''authenticated'', JBool True)] (registerParticipant h displayName email password)
           ''player registration failed'' ''Registration failed'')))"

text \<open>\<open>Number(v)\<close> on a JSON value: \<open>undefined\<close> and objects give \<open>NaN\<close>, null gives zero, and an array is
  converted through its text.\<close>

definition json_Number :: "json option \<Rightarrow> js_num" where
  "json_Number v = (case v of
     None \<Rightarrow> NaN | Some JNull \<Rightarrow> Finite 0 | Some (JBool b) \<Rightarrow> Finite (if b then 1 else 0)
   | Some (JNum q) \<Rightarrow> Finite q | Some (JStr s) \<Rightarrow> js_Number s
   | Some (JArr xs) \<Rightarrow> js_Number (json_to_string (JArr xs)) | Some (JObj _) \<Rightarrow> NaN)"

definition nullish_or :: "json option \<Rightarrow> json option \<Rightarrow> json option" where
  "nullish_or v d = (case v of None \<Rightarrow> d | Some JNull \<Rightarrow> d | Some j \<Rightarrow> Some j)"

definition captain_POST :: "'w host \<Rightarrow> json option \<Rightarrow> 'w route" where
  "captain_POST h body = (
     case json_Number (nullish_or (json_prop body ''player_id'') (nullish_or (json_prop body ''playerId'') (Some (JNum 0)))) of
       Finite playerID \<Rightarrow>
         if playerID \<le> 0 then bad_request ''player_id is required.''
         else token_route h [(''transferred'', JBool True)] (transferCurrentTeamCaptain h playerID)
           ''captain transfer failed'' ''Captain transfer failed''
     | _ \<Rightarrow> bad_request ''player_id is required.'')"

definition members_GET :: "'w host \<Rightarrow> 'w route" where
  "members_GET h = json_route (listCurrentTeamMembers h) ''team members unavailable'' ''Team members unavailable''"

definition team_POST :: "'w host \<Rightarrow> json option \<Rightarrow> 'w route" where
  "team_POST h body = js_bind (js_lift (first_text body ''team_key'' ''teamKey'')) (\<lambda>teamKey.
     if teamKey = [] then bad_request ''team key is required.''
     else token_route h [(''authenticated'', JBool True)] (joinCurrentParticipantTeam h teamKey)
       ''team join failed'' ''Team join failed'')"

definition submit_flags_of :: "json option \<Rightarrow> string list" where
  "submit_flags_of body = (case json_prop body ''flags'' of
     Some (JArr xs) \<Rightarrow> filter (\<lambda>f. f \<noteq> []) (map (\<lambda>x. trim (json_to_string x)) xs)
   | _ \<Rightarrow> [])"

definition submit_POST :: "'w host \<Rightarrow> json option \<Rightarrow> 'w route" where
  "submit_POST h body = (let flags = submit_flags_of body in
     if flags = [] then bad_request ''at least one flag is required.''
     else json_route (submitFlags h flags) ''submit failed'' ''Submit unavailable'')"

definition team_services_GET :: "'w host \<Rightarrow> 'w route" where
  "team_services_GET h = json_route (listTeamServices h) ''team services request failed'' ''Team services unavailable''"

section \<open>Organizer routes\<close>

definition admin_access_reconcile_POST :: "'w host \<Rightarrow> 'w route" where
  "admin_access_reconcile_POST h = json_route (reconcileAdminAccess h) ''controller access reconcile failed'' upstream_title"

definition admin_access_status_GET :: "'w host \<Rightarrow> 'w route" where
  "admin_access_status_GET h = json_route (getAdminAccessStatus h) ''controller access status failed'' upstream_title"

definition admin_access_teardown_POST :: "'w host \<Rightarrow> 'w route" where
  "admin_access_teardown_POST h = json_route (teardownAdminAccess h) ''controller access teardown failed'' upstream_title"

definition admin_announcement_DELETE :: "'w host \<Rightarrow> string \<Rightarrow> 'w route" where
  "admin_announcement_DELETE h announcementId = (case js_Number announcementId of
     Finite q \<Rightarrow> if q \<le> 0 then bad_request ''announcement_id is invalid.''
       else json_route (deleteAdminAnnouncement h (Finite q)) ''announcement delete failed'' upstream_title
   | _ \<Rightarrow> bad_request ''announcement_id is invalid.'')"

definition admin_announcements_GET :: "'w host \<Rightarrow> 'w route" where
  "admin_announcements_GET h = json_route (listAdminAnnouncements h) ''announcements unavailable'' upstream_title"

definition admin_announcements_POST :: "'w host \<Rightarrow> json option \<Rightarrow> 'w route" where
  "admin_announcements_POST h body = js_bind (js_lift (trim_prop (json_prop body ''body''))) (\<lambda>t.
     let text = coalesce t [] in
     if text = [] then bad_request ''body is required.''
     else json_route (createAdminAnnouncement h text) ''announcement create failed'' upstream_title)"

text \<open>Routes that pass their identifier to an admin call.\<close>

definition admin_id_route ::
  "(string \<Rightarrow> string option) \<Rightarrow> string \<Rightarrow> string \<Rightarrow> string \<Rightarrow> (js_num \<Rightarrow> ('w, json option) js) \<Rightarrow> 'w route" where
  "admin_id_route params key idName act f = handleAdminIdRoute params key idName act (\<lambda>n. f (Finite (of_int n)))"

definition admin_challenge_deploy_POST :: "'w host \<Rightarrow> (string \<Rightarrow> string option) \<Rightarrow> 'w route" where
  "admin_challenge_deploy_POST h params =
     admin_id_route params ''challengeId'' ''challenge id'' ''challenge deploy'' (deployAdminChallenge h)"

definition admin_challenge_maintenance_POST :: "'w host \<Rightarrow> (string \<Rightarrow> string option) \<Rightarrow> 'w route" where
  "admin_challenge_maintenance_POST h params =
     admin_id_route params ''challengeId'' ''challenge id'' ''challenge maintenance'' (putAdminChallengeMaintenance h)"

definition admin_challenge_resume_POST :: "'w host \<Rightarrow> (string \<Rightarrow> string option) \<Rightarrow> 'w route" where
  "admin_challenge_resume_POST h params =
     admin_id_route params ''challengeId'' ''challenge id'' ''challenge resume'' (resumeAdminChallenge h)"

definition admin_challenge_rotate_POST :: "'w host \<Rightarrow> (string \<Rightarrow> string option) \<Rightarrow> 'w route" where
  "admin_challenge_rotate_POST h params =
     admin_id_route params ''challengeId'' ''challenge id'' ''challenge unlock proof rotate'' (rotateAdminChallengeUnlockProof h)"

definition admin_challenge_validate_POST :: "'w host \<Rightarrow> (string \<Rightarrow> string option) \<Rightarrow> 'w route" where
  "admin_challenge_validate_POST h params =
     admin_id_route params ''challengeId'' ''challenge id'' ''challenge validation'' (validateAdminChallenge h)"

definition admin_player_deactivate_POST :: "'w host \<Rightarrow> (string \<Rightarrow> string option) \<Rightarrow> 'w route" where
  "admin_player_deactivate_POST h params =
     admin_id_route params ''playerId'' ''player id'' ''player deactivate'' (deactivateAdminPlayer h)"

definition admin_player_reactivate_POST :: "'w host \<Rightarrow> (string \<Rightarrow> string option) \<Rightarrow> 'w route" where
  "admin_player_reactivate_POST h params =
     admin_id_route params ''playerId'' ''player id'' ''player reactivate'' (reactivateAdminPlayer h)"

definition admin_player_wireguard_GET :: "'w host \<Rightarrow> (string \<Rightarrow> string option) \<Rightarrow> 'w route" where
  "admin_player_wireguard_GET h params =
     admin_id_route params ''playerId'' ''player id'' ''wireguard config fetch'' (getAdminPlayerWireGuard h)"

definition admin_player_wireguard_revoke_POST :: "'w host \<Rightarrow> (string \<Rightarrow> string option) \<Rightarrow> 'w route" where
  "admin_player_wireguard_revoke_POST h params =
     admin_id_route params ''playerId'' ''player id'' ''wireguard revoke'' (revokeAdminPlayerWireGuard h)"

definition admin_player_wireguard_rotate_POST :: "'w host \<Rightarrow> (string \<Rightarrow> string option) \<Rightarrow> 'w route" where
  "admin_player_wireguard_rotate_POST h params =
     admin_id_route params ''playerId'' ''player id'' ''wireguard rotate'' (rotateAdminPlayerWireGuard h)"

definition admin_team_deactivate_POST :: "'w host \<Rightarrow> (string \<Rightarrow> string option) \<Rightarrow> 'w route" where
  "admin_team_deactivate_POST h params =
     admin_id_route params ''teamId'' ''team id'' ''team deactivate'' (deactivateAdminTeam h)"

definition admin_team_reactivate_POST :: "'w host \<Rightarrow> (string \<Rightarrow> string option) \<Rightarrow> 'w route" where
  "admin_team_reactivate_POST h params =
     admin_id_route params ''teamId'' ''team id'' ''team reactivate'' (reactivateAdminTeam h)"

text \<open>Deletions answer 204 without a body; their identifier is not checked.\<close>

definition delete_route :: "('w, json option) js \<Rightarrow> string \<Rightarrow> 'w route" where
  "delete_route action fallback = js_catch
     (js_bind action (\<lambda>_. js_return \<lparr>rp_status = 204, rp_headers = [], rp_body = EmptyBody, rp_cookies = []\<rparr>))
     (\<lambda>e. js_return (upstreamErrorResponse e fallback upstream_title))"

definition admin_challenge_DELETE :: "'w host \<Rightarrow> string \<Rightarrow> 'w route" where
  "admin_challenge_DELETE h challengeId = delete_route (deleteAdminChallenge h (js_Number challengeId)) ''challenge delete failed''"

definition admin_deployment_DELETE :: "'w host \<Rightarrow> string \<Rightarrow> 'w route" where
  "admin_deployment_DELETE h deploymentId = delete_route (deleteAdminDeployment h (js_Number deploymentId)) ''deployment delete failed''"

definition admin_player_DELETE :: "'w host \<Rightarrow> string \<Rightarrow> 'w route" where
  "admin_player_DELETE h playerId = delete_route (deleteAdminPlayer h (js_Number playerId)) ''player delete failed''"

definition admin_team_DELETE :: "'w host \<Rightarrow> string \<Rightarrow> 'w route" where
  "admin_team_DELETE h teamId = delete_route (deleteAdminTeam h (js_Number teamId)) ''team delete failed''"

text \<open>\<open>body?.p?.trim() || ''\<close> evaluated inside the \<open>try\<close>: its error is answered like an upstream one.\<close>

definition text_or_empty :: "json option \<Rightarrow> string \<Rightarrow> string result" where
  "text_or_empty body p = (case trim_prop (json_prop body p) of Inl e \<Rightarrow> Inl e | Inr t \<Rightarrow> Inr (coalesce t []))"

definition truthy_num :: "js_num \<Rightarrow> js_num option" where
  "truthy_num x = (if x = NaN \<or> x = Finite 0 then None else Some x)"

definition admin_challenges_POST :: "'w host \<Rightarrow> json option \<Rightarrow> 'w route" where
  "admin_challenges_POST h body = js_bind (js_lift (trim_prop (json_prop body ''name''))) (\<lambda>name.
     case or_undefined name of
       None \<Rightarrow> bad_request ''challenge request is invalid.''
     | Some nm \<Rightarrow> json_route
         (js_bind (js_lift (text_or_empty body ''baseline_image'')) (\<lambda>baseline.
          js_bind (js_lift (text_or_empty body ''checker_image'')) (\<lambda>checker.
          js_bind (js_lift (text_or_empty body ''source_bundle_path'')) (\<lambda>bundle.
            createAdminChallenge h \<lparr>ci_name = nm, ci_baseline_image = baseline, ci_checker_image = checker,
              ci_source_bundle_path = Some bundle,
              ci_service_port = truthy_num (json_Number (json_prop body ''service_port'')),
              ci_service_subnet_octet = truthy_num (json_Number (json_prop body ''service_subnet_octet'')),
              ci_egress_enabled = None\<rparr>))))
         ''challenge create failed'' upstream_title)"

definition admin_challenge_PUT :: "'w host \<Rightarrow> string \<Rightarrow> json option \<Rightarrow> 'w route" where
  "admin_challenge_PUT h challengeId body = js_bind (js_lift (trim_prop (json_prop body ''name''))) (\<lambda>name.
     case or_undefined name of
       None \<Rightarrow> bad_request ''challenge update request is invalid.''
     | Some nm \<Rightarrow> json_route
         (js_bind (js_lift (text_or_empty body ''baseline_image'')) (\<lambda>baseline.
          js_bind (js_lift (text_or_empty body ''checker_image'')) (\<lambda>checker.
          js_bind (js_lift (text_or_empty body ''source_bundle_path'')) (\<lambda>bundle.
            updateAdminChallenge h (js_Number challengeId) \<lparr>uc_name = nm, uc_baseline_image = baseline,
              uc_checker_image = checker, uc_source_bundle_path = Some bundle, uc_egress_enabled = None\<rparr>))))
         ''challenge update failed'' upstream_title)"

definition admin_deployments_GET :: "'w host \<Rightarrow> 'w route" where
  "admin_deployments_GET h = json_route (listAdminDeployments h) ''deployment list failed'' upstream_title"

text \<open>Routes that forward the upstream response as it is.\<close>

definition forward_route :: "'w host \<Rightarrow> string \<Rightarrow> string \<Rightarrow> 'w route" where
  "forward_route h path fallback = js_catch
     (js_bind (adminProxyFetch h path post_init) (\<lambda>r. js_return (forwardUpstreamResponse r)))
     (\<lambda>e. js_return (upstreamErrorResponse e fallback upstream_title))"

definition admin_deployments_reconcile_POST :: "'w host \<Rightarrow> 'w route" where
  "admin_deployments_reconcile_POST h = forward_route h ''/api/v2/admin/deployments/reconcile'' ''deployment reconcile failed''"

definition admin_wireguard_reconcile_POST :: "'w host \<Rightarrow> 'w route" where
  "admin_wireguard_reconcile_POST h = forward_route h ''/api/v2/admin/wireguard/reconcile'' ''wireguard gateway reconcile failed''"

definition admin_game_attacks_GET :: "'w host \<Rightarrow> (string \<Rightarrow> string option) \<Rightarrow> 'w route" where
  "admin_game_attacks_GET h searchParams =
     json_route (listAdminGameAttacks h (parseAttackFeedQuery searchParams 12 200)) ''admin attacks failed'' upstream_title"

definition checker_run_query :: "(string \<Rightarrow> string option) \<Rightarrow> query_params" where
  "checker_run_query sp = [
     (''limit'', query_int (parsePositiveInteger (sp ''limit'') (Some 25) 200)),
     (''offset'', query_int (parseNonNegativeInteger (sp ''offset''))),
     (''tick_id'', query_int (parsePositiveInteger (sp ''tick_id'') None 0)),
     (''team_id'', query_int (parsePositiveInteger (sp ''team_id'') None 0)),
     (''challenge_id'', query_int (parsePositiveInteger (sp ''challenge_id'') None 0)),
     (''phase'', map_option QStr (parseLowercaseTextFilter (sp ''phase''))),
     (''status'', map_option QStr (parseLowercaseTextFilter (sp ''status'')))]"

definition admin_checker_runs_GET :: "'w host \<Rightarrow> (string \<Rightarrow> string option) \<Rightarrow> 'w route" where
  "admin_checker_runs_GET h searchParams =
     json_route (listAdminCheckerRuns h (checker_run_query searchParams)) ''checker runs failed'' upstream_title"

definition scheduler_event_query :: "(string \<Rightarrow> string option) \<Rightarrow> query_params" where
  "scheduler_event_query sp = [
     (''limit'', query_int (parsePositiveInteger (sp ''limit'') (Some 12) 200)),
     (''offset'', query_int (parseNonNegativeInteger (sp ''offset''))),
     (''event_type'', map_option QStr (parseLowercaseTextFilter (sp ''event_type''))),
     (''source'', map_option QStr (parseLowercaseTextFilter (sp ''source''))),
     (''state'', map_option QStr (parseLowercaseTextFilter (sp ''state'')))]"

definition admin_scheduler_events_GET :: "'w host \<Rightarrow> (string \<Rightarrow> string option) \<Rightarrow> 'w route" where
  "admin_scheduler_events_GET h searchParams =
     json_route (listAdminGameSchedulerEvents h (scheduler_event_query searchParams)) ''scheduler events failed'' upstream_title"

definition admin_match_pause_POST :: "'w host \<Rightarrow> 'w route" where
  "admin_match_pause_POST h = json_route (pauseAdminGameMatch h) ''game match pause failed'' upstream_title"

definition admin_match_resume_POST :: "'w host \<Rightarrow> 'w route" where
  "admin_match_resume_POST h = json_route (resumeAdminGameMatch h) ''game match resume failed'' upstream_title"

definition admin_match_GET :: "'w host \<Rightarrow> 'w route" where
  "admin_match_GET h = json_route (getAdminGameMatchStatus h) ''game match status failed'' upstream_title"

definition admin_match_start_POST :: "'w host \<Rightarrow> 'w route" where
  "admin_match_start_POST h = json_route (startAdminGameMatch h) ''game match start failed'' upstream_title"

definition admin_match_stop_POST :: "'w host \<Rightarrow> 'w route" where
  "admin_match_stop_POST h = json_route (stopAdminGameMatch h) ''game match stop failed'' upstream_title"

definition admin_scheduler_GET :: "'w host \<Rightarrow> 'w route" where
  "admin_scheduler_GET h = json_route (getAdminGameSchedulerStatus h) ''scheduler status failed'' upstream_title"

definition admin_scheduler_start_POST :: "'w host \<Rightarrow> 'w route" where
  "admin_scheduler_start_POST h = json_route (startAdminGameScheduler h) ''scheduler start failed'' upstream_title"

definition admin_scheduler_stop_POST :: "'w host \<Rightarrow> 'w route" where
  "admin_scheduler_stop_POST h = json_route (stopAdminGameScheduler h) ''scheduler stop failed'' upstream_title"

definition admin_freeze_GET :: "'w host \<Rightarrow> 'w route" where
  "admin_freeze_GET h = json_route (getAdminScoreboardFreeze h) ''freeze status fetch failed'' upstream_title"

definition admin_scoreboard_GET :: "'w host \<Rightarrow> 'w route" where
  "admin_scoreboard_GET h = json_route (listAdminGameScoreboard h) ''scoreboard fetch failed'' upstream_title"

definition admin_unfreeze_POST :: "'w host \<Rightarrow> 'w route" where
  "admin_unfreeze_POST h = json_route (clearAdminScoreboardFreeze h) ''freeze clear failed'' upstream_title"

definition admin_scoring_audit_GET :: "'w host \<Rightarrow> 'w route" where
  "admin_scoring_audit_GET h = json_route (auditAdminGameScoring h) ''score audit failed'' upstream_title"

definition admin_scoring_recompute_POST :: "'w host \<Rightarrow> 'w route" where
  "admin_scoring_recompute_POST h = json_route (recomputeAdminGameScoring h) ''score recompute failed'' upstream_title"

definition admin_game_status_GET :: "'w host \<Rightarrow> 'w route" where
  "admin_game_status_GET h = json_route (getAdminGameStatus h) ''game-core status failed'' upstream_title"

definition admin_tick_advance_POST :: "'w host \<Rightarrow> 'w route" where
  "admin_tick_advance_POST h = json_route (advanceAdminGameTick h) ''game-core tick advance failed'' upstream_title"

definition admin_operations_metrics_GET :: "'w host \<Rightarrow> 'w route" where
  "admin_operations_metrics_GET h = json_route (getAdminOperationsMetrics h) ''operations metrics failed'' upstream_title"

definition admin_operations_status_GET :: "'w host \<Rightarrow> 'w route" where
  "admin_operations_status_GET h = json_route (getAdminOperationsStatus h) ''operations status failed'' upstream_title"

definition admin_settings_reload_POST :: "'w host \<Rightarrow> 'w route" where
  "admin_settings_reload_POST h = json_route (reloadAdminFlagFormat h) ''flag format reload failed'' upstream_title"

definition admin_settings_GET :: "'w host \<Rightarrow> 'w route" where
  "admin_settings_GET h = json_route (getAdminPlatformSettings h) ''platform settings fetch failed'' upstream_title"

definition admin_wireguard_status_GET :: "'w host \<Rightarrow> 'w route" where
  "admin_wireguard_status_GET h = json_route (getAdminWireGuardGatewayStatus h) ''wireguard gateway status failed'' upstream_title"

definition admin_wireguard_teardown_POST :: "'w host \<Rightarrow> 'w route" where
  "admin_wireguard_teardown_POST h = json_route (teardownAdminWireGuardGateway h) ''wireguard gateway teardown failed'' upstream_title"

definition admin_stream_attacks_GET :: "'w host \<Rightarrow> headers \<Rightarrow> 'w route" where
  "admin_stream_attacks_GET h rh = proxyPublicRealtimeStream h ''/public/v1/attacks/stream'' ''admin realtime attacks failed'' (Some rh)"

definition admin_stream_checker_runs_GET :: "'w host \<Rightarrow> headers \<Rightarrow> 'w route" where
  "admin_stream_checker_runs_GET h rh = proxyAdminRealtimeStream h ''/admin/v1/game/checker-runs/stream'' ''admin realtime checker runs failed'' (Some rh)"

definition admin_stream_scoreboard_GET :: "'w host \<Rightarrow> headers \<Rightarrow> 'w route" where
  "admin_stream_scoreboard_GET h rh = proxyAdminRealtimeStream h ''/admin/v1/game/scoreboard/stream'' ''admin realtime scoreboard failed'' (Some rh)"

definition admin_stream_status_GET :: "'w host \<Rightarrow> headers \<Rightarrow> 'w route" where
  "admin_stream_status_GET h rh = proxyAdminRealtimeStream h ''/admin/v1/game/status/stream'' ''admin realtime game status failed'' (Some rh)"

definition admin_stream_scheduler_events_GET :: "'w host \<Rightarrow> headers \<Rightarrow> 'w route" where
  "admin_stream_scheduler_events_GET h rh = proxyAdminRealtimeStream h ''/admin/v1/game/scheduler/events/stream'' ''admin realtime scheduler events failed'' (Some rh)"

definition admin_match_schedule_PUT :: "'w host \<Rightarrow> json option \<Rightarrow> 'w route" where
  "admin_match_schedule_PUT h body = json_route
     (case body of
        None \<Rightarrow> js_throw (ErrorMessage ''request body is not JSON'')
      | Some b \<Rightarrow> updateAdminGameMatchSchedule h b)
     ''game match schedule update failed'' upstream_title"

definition admin_scheduler_interval_PUT :: "'w host \<Rightarrow> json option \<Rightarrow> 'w route" where
  "admin_scheduler_interval_PUT h body = js_catch
     (case body of
        None \<Rightarrow> js_throw (ErrorMessage ''request body is not JSON'')
      | Some JNull \<Rightarrow> js_throw (ErrorMessage ''cannot read properties of null'')
      | Some b \<Rightarrow>
          (let invalid = js_return \<lparr>rp_status = 400, rp_headers = [(''content-type'', ''application/json'')],
             rp_body = JsonBody (JObj [(''title'', JStr ''Invalid request''), (''status'', JNum 400),
               (''detail'', JStr ''invalid interval'')]), rp_cookies = []\<rparr> in
           case json_prop (Some b) ''interval_seconds'' of
             Some (JNum q) \<Rightarrow> if q < 1 then invalid
               else js_bind (updateAdminGameScheduler h q) (\<lambda>data. js_lift (next_json data))
           | _ \<Rightarrow> invalid))
     (\<lambda>e. js_return (upstreamErrorResponse e ''scheduler update failed'' upstream_title))"

definition nonblank :: "json option \<Rightarrow> string option" where
  "nonblank v = (case v of Some (JStr s) \<Rightarrow> if trim s = [] then None else Some s | _ \<Rightarrow> None)"

definition admin_freeze_POST :: "'w host \<Rightarrow> json option \<Rightarrow> 'w route" where
  "admin_freeze_POST h body = (case body of
     None \<Rightarrow> bad_request ''freeze request is invalid.''
   | Some JNull \<Rightarrow> js_throw (ErrorMessage ''cannot read properties of null'')
   | Some b \<Rightarrow> (case nonblank (json_prop (Some b) ''freeze_at'') of
       None \<Rightarrow> bad_request ''freeze_at is required.''
     | Some freeze_at \<Rightarrow>
         json_route (setAdminScoreboardFreeze h freeze_at (nonblank (json_prop (Some b) ''unfreeze_at'')))
           ''freeze set failed'' upstream_title))"

definition admin_import_POST :: "'w host \<Rightarrow> json option \<Rightarrow> 'w route" where
  "admin_import_POST h body = (case json_prop body ''teams'' of
     Some (JArr (t # ts)) \<Rightarrow> js_catch
       (js_bind (bulkImportAdminTeams h (t # ts)) (\<lambda>(status, result).
          js_return \<lparr>rp_status = status, rp_headers = [(''content-type'', ''application/json'')],
            rp_body = JsonBody result, rp_cookies = []\<rparr>))
       (\<lambda>e. js_return (upstreamErrorResponse e ''bulk import failed'' upstream_title))
   | _ \<Rightarrow> bad_request ''teams array is required.'')"

definition admin_settings_PUT :: "'w host \<Rightarrow> json option \<Rightarrow> 'w route" where
  "admin_settings_PUT h body = js_bind (js_lift (trim_prop (json_prop body ''flag_format_prefix''))) (\<lambda>prefix.
     let invalid = bad_request ''flag_format_prefix must not be empty and max_team_members must not be negative.'' in
     case (or_undefined prefix, json_Number (nullish_or (json_prop body ''max_team_members'') (Some (JNum 0)))) of
       (Some p, Finite q) \<Rightarrow>
         if of_int \<lfloor>q\<rfloor> \<noteq> q \<or> q < 0 then invalid
         else json_route (updateAdminPlatformSettings h p q) ''platform settings update failed'' upstream_title
     | _ \<Rightarrow> invalid)"

text \<open>The checks on the password of a new player, in their order: truthy, at least eight long, not blank.
  A value without the method \<open>trim\<close> that passes the first two makes the handler throw.\<close>

definition password_check :: "json option \<Rightarrow> bool result" where
  "password_check v = (
     let too_short = (\<lambda>x. case x of Finite q \<Rightarrow> q < 8 | NegInfinity \<Rightarrow> True | _ \<Rightarrow> False);
         no_trim = Inl (ErrorMessage ''trim is not a function'') in
     if \<not> truthy v then Inr False
     else (case v of
       Some (JStr s) \<Rightarrow> Inr (8 \<le> length s \<and> trim s \<noteq> [])
     | Some (JArr xs) \<Rightarrow> if length xs < 8 then Inr False else no_trim
     | Some (JObj kvs) \<Rightarrow> if too_short (json_Number (map_of kvs ''length'')) then Inr False else no_trim
     | _ \<Rightarrow> no_trim))"

definition admin_players_POST :: "'w host \<Rightarrow> json option \<Rightarrow> 'w route" where
  "admin_players_POST h body = (
     let invalid = bad_request ''player request is invalid.'' in
     if \<not> truthy (json_prop body ''team_id'') then invalid
     else js_bind (js_lift (trim_prop (json_prop body ''display_name''))) (\<lambda>display_name.
       if or_undefined display_name = None then invalid
       else js_bind (js_lift (trim_prop (json_prop body ''email''))) (\<lambda>email.
         if or_undefined email = None then invalid
         else js_bind (js_lift (password_check (json_prop body ''password''))) (\<lambda>ok.
           if \<not> ok then invalid
           else json_route (js_bind (js_lift (trim_prop (json_prop body ''role''))) (\<lambda>role.
               createAdminPlayer h \<lparr>pi_team_id = the (json_prop body ''team_id''), pi_display_name = the display_name,
                 pi_email = the email, pi_password = the (json_prop body ''password''),
                 pi_role = coalesce (or_undefined role) ''member''\<rparr>))
             ''player create failed'' upstream_title))))"

definition admin_player_PUT :: "'w host \<Rightarrow> string \<Rightarrow> json option \<Rightarrow> 'w route" where
  "admin_player_PUT h playerId body =
     js_bind (js_lift (trim_prop (json_prop body ''display_name''))) (\<lambda>displayName.
     js_bind (js_lift (trim_prop (json_prop body ''email''))) (\<lambda>email.
     js_bind (js_lift (trim_prop (json_prop body ''role''))) (\<lambda>role.
       case (or_undefined displayName, or_undefined email) of
         (Some d, Some e) \<Rightarrow> json_route (updateAdminPlayer h (js_Number playerId)
             \<lparr>up_display_name = d, up_email = e, up_role = coalesce (or_undefined role) ''participant''\<rparr>)
           ''player update failed'' upstream_title
       | _ \<Rightarrow> bad_request ''player update request is invalid.'')))"

definition admin_teams_POST :: "'w host \<Rightarrow> json option \<Rightarrow> 'w route" where
  "admin_teams_POST h body = js_bind (js_lift (parseTeamBody body)) (\<lambda>(name, contactEmail).
     case (or_undefined name, or_undefined contactEmail) of
       (Some n, Some c) \<Rightarrow> json_route (createAdminTeam h \<lparr>ti_name = n, ti_contact_email = c\<rparr>)
         ''team create failed'' upstream_title
     | _ \<Rightarrow> bad_request ''team request is invalid.'')"

definition admin_team_PUT :: "'w host \<Rightarrow> string \<Rightarrow> json option \<Rightarrow> 'w route" where
  "admin_team_PUT h teamId body = js_bind (js_lift (parseTeamBody body)) (\<lambda>(name, contactEmail).
     case (or_undefined name, or_undefined contactEmail) of
       (Some n, Some c) \<Rightarrow> json_route (updateAdminTeam h (js_Number teamId) \<lparr>ti_name = n, ti_contact_email = c\<rparr>)
         ''team update failed'' upstream_title
     | _ \<Rightarrow> bad_request ''team update request is invalid.'')"

section \<open>The runtime health report\<close>

definition readSettled :: "string \<Rightarrow> json option settled \<Rightarrow> json option \<times> (string \<times> string) list" where
  "readSettled name result = (case result of
     Fulfilled v \<Rightarrow> (v, [])
   | Rejected e \<Rightarrow> (Some JNull, [(name, message_or e (name @ '' fetch failed''))]))"

text \<open>\<open>(v ?? []).filter\<close> needs an array, and reading a property needs an element that is not null.\<close>

definition array_of :: "json option \<Rightarrow> json list result" where
  "array_of v = (case v of
     None \<Rightarrow> Inr [] | Some JNull \<Rightarrow> Inr []
   | Some (JArr xs) \<Rightarrow> if JNull \<in> set xs then Inl (ErrorMessage ''cannot read properties of null'') else Inr xs
   | _ \<Rightarrow> Inl (ErrorMessage ''filter is not a function''))"

definition status_is :: "json \<Rightarrow> string list \<Rightarrow> bool" where
  "status_is d names = (case json_prop (Some d) ''status'' of Some (JStr s) \<Rightarrow> s \<in> set names | _ \<Rightarrow> False)"

definition positive_json :: "json option \<Rightarrow> bool" where
  "positive_json v = (case json_Number v of Finite q \<Rightarrow> 0 < q | PosInfinity \<Rightarrow> True | _ \<Rightarrow> False)"

definition state_text :: "json option \<Rightarrow> string" where
  "state_text status = (case nullish_or (json_prop status ''state'') (Some (JStr ''unavailable'')) of
       Some j \<Rightarrow> json_to_string j | None \<Rightarrow> []) @
     (if truthy (json_prop status ''revision'')
      then '' ('' @ json_to_string (the (json_prop status ''revision'')) @ '')'' else [])"

definition buildSummary ::
  "string \<Rightarrow> json option \<Rightarrow> json option \<Rightarrow> json option \<Rightarrow> json option \<Rightarrow> (string \<times> string) list \<Rightarrow> string result" where
  "buildSummary generated_at deployments access wireguard operations failures =
     (case (array_of deployments, array_of (json_prop operations ''alerts'')) of
        (Inl e, _) \<Rightarrow> Inl e
      | (_, Inl e) \<Rightarrow> Inl e
      | (Inr ds, Inr alerts) \<Rightarrow>
          (let pending = length (filter (\<lambda>d. \<not> status_is d [''completed'', ''failed'', ''superseded'']) ds);
               failed = length (filter (\<lambda>d. status_is d [''failed''] \<or> positive_json (json_prop (Some d) ''failed_team_count'')) ds);
               critical = length (filter (\<lambda>a. json_prop (Some a) ''severity'' = Some (JStr ''critical'')) alerts);
               n = (\<lambda>k. int_to_string (int k)) in
           Inr (join_with [CHR 0x0A] [
             ''Runtime summary generated '' @ generated_at,
             ''Deployments: '' @ n pending @ '' pending, '' @ n failed @ '' failed'',
             ''Access: '' @ state_text access,
             ''WireGuard: '' @ state_text wireguard,
             ''Operations alerts: '' @ n critical @ '' critical, '' @ n (length alerts - critical) @ '' warning'',
             (if failures = [] then ''Report completeness: all sections loaded''
              else ''Report completeness: partial, missing '' @ join_with '', '' (map fst failures))])))"

definition failure_json :: "string \<times> string \<Rightarrow> json" where
  "failure_json f = JObj [(''section'', JStr (fst f)), (''message'', JStr (snd f))]"

definition report_sections :: "string list" where
  "report_sections = [''deployments'', ''access_status'', ''wireguard_status'', ''operations_status'', ''service_metrics'', ''game_status'']"

definition runtime_report :: "int \<Rightarrow> json option settled list \<Rightarrow> reply result" where
  "runtime_report now results = (
     let read = map (\<lambda>(s, r). readSettled s r) (zip report_sections results);
         vals = map fst read; failures = concat (map snd read);
         generated_at = toISOString now in
     case buildSummary generated_at (vals ! 0) (vals ! 1) (vals ! 2) (vals ! 3) failures of
       Inl e \<Rightarrow> Inl e
     | Inr summary \<Rightarrow> Inr \<lparr>rp_status = 200,
         rp_headers = [(''content-type'', ''application/json''), (''content-disposition'',
           ''attachment; filename='' @ [CHR 0x22] @ ''runtime-health-'' @
             replace_char (CHR ''.'') (CHR ''-'') (replace_char (CHR '':'') (CHR ''-'') generated_at) @ ''.json'' @ [CHR 0x22])],
         rp_body = JsonBody (json_object ([(''generated_at'', Some (JStr generated_at)),
             (''failures'', Some (JArr (map failure_json failures)))] @
           zip report_sections vals @ [(''summary'', Some (JStr summary))])),
         rp_cookies = []\<rparr>)"

definition admin_runtime_report_GET :: "'w host \<Rightarrow> 'w route" where
  "admin_runtime_report_GET h =
     js_bind (js_settle_all [listAdminDeployments h, getAdminAccessStatus h, getAdminWireGuardGatewayStatus h,
         getAdminOperationsStatus h, getAdminOperationsMetrics h, getAdminGameStatus h])
       (\<lambda>results w. (runtime_report (clock h (net w)) results, w))"

section \<open>Who gets a session cookie\<close>

text \<open>A call issues tokens of the API when whatever it returns is the token of a 2xx answer to the
  last request it sent, which went to the call's own path, at once or after the check of the session.\<close>

definition api_answer :: "'w host \<Rightarrow> string \<Rightarrow> 'w world \<Rightarrow> 'w world \<Rightarrow> response \<Rightarrow> bool" where
  "api_answer h path w w' r \<longleftrightarrow> resp_ok r \<and> (\<exists>rq w1. w1 \<in> {w, snd (getParticipantToken h w)} \<and>
     rq_url rq = apiBaseUrl h @ path \<and> js_fetch h rq w1 = (Inr r, w'))"

definition issues_from_api :: "'w host \<Rightarrow> string \<Rightarrow> ('w, json option) js \<Rightarrow> bool" where
  "issues_from_api h path act \<longleftrightarrow> (\<forall>w token w'. act w = (Inr token, w') \<longrightarrow>
     (\<exists>r. api_answer h path w w' r \<and> token = json_prop (rs_json r) ''token''))"

lemma token_answer_Inr: "token_answer path r = Inr token \<Longrightarrow> resp_ok r \<and> token = json_prop (rs_json r) ''token''"
  by (auto simp: token_answer_def split: if_splits sum.splits option.splits json.splits)

lemma processApiResponse_Inr: "processApiResponse r path = Inr (Some d) \<Longrightarrow> resp_ok r \<and> rs_json r = Some d"
  by (auto simp: processApiResponse_def split: if_splits sum.splits option.splits)

lemma token_call_answer:
  assumes "token_call h m path hs body w1 = (Inr token, w')" and "w1 \<in> {w, snd (getParticipantToken h w)}"
  shows "\<exists>r. api_answer h path w w' r \<and> token = json_prop (rs_json r) ''token''"
proof -
  let ?rq = "\<lparr>rq_method = m, rq_url = apiBaseUrl h @ path, rq_headers = platformRequestHeaders h hs, rq_body = Some body\<rparr>"
  obtain r where "js_fetch h ?rq w1 = (Inr r, w')" "token_answer path r = Inr token"
    using assms(1) by (auto simp: token_call_def js_bind_def js_lift_def split: prod.splits sum.splits)
  with assms(2) token_answer_Inr show ?thesis
    unfolding api_answer_def by (intro exI [of _ r]) (auto intro!: exI [of _ ?rq])
qed

lemma token_call_issues: "issues_from_api h path (token_call h m path hs body)"
  unfolding issues_from_api_def using token_call_answer by fastforce

lemma guarded_call_issues:
  "issues_from_api h path (js_bind (getParticipantToken h) (\<lambda>token. token_call h m path (hs token) body))"
  unfolding issues_from_api_def js_bind_def
proof (intro allI impI)
  fix w token w'
  assume a: "(case getParticipantToken h w of (r, w1) \<Rightarrow> case r of Inl e \<Rightarrow> (Inl e, w1)
    | Inr t \<Rightarrow> token_call h m path (hs t) body w1) = (Inr token, w')"
  then obtain t w1 where "getParticipantToken h w = (Inr t, w1)" "token_call h m path (hs t) body w1 = (Inr token, w')"
    by (auto split: prod.splits sum.splits)
  then show "\<exists>r. api_answer h path w w' r \<and> token = json_prop (rs_json r) ''token''"
    by (intro token_call_answer [of h m path "hs t" body w1]) auto
qed

lemma participant_calls_issue:
  "issues_from_api h ''/api/v2/authenticate'' (authenticateParticipant h email password)"
  "issues_from_api h ''/api/v2/register'' (registerParticipant h d e p)"
  "issues_from_api h ''/api/v2/me/team'' (joinCurrentParticipantTeam h teamKey)"
  "issues_from_api h ''/api/v2/me/team/captain'' (transferCurrentTeamCaptain h q)"
  "issues_from_api h ''/api/v2/me/profile'' (updateCurrentParticipantProfile h profile)"
  by (simp_all only: authenticateParticipant_def registerParticipant_def joinCurrentParticipantTeam_def
      transferCurrentTeamCaptain_def updateCurrentParticipantProfile_def token_call_issues guarded_call_issues)

text \<open>The password change reads its token from the payload of an ordinary call.\<close>

lemma participantFetch_answer:
  assumes "participantFetch h path init w = (Inr (Some d), w')"
  shows "\<exists>r. api_answer h path w w' r \<and> rs_json r = Some d"
proof -
  obtain t w1 where t: "getParticipantToken h w = (Inr t, w1)"
    "authenticatedFetch h (apiBaseUrl h) path (Some t)
       (init\<lparr>ri_headers := platformRequestHeaders h (ri_headers init)\<rparr>) w1 = (Inr (Some d), w')"
    using assms by (auto simp: participantFetch_def js_bind_def split: prod.splits sum.splits)
  then obtain rq r where "js_fetch h rq w1 = (Inr r, w')" "processApiResponse r path = Inr (Some d)"
    "rq_url rq = apiBaseUrl h @ path"
    by (auto simp: authenticatedFetch_def init_request_def js_bind_def js_lift_def split: prod.splits sum.splits)
  with t(1) processApiResponse_Inr [of r path d] show ?thesis
    unfolding api_answer_def by (intro exI [of _ r]) (auto intro!: exI [of _ rq])
qed

lemma upstreamErrorResponse_cookies [simp]: "rp_cookies (upstreamErrorResponse e fallback title) = []"
  by (simp add: upstreamErrorResponse_def problemResponse_def Let_def split: option.splits)

text \<open>The contract of a route that can log a participant in.\<close>

locale session_issuer =
  fixes route :: "'w host \<Rightarrow> json option \<Rightarrow> 'w route" and path :: string
  assumes shape: "(\<exists>e. route h body w = (Inl e, w)) \<or> (\<exists>d. route h body w = bad_request d w) \<or>
    (\<exists>payload act fallback title. issues_from_api h path act \<and> route h body w = token_route h payload act fallback title w)"
begin

lemma cookie_from_api:
  assumes "route h body w = (Inr rep, w')" and "rp_cookies rep \<noteq> []"
  shows "\<exists>r. api_answer h path w w' r \<and>
    rp_cookies rep = [participantSessionCookie h (json_prop (rs_json r) ''token'') session_max_age]"
proof -
  have "\<not> (\<exists>e. route h body w = (Inl e, w))" using assms(1) by simp
  moreover have "\<not> (\<exists>d. route h body w = bad_request d w)"
    using assms by (auto simp: bad_request_def js_return_def problemResponse_def)
  ultimately obtain payload act fallback title where
    t: "issues_from_api h path act" "route h body w = token_route h payload act fallback title w"
    using shape [of h body w] by blast
  obtain r w1 where act: "act w = (r, w1)" by fastforce
  show ?thesis
  proof (cases r)
    case (Inl e)
    then have "rp_cookies rep = []"
      using assms(1) t(2) act by (auto simp: token_route_def js_defs)
    with assms(2) show ?thesis by simp
  next
    case (Inr token)
    then have "rep = token_reply h payload token" "w' = w1"
      using assms(1) t(2) act by (auto simp: token_route_def js_defs)
    moreover obtain resp where "api_answer h path w w1 resp" "token = json_prop (rs_json resp) ''token''"
      using t(1) act Inr unfolding issues_from_api_def by blast
    ultimately show ?thesis unfolding token_reply_def by auto
  qed
qed

end

lemmas route_defs = js_bind_def js_lift_def Let_def

interpretation login: session_issuer login_POST "''/api/v2/authenticate''"
proof
  fix h :: "'w host" and body w
  show "(\<exists>e. login_POST h body w = (Inl e, w)) \<or> (\<exists>d. login_POST h body w = bad_request d w) \<or>
    (\<exists>payload act fallback title. issues_from_api h ''/api/v2/authenticate'' act \<and>
       login_POST h body w = token_route h payload act fallback title w)"
    using participant_calls_issue(1) by (fastforce simp: login_POST_def route_defs split: sum.splits if_splits)
qed

interpretation register: session_issuer register_POST "''/api/v2/register''"
proof
  fix h :: "'w host" and body w
  show "(\<exists>e. register_POST h body w = (Inl e, w)) \<or> (\<exists>d. register_POST h body w = bad_request d w) \<or>
    (\<exists>payload act fallback title. issues_from_api h ''/api/v2/register'' act \<and>
       register_POST h body w = token_route h payload act fallback title w)"
    using participant_calls_issue(2) by (fastforce simp: register_POST_def route_defs split: sum.splits if_splits)
qed

interpretation join_team: session_issuer team_POST "''/api/v2/me/team''"
proof
  fix h :: "'w host" and body w
  show "(\<exists>e. team_POST h body w = (Inl e, w)) \<or> (\<exists>d. team_POST h body w = bad_request d w) \<or>
    (\<exists>payload act fallback title. issues_from_api h ''/api/v2/me/team'' act \<and>
       team_POST h body w = token_route h payload act fallback title w)"
    using participant_calls_issue(3) by (fastforce simp: team_POST_def route_defs split: sum.splits if_splits)
qed

interpretation captain: session_issuer captain_POST "''/api/v2/me/team/captain''"
proof
  fix h :: "'w host" and body w
  show "(\<exists>e. captain_POST h body w = (Inl e, w)) \<or> (\<exists>d. captain_POST h body w = bad_request d w) \<or>
    (\<exists>payload act fallback title. issues_from_api h ''/api/v2/me/team/captain'' act \<and>
       captain_POST h body w = token_route h payload act fallback title w)"
    using participant_calls_issue(4) by (fastforce simp: captain_POST_def split: js_num.splits if_splits)
qed

interpretation profile: session_issuer profile_PUT "''/api/v2/me/profile''"
proof
  fix h :: "'w host" and body w
  show "(\<exists>e. profile_PUT h body w = (Inl e, w)) \<or> (\<exists>d. profile_PUT h body w = bad_request d w) \<or>
    (\<exists>payload act fallback title. issues_from_api h ''/api/v2/me/profile'' act \<and>
       profile_PUT h body w = token_route h payload act fallback title w)"
    using participant_calls_issue(5) by (fastforce simp: profile_PUT_def route_defs split: sum.splits if_splits)
qed

lemma password_cookie_from_api:
  assumes "password_PUT h body w = (Inr rep, w')" and "rp_cookies rep \<noteq> []"
  shows "\<exists>r. api_answer h ''/api/v2/me/password'' w w' r \<and>
    rp_cookies rep = [participantSessionCookie h (json_prop (rs_json r) ''token'') session_max_age]"
proof -
  let ?call = "changeParticipantPassword h (json_or_empty (json_prop body ''current_password''))
    (json_or_empty (json_prop body ''new_password''))"
  obtain d where "?call w = (Inr (Some d), w')"
    "rp_cookies rep = [participantSessionCookie h (json_prop (Some d) ''token'') session_max_age]"
    using assms by (auto simp: password_PUT_def Let_def bad_request_def problemResponse_def js_defs
        split: if_splits prod.splits sum.splits option.splits json.splits)
  then show ?thesis
    unfolding changeParticipantPassword_def by (metis participantFetch_answer)
qed

text \<open>
  C6. A session cookie is only ever set to a token the platform API issued, or removed. Seven routes set
  it. Whenever one of login, registration, joining a team, handing over the captaincy, changing the
  profile and changing the password answers with a cookie, the last request the route sent (at once, or
  right after the check of the session) went to that operation's own path of the platform API, the API
  answered it with a 2xx status, and the cookie holds the \<open>token\<close> of this very answer for one day.
  Logging out sends nothing, and its cookie is empty and expires at once. The cookie is HTTP-only and
  same-site every time. A refused or failed request sets no cookie.
\<close>

theorem session_cookie_only_from_api:
  assumes "(route, api_path) \<in> {(login_POST h body, Some ''/api/v2/authenticate''), (register_POST h body, Some ''/api/v2/register''),
      (team_POST h body, Some ''/api/v2/me/team''), (captain_POST h body, Some ''/api/v2/me/team/captain''),
      (profile_PUT h body, Some ''/api/v2/me/profile''), (password_PUT h body, Some ''/api/v2/me/password''),
      (logout_POST h, None)}"
    and "route w = (Inr rep, w')" and "rp_cookies rep \<noteq> []"
  shows "\<exists>ck. rp_cookies rep = [ck] \<and> ck_name ck = ''ad_platform_team_jwt'' \<and> ck_httpOnly ck \<and> ck_sameSite ck = ''lax'' \<and>
    (case api_path of
       Some path \<Rightarrow> ck_maxAge ck = 86400 \<and> (\<exists>rq w1 r. w1 \<in> {w, snd (getParticipantToken h w)} \<and>
         sent w' = sent w1 @ [rq] \<and> rq_url rq = apiBaseUrl h @ path \<and> fetch_fn h rq (net w1) = (Inr r, net w') \<and>
         resp_ok r \<and> ck_value ck = json_prop (rs_json r) ''token'')
     | None \<Rightarrow> ck_value ck = Some (JStr '''') \<and> ck_maxAge ck = 0 \<and> w' = w)"
proof (cases api_path)
  case None
  with assms show ?thesis
    by (auto simp: logout_POST_def js_return_def participantSessionCookie_def participantSessionCookieName_def)
next
  case (Some path)
  with assms have "\<exists>r. api_answer h path w w' r \<and>
      rp_cookies rep = [participantSessionCookie h (json_prop (rs_json r) ''token'') session_max_age]"
    by (auto dest: login.cookie_from_api register.cookie_from_api join_team.cookie_from_api captain.cookie_from_api
        profile.cookie_from_api password_cookie_from_api)
  then obtain r rq w1 where "resp_ok r" "w1 \<in> {w, snd (getParticipantToken h w)}" "rq_url rq = apiBaseUrl h @ path"
    and f: "js_fetch h rq w1 = (Inr r, w')"
    and "rp_cookies rep = [participantSessionCookie h (json_prop (rs_json r) ''token'') session_max_age]"
    unfolding api_answer_def by blast
  moreover have "sent w' = sent w1 @ [rq]" "fetch_fn h rq (net w1) = (Inr r, net w')"
    using f by (auto simp: js_fetch_def split: prod.splits)
  ultimately show ?thesis
    using Some by (auto simp: participantSessionCookie_def participantSessionCookieName_def session_max_age_def
        intro!: exI [of _ rq] exI [of _ w1] exI [of _ r])
qed

definition issuing_host :: "unit host" where
  "issuing_host = table_host (\<lambda>_. Inr \<lparr>rs_status = 200, rs_headers = [],
     rs_json = Some (JObj [(''token'', JStr ''fresh'')]), rs_body = None\<rparr>)"

definition login_body :: "json option" where
  "login_body = Some (JObj [(''email'', JStr '' a@b.c ''), (''password'', JStr ''pw'')])"

theorem session_cookie_only_from_api_witness:
  "\<exists>rep w' ck. login_POST issuing_host login_body idle = (Inr rep, w') \<and> rp_cookies rep = [ck] \<and>
     ck_value ck = Some (JStr ''fresh'') \<and> ck_httpOnly ck \<and> ck_maxAge ck = 86400"
proof -
  have l: "isl (fst (login_POST issuing_host login_body idle)) = False"
    "rp_cookies (projr (fst (login_POST issuing_host login_body idle))) \<noteq> []" by code_simp+
  then obtain rep w' where r: "login_POST issuing_host login_body idle = (Inr rep, w')" "rp_cookies rep \<noteq> []"
    by (cases "login_POST issuing_host login_body idle"; cases "fst (login_POST issuing_host login_body idle)") auto
  have "fetch_fn issuing_host rq n = (Inr resp, n') \<Longrightarrow> json_prop (rs_json resp) ''token'' = Some (JStr ''fresh'')" for rq n resp n'
    by (auto simp: issuing_host_def table_host_def json_prop_def)
  with session_cookie_only_from_api [where route = "login_POST issuing_host login_body" and api_path = "Some ''/api/v2/authenticate''"
      and h = issuing_host and body = login_body, OF _ r] r
  show ?thesis by force
qed

section \<open>Without a session\<close>

text \<open>A request is refused when it is answered with 400 or 403 and nothing but the check of the session
  was sent for it.\<close>

definition refused :: "'w host \<Rightarrow> 'w world \<Rightarrow> reply result \<times> 'w world \<Rightarrow> bool" where
  "refused h w x \<longleftrightarrow> (\<exists>rep rqs. fst x = Inr rep \<and> rp_status rep \<in> {400, 403} \<and> rp_cookies rep = [] \<and>
     sent (snd x) = sent w @ rqs \<and> (\<forall>rq \<in> set rqs. rq_url rq = apiBaseUrl h @ ''/api/v2/session''))"

lemma refused_problem: "refused h w (Inr (problemResponse 400 a b), w)"
  by (simp add: refused_def problemResponse_def)

lemma refused_bad_request: "refused h w (bad_request d w)"
  by (simp add: bad_request_def js_return_def refused_problem)

text \<open>A handler that wraps a guarded call in \<open>try { ... } catch { upstreamErrorResponse }\<close>.\<close>

lemma refused_guarded:
  assumes "fst (getParticipantToken h w) = Inl e" and "act w = (Inl e, snd (getParticipantToken h w))"
  shows "refused h w (js_catch (js_bind act f) (\<lambda>e. js_return (upstreamErrorResponse e a b)) w)"
  using getParticipantToken_error [OF assms(1)] getParticipantToken_sent [of h w] assms(2)
  by (auto simp: refused_def js_defs upstreamErrorResponse_def error_message_def problemResponse_def)

lemma refused_routes:
  assumes "fst (getParticipantToken h w) = Inl e"
  shows "refused h w (json_route (participantFetch h path init) a b w)"
    and "refused h w (js_catch (js_bind (participantFetchResponse h path init) f) (\<lambda>e. js_return (upstreamErrorResponse e a b)) w)"
    and "refused h w (js_catch (js_bind (participantFetch h path init) g) (\<lambda>e. js_return (upstreamErrorResponse e a b)) w)"
    and "refused h w (token_route h payload (joinCurrentParticipantTeam h key) a b w)"
    and "refused h w (token_route h payload (transferCurrentTeamCaptain h q) a b w)"
    and "refused h w (token_route h payload (updateCurrentParticipantProfile h profile) a b w)"
  unfolding json_route_def token_route_def
  by (intro refused_guarded [OF assms] guarded_fetch.needs_token [OF assms] guarded_download.needs_token [OF assms]
      guarded_join.needs_token [OF assms] guarded_transfer.needs_token [OF assms] guarded_profile.needs_token [OF assms])+

lemma refused_id_route:
  assumes "fst (getParticipantToken h w) = Inl e" and "\<And>n. \<exists>path init. f n = participantFetch h path init"
  shows "refused h w (handleParticipantIdRoute params k i a f w)"
  using participant_id.only_ids [of params k i a f w] refused_routes(1) [OF assms(1)] refused_problem assms(2) by metis

lemma id_routes_refused:
  assumes "fst (getParticipantToken h w) = Inl e"
  shows "refused h w (reset_factory_POST h params w)" "refused h w (reset_restart_POST h params w)"
    "refused h w (ssh_session_POST h params w)"
proof -
  have f: "\<exists>path init. factoryResetService h n = participantFetch h path init"
    "\<exists>path init. restartService h n = participantFetch h path init"
    "\<exists>path init. createSSHSession h n = participantFetch h path init" for n
    by (auto simp: factoryResetService_def restartService_def createSSHSession_def)
  show "refused h w (reset_factory_POST h params w)" "refused h w (reset_restart_POST h params w)"
    "refused h w (ssh_session_POST h params w)"
    unfolding reset_factory_POST_def reset_restart_POST_def ssh_session_POST_def
    by (intro refused_id_route [OF assms] f)+
qed

lemma reading_routes_refused:
  assumes "fst (getParticipantToken h w) = Inl e"
  shows "refused h w (members_GET h w)" "refused h w (team_services_GET h w)" "refused h w (me_wireguard_GET h w)"
    "refused h w (challenge_source_GET h challengeId w)"
  by (simp_all add: members_GET_def listCurrentTeamMembers_def team_services_GET_def listTeamServices_def
      me_wireguard_GET_def downloadParticipantWireGuard_def challenge_source_GET_def downloadChallengeSource_def
      refused_routes [OF assms] refused_bad_request split: option.splits)

lemma writing_routes_refused:
  assumes "fst (getParticipantToken h w) = Inl e"
  shows "refused h w (submit_POST h body w)" "refused h w (password_PUT h body w)" "refused h w (captain_POST h body w)"
  by (simp_all add: submit_POST_def submitFlags_def password_PUT_def changeParticipantPassword_def captain_POST_def Let_def
      refused_routes [OF assms] refused_bad_request split: js_num.splits)

text \<open>Three handlers trim fields of the body before anything else, which throws where the field is no
  string.\<close>

lemma trimming_routes_refused:
  assumes "fst (getParticipantToken h w) = Inl e"
  shows "refused h w (unlock_POST h challengeId body w) \<or> (\<exists>e. unlock_POST h challengeId body w = (Inl e, w))"
    and "refused h w (profile_PUT h body w) \<or> (\<exists>e. profile_PUT h body w = (Inl e, w))"
    and "refused h w (team_POST h body w) \<or> (\<exists>e. team_POST h body w = (Inl e, w))"
  by (simp_all add: unlock_POST_def unlockService_def profile_PUT_def team_POST_def route_defs
      refused_routes [OF assms] refused_bad_request split: option.splits sum.splits)

text \<open>
  C21. Without a validated session every route that acts for a participant is closed: reading the team's
  members or services, downloading a challenge's source or the VPN configuration, submitting flags,
  unlocking, resetting, restarting or opening a service, joining a team, handing over the captaincy,
  changing the profile or the password. Each is answered with 403, or with 400 for an invalid request,
  sets no cookie, and nothing is sent to the platform API but the check of the session itself. The three
  handlers that trim fields first may instead throw on a field that is no string, having sent nothing.
  Logging in and out, registering, announcements, the attack feed and the public streams need no session.
\<close>

theorem participant_routes_need_session:
  assumes "fst (getParticipantToken h w) = Inl e"
    and "route \<in> {members_GET h, team_services_GET h, challenge_source_GET h challengeId, me_wireguard_GET h,
      submit_POST h body, unlock_POST h challengeId body, reset_factory_POST h params, reset_restart_POST h params,
      ssh_session_POST h params, team_POST h body, captain_POST h body, profile_PUT h body, password_PUT h body}"
  shows "(\<exists>rep rqs. fst (route w) = Inr rep \<and> rp_status rep \<in> {400, 403} \<and> rp_cookies rep = [] \<and>
      sent (snd (route w)) = sent w @ rqs \<and> list_all (\<lambda>rq. rq_url rq = apiBaseUrl h @ ''/api/v2/session'') rqs) \<or>
    (route \<in> {unlock_POST h challengeId body, team_POST h body, profile_PUT h body} \<and> (\<exists>e. route w = (Inl e, w)))"
proof -
  note closed = id_routes_refused [OF assms(1)] reading_routes_refused [OF assms(1)] writing_routes_refused [OF assms(1)]
    trimming_routes_refused [OF assms(1)]
  have "refused h w (route w) \<or>
    (route \<in> {unlock_POST h challengeId body, team_POST h body, profile_PUT h body} \<and> (\<exists>e. route w = (Inl e, w)))"
    using assms(2) unfolding insert_iff empty_iff by (elim disjE FalseE; hypsubst; simp add: closed)
  then show ?thesis unfolding refused_def list_all_iff by blast
qed

theorem participant_routes_need_session_witness:
  "\<exists>rep rqs. fst (members_GET (table_host (\<lambda>_. Inl NonError)) idle) = Inr rep \<and> rp_status rep \<in> {400, 403} \<and>
     sent (snd (members_GET (table_host (\<lambda>_. Inl NonError)) idle)) = sent idle @ rqs \<and>
     list_all (\<lambda>rq. rq_url rq = apiBaseUrl (table_host (\<lambda>_. Inl NonError)) @ ''/api/v2/session'') rqs"
proof -
  let ?h = "table_host (\<lambda>_. Inl NonError)"
  have "isl (fst (getParticipantToken ?h idle))" "\<not> isl (fst (members_GET ?h idle))" by code_simp+
  then obtain e where "fst (getParticipantToken ?h idle) = Inl e" "\<nexists>e. members_GET ?h idle = (Inl e, idle)"
    by (metis fst_conv isl_def)
  with participant_routes_need_session [of ?h idle e "members_GET ?h" "[]" None "\<lambda>_. None"] show ?thesis by blast
qed

section \<open>Submitting flags\<close>

text \<open>
  What a submission sends on: the flags are the text of the submitted elements, trimmed, in their
  order and without blank ones; if none is left the request is refused with 400 and nothing is sent,
  and otherwise the one request after the session check carries exactly these flags and the token of
  the validated session.
\<close>

lemma submit_POST_flags:
  "(submit_flags_of body = [] \<longrightarrow>
      submit_POST h body w = (Inr (problemResponse 400 ''Invalid request'' ''at least one flag is required.''), w)) \<and>
   list_all (\<lambda>f. f \<noteq> [] \<and> trimmed f) (submit_flags_of body) \<and>
   (submit_flags_of body \<noteq> [] \<and> getParticipantToken h w = (Inr token, w1) \<longrightarrow>
      (\<exists>rq. sent (snd (submit_POST h body w)) = sent w1 @ [rq] \<and> rq_method rq = ''POST'' \<and>
         rq_url rq = apiBaseUrl h @ ''/api/v2/submit'' \<and>
         rq_body rq = Some (JObj [(''flags'', JArr (map JStr (submit_flags_of body)))])))"
proof (intro conjI impI)
  assume "submit_flags_of body = []"
  then show "submit_POST h body w = (Inr (problemResponse 400 ''Invalid request'' ''at least one flag is required.''), w)"
    by (simp add: submit_POST_def bad_request_def js_return_def)
next
  show "list_all (\<lambda>f. f \<noteq> [] \<and> trimmed f) (submit_flags_of body)"
    by (auto simp: submit_flags_of_def list_all_iff split: option.splits json.splits)
next
  assume a: "submit_flags_of body \<noteq> [] \<and> getParticipantToken h w = (Inr token, w1)"
  let ?init = "body_init ''POST'' (JObj [(''flags'', JArr (map JStr (submit_flags_of body)))])"
  let ?init' = "?init\<lparr>ri_headers := platformRequestHeaders h (ri_headers ?init)\<rparr>"
  let ?rq = "init_request (apiBaseUrl h @ ''/api/v2/submit'') ?init' (auth_headers (Some token) ?init')"
  have "sent (snd (submitFlags h (submit_flags_of body) w)) = sent w1 @ [?rq]"
    using a by (simp add: submitFlags_def participantFetch_def js_bind_def authenticatedFetch_run Let_def split: prod.splits)
  then have "sent (snd (submit_POST h body w)) = sent w1 @ [?rq]"
    using a by (auto simp: submit_POST_def json_route_def js_defs Let_def split: prod.splits sum.splits)
  moreover have "rq_method ?rq = ''POST''" "rq_url ?rq = apiBaseUrl h @ ''/api/v2/submit''"
    "rq_body ?rq = Some (JObj [(''flags'', JArr (map JStr (submit_flags_of body)))])"
    by (simp_all add: init_request_def body_init_def)
  ultimately show "\<exists>rq. sent (snd (submit_POST h body w)) = sent w1 @ [rq] \<and> rq_method rq = ''POST'' \<and>
         rq_url rq = apiBaseUrl h @ ''/api/v2/submit'' \<and>
         rq_body rq = Some (JObj [(''flags'', JArr (map JStr (submit_flags_of body)))])" by blast
qed

lemma submit_POST_flags_witness:
  "\<exists>rqs rq. sent (snd (submit_POST env_token_host (Some (JObj [(''flags'', JArr [JStr '' F1 '', JStr ''  ''])])) idle)) = rqs @ [rq] \<and>
     rq_body rq = Some (JObj [(''flags'', JArr [JStr ''F1''])])"
proof -
  let ?b = "Some (JObj [(''flags'', JArr [JStr '' F1 '', JStr ''  ''])])"
  have f: "submit_flags_of ?b = [''F1'']" by code_simp
  have t: "isl (fst (getParticipantToken env_token_host idle)) = False" by code_simp
  obtain r w1 where g: "getParticipantToken env_token_host idle = (r, w1)" by fastforce
  with t obtain token where "getParticipantToken env_token_host idle = (Inr token, w1)" by (cases r) auto
  with submit_POST_flags [of ?b env_token_host idle token w1] f show ?thesis by auto
qed

section \<open>Where routes and their upstream disagree\<close>

lemma adminFetch_answer:
  assumes "admin_token h = Some token" and "\<And>rq n. fst (fetch_fn h rq n) = Inr r"
  shows "fst (adminFetch h path init w) = processApiResponse r path"
proof -
  let ?rq = "init_request (adminBaseUrl h @ path) init (auth_headers (Some token) init)"
  obtain n where "fetch_fn h ?rq (net w) = (Inr r, n)" using assms(2) [of ?rq "net w"] by (metis prod.collapse)
  then show ?thesis
    using assms(1) by (simp add: adminFetch_def js_bind_def getAdminToken_run authenticatedFetch_run Let_def)
qed

lemma json_route_fst:
  "fst (json_route act f t w) = Inr (case fst (act w) of
     Inl e \<Rightarrow> upstreamErrorResponse e f t
   | Inr d \<Rightarrow> (case next_json d of Inl e \<Rightarrow> upstreamErrorResponse e f t | Inr rep \<Rightarrow> rep))"
  by (cases "act w") (auto simp: json_route_def js_defs split: sum.splits)

lemma json_route_sent: "sent (snd (json_route act f t w)) = sent (snd (act w))"
  by (cases "act w") (auto simp: json_route_def js_defs split: sum.splits)

text \<open>
  C29. The teardown of the access rules and of the VPN gateway is reported as failed when it succeeds:
  the gateway answers a successful teardown with 204, and the route turns exactly that answer into a
  502.
\<close>

theorem teardown_success_reported_as_failure:
  assumes "admin_token h = Some token"
    and "\<And>rq n. fst (fetch_fn h rq n) = Inr \<lparr>rs_status = 204, rs_headers = [], rs_json = None, rs_body = None\<rparr>"
  shows "(\<exists>rep. fst (admin_access_teardown_POST h w) = Inr rep \<and> rp_status rep = 502) \<and>
    (\<exists>rep. fst (admin_wireguard_teardown_POST h w) = Inr rep \<and> rp_status rep = 502)"
  by (simp add: admin_access_teardown_POST_def admin_wireguard_teardown_POST_def json_route_fst
      teardownAdminAccess_def teardownAdminWireGuardGateway_def adminFetch_answer [OF assms]
      processApiResponse_def resp_ok_def next_json_def upstreamErrorResponse_def error_message_def
      not_authenticated_message_def upstreamErrorDetails_def problemResponse_def Let_def)

theorem teardown_success_reported_as_failure_witness:
  "\<exists>rep. fst (admin_access_teardown_POST (admin_host (\<lambda>_. Inr \<lparr>rs_status = 204, rs_headers = [], rs_json = None,
     rs_body = None\<rparr>)) idle) = Inr rep \<and> rp_status rep = 502"
proof -
  let ?h = "admin_host (\<lambda>_. Inr \<lparr>rs_status = 204, rs_headers = [], rs_json = None, rs_body = None\<rparr>)"
  have t: "admin_token ?h = Some ''root''" by code_simp
  have f: "fst (fetch_fn ?h rq n) = Inr \<lparr>rs_status = 204, rs_headers = [], rs_json = None, rs_body = None\<rparr>" for rq n
    by (simp add: admin_host_def table_host_def)
  show ?thesis by (rule teardown_success_reported_as_failure [OF t f, THEN conjunct1])
qed

text \<open>
  The egress switch of a challenge cannot be set through the web application: whatever the
  organizer's form sends, no request that creates or updates a challenge carries \<open>egress_enabled\<close>.
\<close>

lemma challenge_routes_drop_egress:
  assumes "sent (snd (admin_challenges_POST h body w)) = sent w @ rqs"
    and "sent (snd (admin_challenge_PUT h challengeId body w)) = sent w @ rqs'"
  shows "list_all (\<lambda>rq. json_prop (rq_body rq) ''egress_enabled'' = None) (rqs @ rqs')"
proof -
  have fetch: "sent (snd (adminFetch h path (body_init m b) w)) = sent w @ qs \<Longrightarrow>
      json_prop (Some b) ''egress_enabled'' = None \<Longrightarrow> list_all (\<lambda>rq. json_prop (rq_body rq) ''egress_enabled'' = None) qs"
    for path m b qs
    by (cases "admin_token h")
      (auto simp: adminFetch_def js_bind_def getAdminToken_run authenticatedFetch_run Let_def init_request_def
        body_init_def split: prod.splits)
  have ci: "ci_egress_enabled i = None \<Longrightarrow> json_prop (Some (challenge_input_json i)) ''egress_enabled'' = None" for i
    unfolding challenge_input_json_def by (rule json_object_absent) simp
  have uc: "uc_egress_enabled i = None \<Longrightarrow> json_prop (Some (challenge_update_json i)) ''egress_enabled'' = None" for i
    unfolding challenge_update_json_def by (rule json_object_absent) simp
  have bad: "sent (snd (bad_request d w)) = sent w" for d by (simp add: bad_request_def js_return_def)
  have "list_all (\<lambda>rq. json_prop (rq_body rq) ''egress_enabled'' = None) rqs"
    using assms(1) fetch ci unfolding admin_challenges_POST_def createAdminChallenge_def
    by (simp add: route_defs json_route_sent bad split: sum.splits option.splits)
  moreover have "list_all (\<lambda>rq. json_prop (rq_body rq) ''egress_enabled'' = None) rqs'"
    using assms(2) fetch uc unfolding admin_challenge_PUT_def updateAdminChallenge_def
    by (simp add: route_defs json_route_sent bad split: sum.splits option.splits)
  ultimately show ?thesis by simp
qed

lemma challenge_routes_drop_egress_witness:
  "\<exists>rqs. sent (snd (admin_challenges_POST (admin_host (\<lambda>_. Inl NonError))
       (Some (JObj [(''name'', JStr ''web''), (''egress_enabled'', JBool True)])) idle)) = rqs \<and> rqs \<noteq> [] \<and>
     list_all (\<lambda>rq. json_prop (rq_body rq) ''egress_enabled'' = None) rqs"
proof -
  let ?h = "admin_host (\<lambda>_. Inl NonError)" and ?b = "Some (JObj [(''name'', JStr ''web''), (''egress_enabled'', JBool True)])"
  have "sent (snd (admin_challenges_POST ?h ?b idle)) \<noteq> []" by code_simp
  moreover have "list_all (\<lambda>rq. json_prop (rq_body rq) ''egress_enabled'' = None)
      (sent (snd (admin_challenges_POST ?h ?b idle)) @ sent (snd (admin_challenge_PUT ?h ''1'' ?b idle)))"
    by (rule challenge_routes_drop_egress [of ?h ?b idle _ "''1''"]) (simp_all add: idle_def)
  ultimately show ?thesis by simp
qed

text \<open>
  The creation of a player for team 0 is refused: although an organizer account may be without a
  team, a request with \<open>team_id\<close> zero gets a 400 and never reaches the API.
\<close>

lemma players_POST_refuses_team_zero:
  "json_prop body ''team_id'' = Some (JNum 0) \<Longrightarrow>
     admin_players_POST h body w = (Inr (problemResponse 400 ''Invalid request'' ''player request is invalid.''), w)"
  by (simp add: admin_players_POST_def truthy_def bad_request_def js_return_def)

lemma players_POST_refuses_team_zero_witness:
  "admin_players_POST (admin_host (\<lambda>_. Inl NonError)) (Some (JObj [(''team_id'', JNum 0), (''role'', JStr ''organizer'')])) idle
     = (Inr (problemResponse 400 ''Invalid request'' ''player request is invalid.''), idle)"
  by (rule players_POST_refuses_team_zero) (simp add: json_prop_def)

section \<open>Bulk import and report\<close>

text \<open>
  The bulk import passes the verdict of the API on: a complete import and a partially rejected one
  (422) both come back with their own status and their row results, and any other answer is an error with
  its status and without results.
\<close>

lemma import_POST_passes_verdict:
  assumes "json_prop body ''teams'' = Some (JArr (t # ts))" and "admin_token h = Some token"
    and "\<And>rq n. fst (fetch_fn h rq n) = Inr r"
  shows "\<exists>rep. fst (admin_import_POST h body w) = Inr rep \<and>
    (rs_status r \<in> {200, 422} \<and> rs_json r = Some result \<longrightarrow> rp_status rep = rs_status r \<and> rp_body rep = JsonBody result) \<and>
    (rs_status r \<notin> {200, 422} \<and> parseApiError r ''/api/v2/admin/import/teams'' = Inr m \<and> m \<noteq> not_authenticated_message \<longrightarrow>
       rp_status rep = rs_status r)"
proof -
  let ?rq = "\<lparr>rq_method = ''POST'', rq_url = adminBaseUrl h @ ''/api/v2/admin/import/teams'',
     rq_headers = [(''authorization'', ''Bearer '' @ token), (''content-type'', ''application/json'')],
     rq_body = Some (JObj [(''teams'', JArr (t # ts))])\<rparr>"
  obtain n where f: "fetch_fn h ?rq (net w) = (Inr r, n)" using assms(3) [of ?rq "net w"] by (metis prod.collapse)
  have run: "bulkImportAdminTeams h (t # ts) w = (
      if rs_status r \<noteq> 200 \<and> rs_status r \<noteq> 422 then
        (case parseApiError r ''/api/v2/admin/import/teams'' of Inl e \<Rightarrow> js_throw e
         | Inr m \<Rightarrow> js_throw (new_PlatformAPIError m (rs_status r) (hget (rs_headers r) ''retry-after'')))
      else (case rs_json r of None \<Rightarrow> js_throw (ErrorMessage ''response body is not JSON'')
         | Some b \<Rightarrow> js_return (rs_status r, b))) (w\<lparr>net := n, sent := sent w @ [?rq]\<rparr>)"
    unfolding bulkImportAdminTeams_def js_bind_def [of "getAdminToken h"] getAdminToken_run assms(2)
    by (simp only: option.case sum.case prod.case js_bind_fetch f)
  show ?thesis
  proof (cases "rs_status r \<in> {200, 422}")
    case True
    then show ?thesis
      using run assms(1)
      by (cases "rs_json r") (auto simp: admin_import_POST_def js_bind_def js_catch_def js_throw_def js_return_def)
  next
    case False
    then show ?thesis
      using run assms(1)
      by (cases "parseApiError r ''/api/v2/admin/import/teams''")
        (auto simp: admin_import_POST_def js_bind_def js_catch_def js_throw_def js_return_def upstreamErrorResponse_def
          new_PlatformAPIError_def error_message_def upstreamErrorDetails_def problemResponse_def Let_def split: option.splits)
  qed
qed

lemma import_POST_passes_verdict_witness:
  "\<exists>rep. fst (admin_import_POST (admin_host (\<lambda>_. Inr \<lparr>rs_status = 422, rs_headers = [], rs_json = Some (JArr []), rs_body = None\<rparr>))
       (Some (JObj [(''teams'', JArr [JNull])])) idle) = Inr rep \<and> rp_status rep = 422 \<and> rp_body rep = JsonBody (JArr [])"
proof -
  let ?r = "\<lparr>rs_status = 422, rs_headers = [], rs_json = Some (JArr []), rs_body = None\<rparr>"
  have "admin_token (admin_host (\<lambda>_. Inr ?r)) = Some ''root''" by code_simp
  moreover have "fst (fetch_fn (admin_host (\<lambda>_. Inr ?r)) rq n) = Inr ?r" for rq n
    by (simp add: admin_host_def table_host_def)
  moreover have "json_prop (Some (JObj [(''teams'', JArr [JNull])])) ''teams'' = Some (JArr [JNull])"
    by (simp add: json_prop_def)
  ultimately show ?thesis
    using import_POST_passes_verdict [of "Some (JObj [(''teams'', JArr [JNull])])" JNull "[]"
        "admin_host (\<lambda>_. Inr ?r)" "''root''" ?r idle "JArr []"] by auto
qed

lemma report_length: "length report_sections = 6"
  by (simp add: report_sections_def)

lemma map_of_json_object_cons:
  "json_prop (Some (json_object ((k, v) # ps))) j = (if j = k \<and> v \<noteq> None then v else json_prop (Some (json_object ps)) j)"
  by (auto simp: json_object_def json_prop_def split: option.splits)

definition rejected_sections :: "json option settled list \<Rightarrow> (string \<times> string) list" where
  "rejected_sections results = concat (map (\<lambda>(s, r). snd (readSettled s r)) (zip report_sections results))"

lemma rejected_sections_names:
  "length results = 6 \<Longrightarrow> map fst (rejected_sections results)
     = map fst (filter (\<lambda>(s, r). \<exists>e. r = Rejected e) (zip report_sections results))"
proof -
  have "map fst (concat (map (\<lambda>(s, r). snd (readSettled s r)) ps)) = map fst (filter (\<lambda>(s, r). \<exists>e. r = Rejected e) ps)" for ps
    by (induction ps) (auto simp: readSettled_def split: settled.splits)
  then show ?thesis by (simp add: rejected_sections_def)
qed

text \<open>
  The runtime report never hides a failure: whatever subset of its six sources fails, the report
  that is produced lists exactly the failed sections, in order, each with a message, and a report is
  produced (with status 200) even when all six fail.
\<close>

lemma runtime_report_lists_failures:
  assumes "length results = 6"
  shows "(runtime_report now results = Inr rep \<longrightarrow> rp_status rep = 200 \<and>
      (\<exists>body fs. rp_body rep = JsonBody body \<and> json_prop (Some body) ''failures'' = Some (JArr (map failure_json fs)) \<and>
         map fst fs = map fst (filter (\<lambda>(s, r). \<exists>e. r = Rejected e) (zip report_sections results)))) \<and>
    (list_all (\<lambda>r. \<exists>e. r = Rejected e) results \<longrightarrow> (\<exists>rep. runtime_report now results = Inr rep))"
proof (intro conjI impI)
  assume r: "runtime_report now results = Inr rep"
  have fs: "concat (map snd (map (\<lambda>(s, r). readSettled s r) (zip report_sections results))) = rejected_sections results"
    unfolding rejected_sections_def map_map by (rule arg_cong [where f = concat], rule map_cong) auto
  from r show "rp_status rep = 200"
    by (auto simp: runtime_report_def Let_def split: sum.splits)
  from r obtain body where "rp_body rep = JsonBody body"
    "json_prop (Some body) ''failures'' = Some (JArr (map failure_json (rejected_sections results)))"
    unfolding runtime_report_def Let_def fs
    by (auto simp: map_of_json_object_cons split: sum.splits)
  with rejected_sections_names [OF assms]
  show "\<exists>body fs. rp_body rep = JsonBody body \<and> json_prop (Some body) ''failures'' = Some (JArr (map failure_json fs)) \<and>
         map fst fs = map fst (filter (\<lambda>(s, r). \<exists>e. r = Rejected e) (zip report_sections results))" by blast
next
  assume all: "list_all (\<lambda>r. \<exists>e. r = Rejected e) results"
  let ?vals = "map fst (map (\<lambda>(s, r). readSettled s r) (zip report_sections results))"
  have "?vals ! i = Some JNull" if "i < 6" for i
    using that all assms by (auto simp: report_length list_all_length readSettled_def split: settled.splits)
  then have v: "?vals ! 0 = Some JNull" "?vals ! 1 = Some JNull" "?vals ! 2 = Some JNull" "?vals ! 3 = Some JNull" by simp_all
  show "\<exists>rep. runtime_report now results = Inr rep"
    unfolding runtime_report_def Let_def v by (simp add: buildSummary_def array_of_def json_prop_def Let_def)
qed

lemma runtime_report_lists_failures_witness:
  "\<exists>rep. runtime_report 0 (replicate 6 (Rejected NonError)) = Inr rep \<and> rp_status rep = 200"
  using runtime_report_lists_failures [of "replicate 6 (Rejected NonError)" 0] by (auto simp: list_all_iff)

end
