(* ===== verification/Control_Center.thy ===== *)
theory Control_Center
  imports Participant_Api Scoring_Leaders
begin

text \<open>
  The participant's control center (\<open>components/dashboard/use-control-center.ts\<close>): the state the hook
  keeps, its synchronous handlers, and its asynchronous handlers cut at their \<open>await\<close>s, so that other
  events may happen while a request is in flight. A task is an asynchronous handler that waits for an
  answer, with the variables it captured when it started.
\<close>

section \<open>Rows\<close>

datatype service_status = Stable | Warming | Degraded
datatype checker_status = Passing | CheckerWarning

record ServiceRow =
  sv_id :: string
  sv_challengeId :: js_num
  sv_teamId :: js_num
  sv_name :: string
  sv_endpoint :: string
  sv_port :: js_num
  sv_status :: service_status
  sv_checker :: checker_status
  sv_hasSourceDownload :: bool
  sv_unlocked :: bool
  sv_sshHint :: string
  sv_lastEvent :: string
  sv_resetCooldown :: string
  sv_maintenance :: bool
  sv_lockReason :: "string option"
  sv_slaStatus :: string
  sv_slaPhase :: string
  sv_slaTickId :: "js_num option"
  sv_slaMessage :: string

record TeamServiceState =
  ts_challenge_id :: js_num
  ts_team_id :: js_num
  ts_name :: "string option"
  ts_endpoint :: string
  ts_status :: service_status
  ts_checker :: checker_status
  ts_unlocked :: bool
  ts_ssh_hint :: string
  ts_last_event :: string
  ts_reset_cooldown :: string
  ts_maintenance :: "bool option"
  ts_lock_reason :: "string option"
  ts_sla_status :: "string option"
  ts_sla_phase :: "string option"
  ts_sla_tick_id :: "js_num option"
  ts_sla_message :: "string option"

record SSHSessionData =
  ssh_challenge_id :: js_num
  ssh_host :: string
  ssh_port :: js_num
  ssh_username :: string
  ssh_password :: string
  ssh_password_mode :: "string option"
  ssh_connection_hint :: string

text \<open>\<open>===\<close> on numbers.\<close>

definition same_num :: "js_num \<Rightarrow> js_num \<Rightarrow> bool" where
  "same_num x y \<longleftrightarrow> x \<noteq> NaN \<and> x = y"

definition endpoint_port :: "string \<Rightarrow> js_num" where
  "endpoint_port e = js_Number (last (split_on (CHR '':'') e))"

definition mergeServiceState :: "ServiceRow \<Rightarrow> TeamServiceState \<Rightarrow> ServiceRow" where
  "mergeServiceState row state = row\<lparr>
     sv_endpoint := ts_endpoint state,
     sv_port := endpoint_port (ts_endpoint state),
     sv_status := ts_status state,
     sv_checker := ts_checker state,
     sv_unlocked := ts_unlocked state,
     sv_sshHint := ts_ssh_hint state,
     sv_lastEvent := ts_last_event state,
     sv_resetCooldown := ts_reset_cooldown state,
     sv_maintenance := coalesce (ts_maintenance state) (sv_maintenance row),
     sv_lockReason := (case ts_lock_reason state of Some r \<Rightarrow> Some r | None \<Rightarrow> sv_lockReason row),
     sv_slaStatus := coalesce (ts_sla_status state) (sv_slaStatus row),
     sv_slaPhase := coalesce (ts_sla_phase state) (sv_slaPhase row),
     sv_slaTickId := (case ts_sla_tick_id state of Some t \<Rightarrow> Some t | None \<Rightarrow> sv_slaTickId row),
     sv_slaMessage := coalesce (ts_sla_message state) (sv_slaMessage row)\<rparr>"

definition update_rows :: "('a \<Rightarrow> bool) \<Rightarrow> ('a \<Rightarrow> 'a) \<Rightarrow> 'a list \<Rightarrow> 'a list" where
  "update_rows p f rows = map (\<lambda>row. if p row then f row else row) rows"

section \<open>State\<close>

record control_center =
  cc_rows :: "ServiceRow list"
  cc_scoreRows :: "AdminGameScoreRow list"
  cc_attackPage :: AttackFeedPage
  cc_proof :: string
  cc_unlockTarget :: "ServiceRow option"
  cc_sessionTarget :: "ServiceRow option"
  cc_resetTarget :: "ServiceRow option"
  cc_issuedSession :: "SSHSessionData option"
  cc_pendingAction :: "string option"
  cc_actionError :: "string option"
  cc_attackFilters :: AttackFilters
  cc_initialFilters :: AttackFilters
  cc_highlights :: highlight_state

definition baseAttackFilters :: AttackFilters where
  "baseAttackFilters = \<lparr>af_limit = ''12'', af_offset = ''0'', af_attacker = [], af_victim = [], af_service = [],
     af_tickFrom = [], af_tickTo = []\<rparr>"

definition initialAttackFilters :: "AttackFeedPage \<Rightarrow> AttackFilters" where
  "initialAttackFilters page = baseAttackFilters\<lparr>af_limit := int_to_string (pg_limit page),
     af_offset := int_to_string (pg_offset page)\<rparr>"

definition useControlCenter ::
  "AttackFeedPage \<Rightarrow> AdminGameScoreRow list \<Rightarrow> ServiceRow list \<Rightarrow> control_center" where
  "useControlCenter attackPage scores services =
     \<lparr>cc_rows = services, cc_scoreRows = scores, cc_attackPage = attackPage,
      cc_proof = ''unlock-proof-from-own-service'', cc_unlockTarget = None, cc_sessionTarget = None,
      cc_resetTarget = None, cc_issuedSession = None, cc_pendingAction = None, cc_actionError = None,
      cc_attackFilters = initialAttackFilters attackPage, cc_initialFilters = initialAttackFilters attackPage,
      cc_highlights = initial_highlights\<rparr>"

text \<open>A server render (every \<open>router.refresh\<close> makes new props) replaces rows and scores and the memoised
  initial filters; the page on screen and the edited filters stay.\<close>

definition props_changed ::
  "AttackFeedPage \<Rightarrow> AdminGameScoreRow list \<Rightarrow> ServiceRow list \<Rightarrow> control_center \<Rightarrow> control_center" where
  "props_changed attackPage scores services s =
     s\<lparr>cc_rows := services, cc_scoreRows := scores, cc_initialFilters := initialAttackFilters attackPage\<rparr>"

definition attackLiveMode :: "control_center \<Rightarrow> bool" where
  "attackLiveMode s \<longleftrightarrow> af_offset (cc_initialFilters s) = ''0'' \<and>
     isDefaultAttackFilters (cc_attackFilters s) (cc_initialFilters s)"

record ControlCenterSummary =
  cs_acceptedFlags :: int
  cs_currentTick :: int
  cs_stableServices :: nat
  cs_unlockedServices :: nat

definition summary :: "control_center \<Rightarrow> ControlCenterSummary" where
  "summary s = \<lparr>cs_acceptedFlags = total_count (cc_attackPage s),
     cs_currentTick = foldl (\<lambda>current attack. max current (ae_tick attack)) 0 (items (cc_attackPage s)),
     cs_stableServices = length (filter (\<lambda>row. sv_status row = Stable) (cc_rows s)),
     cs_unlockedServices = length (filter sv_unlocked (cc_rows s))\<rparr>"

section \<open>Synchronous handlers\<close>

definition selectPrimaryAction :: "ServiceRow \<Rightarrow> control_center \<Rightarrow> control_center" where
  "selectPrimaryAction service s =
     (if sv_unlocked service then s\<lparr>cc_sessionTarget := Some service\<rparr> else s\<lparr>cc_unlockTarget := Some service\<rparr>)"

definition selectResetTarget :: "ServiceRow \<Rightarrow> control_center \<Rightarrow> control_center" where
  "selectResetTarget service s = s\<lparr>cc_resetTarget := Some service\<rparr>"

definition closeUnlockDialog :: "control_center \<Rightarrow> control_center" where
  "closeUnlockDialog s = s\<lparr>cc_unlockTarget := None\<rparr>"

definition closeSSHSessionDialog :: "control_center \<Rightarrow> control_center" where
  "closeSSHSessionDialog s = s\<lparr>cc_sessionTarget := None, cc_issuedSession := None\<rparr>"

definition closeFactoryResetDialog :: "control_center \<Rightarrow> control_center" where
  "closeFactoryResetDialog s = s\<lparr>cc_resetTarget := None\<rparr>"

definition setProof :: "string \<Rightarrow> control_center \<Rightarrow> control_center" where
  "setProof v s = s\<lparr>cc_proof := v\<rparr>"

datatype filter_field = FLimit | FOffset | FAttacker | FVictim | FService | FTickFrom | FTickTo

definition setAttackFilter :: "filter_field \<Rightarrow> string \<Rightarrow> control_center \<Rightarrow> control_center" where
  "setAttackFilter fld v s = s\<lparr>cc_attackFilters := (let f = cc_attackFilters s in case fld of
     FLimit \<Rightarrow> f\<lparr>af_limit := v\<rparr> | FOffset \<Rightarrow> f\<lparr>af_offset := v\<rparr> | FAttacker \<Rightarrow> f\<lparr>af_attacker := v\<rparr>
   | FVictim \<Rightarrow> f\<lparr>af_victim := v\<rparr> | FService \<Rightarrow> f\<lparr>af_service := v\<rparr> | FTickFrom \<Rightarrow> f\<lparr>af_tickFrom := v\<rparr>
   | FTickTo \<Rightarrow> f\<lparr>af_tickTo := v\<rparr>)\<rparr>"

text \<open>Messages of the two event streams; \<open>None\<close> is a frame that does not parse.\<close>

definition scoreboard_message :: "AdminGameScoreRow list option \<Rightarrow> control_center \<Rightarrow> control_center" where
  "scoreboard_message frame s = (case frame of Some rows \<Rightarrow> s\<lparr>cc_scoreRows := rows\<rparr> | None \<Rightarrow> s)"

definition attacks_message :: "AttackFeedPage option \<Rightarrow> control_center \<Rightarrow> control_center" where
  "attacks_message frame s =
     (case handleRealtimeAttackMessage (attackLiveMode s) (cc_attackPage s) (af_limit (cc_attackFilters s)) frame of
        NoEffect \<Rightarrow> s
      | SetPage page ids \<Rightarrow> s\<lparr>cc_attackPage := page,
          cc_highlights := (case ids of Some l \<Rightarrow> scheduleAttackHighlights l (cc_highlights s) | None \<Rightarrow> cc_highlights s)\<rparr>)"

section \<open>Asynchronous handlers\<close>

text \<open>\<open>buildAttackQuery\<close>: the parameters that are set, in their order.\<close>

definition attack_params :: "AttackFilters \<Rightarrow> (string \<times> string) list" where
  "attack_params filters = (
     let num = (\<lambda>k v. if 0 < coalesce v 0 then [(k, int_to_string (coalesce v 0))] else []);
         txt = (\<lambda>k v. if trim v = [] then [] else [(k, trim v)]) in
     (case parsePositiveInteger (Some (af_limit filters)) (Some 12) 200 of
        Some l \<Rightarrow> [(''limit'', int_to_string l)] | None \<Rightarrow> []) @
     num ''offset'' (parseNonNegativeInteger (Some (af_offset filters))) @
     txt ''attacker'' (af_attacker filters) @ txt ''victim'' (af_victim filters) @ txt ''service'' (af_service filters) @
     num ''tick_from'' (parseNonNegativeInteger (Some (af_tickFrom filters))) @
     num ''tick_to'' (parseNonNegativeInteger (Some (af_tickTo filters))))"

definition buildAttackQuery :: "AttackFilters \<Rightarrow> string" where
  "buildAttackQuery filters = (let query = encode_params (attack_params filters) in
     if query = [] then [] else ''?'' @ query)"

text \<open>A handler that waits: for the answer to its own request (\<open>Posted\<close>), or for the refreshed service
  states after it (\<open>Refreshing\<close>). It holds the service it captured when it started.\<close>

datatype cc_action = Unlock | Ssh | FactoryReset | Restart

datatype cc_task =
    Posted cc_action ServiceRow
  | Refreshing cc_action ServiceRow "SSHSessionData option"
  | FetchingAttacks bool

text \<open>The answers, as \<open>processApiResponse\<close> hands them over: an error, or the payload of the request. The
  handler does not compare the service a credential names with the one it asked for, so a step may bring
  any credential; the theorem on stale credentials asks for an answer about the right service.\<close>

datatype cc_answer =
    Failed js_error
  | Unlocked | SshIssued SSHSessionData | ResetDone bool | Restarted
  | ServiceStates "TeamServiceState list"
  | AttackPage AttackFeedPage

definition browser_request :: "string \<Rightarrow> string \<Rightarrow> json option \<Rightarrow> request" where
  "browser_request m url body = \<lparr>rq_method = m, rq_url = url,
     rq_headers = (if body = None then [] else [(''content-type'', ''application/json'')]), rq_body = body\<rparr>"

definition service_url :: "ServiceRow \<Rightarrow> string \<Rightarrow> string" where
  "service_url t rest = ''/api/platform/services/'' @ num_to_string (sv_challengeId t) @ rest"

definition begin_action :: "string \<Rightarrow> control_center \<Rightarrow> control_center" where
  "begin_action name s = s\<lparr>cc_pendingAction := Some name, cc_actionError := None\<rparr>"

definition end_action :: "control_center \<Rightarrow> control_center" where
  "end_action s = s\<lparr>cc_pendingAction := None\<rparr>"

definition fail_action :: "js_error \<Rightarrow> string \<Rightarrow> control_center \<Rightarrow> control_center" where
  "fail_action e fallback s = end_action (s\<lparr>cc_actionError := Some (message_or e fallback)\<rparr>)"

type_synonym started = "control_center \<times> (cc_task \<times> request) option"

definition requestUnlock :: "control_center \<Rightarrow> started" where
  "requestUnlock s = (case cc_unlockTarget s of
     None \<Rightarrow> (s, None)
   | Some t \<Rightarrow> (begin_action (''unlock:'' @ sv_id t) s,
       Some (Posted Unlock t, browser_request ''POST'' (service_url t ''/unlock'') (Some (JObj [(''proof'', JStr (cc_proof s))])))))"

definition requestSSHSession :: "control_center \<Rightarrow> started" where
  "requestSSHSession s = (case cc_sessionTarget s of
     None \<Rightarrow> (s, None)
   | Some t \<Rightarrow> (begin_action (''ssh:'' @ sv_id t) s,
       Some (Posted Ssh t, browser_request ''POST'' (service_url t ''/ssh-session'') None)))"

definition requestFactoryReset :: "control_center \<Rightarrow> started" where
  "requestFactoryReset s = (case cc_resetTarget s of
     None \<Rightarrow> (s, None)
   | Some t \<Rightarrow> (begin_action (''reset:'' @ sv_id t) s,
       Some (Posted FactoryReset t, browser_request ''POST'' (service_url t ''/reset/factory'') None)))"

definition requestRestart :: "ServiceRow \<Rightarrow> control_center \<Rightarrow> started" where
  "requestRestart t s = (begin_action (''restart:'' @ sv_id t) s,
     Some (Posted Restart t, browser_request ''POST'' (service_url t ''/reset/restart'') None))"

definition refreshAttackFeed :: "bool \<Rightarrow> AttackFilters \<Rightarrow> control_center \<Rightarrow> started" where
  "refreshAttackFeed silent filters s =
     (if silent then s else begin_action ''attacks:refresh'' s,
      Some (FetchingAttacks silent, browser_request ''GET'' (''/api/platform/attacks'' @ buildAttackQuery filters) None))"

definition applyAttackFilters :: "control_center \<Rightarrow> started" where
  "applyAttackFilters s = (let next = (cc_attackFilters s)\<lparr>af_offset := ''0''\<rparr> in
     refreshAttackFeed False next (s\<lparr>cc_attackFilters := next\<rparr>))"

definition resetAttackFilters :: "control_center \<Rightarrow> started" where
  "resetAttackFilters s =
     refreshAttackFeed False (cc_initialFilters s) (s\<lparr>cc_attackFilters := cc_initialFilters s\<rparr>)"

definition pageAttackFeed :: "direction \<Rightarrow> control_center \<Rightarrow> started" where
  "pageAttackFeed dir s = (let next = computePageOffset (cc_attackFilters s) dir 12 200 in
     refreshAttackFeed False next (s\<lparr>cc_attackFilters := next\<rparr>))"

text \<open>What each action does to its own row once its request succeeded.\<close>

definition optimistic :: "cc_action \<Rightarrow> cc_answer \<Rightarrow> ServiceRow \<Rightarrow> ServiceRow" where
  "optimistic act ans row = (case (act, ans) of
     (Unlock, _) \<Rightarrow> row\<lparr>sv_unlocked := True,
        sv_status := (if sv_status row = Degraded then Warming else sv_status row),
        sv_sshHint := ''unlock accepted; use SSH Access to view the team credential'',
        sv_lastEvent := ''unlock granted via participant API''\<rparr>
   | (Ssh, SshIssued p) \<Rightarrow> row\<lparr>sv_unlocked := True, sv_sshHint := ssh_connection_hint p,
        sv_lastEvent := ''team ssh credential retrieved''\<rparr>
   | (FactoryReset, ResetDone preserved) \<Rightarrow> row\<lparr>sv_status := Warming, sv_checker := CheckerWarning,
        sv_unlocked := (if preserved then sv_unlocked row else False),
        sv_sshHint := (if preserved then ''unlock preserved; open SSH Access to reapply the team credential'' else sv_sshHint row),
        sv_lastEvent := ''factory reset triggered via participant API'', sv_resetCooldown := ''cooldown: 90s''\<rparr>
   | (Restart, _) \<Rightarrow> row\<lparr>sv_status := Warming, sv_checker := CheckerWarning,
        sv_lastEvent := ''service restart triggered via participant API'', sv_resetCooldown := ''restart requested''\<rparr>
   | _ \<Rightarrow> row)"

definition failure_text :: "cc_action \<Rightarrow> string" where
  "failure_text act = (case act of
     Unlock \<Rightarrow> ''unlock request failed'' | Ssh \<Rightarrow> ''ssh session request failed''
   | FactoryReset \<Rightarrow> ''factory reset request failed'' | Restart \<Rightarrow> ''restart request failed'')"

definition services_request :: request where
  "services_request = browser_request ''GET'' ''/api/platform/team/services'' None"

definition refreshServiceRow :: "js_num \<Rightarrow> TeamServiceState list \<Rightarrow> ServiceRow list \<Rightarrow> ServiceRow list" where
  "refreshServiceRow challengeId states rows =
     (case find (\<lambda>entry. same_num (ts_challenge_id entry) challengeId) states of
        None \<Rightarrow> rows
      | Some nextState \<Rightarrow> update_rows (\<lambda>row. same_num (sv_challengeId row) challengeId)
          (\<lambda>row. mergeServiceState row nextState) rows)"

text \<open>How a handler ends once the states are refreshed.\<close>

definition finish_action :: "cc_action \<Rightarrow> SSHSessionData option \<Rightarrow> control_center \<Rightarrow> control_center" where
  "finish_action act issued s = (case act of
     Unlock \<Rightarrow> s\<lparr>cc_unlockTarget := None\<rparr>
   | Ssh \<Rightarrow> (case issued of
        None \<Rightarrow> s
      | Some p \<Rightarrow> s\<lparr>cc_issuedSession := Some p,
          cc_sessionTarget := map_option (\<lambda>t. t\<lparr>sv_sshHint := ssh_connection_hint p\<rparr>) (cc_sessionTarget s)\<rparr>)
   | FactoryReset \<Rightarrow> s\<lparr>cc_issuedSession := None, cc_resetTarget := None\<rparr>
   | Restart \<Rightarrow> s)"

definition answers :: "cc_action \<Rightarrow> cc_answer \<Rightarrow> bool" where
  "answers act ans = (case (act, ans) of
     (Unlock, Unlocked) \<Rightarrow> True | (Ssh, SshIssued _) \<Rightarrow> True | (FactoryReset, ResetDone _) \<Rightarrow> True
   | (Restart, Restarted) \<Rightarrow> True | _ \<Rightarrow> False)"

text \<open>A task goes on with an answer of its request; an answer that is none of its request is no step.\<close>

definition cc_resume :: "cc_task \<Rightarrow> cc_answer \<Rightarrow> control_center \<Rightarrow> started option" where
  "cc_resume task ans s = (case task of
     Posted act t \<Rightarrow> (case ans of
        Failed e \<Rightarrow> Some (fail_action e (failure_text act) s, None)
      | _ \<Rightarrow> if answers act ans then
          Some (s\<lparr>cc_rows := update_rows (\<lambda>row. sv_id row = sv_id t) (optimistic act ans) (cc_rows s)\<rparr>,
            Some (Refreshing act t (case ans of SshIssued p \<Rightarrow> Some p | _ \<Rightarrow> None), services_request))
          else None)
   | Refreshing act t issued \<Rightarrow> (case ans of
        Failed e \<Rightarrow> Some (fail_action e (failure_text act) s, None)
      | ServiceStates states \<Rightarrow>
          Some (end_action (finish_action act issued
            (s\<lparr>cc_rows := refreshServiceRow (sv_challengeId t) states (cc_rows s)\<rparr>)), None)
      | _ \<Rightarrow> None)
   | FetchingAttacks silent \<Rightarrow> (case ans of
        Failed e \<Rightarrow> Some (if silent then s else fail_action e ''attack feed fetch failed'' s, None)
      | AttackPage page \<Rightarrow> (let s' = s\<lparr>cc_highlights := clearAttackHighlights (cc_highlights s), cc_attackPage := page\<rparr> in
          Some (if silent then s' else end_action s', None))
      | _ \<Rightarrow> None))"

section \<open>The SSH dialog\<close>

text \<open>The two effects of the dialog after a render: opened without a credential and with nothing pending it
  asks for one, once until it is closed. The result is the new \<open>hasTriggered\<close> and whether it confirms,
  which calls \<open>requestSSHSession\<close>.\<close>

definition SSHSessionDialog :: "bool \<Rightarrow> control_center \<Rightarrow> bool \<times> bool" where
  "SSHSessionDialog hasTriggered s = (
     let shown = (cc_sessionTarget s \<noteq> None);
         confirms = (shown \<and> cc_issuedSession s = None \<and> or_undefined (cc_pendingAction s) = None \<and> \<not> hasTriggered) in
     (shown \<and> (hasTriggered \<or> confirms), confirms))"

section \<open>Interleavings\<close>

text \<open>A session of the hook: its state and the tasks in flight. The synchronous events are the clicks and
  edits of the user, the stream messages (which come only with a realtime address), a server render and
  the end of a highlight.\<close>

type_synonym session = "control_center \<times> cc_task list"

definition sync_events :: "control_center \<Rightarrow> control_center \<Rightarrow> bool" where
  "sync_events s s' \<longleftrightarrow> (\<exists>row. s' = selectPrimaryAction row s) \<or> (\<exists>row. s' = selectResetTarget row s) \<or>
     s' = closeUnlockDialog s \<or> s' = closeSSHSessionDialog s \<or> s' = closeFactoryResetDialog s \<or>
     (\<exists>v. s' = setProof v s) \<or> (\<exists>fld v. s' = setAttackFilter fld v s) \<or>
     (\<exists>frame. s' = scoreboard_message frame s) \<or> (\<exists>frame. s' = attacks_message frame s) \<or>
     (\<exists>page scores services. s' = props_changed page scores services s) \<or>
     (\<exists>t \<in> armed (cc_highlights s). s' = s\<lparr>cc_highlights := fire_timer t (cc_highlights s)\<rparr>)"

definition handlers :: "(control_center \<Rightarrow> started) set" where
  "handlers = {requestUnlock, requestSSHSession, requestFactoryReset, applyAttackFilters, resetAttackFilters,
     pageAttackFeed Prev, pageAttackFeed Next} \<union> range requestRestart"

inductive cc_step :: "session \<Rightarrow> session \<Rightarrow> bool" where
  sync: "sync_events s s' \<Longrightarrow> cc_step (s, ts) (s', ts)"
| start: "h \<in> handlers \<Longrightarrow> h s = (s', Some (t, rq)) \<Longrightarrow> cc_step (s, ts) (s', t # ts)"
| continue: "cc_resume t ans s = Some (s', Some (t', rq)) \<Longrightarrow> cc_step (s, us @ t # vs) (s', us @ t' # vs)"
| finish: "cc_resume t ans s = Some (s', None) \<Longrightarrow> cc_step (s, us @ t # vs) (s', us @ vs)"

inductive cc_reachable :: "session \<Rightarrow> bool" where
  mounted: "cc_reachable (useControlCenter page scores services, [])"
| moved: "cc_reachable x \<Longrightarrow> cc_step x y \<Longrightarrow> cc_reachable y"

inductive_cases cc_stepE: "cc_step x y"

text \<open>The steps that are answers: one of the tasks in flight goes on or ends, and nothing else happens.\<close>

inductive cc_answered :: "session \<Rightarrow> session \<Rightarrow> bool" where
  goes_on: "cc_resume t ans s = Some (s', Some (t', rq)) \<Longrightarrow> cc_answered (s, us @ t # vs) (s', us @ t' # vs)"
| ends: "cc_resume t ans s = Some (s', None) \<Longrightarrow> cc_answered (s, us @ t # vs) (s', us @ vs)"

lemma answered_step: "cc_answered x y \<Longrightarrow> cc_step x y"
  by (induction rule: cc_answered.induct) (auto intro: cc_step.intros)

section \<open>The interface never stays locked\<close>

lemmas cc_handler_defs = requestUnlock_def requestSSHSession_def requestFactoryReset_def requestRestart_def
  applyAttackFilters_def resetAttackFilters_def pageAttackFeed_def refreshAttackFeed_def Let_def

lemma sync_keeps_pending: "sync_events s s' \<Longrightarrow> cc_pendingAction s' = cc_pendingAction s"
  unfolding sync_events_def
  by (auto simp: selectPrimaryAction_def selectResetTarget_def closeUnlockDialog_def closeSSHSessionDialog_def
      closeFactoryResetDialog_def setProof_def setAttackFilter_def scoreboard_message_def attacks_message_def
      props_changed_def split: option.splits feed_effect.splits)

lemma started_not_silent: "h \<in> handlers \<Longrightarrow> h s = (s', Some (t, rq)) \<Longrightarrow> t \<noteq> FetchingAttacks True"
  unfolding handlers_def by (auto simp: cc_handler_defs split: option.splits)

lemma resume_finish:
  "cc_resume t ans s = Some (s', None) \<Longrightarrow> t \<noteq> FetchingAttacks True \<Longrightarrow> cc_pendingAction s' = None"
  by (auto simp: cc_resume_def fail_action_def end_action_def Let_def
      split: cc_task.splits cc_answer.splits if_splits)

lemma resume_continue:
  "cc_resume t ans s = Some (s', Some (t', rq)) \<Longrightarrow> t' \<noteq> FetchingAttacks True"
  by (auto simp: cc_resume_def Let_def split: cc_task.splits cc_answer.splits if_splits)

definition unlocked_when_idle :: "session \<Rightarrow> bool" where
  "unlocked_when_idle x = (case x of (s, ts) \<Rightarrow>
     (ts = [] \<longrightarrow> cc_pendingAction s = None) \<and> FetchingAttacks True \<notin> set ts)"

lemma unlocked_when_idle_step:
  assumes "cc_step x y" and "unlocked_when_idle x"
  shows "unlocked_when_idle y"
  using assms
proof (cases rule: cc_step.cases)
  case (sync s s' ts)
  then show ?thesis using assms(2) sync_keeps_pending by (auto simp: unlocked_when_idle_def)
next
  case (start h s s' t rq ts)
  have "t \<noteq> FetchingAttacks True" using start by (intro started_not_silent)
  then show ?thesis using start assms(2) by (auto simp: unlocked_when_idle_def)
next
  case (continue t ans s s' t' rq us vs)
  have "t' \<noteq> FetchingAttacks True" using continue by (intro resume_continue)
  then show ?thesis using continue assms(2) by (auto simp: unlocked_when_idle_def)
next
  case (finish t ans s s' us vs)
  have "t \<noteq> FetchingAttacks True" using finish assms(2) by (auto simp: unlocked_when_idle_def)
  then have "cc_pendingAction s' = None" using finish by (intro resume_finish)
  then show ?thesis using finish assms(2) by (auto simp: unlocked_when_idle_def)
qed

lemma unlocked_when_idle_reachable: "cc_reachable x \<Longrightarrow> unlocked_when_idle x"
proof (induction rule: cc_reachable.induct)
  case (mounted page scores services)
  then show ?case by (simp add: unlocked_when_idle_def useControlCenter_def)
qed (rule unlocked_when_idle_step)

lemma resume_failed: "\<exists>s'. cc_resume t (Failed e) s = Some (s', None)"
  by (simp add: cc_resume_def split: cc_task.splits)

lemma answered_progress: "ts \<noteq> [] \<Longrightarrow> \<exists>y. cc_answered (s, ts) y"
proof -
  assume "ts \<noteq> []"
  then obtain t us where ts: "ts = [] @ t # us" by (cases ts) auto
  obtain s' where "cc_resume t (Failed NonError) s = Some (s', None)" using resume_failed by blast
  then show ?thesis unfolding ts by (blast intro: cc_answered.ends)
qed

text \<open>A task needs at most as many answers as it has requests left.\<close>

fun answers_left :: "cc_task \<Rightarrow> nat" where
  "answers_left (Posted act t) = 2"
| "answers_left (Refreshing act t issued) = 1"
| "answers_left (FetchingAttacks silent) = 1"

lemma resume_answers_left: "cc_resume t ans s = Some (s', Some (t', rq)) \<Longrightarrow> answers_left t = Suc (answers_left t')"
  by (cases t) (auto simp: cc_resume_def Let_def split: cc_answer.splits if_splits)

lemma answers_left_pos: "0 < answers_left t"
  by (cases t) auto

lemma answered_decreases: "cc_answered x y \<Longrightarrow> sum_list (map answers_left (snd y)) < sum_list (map answers_left (snd x))"
  by (induction rule: cc_answered.induct) (auto dest: resume_answers_left simp: answers_left_pos)

lemma answered_bound: "(cc_answered ^^ n) x y \<Longrightarrow> n + sum_list (map answers_left (snd y)) \<le> sum_list (map answers_left (snd x))"
proof (induction n arbitrary: y)
  case (Suc n)
  then obtain z where "(cc_answered ^^ n) x z" "cc_answered z y" by auto
  with Suc.IH [of z] answered_decreases [of z y] show ?case by linarith
qed simp

lemma answers_left_le: "sum_list (map answers_left ts) \<le> 2 * length ts"
proof (induction ts)
  case (Cons t ts)
  then show ?case by (cases t) auto
qed simp

lemma answered_reachable: "(cc_answered ^^ n) x y \<Longrightarrow> cc_reachable x \<Longrightarrow> cc_reachable y"
  by (induction n arbitrary: y) (auto intro: cc_reachable.moved dest: answered_step)

lemma reachable_steps: "cc_step\<^sup>*\<^sup>* x y \<Longrightarrow> cc_reachable x \<Longrightarrow> cc_reachable y"
  by (induction rule: rtranclp_induct) (auto intro: cc_reachable.moved)

text \<open>
  C24. The control center never stays locked: in every state that any interleaving of clicks, stream
  messages, re-renders and answers can reach, nothing is marked as pending once no request is in flight.
  And answers alone always lead there: whatever the answers are and in whatever order they come, at most
  two of them for each task in flight can follow one another with nothing in between, and where no
  further answer can come, no task is left in flight and nothing is pending.
\<close>

theorem control_center_never_locked:
  assumes "cc_reachable (s, ts)"
  shows "(ts = [] \<longrightarrow> cc_pendingAction s = None) \<and>
    (\<forall>n s' ts'. (cc_answered ^^ n) (s, ts) (s', ts') \<longrightarrow> n \<le> 2 * length ts \<and>
       ((\<nexists>y. cc_answered (s', ts') y) \<longrightarrow> ts' = [] \<and> cc_pendingAction s' = None))"
proof (intro conjI allI impI)
  show "cc_pendingAction s = None" if "ts = []"
    using unlocked_when_idle_reachable [OF assms] that by (simp add: unlocked_when_idle_def)
next
  fix n s' ts'
  assume run: "(cc_answered ^^ n) (s, ts) (s', ts')"
  show "n \<le> 2 * length ts" using answered_bound [OF run] answers_left_le [of ts] by simp
  assume "\<nexists>y. cc_answered (s', ts') y"
  then show "ts' = []" using answered_progress by blast
  with unlocked_when_idle_reachable [OF answered_reachable [OF run assms]]
  show "cc_pendingAction s' = None" by (simp add: unlocked_when_idle_def)
qed

definition empty_page :: AttackFeedPage where
  "empty_page = \<lparr>items = [], pg_limit = 12, pg_offset = 0, total_count = 0, has_prev = False, has_next = False\<rparr>"

definition sample_service :: "string \<Rightarrow> int \<Rightarrow> ServiceRow" where
  "sample_service i c = \<lparr>sv_id = i, sv_challengeId = Finite (of_int c), sv_teamId = Finite 1, sv_name = i, sv_endpoint = ''h:1'',
     sv_port = Finite 1, sv_status = Stable, sv_checker = Passing, sv_hasSourceDownload = False, sv_unlocked = True,
     sv_sshHint = [], sv_lastEvent = [], sv_resetCooldown = [], sv_maintenance = False, sv_lockReason = None,
     sv_slaStatus = ''ok'', sv_slaPhase = [], sv_slaTickId = None, sv_slaMessage = []\<rparr>"

definition sample_center :: control_center where
  "sample_center = useControlCenter empty_page [] [sample_service ''svc-1'' 1, sample_service ''svc-2'' 2]"

theorem control_center_never_locked_witness:
  "\<exists>s'. (cc_answered ^^ 1) (fst (requestRestart (sample_service ''svc-1'' 1) sample_center),
       [Posted Restart (sample_service ''svc-1'' 1)]) (s', []) \<and> cc_pendingAction s' = None"
proof -
  let ?r = "sample_service ''svc-1'' 1"
  let ?s = "fst (requestRestart ?r sample_center)"
  have "cc_reachable (sample_center, [])" unfolding sample_center_def by (rule cc_reachable.mounted)
  moreover have "cc_step (sample_center, []) (?s, [Posted Restart ?r])"
    by (rule cc_step.start [of "requestRestart ?r"]) (simp_all add: handlers_def requestRestart_def)
  ultimately have r: "cc_reachable (?s, [Posted Restart ?r])" by (rule cc_reachable.moved)
  obtain s' where "cc_resume (Posted Restart ?r) (Failed NonError) ?s = Some (s', None)" using resume_failed by blast
  then have a: "(cc_answered ^^ 1) (?s, [Posted Restart ?r]) (s', [])"
    using cc_answered.ends [where us = "[]" and vs = "[]"] by fastforce
  have "\<nexists>y. cc_answered (s', []) y" by (auto elim: cc_answered.cases)
  with control_center_never_locked [OF r] a show ?thesis by blast
qed

section \<open>The server has the last word\<close>

lemma update_rows_nth: "i < length rows \<Longrightarrow> update_rows p f rows ! i = (if p (rows ! i) then f (rows ! i) else rows ! i)"
  by (simp add: update_rows_def)

lemma update_rows_length [simp]: "length (update_rows p f rows) = length rows"
  by (simp add: update_rows_def)

lemma optimistic_keeps [simp]:
  "sv_id (optimistic act ans row) = sv_id row" "sv_challengeId (optimistic act ans row) = sv_challengeId row"
  by (auto simp: optimistic_def split: cc_action.splits cc_answer.splits)

lemma mergeServiceState_fields [simp]:
  "sv_id (mergeServiceState row st) = sv_id row"
  "sv_status (mergeServiceState row st) = ts_status st" "sv_checker (mergeServiceState row st) = ts_checker st"
  "sv_unlocked (mergeServiceState row st) = ts_unlocked st" "sv_endpoint (mergeServiceState row st) = ts_endpoint st"
  "sv_challengeId (mergeServiceState row st) = sv_challengeId row"
  by (simp_all add: mergeServiceState_def)

lemma finish_keeps_rows: "cc_rows (end_action (finish_action act issued s)) = cc_rows s"
  by (auto simp: end_action_def finish_action_def split: cc_action.splits option.splits)

text \<open>
  After an unlock, SSH, reset or restart request went through and the refreshed states arrived,
  every row of that challenge shows the status, checker state, unlock state and endpoint the server
  reported, whatever the optimistic update had put there; every row of another challenge is exactly as
  before, no row is added or lost, and the action is no longer pending.
\<close>

lemma service_action_server_wins:
  assumes "cc_resume (Posted act t) ans s = Some (s1, Some (t1, rq1))"
    and "cc_resume t1 (ServiceStates states) s1 = Some (s2, None)"
    and "find (\<lambda>entry. same_num (ts_challenge_id entry) (sv_challengeId t)) states = Some st"
    and "\<forall>row \<in> set (cc_rows s). sv_id row = sv_id t \<longrightarrow> same_num (sv_challengeId row) (sv_challengeId t)"
    and "i < length (cc_rows s)"
  shows "length (cc_rows s2) = length (cc_rows s) \<and> cc_pendingAction s2 = None \<and>
    (if same_num (sv_challengeId (cc_rows s ! i)) (sv_challengeId t)
     then sv_status (cc_rows s2 ! i) = ts_status st \<and> sv_checker (cc_rows s2 ! i) = ts_checker st \<and>
       sv_unlocked (cc_rows s2 ! i) = ts_unlocked st \<and> sv_endpoint (cc_rows s2 ! i) = ts_endpoint st
     else cc_rows s2 ! i = cc_rows s ! i)"
proof -
  obtain issued where t1: "t1 = Refreshing act t issued"
    and s1: "s1 = s\<lparr>cc_rows := update_rows (\<lambda>row. sv_id row = sv_id t) (optimistic act ans) (cc_rows s)\<rparr>"
    using assms(1) by (auto simp: cc_resume_def split: cc_answer.splits if_splits)
  have s2: "s2 = end_action (finish_action act issued
      (s1\<lparr>cc_rows := refreshServiceRow (sv_challengeId t) states (cc_rows s1)\<rparr>))"
    using assms(2) by (simp add: t1 cc_resume_def)
  have rows: "cc_rows s2 = update_rows (\<lambda>row. same_num (sv_challengeId row) (sv_challengeId t))
      (\<lambda>row. mergeServiceState row st) (update_rows (\<lambda>row. sv_id row = sv_id t) (optimistic act ans) (cc_rows s))"
    using assms(3) by (simp add: s2 finish_keeps_rows refreshServiceRow_def s1)
  have "sv_id (cc_rows s ! i) = sv_id t \<longrightarrow> same_num (sv_challengeId (cc_rows s ! i)) (sv_challengeId t)"
    using assms(4,5) nth_mem by blast
  moreover have "cc_pendingAction s2 = None" by (simp add: s2 end_action_def)
  ultimately show ?thesis
    using assms(5) by (auto simp: rows update_rows_nth)
qed

definition sample_state :: "int \<Rightarrow> TeamServiceState" where
  "sample_state c = \<lparr>ts_challenge_id = Finite (of_int c), ts_team_id = Finite 1, ts_name = None, ts_endpoint = ''h:9'',
     ts_status = Degraded, ts_checker = CheckerWarning, ts_unlocked = False, ts_ssh_hint = [], ts_last_event = [],
     ts_reset_cooldown = [], ts_maintenance = None, ts_lock_reason = None, ts_sla_status = None, ts_sla_phase = None,
     ts_sla_tick_id = None, ts_sla_message = None\<rparr>"

lemma service_action_server_wins_witness:
  "\<exists>s1 s2 t1 rq1. cc_resume (Posted Restart (sample_service ''svc-1'' 1)) Restarted sample_center = Some (s1, Some (t1, rq1)) \<and>
     cc_resume t1 (ServiceStates [sample_state 1]) s1 = Some (s2, None) \<and> sv_status (cc_rows s2 ! 0) = Degraded \<and>
     cc_rows s2 ! 1 = cc_rows sample_center ! 1"
proof -
  let ?t = "sample_service ''svc-1'' 1"
  let ?t1 = "Refreshing Restart ?t None"
  let ?s1 = "sample_center\<lparr>cc_rows := update_rows (\<lambda>row. sv_id row = sv_id ?t) (optimistic Restart Restarted) (cc_rows sample_center)\<rparr>"
  let ?s2 = "end_action (finish_action Restart None (?s1\<lparr>cc_rows := refreshServiceRow (sv_challengeId ?t) [sample_state 1] (cc_rows ?s1)\<rparr>))"
  have a: "cc_resume (Posted Restart ?t) Restarted sample_center = Some (?s1, Some (?t1, services_request))"
    by (simp add: cc_resume_def answers_def)
  have b: "cc_resume ?t1 (ServiceStates [sample_state 1]) ?s1 = Some (?s2, None)"
    by (simp add: cc_resume_def)
  have f: "find (\<lambda>entry. same_num (ts_challenge_id entry) (sv_challengeId ?t)) [sample_state 1] = Some (sample_state 1)"
    by (simp add: same_num_def sample_state_def sample_service_def)
  have r: "\<forall>row \<in> set (cc_rows sample_center). sv_id row = sv_id ?t \<longrightarrow> same_num (sv_challengeId row) (sv_challengeId ?t)"
    by (simp add: sample_center_def useControlCenter_def sample_service_def same_num_def)
  have l: "length (cc_rows sample_center) = 2" by (simp add: sample_center_def useControlCenter_def)
  have n: "same_num (sv_challengeId (cc_rows sample_center ! 0)) (sv_challengeId ?t)"
    "\<not> same_num (sv_challengeId (cc_rows sample_center ! 1)) (sv_challengeId ?t)"
    by (simp_all add: sample_center_def useControlCenter_def sample_service_def same_num_def)
  have "sv_status (cc_rows ?s2 ! 0) = Degraded"
    using service_action_server_wins [OF a b f r, of 0] l n(1) by (simp add: sample_state_def)
  moreover have "cc_rows ?s2 ! 1 = cc_rows sample_center ! 1"
    using service_action_server_wins [OF a b f r, of 1] l n(2) by simp
  ultimately show ?thesis using a b by blast
qed

section \<open>Closing a dialog while its request is in flight\<close>

lemma steps_reachable: "cc_reachable x \<Longrightarrow> cc_step x y \<Longrightarrow> cc_reachable y"
  by (rule cc_reachable.moved)

definition root_credential :: "int \<Rightarrow> SSHSessionData" where
  "root_credential c = \<lparr>ssh_challenge_id = Finite (of_int c), ssh_host = ''h'', ssh_port = Finite 22, ssh_username = ''root'',
     ssh_password = ''pw'', ssh_password_mode = None, ssh_connection_hint = ''ssh root@h''\<rparr>"

text \<open>
  C30. A credential can be shown under the wrong service. From any idle state, let the SSH dialog of an
  unlocked service be opened and its request be sent, to the address of that service; let the dialog be
  closed while the request is in flight, and let the server answer with the credential of that very
  service and then with the service states. When the dialog of another unlocked service is opened
  afterwards, the hook is idle with the second service as its target and the credential of the first one
  issued, and the dialog asks for no credential of its own: it shows the first one's.
\<close>

theorem stale_credential_reachable:
  assumes "cc_reachable (s, [])" and "sv_unlocked a" and "sv_unlocked b"
    and "same_num (ssh_challenge_id p) (sv_challengeId a)" and "\<not> same_num (ssh_challenge_id p) (sv_challengeId b)"
    and "requestSSHSession (selectPrimaryAction a s) = (s1, Some (t, rq))"
    and "cc_resume t (SshIssued p) (closeSSHSessionDialog s1) = Some (s2, Some (t', rq'))"
    and "cc_resume t' (ServiceStates states) s2 = Some (s3, None)"
    and "s4 = selectPrimaryAction b s3"
  shows "rq_url rq = service_url a ''/ssh-session'' \<and> cc_reachable (s4, []) \<and> cc_pendingAction s4 = None \<and>
    cc_sessionTarget s4 = Some b \<and> cc_issuedSession s4 = Some p \<and> \<not> snd (SSHSessionDialog hasTriggered s4)"
proof -
  have t: "t = Posted Ssh a" and s1: "s1 = begin_action (''ssh:'' @ sv_id a) (selectPrimaryAction a s)"
    and rq: "rq_url rq = service_url a ''/ssh-session''"
    using assms(2,6) by (auto simp: requestSSHSession_def selectPrimaryAction_def browser_request_def)
  have t': "t' = Refreshing Ssh a (Some p)"
    using assms(7) by (auto simp: t cc_resume_def split: if_splits)
  have s3: "s3 = end_action (finish_action Ssh (Some p) (s2\<lparr>cc_rows := refreshServiceRow (sv_challengeId a) states (cc_rows s2)\<rparr>))"
    using assms(8) by (simp add: t' cc_resume_def)
  have "cc_step (s, []) (selectPrimaryAction a s, [])" by (rule cc_step.sync) (auto simp: sync_events_def)
  moreover have "cc_step (selectPrimaryAction a s, []) (s1, [t])"
    using assms(6) by (intro cc_step.start [of requestSSHSession]) (simp_all add: handlers_def)
  moreover have "cc_step (s1, [t]) (closeSSHSessionDialog s1, [t])" by (rule cc_step.sync) (auto simp: sync_events_def)
  moreover have "cc_step (closeSSHSessionDialog s1, [t]) (s2, [t'])"
    using cc_step.continue [OF assms(7), of "[]" "[]"] by simp
  moreover have "cc_step (s2, [t']) (s3, [])" using cc_step.finish [OF assms(8), of "[]" "[]"] by simp
  moreover have "cc_step (s3, []) (s4, [])" unfolding assms(9) by (rule cc_step.sync) (auto simp: sync_events_def)
  ultimately have "cc_reachable (s4, [])" using assms(1) by (meson cc_reachable.moved)
  moreover have "cc_sessionTarget s4 = Some b" "cc_issuedSession s4 = Some p" "cc_pendingAction s4 = None"
    using assms(3) by (simp_all add: assms(9) s3 end_action_def finish_action_def selectPrimaryAction_def)
  ultimately show ?thesis using rq by (simp add: SSHSessionDialog_def Let_def)
qed

theorem stale_credential_reachable_witness:
  "\<exists>s. cc_reachable (s, []) \<and> map_option sv_challengeId (cc_sessionTarget s) = Some (Finite 2) \<and>
     map_option ssh_challenge_id (cc_issuedSession s) = Some (Finite 1) \<and> \<not> snd (SSHSessionDialog False s)"
proof -
  let ?a = "sample_service ''svc-1'' 1" and ?b = "sample_service ''svc-2'' 2" and ?p = "root_credential 1"
  obtain s1 t rq where s1: "requestSSHSession (selectPrimaryAction ?a sample_center) = (s1, Some (t, rq))" "t = Posted Ssh ?a"
    by (auto simp: requestSSHSession_def selectPrimaryAction_def sample_service_def)
  obtain s2 t' rq' where s2: "cc_resume t (SshIssued ?p) (closeSSHSessionDialog s1) = Some (s2, Some (t', rq'))"
    "t' = Refreshing Ssh ?a (Some ?p)" by (auto simp: s1(2) cc_resume_def answers_def)
  obtain s3 where s3: "cc_resume t' (ServiceStates []) s2 = Some (s3, None)" by (auto simp: s2(2) cc_resume_def)
  have "cc_reachable (sample_center, [])" unfolding sample_center_def by (rule cc_reachable.mounted)
  from stale_credential_reachable [OF this _ _ _ _ s1(1) s2(1) s3 refl, of ?b False]
  show ?thesis
    by (intro exI [of _ "selectPrimaryAction ?b s3"]) (simp add: sample_service_def root_credential_def same_num_def)
qed

end
