(* ===== verification/Dashboard_Data.thy ===== *)
theory Dashboard_Data
  imports Control_Center
begin

text \<open>
  The server-side loader of the participant's dashboard (\<open>lib/dashboard-data.ts\<close>, with
  \<open>lib/promise-utils.ts\<close>): seven calls that settle independently, the service rows, the overview and
  the message. The type assertions on the answers (\<open>publicFetch<Challenge[]>\<close> and the like) are the
  fields of the record \<open>answer_types\<close>: a client reads a JSON answer as a value of the declared type.
\<close>

section \<open>Data\<close>

record Challenge =
  ch_id :: js_num
  ch_name :: string
  ch_has_source_download :: bool
  ch_maintenance :: "bool option"

record GameMatchStatus =
  gm_state :: string
  gm_started_at :: "string option"
  gm_ended_at :: "string option"
  gm_scheduled_start_at :: "string option"
  gm_scheduled_end_at :: "string option"
  gm_schedule_configured :: "bool option"
  gm_accepting_submissions :: bool

record GameSchedulerStatus =
  gs_state :: string
  gs_interval_seconds :: js_num
  gs_last_run_at :: "string option"
  gs_next_run_at :: "string option"
  gs_last_tick_id :: "js_num option"
  gs_last_error :: "string option"

record GameTickStatus =
  gt_id :: js_num
  gt_status :: string

record GameStatus =
  g_match :: "GameMatchStatus option"
  g_current_tick :: "GameTickStatus option"
  g_scheduler :: "GameSchedulerStatus option"
  g_total_ticks :: js_num

record PublicScoreboardFreeze =
  fz_frozen :: bool
  fz_configured :: bool
  fz_freeze_at :: "string option"
  fz_unfreeze_at :: "string option"
  fz_snapshot_taken_at :: "string option"

text \<open>Challenge identifiers to team identifiers to endpoints, in the order \<open>Object.entries\<close> lists them.\<close>

type_synonym ServicesResponseData = "(string \<times> (string \<times> string list) list) list"

record answer_types =
  as_challenges :: "json option \<Rightarrow> Challenge list"
  as_services :: "json option \<Rightarrow> ServicesResponseData"
  as_states :: "json option \<Rightarrow> TeamServiceState list"
  as_game_status :: "json option \<Rightarrow> GameStatus"
  as_scores :: "json option \<Rightarrow> AdminGameScoreRow list"
  as_attack_page :: "json option \<Rightarrow> AttackFeedPage"
  as_freeze :: "json option \<Rightarrow> PublicScoreboardFreeze"

datatype data_source = Live | DegradedSource

record DashboardResultSet =
  challengesResult :: "Challenge list settled"
  serviceMapResult :: "ServicesResponseData settled"
  serviceStatesResult :: "TeamServiceState list settled"
  gameStatusResult :: "GameStatus settled"
  scoresResult :: "AdminGameScoreRow list settled"
  attackPageResult :: "AttackFeedPage settled"
  freezeResult :: "PublicScoreboardFreeze settled"

record DashboardLiveData =
  dl_challenges :: "Challenge list"
  dl_serviceMap :: ServicesResponseData
  dl_serviceStates :: "TeamServiceState list"
  dl_gameStatus :: "GameStatus option"
  dl_scores :: "AdminGameScoreRow list"
  dl_attackPage :: AttackFeedPage
  dl_freeze :: PublicScoreboardFreeze

record PlatformOverview =
  po_source :: data_source
  po_message :: "string option"
  po_authenticated :: bool
  po_teamID :: "rat option"
  po_playerID :: "rat option"
  po_teamName :: "string option"
  po_teamContactEmail :: "string option"
  po_displayName :: "string option"
  po_email :: "string option"
  po_role :: "string option"
  po_challengeCount :: nat
  po_ownServiceCount :: nat
  po_enemyTargetCount :: nat
  po_matchState :: "string option"
  po_schedulerState :: "string option"
  po_currentTick :: "js_num option"
  po_acceptingSubmissions :: "bool option"
  po_nextTickAt :: "string option"
  po_tickInterval :: "js_num option"
  po_lastTickAt :: "string option"
  po_apiBaseUrl :: string
  po_realtimeBaseUrl :: string
  po_scoreboardFrozen :: bool
  po_scoreboardFreezeAt :: "string option"
  po_scoreboardUnfreezeAt :: "string option"

record DashboardData =
  dd_scores :: "AdminGameScoreRow list"
  dd_attackPage :: AttackFeedPage
  dd_services :: "ServiceRow list"
  dd_platform :: PlatformOverview

section \<open>Settled promises\<close>

definition isFulfilled :: "'a settled \<Rightarrow> bool" where
  "isFulfilled r = (case r of Fulfilled _ \<Rightarrow> True | Rejected _ \<Rightarrow> False)"

definition fulfilledValue :: "'a settled \<Rightarrow> 'a \<Rightarrow> 'a" where
  "fulfilledValue r fallback = (if isFulfilled r then settled_value r else fallback)"

text \<open>A call whose answer is read as a declared type, settled.\<close>

definition settle_as :: "(json option \<Rightarrow> 'a) \<Rightarrow> ('w, json option) js \<Rightarrow> ('w, 'a settled) js" where
  "settle_as cast m = js_settle (js_bind m (\<lambda>v. js_return (cast v)))"

section \<open>lib/dashboard-data.ts\<close>

definition emptyAttackPage :: "int \<Rightarrow> AttackFeedPage" where
  "emptyAttackPage l = \<lparr>items = [], pg_limit = l, pg_offset = 0, total_count = 0, has_prev = False, has_next = False\<rparr>"

definition limit_query :: "int \<Rightarrow> AttackFeedQuery" where
  "limit_query l = \<lparr>aq_limit = Some l, aq_offset = None, aq_attacker = None, aq_victim = None, aq_service = None,
     aq_tick_from = None, aq_tick_to = None\<rparr>"

definition query_limit :: "AttackFeedQuery option \<Rightarrow> int" where
  "query_limit q = coalesce (Option.bind q aq_limit) 12"

definition fetchDashboardResults ::
  "'w host \<Rightarrow> answer_types \<Rightarrow> bool \<Rightarrow> AttackFeedQuery option \<Rightarrow> ('w, DashboardResultSet) js" where
  "fetchDashboardResults h c authenticated attackQuery =
     js_bind (settle_as (as_challenges c) (listChallenges h)) (\<lambda>challenges.
     js_bind (if authenticated then settle_as (as_services c) (listServices h) else js_return (Fulfilled [])) (\<lambda>services.
     js_bind (if authenticated then settle_as (as_states c) (listTeamServices h) else js_return (Fulfilled [])) (\<lambda>states.
     js_bind (settle_as (as_game_status c) (getGameStatus h)) (\<lambda>status.
     js_bind (settle_as (as_scores c) (listScoreboard h)) (\<lambda>scores.
     js_bind (settle_as (as_attack_page c) (listAttackFeed h (coalesce attackQuery (limit_query 12)))) (\<lambda>attacks.
     js_bind (settle_as (as_freeze c) (getScoreboardFreezeStatus h)) (\<lambda>freeze.
     js_return \<lparr>challengesResult = challenges, serviceMapResult = services, serviceStatesResult = states,
       gameStatusResult = status, scoresResult = scores, attackPageResult = attacks, freezeResult = freeze\<rparr>)))))))"

definition readDashboardResults :: "DashboardResultSet \<Rightarrow> AttackFeedQuery option \<Rightarrow> DashboardLiveData" where
  "readDashboardResults results attackQuery =
     \<lparr>dl_challenges = fulfilledValue (challengesResult results) [],
      dl_serviceMap = fulfilledValue (serviceMapResult results) [],
      dl_serviceStates = fulfilledValue (serviceStatesResult results) [],
      dl_gameStatus = fulfilledValue (map_settled Some (gameStatusResult results)) None,
      dl_scores = fulfilledValue (scoresResult results) [],
      dl_attackPage = fulfilledValue (attackPageResult results) (emptyAttackPage (query_limit attackQuery)),
      dl_freeze = fulfilledValue (freezeResult results)
        \<lparr>fz_frozen = False, fz_configured = False, fz_freeze_at = None, fz_unfreeze_at = None, fz_snapshot_taken_at = None\<rparr>\<rparr>"

text \<open>A \<open>Map\<close> built from pairs: the last pair of a key counts.\<close>

definition challenge_map :: "Challenge list \<Rightarrow> string \<Rightarrow> Challenge option" where
  "challenge_map challenges = map_of (rev (map (\<lambda>c. (num_to_string (ch_id c), c)) challenges))"

definition serviceStateToRow :: "TeamServiceState \<Rightarrow> (string \<Rightarrow> Challenge option) \<Rightarrow> ServiceRow" where
  "serviceStateToRow state challengeByID = (
     let cid = num_to_string (ts_challenge_id state); challenge = challengeByID cid in
     \<lparr>sv_id = ''svc-'' @ cid,
      sv_challengeId = ts_challenge_id state,
      sv_teamId = ts_team_id state,
      sv_name = coalesce (ts_name state) (coalesce (map_option ch_name challenge) (''challenge-'' @ cid)),
      sv_endpoint = ts_endpoint state,
      sv_port = endpoint_port (ts_endpoint state),
      sv_status = ts_status state,
      sv_checker = ts_checker state,
      sv_hasSourceDownload = coalesce (map_option ch_has_source_download challenge) False,
      sv_unlocked = ts_unlocked state,
      sv_sshHint = ts_ssh_hint state,
      sv_lastEvent = ts_last_event state,
      sv_resetCooldown = ts_reset_cooldown state,
      sv_maintenance = coalesce (ts_maintenance state) (coalesce (Option.bind challenge ch_maintenance) False),
      sv_lockReason = (case ts_lock_reason state of Some r \<Rightarrow> Some r
        | None \<Rightarrow> if coalesce (Option.bind challenge ch_maintenance) False then Some ''maintenance'' else None),
      sv_slaStatus = coalesce (ts_sla_status state) ''unknown'',
      sv_slaPhase = coalesce (ts_sla_phase state) [],
      sv_slaTickId = ts_sla_tick_id state,
      sv_slaMessage = coalesce (ts_sla_message state) ''awaiting first checker run''\<rparr>)"

definition fallback_row :: "string \<Rightarrow> string \<Rightarrow> Challenge option \<Rightarrow> nat \<Rightarrow> string \<Rightarrow> ServiceRow" where
  "fallback_row challengeID ownID challenge index endpoint =
     \<lparr>sv_id = ''svc-'' @ challengeID @ ''-'' @ int_to_string (int index + 1),
      sv_challengeId = js_Number challengeID,
      sv_teamId = js_Number ownID,
      sv_name = coalesce (map_option ch_name challenge) (''challenge-'' @ challengeID),
      sv_endpoint = endpoint,
      sv_port = endpoint_port endpoint,
      sv_status = Warming,
      sv_checker = CheckerWarning,
      sv_hasSourceDownload = coalesce (map_option ch_has_source_download challenge) False,
      sv_unlocked = False,
      sv_sshHint = ''service state endpoint unavailable'',
      sv_lastEvent = ''service state endpoint unavailable'',
      sv_resetCooldown = ''unknown'',
      sv_maintenance = coalesce (Option.bind challenge ch_maintenance) False,
      sv_lockReason = (if coalesce (Option.bind challenge ch_maintenance) False then Some ''maintenance'' else None),
      sv_slaStatus = ''unknown'',
      sv_slaPhase = [],
      sv_slaTickId = None,
      sv_slaMessage = ''service state endpoint unavailable''\<rparr>"

definition fallbackServiceRows ::
  "string \<Rightarrow> string list \<Rightarrow> string \<Rightarrow> (string \<Rightarrow> Challenge option) \<Rightarrow> ServiceRow list" where
  "fallbackServiceRows challengeID endpoints ownID challengeByID =
     map (\<lambda>(index, endpoint). fallback_row challengeID ownID (challengeByID challengeID) index endpoint)
       (zip [0..<length endpoints] endpoints)"

definition buildServiceRows :: "DashboardLiveData \<Rightarrow> string \<Rightarrow> ServiceRow list" where
  "buildServiceRows data ownID = (
     let challengeByID = challenge_map (dl_challenges data) in
     if dl_serviceStates data \<noteq> [] then map (\<lambda>state. serviceStateToRow state challengeByID) (dl_serviceStates data)
     else filter (\<lambda>service. sv_endpoint service \<noteq> [])
       (concat (map (\<lambda>(challengeID, teams).
          fallbackServiceRows challengeID (coalesce (map_of teams ownID) []) ownID challengeByID) (dl_serviceMap data))))"

definition dashboardSource :: "DashboardResultSet \<Rightarrow> data_source" where
  "dashboardSource results =
     (if isFulfilled (challengesResult results) \<and> isFulfilled (serviceMapResult results) \<and>
         isFulfilled (serviceStatesResult results) \<and> isFulfilled (gameStatusResult results) \<and>
         isFulfilled (scoresResult results) \<and> isFulfilled (attackPageResult results) \<and>
         isFulfilled (freezeResult results)
      then Live else DegradedSource)"

definition deactivated_text :: string where
  "deactivated_text = ''Your account or team has been deactivated by the organizers. You are signed out and removed from play. Contact the organizers if you believe this is a mistake.''"

definition login_text :: string where
  "login_text = ''Participant login is required for owned services, unlock, SSH, and reset actions.''"

definition join_text :: string where
  "join_text = ''Join a team before accessing owned services, unlock, SSH, reset actions, or VPN config.''"

definition degraded_text :: string where
  "degraded_text = ''Participant data is partially unavailable. Only live responses that succeeded are shown. No sample data is injected.''"

definition dashboardMessage :: "ParticipantSession \<Rightarrow> data_source \<Rightarrow> string option" where
  "dashboardMessage session source = (
     let parts =
       (if ps_reason session = Some ''deactivated'' then [deactivated_text]
        else if \<not> ps_authenticated session then [login_text]
        else if coalesce (ps_teamID session) 0 \<le> 0 \<and> ps_role session \<noteq> Some ''organizer'' then [join_text]
        else []) @
       (if source = DegradedSource then [degraded_text] else []) in
     if parts = [] then None else Some (join_with '' '' parts))"

definition countEnemyTargets :: "ServicesResponseData \<Rightarrow> string \<Rightarrow> nat" where
  "countEnemyTargets serviceMap ownID =
     (if ownID = [] then 0
      else foldl (\<lambda>total (_, teams). total +
        foldl (\<lambda>count (_, endpoints). count + length endpoints) 0 (filter (\<lambda>(teamID, _). teamID \<noteq> ownID) teams))
        0 serviceMap)"

definition buildPlatformOverview ::
  "'w host \<Rightarrow> ParticipantSession \<Rightarrow> DashboardLiveData \<Rightarrow> ServiceRow list \<Rightarrow> string \<Rightarrow> data_source \<Rightarrow> PlatformOverview" where
  "buildPlatformOverview h session data services ownID source = (
     let match = Option.bind (dl_gameStatus data) g_match;
         scheduler = Option.bind (dl_gameStatus data) g_scheduler in
     \<lparr>po_source = source, po_message = dashboardMessage session source,
      po_authenticated = ps_authenticated session, po_teamID = ps_teamID session, po_playerID = ps_playerID session,
      po_teamName = ps_teamName session, po_teamContactEmail = ps_teamContactEmail session,
      po_displayName = ps_displayName session, po_email = ps_email session, po_role = ps_role session,
      po_challengeCount = length (dl_challenges data), po_ownServiceCount = length services,
      po_enemyTargetCount = countEnemyTargets (dl_serviceMap data) ownID,
      po_matchState = map_option gm_state match, po_schedulerState = map_option gs_state scheduler,
      po_currentTick = map_option gt_id (Option.bind (dl_gameStatus data) g_current_tick),
      po_acceptingSubmissions = map_option gm_accepting_submissions match,
      po_nextTickAt = Option.bind scheduler gs_next_run_at,
      po_tickInterval = map_option gs_interval_seconds scheduler,
      po_lastTickAt = Option.bind scheduler gs_last_run_at,
      po_apiBaseUrl = participantApiBaseUrl h, po_realtimeBaseUrl = participantRealtimeBaseUrl,
      po_scoreboardFrozen = fz_frozen (dl_freeze data), po_scoreboardFreezeAt = fz_freeze_at (dl_freeze data),
      po_scoreboardUnfreezeAt = fz_unfreeze_at (dl_freeze data)\<rparr>)"

definition own_id :: "ParticipantSession \<Rightarrow> string" where
  "own_id session = (case ps_teamID session of
     None \<Rightarrow> [] | Some q \<Rightarrow> if q = 0 then [] else num_to_string (Finite q))"

definition has_team :: "ParticipantSession \<Rightarrow> bool" where
  "has_team session \<longleftrightarrow> ps_authenticated session \<and> 0 < coalesce (ps_teamID session) 0"

definition dashboard_of ::
  "'w host \<Rightarrow> AttackFeedQuery option \<Rightarrow> ParticipantSession \<Rightarrow> DashboardResultSet \<Rightarrow> DashboardData" where
  "dashboard_of h attackQuery session results = (
     let ownID = own_id session; data = readDashboardResults results attackQuery;
         services = buildServiceRows data ownID in
     \<lparr>dd_scores = dl_scores data, dd_attackPage = dl_attackPage data, dd_services = services,
      dd_platform = buildPlatformOverview h session data services ownID (dashboardSource results)\<rparr>)"

definition loadDashboardData :: "'w host \<Rightarrow> answer_types \<Rightarrow> AttackFeedQuery option \<Rightarrow> ('w, DashboardData) js" where
  "loadDashboardData h c attackQuery = js_bind (getParticipantSession h) (\<lambda>session.
     js_bind (fetchDashboardResults h c (has_team session) attackQuery) (\<lambda>results.
     js_return (dashboard_of h attackQuery session results)))"

section \<open>Outages\<close>

lemma settle_as_run: "settle_as cast m w = (Inr (case fst (m w) of Inl e \<Rightarrow> Rejected e | Inr v \<Rightarrow> Fulfilled (cast v)), snd (m w))"
  by (simp add: settle_as_def js_settle_def js_defs split: prod.splits sum.splits)

lemma settle_as_total: "\<exists>r. settle_as cast m w = (Inr r, snd (m w))"
  by (simp add: settle_as_run)

lemma bind_settled:
  assumes "\<And>w. \<exists>r w'. m w = (Inr r, w')" and "\<And>r w. \<exists>v w'. f r w = (Inr v, w')"
  shows "\<exists>v w'. js_bind m f w = (Inr v, w')"
proof -
  obtain r w' where "m w = (Inr r, w')" using assms(1) by blast
  with assms(2) show ?thesis by (simp add: js_bind_def)
qed

lemma fetchDashboardResults_total: "\<exists>r w'. fetchDashboardResults h c a q w = (Inr r, w')"
  unfolding fetchDashboardResults_def
  by (intro bind_settled) (auto simp: settle_as_run js_return_def)

lemma fulfilledValue_simps [simp]:
  "fulfilledValue (Fulfilled v) d = v" "fulfilledValue (Rejected e) d = d"
  "isFulfilled (Fulfilled v)" "\<not> isFulfilled (Rejected e)"
  by (simp_all add: fulfilledValue_def isFulfilled_def)

lemma loadDashboardData_run:
  assumes "getParticipantSession h w = (Inr session, w1)"
    and "fetchDashboardResults h c (has_team session) q w1 = (Inr results, w2)"
  shows "loadDashboardData h c q w = (Inr (dashboard_of h q session results), w2)"
  using assms by (simp add: loadDashboardData_def js_bind_def js_return_def)







section \<open>Where the session token goes\<close>

text \<open>A computation all of whose requests satisfy a predicate.\<close>

definition only_sends :: "(request \<Rightarrow> bool) \<Rightarrow> ('w, 'a) js \<Rightarrow> bool" where
  "only_sends P m \<longleftrightarrow> (\<forall>w. \<exists>rqs. sent (snd (m w)) = sent w @ rqs \<and> (\<forall>rq \<in> set rqs. P rq))"

lemma only_sendsI: "(\<And>w. \<exists>rqs. sent (snd (m w)) = sent w @ rqs \<and> (\<forall>rq \<in> set rqs. P rq)) \<Longrightarrow> only_sends P m"
  by (simp add: only_sends_def)

lemma only_sends_return [simp, intro]: "only_sends P (js_return v)"
  by (simp add: only_sends_def js_return_def)

lemma only_sends_bind [intro]:
  assumes "only_sends P m" and "\<And>v. only_sends P (f v)"
  shows "only_sends P (js_bind m f)"
proof (rule only_sendsI)
  fix w
  obtain r w1 where m: "m w = (r, w1)" by (cases "m w")
  obtain rqs where rqs: "sent w1 = sent w @ rqs" "\<forall>rq \<in> set rqs. P rq"
    using assms(1) m unfolding only_sends_def by (metis snd_conv)
  show "\<exists>rqs. sent (snd (js_bind m f w)) = sent w @ rqs \<and> (\<forall>rq \<in> set rqs. P rq)"
  proof (cases r)
    case (Inl e)
    then show ?thesis using m rqs by (simp add: js_bind_def)
  next
    case (Inr v)
    obtain rqs' where "sent (snd (f v w1)) = sent w1 @ rqs'" "\<forall>rq \<in> set rqs'. P rq"
      using assms(2) unfolding only_sends_def by blast
    then show ?thesis using m rqs Inr by (intro exI [of _ "rqs @ rqs'"]) (auto simp: js_bind_def)
  qed
qed

lemma only_sends_settle_as: "only_sends P m \<Longrightarrow> only_sends P (settle_as cast m)"
  by (simp add: only_sends_def settle_as_run)

lemma only_sends_mono: "only_sends P m \<Longrightarrow> (\<And>rq. P rq \<Longrightarrow> Q rq) \<Longrightarrow> only_sends Q m"
  unfolding only_sends_def by meson

definition anonymous :: "request \<Rightarrow> bool" where
  "anonymous rq \<longleftrightarrow> hget (rq_headers rq) ''authorization'' = None"

lemma forwarded_anonymous: "hget (platformRequestHeaders h []) ''authorization'' = None"
proof -
  have "toLowerCase ''X-Forwarded-For'' \<noteq> toLowerCase ''authorization''" by code_simp
  then show ?thesis by (simp add: platformRequestHeaders_def split: option.splits)
qed

lemma publicFetch_anonymous: "only_sends anonymous (publicFetch h path)"
proof (rule only_sendsI)
  fix w
  have "toLowerCase ''Content-Type'' \<noteq> toLowerCase ''authorization''" by code_simp
  then have "anonymous (init_request (apiBaseUrl h @ path) (no_init\<lparr>ri_headers := platformRequestHeaders h []\<rparr>)
      (auth_headers None (no_init\<lparr>ri_headers := platformRequestHeaders h []\<rparr>)))"
    by (simp add: anonymous_def init_request_def auth_headers_def forwarded_anonymous Let_def split: option.splits)
  then show "\<exists>rqs. sent (snd (publicFetch h path w)) = sent w @ rqs \<and> (\<forall>rq \<in> set rqs. anonymous rq)"
    by (simp add: publicFetch_def authenticatedFetch_run Let_def split: prod.splits)
qed

definition session_check :: "'w host \<Rightarrow> request \<Rightarrow> bool" where
  "session_check h rq \<longleftrightarrow> rq_url rq = apiBaseUrl h @ ''/api/v2/session''"

lemma getParticipantToken_checks: "only_sends (session_check h) (getParticipantToken h)"
  using getParticipantToken_sent [of h] by (auto intro!: only_sendsI simp: session_check_def)

lemma getParticipantSession_checks: "only_sends (session_check h) (getParticipantSession h)"
proof (rule only_sendsI)
  fix w
  obtain s w' where "getParticipantSession h w = (Inr s, w')" using getParticipantSession_total by blast
  then have "snd (getParticipantToken h w) = snd (getParticipantSession h w)" by (simp add: getParticipantToken_run)
  then show "\<exists>rqs. sent (snd (getParticipantSession h w)) = sent w @ rqs \<and> (\<forall>rq \<in> set rqs. session_check h rq)"
    using getParticipantToken_sent [of h w] by (simp add: session_check_def)
qed

lemma participantFetch_sends:
  "only_sends (\<lambda>rq. session_check h rq \<or> rq_url rq = apiBaseUrl h @ path) (participantFetch h path init)"
  unfolding participantFetch_def
proof (rule only_sends_bind)
  show "only_sends (\<lambda>rq. session_check h rq \<or> rq_url rq = apiBaseUrl h @ path) (getParticipantToken h)"
    by (rule only_sends_mono [OF getParticipantToken_checks]) simp
next
  fix token
  show "only_sends (\<lambda>rq. session_check h rq \<or> rq_url rq = apiBaseUrl h @ path)
      (authenticatedFetch h (apiBaseUrl h) path (Some token)
        (init\<lparr>ri_headers := platformRequestHeaders h (ri_headers init)\<rparr>))"
    by (rule only_sendsI) (simp add: authenticatedFetch_run init_request_def Let_def split: prod.splits)
qed

definition token_paths :: "'w host \<Rightarrow> bool \<Rightarrow> string set" where
  "token_paths h hasTeam = {apiBaseUrl h @ ''/api/v2/session''} \<union>
     (if hasTeam then {apiBaseUrl h @ ''/api/v2/services'', apiBaseUrl h @ ''/api/v2/team/services''} else {})"

lemma fetchDashboardResults_sends:
  "only_sends (\<lambda>rq. anonymous rq \<or> (a \<and> rq_url rq \<in> token_paths h a)) (fetchDashboardResults h c a q)"
proof -
  let ?P = "\<lambda>rq. anonymous rq \<or> (a \<and> rq_url rq \<in> token_paths h a)"
  have public: "only_sends ?P (publicFetch h path)" for path
    by (rule only_sends_mono [OF publicFetch_anonymous]) simp
  have own: "only_sends (\<lambda>rq. anonymous rq \<or> rq_url rq \<in> token_paths h True) (participantFetch h path no_init)"
    if "path = ''/api/v2/services'' \<or> path = ''/api/v2/team/services''" for path
    by (rule only_sends_mono [OF participantFetch_sends]) (use that in \<open>auto simp: session_check_def token_paths_def\<close>)
  show ?thesis
    unfolding fetchDashboardResults_def listChallenges_def listServices_def listTeamServices_def getGameStatus_def
      listScoreboard_def listAttackFeed_def getScoreboardFreezeStatus_def
    by (intro only_sends_bind only_sends_settle_as public only_sends_return) (auto intro!: only_sends_settle_as own)
qed

text \<open>
  Loading a dashboard sends the session token only where it belongs: every request with an
  authorization header goes to the session check or, for a participant who is signed in and in a team,
  to the two service listings of the platform API; a visitor or a participant without a team causes no
  other authorised request.
\<close>

lemma loadDashboardData_token_confined:
  assumes "getParticipantSession h w = (Inr session, w1)"
  shows "\<exists>rqs. sent (snd (loadDashboardData h c q w)) = sent w @ rqs \<and>
    (\<forall>rq \<in> set rqs. hget (rq_headers rq) ''authorization'' \<noteq> None \<longrightarrow> rq_url rq \<in> token_paths h (has_team session))"
proof -
  obtain rqs1 where 1: "sent w1 = sent w @ rqs1" "\<forall>rq \<in> set rqs1. session_check h rq"
    using getParticipantSession_checks [of h] assms unfolding only_sends_def by (metis snd_conv)
  obtain results w2 where r: "fetchDashboardResults h c (has_team session) q w1 = (Inr results, w2)"
    using fetchDashboardResults_total by blast
  obtain rqs2 where 2: "sent w2 = sent w1 @ rqs2"
    "\<forall>rq \<in> set rqs2. anonymous rq \<or> has_team session \<and> rq_url rq \<in> token_paths h (has_team session)"
    using fetchDashboardResults_sends [of "has_team session" h c q] r unfolding only_sends_def by (metis snd_conv)
  show ?thesis
    using 1 2 loadDashboardData_run [OF assms r]
    by (intro exI [of _ "rqs1 @ rqs2"]) (auto simp: anonymous_def session_check_def token_paths_def)
qed

definition plain_types :: answer_types where
  "plain_types = \<lparr>as_challenges = (\<lambda>_. []), as_services = (\<lambda>_. []), as_states = (\<lambda>_. []),
     as_game_status = (\<lambda>_. \<lparr>g_match = None, g_current_tick = None, g_scheduler = None, g_total_ticks = Finite 0\<rparr>),
     as_scores = (\<lambda>_. []), as_attack_page = (\<lambda>_. emptyAttackPage 12),
     as_freeze = (\<lambda>_. \<lparr>fz_frozen = False, fz_configured = False, fz_freeze_at = None, fz_unfreeze_at = None,
       fz_snapshot_taken_at = None\<rparr>)\<rparr>"

lemma loadDashboardData_token_confined_witness:
  "\<exists>rqs. sent (snd (loadDashboardData env_token_host plain_types None idle)) = rqs \<and>
    (\<forall>rq \<in> set rqs. hget (rq_headers rq) ''authorization'' \<noteq> None \<longrightarrow> rq_url rq \<in> token_paths env_token_host True)"
proof -
  obtain s w1 where s: "getParticipantSession env_token_host idle = (Inr s, w1)"
    using getParticipantSession_total by blast
  have "has_team (projr (fst (getParticipantSession env_token_host idle)))" by code_simp
  then have "has_team s" by (simp add: s)
  then show ?thesis
    using loadDashboardData_token_confined [OF s, of plain_types None] by (simp add: idle_def)
qed

section \<open>Rows are told apart by their identifiers\<close>

lemma digits_of_inject [simp]: "digits_of m = digits_of n \<longleftrightarrow> m = n"
  using digits_value_digits_of by metis

lemma digits_of_no_dash: "CHR ''-'' \<notin> set (digits_of n)"
  using digits_of_all_digits [of n] is_digit_not_sign by (auto simp: list_all_iff)

lemma int_to_string_no_dash: "0 \<le> n \<Longrightarrow> CHR ''-'' \<notin> set (int_to_string n)"
  by (simp add: int_to_string_def digits_of_no_dash)

lemma append_sep_eq: "c \<notin> set xs \<Longrightarrow> c \<notin> set ys \<Longrightarrow> xs @ c # as = ys @ c # bs \<longleftrightarrow> xs = ys \<and> as = bs"
proof (induction xs arbitrary: ys)
  case Nil
  then show ?case by (cases ys) auto
next
  case (Cons x xs)
  then show ?case by (cases ys) auto
qed

lemma fallback_ids:
  "map sv_id (fallbackServiceRows cid endpoints ownID m) =
     map (\<lambda>i. ''svc-'' @ cid @ ''-'' @ int_to_string (int i + 1)) [0..<length endpoints]"
  by (rule nth_equalityI) (simp_all add: fallbackServiceRows_def fallback_row_def)

definition canonical_key :: "string \<Rightarrow> bool" where
  "canonical_key k \<longleftrightarrow> (\<exists>n. 0 \<le> n \<and> n \<le> 2 ^ 53 \<and> k = int_to_string n)"

definition canonical_id :: "js_num \<Rightarrow> bool" where
  "canonical_id x \<longleftrightarrow> (\<exists>n. \<bar>n\<bar> \<le> 2 ^ 53 \<and> x = Finite (of_int n))"

lemma canonical_id_inject: "canonical_id x \<Longrightarrow> canonical_id y \<Longrightarrow> num_to_string x = num_to_string y \<longleftrightarrow> x = y"
  by (auto simp: canonical_id_def num_to_string_int)

lemma distinct_state_ids:
  assumes "\<forall>x \<in> set xs. canonical_id x" and "distinct xs"
  shows "distinct (map (\<lambda>x. ''svc-'' @ num_to_string x) xs)"
  using assms by (auto simp: distinct_map inj_on_def canonical_id_inject)

lemma distinct_fallback_ids:
  assumes "\<forall>(k, _) \<in> set m. canonical_key k" and "distinct (map fst m)"
  shows "distinct (map sv_id (concat (map (\<lambda>(cid, teams). fallbackServiceRows cid (f teams) ownID by_id) m)))"
  using assms
proof (induction m)
  case (Cons entry m)
  obtain cid teams where e: "entry = (cid, teams)" by (cases entry)
  have key: "CHR ''-'' \<notin> set k" if "canonical_key k" for k
    using that int_to_string_no_dash by (auto simp: canonical_key_def)
  have c: "CHR ''-'' \<notin> set cid" using Cons.prems(1) e by (auto intro!: key)
  have "distinct (map sv_id (fallbackServiceRows cid (f teams) ownID by_id))"
    by (auto simp: fallback_ids distinct_map inj_on_def)
  moreover have "x \<notin> sv_id ` set (fallbackServiceRows cid' (f teams') ownID by_id)"
    if "(cid', teams') \<in> set m" and "x \<in> sv_id ` set (fallbackServiceRows cid (f teams) ownID by_id)" for cid' teams' x
  proof -
    have "cid' \<noteq> cid" using Cons.prems(2) that(1) e by (force simp: image_iff)
    moreover have "CHR ''-'' \<notin> set cid'" using Cons.prems(1) that(1) by (auto intro!: key)
    ultimately show ?thesis
      using that(2) c unfolding set_map [symmetric] fallback_ids by (auto simp: append_sep_eq)
  qed
  moreover have "distinct (map sv_id (concat (map (\<lambda>(cid, teams). fallbackServiceRows cid (f teams) ownID by_id) m)))"
    using Cons by simp
  ultimately show ?case by (fastforce simp: e)
qed simp

lemma fallback_challenge:
  "row \<in> set (fallbackServiceRows cid endpoints ownID m) \<Longrightarrow> sv_challengeId row = js_Number cid"
  by (auto simp: fallbackServiceRows_def fallback_row_def)

text \<open>
  On the dashboard every service row has its own identifier, and every row carries a proper
  challenge number, whether the rows come from the service states or from the fallback listing; so an
  update that looks a row up by its identifier touches exactly one challenge. This needs the platform
  API to list a challenge once and to number challenges with integers a double holds exactly.
\<close>

lemma buildServiceRows_identified:
  assumes "\<forall>state \<in> set (dl_serviceStates data). canonical_id (ts_challenge_id state)"
    and "distinct (map ts_challenge_id (dl_serviceStates data))"
    and "\<forall>(k, _) \<in> set (dl_serviceMap data). canonical_key k" and "distinct (map fst (dl_serviceMap data))"
  shows "distinct (map sv_id (buildServiceRows data ownID)) \<and>
    (\<forall>row \<in> set (buildServiceRows data ownID). \<forall>row' \<in> set (buildServiceRows data ownID).
       sv_id row = sv_id row' \<longrightarrow> same_num (sv_challengeId row) (sv_challengeId row'))"
proof -
  have ids: "distinct (map sv_id (buildServiceRows data ownID))"
  proof (cases "dl_serviceStates data = []")
    case True
    then show ?thesis
      using distinct_fallback_ids [OF assms(3,4), of "\<lambda>teams. coalesce (map_of teams ownID) []"]
      by (simp add: buildServiceRows_def Let_def distinct_map_filter)
  next
    case False
    then show ?thesis
      using distinct_state_ids [of "map ts_challenge_id (dl_serviceStates data)"] assms(1,2)
      by (simp add: buildServiceRows_def serviceStateToRow_def Let_def comp_def)
  qed
  have "sv_challengeId row \<noteq> NaN" if r: "row \<in> set (buildServiceRows data ownID)" for row
  proof (cases "dl_serviceStates data = []")
    case True
    with r obtain cid teams where c: "(cid, teams) \<in> set (dl_serviceMap data)" "sv_challengeId row = js_Number cid"
      by (auto simp: buildServiceRows_def Let_def dest: fallback_challenge)
    then obtain n where "0 \<le> n" "n \<le> 2 ^ 53" "cid = int_to_string n" using assms(3) by (auto simp: canonical_key_def)
    with c(2) show ?thesis by (simp add: js_Number_int_to_string)
  next
    case False
    with r assms(1) show ?thesis
      by (auto simp: buildServiceRows_def serviceStateToRow_def canonical_id_def Let_def)
  qed
  then show ?thesis
    using ids by (auto simp: same_num_def distinct_map dest: inj_onD)
qed

definition sample_data :: "TeamServiceState list \<Rightarrow> DashboardLiveData" where
  "sample_data states = \<lparr>dl_challenges = [], dl_serviceMap = [(''1'', [(''3'', [''h:80'', ''h:81''])]), (''2'', [(''3'', [''h:90''])])],
     dl_serviceStates = states, dl_gameStatus = None, dl_scores = [], dl_attackPage = emptyAttackPage 12,
     dl_freeze = as_freeze plain_types None\<rparr>"

lemma buildServiceRows_identified_witness:
  "map sv_id (buildServiceRows (sample_data [sample_state 1, sample_state 2]) ''3'') = [''svc-1'', ''svc-2''] \<and>
   distinct (map sv_id (buildServiceRows (sample_data [sample_state 1, sample_state 2]) ''3'')) \<and>
   distinct (map sv_id (buildServiceRows (sample_data []) ''3''))"
proof -
  have keys: "\<forall>(k, _) \<in> set (dl_serviceMap (sample_data states)). canonical_key k"
    "distinct (map fst (dl_serviceMap (sample_data states)))" for states
  proof -
    have "int_to_string 1 = ''1''" "int_to_string 2 = ''2''" by code_simp+
    then have "canonical_key ''1''" "canonical_key ''2''"
      unfolding canonical_key_def by (auto intro: exI [of _ 1] exI [of _ 2])
    then show "\<forall>(k, _) \<in> set (dl_serviceMap (sample_data states)). canonical_key k" by (simp add: sample_data_def)
  qed (simp add: sample_data_def)
  have ids: "\<forall>state \<in> set (dl_serviceStates (sample_data [sample_state 1, sample_state 2])). canonical_id (ts_challenge_id state)"
    by (auto simp: sample_data_def sample_state_def canonical_id_def intro: exI [of _ 1] exI [of _ 2])
  have d: "distinct (map ts_challenge_id (dl_serviceStates (sample_data [sample_state 1, sample_state 2])))"
    by (simp add: sample_data_def sample_state_def)
  have "num_to_string (Finite 1) = ''1''" "num_to_string (Finite 2) = ''2''"
    using num_to_string_int [of 1] num_to_string_int [of 2] by (simp_all, code_simp+)
  then have "map sv_id (buildServiceRows (sample_data [sample_state 1, sample_state 2]) ''3'') = [''svc-1'', ''svc-2'']"
    by (simp add: buildServiceRows_def sample_data_def serviceStateToRow_def sample_state_def Let_def)
  moreover have "distinct (map sv_id (buildServiceRows (sample_data [sample_state 1, sample_state 2]) ''3''))"
    using buildServiceRows_identified [OF ids d keys] by blast
  moreover have "distinct (map sv_id (buildServiceRows (sample_data []) ''3''))"
    using buildServiceRows_identified [of "sample_data []", OF _ _ keys] by (simp add: sample_data_def)
  ultimately show ?thesis by blast
qed

end
