(* ===== verification/Admin_Dashboard.thy ===== *)
theory Admin_Dashboard
  imports Dashboard_Data Prometheus
begin

text \<open>
  The organizer's dashboard on the server: the records of \<open>lib/admin-dashboard-types.ts\<close> and the loader
  \<open>lib/admin-dashboard-data.ts\<close>, which makes eleven calls that settle independently and condenses them
  into an overview. Numbers of these records are integers; as for the participant's loader, the type
  assertions on the answers are fields of a record, here \<open>admin_types\<close>.
\<close>

section \<open>Data\<close>

record AdminTeam =
  tm_id :: int
  tm_name :: string
  tm_contact_email :: string
  tm_join_key :: string
  tm_player_count :: int
  tm_deployed_challenges :: int
  tm_active :: bool
  tm_deactivated_at :: "string option"
  tm_play_from_tick :: "int option"

record AdminPlayer =
  pl_id :: int
  pl_team_id :: int
  pl_team_name :: string
  pl_display_name :: string
  pl_email :: string
  pl_role :: string
  pl_wireguard_peer :: string
  pl_wireguard_address :: string
  pl_wireguard_status :: string
  pl_wireguard_issued_at :: string
  pl_wireguard_revoked_at :: "string option"
  pl_created_at :: string
  pl_active :: bool
  pl_deactivated_at :: "string option"

record AdminChallengeValidationResult =
  vr_challenge_id :: int
  vr_name :: string
  vr_baseline_image :: string
  vr_checker_image :: string
  vr_status :: string
  vr_baseline_ssh_contract_ok :: bool
  vr_checker_contract_ok :: bool
  vr_service_state_contract_ok :: bool
  vr_checked_at :: string
  vr_message :: "string option"

record AdminChallenge =
  ac_id :: int
  ac_name :: string
  ac_baseline_image :: string
  ac_checker_image :: string
  ac_source_bundle_path :: string
  ac_service_port :: int
  ac_service_subnet_octet :: int
  ac_egress_enabled :: bool
  ac_published :: bool
  ac_maintenance :: bool
  ac_maintenance_at :: "string option"
  ac_play_from_tick :: "int option"
  ac_unlock_proof_epoch :: "int option"
  ac_deployed_teams :: int
  ac_total_teams :: int
  ac_runtime_status :: string
  ac_queued_teams :: int
  ac_ready_teams :: int
  ac_created_at :: string
  ac_last_validation :: "AdminChallengeValidationResult option"

record AdminDeploymentJob =
  dj_id :: int
  dj_challenge_id :: int
  dj_challenge_name :: string
  dj_status :: string
  dj_target_team_count :: int
  dj_queued_team_count :: int
  dj_ready_team_count :: int
  dj_failed_team_count :: int
  dj_created_at :: string
  dj_completed_at :: "string option"

record AdminGameTickStatus =
  at_id :: int
  at_status :: string
  at_total_checker_runs :: int
  at_successful_checker_runs :: int
  at_failed_checker_runs :: int
  at_skipped_checker_runs :: int
  at_started_at :: string
  at_completed_at :: "string option"
  at_message :: "string option"

record AdminGameSchedulerStatus =
  as_state :: string
  as_interval_seconds :: int
  as_last_run_at :: "string option"
  as_next_run_at :: "string option"
  as_last_tick_id :: "int option"
  as_last_error :: "string option"

record AdminGameMatchStatus =
  am_state :: string
  am_started_at :: "string option"
  am_ended_at :: "string option"
  am_scheduled_start_at :: "string option"
  am_scheduled_end_at :: "string option"
  am_accepting_submissions :: bool

record AdminGameSchedulerEvent =
  ev_id :: int
  ev_event_type :: string
  ev_source :: string
  ev_state :: string
  ev_tick_id :: "int option"
  ev_message :: "string option"
  ev_created_at :: string

type_synonym AdminSchedulerEventPage = "AdminGameSchedulerEvent feed_page"

record AdminGameStatus =
  ag_current_tick :: "AdminGameTickStatus option"
  ag_match :: "AdminGameMatchStatus option"
  ag_scheduler :: "AdminGameSchedulerStatus option"
  ag_total_ticks :: int
  ag_total_checker_runs :: int
  ag_successful_checker_runs :: int
  ag_failed_checker_runs :: int
  ag_skipped_checker_runs :: int

record AdminCheckerRun =
  cr_id :: int
  cr_tick_id :: int
  cr_team_id :: int
  cr_team_name :: string
  cr_challenge_id :: int
  cr_challenge_name :: string
  cr_phase :: string
  cr_target :: string
  cr_checker_image :: string
  cr_status :: string
  cr_exit_code :: int
  cr_message :: "string option"
  cr_output :: "string option"
  cr_service_state :: "string option"
  cr_state_phase :: "string option"
  cr_state_message :: "string option"
  cr_checked_at :: string

type_synonym AdminCheckerRunPage = "AdminCheckerRun feed_page"

record AdminOperationsAlert =
  al_id :: string
  al_severity :: string
  al_source :: string
  al_summary :: string
  al_detail :: "string option"

record AdminOperationsStatus =
  os_healthy :: bool
  os_generated_at :: string
  os_alerts :: "AdminOperationsAlert list"

record AdminOverview =
  ao_source :: data_source
  ao_message :: "string option"
  ao_operationsStatus :: "AdminOperationsStatus option"
  ao_operationsAlertCount :: nat
  ao_teamCount :: nat
  ao_playerCount :: nat
  ao_challengeCount :: nat
  ao_publishedChallengeCount :: nat
  ao_deploymentCount :: nat
  ao_pendingDeploymentCount :: nat
  ao_totalTicks :: int
  ao_scoreboardRows :: nat
  ao_apiBaseUrl :: string

record AdminDashboardData =
  ad_teams :: "AdminTeam list"
  ad_players :: "AdminPlayer list"
  ad_challenges :: "AdminChallenge list"
  ad_deployments :: "AdminDeploymentJob list"
  ad_gameStatus :: AdminGameStatus
  ad_schedulerEventPage :: AdminSchedulerEventPage
  ad_checkerRunPage :: AdminCheckerRunPage
  ad_attackPage :: AttackFeedPage
  ad_scoreboard :: "AdminGameScoreRow list"
  ad_serviceMetrics :: "json option"
  ad_overview :: AdminOverview

record admin_types =
  to_teams :: "json option \<Rightarrow> AdminTeam list"
  to_players :: "json option \<Rightarrow> AdminPlayer list"
  to_challenges :: "json option \<Rightarrow> AdminChallenge list"
  to_deployments :: "json option \<Rightarrow> AdminDeploymentJob list"
  to_operations :: "json option \<Rightarrow> AdminOperationsStatus"
  to_game_status :: "json option \<Rightarrow> AdminGameStatus"
  to_events :: "json option \<Rightarrow> AdminSchedulerEventPage"
  to_checker_runs :: "json option \<Rightarrow> AdminCheckerRunPage"
  to_attacks :: "json option \<Rightarrow> AttackFeedPage"
  to_scoreboard :: "json option \<Rightarrow> AdminGameScoreRow list"

record AdminResultSet =
  teamsResult :: "AdminTeam list settled"
  playersResult :: "AdminPlayer list settled"
  adminChallengesResult :: "AdminChallenge list settled"
  deploymentsResult :: "AdminDeploymentJob list settled"
  operationsStatusResult :: "AdminOperationsStatus settled"
  serviceMetricsResult :: "json option settled"
  adminGameStatusResult :: "AdminGameStatus settled"
  schedulerEventPageResult :: "AdminSchedulerEventPage settled"
  checkerRunPageResult :: "AdminCheckerRunPage settled"
  adminAttackPageResult :: "AttackFeedPage settled"
  scoreboardResult :: "AdminGameScoreRow list settled"

record AdminLiveData =
  ld_teams :: "AdminTeam list"
  ld_players :: "AdminPlayer list"
  ld_challenges :: "AdminChallenge list"
  ld_deployments :: "AdminDeploymentJob list"
  ld_operationsStatus :: AdminOperationsStatus
  ld_serviceMetrics :: "json option"
  ld_gameStatus :: AdminGameStatus
  ld_schedulerEventPage :: AdminSchedulerEventPage
  ld_checkerRunPage :: AdminCheckerRunPage
  ld_attackPage :: AttackFeedPage
  ld_scoreboard :: "AdminGameScoreRow list"

section \<open>lib/admin-dashboard-data.ts\<close>

definition emptyPage :: "int \<Rightarrow> 'i feed_page" where
  "emptyPage l = \<lparr>items = [], pg_limit = l, pg_offset = 0, total_count = 0, has_prev = False, has_next = False\<rparr>"

definition emptyGameStatus :: AdminGameStatus where
  "emptyGameStatus = \<lparr>ag_current_tick = None, ag_match = None, ag_scheduler = None, ag_total_ticks = 0,
     ag_total_checker_runs = 0, ag_successful_checker_runs = 0, ag_failed_checker_runs = 0, ag_skipped_checker_runs = 0\<rparr>"

definition emptyOperationsStatus :: AdminOperationsStatus where
  "emptyOperationsStatus = \<lparr>os_healthy = True, os_generated_at = [], os_alerts = []\<rparr>"

definition limit_param :: "int \<Rightarrow> query_params" where
  "limit_param l = [(''limit'', query_int (Some l))]"

definition fetchAdminDashboardResults ::
  "'w host \<Rightarrow> admin_types \<Rightarrow> AttackFeedQuery option \<Rightarrow> ('w, AdminResultSet) js" where
  "fetchAdminDashboardResults h c attackQuery =
     js_bind (settle_as (to_teams c) (listAdminTeams h)) (\<lambda>teams.
     js_bind (settle_as (to_players c) (listAdminPlayers h)) (\<lambda>players.
     js_bind (settle_as (to_challenges c) (listAdminChallenges h)) (\<lambda>challenges.
     js_bind (settle_as (to_deployments c) (listAdminDeployments h)) (\<lambda>deployments.
     js_bind (settle_as (to_operations c) (getAdminOperationsStatus h)) (\<lambda>operations.
     js_bind (js_settle (getAdminOperationsMetrics h)) (\<lambda>metrics.
     js_bind (settle_as (to_game_status c) (getAdminGameStatus h)) (\<lambda>status.
     js_bind (settle_as (to_events c) (listAdminGameSchedulerEvents h (limit_param 12))) (\<lambda>events.
     js_bind (settle_as (to_checker_runs c) (listAdminCheckerRuns h (limit_param 18))) (\<lambda>runs.
     js_bind (settle_as (to_attacks c) (listAdminGameAttacks h (coalesce attackQuery (limit_query 12)))) (\<lambda>attacks.
     js_bind (settle_as (to_scoreboard c) (listAdminGameScoreboard h)) (\<lambda>scoreboard.
     js_return \<lparr>teamsResult = teams, playersResult = players, adminChallengesResult = challenges,
       deploymentsResult = deployments, operationsStatusResult = operations, serviceMetricsResult = metrics,
       adminGameStatusResult = status, schedulerEventPageResult = events, checkerRunPageResult = runs,
       adminAttackPageResult = attacks, scoreboardResult = scoreboard\<rparr>)))))))))))"

definition readAdminDashboardResults :: "AdminResultSet \<Rightarrow> AttackFeedQuery option \<Rightarrow> AdminLiveData" where
  "readAdminDashboardResults results attackQuery =
     \<lparr>ld_teams = fulfilledValue (teamsResult results) [],
      ld_players = fulfilledValue (playersResult results) [],
      ld_challenges = fulfilledValue (adminChallengesResult results) [],
      ld_deployments = fulfilledValue (deploymentsResult results) [],
      ld_operationsStatus = fulfilledValue (operationsStatusResult results) emptyOperationsStatus,
      ld_serviceMetrics = fulfilledValue (serviceMetricsResult results) None,
      ld_gameStatus = fulfilledValue (adminGameStatusResult results) emptyGameStatus,
      ld_schedulerEventPage = fulfilledValue (schedulerEventPageResult results) (emptyPage 12),
      ld_checkerRunPage = fulfilledValue (checkerRunPageResult results) (emptyPage 18),
      ld_attackPage = fulfilledValue (adminAttackPageResult results) (emptyPage (query_limit attackQuery)),
      ld_scoreboard = fulfilledValue (scoreboardResult results) []\<rparr>"

definition adminDashboardSource :: "AdminResultSet \<Rightarrow> data_source" where
  "adminDashboardSource results =
     (if isFulfilled (teamsResult results) \<and> isFulfilled (playersResult results) \<and>
         isFulfilled (adminChallengesResult results) \<and> isFulfilled (deploymentsResult results) \<and>
         isFulfilled (operationsStatusResult results) \<and> isFulfilled (serviceMetricsResult results) \<and>
         isFulfilled (adminGameStatusResult results) \<and> isFulfilled (schedulerEventPageResult results) \<and>
         isFulfilled (checkerRunPageResult results) \<and> isFulfilled (adminAttackPageResult results) \<and>
         isFulfilled (scoreboardResult results)
      then Live else DegradedSource)"

definition buildAdminOverview :: "'w host \<Rightarrow> AdminLiveData \<Rightarrow> data_source \<Rightarrow> AdminOverview" where
  "buildAdminOverview h data source =
     \<lparr>ao_source = source,
      ao_message = (if source = DegradedSource
        then Some ''Organizer data is partially unavailable. Only live responses that succeeded are shown. No sample data is injected.''
        else None),
      ao_operationsStatus = Some (ld_operationsStatus data),
      ao_operationsAlertCount = length (os_alerts (ld_operationsStatus data)),
      ao_teamCount = length (ld_teams data),
      ao_playerCount = length (ld_players data),
      ao_challengeCount = length (ld_challenges data),
      ao_publishedChallengeCount = length (filter ac_published (ld_challenges data)),
      ao_deploymentCount = length (ld_deployments data),
      ao_pendingDeploymentCount = length (filter (\<lambda>d. dj_status d \<noteq> ''completed'') (ld_deployments data)),
      ao_totalTicks = ag_total_ticks (ld_gameStatus data),
      ao_scoreboardRows = length (ld_scoreboard data),
      ao_apiBaseUrl = organizerApiBaseUrl h\<rparr>"

definition admin_dashboard_of :: "'w host \<Rightarrow> AttackFeedQuery option \<Rightarrow> AdminResultSet \<Rightarrow> AdminDashboardData" where
  "admin_dashboard_of h attackQuery results = (
     let data = readAdminDashboardResults results attackQuery in
     \<lparr>ad_teams = ld_teams data, ad_players = ld_players data, ad_challenges = ld_challenges data,
      ad_deployments = ld_deployments data, ad_gameStatus = ld_gameStatus data,
      ad_schedulerEventPage = ld_schedulerEventPage data, ad_checkerRunPage = ld_checkerRunPage data,
      ad_attackPage = ld_attackPage data, ad_scoreboard = ld_scoreboard data, ad_serviceMetrics = ld_serviceMetrics data,
      ad_overview = buildAdminOverview h data (adminDashboardSource results)\<rparr>)"

definition loadAdminDashboardData ::
  "'w host \<Rightarrow> admin_types \<Rightarrow> AttackFeedQuery option \<Rightarrow> ('w, AdminDashboardData) js" where
  "loadAdminDashboardData h c attackQuery = js_bind (fetchAdminDashboardResults h c attackQuery)
     (\<lambda>results. js_return (admin_dashboard_of h attackQuery results))"

section \<open>Outages\<close>

lemma js_settle_total: "\<exists>r w'. js_settle m w = (Inr r, w')"
  by (simp add: js_settle_def split: prod.splits)

lemma fetchAdminDashboardResults_total: "\<exists>r w'. fetchAdminDashboardResults h c q w = (Inr r, w')"
  unfolding fetchAdminDashboardResults_def
  by (intro bind_settled js_settle_total) (auto simp: settle_as_run js_return_def)

lemma bind_return [simp]: "js_bind (js_return v) f = f v"
  by (simp add: js_bind_def js_return_def)

lemma settle_as_throw: "settle_as cast (js_throw e) = js_return (Rejected e)"
  by (simp add: fun_eq_iff settle_as_run js_throw_def js_return_def)

lemma adminFetch_without_token:
  "admin_token h = None \<Longrightarrow>
     adminFetch h path init = js_throw (ErrorMessage ''ADMIN_API_TOKEN must be set for server-side admin API calls'')"
  by (rule ext) (simp add: js_throw_def admin_fetch.without_token)

lemmas admin_reads = listAdminTeams_def listAdminPlayers_def listAdminChallenges_def listAdminDeployments_def
  getAdminOperationsStatus_def getAdminGameStatus_def listAdminGameSchedulerEvents_def listAdminCheckerRuns_def
  listAdminGameScoreboard_def

lemma fetch_without_token:
  assumes "admin_token h = None" and "fetchAdminDashboardResults h c q w = (Inr r, w')"
  shows "\<not> isFulfilled (teamsResult r) \<and> \<not> isFulfilled (playersResult r) \<and> \<not> isFulfilled (adminChallengesResult r) \<and>
    \<not> isFulfilled (deploymentsResult r) \<and> \<not> isFulfilled (scoreboardResult r)"
  using assms(2) unfolding fetchAdminDashboardResults_def admin_reads adminFetch_without_token [OF assms(1)] settle_as_throw
  by (auto simp: js_bind_def js_return_def js_settle_def settle_as_run split: prod.splits sum.splits)

text \<open>
  The organizer's dashboard is always produced and is marked live exactly when all eleven calls
  succeeded; every count is that of the rows shown, rows come only from answers that succeeded, and an
  operations status that could not be read counts as healthy with no alerts. When the server has no
  admin token, the page is marked degraded and shows no team, player, challenge, deployment or score.
\<close>

lemma loadAdminDashboardData_reports_outages:
  "\<exists>results w' d.
     fetchAdminDashboardResults h c q w = (Inr results, w') \<and> loadAdminDashboardData h c q w = (Inr d, w') \<and>
     (ao_source (ad_overview d) = Live \<longleftrightarrow>
        isFulfilled (teamsResult results) \<and> isFulfilled (playersResult results) \<and>
        isFulfilled (adminChallengesResult results) \<and> isFulfilled (deploymentsResult results) \<and>
        isFulfilled (operationsStatusResult results) \<and> isFulfilled (serviceMetricsResult results) \<and>
        isFulfilled (adminGameStatusResult results) \<and> isFulfilled (schedulerEventPageResult results) \<and>
        isFulfilled (checkerRunPageResult results) \<and> isFulfilled (adminAttackPageResult results) \<and>
        isFulfilled (scoreboardResult results)) \<and>
     (ao_message (ad_overview d) = None \<longleftrightarrow> ao_source (ad_overview d) = Live) \<and>
     ad_teams d = (case teamsResult results of Fulfilled v \<Rightarrow> v | Rejected _ \<Rightarrow> []) \<and>
     ao_teamCount (ad_overview d) = length (ad_teams d) \<and> ao_playerCount (ad_overview d) = length (ad_players d) \<and>
     ao_publishedChallengeCount (ad_overview d) \<le> ao_challengeCount (ad_overview d) \<and>
     ao_pendingDeploymentCount (ad_overview d) +
       length (filter (\<lambda>j. dj_status j = ''completed'') (ad_deployments d)) = length (ad_deployments d) \<and>
     ao_operationsStatus (ad_overview d) = Some (case operationsStatusResult results of
        Fulfilled v \<Rightarrow> v | Rejected _ \<Rightarrow> \<lparr>os_healthy = True, os_generated_at = [], os_alerts = []\<rparr>) \<and>
     (admin_token h = None \<longrightarrow> ao_source (ad_overview d) = DegradedSource \<and> ad_teams d = [] \<and> ad_players d = [] \<and>
        ad_challenges d = [] \<and> ad_deployments d = [] \<and> ad_scoreboard d = [])"
proof -
  obtain results w' where r: "fetchAdminDashboardResults h c q w = (Inr results, w')"
    using fetchAdminDashboardResults_total by blast
  let ?d = "admin_dashboard_of h q results"
  note defs = admin_dashboard_of_def buildAdminOverview_def readAdminDashboardResults_def Let_def
  have run: "loadAdminDashboardData h c q w = (Inr ?d, w')"
    using r by (simp add: loadAdminDashboardData_def js_bind_def js_return_def)
  have src: "ao_source (ad_overview ?d) = adminDashboardSource results" by (simp add: defs)
  have msg: "ao_message (ad_overview ?d) = None \<longleftrightarrow> ao_source (ad_overview ?d) = Live"
    by (cases "adminDashboardSource results") (simp_all add: defs)
  have counts: "ad_teams ?d = (case teamsResult results of Fulfilled v \<Rightarrow> v | Rejected _ \<Rightarrow> [])"
    "ao_teamCount (ad_overview ?d) = length (ad_teams ?d)" "ao_playerCount (ad_overview ?d) = length (ad_players ?d)"
    "ao_publishedChallengeCount (ad_overview ?d) \<le> ao_challengeCount (ad_overview ?d)"
    "ao_pendingDeploymentCount (ad_overview ?d) +
       length (filter (\<lambda>j. dj_status j = ''completed'') (ad_deployments ?d)) = length (ad_deployments ?d)"
    "ao_operationsStatus (ad_overview ?d) = Some (case operationsStatusResult results of
        Fulfilled v \<Rightarrow> v | Rejected _ \<Rightarrow> \<lparr>os_healthy = True, os_generated_at = [], os_alerts = []\<rparr>)"
    using sum_length_filter_compl [of "\<lambda>j. dj_status j = ''completed''" "ad_deployments ?d"]
    by (simp_all add: defs emptyOperationsStatus_def split: settled.splits)
  have "ao_source (ad_overview ?d) = DegradedSource \<and> ad_teams ?d = [] \<and> ad_players ?d = [] \<and>
        ad_challenges ?d = [] \<and> ad_deployments ?d = [] \<and> ad_scoreboard ?d = []" if "admin_token h = None"
    using fetch_without_token [OF that r] by (simp add: defs adminDashboardSource_def fulfilledValue_def)
  with r run src msg counts show ?thesis by (simp add: adminDashboardSource_def)
qed

definition plain_admin_types :: admin_types where
  "plain_admin_types = \<lparr>to_teams = (\<lambda>_. []), to_players = (\<lambda>_. []), to_challenges = (\<lambda>_. []), to_deployments = (\<lambda>_. []),
     to_operations = (\<lambda>_. emptyOperationsStatus), to_game_status = (\<lambda>_. emptyGameStatus), to_events = (\<lambda>_. emptyPage 12),
     to_checker_runs = (\<lambda>_. emptyPage 18), to_attacks = (\<lambda>_. emptyPage 12), to_scoreboard = (\<lambda>_. [])\<rparr>"

lemma loadAdminDashboardData_reports_outages_witness:
  "\<exists>d w'. loadAdminDashboardData (table_host (\<lambda>_. Inl NonError)) plain_admin_types None idle = (Inr d, w') \<and>
     ao_source (ad_overview d) = DegradedSource \<and> ad_teams d = []"
proof -
  have "admin_token (table_host (\<lambda>_. Inl NonError)) = None" by code_simp
  then show ?thesis
    using loadAdminDashboardData_reports_outages [of "table_host (\<lambda>_. Inl NonError)" plain_admin_types None idle] by auto
qed

end
