(* ===== verification/Hook_Program.thy ===== *)
theory Hook_Program
  imports Http_Core
begin

text \<open>
  Asynchronous handlers of a React hook. A handler is a program that changes the state of the hook in
  atomic steps and waits at its \<open>await\<close>s: for the response to a request, for an answer of the browser
  (\<open>Await\<close>), or for a group of requests started together with \<open>Promise.all\<close> (\<open>Gather\<close>, where each
  response changes the state as it arrives). \<open>Spawn\<close> is a call whose promise is dropped (\<open>void f()\<close>).
  JavaScript runs a handler without interruption from one wait to the next, which is what \<open>advance\<close>
  does; between two waits any other handler may run. The theory proves, once for all hooks, when a hook
  can never stay marked as busy, and that answering what is in flight always comes to an end.
\<close>

section \<open>Programs\<close>

datatype 's prog =
    Done
  | Atomic "'s \<Rightarrow> 's \<times> 's prog"
  | Call request "response result \<Rightarrow> 's prog"
  | Await "bool \<Rightarrow> 's prog"
  | Spawn "'s prog" "'s prog"
  | Gather "(request \<times> (response result \<Rightarrow> 's \<Rightarrow> 's)) list" "'s prog"

text \<open>Run to the next wait: the new state, the program that waits, and the programs it spawned.\<close>

primrec advance :: "'s prog \<Rightarrow> 's \<Rightarrow> 's \<times> 's prog \<times> 's prog list" where
  "advance Done = (\<lambda>s. (s, Done, []))"
| "advance (Atomic f) = (\<lambda>s. case map_prod id advance (f s) of (s', run) \<Rightarrow> run s')"
| "advance (Call rq k) = (\<lambda>s. (s, Call rq k, []))"
| "advance (Await k) = (\<lambda>s. (s, Await k, []))"
| "advance (Spawn p q) = (\<lambda>s. case advance p s of (s1, p1, sp1) \<Rightarrow>
     (case advance q s1 of (s2, q2, sp2) \<Rightarrow> (s2, q2, p1 # sp1 @ sp2)))"
| "advance (Gather gs q) = (\<lambda>s. if gs = [] then advance q s else (s, Gather gs q, []))"

lemma advance_Atomic: "advance (Atomic f) s = advance (snd (f s)) (fst (f s))"
  by (simp add: split_beta)

declare advance.simps(2) [simp del]

lemma advance_Spawn:
  assumes "advance p s = (s1, p1, sp1)" and "advance q s1 = (s2, q2, sp2)"
  shows "advance (Spawn p q) s = (s2, q2, p1 # sp1 @ sp2)"
  using assms by simp

text \<open>What can answer a waiting program.\<close>

inductive answered :: "'s prog \<Rightarrow> 's \<Rightarrow> 's \<Rightarrow> 's prog \<Rightarrow> bool" where
  response: "answered (Call rq k) s s (k r)"
| browser: "answered (Await k) s s (k b)"
| one_of: "i < length gs \<Longrightarrow>
    answered (Gather gs q) s (snd (gs ! i) r s) (Gather (take i gs @ drop (Suc i) gs) q)"

inductive_cases answered_DoneE: "answered Done s s' p"
inductive_cases answered_CallE: "answered (Call rq k) s s' p"
inductive_cases answered_AwaitE: "answered (Await k) s s' p"
inductive_cases answered_GatherE: "answered (Gather gs q) s s' p"
inductive_cases answered_AtomicE: "answered (Atomic f) s s' p"
inductive_cases answered_SpawnE: "answered (Spawn p q) s s' t"

definition live :: "'s prog list \<Rightarrow> 's prog list" where
  "live ps = filter (\<lambda>p. p \<noteq> Done) ps"

section \<open>Sessions\<close>

text \<open>A session is the state of the hook and the handlers in flight. An answer lets one of them go on;
  a trigger (a click, a timer, a message) starts a handler of the set \<open>H\<close>.\<close>

inductive answer_step :: "'s \<times> 's prog list \<Rightarrow> 's \<times> 's prog list \<Rightarrow> bool" where
  go_on: "answered t s s1 p1 \<Longrightarrow> advance p1 s1 = (s2, p2, sp) \<Longrightarrow>
    answer_step (s, us @ t # vs) (s2, us @ live (p2 # sp) @ vs)"

inductive hook_step :: "('s \<Rightarrow> 's prog) set \<Rightarrow> 's \<times> 's prog list \<Rightarrow> 's \<times> 's prog list \<Rightarrow> bool" for H where
  trigger: "h \<in> H \<Longrightarrow> advance (h s) s = (s', p, sp) \<Longrightarrow> hook_step H (s, ts) (s', live (p # sp) @ ts)"
| answer: "answer_step x y \<Longrightarrow> hook_step H x y"

inductive hook_reachable :: "('s \<Rightarrow> 's prog) set \<Rightarrow> 's set \<Rightarrow> 's \<times> 's prog list \<Rightarrow> bool" for H I where
  mounted: "s \<in> I \<Longrightarrow> hook_reachable H I (s, [])"
| moved: "hook_reachable H I x \<Longrightarrow> hook_step H x y \<Longrightarrow> hook_reachable H I y"

section \<open>Answering comes to an end\<close>

definition below :: "('s prog \<times> 's prog) set" where
  "below = {(p', t). \<exists>s s1 p1 s2 p2 sp. answered t s s1 p1 \<and> advance p1 s1 = (s2, p2, sp) \<and> p' \<in> set (p2 # sp)}"

definition accessible :: "'s prog \<Rightarrow> bool" where
  "accessible p \<longleftrightarrow> (\<forall>s s' p' sp. advance p s = (s', p', sp) \<longrightarrow> (\<forall>t \<in> set (p' # sp). t \<in> Wellfounded.acc below))"

lemma accessibleI: "(\<And>s s' p' sp t. advance p s = (s', p', sp) \<Longrightarrow> t \<in> set (p' # sp) \<Longrightarrow> t \<in> Wellfounded.acc below) \<Longrightarrow> accessible p"
  unfolding accessible_def by blast

lemma accessibleD: "accessible p \<Longrightarrow> advance p s = (s', p', sp) \<Longrightarrow> t \<in> set (p' # sp) \<Longrightarrow> t \<in> Wellfounded.acc below"
  unfolding accessible_def by blast

lemma acc_below: "(\<And>s s1 p1. answered t s s1 p1 \<Longrightarrow> accessible p1) \<Longrightarrow> t \<in> Wellfounded.acc below"
proof (rule accI)
  fix p'
  assume reaches: "\<And>s s1 p1. answered t s s1 p1 \<Longrightarrow> accessible p1" and "(p', t) \<in> below"
  then obtain s s1 p1 s2 p2 sp where "answered t s s1 p1" "advance p1 s1 = (s2, p2, sp)" "p' \<in> set (p2 # sp)"
    unfolding below_def by blast
  with reaches show "p' \<in> Wellfounded.acc below" by (blast dest: accessibleD)
qed

lemma gather_acc: "accessible q \<Longrightarrow> accessible (Gather gs q) \<and> Gather gs q \<in> Wellfounded.acc below"
proof (induction "length gs" arbitrary: gs)
  case 0
  then have "Gather gs q \<in> Wellfounded.acc below" by (intro acc_below) (auto elim: answered_GatherE)
  with 0 show ?case by (auto simp: accessible_def)
next
  case (Suc n)
  have "Gather gs q \<in> Wellfounded.acc below"
  proof (rule acc_below)
    fix s s1 p1
    assume "answered (Gather gs q) s s1 p1"
    then obtain i where "i < length gs" "p1 = Gather (take i gs @ drop (Suc i) gs) q" by (auto elim: answered_GatherE)
    moreover have "length (take i gs @ drop (Suc i) gs) = n" using Suc calculation by simp
    ultimately show "accessible p1" using Suc by blast
  qed
  then show ?case using Suc by (auto simp: accessible_def)
qed

lemma all_accessible: "accessible p"
proof (induction p)
  case Done
  have "Done \<in> Wellfounded.acc below" by (rule acc_below) (auto elim: answered_DoneE)
  then show ?case by (auto simp: accessible_def)
next
  case (Atomic f)
  have "accessible (snd (f s))" for s using Atomic [of "f s" "snd (f s)"] by (cases "f s") (simp add: image_iff, metis)
  then show ?case by (intro accessibleI) (metis accessibleD advance_Atomic)
next
  case (Call rq k)
  have "Call rq k \<in> Wellfounded.acc below" by (rule acc_below) (auto elim: answered_CallE intro: Call)
  then show ?case by (auto simp: accessible_def)
next
  case (Await k)
  have "Await k \<in> Wellfounded.acc below" by (rule acc_below) (auto elim: answered_AwaitE intro: Await)
  then show ?case by (auto simp: accessible_def)
next
  case (Spawn p q)
  show ?case
  proof (rule accessibleI)
    fix s s' p' sp t
    assume a: "advance (Spawn p q) s = (s', p', sp)" and t: "t \<in> set (p' # sp)"
    obtain s1 p1 sp1 where 1: "advance p s = (s1, p1, sp1)" by (cases "advance p s")
    obtain s2 q2 sp2 where 2: "advance q s1 = (s2, q2, sp2)" by (cases "advance q s1")
    from a t 1 2 have "t \<in> set (p1 # sp1) \<or> t \<in> set (q2 # sp2)" by auto
    with Spawn 1 2 show "t \<in> Wellfounded.acc below" by (blast dest: accessibleD)
  qed
next
  case (Gather gs q)
  then show ?case using gather_acc by blast
qed

lemma wf_below: "wf below"
  by (rule acc_wfI) (blast intro: acc_below all_accessible)

lemma mset_live: "mset (live ps) \<subseteq># mset ps"
  by (simp add: live_def multiset_filter_subset)

lemma answer_step_mult:
  assumes "answer_step x y"
  shows "(mset (snd y), mset (snd x)) \<in> mult below"
  using assms
proof (cases rule: answer_step.cases)
  case (go_on t s s1 p1 s2 p2 sp us vs)
  have "\<forall>k \<in># mset (live (p2 # sp)). \<exists>j \<in># {#t#}. (k, j) \<in> below"
  proof
    fix k
    assume "k \<in># mset (live (p2 # sp))"
    then have "k \<in> set (p2 # sp)" by (auto simp: live_def split: if_splits)
    with go_on(3,4) have "(k, t) \<in> below" unfolding below_def by blast
    then show "\<exists>j \<in># {#t#}. (k, j) \<in> below" by simp
  qed
  then have "(mset (us @ vs) + mset (live (p2 # sp)), mset (us @ vs) + {#t#}) \<in> mult below"
    by (intro one_step_implies_mult) simp_all
  with go_on show ?thesis by (simp add: ac_simps)
qed

lemma answers_terminate: "wfP (\<lambda>y x. answer_step x y)"
proof -
  have "wf (inv_image (mult below) (\<lambda>x :: 's \<times> 's prog list. mset (snd x)))"
    by (intro wf_inv_image wf_mult wf_below)
  moreover have "{(y, x). answer_step x y} \<subseteq> inv_image (mult below) (\<lambda>x :: 's \<times> 's prog list. mset (snd x))"
    by (auto simp: inv_image_def dest: answer_step_mult)
  ultimately have "wf {(y, x :: 's \<times> 's prog list). answer_step x y}" by (rule wf_subset)
  then show ?thesis by (simp add: wfp_def)
qed

section \<open>A hook that cannot stay busy\<close>

text \<open>A program is quiet when it never changes whether the hook is busy, and it closes when every way
  through it clears that mark and is quiet from then on. \<open>pending\<close> reads the mark off the state.\<close>

primrec quiet :: "('s \<Rightarrow> 'k option) \<Rightarrow> 's prog \<Rightarrow> bool" where
  "quiet pending Done = True"
| "quiet pending (Atomic f) = (\<forall>s. case map_prod id (quiet pending) (f s) of (s', q) \<Rightarrow> pending s' = pending s \<and> q)"
| "quiet pending (Call rq k) = (\<forall>r. quiet pending (k r))"
| "quiet pending (Await k) = (\<forall>b. quiet pending (k b))"
| "quiet pending (Spawn p q) = (quiet pending p \<and> quiet pending q)"
| "quiet pending (Gather gs q) = ((\<forall>(rq, f) \<in> set gs. \<forall>r s. pending (f r s) = pending s) \<and> quiet pending q)"

primrec closes :: "('s \<Rightarrow> 'k option) \<Rightarrow> 's prog \<Rightarrow> bool" where
  "closes pending Done = False"
| "closes pending (Atomic f) = (\<forall>s. case map_prod id (closes pending) (f s) of (s', c) \<Rightarrow>
     c \<or> (pending s' = None \<and> quiet pending (snd (f s))))"
| "closes pending (Call rq k) = (\<forall>r. closes pending (k r))"
| "closes pending (Await k) = (\<forall>b. closes pending (k b))"
| "closes pending (Spawn p q) = (quiet pending p \<and> closes pending q)"
| "closes pending (Gather gs q) = ((\<forall>(rq, f) \<in> set gs. \<forall>r s. pending (f r s) = pending s) \<and> closes pending q)"

lemma quiet_Atomic: "quiet pending (Atomic f) \<longleftrightarrow> (\<forall>s. pending (fst (f s)) = pending s \<and> quiet pending (snd (f s)))"
  by (simp add: split_beta)

lemma closes_Atomic: "closes pending (Atomic f) \<longleftrightarrow>
    (\<forall>s. closes pending (snd (f s)) \<or> pending (fst (f s)) = None \<and> quiet pending (snd (f s)))"
  by (simp add: split_beta)

declare quiet.simps(2) [simp del] closes.simps(2) [simp del]

lemma quiet_advance:
  "quiet pending p \<Longrightarrow> advance p s = (s', p', sp) \<Longrightarrow>
    pending s' = pending s \<and> quiet pending p' \<and> (\<forall>t \<in> set sp. quiet pending t)"
proof (induction p arbitrary: s s' p' sp)
  case (Atomic f)
  have "snd (f s) \<in> Basic_BNFs.snds (f s)" by (cases "f s") auto
  moreover have "pending (fst (f s)) = pending s" "quiet pending (snd (f s))"
    using Atomic.prems(1) unfolding quiet_Atomic by blast+
  ultimately show ?case
    using Atomic.IH [OF rangeI _ _ Atomic.prems(2) [unfolded advance_Atomic]] by metis
next
  case (Spawn p q)
  obtain s1 p1 sp1 where 1: "advance p s = (s1, p1, sp1)" by (cases "advance p s")
  obtain s2 q2 sp2 where 2: "advance q s1 = (s2, q2, sp2)" by (cases "advance q s1")
  have "s' = s2" "p' = q2" "sp = p1 # sp1 @ sp2" using Spawn.prems(2) advance_Spawn [OF 1 2] by auto
  moreover have "pending s1 = pending s \<and> quiet pending p1 \<and> (\<forall>t \<in> set sp1. quiet pending t)"
    using Spawn.IH(1) [OF _ 1] Spawn.prems(1) by simp
  moreover have "pending s2 = pending s1 \<and> quiet pending q2 \<and> (\<forall>t \<in> set sp2. quiet pending t)"
    using Spawn.IH(2) [OF _ 2] Spawn.prems(1) by simp
  ultimately show ?case by auto
next
  case (Gather gs q)
  have "quiet pending q" using Gather.prems(1) unfolding quiet.simps by blast
  show ?case
  proof (cases "gs = []")
    case True
    then have "advance q s = (s', p', sp)" using Gather.prems(2) by simp
    then show ?thesis by (rule Gather.IH [OF \<open>quiet pending q\<close>])
  next
    case False
    then have "s' = s" "p' = Gather gs q" "sp = []" using Gather.prems(2) by simp_all
    then show ?thesis using Gather.prems(1) by (simp only: list.set ball_empty simp_thms)
  qed
qed auto

lemma closes_advance:
  "closes pending p \<Longrightarrow> advance p s = (s', p', sp) \<Longrightarrow>
    (closes pending p' \<or> pending s' = None \<and> quiet pending p') \<and> (\<forall>t \<in> set sp. quiet pending t)"
proof (induction p arbitrary: s s' p' sp)
  case (Atomic f)
  have "snd (f s) \<in> Basic_BNFs.snds (f s)" by (cases "f s") auto
  show ?case
  proof (cases "closes pending (snd (f s))")
    case True
    then show ?thesis
      using Atomic.IH [OF rangeI \<open>snd (f s) \<in> _\<close> _ Atomic.prems(2) [unfolded advance_Atomic]] by blast
  next
    case False
    then have "pending (fst (f s)) = None" "quiet pending (snd (f s))" using Atomic.prems(1) unfolding closes_Atomic by blast+
    then show ?thesis using quiet_advance [OF _ Atomic.prems(2) [unfolded advance_Atomic]] by metis
  qed
next
  case (Spawn p q)
  obtain s1 p1 sp1 where 1: "advance p s = (s1, p1, sp1)" by (cases "advance p s")
  obtain s2 q2 sp2 where 2: "advance q s1 = (s2, q2, sp2)" by (cases "advance q s1")
  have "s' = s2" "p' = q2" "sp = p1 # sp1 @ sp2" using Spawn.prems(2) advance_Spawn [OF 1 2] by auto
  moreover have "quiet pending p1 \<and> (\<forall>t \<in> set sp1. quiet pending t)"
    using quiet_advance [of pending, OF _ 1] Spawn.prems(1) by simp
  moreover have "(closes pending q2 \<or> pending s2 = None \<and> quiet pending q2) \<and> (\<forall>t \<in> set sp2. quiet pending t)"
    using Spawn.IH(2) [OF _ 2] Spawn.prems(1) by simp
  ultimately show ?case by auto
next
  case (Gather gs q)
  have "closes pending q" using Gather.prems(1) unfolding closes.simps by blast
  then show ?case using Gather.IH Gather.prems by (cases "gs = []") (simp_all only: advance.simps if_True if_False, auto)
qed auto

lemma quiet_answered: "answered t s s1 p1 \<Longrightarrow> quiet pending t \<Longrightarrow> pending s1 = pending s \<and> quiet pending p1"
  by (induction rule: answered.induct) (auto dest!: in_set_takeD in_set_dropD split: prod.splits, metis nth_mem prod.collapse)

lemma closes_answered: "answered t s s1 p1 \<Longrightarrow> closes pending t \<Longrightarrow> closes pending p1"
  by (induction rule: answered.induct) (auto dest!: in_set_takeD in_set_dropD split: prod.splits)

text \<open>
  The contract of a hook: it is not busy when it is mounted, and every handler is quiet or closes.
\<close>

locale busy_hook =
  fixes pending :: "'s \<Rightarrow> 'k option" and H :: "('s \<Rightarrow> 's prog) set" and I :: "'s set"
  assumes mounted_idle: "s \<in> I \<Longrightarrow> pending s = None"
    and handler_ok: "h \<in> H \<Longrightarrow> quiet pending (h s) \<or> closes pending (h s)"
begin

definition task_ok :: "'s prog \<Rightarrow> bool" where
  "task_ok t \<longleftrightarrow> quiet pending t \<or> closes pending t"

definition idle_when_quiet :: "'s \<times> 's prog list \<Rightarrow> bool" where
  "idle_when_quiet x \<longleftrightarrow> (\<forall>t \<in> set (snd x). task_ok t) \<and>
     ((\<forall>t \<in> set (snd x). \<not> closes pending t) \<longrightarrow> pending (fst x) = None)"

lemma in_live: "t \<in> set (live ps) \<Longrightarrow> t \<in> set ps"
  by (auto simp: live_def)

lemma task_ok_advance:
  assumes "task_ok p" and "advance p s = (s', p', sp)" and "t \<in> set (live (p' # sp))"
  shows "task_ok t"
  using assms(1) in_live [OF assms(3)] quiet_advance [of pending, OF _ assms(2)] closes_advance [of pending, OF _ assms(2)]
  unfolding task_ok_def by auto

lemma advance_clears:
  assumes "task_ok p" and "advance p s = (s', p', sp)" and "\<forall>t \<in> set (live (p' # sp)). \<not> closes pending t"
    and "\<not> closes pending p \<Longrightarrow> pending s = None"
  shows "pending s' = None"
proof (cases "closes pending p")
  case True
  have "\<not> closes pending p'" using assms(3) by (cases "p' = Done") (auto simp: live_def)
  then show ?thesis using closes_advance [of pending, OF True assms(2)] by blast
next
  case False
  then have "quiet pending p" using assms(1) unfolding task_ok_def by blast
  from quiet_advance [of pending, OF this assms(2)] show ?thesis using assms(4) [OF False] by simp
qed

lemma idle_when_quiet_answer:
  assumes "answer_step x y" and "idle_when_quiet x"
  shows "idle_when_quiet y"
  using assms(1)
proof (cases rule: answer_step.cases)
  case (go_on t s s1 p1 s2 p2 sp us vs)
  have t: "task_ok t" using assms(2) go_on(1) by (simp add: idle_when_quiet_def)
  have p1: "task_ok p1"
    using t quiet_answered [OF go_on(3), of pending] closes_answered [OF go_on(3), of pending] unfolding task_ok_def by blast
  have "task_ok t'" if "t' \<in> set (us @ live (p2 # sp) @ vs)" for t'
    using that assms(2) go_on(1) task_ok_advance [OF p1 go_on(4)] by (auto simp: idle_when_quiet_def)
  moreover have "pending s2 = None" if n: "\<forall>t' \<in> set (us @ live (p2 # sp) @ vs). \<not> closes pending t'"
  proof (rule advance_clears [OF p1 go_on(4)])
    show "\<forall>t' \<in> set (live (p2 # sp)). \<not> closes pending t'" using n by simp
    assume "\<not> closes pending p1"
    then have c: "\<not> closes pending t" using closes_answered [OF go_on(3), of pending] by blast
    then have "quiet pending t" using t unfolding task_ok_def by blast
    then have "pending s1 = pending s" using quiet_answered [OF go_on(3), of pending] by blast
    then show "pending s1 = None" using assms(2) go_on(1) c n by (auto simp: idle_when_quiet_def)
  qed
  ultimately show ?thesis using go_on(2) by (simp add: idle_when_quiet_def)
qed

lemma idle_when_quiet_trigger:
  assumes "h \<in> H" and "advance (h s) s = (s', p, sp)" and "idle_when_quiet (s, ts)"
  shows "idle_when_quiet (s', live (p # sp) @ ts)"
proof -
  have ok: "task_ok (h s)" using handler_ok [OF assms(1)] unfolding task_ok_def by blast
  have "task_ok t" if "t \<in> set (live (p # sp) @ ts)" for t
    using that assms(3) task_ok_advance [OF ok assms(2)] by (auto simp: idle_when_quiet_def)
  moreover have "pending s' = None" if n: "\<forall>t \<in> set (live (p # sp) @ ts). \<not> closes pending t"
  proof (rule advance_clears [OF ok assms(2)])
    show "\<forall>t \<in> set (live (p # sp)). \<not> closes pending t" using n by simp
    show "pending s = None" using assms(3) n by (simp add: idle_when_quiet_def)
  qed
  ultimately show ?thesis by (simp add: idle_when_quiet_def)
qed

lemma reachable_idle_when_quiet: "hook_reachable H I x \<Longrightarrow> idle_when_quiet x"
proof (induction rule: hook_reachable.induct)
  case (mounted s)
  then show ?case by (simp add: idle_when_quiet_def mounted_idle)
next
  case (moved x y)
  from moved(2) show ?case
  proof (cases rule: hook_step.cases)
    case (trigger h s s' p sp ts)
    then show ?thesis using idle_when_quiet_trigger moved(3) by simp
  next
    case answer
    then show ?thesis using idle_when_quiet_answer moved(3) by blast
  qed
qed

lemma idle_after_answers: "hook_reachable H I (s, []) \<Longrightarrow> pending s = None"
  using reachable_idle_when_quiet [of "(s, [])"] by (simp add: idle_when_quiet_def)

end

text \<open>Whatever is in flight can be answered until nothing is.\<close>

definition waiting :: "'s prog \<Rightarrow> bool" where
  "waiting p = (case p of Call _ _ \<Rightarrow> True | Await _ \<Rightarrow> True | Gather gs _ \<Rightarrow> gs \<noteq> [] | _ \<Rightarrow> False)"

lemma waiting_answered: "waiting p \<Longrightarrow> \<exists>s1 p1. answered p s s1 p1"
  by (cases p) (auto simp: waiting_def intro: answered.intros)

lemma advance_waits: "advance p s = (s', p', sp) \<Longrightarrow> t \<in> set (live (p' # sp)) \<Longrightarrow> waiting t"
proof (induction p arbitrary: s s' p' sp)
  case (Atomic f)
  have "snd (f s) \<in> Basic_BNFs.snds (f s)" by (cases "f s") auto
  then show ?case using Atomic.IH [OF rangeI _ Atomic.prems(1) [unfolded advance_Atomic] Atomic.prems(2)] by blast
next
  case (Spawn p q)
  obtain s1 p1 sp1 where 1: "advance p s = (s1, p1, sp1)" by (cases "advance p s")
  obtain s2 q2 sp2 where 2: "advance q s1 = (s2, q2, sp2)" by (cases "advance q s1")
  have "p' = q2" "sp = p1 # sp1 @ sp2" using Spawn.prems(1) advance_Spawn [OF 1 2] by auto
  then have "t \<in> set (live (p1 # sp1)) \<or> t \<in> set (live (q2 # sp2))" using Spawn.prems(2) by (auto simp: live_def split: if_splits)
  then show ?case using Spawn.IH(1) [OF 1] Spawn.IH(2) [OF 2] by blast
next
  case (Gather gs q)
  then show ?case by (cases "gs = []") (auto simp: live_def waiting_def)
qed (auto simp: live_def waiting_def)

definition all_waiting :: "'s \<times> 's prog list \<Rightarrow> bool" where
  "all_waiting x \<longleftrightarrow> (\<forall>t \<in> set (snd x). waiting t)"

lemma all_waiting_answer: "answer_step x y \<Longrightarrow> all_waiting x \<Longrightarrow> all_waiting y"
  by (induction rule: answer_step.induct) (auto simp: all_waiting_def dest: advance_waits)

lemma all_waiting_reachable: "hook_reachable H I x \<Longrightarrow> all_waiting x"
proof (induction rule: hook_reachable.induct)
  case (moved x y)
  from moved(2) show ?case
  proof (cases rule: hook_step.cases)
    case (trigger h s s' p sp ts)
    then show ?thesis using moved(3) by (auto simp: all_waiting_def dest: advance_waits)
  next
    case answer
    then show ?thesis using all_waiting_answer moved(3) by blast
  qed
qed (simp add: all_waiting_def)

lemma drains: "all_waiting x \<Longrightarrow> \<exists>s. answer_step\<^sup>*\<^sup>* x (s, [])"
proof (induction x rule: wfp_induct [OF answers_terminate])
  case (1 x)
  obtain s ts where x: "x = (s, ts)" by (cases x)
  show ?case
  proof (cases ts)
    case Nil
    then show ?thesis using x by blast
  next
    case (Cons t us)
    then have "waiting t" using 1(2) x by (simp add: all_waiting_def)
    then obtain s1 p1 where a: "answered t s s1 p1" using waiting_answered [of t s] by auto
    obtain s2 p2 sp where b: "advance p1 s1 = (s2, p2, sp)" by (cases "advance p1 s1")
    have step: "answer_step x (s2, live (p2 # sp) @ us)" using answer_step.go_on [OF a b, of "[]" us] x Cons by simp
    moreover have "all_waiting (s2, live (p2 # sp) @ us)" using all_waiting_answer [OF step 1(2)] .
    ultimately obtain s' where "answer_step\<^sup>*\<^sup>* (s2, live (p2 # sp) @ us) (s', [])" using 1(1) by blast
    with step show ?thesis by (meson converse_rtranclp_into_rtranclp)
  qed
qed

lemma reachable_answers: "answer_step\<^sup>*\<^sup>* x y \<Longrightarrow> hook_reachable H I x \<Longrightarrow> hook_reachable H I y"
  by (induction rule: rtranclp_induct) (auto intro: hook_reachable.moved hook_step.answer)

section \<open>The requests of a hook\<close>

text \<open>Every request a program can send, in whatever states its steps run and whatever is answered, satisfies \<open>P\<close>.\<close>

primrec sends_only :: "(request \<Rightarrow> bool) \<Rightarrow> 's prog \<Rightarrow> bool" where
  "sends_only P Done = True"
| "sends_only P (Atomic f) = (\<forall>s. snd (map_prod id (sends_only P) (f s)))"
| "sends_only P (Call rq k) = (P rq \<and> (\<forall>r. sends_only P (k r)))"
| "sends_only P (Await k) = (\<forall>b. sends_only P (k b))"
| "sends_only P (Spawn p q) = (sends_only P p \<and> sends_only P q)"
| "sends_only P (Gather gs q) = ((\<forall>g \<in> set gs. P (fst g)) \<and> sends_only P q)"

lemma sends_only_Atomic [simp]: "sends_only P (Atomic f) \<longleftrightarrow> (\<forall>s. sends_only P (snd (f s)))"
  by simp

declare sends_only.simps(2) [simp del]

text \<open>What a program in flight is waiting for.\<close>

primrec outstanding :: "'s prog \<Rightarrow> request list" where
  "outstanding Done = []"
| "outstanding (Atomic f) = []"
| "outstanding (Call rq k) = [rq]"
| "outstanding (Await k) = []"
| "outstanding (Spawn p q) = []"
| "outstanding (Gather gs q) = map fst gs"

lemma sends_only_outstanding: "sends_only P p \<Longrightarrow> \<forall>rq \<in> set (outstanding p). P rq"
  by (cases p) auto

lemma sends_only_answered: "answered t s s1 p1 \<Longrightarrow> sends_only P t \<Longrightarrow> sends_only P p1"
  by (induction rule: answered.induct) (auto dest: in_set_takeD in_set_dropD)

lemma sends_only_advance:
  "sends_only P p \<Longrightarrow> advance p s = (s', p', sp) \<Longrightarrow> \<forall>t \<in> set (p' # sp). sends_only P t"
proof (induction p arbitrary: s s' p' sp)
  case (Atomic f)
  have "snd (f s) \<in> Basic_BNFs.snds (f s)" by (cases "f s") auto
  moreover have "sends_only P (snd (f s))" using Atomic.prems(1) by simp
  ultimately show ?case using Atomic.IH [OF rangeI _ _ Atomic.prems(2) [unfolded advance_Atomic]] by blast
next
  case (Spawn p q)
  obtain s1 p1 sp1 where 1: "advance p s = (s1, p1, sp1)" by (cases "advance p s")
  obtain s2 q2 sp2 where 2: "advance q s1 = (s2, q2, sp2)" by (cases "advance q s1")
  have "p' = q2" "sp = p1 # sp1 @ sp2" using Spawn.prems(2) advance_Spawn [OF 1 2] by auto
  moreover have "sends_only P p" "sends_only P q" using Spawn.prems(1) by simp_all
  moreover from Spawn.IH(1) [OF this(1) 1] Spawn.IH(2) [OF this(2) 2]
  have "\<forall>t \<in> set (p1 # sp1) \<union> set (q2 # sp2). sends_only P t" by blast
  ultimately show ?case by simp
next
  case (Gather gs q)
  have q: "sends_only P q" using Gather.prems(1) by simp
  show ?case
  proof (cases "gs = []")
    case True
    then have "advance q s = (s', p', sp)" using Gather.prems(2) by simp
    then show ?thesis by (rule Gather.IH [OF q])
  next
    case False
    then have "p' = Gather gs q" "sp = []" using Gather.prems(2) by simp_all
    then show ?thesis using Gather.prems(1) by simp
  qed
qed auto

text \<open>A hook with a policy on its requests keeps to it in every session.\<close>

locale request_policy =
  fixes P :: "request \<Rightarrow> bool" and H :: "('s \<Rightarrow> 's prog) set"
  assumes handler_sends: "h \<in> H \<Longrightarrow> sends_only P (h s)"
begin

lemma reachable_sends: "hook_reachable H I x \<Longrightarrow> \<forall>t \<in> set (snd x). sends_only P t"
proof (induction rule: hook_reachable.induct)
  case (moved x y)
  from moved(2) show ?case
  proof (cases rule: hook_step.cases)
    case (trigger h s s' p sp ts)
    have "sends_only P (h s)" by (rule handler_sends [OF trigger(3)])
    then have "\<forall>t \<in> set (p # sp). sends_only P t" by (rule sends_only_advance [OF _ trigger(4)])
    then show ?thesis using trigger(1,2) moved(3) by (auto simp: live_def split: if_splits)
  next
    case answer
    then show ?thesis
    proof (cases rule: answer_step.cases)
      case (go_on t s s1 p1 s2 p2 sp us vs)
      have "sends_only P p1" using sends_only_answered [OF go_on(3)] moved(3) go_on(1) by simp
      from sends_only_advance [OF this go_on(4)] show ?thesis using go_on(1,2) moved(3) by (auto simp: live_def split: if_splits)
    qed
  qed
qed simp

lemma reachable_outstanding: "hook_reachable H I (s, ts) \<Longrightarrow> \<forall>rq \<in> set (concat (map outstanding ts)). P rq"
  using reachable_sends [of I "(s, ts)"] sends_only_outstanding by fastforce

end

text \<open>A program sends a request after a history of exchanges: whatever state its steps run in, which covers
  everything other handlers may do in between.\<close>

inductive sends_after :: "'s prog \<Rightarrow> (request \<times> response result) list \<Rightarrow> request \<Rightarrow> bool" where
  now: "sends_after (Call rq k) [] rq"
| later: "sends_after (k r) h rq' \<Longrightarrow> sends_after (Call rq k) ((rq, r) # h) rq'"
| atomic: "sends_after (snd (f s)) h rq \<Longrightarrow> sends_after (Atomic f) h rq"
| awaited: "sends_after (k b) h rq \<Longrightarrow> sends_after (Await k) h rq"
| spawned: "sends_after p h rq \<Longrightarrow> sends_after (Spawn p q) h rq"
| spawning: "sends_after q h rq \<Longrightarrow> sends_after (Spawn p q) h rq"
| gathered: "g \<in> set gs \<Longrightarrow> sends_after (Gather gs q) [] (fst g)"
| gathering: "sends_after q h rq \<Longrightarrow> sends_after (Gather gs q) h rq"

inductive_simps sends_after_Done [simp]: "sends_after Done h rq"
inductive_simps sends_after_Call [simp]: "sends_after (Call rq k) h rq'"
inductive_simps sends_after_Atomic [simp]: "sends_after (Atomic f) h rq"

lemma sends_only_after: "sends_after p h rq \<Longrightarrow> sends_only P p \<Longrightarrow> P rq"
  by (induction rule: sends_after.induct) auto

section \<open>Running one handler\<close>

text \<open>A handler run on its own with the given answers: the state it leaves and the requests it sent. It stops
  when it is done, when it waits for something else than a response, or when the answers are used up.\<close>

fun play :: "response result list \<Rightarrow> 's prog \<Rightarrow> 's \<Rightarrow> 's \<times> request list" where
  "play rs p s = (case advance p s of (s', p', sp) \<Rightarrow>
     (case p' of
        Call rq k \<Rightarrow> (case rs of [] \<Rightarrow> (s', [rq])
          | r # rest \<Rightarrow> map_prod id (Cons rq) (play rest (k r) s'))
      | _ \<Rightarrow> (s', [])))"

lemma play_Done [simp]: "play rs Done s = (s, [])"
  by simp

lemma play_Atomic [simp]: "play rs (Atomic f) s = play rs (snd (f s)) (fst (f s))"
  by (subst (1 2) play.simps) (simp add: advance_Atomic)

lemma play_Call [simp]:
  "play [] (Call rq k) s = (s, [rq])"
  "play (r # rest) (Call rq k) s = map_prod id (Cons rq) (play rest (k r) s)"
  by (subst play.simps, simp)+

declare play.simps [simp del]

end
