(* ===== verification/Organizer_State.thy ===== *)
theory Organizer_State
  imports Admin_Dashboard
begin

text \<open>
  The organizer's dashboard in the browser (\<open>components/admin/use-organizer-dashboard.ts\<close>), first part:
  its data, the state of the hook, the query builders, and the state changes its handlers make. The
  handlers themselves are in theory \<open>Organizer_Handlers\<close>.
\<close>

section \<open>Data\<close>

record AdminWireGuardPeer =
  wp_player_id :: int
  wp_team_id :: int
  wp_team_name :: string
  wp_display_name :: string
  wp_email :: "string option"
  wp_wireguard_peer :: string
  wp_address :: string
  wp_status :: string
  wp_server_endpoint :: string
  wp_server_public_key :: string
  wp_client_public_key :: string
  wp_allowed_ips :: string
  wp_dns :: string
  wp_config :: string
  wp_download_name :: string
  wp_issued_at :: string
  wp_revoked_at :: "string option"

record AdminWireGuardGatewayStatus =
  wg_state :: string
  wg_mode :: string
  wg_interface :: "string option"
  wg_firewall_backend :: "string option"
  wg_config_path :: "string option"
  wg_peers_path :: "string option"
  wg_rules_path :: "string option"
  wg_status_path :: "string option"
  wg_peers_total :: int
  wg_peers_active :: int
  wg_peers_revoked :: int
  wg_revision :: "string option"
  wg_applied_at :: "string option"
  wg_last_error :: "string option"

record AdminControllerAccessStatus =
  cs_state :: string
  cs_mode :: string
  cs_interface :: "string option"
  cs_firewall_backend :: "string option"
  cs_rules_path :: "string option"
  cs_status_path :: "string option"
  cs_policies_total :: int
  cs_ssh_open_services :: int
  cs_ssh_locked_services :: int
  cs_allowed_peers_total :: int
  cs_revision :: "string option"
  cs_applied_at :: "string option"
  cs_last_error :: "string option"

record AdminDeployment =
  dp_job_id :: int
  dp_challenge_id :: int
  dp_challenge_name :: string
  dp_status :: string
  dp_published :: bool
  dp_deployed_team_count :: int
  dp_total_team_count :: int
  dp_queued_team_count :: int
  dp_ready_team_count :: int
  dp_created_at :: string
  dp_completed_at :: "string option"

record AdminReconcileResult =
  rr_processed_jobs :: int
  rr_processed_instances :: int
  rr_completed_jobs :: int

record AdminScoringAuditMismatch =
  mm_team :: string
  mm_field :: string
  mm_stored :: rat
  mm_replayed :: rat
  mm_delta :: rat
  mm_detail :: "string option"

record AdminScoringAudit =
  sa_status :: string
  sa_stored_rows :: int
  sa_replayed_rows :: int
  sa_mismatch_count :: int
  sa_mismatches :: "AdminScoringAuditMismatch list"

text \<open>The parts of the evidence report the hook reads: the failed sections and the summary.\<close>

record AdminRuntimeEvidenceReport =
  re_failures :: "(string \<times> string) list"
  re_summary :: string

record TeamDraft =
  td_contactEmail :: string
  td_name :: string

record PlayerDraft =
  pd_displayName :: string
  pd_email :: string
  pd_password :: string
  pd_role :: string
  pd_teamId :: int

record ChallengeDraft =
  cd_baselineImage :: string
  cd_checkerImage :: string
  cd_name :: string
  cd_sourceBundlePath :: string
  cd_servicePort :: string
  cd_serviceSubnetOctet :: string
  cd_egressEnabled :: bool

datatype target_kind = DeleteTeam | DeletePlayer | DeleteChallenge | DeleteDeployment

record DeleteTarget =
  dt_kind :: target_kind
  dt_id :: int
  dt_label :: string
  dt_warning :: "string option"

record CheckerRunFilters =
  cf_limit :: string
  cf_offset :: string
  cf_tickId :: string
  cf_teamId :: string
  cf_challengeId :: string
  cf_phase :: string
  cf_status :: string

record SchedulerEventFilters =
  ef_limit :: string
  ef_offset :: string
  ef_eventType :: string
  ef_source :: string
  ef_state :: string

datatype form_mode = CreateMode | EditMode
datatype form_entity = TeamForm | PlayerForm | ChallengeForm

record OrganizerSummary =
  sm_pendingDeployments :: nat
  sm_pendingDrafts :: nat
  sm_players :: nat
  sm_publishedChallenges :: nat
  sm_teams :: nat
  sm_totalTicks :: int

text \<open>The type assertions on the answers the hook reads.\<close>

record hook_types =
  ht_team :: "json option \<Rightarrow> AdminTeam"
  ht_player :: "json option \<Rightarrow> AdminPlayer"
  ht_challenge :: "json option \<Rightarrow> AdminChallenge"
  ht_validation :: "json option \<Rightarrow> AdminChallengeValidationResult"
  ht_deployment :: "json option \<Rightarrow> AdminDeployment"
  ht_deployments :: "json option \<Rightarrow> AdminDeploymentJob list"
  ht_reconcile :: "json option \<Rightarrow> AdminReconcileResult"
  ht_peer :: "json option \<Rightarrow> AdminWireGuardPeer"
  ht_gateway :: "json option \<Rightarrow> AdminWireGuardGatewayStatus"
  ht_access :: "json option \<Rightarrow> AdminControllerAccessStatus"
  ht_operations :: "json option \<Rightarrow> AdminOperationsStatus"
  ht_report :: "json option \<Rightarrow> AdminRuntimeEvidenceReport"
  ht_status :: "json option \<Rightarrow> AdminGameStatus"
  ht_match :: "json option \<Rightarrow> AdminGameMatchStatus option"
  ht_scheduler :: "json option \<Rightarrow> AdminGameSchedulerStatus option"
  ht_tick :: "json option \<Rightarrow> AdminGameTickStatus"
  ht_attacks :: "json option \<Rightarrow> AttackFeedPage"
  ht_runs :: "json option \<Rightarrow> AdminCheckerRunPage"
  ht_events :: "json option \<Rightarrow> AdminSchedulerEventPage"
  ht_scores :: "json option \<Rightarrow> AdminGameScoreRow list"
  ht_audit :: "json option \<Rightarrow> AdminScoringAudit"

section \<open>State\<close>

text \<open>
  The state of the hook, with the clock of the page (\<open>performance.now()\<close>, in milliseconds) and the refs
  that hold a value of their own. The refs that only mirror a state variable after a render
  (\<open>pendingActionRef\<close>, \<open>attackPageRef\<close> and the three \<open>LiveRef\<close>s) are that variable.
\<close>

record organizer =
  od_teamRows :: "AdminTeam list"
  od_playerRows :: "AdminPlayer list"
  od_challengeRows :: "AdminChallenge list"
  od_deploymentRows :: "AdminDeploymentJob list"
  od_gameState :: AdminGameStatus
  od_schedulerEventPage :: AdminSchedulerEventPage
  od_checkerRunPage :: AdminCheckerRunPage
  od_attackPage :: AttackFeedPage
  od_scoreRows :: "AdminGameScoreRow list"
  od_scoringAudit :: "AdminScoringAudit option"
  od_validations :: "int \<Rightarrow> AdminChallengeValidationResult option"
  od_selectedPeer :: "AdminWireGuardPeer option"
  od_accessStatus :: "AdminControllerAccessStatus option"
  od_gatewayStatus :: "AdminWireGuardGatewayStatus option"
  od_operationsStatus :: "AdminOperationsStatus option"
  od_serviceMetrics :: "json option"
  od_wireGuardDialogOpen :: bool
  od_deleteTarget :: "DeleteTarget option"
  od_formMode :: "form_mode option"
  od_formEntity :: "form_entity option"
  od_editingId :: "int option"
  od_pendingAction :: "string option"
  od_actionError :: "string option"
  od_actionNote :: "string option"
  od_teamDraft :: TeamDraft
  od_playerDraft :: PlayerDraft
  od_challengeDraft :: ChallengeDraft
  od_checkerRunFilters :: CheckerRunFilters
  od_attackFilters :: AttackFilters
  od_schedulerEventFilters :: SchedulerEventFilters
  od_initialFilters :: AttackFilters
  od_highlights :: highlight_state
  od_now :: int
  od_suppressedUntil :: int
  od_lastAuditTick :: "int option"

definition defaultCheckerRunFilters :: CheckerRunFilters where
  "defaultCheckerRunFilters = \<lparr>cf_limit = ''18'', cf_offset = ''0'', cf_tickId = [], cf_teamId = [], cf_challengeId = [],
     cf_phase = [], cf_status = []\<rparr>"

definition defaultSchedulerEventFilters :: SchedulerEventFilters where
  "defaultSchedulerEventFilters = \<lparr>ef_limit = ''12'', ef_offset = ''0'', ef_eventType = [], ef_source = [], ef_state = []\<rparr>"

definition emptyTeamDraft :: TeamDraft where
  "emptyTeamDraft = \<lparr>td_contactEmail = [], td_name = []\<rparr>"

definition emptyPlayerDraft :: PlayerDraft where
  "emptyPlayerDraft = \<lparr>pd_displayName = [], pd_email = [], pd_password = [], pd_role = ''member'', pd_teamId = 0\<rparr>"

definition emptyChallengeDraft :: ChallengeDraft where
  "emptyChallengeDraft = \<lparr>cd_baselineImage = [], cd_checkerImage = [], cd_name = [], cd_sourceBundlePath = [],
     cd_servicePort = [], cd_serviceSubnetOctet = [], cd_egressEnabled = True\<rparr>"

definition challengeValidationRowsFromChallenges ::
  "AdminChallenge list \<Rightarrow> int \<Rightarrow> AdminChallengeValidationResult option" where
  "challengeValidationRowsFromChallenges challenges =
     map_of (rev (map (\<lambda>c. (ac_id c, the (ac_last_validation c))) (filter (\<lambda>c. ac_last_validation c \<noteq> None) challenges)))"

text \<open>The hook is mounted with the data the server loaded.\<close>

definition useOrganizerDashboard :: "AdminDashboardData \<Rightarrow> organizer" where
  "useOrganizerDashboard d =
     \<lparr>od_teamRows = ad_teams d, od_playerRows = ad_players d, od_challengeRows = ad_challenges d,
      od_deploymentRows = ad_deployments d, od_gameState = ad_gameStatus d,
      od_schedulerEventPage = ad_schedulerEventPage d, od_checkerRunPage = ad_checkerRunPage d,
      od_attackPage = ad_attackPage d, od_scoreRows = ad_scoreboard d, od_scoringAudit = None,
      od_validations = challengeValidationRowsFromChallenges (ad_challenges d), od_selectedPeer = None,
      od_accessStatus = None, od_gatewayStatus = None, od_operationsStatus = ao_operationsStatus (ad_overview d),
      od_serviceMetrics = ad_serviceMetrics d, od_wireGuardDialogOpen = False, od_deleteTarget = None,
      od_formMode = None, od_formEntity = None, od_editingId = None, od_pendingAction = None, od_actionError = None,
      od_actionNote = None, od_teamDraft = emptyTeamDraft, od_playerDraft = emptyPlayerDraft,
      od_challengeDraft = emptyChallengeDraft, od_checkerRunFilters = defaultCheckerRunFilters,
      od_attackFilters = initialAttackFilters (ad_attackPage d), od_schedulerEventFilters = defaultSchedulerEventFilters,
      od_initialFilters = initialAttackFilters (ad_attackPage d), od_highlights = initial_highlights,
      od_now = 0, od_suppressedUntil = 0, od_lastAuditTick = None\<rparr>"

section \<open>Derived values\<close>

definition organizer_summary :: "organizer \<Rightarrow> OrganizerSummary" where
  "organizer_summary s =
     \<lparr>sm_pendingDeployments = length (filter (\<lambda>d. dj_status d \<noteq> ''completed'') (od_deploymentRows s)),
      sm_pendingDrafts = length (filter (\<lambda>c. \<not> ac_published c) (od_challengeRows s)),
      sm_players = length (od_playerRows s),
      sm_publishedChallenges = length (filter ac_published (od_challengeRows s)),
      sm_teams = length (od_teamRows s),
      sm_totalTicks = ag_total_ticks (od_gameState s)\<rparr>"

definition isDefaultCheckerRunFilters :: "CheckerRunFilters \<Rightarrow> bool" where
  "isDefaultCheckerRunFilters f \<longleftrightarrow> cf_limit f = cf_limit defaultCheckerRunFilters \<and>
     cf_offset f = cf_offset defaultCheckerRunFilters \<and> trim (cf_tickId f) = [] \<and> trim (cf_teamId f) = [] \<and>
     trim (cf_challengeId f) = [] \<and> trim (cf_phase f) = [] \<and> trim (cf_status f) = []"

definition isDefaultSchedulerEventFilters :: "SchedulerEventFilters \<Rightarrow> bool" where
  "isDefaultSchedulerEventFilters f \<longleftrightarrow> ef_limit f = ef_limit defaultSchedulerEventFilters \<and>
     ef_offset f = ef_offset defaultSchedulerEventFilters \<and> trim (ef_eventType f) = [] \<and> trim (ef_source f) = [] \<and>
     trim (ef_state f) = []"

definition attacksLiveMode :: "organizer \<Rightarrow> bool" where
  "attacksLiveMode s \<longleftrightarrow> af_offset (od_initialFilters s) = ''0'' \<and>
     isDefaultAttackFilters (od_attackFilters s) (od_initialFilters s)"

section \<open>Queries\<close>

text \<open>\<open>v || undefined\<close> on a trimmed, lower-cased field, and on a parsed number.\<close>

definition lower_field :: "string \<Rightarrow> query_value option" where
  "lower_field v = map_option QStr (or_undefined (Some (toLowerCase (trim v))))"

definition text_field :: "string \<Rightarrow> string option" where
  "text_field v = or_undefined (Some (trim v))"

definition nonzero :: "int option \<Rightarrow> int option" where
  "nonzero v = (case v of Some n \<Rightarrow> if n = 0 then None else Some n | None \<Rightarrow> None)"

definition buildCheckerRunQuery :: "CheckerRunFilters \<Rightarrow> query_params" where
  "buildCheckerRunQuery f =
     [(''limit'', query_int (parsePositiveInteger (Some (cf_limit f)) (Some 18) 200)),
      (''offset'', query_int (parseNonNegativeInteger (Some (cf_offset f)))),
      (''tick_id'', query_int (parsePositiveInteger (Some (cf_tickId f)) None 0)),
      (''team_id'', query_int (parsePositiveInteger (Some (cf_teamId f)) None 0)),
      (''challenge_id'', query_int (parsePositiveInteger (Some (cf_challengeId f)) None 0)),
      (''phase'', lower_field (cf_phase f)), (''status'', lower_field (cf_status f))]"

definition buildCheckerRunQueryString :: "CheckerRunFilters \<Rightarrow> string" where
  "buildCheckerRunQueryString f = buildQueryString (buildCheckerRunQuery f)"

definition organizer_attack_query :: "AttackFilters \<Rightarrow> AttackFeedQuery" where
  "organizer_attack_query f =
     \<lparr>aq_limit = parsePositiveInteger (Some (af_limit f)) (Some 12) 200,
      aq_offset = parseNonNegativeInteger (Some (af_offset f)),
      aq_attacker = text_field (af_attacker f), aq_victim = text_field (af_victim f), aq_service = text_field (af_service f),
      aq_tick_from = nonzero (parseNonNegativeInteger (Some (af_tickFrom f))),
      aq_tick_to = nonzero (parseNonNegativeInteger (Some (af_tickTo f)))\<rparr>"

definition buildAttackQueryString :: "AttackFilters \<Rightarrow> string" where
  "buildAttackQueryString f = buildQueryString (attack_query (organizer_attack_query f))"

definition buildSchedulerEventQuery :: "SchedulerEventFilters \<Rightarrow> query_params" where
  "buildSchedulerEventQuery f =
     [(''limit'', query_int (parsePositiveInteger (Some (ef_limit f)) (Some 12) 200)),
      (''offset'', query_int (parseNonNegativeInteger (Some (ef_offset f)))),
      (''event_type'', lower_field (ef_eventType f)), (''source'', lower_field (ef_source f)),
      (''state'', lower_field (ef_state f))]"

definition buildSchedulerEventQueryString :: "SchedulerEventFilters \<Rightarrow> string" where
  "buildSchedulerEventQueryString f = buildQueryString (buildSchedulerEventQuery f)"

section \<open>Changes of the tables\<close>

definition map_where :: "('a \<Rightarrow> bool) \<Rightarrow> ('a \<Rightarrow> 'a) \<Rightarrow> 'a list \<Rightarrow> 'a list" where
  "map_where p f xs = map (\<lambda>x. if p x then f x else x) xs"

definition replace_row :: "('a \<Rightarrow> int) \<Rightarrow> int \<Rightarrow> 'a \<Rightarrow> 'a list \<Rightarrow> 'a list" where
  "replace_row key i row rows = map_where (\<lambda>r. key r = i) (\<lambda>_. row) rows"

definition remove_row :: "('a \<Rightarrow> int) \<Rightarrow> int \<Rightarrow> 'a list \<Rightarrow> 'a list" where
  "remove_row key i rows = filter (\<lambda>r. key r \<noteq> i) rows"

definition team_created :: "AdminTeam \<Rightarrow> organizer \<Rightarrow> organizer" where
  "team_created data s = s\<lparr>od_teamRows := od_teamRows s @ [data],
     od_challengeRows := map (\<lambda>c. if ac_published c
       then c\<lparr>ac_total_teams := ac_total_teams c + 1, ac_deployed_teams := ac_deployed_teams c + 1,
              ac_ready_teams := ac_ready_teams c + 1\<rparr>
       else c\<lparr>ac_total_teams := ac_total_teams c + 1\<rparr>) (od_challengeRows s)\<rparr>"

definition team_form_cleared :: "AdminTeam \<Rightarrow> organizer \<Rightarrow> organizer" where
  "team_form_cleared data s = s\<lparr>od_teamDraft := emptyTeamDraft,
     od_playerDraft := (od_playerDraft s)\<lparr>pd_teamId :=
       (if pd_teamId (od_playerDraft s) = 0 then tm_id data else pd_teamId (od_playerDraft s))\<rparr>\<rparr>"

definition player_created :: "AdminPlayer \<Rightarrow> organizer \<Rightarrow> organizer" where
  "player_created data s = s\<lparr>od_playerRows := od_playerRows s @ [data],
     od_teamRows := map_where (\<lambda>t. tm_id t = pl_team_id data) (\<lambda>t. t\<lparr>tm_player_count := tm_player_count t + 1\<rparr>) (od_teamRows s),
     od_playerDraft := (od_playerDraft s)\<lparr>pd_displayName := [], pd_email := [], pd_password := []\<rparr>\<rparr>"

definition applyWireGuardUpdate :: "AdminWireGuardPeer \<Rightarrow> organizer \<Rightarrow> organizer" where
  "applyWireGuardUpdate peer s = s\<lparr>
     od_playerRows := map_where (\<lambda>p. pl_id p = wp_player_id peer)
       (\<lambda>p. p\<lparr>pl_wireguard_peer := wp_wireguard_peer peer, pl_wireguard_address := wp_address peer,
         pl_wireguard_status := wp_status peer, pl_wireguard_issued_at := wp_issued_at peer,
         pl_wireguard_revoked_at := wp_revoked_at peer\<rparr>) (od_playerRows s),
     od_selectedPeer := map_option (\<lambda>cur. if wp_player_id cur = wp_player_id peer then peer else cur) (od_selectedPeer s)\<rparr>"

definition team_deleted :: "int \<Rightarrow> organizer \<Rightarrow> organizer" where
  "team_deleted i s = s\<lparr>od_teamRows := remove_row tm_id i (od_teamRows s),
     od_playerRows := filter (\<lambda>p. pl_team_id p \<noteq> i) (od_playerRows s)\<rparr>"

definition player_deleted :: "int \<Rightarrow> organizer \<Rightarrow> organizer" where
  "player_deleted i s = s\<lparr>od_playerRows := remove_row pl_id i (od_playerRows s)\<rparr>"

definition challenge_deleted :: "int \<Rightarrow> organizer \<Rightarrow> organizer" where
  "challenge_deleted i s = s\<lparr>od_challengeRows := remove_row ac_id i (od_challengeRows s)\<rparr>"

definition deployment_deleted :: "int \<Rightarrow> organizer \<Rightarrow> organizer" where
  "deployment_deleted i s = s\<lparr>od_deploymentRows := remove_row dj_id i (od_deploymentRows s)\<rparr>"

definition challenge_created :: "AdminChallenge \<Rightarrow> organizer \<Rightarrow> organizer" where
  "challenge_created data s = s\<lparr>od_challengeRows := od_challengeRows s @ [data],
     od_validations := (od_validations s)(ac_id data := None), od_challengeDraft := emptyChallengeDraft\<rparr>"

definition challenge_updated :: "int \<Rightarrow> AdminChallenge \<Rightarrow> organizer \<Rightarrow> organizer" where
  "challenge_updated i data s = s\<lparr>od_challengeRows := replace_row ac_id i data (od_challengeRows s),
     od_validations := (od_validations s)(i := None)\<rparr>"

definition applyChallengeValidation :: "AdminChallengeValidationResult \<Rightarrow> organizer \<Rightarrow> organizer" where
  "applyChallengeValidation v s = s\<lparr>od_validations := (od_validations s)(vr_challenge_id v \<mapsto> v)\<rparr>"

definition deployed_challenge :: "int \<Rightarrow> AdminDeployment \<Rightarrow> AdminChallenge list \<Rightarrow> AdminChallenge list" where
  "deployed_challenge i payload rows = map_where (\<lambda>c. ac_id c = i)
     (\<lambda>c. c\<lparr>ac_published := True, ac_deployed_teams := dp_total_team_count payload,
       ac_total_teams := dp_total_team_count payload,
       ac_runtime_status := (if dp_queued_team_count payload > 0 then ''deploying'' else ''ready''),
       ac_queued_teams := dp_queued_team_count payload, ac_ready_teams := dp_ready_team_count payload\<rparr>) rows"

definition job_of :: "AdminDeployment \<Rightarrow> AdminDeploymentJob" where
  "job_of payload = \<lparr>dj_id = dp_job_id payload, dj_challenge_id = dp_challenge_id payload,
     dj_challenge_name = dp_challenge_name payload, dj_status = dp_status payload,
     dj_target_team_count = dp_total_team_count payload, dj_queued_team_count = dp_queued_team_count payload,
     dj_ready_team_count = dp_ready_team_count payload, dj_failed_team_count = 0,
     dj_created_at = dp_created_at payload, dj_completed_at = dp_completed_at payload\<rparr>"

definition supersede :: "AdminDeployment \<Rightarrow> AdminDeploymentJob \<Rightarrow> AdminDeploymentJob" where
  "supersede payload d = d\<lparr>dj_status := ''superseded'', dj_queued_team_count := 0,
     dj_completed_at := Some (dp_created_at payload)\<rparr>"

definition open_job :: "AdminDeployment \<Rightarrow> AdminDeploymentJob \<Rightarrow> bool" where
  "open_job payload d \<longleftrightarrow> dj_challenge_id d = dp_challenge_id payload \<and> (dj_status d = ''queued'' \<or> dj_status d = ''running'')"

definition deployment_rows :: "AdminDeployment \<Rightarrow> AdminDeploymentJob list \<Rightarrow> AdminDeploymentJob list" where
  "deployment_rows payload rows =
     (if dp_job_id payload > 0
      then job_of payload # map_where (\<lambda>d. open_job payload d \<and> dj_id d \<noteq> dp_job_id payload) (supersede payload) rows
      else map_where (open_job payload) (supersede payload) rows)"

definition challenge_deployed :: "AdminChallenge \<Rightarrow> AdminDeployment \<Rightarrow> organizer \<Rightarrow> organizer" where
  "challenge_deployed challenge payload s = s\<lparr>
     od_challengeRows := deployed_challenge (ac_id challenge) payload (od_challengeRows s),
     od_deploymentRows := deployment_rows payload (od_deploymentRows s),
     od_teamRows := (if \<not> ac_published challenge
       then map (\<lambda>t. t\<lparr>tm_deployed_challenges := tm_deployed_challenges t + 1\<rparr>) (od_teamRows s) else od_teamRows s)\<rparr>"

text \<open>A match that is stopped or paused stops the scheduler on screen too.\<close>

definition stopped_scheduler :: "AdminGameSchedulerStatus option \<Rightarrow> AdminGameSchedulerStatus" where
  "stopped_scheduler cur = (coalesce cur \<lparr>as_state = [], as_interval_seconds = 60, as_last_run_at = None,
      as_next_run_at = None, as_last_tick_id = None, as_last_error = None\<rparr>)
     \<lparr>as_state := ''stopped'', as_next_run_at := Some []\<rparr>"

definition match_halted :: "AdminGameMatchStatus option \<Rightarrow> organizer \<Rightarrow> organizer" where
  "match_halted payload s = s\<lparr>od_gameState := (od_gameState s)\<lparr>ag_match := payload,
     ag_scheduler := Some (stopped_scheduler (ag_scheduler (od_gameState s)))\<rparr>\<rparr>"

definition set_match :: "AdminGameMatchStatus option \<Rightarrow> organizer \<Rightarrow> organizer" where
  "set_match m s = s\<lparr>od_gameState := (od_gameState s)\<lparr>ag_match := m\<rparr>\<rparr>"

definition set_scheduler :: "AdminGameSchedulerStatus option \<Rightarrow> organizer \<Rightarrow> organizer" where
  "set_scheduler sch s = s\<lparr>od_gameState := (od_gameState s)\<lparr>ag_scheduler := sch\<rparr>\<rparr>"

definition tick_advanced :: "AdminGameTickStatus \<Rightarrow> organizer \<Rightarrow> organizer" where
  "tick_advanced payload s = (let current = od_gameState s in s\<lparr>od_gameState :=
     \<lparr>ag_current_tick = Some payload, ag_match = None, ag_scheduler = None,
      ag_total_ticks = max (ag_total_ticks current + 1) (at_id payload),
      ag_total_checker_runs = ag_total_checker_runs current + at_total_checker_runs payload,
      ag_successful_checker_runs = ag_successful_checker_runs current + at_successful_checker_runs payload,
      ag_failed_checker_runs = ag_failed_checker_runs current + at_failed_checker_runs payload,
      ag_skipped_checker_runs = ag_skipped_checker_runs current + at_skipped_checker_runs payload\<rparr>\<rparr>)"

section \<open>Dialogs and forms\<close>

definition closeWireGuardDialog :: "organizer \<Rightarrow> organizer" where
  "closeWireGuardDialog s = s\<lparr>od_wireGuardDialogOpen := False\<rparr>"

definition selectDeleteTarget :: "DeleteTarget \<Rightarrow> organizer \<Rightarrow> organizer" where
  "selectDeleteTarget t s = s\<lparr>od_deleteTarget := Some t\<rparr>"

definition closeDeleteDialog :: "organizer \<Rightarrow> organizer" where
  "closeDeleteDialog s = s\<lparr>od_deleteTarget := None\<rparr>"

definition closeFormDialog :: "organizer \<Rightarrow> organizer" where
  "closeFormDialog s = s\<lparr>od_formMode := None, od_formEntity := None, od_editingId := None\<rparr>"

definition default_team :: "organizer \<Rightarrow> int" where
  "default_team s = (case find (\<lambda>t. tm_id t = pd_teamId (od_playerDraft s)) (od_teamRows s) of
     Some t \<Rightarrow> tm_id t
   | None \<Rightarrow> (case od_teamRows s of t # _ \<Rightarrow> tm_id t | [] \<Rightarrow> 0))"

definition openCreateDialog :: "form_entity \<Rightarrow> organizer \<Rightarrow> organizer" where
  "openCreateDialog entity s = (
     let s1 = s\<lparr>od_formMode := Some CreateMode, od_formEntity := Some entity, od_editingId := None,
                od_actionError := None, od_actionNote := None\<rparr> in
     case entity of
       TeamForm \<Rightarrow> s1\<lparr>od_teamDraft := emptyTeamDraft\<rparr>
     | PlayerForm \<Rightarrow> s1\<lparr>od_playerDraft := (od_playerDraft s1)\<lparr>pd_teamId := default_team s, pd_displayName := [],
         pd_email := [], pd_password := [], pd_role := ''member''\<rparr>\<rparr>
     | ChallengeForm \<Rightarrow> s1\<lparr>od_challengeDraft := emptyChallengeDraft\<rparr>)"

definition openEditDialog :: "form_entity \<Rightarrow> int \<Rightarrow> organizer \<Rightarrow> organizer" where
  "openEditDialog entity i s = (
     let s1 = s\<lparr>od_formMode := Some EditMode, od_formEntity := Some entity, od_editingId := Some i,
                od_actionError := None, od_actionNote := None\<rparr> in
     case entity of
       TeamForm \<Rightarrow> (case find (\<lambda>t. tm_id t = i) (od_teamRows s) of
           None \<Rightarrow> s1
         | Some t \<Rightarrow> s1\<lparr>od_teamDraft := \<lparr>td_contactEmail = tm_contact_email t, td_name = tm_name t\<rparr>\<rparr>)
     | PlayerForm \<Rightarrow> (case find (\<lambda>p. pl_id p = i) (od_playerRows s) of
           None \<Rightarrow> s1
         | Some p \<Rightarrow> s1\<lparr>od_playerDraft := \<lparr>pd_displayName = pl_display_name p, pd_email = pl_email p, pd_password = [],
             pd_role = pl_role p, pd_teamId = pl_team_id p\<rparr>\<rparr>)
     | ChallengeForm \<Rightarrow> (case find (\<lambda>c. ac_id c = i) (od_challengeRows s) of
           None \<Rightarrow> s1
         | Some c \<Rightarrow> s1\<lparr>od_challengeDraft := \<lparr>cd_baselineImage = ac_baseline_image c, cd_checkerImage = ac_checker_image c,
             cd_name = ac_name c, cd_sourceBundlePath = ac_source_bundle_path c,
             cd_servicePort = int_to_string (ac_service_port c),
             cd_serviceSubnetOctet = int_to_string (ac_service_subnet_octet c),
             cd_egressEnabled = ac_egress_enabled c\<rparr>\<rparr>))"

end
