(* ===== verification/Organizer_Handlers.thy ===== *)
theory Organizer_Handlers
  imports Organizer_State Hook_Program
begin

text \<open>
  The organizer's dashboard in the browser (\<open>components/admin/use-organizer-dashboard.ts\<close>), second part:
  its handlers as programs of theory \<open>Hook_Program\<close>, one definition per function of the hook. A handler
  gets the type assertions \<open>c\<close> and, where the function closes over state, the state \<open>s0\<close> of the render
  it was clicked in; the argument \<open>k\<close> of a function that is awaited by others is what comes after it.
\<close>

section \<open>Building blocks\<close>

definition update :: "('s \<Rightarrow> 's) \<Rightarrow> 's prog \<Rightarrow> 's prog" where
  "update f p = Atomic (\<lambda>s. (f s, p))"

definition start :: "string \<Rightarrow> organizer \<Rightarrow> organizer" where
  "start key s = s\<lparr>od_pendingAction := Some key, od_actionError := None, od_actionNote := None\<rparr>"

definition finish :: "organizer \<Rightarrow> organizer" where
  "finish s = s\<lparr>od_pendingAction := None\<rparr>"

definition set_note :: "string \<Rightarrow> organizer \<Rightarrow> organizer" where
  "set_note n s = s\<lparr>od_actionNote := Some n\<rparr>"

definition fail :: "js_error \<Rightarrow> string \<Rightarrow> organizer \<Rightarrow> organizer" where
  "fail e fallback s = s\<lparr>od_actionError := Some (message_or e fallback)\<rparr>"

definition loud :: "bool \<Rightarrow> (organizer \<Rightarrow> organizer) \<Rightarrow> organizer \<Rightarrow> organizer" where
  "loud silent f = (if silent then (\<lambda>s. s) else f)"

definition read_answer :: "string \<Rightarrow> response result \<Rightarrow> json option result" where
  "read_answer path r = (case r of Inl e \<Rightarrow> Inl e | Inr resp \<Rightarrow> processApiResponse resp path)"

definition fetchJson ::
  "request \<Rightarrow> string \<Rightarrow> (json option \<Rightarrow> 's prog) \<Rightarrow> (js_error \<Rightarrow> 's prog) \<Rightarrow> 's prog" where
  "fetchJson rq path onOk onError = Call rq (\<lambda>r. case read_answer path r of Inl e \<Rightarrow> onError e | Inr v \<Rightarrow> onOk v)"

text \<open>The frame of most handlers: mark the action, send, and on either outcome clear the mark. \<open>onOk\<close> is
  the rest of the \<open>try\<close> block; it gets what follows the \<open>finally\<close> as its last argument.\<close>

definition action ::
  "string \<Rightarrow> request \<Rightarrow> string \<Rightarrow> string \<Rightarrow> (json option \<Rightarrow> organizer prog \<Rightarrow> organizer prog) \<Rightarrow> organizer prog" where
  "action key rq path errorLabel onOk =
     update (start key) (fetchJson rq path (\<lambda>v. onOk v (update finish Done))
       (\<lambda>e. update (fail e errorLabel) (update finish Done)))"

definition GET :: "string \<Rightarrow> request" where "GET url = browser_request ''GET'' url None"
definition POST :: "string \<Rightarrow> request" where "POST url = browser_request ''POST'' url None"
definition DELETE :: "string \<Rightarrow> request" where "DELETE url = browser_request ''DELETE'' url None"

definition quoted :: "string \<Rightarrow> string" where
  "quoted s = CHR 0x22 # s @ [CHR 0x22]"

abbreviation str_of :: "int \<Rightarrow> string" where "str_of \<equiv> int_to_string"

section \<open>Refreshing\<close>

text \<open>What a refresh reads: its action key, address, error label, how the answer is stored and how it is reported.\<close>

record feed =
  fd_key :: string
  fd_request :: request
  fd_path :: string
  fd_error :: string
  fd_set :: "json option \<Rightarrow> organizer \<Rightarrow> organizer"
  fd_note :: "json option \<Rightarrow> string"

definition refreshPagedFeed :: "feed \<Rightarrow> bool \<Rightarrow> organizer prog \<Rightarrow> organizer prog" where
  "refreshPagedFeed fd silent k =
     update (loud silent (start (fd_key fd))) (fetchJson (fd_request fd) (fd_path fd)
       (\<lambda>v. update (fd_set fd v) (update (loud silent (set_note (fd_note fd v))) (update (loud silent finish) k)))
       (\<lambda>e. update (loud silent (fail e (fd_error fd))) (update (loud silent finish) k)))"

text \<open>The same refresh, silent and as a member of a \<open>Promise.all\<close>.\<close>

definition silent_member :: "feed \<Rightarrow> request \<times> (response result \<Rightarrow> organizer \<Rightarrow> organizer)" where
  "silent_member fd = (fd_request fd, \<lambda>r s. case read_answer (fd_path fd) r of Inl e \<Rightarrow> s | Inr v \<Rightarrow> fd_set fd v s)"

definition get_feed ::
  "string \<Rightarrow> string \<Rightarrow> string \<Rightarrow> (json option \<Rightarrow> organizer \<Rightarrow> organizer) \<Rightarrow> (json option \<Rightarrow> string) \<Rightarrow> feed" where
  "get_feed key url err st nt =
     \<lparr>fd_key = key, fd_request = GET url, fd_path = url, fd_error = err, fd_set = st, fd_note = nt\<rparr>"

definition refreshWireGuardGatewayStatus :: "hook_types \<Rightarrow> feed" where
  "refreshWireGuardGatewayStatus c = get_feed ''wireguard-gateway:status'' ''/api/admin/wireguard/status''
     ''wireguard gateway status failed'' (\<lambda>v s. s\<lparr>od_gatewayStatus := Some (ht_gateway c v)\<rparr>)
     (\<lambda>v. ''WireGuard gateway is '' @ wg_state (ht_gateway c v) @ '' in '' @ wg_mode (ht_gateway c v) @ '' mode.'')"

definition refreshAccessStatus :: "hook_types \<Rightarrow> feed" where
  "refreshAccessStatus c = get_feed ''access:status'' ''/api/admin/access/status'' ''controller access status failed''
     (\<lambda>v s. s\<lparr>od_accessStatus := Some (ht_access c v)\<rparr>)
     (\<lambda>v. ''Controller access policy is '' @ cs_state (ht_access c v) @ '' in '' @ cs_mode (ht_access c v) @ '' mode.'')"

definition refreshOperationsStatus :: "hook_types \<Rightarrow> feed" where
  "refreshOperationsStatus c = get_feed ''operations:status'' ''/api/admin/operations/status'' ''operations status failed''
     (\<lambda>v s. s\<lparr>od_operationsStatus := Some (ht_operations c v)\<rparr>)
     (\<lambda>v. if os_alerts (ht_operations c v) = [] then ''Runtime operations look healthy.''
          else ''Loaded '' @ str_of (int (length (os_alerts (ht_operations c v)))) @ '' runtime alert(s).'')"

definition refreshServiceMetrics :: "hook_types \<Rightarrow> feed" where
  "refreshServiceMetrics c = get_feed ''operations:metrics'' ''/api/admin/operations/metrics'' ''operations metrics failed''
     (\<lambda>v s. s\<lparr>od_serviceMetrics := v\<rparr>) (\<lambda>v. ''Loaded live service metrics.'')"

definition refreshDeploymentRows :: "hook_types \<Rightarrow> feed" where
  "refreshDeploymentRows c = get_feed ''deployments:list'' ''/api/admin/deployments'' ''deployment list fetch failed''
     (\<lambda>v s. s\<lparr>od_deploymentRows := ht_deployments c v\<rparr>)
     (\<lambda>v. ''Loaded '' @ str_of (int (length (ht_deployments c v))) @ '' deployment job(s).'')"

text \<open>\<open>offset + 1\<close> to \<open>offset + items.length\<close> of \<open>total_count\<close>.\<close>

definition page_range :: "'i feed_page \<Rightarrow> string" where
  "page_range p = ''('' @ str_of (pg_offset p + 1) @ ''-'' @ str_of (pg_offset p + int (length (items p))) @ '' of '' @
     str_of (total_count p) @ '').''"

definition refreshAttacks :: "hook_types \<Rightarrow> AttackFilters \<Rightarrow> feed" where
  "refreshAttacks c filters = get_feed ''game:attacks'' (''/api/admin/game/attacks'' @ buildAttackQueryString filters)
     ''attack feed fetch failed''
     (\<lambda>v s. s\<lparr>od_highlights := clearAttackHighlights (od_highlights s), od_attackPage := ht_attacks c v\<rparr>)
     (\<lambda>v. ''Loaded '' @ str_of (int (length (items (ht_attacks c v)))) @ '' accepted attack row(s) '' @ page_range (ht_attacks c v))"

definition refreshCheckerRuns :: "hook_types \<Rightarrow> CheckerRunFilters \<Rightarrow> feed" where
  "refreshCheckerRuns c filters = get_feed ''game:checker-runs'' (''/api/admin/game/checker-runs'' @ buildCheckerRunQueryString filters)
     ''checker runs fetch failed'' (\<lambda>v s. s\<lparr>od_checkerRunPage := ht_runs c v\<rparr>)
     (\<lambda>v. ''Loaded '' @ str_of (int (length (items (ht_runs c v)))) @ '' checker run row(s) from game-core '' @ page_range (ht_runs c v))"

definition refreshSchedulerEvents :: "hook_types \<Rightarrow> SchedulerEventFilters \<Rightarrow> feed" where
  "refreshSchedulerEvents c filters = get_feed ''game:scheduler-events''
     (''/api/admin/game/scheduler/events'' @ buildSchedulerEventQueryString filters)
     ''scheduler events fetch failed'' (\<lambda>v s. s\<lparr>od_schedulerEventPage := ht_events c v\<rparr>)
     (\<lambda>v. ''Loaded '' @ str_of (int (length (items (ht_events c v)))) @ '' scheduler event row(s) from game-core '' @ page_range (ht_events c v))"

definition refreshGameScoreboard :: "hook_types \<Rightarrow> feed" where
  "refreshGameScoreboard c = get_feed ''game:scoreboard'' ''/api/admin/game/scoreboard'' ''scoreboard fetch failed''
     (\<lambda>v s. s\<lparr>od_scoreRows := ht_scores c v\<rparr>)
     (\<lambda>v. ''Loaded '' @ str_of (int (length (ht_scores c v))) @ '' scoreboard row(s) from game-core.'')"

definition recomputeGameScoring :: "hook_types \<Rightarrow> feed" where
  "recomputeGameScoring c = \<lparr>fd_key = ''game:scoring'', fd_request = POST ''/api/admin/game/scoring/recompute'',
     fd_path = ''/api/admin/game/scoring/recompute'', fd_error = ''score recompute failed'',
     fd_set = (\<lambda>v s. s\<lparr>od_scoreRows := ht_scores c v\<rparr>),
     fd_note = (\<lambda>v. ''Recomputed '' @ str_of (int (length (ht_scores c v))) @
       '' scoreboard row(s) from authoritative tick and submission state.'')\<rparr>"

definition auditGameScoring :: "hook_types \<Rightarrow> feed" where
  "auditGameScoring c = get_feed ''game:scoring-audit'' ''/api/admin/game/scoring/audit'' ''score audit failed''
     (\<lambda>v s. s\<lparr>od_scoringAudit := Some (ht_audit c v)\<rparr>)
     (\<lambda>v. if sa_status (ht_audit c v) = ''ok''
          then ''Score audit passed: '' @ str_of (sa_replayed_rows (ht_audit c v)) @ '' replayed row(s) match the stored scoreboard.''
          else ''Score audit found '' @ str_of (sa_mismatch_count (ht_audit c v)) @ '' mismatch(es).'')"

definition maybeAuditCompletedTick :: "hook_types \<Rightarrow> AdminGameStatus \<Rightarrow> organizer prog \<Rightarrow> organizer prog" where
  "maybeAuditCompletedTick c status k = (case ag_current_tick status of
     None \<Rightarrow> k
   | Some tick \<Rightarrow>
      if at_status tick \<noteq> ''completed'' then k
      else Atomic (\<lambda>s. if od_lastAuditTick s = Some (at_id tick) then (s, k)
        else (s\<lparr>od_lastAuditTick := Some (at_id tick)\<rparr>, Spawn (refreshPagedFeed (auditGameScoring c) True Done) k)))"

definition refreshGameStatus :: "hook_types \<Rightarrow> bool \<Rightarrow> organizer prog \<Rightarrow> organizer prog" where
  "refreshGameStatus c silent k =
     update (loud silent (start ''game:status'')) (fetchJson (GET ''/api/admin/game/status'') ''/api/admin/game/status''
       (\<lambda>v. let payload = ht_status c v in
         update (\<lambda>s. s\<lparr>od_gameState := payload\<rparr>) (maybeAuditCompletedTick c payload
           (update (loud silent (set_note (''Game-core reports match '' @ coalesce (map_option am_state (ag_match payload)) ''unknown'' @
              '' with '' @ str_of (ag_total_ticks payload) @ '' persisted tick(s).'')))
             (update (loud silent finish) k))))
       (\<lambda>e. update (loud silent (fail e ''game-core status failed'')) (update (loud silent finish) k)))"

definition runtime_feeds :: "hook_types \<Rightarrow> feed list" where
  "runtime_feeds c = [refreshDeploymentRows c, refreshWireGuardGatewayStatus c, refreshAccessStatus c,
     refreshOperationsStatus c, refreshServiceMetrics c]"

definition refreshRuntimeHealth :: "hook_types \<Rightarrow> bool \<Rightarrow> organizer prog \<Rightarrow> organizer prog" where
  "refreshRuntimeHealth c silent k =
     update (loud silent (start ''runtime:health'')) (Gather (map silent_member (runtime_feeds c))
       (update (loud silent (set_note ''Refreshed deployment, access policy, WireGuard, runtime alerts, and service metrics.''))
         (update (loud silent finish) k)))"

section \<open>The runtime report\<close>

text \<open>\<open>/filename="?([^"]+)"?/\<close> on the content disposition: the first place where the pattern matches.\<close>

fun filename_match :: "string \<Rightarrow> string option" where
  "filename_match [] = None"
| "filename_match (ch # cs) =
     (if starts_with (ch # cs) ''filename='' then
        (let rest = drop 9 (ch # cs);
             body = (case rest of q # rs \<Rightarrow> if q = CHR 0x22 then rs else rest | [] \<Rightarrow> []);
             name = takeWhile (\<lambda>x. x \<noteq> CHR 0x22) body in
         if name \<noteq> [] then Some name else filename_match cs)
      else filename_match cs)"

definition report_note :: "AdminRuntimeEvidenceReport \<Rightarrow> string \<Rightarrow> string" where
  "report_note report downloadName =
     (if re_failures report = [] then ''Downloaded complete runtime evidence report as '' @ downloadName @ ''.''
      else ''Downloaded partial runtime evidence report as '' @ downloadName @ ''; missing '' @
        join_with '', '' (map fst (re_failures report)) @ ''.'')"

definition report_outcome :: "hook_types \<Rightarrow> response \<Rightarrow> string result" where
  "report_outcome c resp =
     (if \<not> resp_ok resp then
        (case parseApiError resp ''/api/admin/runtime-health/report'' of Inl e \<Rightarrow> Inl e | Inr m \<Rightarrow> Inl (ErrorMessage m))
      else (case rs_json resp of
         None \<Rightarrow> Inl (ErrorMessage ''response body is not JSON'')
       | Some j \<Rightarrow> Inr (report_note (ht_report c (Some j))
           (coalesce (filename_match (coalesce (hget (rs_headers resp) ''content-disposition'') [])) ''runtime-health-report.json''))))"

definition downloadRuntimeHealthReport :: "hook_types \<Rightarrow> organizer prog" where
  "downloadRuntimeHealthReport c = update (start ''runtime:report'')
     (Call (GET ''/api/admin/runtime-health/report'') (\<lambda>r.
       case (case r of Inl e \<Rightarrow> Inl e | Inr resp \<Rightarrow> report_outcome c resp) of
         Inl e \<Rightarrow> update (fail e ''runtime health report download failed'') (update finish Done)
       | Inr n \<Rightarrow> update (set_note n) (update finish Done)))"

text \<open>The browser either copies the text (by the clipboard or by the fallback) or the write fails.\<close>

definition writeTextToClipboard :: "organizer prog \<Rightarrow> (js_error \<Rightarrow> organizer prog) \<Rightarrow> organizer prog" where
  "writeTextToClipboard k onError = Await (\<lambda>copied. if copied then k else onError (ErrorMessage ''clipboard write failed''))"

definition copyRuntimeHealthSummary :: "organizer prog" where
  "copyRuntimeHealthSummary = (
     let failed = (\<lambda>e. update (fail e ''runtime summary copy failed'') (update finish Done)) in
     update (start ''runtime:summary'') (fetchJson (GET ''/api/admin/runtime-health/report'') ''/api/admin/runtime-health/report''
       (\<lambda>v. writeTextToClipboard (update (set_note ''Copied runtime summary to clipboard.'') (update finish Done)) failed) failed))"

section \<open>Teams, players and peers\<close>

text \<open>\<open>persistEntity\<close>: the request and the label its errors are reported under.\<close>

definition persistEntity ::
  "string \<Rightarrow> string \<Rightarrow> json \<Rightarrow> string \<Rightarrow> (json option \<Rightarrow> organizer prog) \<Rightarrow> (js_error \<Rightarrow> organizer prog) \<Rightarrow> organizer prog" where
  "persistEntity url m body typeLabel =
     fetchJson (browser_request m url (Some body))
       (typeLabel @ '' '' @ (if m = ''POST'' then ''create'' else ''update'') @ '' request'')"

definition createTeam :: "hook_types \<Rightarrow> organizer \<Rightarrow> (bool \<Rightarrow> organizer prog) \<Rightarrow> organizer prog" where
  "createTeam c s0 k = update (start ''team:create'')
     (persistEntity ''/api/admin/teams'' ''POST'' (JObj [(''name'', JStr (td_name (od_teamDraft s0))),
         (''contact_email'', JStr (td_contactEmail (od_teamDraft s0)))]) ''team''
       (\<lambda>v. let data = ht_team c v in
         update (team_created data) (refreshPagedFeed (refreshGameScoreboard c) True
           (update (\<lambda>s. set_note (''Created '' @ tm_name data @ '' and seeded deployed services for published challenges.'')
              (team_form_cleared data s)) (update finish (k True)))))
       (\<lambda>e. update (fail e ''team create failed'') (update finish (k False))))"

definition createPlayer :: "hook_types \<Rightarrow> organizer \<Rightarrow> (bool \<Rightarrow> organizer prog) \<Rightarrow> organizer prog" where
  "createPlayer c s0 k = (let draft = od_playerDraft s0 in
     if pd_teamId draft = 0
     then update (\<lambda>s. s\<lparr>od_actionError := Some ''select a team before creating a player''\<rparr>) (k False)
     else update (start ''player:create'')
       (persistEntity ''/api/admin/players'' ''POST'' (JObj [(''team_id'', JNum (of_int (pd_teamId draft))),
           (''display_name'', JStr (pd_displayName draft)), (''email'', JStr (pd_email draft)),
           (''password'', JStr (pd_password draft)), (''role'', JStr (pd_role draft))]) ''player''
         (\<lambda>v. let data = ht_player c v in
           update (player_created data) (update (set_note (''Created player '' @ pl_display_name data @ '' with peer '' @
               pl_wireguard_peer data @ ''. Reconcile the WireGuard gateway and service access policy if that team already has unlocked services.''))
             (update finish (k True))))
         (\<lambda>e. update (fail e ''player create failed'') (update finish (k False)))))"

definition player_url :: "AdminPlayer \<Rightarrow> string \<Rightarrow> string" where
  "player_url p rest = ''/api/admin/players/'' @ str_of (pl_id p) @ rest"

definition inspectWireGuard :: "hook_types \<Rightarrow> AdminPlayer \<Rightarrow> organizer prog" where
  "inspectWireGuard c player = (let url = player_url player ''/wireguard'' in
     action (''wireguard:get:'' @ str_of (pl_id player)) (GET url) url ''wireguard config fetch failed''
       (\<lambda>v k. let payload = ht_peer c v in
         update (\<lambda>s. (applyWireGuardUpdate payload s)\<lparr>od_selectedPeer := Some payload, od_wireGuardDialogOpen := True\<rparr>)
           (update (set_note (''Loaded WireGuard config for '' @ pl_display_name player @ ''.'')) k)))"

definition wireGuardAction :: "hook_types \<Rightarrow> AdminPlayer \<Rightarrow> string \<Rightarrow> string \<Rightarrow> bool \<Rightarrow> organizer prog" where
  "wireGuardAction c player act successMessage openDialog = (let url = player_url player (''/wireguard/'' @ act) in
     action (''wireguard:'' @ act @ '':'' @ str_of (pl_id player)) (POST url) url (''wireguard '' @ act @ '' failed'')
       (\<lambda>v k. let payload = ht_peer c v in
         update (\<lambda>s. let s1 = (applyWireGuardUpdate payload s)\<lparr>od_selectedPeer := Some payload\<rparr> in
             if openDialog then s1\<lparr>od_wireGuardDialogOpen := True\<rparr> else s1)
           (update (set_note successMessage) k)))"

definition rotateWireGuard :: "hook_types \<Rightarrow> AdminPlayer \<Rightarrow> organizer prog" where
  "rotateWireGuard c player = wireGuardAction c player ''rotate''
     (''Rotated WireGuard config for '' @ pl_display_name player @
      ''. Reconcile the WireGuard gateway so the old peer material stops working.'') True"

definition revokeWireGuard :: "hook_types \<Rightarrow> AdminPlayer \<Rightarrow> organizer prog" where
  "revokeWireGuard c player = wireGuardAction c player ''revoke''
     (''Revoked WireGuard config for '' @ pl_display_name player @
      ''. Reconcile the WireGuard gateway and service access policy to remove the peer from runtime access.'') False"

definition reconcileWireGuardGateway :: "hook_types \<Rightarrow> organizer prog" where
  "reconcileWireGuardGateway c = action ''wireguard-gateway:reconcile'' (POST ''/api/admin/wireguard/reconcile'')
     ''/api/admin/wireguard/reconcile'' ''wireguard gateway reconcile failed''
     (\<lambda>v k. let payload = ht_gateway c v in
       update (\<lambda>s. s\<lparr>od_gatewayStatus := Some payload\<rparr>)
         (update (set_note (''Maintenance reconcile applied WireGuard revision '' @ coalesce (wg_revision payload) ''n/a'' @
            '' with '' @ str_of (wg_peers_active payload) @ '' active peer(s) and '' @ str_of (wg_peers_revoked payload) @
            '' revoked peer(s).'')) k))"

definition reconcileAccess :: "hook_types \<Rightarrow> organizer prog" where
  "reconcileAccess c = action ''access:reconcile'' (POST ''/api/admin/access/reconcile'') ''/api/admin/access/reconcile''
     ''controller access reconcile failed''
     (\<lambda>v k. let payload = ht_access c v in
       update (\<lambda>s. s\<lparr>od_accessStatus := Some payload\<rparr>)
         (update (set_note (''Maintenance reconcile applied controller access revision '' @ coalesce (cs_revision payload) ''n/a'' @
            '' across '' @ str_of (cs_policies_total payload) @ '' service policy row(s).'')) k))"

text \<open>The two teardowns ask for a confirmation first; \<open>confirmed\<close> is the answer.\<close>

definition teardownWireGuardGateway :: "hook_types \<Rightarrow> bool \<Rightarrow> organizer prog" where
  "teardownWireGuardGateway c confirmed = (if \<not> confirmed then Done else
     action ''wireguard-gateway:teardown'' (POST ''/api/admin/wireguard/teardown'') ''/api/admin/wireguard/teardown''
       ''wireguard gateway teardown failed''
       (\<lambda>v k. refreshPagedFeed (refreshWireGuardGatewayStatus c) True
         (update (set_note ''WireGuard gateway rules and interface torn down.'') k)))"

definition teardownAccess :: "hook_types \<Rightarrow> bool \<Rightarrow> organizer prog" where
  "teardownAccess c confirmed = (if \<not> confirmed then Done else
     action ''access:teardown'' (POST ''/api/admin/access/teardown'') ''/api/admin/access/teardown''
       ''controller access teardown failed''
       (\<lambda>v k. refreshPagedFeed (refreshAccessStatus c) True
         (update (set_note ''Controller service access rules torn down.'') k)))"

section \<open>Deleting and switching rows\<close>

definition deleteEntity ::
  "string \<Rightarrow> string \<Rightarrow> string \<Rightarrow> (organizer \<Rightarrow> organizer) \<Rightarrow> string \<Rightarrow> organizer prog" where
  "deleteEntity key url errorLabel onSuccess successNote =
     action key (DELETE url) url errorLabel (\<lambda>v k. update onSuccess (update (set_note successNote) k))"

definition deleteTeam :: "AdminTeam \<Rightarrow> organizer prog" where
  "deleteTeam team = deleteEntity (''team:delete:'' @ str_of (tm_id team)) (''/api/admin/teams/'' @ str_of (tm_id team))
     ''team delete failed'' (team_deleted (tm_id team)) (''Team '' @ quoted (tm_name team) @ '' deleted.'')"

definition deletePlayer :: "AdminPlayer \<Rightarrow> organizer prog" where
  "deletePlayer player = deleteEntity (''player:delete:'' @ str_of (pl_id player)) (player_url player [])
     ''player delete failed'' (player_deleted (pl_id player)) (''Player '' @ quoted (pl_display_name player) @ '' deleted.'')"

definition deleteChallenge :: "AdminChallenge \<Rightarrow> organizer prog" where
  "deleteChallenge challenge = deleteEntity (''challenge:delete:'' @ str_of (ac_id challenge))
     (''/api/admin/challenges/'' @ str_of (ac_id challenge)) ''challenge delete failed''
     (challenge_deleted (ac_id challenge)) (''Challenge '' @ quoted (ac_name challenge) @ '' deleted.'')"

definition deleteDeployment :: "AdminDeploymentJob \<Rightarrow> organizer prog" where
  "deleteDeployment deployment = deleteEntity (''deployment:delete:'' @ str_of (dj_id deployment))
     (''/api/admin/deployments/'' @ str_of (dj_id deployment)) ''deployment delete failed''
     (deployment_deleted (dj_id deployment)) (''Deployment job #'' @ str_of (dj_id deployment) @ '' deleted.'')"

definition confirmDelete :: "organizer \<Rightarrow> organizer prog" where
  "confirmDelete s0 = (case od_deleteTarget s0 of
     None \<Rightarrow> Done
   | Some target \<Rightarrow> update (\<lambda>s. s\<lparr>od_deleteTarget := None\<rparr>) (case dt_kind target of
       DeleteTeam \<Rightarrow> (case find (\<lambda>t. tm_id t = dt_id target) (od_teamRows s0) of None \<Rightarrow> Done | Some t \<Rightarrow> deleteTeam t)
     | DeletePlayer \<Rightarrow> (case find (\<lambda>p. pl_id p = dt_id target) (od_playerRows s0) of None \<Rightarrow> Done | Some p \<Rightarrow> deletePlayer p)
     | DeleteChallenge \<Rightarrow> (case find (\<lambda>ch. ac_id ch = dt_id target) (od_challengeRows s0) of None \<Rightarrow> Done | Some ch \<Rightarrow> deleteChallenge ch)
     | DeleteDeployment \<Rightarrow> (case find (\<lambda>d. dj_id d = dt_id target) (od_deploymentRows s0) of None \<Rightarrow> Done | Some d \<Rightarrow> deleteDeployment d)))"

definition postRowAction ::
  "string \<Rightarrow> string \<Rightarrow> string \<Rightarrow> string \<Rightarrow> (json option \<Rightarrow> organizer \<Rightarrow> organizer) \<Rightarrow> organizer prog" where
  "postRowAction key url errorLabel successNote apply_row =
     action key (POST url) url errorLabel (\<lambda>v k. update (apply_row v) (update (set_note successNote) k))"

text \<open>\<open>play_from_tick && play_from_tick > 0\<close>\<close>

definition rejoins_at :: "int option \<Rightarrow> int option" where
  "rejoins_at t = (case t of Some n \<Rightarrow> if n > 0 then Some n else None | None \<Rightarrow> None)"

definition setTeamActiveState :: "hook_types \<Rightarrow> AdminTeam \<Rightarrow> bool \<Rightarrow> organizer prog" where
  "setTeamActiveState c team active = (
     let url = ''/api/admin/teams/'' @ str_of (tm_id team) @ (if active then ''/reactivate'' else ''/deactivate'') in
     action (''team:active:'' @ str_of (tm_id team)) (POST url) url (if active then ''team reactivate failed'' else ''team deactivate failed'')
       (\<lambda>v k. let data = ht_team c v in
         update (\<lambda>s. s\<lparr>od_teamRows := replace_row tm_id (tm_id team) data (od_teamRows s)\<rparr>)
           (update (set_note (case (if active then rejoins_at (tm_play_from_tick data) else None) of
               Some t \<Rightarrow> ''Team '' @ quoted (tm_name team) @ '' reactivated. It rejoins network and checker on tick #'' @ str_of t @
                 ''. Reconcile now so instances are ready by then.''
             | None \<Rightarrow> ''Team '' @ quoted (tm_name team) @ '' '' @ (if active then ''reactivated'' else ''deactivated'') @ ''.'')) k)))"

definition setPlayerActiveState :: "hook_types \<Rightarrow> AdminPlayer \<Rightarrow> bool \<Rightarrow> organizer prog" where
  "setPlayerActiveState c player active = postRowAction (''player:active:'' @ str_of (pl_id player))
     (player_url player (if active then ''/reactivate'' else ''/deactivate''))
     (if active then ''player reactivate failed'' else ''player deactivate failed'')
     (''Player '' @ quoted (pl_display_name player) @ '' '' @ (if active then ''reactivated'' else ''deactivated'') @ ''.'')
     (\<lambda>v s. s\<lparr>od_playerRows := replace_row pl_id (pl_id player) (ht_player c v) (od_playerRows s)\<rparr>)"

definition challenge_url :: "AdminChallenge \<Rightarrow> string \<Rightarrow> string" where
  "challenge_url ch rest = ''/api/admin/challenges/'' @ str_of (ac_id ch) @ rest"

definition setChallengeMaintenanceState :: "hook_types \<Rightarrow> AdminChallenge \<Rightarrow> bool \<Rightarrow> organizer prog" where
  "setChallengeMaintenanceState c challenge underMaintenance = (
     let url = challenge_url challenge (if underMaintenance then ''/maintenance'' else ''/resume'');
         name = quoted (ac_name challenge) in
     action (''challenge:maintenance:'' @ str_of (ac_id challenge)) (POST url) url
       (if underMaintenance then ''challenge maintenance failed'' else ''challenge resume failed'')
       (\<lambda>v k. let data = ht_challenge c v in
         update (\<lambda>s. s\<lparr>od_challengeRows := replace_row ac_id (ac_id challenge) data (od_challengeRows s)\<rparr>)
           (update (set_note (if underMaintenance then ''Challenge '' @ name @ '' put under maintenance.''
             else (case rejoins_at (ac_play_from_tick data) of
               Some t \<Rightarrow> ''Challenge '' @ name @ '' resumed. It rejoins checker and scoring on tick #'' @ str_of t @
                 ''. Reconcile now so instances are ready by then.''
             | None \<Rightarrow> ''Challenge '' @ name @ '' resumed. Reconcile deployments so instances come ready.''))) k)))"

section \<open>Challenges and deployments\<close>

text \<open>A port or octet field: left out when blank, otherwise \<open>Number(...)\<close>.\<close>

definition number_field :: "string \<Rightarrow> json option" where
  "number_field v = (if trim v = [] then None else Some (num_json (js_Number v)))"

definition createChallenge :: "hook_types \<Rightarrow> organizer \<Rightarrow> (bool \<Rightarrow> organizer prog) \<Rightarrow> organizer prog" where
  "createChallenge c s0 k = (let draft = od_challengeDraft s0 in
     update (start ''challenge:create'') (fetchJson (browser_request ''POST'' ''/api/admin/challenges'' (Some (json_object
         [(''name'', Some (JStr (cd_name draft))), (''baseline_image'', Some (JStr (cd_baselineImage draft))),
          (''checker_image'', Some (JStr (cd_checkerImage draft))), (''source_bundle_path'', Some (JStr (cd_sourceBundlePath draft))),
          (''service_port'', number_field (cd_servicePort draft)),
          (''service_subnet_octet'', number_field (cd_serviceSubnetOctet draft)),
          (''egress_enabled'', Some (JBool (cd_egressEnabled draft)))]))) ''/api/admin/challenges''
       (\<lambda>v. let payload = ht_challenge c v in
         update (challenge_created payload) (update (set_note (''Created draft challenge '' @ ac_name payload @
             ''. Deploy it to replicate one service per team.'')) (update finish (k True))))
       (\<lambda>e. update (fail e ''challenge create failed'') (update finish (k False)))))"

definition validation_note :: "AdminChallenge \<Rightarrow> AdminChallengeValidationResult \<Rightarrow> string" where
  "validation_note challenge payload =
     (if vr_status payload = ''valid'' then ac_name challenge @ '' service and checker images satisfy the current runtime package policy.''
      else coalesce (or_undefined (vr_message payload)) (ac_name challenge @ '' failed runtime validation.''))"

text \<open>\<open>validateChallenge\<close> reports an error and then throws it again: \<open>onError\<close> is what the caller does.\<close>

definition validateChallenge ::
  "hook_types \<Rightarrow> AdminChallenge \<Rightarrow> bool \<Rightarrow> (AdminChallengeValidationResult \<Rightarrow> organizer prog) \<Rightarrow>
   (js_error \<Rightarrow> organizer prog) \<Rightarrow> organizer prog" where
  "validateChallenge c challenge silent onOk onError = (let url = challenge_url challenge ''/validate'' in
     update (loud silent (start (''validate:'' @ str_of (ac_id challenge)))) (fetchJson (POST url) url
       (\<lambda>v. let payload = ht_validation c v in
         update (applyChallengeValidation payload) (update (loud silent (set_note (validation_note challenge payload)))
           (update (loud silent finish) (onOk payload))))
       (\<lambda>e. update (loud silent (fail e ''challenge validation failed'')) (update (loud silent finish) (onError e)))))"

definition validation_passed :: "AdminChallengeValidationResult \<Rightarrow> bool" where
  "validation_passed v \<longleftrightarrow> vr_status v = ''valid'' \<and> vr_baseline_ssh_contract_ok v \<and> vr_checker_contract_ok v \<and>
     vr_service_state_contract_ok v"

definition deploy_note :: "AdminDeployment \<Rightarrow> string" where
  "deploy_note payload = (if dp_status payload = ''queued''
     then ''Queued '' @ dp_challenge_name payload @ '' for '' @ str_of (dp_deployed_team_count payload) @
       '' team runtime(s). Open Deployments and click Reconcile to finish rollout and host access.''
     else dp_challenge_name payload @ '' was already fully deployed across all teams.'')"

definition deployChallenge :: "hook_types \<Rightarrow> AdminChallenge \<Rightarrow> organizer prog" where
  "deployChallenge c challenge = (
     let failed = (\<lambda>e. update (fail e ''challenge deploy failed'') (update finish Done));
         url = challenge_url challenge ''/deploy'' in
     update (start (''deploy:'' @ str_of (ac_id challenge))) (validateChallenge c challenge True
       (\<lambda>validation. update (applyChallengeValidation validation)
         (if \<not> validation_passed validation
          then failed (ErrorMessage (coalesce (or_undefined (vr_message validation)) ''challenge package failed runtime validation''))
          else fetchJson (POST url) url
            (\<lambda>v. let payload = ht_deployment c v in
              update (challenge_deployed challenge payload) (update (set_note (deploy_note payload)) (update finish Done)))
            failed))
       failed))"

definition reconcileDeployments :: "hook_types \<Rightarrow> organizer prog" where
  "reconcileDeployments c = action ''deployments:reconcile'' (POST ''/api/admin/deployments/reconcile'')
     ''/api/admin/deployments/reconcile'' ''deployment reconcile failed''
     (\<lambda>v k. let payload = ht_reconcile c v in
       refreshRuntimeHealth c True (update (set_note (''Trusted reconcile processed '' @ str_of (rr_processed_jobs payload) @
         '' job(s), advanced '' @ str_of (rr_processed_instances payload) @
         '' team service instance(s), and refreshed deployment, SSH access, and WireGuard truth.'')) k))"

section \<open>The match and its scheduler\<close>

definition suppressGameStatusRealtime :: "int \<Rightarrow> organizer \<Rightarrow> organizer" where
  "suppressGameStatusRealtime durationMs s = s\<lparr>od_suppressedUntil := od_now s + durationMs\<rparr>"

text \<open>The frame of the game actions: the stream of game states is held back from the click until a
  second after the end.\<close>

definition game_end :: "organizer \<Rightarrow> organizer" where
  "game_end s = finish (suppressGameStatusRealtime 1000 s)"

definition game_start :: "string \<Rightarrow> organizer \<Rightarrow> organizer" where
  "game_start key s = start key (suppressGameStatusRealtime 1500 s)"

definition game_action ::
  "string \<Rightarrow> request \<Rightarrow> string \<Rightarrow> string \<Rightarrow> (json option \<Rightarrow> organizer prog \<Rightarrow> organizer prog) \<Rightarrow> organizer prog" where
  "game_action key rq path errorLabel onOk =
     update (game_start key) (fetchJson rq path (\<lambda>v. onOk v (update game_end Done))
       (\<lambda>e. update (fail e errorLabel) (update game_end Done)))"

definition start_failure :: "js_error \<Rightarrow> string" where
  "start_failure e = (case error_message e of
     Some m \<Rightarrow> ''Match started, but scheduler start failed: '' @ m | None \<Rightarrow> ''game start failed'')"

definition startGameMatch :: "hook_types \<Rightarrow> organizer \<Rightarrow> organizer prog" where
  "startGameMatch c s0 = game_action ''game:match:start'' (POST ''/api/admin/game/match/start'')
     ''/api/admin/game/match/start'' ''game start failed''
     (\<lambda>v k. let matchPayload = ht_match c v in
       update (set_match matchPayload) (fetchJson (POST ''/api/admin/game/scheduler/start'') ''/api/admin/game/scheduler/start''
         (\<lambda>v'. let schedulerPayload = ht_scheduler c v' in
           update (\<lambda>s. set_scheduler schedulerPayload (set_match matchPayload s))
             (refreshPagedFeed (refreshSchedulerEvents c (od_schedulerEventFilters s0)) True
               (update (set_note (''Game started. Submissions are '' @
                   (if coalesce (map_option am_accepting_submissions matchPayload) False then ''open'' else ''closed'') @
                   '' and the scheduler is running at '' @
                   str_of (coalesce (map_option as_interval_seconds schedulerPayload) 0) @ ''s.'')) k)))
         (\<lambda>e. update (\<lambda>s. s\<lparr>od_actionError := Some (start_failure e)\<rparr>) k)))"

definition stopGameMatch :: "hook_types \<Rightarrow> organizer \<Rightarrow> organizer prog" where
  "stopGameMatch c s0 = game_action ''game:match:stop'' (POST ''/api/admin/game/match/stop'')
     ''/api/admin/game/match/stop'' ''game match stop failed''
     (\<lambda>v k. update (match_halted (ht_match c v))
       (refreshPagedFeed (refreshSchedulerEvents c (od_schedulerEventFilters s0)) True
         (update (set_note ''Match stopped. Participant submissions are now closed.'') k)))"

text \<open>After a pause or a resume three views are reloaded, one after the other.\<close>

definition reload_game :: "hook_types \<Rightarrow> organizer \<Rightarrow> organizer prog \<Rightarrow> organizer prog" where
  "reload_game c s0 k = refreshPagedFeed (refreshSchedulerEvents c (od_schedulerEventFilters s0)) True
     (refreshGameStatus c True (refreshPagedFeed (refreshWireGuardGatewayStatus c) True k))"

definition pauseGameMatch :: "hook_types \<Rightarrow> organizer \<Rightarrow> organizer prog" where
  "pauseGameMatch c s0 = game_action ''game:match:pause'' (POST ''/api/admin/game/match/pause'')
     ''/api/admin/game/match/pause'' ''game match pause failed''
     (\<lambda>v k. update (match_halted (ht_match c v)) (reload_game c s0
       (update (set_note ''Match paused. Submissions and participant traffic are now blocked.'') k)))"

definition resumeGameMatch :: "hook_types \<Rightarrow> organizer \<Rightarrow> organizer prog" where
  "resumeGameMatch c s0 = game_action ''game:match:resume'' (POST ''/api/admin/game/match/resume'')
     ''/api/admin/game/match/resume'' ''game match resume failed''
     (\<lambda>v k. let payload = ht_match c v;
            resumed = (\<lambda>schedulerPayload. update (\<lambda>s. set_scheduler schedulerPayload (set_match payload s))
              (reload_game c s0 (update (set_note ''Match resumed. Submissions and participant traffic are now unblocked.'') k))) in
       fetchJson (POST ''/api/admin/game/scheduler/start'') ''/api/admin/game/scheduler/start''
         (\<lambda>v'. resumed (ht_scheduler c v')) (\<lambda>e. resumed (ag_scheduler (od_gameState s0))))"

definition startGameScheduler :: "hook_types \<Rightarrow> organizer \<Rightarrow> organizer prog" where
  "startGameScheduler c s0 = game_action ''game:scheduler:start'' (POST ''/api/admin/game/scheduler/start'')
     ''/api/admin/game/scheduler/start'' ''game-core scheduler start failed''
     (\<lambda>v k. let payload = ht_scheduler c v in update (set_scheduler payload)
       (refreshPagedFeed (refreshSchedulerEvents c (od_schedulerEventFilters s0)) True
         (update (set_note (''Scheduler started with '' @ str_of (coalesce (map_option as_interval_seconds payload) 0) @ ''s interval.'')) k)))"

definition stopGameScheduler :: "hook_types \<Rightarrow> organizer \<Rightarrow> organizer prog" where
  "stopGameScheduler c s0 = game_action ''game:scheduler:stop'' (POST ''/api/admin/game/scheduler/stop'')
     ''/api/admin/game/scheduler/stop'' ''game-core scheduler stop failed''
     (\<lambda>v k. update (set_scheduler (ht_scheduler c v))
       (refreshPagedFeed (refreshSchedulerEvents c (od_schedulerEventFilters s0)) True
         (update (set_note ''Scheduler stopped. Manual tick advance remains available.'') k)))"

definition updateGameMatchSchedule :: "hook_types \<Rightarrow> string option \<Rightarrow> string option \<Rightarrow> organizer prog" where
  "updateGameMatchSchedule c startAt endAt = game_action ''game:match:schedule''
     (browser_request ''PUT'' ''/api/admin/game/match/schedule'' (Some (json_object
        [(''scheduled_start_at'', map_option JStr startAt), (''scheduled_end_at'', map_option JStr endAt)])))
     ''/api/admin/game/match/schedule'' ''game match schedule update failed''
     (\<lambda>v k. let payload = ht_match c v in update (set_match payload)
       (update (set_note (''Match window updated. Start: '' @ coalesce (Option.bind payload am_scheduled_start_at) ''manual'' @
          ''; end: '' @ coalesce (Option.bind payload am_scheduled_end_at) ''manual'' @ ''.'')) k))"

definition updateGameScheduler :: "hook_types \<Rightarrow> js_num \<Rightarrow> organizer prog" where
  "updateGameScheduler c intervalSeconds = game_action ''game:scheduler:update''
     (browser_request ''PUT'' ''/api/admin/game/scheduler/interval'' (Some (JObj [(''interval_seconds'', num_json intervalSeconds)])))
     ''/api/admin/game/scheduler/interval'' ''game-core scheduler update failed''
     (\<lambda>v k. update (set_scheduler (ht_scheduler c v))
       (update (set_note (''Scheduler interval updated to '' @ num_to_string intervalSeconds @ '' seconds.'')) k))"

definition tick_note :: "AdminGameTickStatus \<Rightarrow> string" where
  "tick_note payload = ''Tick '' @ str_of (at_id payload) @ '' completed with '' @ str_of (at_successful_checker_runs payload) @
     '' success, '' @ str_of (at_failed_checker_runs payload) @ '' failed, and '' @ str_of (at_skipped_checker_runs payload) @
     '' skipped checker runs.''"

definition advanceGameTick :: "hook_types \<Rightarrow> organizer \<Rightarrow> organizer prog" where
  "advanceGameTick c s0 = game_action ''game:advance'' (POST ''/api/admin/game/ticks/advance'')
     ''/api/admin/game/ticks/advance'' ''game-core tick advance failed''
     (\<lambda>v k. let payload = ht_tick c v in update (tick_advanced payload)
       (refreshPagedFeed (refreshSchedulerEvents c (od_schedulerEventFilters s0)) True
         (refreshPagedFeed (refreshCheckerRuns c (od_checkerRunFilters s0)) True
           (refreshPagedFeed (recomputeGameScoring c) True
             (refreshPagedFeed (auditGameScoring c) True (update (set_note (tick_note payload)) k))))))"

section \<open>Filters and pages\<close>

definition applyCheckerRunFilters :: "hook_types \<Rightarrow> organizer \<Rightarrow> organizer prog" where
  "applyCheckerRunFilters c s0 = (let next = (od_checkerRunFilters s0)\<lparr>cf_offset := ''0''\<rparr> in
     update (\<lambda>s. s\<lparr>od_checkerRunFilters := next\<rparr>) (refreshPagedFeed (refreshCheckerRuns c next) False Done))"

definition resetCheckerRunFilters :: "hook_types \<Rightarrow> organizer prog" where
  "resetCheckerRunFilters c = update (\<lambda>s. s\<lparr>od_checkerRunFilters := defaultCheckerRunFilters\<rparr>)
     (refreshPagedFeed (refreshCheckerRuns c defaultCheckerRunFilters) False Done)"

definition pageCheckerRuns :: "hook_types \<Rightarrow> direction \<Rightarrow> organizer \<Rightarrow> organizer prog" where
  "pageCheckerRuns c dir s0 = (let f = od_checkerRunFilters s0;
       next = f\<lparr>cf_offset := next_page_offset (cf_limit f) (cf_offset f) dir 18 200\<rparr> in
     update (\<lambda>s. s\<lparr>od_checkerRunFilters := next\<rparr>) (refreshPagedFeed (refreshCheckerRuns c next) False Done))"

definition organizer_applyAttackFilters :: "hook_types \<Rightarrow> organizer \<Rightarrow> organizer prog" where
  "organizer_applyAttackFilters c s0 = (let next = (od_attackFilters s0)\<lparr>af_offset := ''0''\<rparr> in
     update (\<lambda>s. s\<lparr>od_attackFilters := next\<rparr>) (refreshPagedFeed (refreshAttacks c next) False Done))"

definition organizer_resetAttackFilters :: "hook_types \<Rightarrow> organizer \<Rightarrow> organizer prog" where
  "organizer_resetAttackFilters c s0 = update (\<lambda>s. s\<lparr>od_attackFilters := od_initialFilters s0\<rparr>)
     (refreshPagedFeed (refreshAttacks c (od_initialFilters s0)) False Done)"

definition pageAttacks :: "hook_types \<Rightarrow> direction \<Rightarrow> organizer \<Rightarrow> organizer prog" where
  "pageAttacks c dir s0 = (let next = computePageOffset (od_attackFilters s0) dir 12 200 in
     update (\<lambda>s. s\<lparr>od_attackFilters := next\<rparr>) (refreshPagedFeed (refreshAttacks c next) False Done))"

definition applySchedulerEventFilters :: "hook_types \<Rightarrow> organizer \<Rightarrow> organizer prog" where
  "applySchedulerEventFilters c s0 = (let next = (od_schedulerEventFilters s0)\<lparr>ef_offset := ''0''\<rparr> in
     update (\<lambda>s. s\<lparr>od_schedulerEventFilters := next\<rparr>) (refreshPagedFeed (refreshSchedulerEvents c next) False Done))"

definition resetSchedulerEventFilters :: "hook_types \<Rightarrow> organizer prog" where
  "resetSchedulerEventFilters c = update (\<lambda>s. s\<lparr>od_schedulerEventFilters := defaultSchedulerEventFilters\<rparr>)
     (refreshPagedFeed (refreshSchedulerEvents c defaultSchedulerEventFilters) False Done)"

definition pageSchedulerEvents :: "hook_types \<Rightarrow> direction \<Rightarrow> organizer \<Rightarrow> organizer prog" where
  "pageSchedulerEvents c dir s0 = (let f = od_schedulerEventFilters s0;
       next = f\<lparr>ef_offset := next_page_offset (ef_limit f) (ef_offset f) dir 12 200\<rparr> in
     update (\<lambda>s. s\<lparr>od_schedulerEventFilters := next\<rparr>) (refreshPagedFeed (refreshSchedulerEvents c next) False Done))"

section \<open>Forms\<close>

definition updateTeam :: "hook_types \<Rightarrow> organizer \<Rightarrow> (bool \<Rightarrow> organizer prog) \<Rightarrow> organizer prog" where
  "updateTeam c s0 k = (case od_editingId s0 of
     None \<Rightarrow> k False
   | Some i \<Rightarrow> update (start ''team:update'') (persistEntity (''/api/admin/teams/'' @ str_of i) ''PUT''
       (JObj [(''name'', JStr (td_name (od_teamDraft s0))), (''contact_email'', JStr (td_contactEmail (od_teamDraft s0)))]) ''team''
       (\<lambda>v. let data = ht_team c v in update (\<lambda>s. s\<lparr>od_teamRows := replace_row tm_id i data (od_teamRows s)\<rparr>)
         (update (set_note (''Updated team '' @ tm_name data @ ''.'')) (update finish (k True))))
       (\<lambda>e. update (fail e ''team update failed'') (update finish (k False)))))"

definition updatePlayer :: "hook_types \<Rightarrow> organizer \<Rightarrow> (bool \<Rightarrow> organizer prog) \<Rightarrow> organizer prog" where
  "updatePlayer c s0 k = (case od_editingId s0 of
     None \<Rightarrow> k False
   | Some i \<Rightarrow> update (start ''player:update'') (persistEntity (''/api/admin/players/'' @ str_of i) ''PUT''
       (JObj [(''display_name'', JStr (pd_displayName (od_playerDraft s0))), (''email'', JStr (pd_email (od_playerDraft s0))),
         (''role'', JStr (pd_role (od_playerDraft s0)))]) ''player''
       (\<lambda>v. let data = ht_player c v in update (\<lambda>s. s\<lparr>od_playerRows := replace_row pl_id i data (od_playerRows s)\<rparr>)
         (update (set_note (''Updated player '' @ pl_display_name data @ ''.'')) (update finish (k True))))
       (\<lambda>e. update (fail e ''player update failed'') (update finish (k False)))))"

definition updateChallenge :: "hook_types \<Rightarrow> organizer \<Rightarrow> (bool \<Rightarrow> organizer prog) \<Rightarrow> organizer prog" where
  "updateChallenge c s0 k = (case od_editingId s0 of
     None \<Rightarrow> k False
   | Some i \<Rightarrow> (let draft = od_challengeDraft s0; url = ''/api/admin/challenges/'' @ str_of i in
       update (start ''challenge:update'') (fetchJson (browser_request ''PUT'' url (Some (JObj
           [(''name'', JStr (cd_name draft)), (''baseline_image'', JStr (cd_baselineImage draft)),
            (''checker_image'', JStr (cd_checkerImage draft)), (''source_bundle_path'', JStr (cd_sourceBundlePath draft)),
            (''egress_enabled'', JBool (cd_egressEnabled draft))]))) url
         (\<lambda>v. let payload = ht_challenge c v in update (challenge_updated i payload)
           (update (set_note (''Updated challenge '' @ ac_name payload @ ''.'')) (update finish (k True))))
         (\<lambda>e. update (fail e ''challenge update failed'') (update finish (k False))))))"

definition submitForm :: "hook_types \<Rightarrow> organizer \<Rightarrow> organizer prog" where
  "submitForm c s0 = (
     let after = (\<lambda>ok. if ok then update closeFormDialog Done else Done) in
     case (od_formMode s0, od_formEntity s0) of
       (Some CreateMode, Some TeamForm) \<Rightarrow> createTeam c s0 after
     | (Some CreateMode, Some PlayerForm) \<Rightarrow> createPlayer c s0 after
     | (Some CreateMode, Some ChallengeForm) \<Rightarrow> createChallenge c s0 after
     | (Some EditMode, Some TeamForm) \<Rightarrow> updateTeam c s0 after
     | (Some EditMode, Some PlayerForm) \<Rightarrow> updatePlayer c s0 after
     | (Some EditMode, Some ChallengeForm) \<Rightarrow> updateChallenge c s0 after
     | _ \<Rightarrow> Done)"

section \<open>Streams and timers\<close>

text \<open>Messages of the five event streams; \<open>None\<close> is a frame that does not parse.\<close>

definition held_back :: "organizer \<Rightarrow> bool" where
  "held_back s \<longleftrightarrow> (case od_pendingAction s of Some a \<Rightarrow> starts_with a ''game:'' | None \<Rightarrow> False) \<or> od_now s < od_suppressedUntil s"

definition game_status_message :: "hook_types \<Rightarrow> AdminGameStatus option \<Rightarrow> organizer prog" where
  "game_status_message c frame = Atomic (\<lambda>s. if held_back s then (s, Done) else (case frame of
     None \<Rightarrow> (s, Done)
   | Some payload \<Rightarrow> (s\<lparr>od_gameState := payload\<rparr>, maybeAuditCompletedTick c payload Done)))"

definition organizer_scoreboard_message :: "AdminGameScoreRow list option \<Rightarrow> organizer \<Rightarrow> organizer" where
  "organizer_scoreboard_message frame s = (case frame of Some rows \<Rightarrow> s\<lparr>od_scoreRows := rows\<rparr> | None \<Rightarrow> s)"

text \<open>The effect that opens the streams runs once, so the limit of the attack stream is that of the first
  render, which is that of the initial filters.\<close>

definition organizer_attacks_message :: "AttackFeedPage option \<Rightarrow> organizer \<Rightarrow> organizer" where
  "organizer_attacks_message frame s =
     (case handleRealtimeAttackMessage (attacksLiveMode s) (od_attackPage s) (af_limit (od_initialFilters s)) frame of
        NoEffect \<Rightarrow> s
      | SetPage page ids \<Rightarrow> s\<lparr>od_attackPage := page,
          od_highlights := (case ids of Some l \<Rightarrow> scheduleAttackHighlights l (od_highlights s) | None \<Rightarrow> od_highlights s)\<rparr>)"

definition checker_runs_message :: "AdminCheckerRunPage option \<Rightarrow> organizer \<Rightarrow> organizer" where
  "checker_runs_message frame s = (if \<not> isDefaultCheckerRunFilters (od_checkerRunFilters s) then s
     else (case frame of Some page \<Rightarrow> s\<lparr>od_checkerRunPage := page\<rparr> | None \<Rightarrow> s))"

definition scheduler_events_message :: "AdminSchedulerEventPage option \<Rightarrow> organizer \<Rightarrow> organizer" where
  "scheduler_events_message frame s = (if \<not> isDefaultSchedulerEventFilters (od_schedulerEventFilters s) then s
     else (case frame of Some page \<Rightarrow> s\<lparr>od_schedulerEventPage := page\<rparr> | None \<Rightarrow> s))"

definition spawn_silent :: "feed list \<Rightarrow> organizer prog" where
  "spawn_silent fds = foldr (\<lambda>fd p. Spawn (refreshPagedFeed fd True Done) p) fds Done"

definition on_mount :: "hook_types \<Rightarrow> organizer prog" where
  "on_mount c = spawn_silent [refreshWireGuardGatewayStatus c, refreshAccessStatus c, refreshOperationsStatus c, refreshServiceMetrics c]"

definition on_interval :: "hook_types \<Rightarrow> organizer prog" where
  "on_interval c = spawn_silent [refreshOperationsStatus c, refreshServiceMetrics c]"

definition on_deployments_reconciled :: "hook_types \<Rightarrow> organizer prog" where
  "on_deployments_reconciled c = spawn_silent [refreshDeploymentRows c]"

end
