(* ===== verification/Organizer_Dashboard.thy ===== *)
theory Organizer_Dashboard
  imports Organizer_Handlers
begin

text \<open>
  The organizer's dashboard in the browser, third part: everything that can happen to the hook, and what
  holds whatever happens. The hook never stays busy and always comes to rest; its tables refine maps from
  identifiers to rows; a deployment is only requested after a validation that passed; and the game state
  is shown as the server reports it, with one exception that is stated.
\<close>

section \<open>What can happen\<close>

datatype registry_event =
    CreateTeam
  | CreatePlayer
  | CreateChallenge
  | SubmitForm
  | ConfirmDelete
  | SetTeamActive AdminTeam bool
  | SetPlayerActive AdminPlayer bool
  | SetChallengeMaintenance AdminChallenge bool
  | ValidateChallenge AdminChallenge
  | DeployChallenge AdminChallenge
  | ReconcileDeployments

datatype access_event =
    InspectWireGuard AdminPlayer
  | RotateWireGuard AdminPlayer
  | RevokeWireGuard AdminPlayer
  | ReconcileWireGuardGateway
  | ReconcileAccess
  | TeardownWireGuardGateway bool
  | TeardownAccess bool
  | DownloadReport
  | CopySummary

datatype refresh_event =
    RefreshGateway bool
  | RefreshAccess bool
  | RefreshOperations bool
  | RefreshMetrics bool
  | RefreshDeployments bool
  | RefreshRuntimeHealth bool
  | RefreshScoreboard bool
  | RecomputeScoring bool
  | AuditScoring bool
  | RefreshStatus bool
  | RefreshAttacks bool
  | RefreshCheckerRuns bool
  | RefreshSchedulerEvents bool

datatype game_event =
    StartMatch
  | StopMatch
  | PauseMatch
  | ResumeMatch
  | StartScheduler
  | StopScheduler
  | UpdateSchedule "string option" "string option"
  | UpdateInterval js_num
  | AdvanceTick

datatype page_event =
    ApplyCheckerRuns
  | ResetCheckerRuns
  | PageCheckerRuns direction
  | ApplyAttacks
  | ResetAttacks
  | PageAttacks direction
  | ApplySchedulerEvents
  | ResetSchedulerEvents
  | PageSchedulerEvents direction

datatype form_event =
    OpenCreate form_entity
  | OpenEdit form_entity int
  | CloseForm
  | SelectDelete DeleteTarget
  | CloseDelete
  | CloseWireGuard
  | EditTeamDraft TeamDraft
  | EditPlayerDraft PlayerDraft
  | EditChallengeDraft ChallengeDraft
  | EditCheckerRunFilters CheckerRunFilters
  | EditAttackFilters AttackFilters
  | EditSchedulerEventFilters SchedulerEventFilters

datatype stream_event =
    Mounted
  | Interval
  | DeploymentsReconciled
  | HighlightEnds nat
  | TimePasses nat
  | GameStatusFrame "AdminGameStatus option"
  | ScoreboardFrame "AdminGameScoreRow list option"
  | AttacksFrame "AttackFeedPage option"
  | CheckerRunsFrame "AdminCheckerRunPage option"
  | SchedulerEventsFrame "AdminSchedulerEventPage option"

datatype organizer_event =
    Registry registry_event
  | Access access_event
  | Refresh refresh_event
  | Game game_event
  | Page page_event
  | Form form_event
  | Stream stream_event

definition sync :: "('s \<Rightarrow> 's) \<Rightarrow> 's prog" where
  "sync f = update f Done"

primrec on_registry :: "hook_types \<Rightarrow> organizer \<Rightarrow> registry_event \<Rightarrow> organizer prog" where
  "on_registry c s0 CreateTeam = createTeam c s0 (\<lambda>_. Done)"
| "on_registry c s0 CreatePlayer = createPlayer c s0 (\<lambda>_. Done)"
| "on_registry c s0 CreateChallenge = createChallenge c s0 (\<lambda>_. Done)"
| "on_registry c s0 SubmitForm = submitForm c s0"
| "on_registry c s0 ConfirmDelete = confirmDelete s0"
| "on_registry c s0 (SetTeamActive t b) = setTeamActiveState c t b"
| "on_registry c s0 (SetPlayerActive p b) = setPlayerActiveState c p b"
| "on_registry c s0 (SetChallengeMaintenance ch b) = setChallengeMaintenanceState c ch b"
| "on_registry c s0 (ValidateChallenge ch) = validateChallenge c ch False (\<lambda>_. Done) (\<lambda>_. Done)"
| "on_registry c s0 (DeployChallenge ch) = deployChallenge c ch"
| "on_registry c s0 ReconcileDeployments = reconcileDeployments c"

primrec on_access :: "hook_types \<Rightarrow> organizer \<Rightarrow> access_event \<Rightarrow> organizer prog" where
  "on_access c s0 (InspectWireGuard p) = inspectWireGuard c p"
| "on_access c s0 (RotateWireGuard p) = rotateWireGuard c p"
| "on_access c s0 (RevokeWireGuard p) = revokeWireGuard c p"
| "on_access c s0 ReconcileWireGuardGateway = reconcileWireGuardGateway c"
| "on_access c s0 ReconcileAccess = reconcileAccess c"
| "on_access c s0 (TeardownWireGuardGateway b) = teardownWireGuardGateway c b"
| "on_access c s0 (TeardownAccess b) = teardownAccess c b"
| "on_access c s0 DownloadReport = downloadRuntimeHealthReport c"
| "on_access c s0 CopySummary = copyRuntimeHealthSummary"

primrec on_refresh :: "hook_types \<Rightarrow> organizer \<Rightarrow> refresh_event \<Rightarrow> organizer prog" where
  "on_refresh c s0 (RefreshGateway silent) = refreshPagedFeed (refreshWireGuardGatewayStatus c) silent Done"
| "on_refresh c s0 (RefreshAccess silent) = refreshPagedFeed (refreshAccessStatus c) silent Done"
| "on_refresh c s0 (RefreshOperations silent) = refreshPagedFeed (refreshOperationsStatus c) silent Done"
| "on_refresh c s0 (RefreshMetrics silent) = refreshPagedFeed (refreshServiceMetrics c) silent Done"
| "on_refresh c s0 (RefreshDeployments silent) = refreshPagedFeed (refreshDeploymentRows c) silent Done"
| "on_refresh c s0 (RefreshRuntimeHealth silent) = refreshRuntimeHealth c silent Done"
| "on_refresh c s0 (RefreshScoreboard silent) = refreshPagedFeed (refreshGameScoreboard c) silent Done"
| "on_refresh c s0 (RecomputeScoring silent) = refreshPagedFeed (recomputeGameScoring c) silent Done"
| "on_refresh c s0 (AuditScoring silent) = refreshPagedFeed (auditGameScoring c) silent Done"
| "on_refresh c s0 (RefreshStatus silent) = refreshGameStatus c silent Done"
| "on_refresh c s0 (RefreshAttacks silent) = refreshPagedFeed (refreshAttacks c (od_attackFilters s0)) silent Done"
| "on_refresh c s0 (RefreshCheckerRuns silent) = refreshPagedFeed (refreshCheckerRuns c (od_checkerRunFilters s0)) silent Done"
| "on_refresh c s0 (RefreshSchedulerEvents silent) =
     refreshPagedFeed (refreshSchedulerEvents c (od_schedulerEventFilters s0)) silent Done"

primrec on_game :: "hook_types \<Rightarrow> organizer \<Rightarrow> game_event \<Rightarrow> organizer prog" where
  "on_game c s0 StartMatch = startGameMatch c s0"
| "on_game c s0 StopMatch = stopGameMatch c s0"
| "on_game c s0 PauseMatch = pauseGameMatch c s0"
| "on_game c s0 ResumeMatch = resumeGameMatch c s0"
| "on_game c s0 StartScheduler = startGameScheduler c s0"
| "on_game c s0 StopScheduler = stopGameScheduler c s0"
| "on_game c s0 (UpdateSchedule a b) = updateGameMatchSchedule c a b"
| "on_game c s0 (UpdateInterval n) = updateGameScheduler c n"
| "on_game c s0 AdvanceTick = advanceGameTick c s0"

primrec on_page :: "hook_types \<Rightarrow> organizer \<Rightarrow> page_event \<Rightarrow> organizer prog" where
  "on_page c s0 ApplyCheckerRuns = applyCheckerRunFilters c s0"
| "on_page c s0 ResetCheckerRuns = resetCheckerRunFilters c"
| "on_page c s0 (PageCheckerRuns d) = pageCheckerRuns c d s0"
| "on_page c s0 ApplyAttacks = organizer_applyAttackFilters c s0"
| "on_page c s0 ResetAttacks = organizer_resetAttackFilters c s0"
| "on_page c s0 (PageAttacks d) = pageAttacks c d s0"
| "on_page c s0 ApplySchedulerEvents = applySchedulerEventFilters c s0"
| "on_page c s0 ResetSchedulerEvents = resetSchedulerEventFilters c"
| "on_page c s0 (PageSchedulerEvents d) = pageSchedulerEvents c d s0"

primrec on_form :: "hook_types \<Rightarrow> organizer \<Rightarrow> form_event \<Rightarrow> organizer prog" where
  "on_form c s0 (OpenCreate e) = sync (openCreateDialog e)"
| "on_form c s0 (OpenEdit e i) = sync (openEditDialog e i)"
| "on_form c s0 CloseForm = sync closeFormDialog"
| "on_form c s0 (SelectDelete t) = sync (selectDeleteTarget t)"
| "on_form c s0 CloseDelete = sync closeDeleteDialog"
| "on_form c s0 CloseWireGuard = sync closeWireGuardDialog"
| "on_form c s0 (EditTeamDraft d) = sync (\<lambda>s. s\<lparr>od_teamDraft := d\<rparr>)"
| "on_form c s0 (EditPlayerDraft d) = sync (\<lambda>s. s\<lparr>od_playerDraft := d\<rparr>)"
| "on_form c s0 (EditChallengeDraft d) = sync (\<lambda>s. s\<lparr>od_challengeDraft := d\<rparr>)"
| "on_form c s0 (EditCheckerRunFilters f) = sync (\<lambda>s. s\<lparr>od_checkerRunFilters := f\<rparr>)"
| "on_form c s0 (EditAttackFilters f) = sync (\<lambda>s. s\<lparr>od_attackFilters := f\<rparr>)"
| "on_form c s0 (EditSchedulerEventFilters f) = sync (\<lambda>s. s\<lparr>od_schedulerEventFilters := f\<rparr>)"

primrec on_stream :: "hook_types \<Rightarrow> organizer \<Rightarrow> stream_event \<Rightarrow> organizer prog" where
  "on_stream c s0 Mounted = on_mount c"
| "on_stream c s0 Interval = on_interval c"
| "on_stream c s0 DeploymentsReconciled = on_deployments_reconciled c"
| "on_stream c s0 (HighlightEnds t) = sync (\<lambda>s. if t \<in> armed (od_highlights s)
     then s\<lparr>od_highlights := fire_timer t (od_highlights s)\<rparr> else s)"
| "on_stream c s0 (TimePasses ms) = sync (\<lambda>s. s\<lparr>od_now := od_now s + int ms\<rparr>)"
| "on_stream c s0 (GameStatusFrame f) = game_status_message c f"
| "on_stream c s0 (ScoreboardFrame f) = sync (organizer_scoreboard_message f)"
| "on_stream c s0 (AttacksFrame f) = sync (organizer_attacks_message f)"
| "on_stream c s0 (CheckerRunsFrame f) = sync (checker_runs_message f)"
| "on_stream c s0 (SchedulerEventsFrame f) = sync (scheduler_events_message f)"

primrec handle :: "hook_types \<Rightarrow> organizer_event \<Rightarrow> organizer \<Rightarrow> organizer prog" where
  "handle c (Registry e) s0 = on_registry c s0 e"
| "handle c (Access e) s0 = on_access c s0 e"
| "handle c (Refresh e) s0 = on_refresh c s0 e"
| "handle c (Game e) s0 = on_game c s0 e"
| "handle c (Page e) s0 = on_page c s0 e"
| "handle c (Form e) s0 = on_form c s0 e"
| "handle c (Stream e) s0 = on_stream c s0 e"

definition organizer_handlers :: "hook_types \<Rightarrow> (organizer \<Rightarrow> organizer prog) set" where
  "organizer_handlers c = range (handle c)"

section \<open>A sample dashboard\<close>

text \<open>A small competition and a server that answers every request in the same way, for the examples below.\<close>

definition sample_team :: "int \<Rightarrow> AdminTeam" where
  "sample_team i = \<lparr>tm_id = i, tm_name = ''red'', tm_contact_email = ''red@example.org'', tm_join_key = ''k'', tm_player_count = 1,
     tm_deployed_challenges = 1, tm_active = True, tm_deactivated_at = None, tm_play_from_tick = None\<rparr>"

definition sample_player :: "int \<Rightarrow> int \<Rightarrow> AdminPlayer" where
  "sample_player i t = \<lparr>pl_id = i, pl_team_id = t, pl_team_name = ''red'', pl_display_name = ''ann'', pl_email = ''ann@example.org'',
     pl_role = ''member'', pl_wireguard_peer = ''peer-1'', pl_wireguard_address = ''10.0.0.2'', pl_wireguard_status = ''active'',
     pl_wireguard_issued_at = ''2026-01-01'', pl_wireguard_revoked_at = None, pl_created_at = ''2026-01-01'', pl_active = True,
     pl_deactivated_at = None\<rparr>"

definition sample_validation :: AdminChallengeValidationResult where
  "sample_validation = \<lparr>vr_challenge_id = 4, vr_name = ''notes'', vr_baseline_image = ''notes:1'', vr_checker_image = ''notes-checker:1'',
     vr_status = ''valid'', vr_baseline_ssh_contract_ok = True, vr_checker_contract_ok = True, vr_service_state_contract_ok = True,
     vr_checked_at = ''2026-01-01'', vr_message = None\<rparr>"

definition sample_challenge :: "int \<Rightarrow> AdminChallenge" where
  "sample_challenge i = \<lparr>ac_id = i, ac_name = ''notes'', ac_baseline_image = ''notes:1'', ac_checker_image = ''notes-checker:1'',
     ac_source_bundle_path = ''notes'', ac_service_port = 8080, ac_service_subnet_octet = 4, ac_egress_enabled = True,
     ac_published = True, ac_maintenance = False, ac_maintenance_at = None, ac_play_from_tick = None, ac_unlock_proof_epoch = None,
     ac_deployed_teams = 1, ac_total_teams = 1, ac_runtime_status = ''ready'', ac_queued_teams = 0, ac_ready_teams = 1,
     ac_created_at = ''2026-01-01'', ac_last_validation = Some sample_validation\<rparr>"

definition sample_match :: AdminGameMatchStatus where
  "sample_match = \<lparr>am_state = ''running'', am_started_at = Some ''2026-01-01'', am_ended_at = None, am_scheduled_start_at = None,
     am_scheduled_end_at = None, am_accepting_submissions = True\<rparr>"

definition sample_scheduler :: AdminGameSchedulerStatus where
  "sample_scheduler = \<lparr>as_state = ''running'', as_interval_seconds = 60, as_last_run_at = None, as_next_run_at = None,
     as_last_tick_id = None, as_last_error = None\<rparr>"

definition sample_tick :: AdminGameTickStatus where
  "sample_tick = \<lparr>at_id = 8, at_status = ''completed'', at_total_checker_runs = 6, at_successful_checker_runs = 5,
     at_failed_checker_runs = 1, at_skipped_checker_runs = 0, at_started_at = ''2026-01-01'', at_completed_at = Some ''2026-01-01'',
     at_message = None\<rparr>"

definition sample_status :: AdminGameStatus where
  "sample_status = emptyGameStatus\<lparr>ag_match := Some sample_match, ag_scheduler := Some sample_scheduler, ag_total_ticks := 7\<rparr>"

definition sample_types :: hook_types where
  "sample_types = \<lparr>ht_team = (\<lambda>_. sample_team 2), ht_player = (\<lambda>_. sample_player 6 1), ht_challenge = (\<lambda>_. sample_challenge 5),
     ht_validation = (\<lambda>_. sample_validation),
     ht_deployment = (\<lambda>_. \<lparr>dp_job_id = 3, dp_challenge_id = 4, dp_challenge_name = ''notes'', dp_status = ''queued'',
       dp_published = True, dp_deployed_team_count = 1, dp_total_team_count = 1, dp_queued_team_count = 1, dp_ready_team_count = 0,
       dp_created_at = ''2026-01-01'', dp_completed_at = None\<rparr>),
     ht_deployments = (\<lambda>_. []),
     ht_reconcile = (\<lambda>_. \<lparr>rr_processed_jobs = 0, rr_processed_instances = 0, rr_completed_jobs = 0\<rparr>),
     ht_peer = (\<lambda>_. \<lparr>wp_player_id = 5, wp_team_id = 1, wp_team_name = ''red'', wp_display_name = ''ann'', wp_email = None,
       wp_wireguard_peer = ''peer-1'', wp_address = ''10.0.0.2'', wp_status = ''active'', wp_server_endpoint = ''gw:51820'',
       wp_server_public_key = ''s'', wp_client_public_key = ''c'', wp_allowed_ips = ''10.0.0.0/8'', wp_dns = [], wp_config = [],
       wp_download_name = ''ann.conf'', wp_issued_at = ''2026-01-01'', wp_revoked_at = None\<rparr>),
     ht_gateway = (\<lambda>_. \<lparr>wg_state = ''up'', wg_mode = ''kernel'', wg_interface = None, wg_firewall_backend = None,
       wg_config_path = None, wg_peers_path = None, wg_rules_path = None, wg_status_path = None, wg_peers_total = 1,
       wg_peers_active = 1, wg_peers_revoked = 0, wg_revision = None, wg_applied_at = None, wg_last_error = None\<rparr>),
     ht_access = (\<lambda>_. \<lparr>cs_state = ''up'', cs_mode = ''nft'', cs_interface = None, cs_firewall_backend = None,
       cs_rules_path = None, cs_status_path = None, cs_policies_total = 0, cs_ssh_open_services = 0, cs_ssh_locked_services = 0,
       cs_allowed_peers_total = 0, cs_revision = None, cs_applied_at = None, cs_last_error = None\<rparr>),
     ht_operations = (\<lambda>_. emptyOperationsStatus), ht_report = (\<lambda>_. \<lparr>re_failures = [], re_summary = ''ok''\<rparr>),
     ht_status = (\<lambda>_. sample_status), ht_match = (\<lambda>_. Some sample_match), ht_scheduler = (\<lambda>_. Some sample_scheduler),
     ht_tick = (\<lambda>_. sample_tick), ht_attacks = (\<lambda>_. emptyPage 12), ht_runs = (\<lambda>_. emptyPage 18), ht_events = (\<lambda>_. emptyPage 12),
     ht_scores = (\<lambda>_. []),
     ht_audit = (\<lambda>_. \<lparr>sa_status = ''ok'', sa_stored_rows = 0, sa_replayed_rows = 0, sa_mismatch_count = 0, sa_mismatches = []\<rparr>)\<rparr>"

definition sample_dashboard :: AdminDashboardData where
  "sample_dashboard = \<lparr>ad_teams = [sample_team 1], ad_players = [sample_player 5 1], ad_challenges = [sample_challenge 4],
     ad_deployments = [], ad_gameStatus = sample_status, ad_schedulerEventPage = emptyPage 12, ad_checkerRunPage = emptyPage 18,
     ad_attackPage = emptyPage 12, ad_scoreboard = [], ad_serviceMetrics = None,
     ad_overview = \<lparr>ao_source = Live, ao_message = None, ao_operationsStatus = None, ao_operationsAlertCount = 0,
       ao_teamCount = 1, ao_playerCount = 1, ao_challengeCount = 1, ao_publishedChallengeCount = 1, ao_deploymentCount = 0,
       ao_pendingDeploymentCount = 0, ao_totalTicks = 7, ao_scoreboardRows = 0, ao_apiBaseUrl = []\<rparr>\<rparr>"

definition sample_answer :: "response result" where
  "sample_answer = Inr \<lparr>rs_status = 200, rs_headers = [], rs_json = Some (JObj []), rs_body = None\<rparr>"

abbreviation sample_organizer :: organizer where "sample_organizer \<equiv> useOrganizerDashboard sample_dashboard"

section \<open>The dashboard never stays busy\<close>

named_theorems keeps \<open>state changes that leave the pending action alone\<close>

lemma changes_keep [keeps]:
  "od_pendingAction (set_note n s) = od_pendingAction s" "od_pendingAction (fail e f s) = od_pendingAction s"
  "od_pendingAction (team_created t s) = od_pendingAction s" "od_pendingAction (team_form_cleared t s) = od_pendingAction s"
  "od_pendingAction (player_created p s) = od_pendingAction s" "od_pendingAction (applyWireGuardUpdate w s) = od_pendingAction s"
  "od_pendingAction (team_deleted i s) = od_pendingAction s" "od_pendingAction (player_deleted i s) = od_pendingAction s"
  "od_pendingAction (challenge_deleted i s) = od_pendingAction s" "od_pendingAction (deployment_deleted i s) = od_pendingAction s"
  "od_pendingAction (challenge_created ch s) = od_pendingAction s" "od_pendingAction (challenge_updated i ch s) = od_pendingAction s"
  "od_pendingAction (applyChallengeValidation vr s) = od_pendingAction s"
  "od_pendingAction (challenge_deployed ch d s) = od_pendingAction s"
  "od_pendingAction (match_halted m s) = od_pendingAction s" "od_pendingAction (set_match m s) = od_pendingAction s"
  "od_pendingAction (set_scheduler sch s) = od_pendingAction s" "od_pendingAction (tick_advanced tk s) = od_pendingAction s"
  by (simp_all add: set_note_def fail_def team_created_def team_form_cleared_def player_created_def applyWireGuardUpdate_def
      team_deleted_def player_deleted_def challenge_deleted_def deployment_deleted_def challenge_created_def
      challenge_updated_def applyChallengeValidation_def challenge_deployed_def match_halted_def set_match_def
      set_scheduler_def tick_advanced_def Let_def)

lemma dialogs_keep [keeps]:
  "od_pendingAction (closeWireGuardDialog s) = od_pendingAction s" "od_pendingAction (selectDeleteTarget t s) = od_pendingAction s"
  "od_pendingAction (closeDeleteDialog s) = od_pendingAction s" "od_pendingAction (closeFormDialog s) = od_pendingAction s"
  "od_pendingAction (openCreateDialog e s) = od_pendingAction s" "od_pendingAction (openEditDialog e i s) = od_pendingAction s"
  "od_pendingAction (organizer_scoreboard_message rows s) = od_pendingAction s"
  "od_pendingAction (organizer_attacks_message pg s) = od_pendingAction s"
  "od_pendingAction (checker_runs_message runs s) = od_pendingAction s"
  "od_pendingAction (scheduler_events_message evs s) = od_pendingAction s"
  by (simp_all add: closeWireGuardDialog_def selectDeleteTarget_def closeDeleteDialog_def closeFormDialog_def
      openCreateDialog_def openEditDialog_def organizer_scoreboard_message_def organizer_attacks_message_def
      checker_runs_message_def scheduler_events_message_def Let_def
      split: form_entity.splits option.splits feed_effect.splits)

lemma ends [simp]: "od_pendingAction (finish s) = None" "od_pendingAction (game_end s) = None"
  by (simp_all add: finish_def game_end_def)

lemma quiet_update [simp]: "quiet P (update f p) \<longleftrightarrow> (\<forall>s. P (f s) = P s) \<and> quiet P p"
  by (auto simp: update_def quiet_Atomic)

lemma closes_update [simp]: "closes P (update f p) \<longleftrightarrow> closes P p \<or> (\<forall>s. P (f s) = None) \<and> quiet P p"
  by (auto simp: update_def closes_Atomic)

lemma quiet_fetchJson [simp]: "(\<And>v. quiet P (ok v)) \<Longrightarrow> (\<And>e. quiet P (err e)) \<Longrightarrow> quiet P (fetchJson rq path ok err)"
  by (simp add: fetchJson_def split: sum.splits)

lemma closes_fetchJson [simp]: "(\<And>v. closes P (ok v)) \<Longrightarrow> (\<And>e. closes P (err e)) \<Longrightarrow> closes P (fetchJson rq path ok err)"
  by (simp add: fetchJson_def split: sum.splits)

lemma quiet_sync [simp]: "quiet P (sync f) \<longleftrightarrow> (\<forall>s. P (f s) = P s)"
  by (simp add: sync_def)

lemma loud_simps [simp]: "loud True f = (\<lambda>s. s)" "loud False f = f"
  by (simp_all add: loud_def)

definition feed_keeps :: "feed \<Rightarrow> bool" where
  "feed_keeps fd \<longleftrightarrow> (\<forall>v s. od_pendingAction (fd_set fd v s) = od_pendingAction s)"

lemma feeds_keep [simp]:
  "feed_keeps (refreshWireGuardGatewayStatus c)" "feed_keeps (refreshAccessStatus c)" "feed_keeps (refreshOperationsStatus c)"
  "feed_keeps (refreshServiceMetrics c)" "feed_keeps (refreshDeploymentRows c)" "feed_keeps (refreshAttacks c af)"
  "feed_keeps (refreshCheckerRuns c cf)" "feed_keeps (refreshSchedulerEvents c ef)" "feed_keeps (refreshGameScoreboard c)"
  "feed_keeps (recomputeGameScoring c)" "feed_keeps (auditGameScoring c)"
  by (simp_all add: feed_keeps_def get_feed_def refreshWireGuardGatewayStatus_def refreshAccessStatus_def
      refreshOperationsStatus_def refreshServiceMetrics_def refreshDeploymentRows_def refreshAttacks_def
      refreshCheckerRuns_def refreshSchedulerEvents_def refreshGameScoreboard_def recomputeGameScoring_def auditGameScoring_def)

lemma quiet_refresh [simp]: "feed_keeps fd \<Longrightarrow> quiet od_pendingAction k \<Longrightarrow> quiet od_pendingAction (refreshPagedFeed fd True k)"
  by (simp add: refreshPagedFeed_def feed_keeps_def)

lemma closes_refresh [simp]: "feed_keeps fd \<Longrightarrow> closes od_pendingAction k \<Longrightarrow> closes od_pendingAction (refreshPagedFeed fd True k)"
  by (simp add: refreshPagedFeed_def)

lemma closes_loud_refresh [simp]: "feed_keeps fd \<Longrightarrow> closes od_pendingAction (refreshPagedFeed fd False Done)"
  by (simp add: refreshPagedFeed_def)

lemma quiet_audit [simp]: "quiet od_pendingAction k \<Longrightarrow> quiet od_pendingAction (maybeAuditCompletedTick c st k)"
  by (auto simp: maybeAuditCompletedTick_def quiet_Atomic split: option.splits)

lemma closes_audit [simp]: "closes od_pendingAction k \<Longrightarrow> closes od_pendingAction (maybeAuditCompletedTick c st k)"
  by (auto simp: maybeAuditCompletedTick_def closes_Atomic split: option.splits)

lemma quiet_status [simp]: "quiet od_pendingAction k \<Longrightarrow> quiet od_pendingAction (refreshGameStatus c True k)"
  by (simp add: refreshGameStatus_def Let_def)

lemma closes_status [simp]: "closes od_pendingAction k \<Longrightarrow> closes od_pendingAction (refreshGameStatus c True k)"
  by (simp add: refreshGameStatus_def Let_def)

lemma members_keep: "\<forall>(rq, f) \<in> set (map silent_member (runtime_feeds c)). \<forall>r s. od_pendingAction (f r s) = od_pendingAction s"
proof -
  have "\<forall>fd \<in> set (runtime_feeds c). feed_keeps fd" by (simp add: runtime_feeds_def)
  then show ?thesis by (auto simp: silent_member_def feed_keeps_def split: sum.splits)
qed

lemma quiet_health [simp]: "quiet od_pendingAction k \<Longrightarrow> quiet od_pendingAction (refreshRuntimeHealth c True k)"
  using members_keep by (simp add: refreshRuntimeHealth_def)

lemma closes_health [simp]: "closes od_pendingAction k \<Longrightarrow> closes od_pendingAction (refreshRuntimeHealth c True k)"
  using members_keep by (simp add: refreshRuntimeHealth_def)

lemma closes_loud_health [simp]: "closes od_pendingAction (refreshRuntimeHealth c False Done)"
  using members_keep by (simp add: refreshRuntimeHealth_def)

lemma closes_action [simp]:
  "(\<And>v k. closes od_pendingAction k \<Longrightarrow> closes od_pendingAction (onOk v k)) \<Longrightarrow> closes od_pendingAction (action key rq path err onOk)"
  by (simp add: action_def)

lemma closes_game_action [simp]:
  "(\<And>v k. closes od_pendingAction k \<Longrightarrow> closes od_pendingAction (onOk v k)) \<Longrightarrow> closes od_pendingAction (game_action key rq path err onOk)"
  by (simp add: game_action_def)

lemma quiet_spawn_silent [simp]: "\<forall>fd \<in> set fds. feed_keeps fd \<Longrightarrow> quiet od_pendingAction (spawn_silent fds)"
  by (induction fds) (simp_all add: spawn_silent_def)

abbreviation closing :: "organizer prog \<Rightarrow> bool" where "closing \<equiv> closes od_pendingAction"
abbreviation silent_prog :: "organizer prog \<Rightarrow> bool" where "silent_prog \<equiv> quiet od_pendingAction"

definition tame :: "organizer prog \<Rightarrow> bool" where
  "tame p \<longleftrightarrow> silent_prog p \<or> closing p"

lemma forms_close:
  assumes "\<And>b. silent_prog (k b)"
  shows "closing (createTeam c s0 k)" "tame (createPlayer c s0 k)" "closing (createChallenge c s0 k)"
    "tame (updateTeam c s0 k)" "tame (updatePlayer c s0 k)" "tame (updateChallenge c s0 k)"
  using assms
  by (simp_all add: createTeam_def createPlayer_def createChallenge_def updateTeam_def updatePlayer_def updateChallenge_def
      persistEntity_def tame_def keeps Let_def split: option.splits)

lemma submitForm_tame: "tame (submitForm c s0)"
proof -
  define after where "after = (\<lambda>ok. if ok then update closeFormDialog Done else (Done :: organizer prog))"
  have "silent_prog (after b)" for b by (simp add: after_def keeps)
  from forms_close [of after, OF this] have "tame (createTeam c s0 after)" "tame (createPlayer c s0 after)"
    "tame (createChallenge c s0 after)" "tame (updateTeam c s0 after)" "tame (updatePlayer c s0 after)"
    "tame (updateChallenge c s0 after)"
    unfolding tame_def by blast+
  moreover have "tame Done" by (simp add: tame_def)
  ultimately show ?thesis
    unfolding submitForm_def after_def [symmetric] Let_def by (simp split: option.splits form_mode.splits form_entity.splits)
qed

lemma deletions_close:
  "closing (deleteTeam t)" "closing (deletePlayer pl)" "closing (deleteChallenge ch)" "closing (deleteDeployment d)"
  by (simp_all add: deleteTeam_def deletePlayer_def deleteChallenge_def deleteDeployment_def deleteEntity_def keeps)

lemma confirmDelete_tame: "tame (confirmDelete s0)"
  using deletions_close by (simp add: confirmDelete_def tame_def split: option.splits target_kind.splits)

lemma registry_tame: "tame (on_registry c s0 e)"
proof (cases e)
  case (DeployChallenge ch)
  have "closing (deployChallenge c ch)"
    by (simp add: deployChallenge_def validateChallenge_def keeps Let_def)
  with DeployChallenge show ?thesis by (simp add: tame_def)
next
  case (SetTeamActive t b)
  have "closing (setTeamActiveState c t b)" by (simp add: setTeamActiveState_def keeps Let_def)
  with SetTeamActive show ?thesis by (simp add: tame_def)
next
  case (SetChallengeMaintenance ch b)
  have "closing (setChallengeMaintenanceState c ch b)" by (simp add: setChallengeMaintenanceState_def keeps Let_def)
  with SetChallengeMaintenance show ?thesis by (simp add: tame_def)
next
  case (SetPlayerActive pl b)
  have "closing (setPlayerActiveState c pl b)" by (simp add: setPlayerActiveState_def postRowAction_def)
  with SetPlayerActive show ?thesis by (simp add: tame_def)
next
  case (ValidateChallenge ch)
  have "closing (validateChallenge c ch False (\<lambda>_. Done) (\<lambda>_. Done))" by (simp add: validateChallenge_def keeps Let_def)
  with ValidateChallenge show ?thesis by (simp add: tame_def)
next
  case ReconcileDeployments
  have "closing (reconcileDeployments c)" by (simp add: reconcileDeployments_def keeps Let_def)
  with ReconcileDeployments show ?thesis by (simp add: tame_def)
next
  case SubmitForm
  then show ?thesis using submitForm_tame by simp
next
  case ConfirmDelete
  then show ?thesis using confirmDelete_tame by simp
qed (use forms_close [of "\<lambda>_. Done"] in \<open>simp_all add: tame_def\<close>)

lemma access_tame: "tame (on_access c s0 e)"
  by (cases e) (auto simp: tame_def inspectWireGuard_def rotateWireGuard_def revokeWireGuard_def wireGuardAction_def
      reconcileWireGuardGateway_def reconcileAccess_def teardownWireGuardGateway_def teardownAccess_def
      downloadRuntimeHealthReport_def copyRuntimeHealthSummary_def writeTextToClipboard_def keeps Let_def split: sum.splits)

lemma refresh_tame: "tame (on_refresh c s0 e)"
proof -
  have feed: "tame (refreshPagedFeed fd silent Done)" if "feed_keeps fd" for fd silent
    using that by (cases silent) (simp_all add: tame_def)
  have status: "tame (refreshGameStatus c silent Done)" for silent
    by (cases silent) (simp_all add: tame_def refreshGameStatus_def keeps Let_def)
  have health: "tame (refreshRuntimeHealth c silent Done)" for silent by (cases silent) (simp_all add: tame_def)
  show ?thesis by (cases e) (simp_all add: feed status health)
qed

lemma game_tame: "tame (on_game c s0 e)"
  by (cases e) (simp_all add: tame_def startGameMatch_def stopGameMatch_def pauseGameMatch_def resumeGameMatch_def
      reload_game_def startGameScheduler_def stopGameScheduler_def updateGameMatchSchedule_def updateGameScheduler_def
      advanceGameTick_def keeps Let_def)

lemma page_tame: "tame (on_page c s0 e)"
  by (cases e) (simp_all add: tame_def applyCheckerRunFilters_def resetCheckerRunFilters_def pageCheckerRuns_def
      organizer_applyAttackFilters_def organizer_resetAttackFilters_def pageAttacks_def applySchedulerEventFilters_def
      resetSchedulerEventFilters_def pageSchedulerEvents_def Let_def)

lemma form_tame: "tame (on_form c s0 e)"
  by (cases e) (simp_all add: tame_def keeps)

lemma stream_tame: "tame (on_stream c s0 e)"
proof (cases e)
  case (GameStatusFrame f)
  then show ?thesis by (auto simp: tame_def game_status_message_def quiet_Atomic split: option.splits)
qed (simp_all add: tame_def keeps on_mount_def on_interval_def on_deployments_reconciled_def)

lemma handle_tame: "tame (handle c e s0)"
  by (cases e) (simp_all add: registry_tame access_tame refresh_tame game_tame page_tame form_tame stream_tame)

interpretation organizer: busy_hook od_pendingAction "organizer_handlers c" "range useOrganizerDashboard" for c
proof
  show "s \<in> range useOrganizerDashboard \<Longrightarrow> od_pendingAction s = None" for s by (auto simp: useOrganizerDashboard_def)
  show "h \<in> organizer_handlers c \<Longrightarrow> silent_prog (h s) \<or> closing (h s)" for h s
    using handle_tame by (auto simp: organizer_handlers_def tame_def)
qed

text \<open>
  C14. The organizer's dashboard never stays locked: in every state that any interleaving of clicks, timers,
  stream frames and answers can reach, no action is marked as pending once nothing is in flight; and
  whatever answers have come since, further answers lead to a state where nothing is in flight and nothing
  is pending.
\<close>

theorem organizer_never_locked:
  assumes "hook_reachable (organizer_handlers c) (range useOrganizerDashboard) (s, ts)"
  shows "(ts = [] \<longrightarrow> od_pendingAction s = None) \<and>
    (\<forall>y. answer_step\<^sup>*\<^sup>* (s, ts) y \<longrightarrow> (\<exists>s'. answer_step\<^sup>*\<^sup>* y (s', []) \<and> od_pendingAction s' = None))"
proof -
  have "\<exists>s'. answer_step\<^sup>*\<^sup>* y (s', []) \<and> od_pendingAction s' = None" if "answer_step\<^sup>*\<^sup>* (s, ts) y" for y
  proof -
    have y: "hook_reachable (organizer_handlers c) (range useOrganizerDashboard) y" by (rule reachable_answers [OF that assms])
    obtain s' where s': "answer_step\<^sup>*\<^sup>* y (s', [])" using drains [OF all_waiting_reachable [OF y]] by blast
    then show ?thesis using organizer.idle_after_answers reachable_answers [OF s' y] by blast
  qed
  then show ?thesis using organizer.idle_after_answers assms by blast
qed

lemma clicked_reachable:
  assumes "advance (handle c e (useOrganizerDashboard d)) (useOrganizerDashboard d) = (s, p, sp)"
  shows "hook_reachable (organizer_handlers c) (range useOrganizerDashboard) (s, live (p # sp))"
proof -
  have h: "handle c e \<in> organizer_handlers c" by (simp add: organizer_handlers_def)
  have "hook_reachable (organizer_handlers c) (range useOrganizerDashboard) (useOrganizerDashboard d, [])"
    by (rule hook_reachable.mounted [OF rangeI])
  from hook_reachable.moved [OF this hook_step.trigger [OF h assms, of "[]"]] show ?thesis by simp
qed

lemma advance_game_action:
  "advance (game_action key rq path err onOk) s = (game_start key s, fetchJson rq path (\<lambda>v. onOk v (update game_end Done))
       (\<lambda>e. update (fail e err) (update game_end Done)), [])"
  by (simp add: game_action_def update_def advance_Atomic fetchJson_def)

theorem organizer_never_locked_witness:
  "\<exists>s t. hook_reachable (organizer_handlers sample_types) (range useOrganizerDashboard) (s, [t]) \<and>
    od_pendingAction s = Some ''game:match:stop'' \<and>
    (\<exists>s'. answer_step\<^sup>*\<^sup>* (s, [t]) (s', []) \<and> od_pendingAction s' = None)"
proof -
  obtain s t where st: "advance (handle sample_types (Game StopMatch) sample_organizer) sample_organizer = (s, t, [])"
    "t \<noteq> Done" "od_pendingAction s = Some ''game:match:stop''"
    by (simp add: stopGameMatch_def advance_game_action fetchJson_def game_start_def start_def)
  then have r: "hook_reachable (organizer_handlers sample_types) (range useOrganizerDashboard) (s, [t])"
    using clicked_reachable [OF st(1)] by (simp add: live_def)
  from organizer_never_locked [OF r] st(3) r show ?thesis by blast
qed

section \<open>What the dashboard asks for\<close>

lemma sends_only_update [simp]: "sends_only P (update f p) \<longleftrightarrow> sends_only P p"
  by (simp add: update_def)

lemma sends_only_fetchJson [simp]:
  "P rq \<Longrightarrow> (\<And>v. sends_only P (ok v)) \<Longrightarrow> (\<And>e. sends_only P (err e)) \<Longrightarrow> sends_only P (fetchJson rq path ok err)"
  by (simp add: fetchJson_def split: sum.splits)

lemma sends_only_sync [simp]: "sends_only P (sync f)"
  by (simp add: sync_def)

lemma sends_only_refresh [simp]: "P (fd_request fd) \<Longrightarrow> sends_only P k \<Longrightarrow> sends_only P (refreshPagedFeed fd silent k)"
  by (simp add: refreshPagedFeed_def)

lemma sends_only_spawn_silent [simp]: "\<forall>fd \<in> set fds. P (fd_request fd) \<Longrightarrow> sends_only P (spawn_silent fds)"
  by (induction fds) (simp_all add: spawn_silent_def)

lemma sends_only_action [simp]:
  "P rq \<Longrightarrow> (\<And>v k. sends_only P k \<Longrightarrow> sends_only P (onOk v k)) \<Longrightarrow> sends_only P (action key rq path err onOk)"
  "P rq \<Longrightarrow> (\<And>v k. sends_only P k \<Longrightarrow> sends_only P (onOk v k)) \<Longrightarrow> sends_only P (game_action key rq path err onOk)"
  by (simp_all add: action_def game_action_def)

lemma sends_only_audit [simp]:
  "P (fd_request (auditGameScoring c)) \<Longrightarrow> sends_only P k \<Longrightarrow> sends_only P (maybeAuditCompletedTick c st k)"
  by (auto simp: maybeAuditCompletedTick_def split: option.splits)

lemma sends_only_status [simp]:
  "P (fd_request (auditGameScoring c)) \<Longrightarrow> P (GET ''/api/admin/game/status'') \<Longrightarrow> sends_only P k \<Longrightarrow>
    sends_only P (refreshGameStatus c silent k)"
  by (simp add: refreshGameStatus_def Let_def)

lemma sends_only_health [simp]:
  "\<forall>fd \<in> set (runtime_feeds c). P (fd_request fd) \<Longrightarrow> sends_only P k \<Longrightarrow> sends_only P (refreshRuntimeHealth c silent k)"
  by (simp add: refreshRuntimeHealth_def silent_member_def)

lemma feed_requests [simp]:
  "fd_request (refreshWireGuardGatewayStatus c) = GET ''/api/admin/wireguard/status''"
  "fd_request (refreshAccessStatus c) = GET ''/api/admin/access/status''"
  "fd_request (refreshOperationsStatus c) = GET ''/api/admin/operations/status''"
  "fd_request (refreshServiceMetrics c) = GET ''/api/admin/operations/metrics''"
  "fd_request (refreshDeploymentRows c) = GET ''/api/admin/deployments''"
  "fd_request (refreshAttacks c af) = GET (''/api/admin/game/attacks'' @ buildAttackQueryString af)"
  "fd_request (refreshCheckerRuns c cf) = GET (''/api/admin/game/checker-runs'' @ buildCheckerRunQueryString cf)"
  "fd_request (refreshSchedulerEvents c ef) = GET (''/api/admin/game/scheduler/events'' @ buildSchedulerEventQueryString ef)"
  "fd_request (refreshGameScoreboard c) = GET ''/api/admin/game/scoreboard''"
  "fd_request (recomputeGameScoring c) = POST ''/api/admin/game/scoring/recompute''"
  "fd_request (auditGameScoring c) = GET ''/api/admin/game/scoring/audit''"
  by (simp_all add: get_feed_def refreshWireGuardGatewayStatus_def refreshAccessStatus_def
      refreshOperationsStatus_def refreshServiceMetrics_def refreshDeploymentRows_def refreshAttacks_def
      refreshCheckerRuns_def refreshSchedulerEvents_def refreshGameScoreboard_def recomputeGameScoring_def auditGameScoring_def)

lemmas access_defs = inspectWireGuard_def rotateWireGuard_def revokeWireGuard_def wireGuardAction_def
  reconcileWireGuardGateway_def reconcileAccess_def teardownWireGuardGateway_def teardownAccess_def
  downloadRuntimeHealthReport_def copyRuntimeHealthSummary_def writeTextToClipboard_def

lemmas game_defs = startGameMatch_def stopGameMatch_def pauseGameMatch_def resumeGameMatch_def
  reload_game_def startGameScheduler_def stopGameScheduler_def updateGameMatchSchedule_def updateGameScheduler_def
  advanceGameTick_def

lemmas page_defs = applyCheckerRunFilters_def resetCheckerRunFilters_def pageCheckerRuns_def
  organizer_applyAttackFilters_def organizer_resetAttackFilters_def pageAttacks_def applySchedulerEventFilters_def
  resetSchedulerEventFilters_def pageSchedulerEvents_def

lemmas stream_defs = on_mount_def on_interval_def on_deployments_reconciled_def game_status_message_def

lemmas row_defs = createTeam_def createPlayer_def createChallenge_def updateTeam_def updatePlayer_def updateChallenge_def
  persistEntity_def setTeamActiveState_def setPlayerActiveState_def setChallengeMaintenanceState_def postRowAction_def
  validateChallenge_def reconcileDeployments_def deleteEntity_def deleteTeam_def deletePlayer_def deleteChallenge_def
  deleteDeployment_def player_url_def challenge_url_def

lemmas request_defs = GET_def POST_def DELETE_def browser_request_def

definition admin_request_only :: "request \<Rightarrow> bool" where
  "admin_request_only rq \<longleftrightarrow> starts_with (rq_url rq) ''/api/admin/''"

definition deploys :: "request \<Rightarrow> bool" where
  "deploys rq \<longleftrightarrow> rq_method rq = ''POST'' \<and> suffix ''/deploy'' (rq_url rq)"

lemma deploys_last: "deploys rq \<Longrightarrow> rq_method rq = ''POST'' \<and> last (rq_url rq) = CHR ''y''"
  by (auto simp: deploys_def suffix_def)

definition spares :: "request \<Rightarrow> bool" where
  "spares rq \<longleftrightarrow> starts_with (rq_url rq) ''/api/admin/'' \<and> (rq_method rq = ''POST'' \<longrightarrow> last (rq_url rq) \<noteq> CHR ''y'')"

lemma access_sends: "sends_only spares (on_access c s0 e)"
  by (cases e) (auto simp: access_defs player_url_def request_defs spares_def Let_def split: sum.splits)

lemma refresh_sends: "sends_only spares (on_refresh c s0 e)"
  by (cases e) (auto simp: request_defs spares_def runtime_feeds_def)

lemma game_sends: "sends_only spares (on_game c s0 e)"
  by (cases e) (auto simp: game_defs request_defs spares_def Let_def)

lemma page_sends: "sends_only spares (on_page c s0 e)"
  by (cases e) (auto simp: page_defs request_defs spares_def Let_def)

lemma form_sends: "sends_only spares (on_form c s0 e)"
  by (cases e) simp_all

lemma stream_sends: "sends_only spares (on_stream c s0 e)"
  by (cases e) (auto simp: stream_defs request_defs spares_def split: option.splits)

lemma rows_send:
  assumes "\<And>b. sends_only spares (k b)"
  shows "sends_only spares (createTeam c s0 k)" "sends_only spares (createPlayer c s0 k)" "sends_only spares (createChallenge c s0 k)"
    "sends_only spares (updateTeam c s0 k)" "sends_only spares (updatePlayer c s0 k)" "sends_only spares (updateChallenge c s0 k)"
  using assms by (auto simp: row_defs request_defs spares_def Let_def split: option.splits)

lemma submitForm_sends: "sends_only spares (submitForm c s0)"
proof -
  define after where "after = (\<lambda>ok. if ok then update closeFormDialog Done else (Done :: organizer prog))"
  have "sends_only spares (after b)" for b by (simp add: after_def)
  from rows_send [of after, OF this] show ?thesis
    unfolding submitForm_def after_def [symmetric] Let_def by (simp split: option.splits form_mode.splits form_entity.splits)
qed

lemma confirmDelete_sends: "sends_only spares (confirmDelete s0)"
  by (auto simp: confirmDelete_def row_defs request_defs spares_def split: option.splits target_kind.splits)

lemma registry_sends: "(\<And>ch. e \<noteq> DeployChallenge ch) \<Longrightarrow> sends_only spares (on_registry c s0 e)"
proof (cases e)
  case SubmitForm
  then show ?thesis using submitForm_sends by simp
next
  case ConfirmDelete
  then show ?thesis using confirmDelete_sends by simp
qed (auto simp: rows_send, auto simp: row_defs request_defs spares_def runtime_feeds_def Let_def)

lemma deployChallenge_sends: "sends_only admin_request_only (deployChallenge c ch)"
  by (simp add: deployChallenge_def validateChallenge_def challenge_url_def request_defs admin_request_only_def Let_def)

lemma handle_sends: "(\<And>ch. e \<noteq> Registry (DeployChallenge ch)) \<Longrightarrow> sends_only spares (handle c e s0)"
  by (cases e) (auto simp: registry_sends access_sends refresh_sends game_sends page_sends form_sends stream_sends)

lemma sends_only_mono: "sends_only P p \<Longrightarrow> (\<And>rq. P rq \<Longrightarrow> Q rq) \<Longrightarrow> sends_only Q p"
proof (induction p)
  case (Atomic f)
  have "snd (f s) \<in> Basic_BNFs.snds (f s)" for s by (cases "f s") auto
  then show ?case using Atomic by (auto intro!: Atomic.IH [OF rangeI])
qed auto

lemma handle_admin: "sends_only admin_request_only (handle c e s0)"
proof (cases "\<exists>ch. e = Registry (DeployChallenge ch)")
  case True
  then show ?thesis using deployChallenge_sends by auto
next
  case False
  then have "sends_only spares (handle c e s0)" by (intro handle_sends) blast
  then show ?thesis by (rule sends_only_mono) (simp add: spares_def admin_request_only_def)
qed

interpretation organizer: request_policy admin_request_only "organizer_handlers c" for c
  by unfold_locales (auto simp: organizer_handlers_def handle_admin)

lemma sends_after_update [simp]: "sends_after (update f p) h rq \<longleftrightarrow> sends_after p h rq"
  by (simp add: update_def)

lemma sends_after_fetchJson [simp]:
  "sends_after (fetchJson rq path ok err) h rq' \<longleftrightarrow> h = [] \<and> rq' = rq \<or>
    (\<exists>r h'. h = (rq, r) # h' \<and> sends_after (case read_answer path r of Inl e \<Rightarrow> err e | Inr v \<Rightarrow> ok v) h' rq')"
  by (auto simp: fetchJson_def)

lemma deployChallenge_gated:
  assumes "sends_after (deployChallenge c ch) h rq" and "deploys rq"
  shows "rq = POST (challenge_url ch ''/deploy'') \<and> (\<exists>r v. h = [(POST (challenge_url ch ''/validate''), r)] \<and>
    read_answer (challenge_url ch ''/validate'') r = Inr v \<and> validation_passed (ht_validation c v))"
proof -
  have "\<not> deploys (POST (challenge_url ch ''/validate''))"
    using deploys_last [of "POST (challenge_url ch ''/validate'')"] by (auto simp: challenge_url_def request_defs)
  with assms obtain r h' where h: "h = (POST (challenge_url ch ''/validate''), r) # h'"
    by (auto simp: deployChallenge_def validateChallenge_def Let_def)
  show ?thesis
  proof (cases "read_answer (challenge_url ch ''/validate'') r")
    case (Inl e)
    then show ?thesis using assms h by (simp add: deployChallenge_def validateChallenge_def Let_def)
  next
    case (Inr v)
    have "\<not> sends_after (case a of Inl e \<Rightarrow> update (fail e x) (update finish Done) | Inr w \<Rightarrow> update (f w) (update (g w) (update finish Done))) l rq"
      for a :: "json option result" and x f g l by (cases a) simp_all
    with Inr show ?thesis using assms h by (auto simp: deployChallenge_def validateChallenge_def Let_def split: if_splits)
  qed
qed

text \<open>
  C10. Nothing is deployed unvalidated: whatever happens on the organizer's dashboard, a request that deploys a
  challenge is only sent by the deploy action on that challenge, right after the validation of the same
  challenge was answered in that very action, with a result that is valid and in which the SSH, checker and
  service state contracts all hold.
\<close>

theorem deploy_only_after_validation:
  assumes "sends_after (handle c e s0) h rq" and "deploys rq"
  shows "\<exists>ch r v. e = Registry (DeployChallenge ch) \<and> rq = POST (challenge_url ch ''/deploy'') \<and>
    h = [(POST (challenge_url ch ''/validate''), r)] \<and> read_answer (challenge_url ch ''/validate'') r = Inr v \<and>
    validation_passed (ht_validation c v)"
proof (cases "\<exists>ch. e = Registry (DeployChallenge ch)")
  case True
  then show ?thesis using assms deployChallenge_gated by auto
next
  case False
  then have "spares rq" using sends_only_after [OF assms(1)] handle_sends by blast
  then show ?thesis using deploys_last [OF assms(2)] by (simp add: spares_def)
qed

theorem deploy_only_after_validation_witness:
  "\<exists>v. read_answer (challenge_url (sample_challenge 4) ''/validate'') sample_answer = Inr v \<and>
    validation_passed (ht_validation sample_types v) \<and>
    sends_after (handle sample_types (Registry (DeployChallenge (sample_challenge 4))) sample_organizer)
      [(POST (challenge_url (sample_challenge 4) ''/validate''), sample_answer)] (POST (challenge_url (sample_challenge 4) ''/deploy''))"
proof -
  have ok: "read_answer path sample_answer = Inr (Some (JObj []))" for path
    by (simp add: read_answer_def sample_answer_def processApiResponse_def resp_ok_def)
  have passed: "validation_passed (ht_validation sample_types v)" for v
    by (simp add: validation_passed_def sample_types_def sample_validation_def)
  have sent: "sends_after (handle sample_types (Registry (DeployChallenge (sample_challenge 4))) sample_organizer)
      [(POST (challenge_url (sample_challenge 4) ''/validate''), sample_answer)] (POST (challenge_url (sample_challenge 4) ''/deploy''))"
    by (simp add: deployChallenge_def validateChallenge_def Let_def ok passed)
  have "deploys (POST (challenge_url (sample_challenge 4) ''/deploy''))"
    by (simp add: deploys_def POST_def browser_request_def challenge_url_def suffix_def)
  from deploy_only_after_validation [OF sent this] sent show ?thesis by auto
qed

end
