(* ===== verification/Organizer_Registry.thy ===== *)
theory Organizer_Registry
  imports Organizer_Dashboard
begin

text \<open>
  The tables of the organizer's dashboard as what they stand for: four maps from identifiers to rows. The
  forms and the delete dialog refine the operations of that registry; a refused request leaves it alone.
\<close>

section \<open>The registry\<close>

definition table :: "('a \<Rightarrow> int) \<Rightarrow> 'a list \<Rightarrow> int \<Rightarrow> 'a option" where
  "table key rows = map_of (map (\<lambda>r. (key r, r)) rows)"

definition unique :: "('a \<Rightarrow> int) \<Rightarrow> 'a list \<Rightarrow> bool" where
  "unique key rows \<longleftrightarrow> distinct (map key rows)"

record registry =
  rg_teams :: "int \<Rightarrow> AdminTeam option"
  rg_players :: "int \<Rightarrow> AdminPlayer option"
  rg_challenges :: "int \<Rightarrow> AdminChallenge option"
  rg_deployments :: "int \<Rightarrow> AdminDeploymentJob option"

definition registry_of :: "organizer \<Rightarrow> registry" where
  "registry_of s = \<lparr>rg_teams = table tm_id (od_teamRows s), rg_players = table pl_id (od_playerRows s),
     rg_challenges = table ac_id (od_challengeRows s), rg_deployments = table dj_id (od_deploymentRows s)\<rparr>"

definition registry_wf :: "organizer \<Rightarrow> bool" where
  "registry_wf s \<longleftrightarrow> unique tm_id (od_teamRows s) \<and> unique pl_id (od_playerRows s) \<and>
     unique ac_id (od_challengeRows s) \<and> unique dj_id (od_deploymentRows s)"

text \<open>What the operations mean.\<close>

definition present :: "target_kind \<Rightarrow> int \<Rightarrow> registry \<Rightarrow> bool" where
  "present kind i R = (case kind of
     DeleteTeam \<Rightarrow> i \<in> dom (rg_teams R) | DeletePlayer \<Rightarrow> i \<in> dom (rg_players R)
   | DeleteChallenge \<Rightarrow> i \<in> dom (rg_challenges R) | DeleteDeployment \<Rightarrow> i \<in> dom (rg_deployments R))"

definition drop_entry :: "target_kind \<Rightarrow> int \<Rightarrow> registry \<Rightarrow> registry" where
  "drop_entry kind i R = (case kind of
     DeleteTeam \<Rightarrow> R\<lparr>rg_teams := (rg_teams R)(i := None),
       rg_players := (\<lambda>j. case rg_players R j of Some p \<Rightarrow> if pl_team_id p = i then None else Some p | None \<Rightarrow> None)\<rparr>
   | DeletePlayer \<Rightarrow> R\<lparr>rg_players := (rg_players R)(i := None)\<rparr>
   | DeleteChallenge \<Rightarrow> R\<lparr>rg_challenges := (rg_challenges R)(i := None)\<rparr>
   | DeleteDeployment \<Rightarrow> R\<lparr>rg_deployments := (rg_deployments R)(i := None)\<rparr>)"

definition seat_team :: "AdminChallenge \<Rightarrow> AdminChallenge" where
  "seat_team c = (if ac_published c
     then c\<lparr>ac_total_teams := ac_total_teams c + 1, ac_deployed_teams := ac_deployed_teams c + 1, ac_ready_teams := ac_ready_teams c + 1\<rparr>
     else c\<lparr>ac_total_teams := ac_total_teams c + 1\<rparr>)"

definition seat_player :: "int \<Rightarrow> AdminTeam \<Rightarrow> AdminTeam" where
  "seat_player i t = (if tm_id t = i then t\<lparr>tm_player_count := tm_player_count t + 1\<rparr> else t)"

definition add_team :: "AdminTeam \<Rightarrow> registry \<Rightarrow> registry" where
  "add_team t R = R\<lparr>rg_teams := (rg_teams R)(tm_id t \<mapsto> t), rg_challenges := map_option seat_team \<circ> rg_challenges R\<rparr>"

definition add_player :: "AdminPlayer \<Rightarrow> registry \<Rightarrow> registry" where
  "add_player p R = R\<lparr>rg_players := (rg_players R)(pl_id p \<mapsto> p), rg_teams := map_option (seat_player (pl_team_id p)) \<circ> rg_teams R\<rparr>"

definition add_challenge :: "AdminChallenge \<Rightarrow> registry \<Rightarrow> registry" where
  "add_challenge c R = R\<lparr>rg_challenges := (rg_challenges R)(ac_id c \<mapsto> c)\<rparr>"

definition put :: "int \<Rightarrow> 'a \<Rightarrow> (int \<Rightarrow> 'a option) \<Rightarrow> int \<Rightarrow> 'a option" where
  "put i a m = (if i \<in> dom m then m(i \<mapsto> a) else m)"

text \<open>The form that is open, submitted with the answer \<open>v\<close>.\<close>

definition submitted :: "hook_types \<Rightarrow> form_mode \<Rightarrow> form_entity \<Rightarrow> int \<Rightarrow> json option \<Rightarrow> registry \<Rightarrow> registry" where
  "submitted c m e i v R = (case (m, e) of
     (CreateMode, TeamForm) \<Rightarrow> add_team (ht_team c v) R
   | (CreateMode, PlayerForm) \<Rightarrow> add_player (ht_player c v) R
   | (CreateMode, ChallengeForm) \<Rightarrow> add_challenge (ht_challenge c v) R
   | (EditMode, TeamForm) \<Rightarrow> R\<lparr>rg_teams := put i (ht_team c v) (rg_teams R)\<rparr>
   | (EditMode, PlayerForm) \<Rightarrow> R\<lparr>rg_players := put i (ht_player c v) (rg_players R)\<rparr>
   | (EditMode, ChallengeForm) \<Rightarrow> R\<lparr>rg_challenges := put i (ht_challenge c v) (rg_challenges R)\<rparr>)"

text \<open>An answer fits when a created row has a new identifier and an edited row keeps its own.\<close>

definition answer_id :: "hook_types \<Rightarrow> form_entity \<Rightarrow> json option \<Rightarrow> int" where
  "answer_id c e v = (case e of TeamForm \<Rightarrow> tm_id (ht_team c v) | PlayerForm \<Rightarrow> pl_id (ht_player c v) | ChallengeForm \<Rightarrow> ac_id (ht_challenge c v))"

definition target_of :: "form_entity \<Rightarrow> target_kind" where
  "target_of e = (case e of TeamForm \<Rightarrow> DeleteTeam | PlayerForm \<Rightarrow> DeletePlayer | ChallengeForm \<Rightarrow> DeleteChallenge)"

definition answer_fits :: "hook_types \<Rightarrow> form_mode \<Rightarrow> form_entity \<Rightarrow> int \<Rightarrow> json option \<Rightarrow> registry \<Rightarrow> bool" where
  "answer_fits c m e i v R \<longleftrightarrow> (case m of
     CreateMode \<Rightarrow> \<not> present (target_of e) (answer_id c e v) R | EditMode \<Rightarrow> answer_id c e v = i)"

definition form_ready :: "form_mode \<Rightarrow> form_entity \<Rightarrow> int \<Rightarrow> organizer \<Rightarrow> bool" where
  "form_ready m e i s \<longleftrightarrow> od_formMode s = Some m \<and> od_formEntity s = Some e \<and>
     (m = EditMode \<longrightarrow> od_editingId s = Some i) \<and> (m = CreateMode \<and> e = PlayerForm \<longrightarrow> pd_teamId (od_playerDraft s) \<noteq> 0)"

definition accepted :: "response result \<Rightarrow> json option option" where
  "accepted r = (case read_answer [] r of Inl _ \<Rightarrow> None | Inr v \<Rightarrow> Some v)"

section \<open>Tables of rows\<close>

text \<open>What a component may rely on when it keeps rows in a table.\<close>

locale row_table =
  fixes tab :: "'r \<Rightarrow> int \<Rightarrow> 'a option" and wf :: "'r \<Rightarrow> bool" and key :: "'a \<Rightarrow> int"
    and push :: "'a \<Rightarrow> 'r \<Rightarrow> 'r" and replace :: "int \<Rightarrow> 'a \<Rightarrow> 'r \<Rightarrow> 'r" and remove :: "int \<Rightarrow> 'r \<Rightarrow> 'r"
  assumes push: "key a \<notin> dom (tab r) \<Longrightarrow> tab (push a r) = (tab r)(key a \<mapsto> a)"
    and push_wf: "wf r \<Longrightarrow> key a \<notin> dom (tab r) \<Longrightarrow> wf (push a r)"
    and replace: "key a = i \<Longrightarrow> tab (replace i a r) = put i a (tab r)"
    and replace_wf: "wf r \<Longrightarrow> key a = i \<Longrightarrow> wf (replace i a r)"
    and remove: "tab (remove i r) = (tab r)(i := None)"
    and remove_wf: "wf r \<Longrightarrow> wf (remove i r)"
begin

lemma remove_push: "key a \<notin> dom (tab r) \<Longrightarrow> tab (remove (key a) (push a r)) = tab r"
  by (auto simp: push remove dom_def)

lemma replace_push: "key a \<notin> dom (tab r) \<Longrightarrow> key b = key a \<Longrightarrow> tab (replace (key a) b (push a r)) = tab (push b r)"
  by (simp add: push replace put_def)

end

lemma table_Cons [simp]: "table key (x # xs) = (table key xs)(key x \<mapsto> x)" "table key [] = Map.empty"
  by (simp_all add: table_def)

lemma table_find: "find (\<lambda>r. key r = i) rows = table key rows i"
  by (induction rows) auto

lemma table_dom: "dom (table key rows) = key ` set rows"
  by (simp add: table_def dom_map_of_conv_image_fst image_image)

lemma table_key: "table key rows i = Some r \<Longrightarrow> key r = i"
  by (induction rows) (auto split: if_splits)

lemma table_append: "key a \<notin> dom (table key rows) \<Longrightarrow> table key (rows @ [a]) = (table key rows)(key a \<mapsto> a)"
  by (induction rows) (auto simp: fun_upd_twist)

lemma table_map: "(\<And>r. key (f r) = key r) \<Longrightarrow> table key (map f rows) = map_option f \<circ> table key rows"
  by (induction rows) (auto simp: fun_eq_iff)

lemma table_replace: "key a = i \<Longrightarrow> table key (replace_row key i a rows) = put i a (table key rows)"
  by (induction rows) (auto simp: replace_row_def map_where_def put_def fun_eq_iff)

lemma table_remove: "table key (remove_row key i rows) = (table key rows)(i := None)"
  by (induction rows) (auto simp: remove_row_def fun_eq_iff)

lemma table_filter: "unique key rows \<Longrightarrow>
  table key (filter p rows) = (\<lambda>j. case table key rows j of Some r \<Rightarrow> if p r then Some r else None | None \<Rightarrow> None)"
proof (induction rows)
  case (Cons r rows)
  have "key r \<notin> dom (table key rows)" using Cons.prems by (auto simp: unique_def table_dom)
  with Cons show ?case by (auto simp: unique_def fun_eq_iff split: option.splits)
qed simp

lemma unique_map: "(\<And>r. key (f r) = key r) \<Longrightarrow> unique key (map f rows) = unique key rows"
  by (simp add: unique_def comp_def)

lemma unique_filter: "unique key rows \<Longrightarrow> unique key (filter p rows)"
  by (simp add: unique_def distinct_map_filter)

lemma unique_replace: "key a = i \<Longrightarrow> unique key (replace_row key i a rows) = unique key rows"
  unfolding replace_row_def map_where_def by (rule unique_map) auto

lemma unique_remove: "unique key rows \<Longrightarrow> unique key (remove_row key i rows)"
  unfolding remove_row_def by (rule unique_filter)

lemma unique_append: "unique key rows \<Longrightarrow> key a \<notin> dom (table key rows) \<Longrightarrow> unique key (rows @ [a])"
  by (auto simp: unique_def table_dom)

lemma list_row_table: "row_table (table key) (unique key) key (\<lambda>a rows. rows @ [a]) (replace_row key) (remove_row key)"
  by unfold_locales
    (auto simp: table_append unique_append table_replace unique_replace table_remove unique_remove)

interpretation teams: row_table "table tm_id" "unique tm_id" tm_id "\<lambda>a rows. rows @ [a]" "replace_row tm_id" "remove_row tm_id"
  by (rule list_row_table)

interpretation players: row_table "table pl_id" "unique pl_id" pl_id "\<lambda>a rows. rows @ [a]" "replace_row pl_id" "remove_row pl_id"
  by (rule list_row_table)

interpretation challenges: row_table "table ac_id" "unique ac_id" ac_id "\<lambda>a rows. rows @ [a]" "replace_row ac_id" "remove_row ac_id"
  by (rule list_row_table)

interpretation deployments: row_table "table dj_id" "unique dj_id" dj_id "\<lambda>a rows. rows @ [a]" "replace_row dj_id" "remove_row dj_id"
  by (rule list_row_table)

lemmas rows_laws = teams.push teams.push_wf teams.replace teams.replace_wf teams.remove teams.remove_wf
  players.push players.push_wf players.replace players.replace_wf players.remove players.remove_wf
  challenges.push challenges.push_wf challenges.replace challenges.replace_wf challenges.remove challenges.remove_wf
  deployments.remove deployments.remove_wf

section \<open>Handlers that leave the tables alone\<close>

definition tables :: "organizer \<Rightarrow> (AdminTeam list \<times> AdminPlayer list \<times> AdminChallenge list \<times> AdminDeploymentJob list) option" where
  "tables s = Some (od_teamRows s, od_playerRows s, od_challengeRows s, od_deploymentRows s)"

lemma tables_registry: "tables s = tables s' \<Longrightarrow> registry_of s = registry_of s' \<and> registry_wf s = registry_wf s'"
  by (simp add: tables_def registry_of_def registry_wf_def)

lemma tables_keep [simp]:
  "tables (start key s) = tables s" "tables (finish s) = tables s" "tables (set_note n s) = tables s"
  "tables (fail e f s) = tables s" "tables (closeFormDialog s) = tables s" "tables (team_form_cleared t s) = tables s"
  by (simp_all add: tables_def start_def finish_def set_note_def fail_def closeFormDialog_def team_form_cleared_def)

lemma play_update [simp]: "play rs (update f p) s = play rs p (f s)"
  by (simp add: update_def)

lemma play_fetchJson [simp]: "play (r # rs) (fetchJson rq path ok err) s =
    map_prod id (Cons rq) (play rs (case read_answer path r of Inl e \<Rightarrow> err e | Inr v \<Rightarrow> ok v) s)"
  by (simp add: fetchJson_def)

lemma quiet_play: "quiet pending p \<Longrightarrow> pending (fst (play rs p s)) = pending s"
proof (induction rs arbitrary: p s)
  case Nil
  obtain s' p' sp where a: "advance p s = (s', p', sp)" by (cases "advance p s")
  from quiet_advance [OF Nil a] show ?case by (simp add: play.simps [of "[]"] a split: prog.splits)
next
  case (Cons r rs)
  obtain s' p' sp where a: "advance p s = (s', p', sp)" by (cases "advance p s")
  from quiet_advance [OF Cons.prems a] have "pending s' = pending s" "quiet pending p'" by blast+
  with Cons.IH show ?case by (auto simp: play.simps [of "r # rs" p s] a split: prog.splits)
qed

lemma accepted_Some: "accepted r = Some v \<Longrightarrow> read_answer path r = Inr v"
  by (auto simp: accepted_def read_answer_def processApiResponse_def split: sum.splits if_splits option.splits)

lemma accepted_None: "accepted r = None \<Longrightarrow> \<exists>e. read_answer path r = Inl e"
  by (auto simp: accepted_def read_answer_def processApiResponse_def split: sum.splits if_splits option.splits)

lemma sample_accepted: "accepted sample_answer = Some (Some (JObj []))"
  by (simp add: accepted_def read_answer_def sample_answer_def processApiResponse_def resp_ok_def)

text \<open>An answer decides: the rest of a handler is quiet on the tables.\<close>

lemma play_answered:
  assumes "\<And>e. quiet tables (err e)" and "\<And>v. \<exists>q. ok v = update (f v) q \<and> quiet tables q"
  shows "tables (fst (play (r # rs) (fetchJson rq path ok err) s)) =
    (case accepted r of None \<Rightarrow> tables s | Some v \<Rightarrow> tables (f v s))"
proof (cases "accepted r")
  case None
  then obtain e where "read_answer path r = Inl e" using accepted_None by blast
  then show ?thesis using None quiet_play [OF assms(1) [of e]] by simp
next
  case (Some v)
  obtain q where "ok v = update (f v) q" "quiet tables q" using assms(2) by blast
  then show ?thesis using Some accepted_Some [OF Some] quiet_play [of tables q] by simp
qed

section \<open>Deleting\<close>

definition row_deleted :: "target_kind \<Rightarrow> int \<Rightarrow> organizer \<Rightarrow> organizer" where
  "row_deleted kind i = (case kind of DeleteTeam \<Rightarrow> team_deleted i | DeletePlayer \<Rightarrow> player_deleted i
     | DeleteChallenge \<Rightarrow> challenge_deleted i | DeleteDeployment \<Rightarrow> deployment_deleted i)"

lemma row_deleted_refines:
  assumes "registry_wf s"
  shows "registry_of (row_deleted kind i s) = drop_entry kind i (registry_of s)" and "registry_wf (row_deleted kind i s)"
proof -
  have players: "unique pl_id (od_playerRows s)" using assms by (simp add: registry_wf_def)
  show "registry_of (row_deleted kind i s) = drop_entry kind i (registry_of s)"
    by (cases kind) (auto simp: row_deleted_def drop_entry_def registry_of_def team_deleted_def player_deleted_def
        challenge_deleted_def deployment_deleted_def rows_laws table_filter [OF players] fun_eq_iff split: option.splits)
  show "registry_wf (row_deleted kind i s)"
    using assms by (cases kind) (simp_all add: row_deleted_def registry_wf_def team_deleted_def player_deleted_def
        challenge_deleted_def deployment_deleted_def rows_laws unique_filter)
qed

lemma row_deleted_tables: "tables s = tables s' \<Longrightarrow> tables (row_deleted kind i s) = tables (row_deleted kind i s')"
  by (cases kind) (simp_all add: row_deleted_def tables_def team_deleted_def player_deleted_def
      challenge_deleted_def deployment_deleted_def)

lemma play_delete: "tables (fst (play (r # rs) (deleteEntity key url label f n) s)) =
    (case accepted r of None \<Rightarrow> tables s | Some v \<Rightarrow> tables (f (start key s)))"
proof -
  have "\<exists>q. update f (update (set_note n) (update finish Done)) = update f q \<and> quiet tables q"
    by (rule exI [of _ "update (set_note n) (update finish Done)"]) simp
  then have "tables (fst (play (r # rs) (fetchJson (DELETE url) url (\<lambda>v. update f (update (set_note n) (update finish Done)))
      (\<lambda>e. update (fail e label) (update finish Done))) (start key s))) =
    (case accepted r of None \<Rightarrow> tables (start key s) | Some v \<Rightarrow> tables (f (start key s)))"
    by (intro play_answered) simp_all
  then show ?thesis by (simp add: deleteEntity_def action_def del: play_fetchJson cong: option.case_cong)
qed

lemma confirmDelete_tables:
  assumes "od_deleteTarget s = Some target"
  shows "tables (fst (play (r # rs) (confirmDelete s) s)) =
    (if present (dt_kind target) (dt_id target) (registry_of s) \<and> accepted r \<noteq> None
     then tables (row_deleted (dt_kind target) (dt_id target) s) else tables s)"
proof -
  have kept: "tables (s\<lparr>od_deleteTarget := None\<rparr>) = tables s" by (simp add: tables_def)
  have moved: "tables (row_deleted k i (start key (s\<lparr>od_deleteTarget := None\<rparr>))) = tables (row_deleted k i s)" for k i key
    by (rule row_deleted_tables) (simp add: kept)
  show ?thesis
    using assms moved [of DeleteTeam] moved [of DeletePlayer] moved [of DeleteChallenge] moved [of DeleteDeployment]
    by (cases "dt_kind target")
      (auto simp: confirmDelete_def table_find present_def registry_of_def play_delete kept row_deleted_def deleteTeam_def
        deletePlayer_def deleteChallenge_def deleteDeployment_def dest: table_key split: option.splits)
qed

text \<open>
  C13. Confirming a deletion refines the registry: on a dashboard whose rows have distinct identifiers, the dialog
  removes the entry it names exactly when the entry is still there and the server accepted the request, a team
  together with its players, and otherwise leaves all four tables as they were; identifiers stay distinct.
\<close>

theorem confirmDelete_refines:
  assumes "registry_wf s"
  shows "registry_wf (fst (play (r # rs) (confirmDelete s) s)) \<and>
    registry_of (fst (play (r # rs) (confirmDelete s) s)) = (case od_deleteTarget s of
       None \<Rightarrow> registry_of s
     | Some target \<Rightarrow> if present (dt_kind target) (dt_id target) (registry_of s) \<and> accepted r \<noteq> None
         then drop_entry (dt_kind target) (dt_id target) (registry_of s) else registry_of s)"
proof (cases "od_deleteTarget s")
  case None
  then show ?thesis using assms by (simp add: confirmDelete_def)
next
  case (Some target)
  let ?s' = "fst (play (r # rs) (confirmDelete s) s)"
  show ?thesis
    using Some confirmDelete_tables [OF Some, of r rs] tables_registry [of ?s'] row_deleted_refines [OF assms] assms by auto
qed

theorem confirmDelete_refines_witness:
  "let s = sample_organizer\<lparr>od_deleteTarget := Some \<lparr>dt_kind = DeleteTeam, dt_id = 1, dt_label = ''red'', dt_warning = None\<rparr>\<rparr>;
       R = registry_of (fst (play [sample_answer] (confirmDelete s) s)) in
     rg_teams (registry_of s) 1 = Some (sample_team 1) \<and> rg_players (registry_of s) 5 = Some (sample_player 5 1) \<and>
     rg_teams R 1 = None \<and> rg_players R 5 = None \<and> rg_challenges R = rg_challenges (registry_of s)"
proof -
  define s where "s = sample_organizer\<lparr>od_deleteTarget := Some \<lparr>dt_kind = DeleteTeam, dt_id = 1, dt_label = ''red'', dt_warning = None\<rparr>\<rparr>"
  have rows: "od_teamRows s = [sample_team 1]" "od_playerRows s = [sample_player 5 1]" "od_challengeRows s = [sample_challenge 4]"
    "od_deploymentRows s = []"
    by (simp_all add: s_def useOrganizerDashboard_def sample_dashboard_def)
  have "registry_wf s" by (simp add: registry_wf_def unique_def rows)
  moreover have "rg_teams (registry_of s) 1 = Some (sample_team 1) \<and> rg_players (registry_of s) 5 = Some (sample_player 5 1)"
    by (simp add: registry_of_def rows sample_team_def sample_player_def)
  moreover have "od_deleteTarget s = Some \<lparr>dt_kind = DeleteTeam, dt_id = 1, dt_label = ''red'', dt_warning = None\<rparr>" by (simp add: s_def)
  ultimately show ?thesis
    using confirmDelete_refines [of s sample_answer "[]"] sample_accepted
    by (simp add: s_def [symmetric] present_def drop_entry_def sample_player_def domIff)
qed

section \<open>Forms\<close>

definition row_submitted :: "hook_types \<Rightarrow> form_mode \<Rightarrow> form_entity \<Rightarrow> int \<Rightarrow> json option \<Rightarrow> organizer \<Rightarrow> organizer" where
  "row_submitted c m e i v s = (case (m, e) of
     (CreateMode, TeamForm) \<Rightarrow> team_created (ht_team c v) s
   | (CreateMode, PlayerForm) \<Rightarrow> player_created (ht_player c v) s
   | (CreateMode, ChallengeForm) \<Rightarrow> challenge_created (ht_challenge c v) s
   | (EditMode, TeamForm) \<Rightarrow> s\<lparr>od_teamRows := replace_row tm_id i (ht_team c v) (od_teamRows s)\<rparr>
   | (EditMode, PlayerForm) \<Rightarrow> s\<lparr>od_playerRows := replace_row pl_id i (ht_player c v) (od_playerRows s)\<rparr>
   | (EditMode, ChallengeForm) \<Rightarrow> challenge_updated i (ht_challenge c v) s)"

lemmas submission_defs = row_submitted_def team_created_def player_created_def challenge_created_def challenge_updated_def

lemma row_submitted_tables: "tables s = tables s' \<Longrightarrow> tables (row_submitted c m e i v s) = tables (row_submitted c m e i v s')"
  by (cases m; cases e) (simp_all add: submission_defs tables_def)

lemma seated:
  "table ac_id (map seat_team rows) = map_option seat_team \<circ> table ac_id rows" "unique ac_id (map seat_team rows) = unique ac_id rows"
  "table tm_id (map (seat_player j) trows) = map_option (seat_player j) \<circ> table tm_id trows"
  "unique tm_id (map (seat_player j) trows) = unique tm_id trows"
  by (simp_all add: table_map unique_map seat_team_def seat_player_def)

lemma seats:
  "od_challengeRows (team_created t s) = map seat_team (od_challengeRows s)"
  "od_teamRows (player_created p s) = map (seat_player (pl_team_id p)) (od_teamRows s)"
  by (simp_all add: team_created_def player_created_def seat_team_def seat_player_def map_where_def)

lemma row_submitted_refines:
  assumes "registry_wf s" and "answer_fits c m e i v (registry_of s)"
  shows "registry_of (row_submitted c m e i v s) = submitted c m e i v (registry_of s)" and "registry_wf (row_submitted c m e i v s)"
proof -
  note abstract = submitted_def answer_fits_def present_def target_of_def answer_id_def add_team_def add_player_def add_challenge_def
  show "registry_of (row_submitted c m e i v s) = submitted c m e i v (registry_of s)"
    using assms by (cases m; cases e) (simp_all add: registry_of_def abstract row_submitted_def seats seated rows_laws,
      simp_all add: submission_defs rows_laws)
  show "registry_wf (row_submitted c m e i v s)"
    using assms by (cases m; cases e) (simp_all add: registry_wf_def registry_of_def abstract row_submitted_def seats seated rows_laws,
      simp_all add: submission_defs rows_laws)
qed

lemma quiet_tables [simp]: "quiet tables k \<Longrightarrow> quiet tables (refreshPagedFeed (refreshGameScoreboard c) True k)"
  by (simp add: refreshPagedFeed_def refreshGameScoreboard_def get_feed_def tables_def)

lemma row_submitted_eqs:
  "row_submitted c CreateMode TeamForm i v = team_created (ht_team c v)"
  "row_submitted c CreateMode PlayerForm i v = player_created (ht_player c v)"
  "row_submitted c CreateMode ChallengeForm i v = challenge_created (ht_challenge c v)"
  "row_submitted c EditMode TeamForm i v = (\<lambda>s. s\<lparr>od_teamRows := replace_row tm_id i (ht_team c v) (od_teamRows s)\<rparr>)"
  "row_submitted c EditMode PlayerForm i v = (\<lambda>s. s\<lparr>od_playerRows := replace_row pl_id i (ht_player c v) (od_playerRows s)\<rparr>)"
  "row_submitted c EditMode ChallengeForm i v = challenge_updated i (ht_challenge c v)"
  by (simp_all add: row_submitted_def fun_eq_iff)

text \<open>The frame of the six form handlers: one request, and after a good answer the change of its form.\<close>

definition form_frame :: "hook_types \<Rightarrow> form_mode \<Rightarrow> form_entity \<Rightarrow> int \<Rightarrow> organizer prog \<Rightarrow> bool" where
  "form_frame c m e i p \<longleftrightarrow> (\<exists>key rq path ok err. p = update (start key) (fetchJson rq path ok err) \<and>
     (\<forall>x. quiet tables (err x)) \<and> (\<forall>v. \<exists>q. ok v = update (row_submitted c m e i v) q \<and> quiet tables q))"

lemma play_form:
  assumes "form_frame c m e i p"
  shows "tables (fst (play (r # rs) p s)) = (case accepted r of None \<Rightarrow> tables s | Some v \<Rightarrow> tables (row_submitted c m e i v s))"
proof -
  obtain key rq path ok err where p: "p = update (start key) (fetchJson rq path ok err)"
    and parts: "\<And>x. quiet tables (err x)" "\<And>v. \<exists>q. ok v = update (row_submitted c m e i v) q \<and> quiet tables q"
    using assms unfolding form_frame_def by blast
  have "tables (row_submitted c m e i v (start key s)) = tables (row_submitted c m e i v s)" for v
    by (rule row_submitted_tables) simp
  then show ?thesis using play_answered [of err ok "row_submitted c m e i" r rs rq path "start key s", OF parts]
    by (cases "accepted r") (simp_all add: p del: play_fetchJson)
qed

lemma form_frames:
  assumes q: "\<And>b. quiet tables (k b)"
  shows "form_frame c CreateMode TeamForm i (createTeam c s k)" "form_frame c CreateMode ChallengeForm i (createChallenge c s k)"
    "pd_teamId (od_playerDraft s) \<noteq> 0 \<Longrightarrow> form_frame c CreateMode PlayerForm i (createPlayer c s k)"
    "od_editingId s = Some i \<Longrightarrow> form_frame c EditMode TeamForm i (updateTeam c s k)"
    "od_editingId s = Some i \<Longrightarrow> form_frame c EditMode PlayerForm i (updatePlayer c s k)"
    "od_editingId s = Some i \<Longrightarrow> form_frame c EditMode ChallengeForm i (updateChallenge c s k)"
  unfolding form_frame_def row_submitted_eqs
  by (simp only: row_defs Let_def option.case if_False simp_thms, intro exI conjI allI, rule refl, simp add: q, rule refl, simp add: q)+

lemma submitForm_tables:
  assumes "form_ready m e i s"
  shows "tables (fst (play (r # rs) (submitForm c s) s)) =
    (case accepted r of None \<Rightarrow> tables s | Some v \<Rightarrow> tables (row_submitted c m e i v s))"
proof -
  define after where "after = (\<lambda>ok. if ok then update closeFormDialog Done else (Done :: organizer prog))"
  have q: "quiet tables (after b)" for b by (simp add: after_def)
  have "form_frame c m e i (submitForm c s)"
    unfolding submitForm_def after_def [symmetric] Let_def
    using assms form_frames [of after, OF q] unfolding form_ready_def by (cases m; cases e) simp_all
  then show ?thesis by (rule play_form)
qed

text \<open>
  C12. Submitting a form refines the registry: on a dashboard whose rows have distinct identifiers, a form whose
  request is accepted adds the answered row, or puts it in place of the edited one, and changes nothing else but
  the counters that go with it (a new team is seated in every challenge, a new player counted in the team); a
  request that fails changes no table. Identifiers stay distinct as long as the server gives a created row a new
  identifier and an edited one its own.
\<close>

theorem submitForm_refines:
  assumes "registry_wf s" and "form_ready m e i s" and "\<And>v. accepted r = Some v \<Longrightarrow> answer_fits c m e i v (registry_of s)"
  shows "registry_wf (fst (play (r # rs) (submitForm c s) s)) \<and>
    registry_of (fst (play (r # rs) (submitForm c s) s)) =
      (case accepted r of None \<Rightarrow> registry_of s | Some v \<Rightarrow> submitted c m e i v (registry_of s))"
proof (cases "accepted r")
  case None
  then show ?thesis
    using submitForm_tables [OF assms(2), of r rs c] tables_registry [of "fst (play (r # rs) (submitForm c s) s)" s] assms(1) by simp
next
  case (Some v)
  then show ?thesis
    using submitForm_tables [OF assms(2), of r rs c] row_submitted_refines [OF assms(1) assms(3)]
      tables_registry [of "fst (play (r # rs) (submitForm c s) s)" "row_submitted c m e i v s"] by simp
qed

theorem submitForm_refines_witness:
  "let s = openCreateDialog TeamForm sample_organizer;
       R = registry_of (fst (play [sample_answer, Inl (ErrorMessage ''offline'')] (submitForm sample_types s) s)) in
     rg_teams (registry_of s) 2 = None \<and> rg_teams R 2 = Some (sample_team 2) \<and> rg_teams R 1 = Some (sample_team 1) \<and>
     map_option ac_total_teams (rg_challenges R 4) = Some 2"
proof -
  define s where "s = openCreateDialog TeamForm sample_organizer"
  have rows: "od_teamRows s = [sample_team 1]" "od_playerRows s = [sample_player 5 1]" "od_challengeRows s = [sample_challenge 4]"
    "od_deploymentRows s = []"
    by (simp_all add: s_def openCreateDialog_def useOrganizerDashboard_def sample_dashboard_def Let_def)
  have "registry_wf s" by (simp add: registry_wf_def unique_def rows)
  moreover have "form_ready CreateMode TeamForm 0 s" by (simp add: form_ready_def s_def openCreateDialog_def Let_def)
  moreover have "answer_fits sample_types CreateMode TeamForm 0 v (registry_of s)" for v
    by (simp add: answer_fits_def present_def target_of_def answer_id_def sample_types_def registry_of_def rows sample_team_def)
  ultimately show ?thesis
    using submitForm_refines [of s CreateMode TeamForm 0 sample_answer sample_types "[Inl (ErrorMessage ''offline'')]"] sample_accepted
    by (simp add: s_def [symmetric] submitted_def add_team_def sample_types_def registry_of_def rows, simp add: sample_team_def sample_challenge_def seat_team_def)
qed

section \<open>Advancing the tick\<close>

definition game_view :: "organizer \<Rightarrow> AdminGameStatus option" where
  "game_view s = Some (od_gameState s)"

lemma game_view_keep [simp]:
  "game_view (set_note n s) = game_view s" "game_view (game_end s) = game_view s" "game_view (fail e f s) = game_view s"
  by (simp_all add: game_view_def set_note_def game_end_def finish_def suppressGameStatusRealtime_def fail_def)

lemma quiet_game_view [simp]:
  "(\<And>v s. game_view (fd_set fd v s) = game_view s) \<Longrightarrow> quiet game_view k \<Longrightarrow> quiet game_view (refreshPagedFeed fd True k)"
  by (simp add: refreshPagedFeed_def)

lemma feeds_game_view [simp]:
  "game_view (fd_set (refreshSchedulerEvents c ef) v s) = game_view s" "game_view (fd_set (refreshCheckerRuns c cf) v s) = game_view s"
  "game_view (fd_set (recomputeGameScoring c) v s) = game_view s" "game_view (fd_set (auditGameScoring c) v s) = game_view s"
  by (simp_all add: game_view_def refreshSchedulerEvents_def refreshCheckerRuns_def recomputeGameScoring_def auditGameScoring_def get_feed_def)

text \<open>
  Advancing the tick by hand loses the match on screen: after a tick the server completed, the game state
  shows the new tick and adds up the checker runs, but it holds neither a match nor a scheduler, whatever it
  held before and however the four refreshes that follow are answered.
\<close>

lemma advanceGameTick_drops_match:
  assumes "accepted r = Some v"
  shows "let g = od_gameState (fst (play (r # rs) (advanceGameTick c s) s)); t = ht_tick c v in
    ag_match g = None \<and> ag_scheduler g = None \<and> ag_current_tick g = Some t \<and>
    ag_total_checker_runs g = ag_total_checker_runs (od_gameState s) + at_total_checker_runs t \<and>
    ag_total_ticks g \<ge> at_id t"
proof -
  define q where "q = refreshPagedFeed (refreshSchedulerEvents c (od_schedulerEventFilters s)) True
     (refreshPagedFeed (refreshCheckerRuns c (od_checkerRunFilters s)) True (refreshPagedFeed (recomputeGameScoring c) True
       (refreshPagedFeed (auditGameScoring c) True (update (set_note (tick_note (ht_tick c v))) (update game_end Done)))))"
  let ?s = "tick_advanced (ht_tick c v) (game_start ''game:advance'' s)"
  have "quiet game_view q" by (simp add: q_def)
  then have "game_view (fst (play rs q ?s)) = game_view ?s" by (rule quiet_play)
  moreover have "fst (play (r # rs) (advanceGameTick c s) s) = fst (play rs q ?s)"
    by (simp add: advanceGameTick_def game_action_def accepted_Some [OF assms] q_def Let_def)
  ultimately show ?thesis
    by (simp add: game_view_def tick_advanced_def game_start_def start_def suppressGameStatusRealtime_def Let_def)
qed

lemma advanceGameTick_drops_match_witness:
  "ag_match (od_gameState sample_organizer) = Some sample_match \<and>
   ag_match (od_gameState (fst (play [sample_answer] (advanceGameTick sample_types sample_organizer) sample_organizer))) = None"
proof -
  from advanceGameTick_drops_match [OF sample_accepted, of "[]" sample_types sample_organizer] show ?thesis
    by (simp add: Let_def useOrganizerDashboard_def sample_dashboard_def sample_status_def)
qed

end
