(* ===== verification/Appearance.thy ===== *)
theory Appearance
  imports Js_Prelude "HOL-Library.AList"
begin

text \<open>
  The appearance settings: \<open>lib/appearance.ts\<close>, the controls of
  \<open>components/ui/appearance-controls.tsx\<close>, and the two places where a page load brings the choice
  back, the server's \<open>RootLayout\<close> (\<open>app/layout.tsx\<close>) and the inline script it emits. The state is
  the part of the browser these touch: the data attributes of the root element, local storage
  (whose methods may throw), the cookies, the colour mode of the operating system, and the radio
  buttons of the controls that are in the document.
\<close>

section \<open>Preferences and schemes\<close>

datatype ThemePreference = Light | Dark | System

datatype ColorScheme = Graphite | Ink | Paper | Moss

definition THEME_STORAGE_KEY :: string where
  "THEME_STORAGE_KEY = ''ad-platform-theme''"

definition SCHEME_STORAGE_KEY :: string where
  "SCHEME_STORAGE_KEY = ''ad-platform-scheme''"

definition DEFAULT_SCHEME :: ColorScheme where
  "DEFAULT_SCHEME = Graphite"

definition DEFAULT_THEME_PREFERENCE :: ThemePreference where
  "DEFAULT_THEME_PREFERENCE = System"

definition THEME_CYCLE :: "ThemePreference list" where
  "THEME_CYCLE = [Light, Dark, System]"

fun theme_id :: "ThemePreference \<Rightarrow> string" where
  "theme_id Light = ''light''"
| "theme_id Dark = ''dark''"
| "theme_id System = ''system''"

fun scheme_id :: "ColorScheme \<Rightarrow> string" where
  "scheme_id Graphite = ''graphite''"
| "scheme_id Ink = ''ink''"
| "scheme_id Paper = ''paper''"
| "scheme_id Moss = ''moss''"

definition COLOR_SCHEMES :: "ColorScheme list" where
  "COLOR_SCHEMES = [Graphite, Ink, Paper, Moss]"

definition MODE_OPTIONS :: "ThemePreference list" where
  "MODE_OPTIONS = [Light, Dark, System]"

text \<open>A type guard gives the narrowed value, so that the code behind it is typed.\<close>

definition isThemePreference :: "string option \<Rightarrow> ThemePreference option" where
  "isThemePreference value =
     (if value = Some ''light'' then Some Light
      else if value = Some ''dark'' then Some Dark
      else if value = Some ''system'' then Some System else None)"

definition isColorScheme :: "string option \<Rightarrow> ColorScheme option" where
  "isColorScheme value =
     (if value = Some ''graphite'' then Some Graphite
      else if value = Some ''ink'' then Some Ink
      else if value = Some ''paper'' then Some Paper
      else if value = Some ''moss'' then Some Moss else None)"

text \<open>The parameter is \<open>window.matchMedia\<close>'s answer; \<open>None\<close> stands for the server, which has no
  \<open>window\<close>.\<close>

definition resolveTheme :: "bool option \<Rightarrow> ThemePreference \<Rightarrow> ThemePreference" where
  "resolveTheme window preference =
     (if preference = System
      then (case window of None \<Rightarrow> Light | Some dark \<Rightarrow> if dark then Dark else Light)
      else preference)"

fun index_of :: "'a \<Rightarrow> 'a list \<Rightarrow> int" where
  "index_of x [] = - 1"
| "index_of x (y # ys) =
     (if x = y then 0 else let i = index_of x ys in if i < 0 then - 1 else i + 1)"

definition nextThemePreference :: "ThemePreference \<Rightarrow> ThemePreference" where
  "nextThemePreference current =
     THEME_CYCLE ! nat ((index_of current THEME_CYCLE + 1) mod int (length THEME_CYCLE))"

lemma isThemePreference_id [simp]: "isThemePreference (Some (theme_id p)) = Some p"
  by (cases p) (simp_all add: isThemePreference_def)

lemma isColorScheme_id [simp]: "isColorScheme (Some (scheme_id s)) = Some s"
  by (cases s) (simp_all add: isColorScheme_def)

lemma isThemePreference_None [simp]: "isThemePreference None = None"
  by (simp add: isThemePreference_def)

lemma isColorScheme_None [simp]: "isColorScheme None = None"
  by (simp add: isColorScheme_def)

section \<open>The browser\<close>

record browser =
  data_scheme :: "string option"
  data_theme :: "string option"
  data_themePreference :: "string option"
  local_storage :: "string \<Rightarrow> string option"
  storage_readable :: bool
  storage_writable :: bool
  cookies_on :: bool
  cookie_jar :: "(string \<times> string) list"
  os_dark :: bool
  scheme_radios :: "(string \<times> string option) list"
  mode_radios :: "(string \<times> string option) list"
  listening :: bool

definition document_cookie :: "browser \<Rightarrow> string" where
  "document_cookie b =
     (if cookies_on b then join_with ''; '' (map (\<lambda>(k, v). k @ ''='' @ v) (cookie_jar b)) else [])"

text \<open>\<open>window.localStorage.getItem\<close> in a \<open>try\<close> with an empty handler.\<close>

definition getItem :: "browser \<Rightarrow> string \<Rightarrow> string option" where
  "getItem b key = (if storage_readable b then local_storage b key else None)"

definition setItem :: "string \<Rightarrow> string \<Rightarrow> browser \<Rightarrow> browser" where
  "setItem key v b =
     (if storage_writable b then b\<lparr>local_storage := (local_storage b)(key := Some v)\<rparr> else b)"

definition set_cookie :: "string \<Rightarrow> string \<Rightarrow> browser \<Rightarrow> browser" where
  "set_cookie key v b =
     (if cookies_on b then b\<lparr>cookie_jar := AList.update key v (cookie_jar b)\<rparr> else b)"

definition applyAppearance :: "ColorScheme \<Rightarrow> ThemePreference \<Rightarrow> browser \<Rightarrow> browser" where
  "applyAppearance scheme preference b =
     (let resolved = resolveTheme (Some (os_dark b)) preference
      in b\<lparr>data_scheme := Some (scheme_id scheme), data_theme := Some (theme_id resolved),
           data_themePreference := Some (theme_id preference)\<rparr>)"

definition persistScheme :: "ColorScheme \<Rightarrow> browser \<Rightarrow> browser" where
  "persistScheme scheme b =
     set_cookie SCHEME_STORAGE_KEY (scheme_id scheme)
       (setItem SCHEME_STORAGE_KEY (scheme_id scheme) b)"

definition persistThemePreference :: "ThemePreference \<Rightarrow> browser \<Rightarrow> browser" where
  "persistThemePreference preference b =
     set_cookie THEME_STORAGE_KEY (theme_id preference)
       (setItem THEME_STORAGE_KEY (theme_id preference) b)"

text \<open>
  The search of the regular expression \<open>(?:^|; )key=(alt|...|alt)\<close>: at the start of the string,
  or after a semicolon and a blank; the first position that matches wins, and there the first
  alternative that is a prefix of what follows.
\<close>

definition cookie_here :: "string \<Rightarrow> string list \<Rightarrow> string \<Rightarrow> string option" where
  "cookie_here key alts s =
     (if starts_with s (key @ ''='') then find (starts_with (drop (length key + 1) s)) alts
      else None)"

fun cookie_after :: "string \<Rightarrow> string list \<Rightarrow> string \<Rightarrow> string option" where
  "cookie_after key alts [] = None"
| "cookie_after key alts (c # cs) =
     (case (if starts_with (c # cs) ''; '' then cookie_here key alts (tl cs) else None) of
        Some a \<Rightarrow> Some a
      | None \<Rightarrow> cookie_after key alts cs)"

definition match_cookie :: "string \<Rightarrow> string list \<Rightarrow> string \<Rightarrow> string option" where
  "match_cookie key alts s =
     (case cookie_here key alts s of Some a \<Rightarrow> Some a | None \<Rightarrow> cookie_after key alts s)"

definition readSchemeFromDom :: "browser \<Rightarrow> ColorScheme" where
  "readSchemeFromDom b =
     (case isColorScheme (data_scheme b) of
        Some s \<Rightarrow> s
      | None \<Rightarrow>
          (case isColorScheme (getItem b SCHEME_STORAGE_KEY) of
             Some s \<Rightarrow> s
           | None \<Rightarrow>
               (case isColorScheme (match_cookie ''ad-platform-scheme''
                       [''graphite'', ''ink'', ''paper'', ''moss''] (document_cookie b)) of
                  Some s \<Rightarrow> s
                | None \<Rightarrow> DEFAULT_SCHEME)))"

definition readThemePreferenceFromDom :: "browser \<Rightarrow> ThemePreference" where
  "readThemePreferenceFromDom b =
     (case isThemePreference (data_themePreference b) of
        Some p \<Rightarrow> p
      | None \<Rightarrow>
          (case isThemePreference (getItem b THEME_STORAGE_KEY) of
             Some p \<Rightarrow> p
           | None \<Rightarrow>
               (case isThemePreference (match_cookie ''ad-platform-theme''
                       [''light'', ''dark'', ''system''] (document_cookie b)) of
                  Some p \<Rightarrow> p
                | None \<Rightarrow> DEFAULT_THEME_PREFERENCE)))"

section \<open>The controls\<close>

definition sync_radios :: "string \<Rightarrow> (string \<times> string option) list \<Rightarrow> (string \<times> string option) list" where
  "sync_radios chosen = map (\<lambda>(i, _). (i, Some (if i = chosen then ''true'' else ''false'')))"

definition syncSchemeAria :: "ColorScheme \<Rightarrow> browser \<Rightarrow> browser" where
  "syncSchemeAria scheme b = b\<lparr>scheme_radios := sync_radios (scheme_id scheme) (scheme_radios b)\<rparr>"

definition syncModeAria :: "ThemePreference \<Rightarrow> browser \<Rightarrow> browser" where
  "syncModeAria preference b = b\<lparr>mode_radios := sync_radios (theme_id preference) (mode_radios b)\<rparr>"

text \<open>The rendered buttons carry no \<open>aria-checked\<close>; the effect of the first render sets it and
  starts to listen for changes of the operating system's mode.\<close>

definition AppearanceControls :: "browser \<Rightarrow> browser" where
  "AppearanceControls b0 =
     (let b = b0\<lparr>scheme_radios := map (\<lambda>s. (scheme_id s, None)) COLOR_SCHEMES,
                mode_radios := map (\<lambda>p. (theme_id p, None)) MODE_OPTIONS\<rparr>;
          scheme = readSchemeFromDom b;
          preference = readThemePreferenceFromDom b
      in (syncModeAria preference (syncSchemeAria scheme (applyAppearance scheme preference b)))
           \<lparr>listening := True\<rparr>)"

definition unmount_controls :: "browser \<Rightarrow> browser" where
  "unmount_controls b = b\<lparr>scheme_radios := [], mode_radios := [], listening := False\<rparr>"

definition onChange :: "browser \<Rightarrow> browser" where
  "onChange b =
     (if readThemePreferenceFromDom b = System then applyAppearance (readSchemeFromDom b) System b
      else b)"

definition selectScheme :: "ColorScheme \<Rightarrow> browser \<Rightarrow> browser" where
  "selectScheme next b =
     syncSchemeAria next (persistScheme next (applyAppearance next (readThemePreferenceFromDom b) b))"

definition selectMode :: "ThemePreference \<Rightarrow> browser \<Rightarrow> browser" where
  "selectMode next b =
     syncModeAria next (persistThemePreference next (applyAppearance (readSchemeFromDom b) next b))"

section \<open>Loading a page\<close>

definition RootLayout :: "string option \<Rightarrow> string option \<Rightarrow> browser \<Rightarrow> browser" where
  "RootLayout storedTheme storedScheme b =
     (let preference = (case isThemePreference storedTheme of Some p \<Rightarrow> p | None \<Rightarrow> System);
          scheme = (case isColorScheme storedScheme of Some s \<Rightarrow> s | None \<Rightarrow> Graphite);
          theme = (if preference = Dark \<or> preference = Light then Some (theme_id preference) else None)
      in b\<lparr>data_scheme := Some (scheme_id scheme), data_theme := theme,
           data_themePreference := Some (theme_id preference)\<rparr>)"

definition readCookie :: "browser \<Rightarrow> string \<Rightarrow> string option" where
  "readCookie b name =
     match_cookie name [''graphite'', ''ink'', ''paper'', ''moss'', ''dark'', ''light'', ''system'']
       (document_cookie b)"

text \<open>The script looks in the cookie first and in local storage when the cookie has no value it
  knows.\<close>

definition stored_value :: "browser \<Rightarrow> string \<Rightarrow> string option" where
  "stored_value b key =
     (case readCookie b key of
        Some v \<Rightarrow> if v = [] then getItem b key else Some v
      | None \<Rightarrow> getItem b key)"

text \<open>\<open>schemes[name]\<close> on the object literal \<open>schemes\<close>: its own keys, and the names every object
  inherits.\<close>

definition inherited_names :: "string list" where
  "inherited_names =
     [''constructor'', ''toString'', ''toLocaleString'', ''valueOf'', ''hasOwnProperty'',
      ''isPrototypeOf'', ''propertyIsEnumerable'', ''__proto__'', ''__defineGetter__'',
      ''__defineSetter__'', ''__lookupGetter__'', ''__lookupSetter__'']"

definition has_scheme :: "string option \<Rightarrow> bool" where
  "has_scheme v =
     (case v of
        None \<Rightarrow> False
      | Some s \<Rightarrow> s \<noteq> [] \<and> (isColorScheme (Some s) \<noteq> None \<or> s \<in> set inherited_names))"

definition inline_script :: "browser \<Rightarrow> browser" where
  "inline_script b =
     (let themeStored = stored_value b THEME_STORAGE_KEY;
          schemeStored = stored_value b SCHEME_STORAGE_KEY;
          preference = (case isThemePreference themeStored of Some p \<Rightarrow> p | None \<Rightarrow> System);
          scheme = (if has_scheme schemeStored then the schemeStored else ''graphite'');
          resolved = resolveTheme (Some (os_dark b)) preference;
          b' = b\<lparr>data_scheme := Some scheme, data_theme := Some (theme_id resolved),
                 data_themePreference := Some (theme_id preference)\<rparr>
      in if has_scheme schemeStored then b'
         else set_cookie SCHEME_STORAGE_KEY scheme (setItem SCHEME_STORAGE_KEY scheme b'))"

text \<open>
  A page load: a new document without controls, what the server rendered from the request's
  cookies (read by the framework's cookie store \<open>cookieStore\<close>), then the inline script.
\<close>

definition load_page :: "((string \<times> string) list \<Rightarrow> string \<Rightarrow> string option) \<Rightarrow> browser \<Rightarrow> browser" where
  "load_page cookieStore b =
     inline_script
       (RootLayout (cookieStore (if cookies_on b then cookie_jar b else []) ''ad-platform-theme'')
          (cookieStore (if cookies_on b then cookie_jar b else []) ''ad-platform-scheme'')
          (unmount_controls b))"

datatype appearance_event =
    LoadPage | Mount | Unmount | OsChange bool
  | SelectScheme ColorScheme | SelectMode ThemePreference

fun appearance_step ::
    "((string \<times> string) list \<Rightarrow> string \<Rightarrow> string option) \<Rightarrow> appearance_event \<Rightarrow> browser \<Rightarrow> browser" where
  "appearance_step cs LoadPage b = load_page cs b"
| "appearance_step cs Mount b = AppearanceControls b"
| "appearance_step cs Unmount b = unmount_controls b"
| "appearance_step cs (OsChange d) b =
     (let b' = b\<lparr>os_dark := d\<rparr> in if listening b then onChange b' else b')"
| "appearance_step cs (SelectScheme s) b = (if listening b then selectScheme s b else b)"
| "appearance_step cs (SelectMode p) b = (if listening b then selectMode p b else b)"

definition appearance_run ::
    "((string \<times> string) list \<Rightarrow> string \<Rightarrow> string option) \<Rightarrow> appearance_event list \<Rightarrow> browser \<Rightarrow> browser" where
  "appearance_run cs es b = foldl (\<lambda>b e. appearance_step cs e b) b es"

section \<open>What the cookie search finds\<close>

lemma starts_with_boundary:
  assumes "CHR '';'' \<notin> set p"
  shows "starts_with (s @ '';'' @ r) p \<longleftrightarrow> starts_with s p"
  using assms
proof (induction s arbitrary: p)
  case Nil
  then show ?case by (cases p) auto
next
  case (Cons c s)
  then show ?case by (cases p) auto
qed

lemma cookie_here_boundary:
  assumes "CHR '';'' \<notin> set key" and "\<forall>a \<in> set alts. CHR '';'' \<notin> set a"
  shows "cookie_here key alts (s @ '';'' @ r) = cookie_here key alts s"
proof (cases "starts_with s (key @ ''='')")
  case True
  then obtain v where s: "s = key @ ''='' @ v" by (auto simp: starts_with_iff)
  have "find (starts_with (v @ '';'' @ r)) alts = find (starts_with v) alts"
    using assms(2) by (induction alts) (auto simp: starts_with_boundary [simplified])
  moreover have "starts_with (key @ ''='' @ w) (key @ ''='')" for w by (simp add: starts_with_def)
  ultimately show ?thesis using s by (simp add: cookie_here_def)
next
  case False
  moreover have "\<not> starts_with (s @ '';'' @ r) (key @ ''='')"
    using starts_with_boundary [of "key @ ''=''" s r] assms(1) False by simp
  ultimately show ?thesis by (simp add: cookie_here_def)
qed

lemma cookie_after_plain: "CHR '';'' \<notin> set s \<Longrightarrow> cookie_after key alts s = None"
  by (induction s) auto

lemma cookie_after_segment:
  "CHR '';'' \<notin> set s \<Longrightarrow> cookie_after key alts (s @ ''; '' @ r) = match_cookie key alts r"
  by (induction s) (auto simp: match_cookie_def split: option.splits)

fun first_match :: "('a \<Rightarrow> 'b option) \<Rightarrow> 'a list \<Rightarrow> 'b option" where
  "first_match f [] = None"
| "first_match f (x # xs) = (case f x of Some y \<Rightarrow> Some y | None \<Rightarrow> first_match f xs)"

lemma match_cookie_join:
  assumes "CHR '';'' \<notin> set key" and "\<forall>a \<in> set alts. CHR '';'' \<notin> set a"
    and "\<forall>s \<in> set segs. CHR '';'' \<notin> set s"
  shows "match_cookie key alts (join_with ''; '' segs) = first_match (cookie_here key alts) segs"
  using assms(3)
proof (induction "''; ''" segs rule: join_with.induct)
  case 1
  have "cookie_here key alts [] = None" by (simp add: cookie_here_def starts_with_def)
  then show ?case by (simp add: match_cookie_def)
next
  case (2 x)
  then show ?case by (simp add: match_cookie_def cookie_after_plain split: option.splits)
next
  case (3 x y zs)
  have "cookie_here key alts (x @ ''; '' @ join_with ''; '' (y # zs)) = cookie_here key alts x"
    using cookie_here_boundary [OF assms(1,2), of x "'' '' @ join_with ''; '' (y # zs)"] by simp
  moreover have "cookie_after key alts (x @ ''; '' @ join_with ''; '' (y # zs))
      = match_cookie key alts (join_with ''; '' (y # zs))"
    using 3(2) by (intro cookie_after_segment) simp
  moreover have "match_cookie key alts (join_with ''; '' (y # zs))
      = first_match (cookie_here key alts) (y # zs)"
    using 3 by simp
  ultimately show ?case
    by (simp only: match_cookie_def [of key alts "x @ ''; '' @ join_with ''; '' (y # zs)"]
        join_with.simps first_match.simps)
qed

definition plain_jar :: "(string \<times> string) list \<Rightarrow> bool" where
  "plain_jar jar \<longleftrightarrow> distinct (map fst jar) \<and>
     list_all (\<lambda>(k, v). CHR '';'' \<notin> set k \<and> CHR ''='' \<notin> set k \<and> CHR '';'' \<notin> set v) jar"

lemma starts_with_key:
  assumes "CHR ''='' \<notin> set k" and "CHR ''='' \<notin> set key"
  shows "starts_with (k @ ''='' @ v) (key @ ''='') \<longleftrightarrow> k = key"
  using assms
proof (induction k arbitrary: key)
  case Nil
  then show ?case by (cases key) auto
next
  case (Cons c k)
  then show ?case by (cases key) auto
qed

lemma cookie_here_pair:
  assumes "CHR ''='' \<notin> set k" and "CHR ''='' \<notin> set key"
  shows "cookie_here key alts (k @ ''='' @ v) = (if k = key then find (starts_with v) alts else None)"
  using starts_with_key [OF assms] by (simp add: cookie_here_def)

lemma first_match_jar:
  assumes "plain_jar jar" and "CHR ''='' \<notin> set key"
  shows "first_match (cookie_here key alts) (map (\<lambda>(k, v). k @ ''='' @ v) jar)
     = Option.bind (map_of jar key) (\<lambda>v. find (starts_with v) alts)"
  using assms(1)
proof (induction jar)
  case (Cons kv jar)
  obtain k v where kv: "kv = (k, v)" by (cases kv)
  have wf: "CHR ''='' \<notin> set k" and rest: "plain_jar jar" and fresh: "k \<notin> fst ` set jar"
    using Cons.prems kv by (auto simp: plain_jar_def)
  have none: "map_of jar k = None" using fresh by (simp add: map_of_eq_None_iff)
  show ?case
    using Cons.IH [OF rest] cookie_here_pair [OF wf assms(2), of alts v] none
    by (cases "k = key") (simp_all add: kv split: option.splits)
qed simp

lemma match_cookie_jar:
  assumes "plain_jar jar" and "CHR '';'' \<notin> set key" and "CHR ''='' \<notin> set key"
    and "\<forall>a \<in> set alts. CHR '';'' \<notin> set a"
  shows "match_cookie key alts (join_with ''; '' (map (\<lambda>(k, v). k @ ''='' @ v) jar))
     = Option.bind (map_of jar key) (\<lambda>v. find (starts_with v) alts)"
proof -
  have "\<forall>s \<in> set (map (\<lambda>(k, v). k @ ''='' @ v) jar). CHR '';'' \<notin> set s"
    using assms(1) by (fastforce simp: plain_jar_def list_all_iff)
  from match_cookie_join [OF assms(2,4) this] first_match_jar [OF assms(1,3)] show ?thesis by simp
qed

lemma plain_jar_update:
  assumes "plain_jar jar" and "CHR '';'' \<notin> set k" and "CHR ''='' \<notin> set k" and "CHR '';'' \<notin> set v"
  shows "plain_jar (AList.update k v jar)"
  using assms by (induction jar) (auto simp: plain_jar_def AList.dom_update)

section \<open>What is stored, and what the page shows\<close>

text \<open>Something of what a click writes can be read back by the next page.\<close>

definition remembers :: "browser \<Rightarrow> bool" where
  "remembers b \<longleftrightarrow> cookies_on b \<or> storage_readable b \<and> storage_writable b"

definition stored_preference :: "browser \<Rightarrow> ThemePreference" where
  "stored_preference b =
     (case isThemePreference (stored_value b THEME_STORAGE_KEY) of Some p \<Rightarrow> p | None \<Rightarrow> System)"

definition stored_scheme :: "browser \<Rightarrow> ColorScheme" where
  "stored_scheme b =
     (case isColorScheme (stored_value b SCHEME_STORAGE_KEY) of Some s \<Rightarrow> s | None \<Rightarrow> Graphite)"

text \<open>The browser is sane when its cookies serialise without ambiguity and local storage does not
  hold, under the scheme's key, one of the names every object inherits.\<close>

definition sane :: "browser \<Rightarrow> bool" where
  "sane b \<longleftrightarrow> plain_jar (cookie_jar b) \<and>
     (\<forall>v. local_storage b SCHEME_STORAGE_KEY = Some v \<longrightarrow> v \<notin> set inherited_names)"

definition script_values :: "string list" where
  "script_values = [''graphite'', ''ink'', ''paper'', ''moss'', ''dark'', ''light'', ''system'']"

lemma readCookie_jar:
  assumes "plain_jar (cookie_jar b)" and "key = THEME_STORAGE_KEY \<or> key = SCHEME_STORAGE_KEY"
  shows "readCookie b key = (if cookies_on b
     then Option.bind (map_of (cookie_jar b) key) (\<lambda>v. find (starts_with v) script_values) else None)"
proof (cases "cookies_on b")
  case True
  have "match_cookie key script_values (join_with ''; '' (map (\<lambda>(k, v). k @ ''='' @ v) (cookie_jar b)))
      = Option.bind (map_of (cookie_jar b) key) (\<lambda>v. find (starts_with v) script_values)"
    using assms(2)
    by (intro match_cookie_jar [OF assms(1)])
      (auto simp: script_values_def THEME_STORAGE_KEY_def SCHEME_STORAGE_KEY_def)
  with True show ?thesis by (simp add: readCookie_def document_cookie_def script_values_def)
next
  case False
  then show ?thesis
    by (simp add: readCookie_def document_cookie_def match_cookie_def cookie_here_def starts_with_def)
qed

definition persist :: "string \<Rightarrow> string \<Rightarrow> browser \<Rightarrow> browser" where
  "persist key v b = set_cookie key v (setItem key v b)"

lemma persist_fields [simp]:
  "data_scheme (persist k v b) = data_scheme b" "data_theme (persist k v b) = data_theme b"
  "data_themePreference (persist k v b) = data_themePreference b"
  "storage_readable (persist k v b) = storage_readable b"
  "storage_writable (persist k v b) = storage_writable b"
  "cookies_on (persist k v b) = cookies_on b" "os_dark (persist k v b) = os_dark b"
  "scheme_radios (persist k v b) = scheme_radios b" "mode_radios (persist k v b) = mode_radios b"
  "listening (persist k v b) = listening b"
  "cookie_jar (persist k v b) = (if cookies_on b then AList.update k v (cookie_jar b) else cookie_jar b)"
  "local_storage (persist k v b)
     = (if storage_writable b then (local_storage b)(k \<mapsto> v) else local_storage b)"
  by (simp_all add: persist_def set_cookie_def setItem_def)

lemma distinct_keys: "THEME_STORAGE_KEY \<noteq> SCHEME_STORAGE_KEY"
  by (simp add: THEME_STORAGE_KEY_def SCHEME_STORAGE_KEY_def)

lemma plain_keys:
  "k = THEME_STORAGE_KEY \<or> k = SCHEME_STORAGE_KEY \<Longrightarrow>
     CHR '';'' \<notin> set k \<and> CHR ''='' \<notin> set k"
  by (auto simp: THEME_STORAGE_KEY_def SCHEME_STORAGE_KEY_def)

lemma script_values_found:
  "v \<in> set script_values \<Longrightarrow> find (starts_with v) script_values = Some v \<and> v \<noteq> [] \<and> CHR '';'' \<notin> set v"
  by (simp add: script_values_def; elim disjE; simp)

lemma ids_in_script_values:
  "theme_id p \<in> set script_values" "scheme_id s \<in> set script_values"
  by (cases p; simp add: script_values_def) (cases s; simp add: script_values_def)

lemma stored_value_persist:
  assumes "plain_jar (cookie_jar b)" and k: "k = THEME_STORAGE_KEY \<or> k = SCHEME_STORAGE_KEY"
    and v: "v \<in> set script_values" and "remembers b"
  shows "stored_value (persist k v b) k = Some v"
proof -
  have "plain_jar (cookie_jar (persist k v b))"
    using assms(1) plain_keys [OF k] script_values_found [OF v] by (simp add: plain_jar_update)
  from readCookie_jar [OF this k]
  have "readCookie (persist k v b) k = (if cookies_on b then Some v else None)"
    using script_values_found [OF v] by (simp add: AList.update_conv)
  with assms(4) script_values_found [OF v] show ?thesis
    by (auto simp: stored_value_def getItem_def remembers_def)
qed

lemma stored_value_persist_other:
  assumes "plain_jar (cookie_jar b)" and k: "k = THEME_STORAGE_KEY \<or> k = SCHEME_STORAGE_KEY"
    and k': "k' = THEME_STORAGE_KEY \<or> k' = SCHEME_STORAGE_KEY" and "k' \<noteq> k"
    and v: "v \<in> set script_values"
  shows "stored_value (persist k v b) k' = stored_value b k'"
proof -
  have "plain_jar (cookie_jar (persist k v b))"
    using assms(1) plain_keys [OF k] script_values_found [OF v] by (simp add: plain_jar_update)
  from readCookie_jar [OF this k'] readCookie_jar [OF assms(1) k']
  have "readCookie (persist k v b) k' = readCookie b k'"
    using assms(4) by (simp add: AList.update_conv)
  moreover have "getItem (persist k v b) k' = getItem b k'"
    using assms(4) by (simp add: getItem_def)
  ultimately show ?thesis unfolding stored_value_def by presburger
qed

lemma sane_persist:
  assumes "sane b" and "k = THEME_STORAGE_KEY \<or> k = SCHEME_STORAGE_KEY" and "v \<in> set script_values"
  shows "sane (persist k v b)"
proof -
  have "v \<notin> set inherited_names"
    using assms(3) by (auto simp: script_values_def inherited_names_def)
  then show ?thesis
    using assms plain_keys [OF assms(2)] script_values_found [OF assms(3)]
    by (auto simp: sane_def plain_jar_update)
qed

text \<open>
  The invariant of a loaded page: what it shows is what is stored, an explicit mode is the mode
  shown, and while the controls are there the mode shown is the resolved one and exactly the
  chosen buttons are marked.
\<close>

definition marked :: "('a \<Rightarrow> string) \<Rightarrow> 'a \<Rightarrow> 'a list \<Rightarrow> (string \<times> string option) list" where
  "marked f chosen xs = map (\<lambda>x. (f x, Some (if x = chosen then ''true'' else ''false''))) xs"

definition shows_stored :: "browser \<Rightarrow> bool" where
  "shows_stored b \<longleftrightarrow>
     data_scheme b = Some (scheme_id (stored_scheme b)) \<and>
     data_themePreference b = Some (theme_id (stored_preference b)) \<and>
     (\<exists>d. data_theme b = Some (theme_id (resolveTheme (Some d) (stored_preference b))) \<and>
          (listening b \<longrightarrow> d = os_dark b)) \<and>
     (if listening b
      then scheme_radios b = marked scheme_id (stored_scheme b) COLOR_SCHEMES \<and>
           mode_radios b = marked theme_id (stored_preference b) MODE_OPTIONS
      else scheme_radios b = [] \<and> mode_radios b = [])"

lemma persistScheme_eq: "persistScheme s b = persist SCHEME_STORAGE_KEY (scheme_id s) b"
  by (simp add: persistScheme_def persist_def)

lemma persistThemePreference_eq:
  "persistThemePreference p b = persist THEME_STORAGE_KEY (theme_id p) b"
  by (simp add: persistThemePreference_def persist_def)

lemma theme_id_inject [simp]: "theme_id p = theme_id q \<longleftrightarrow> p = q"
  by (cases p; cases q) simp_all

lemma scheme_id_inject [simp]: "scheme_id s = scheme_id t \<longleftrightarrow> s = t"
  by (cases s; cases t) simp_all

lemma sync_marked:
  "sync_radios (scheme_id s) (marked scheme_id s' xs) = marked scheme_id s xs"
  "sync_radios (theme_id p) (marked theme_id p' ys) = marked theme_id p ys"
  "sync_radios (scheme_id s) (map (\<lambda>s. (scheme_id s, None)) xs) = marked scheme_id s xs"
  "sync_radios (theme_id p) (map (\<lambda>p. (theme_id p, None)) ys) = marked theme_id p ys"
  by (simp_all add: sync_radios_def marked_def)

text \<open>The values stored depend only on the cookies and on local storage.\<close>

definition same_store :: "browser \<Rightarrow> browser \<Rightarrow> bool" where
  "same_store b b' \<longleftrightarrow> local_storage b' = local_storage b \<and> cookie_jar b' = cookie_jar b \<and>
     cookies_on b' = cookies_on b \<and> storage_readable b' = storage_readable b \<and>
     storage_writable b' = storage_writable b"

lemma same_storeD:
  assumes "same_store b b'"
  shows "stored_value b' k = stored_value b k" "stored_scheme b' = stored_scheme b"
    "stored_preference b' = stored_preference b" "sane b' = sane b" "remembers b' = remembers b"
proof -
  have v: "stored_value b' = stored_value b"
    using assms unfolding same_store_def stored_value_def readCookie_def document_cookie_def getItem_def
    by (intro ext) (simp split: option.split)
  show "stored_value b' k = stored_value b k" using v by simp
  show "stored_scheme b' = stored_scheme b" "stored_preference b' = stored_preference b"
    using v by (simp_all add: stored_scheme_def stored_preference_def)
  show "sane b' = sane b" "remembers b' = remembers b"
    using assms by (simp_all add: same_store_def sane_def remembers_def)
qed

lemma stored_scheme_persist:
  assumes "sane b" and "remembers b"
  shows "stored_scheme (persist SCHEME_STORAGE_KEY (scheme_id s) b) = s"
    "stored_preference (persist SCHEME_STORAGE_KEY (scheme_id s) b) = stored_preference b"
  using assms distinct_keys
  by (simp_all add: stored_scheme_def stored_preference_def sane_def stored_value_persist
      stored_value_persist_other ids_in_script_values)

lemma stored_preference_persist:
  assumes "sane b" and "remembers b"
  shows "stored_preference (persist THEME_STORAGE_KEY (theme_id p) b) = p"
    "stored_scheme (persist THEME_STORAGE_KEY (theme_id p) b) = stored_scheme b"
  using assms distinct_keys
  by (simp_all add: stored_scheme_def stored_preference_def sane_def stored_value_persist
      stored_value_persist_other ids_in_script_values)

lemma remembers_persist [simp]: "remembers (persist k v b) = remembers b"
  by (simp add: remembers_def)

lemma has_scheme_stored:
  assumes "sane b"
  shows "has_scheme (stored_value b SCHEME_STORAGE_KEY) \<longleftrightarrow>
     isColorScheme (stored_value b SCHEME_STORAGE_KEY) \<noteq> None"
proof -
  have "v \<notin> set inherited_names" if "stored_value b SCHEME_STORAGE_KEY = Some v" for v
  proof (cases "getItem b SCHEME_STORAGE_KEY = Some v")
    case True
    with assms show ?thesis by (auto simp: sane_def getItem_def split: if_splits)
  next
    case False
    with that have "readCookie b SCHEME_STORAGE_KEY = Some v"
      by (auto simp: stored_value_def split: option.splits if_splits)
    moreover have "plain_jar (cookie_jar b)" using assms by (simp add: sane_def)
    ultimately obtain w where "find (starts_with w) script_values = Some v"
      by (auto simp: readCookie_jar bind_eq_Some_conv split: if_splits)
    then have "v \<in> set script_values" by (auto simp: find_Some_iff)
    then show ?thesis by (auto simp: script_values_def inherited_names_def)
  qed
  moreover have "isColorScheme (Some []) = None" by (simp add: isColorScheme_def)
  ultimately show ?thesis
    by (cases "stored_value b SCHEME_STORAGE_KEY") (auto simp: has_scheme_def)
qed

lemma isColorScheme_SomeD: "isColorScheme v = Some s \<Longrightarrow> v = Some (scheme_id s)"
  by (auto simp: isColorScheme_def split: if_splits)

section \<open>Every event keeps the page and the store together\<close>

definition appearance_inv :: "browser \<Rightarrow> bool" where
  "appearance_inv b \<longleftrightarrow> sane b \<and> remembers b \<and> shows_stored b"

lemma read_from_dom:
  assumes "shows_stored b"
  shows "readSchemeFromDom b = stored_scheme b" "readThemePreferenceFromDom b = stored_preference b"
  using assms by (simp_all add: shows_stored_def readSchemeFromDom_def readThemePreferenceFromDom_def)

lemma load_page_cases:
  assumes "sane b"
  obtains b' where "same_store b b'"
    and "load_page cs b = (if isColorScheme (stored_value b SCHEME_STORAGE_KEY) = None
           then persist SCHEME_STORAGE_KEY (scheme_id Graphite) b' else b')"
    and "data_scheme b' = Some (scheme_id (stored_scheme b))"
    and "data_theme b' = Some (theme_id (resolveTheme (Some (os_dark b)) (stored_preference b)))"
    and "data_themePreference b' = Some (theme_id (stored_preference b))"
    and "listening b' = False" and "scheme_radios b' = []" and "mode_radios b' = []"
proof -
  let ?b1 = "RootLayout (cs (if cookies_on b then cookie_jar b else []) ''ad-platform-theme'')
    (cs (if cookies_on b then cookie_jar b else []) ''ad-platform-scheme'') (unmount_controls b)"
  let ?b2 = "?b1\<lparr>data_scheme := Some (scheme_id (stored_scheme b)),
    data_theme := Some (theme_id (resolveTheme (Some (os_dark b)) (stored_preference b))),
    data_themePreference := Some (theme_id (stored_preference b))\<rparr>"
  have s1: "same_store b ?b1" and s2: "same_store b ?b2" and os: "os_dark ?b1 = os_dark b"
    by (simp_all add: same_store_def RootLayout_def unmount_controls_def Let_def)
  have "load_page cs b = (if isColorScheme (stored_value b SCHEME_STORAGE_KEY) = None
      then persist SCHEME_STORAGE_KEY (scheme_id Graphite) ?b2 else ?b2)"
  proof (cases "isColorScheme (stored_value b SCHEME_STORAGE_KEY)")
    case None
    with os has_scheme_stored [OF assms] show ?thesis
      by (simp add: load_page_def inline_script_def Let_def same_storeD [OF s1] stored_scheme_def
          stored_preference_def persist_def)
  next
    case (Some s)
    with os has_scheme_stored [OF assms] isColorScheme_SomeD [OF Some] show ?thesis
      by (simp add: load_page_def inline_script_def Let_def same_storeD [OF s1] stored_scheme_def
          stored_preference_def)
  qed
  with s2 show ?thesis
    by (rule that) (simp_all add: RootLayout_def unmount_controls_def Let_def)
qed

lemma inv_load_page:
  assumes "sane b" and "remembers b"
  shows "appearance_inv (load_page cs b)"
    and "stored_scheme (load_page cs b) = stored_scheme b"
    and "stored_preference (load_page cs b) = stored_preference b"
proof -
  obtain b' where s: "same_store b b'"
    and load: "load_page cs b = (if isColorScheme (stored_value b SCHEME_STORAGE_KEY) = None
           then persist SCHEME_STORAGE_KEY (scheme_id Graphite) b' else b')"
    and shown: "data_scheme b' = Some (scheme_id (stored_scheme b))"
      "data_theme b' = Some (theme_id (resolveTheme (Some (os_dark b)) (stored_preference b)))"
      "data_themePreference b' = Some (theme_id (stored_preference b))"
      "listening b' = False" "scheme_radios b' = []" "mode_radios b' = []"
    using load_page_cases [OF assms(1)] by metis
  note keep = same_storeD [OF s]
  have wf: "sane b'" "remembers b'" using assms keep by simp_all
  show scheme: "stored_scheme (load_page cs b) = stored_scheme b"
    using stored_scheme_persist(1) [OF wf, of Graphite] keep
    by (auto simp: load stored_scheme_def [of b])
  show preference: "stored_preference (load_page cs b) = stored_preference b"
    using stored_scheme_persist(2) [OF wf, of Graphite] keep by (simp add: load)
  have "sane (load_page cs b)" "remembers (load_page cs b)"
    using wf sane_persist [OF wf(1) _ ids_in_script_values(2) [of Graphite], of SCHEME_STORAGE_KEY]
    by (simp_all add: load)
  then show "appearance_inv (load_page cs b)"
    unfolding appearance_inv_def shows_stored_def scheme preference by (auto simp: load shown)
qed

lemma inv_same_store:
  assumes "appearance_inv b" and "same_store b b'"
    and "data_scheme b' = data_scheme b" and "data_themePreference b' = data_themePreference b"
    and "\<exists>d. data_theme b' = Some (theme_id (resolveTheme (Some d) (stored_preference b))) \<and>
          (listening b' \<longrightarrow> d = os_dark b')"
    and "if listening b'
      then scheme_radios b' = marked scheme_id (stored_scheme b) COLOR_SCHEMES \<and>
           mode_radios b' = marked theme_id (stored_preference b) MODE_OPTIONS
      else scheme_radios b' = [] \<and> mode_radios b' = []"
  shows "appearance_inv b'"
  using assms same_storeD [OF assms(2)] unfolding appearance_inv_def shows_stored_def by auto

lemma inv_AppearanceControls:
  assumes "appearance_inv b"
  shows "appearance_inv (AppearanceControls b)"
proof -
  have sh: "shows_stored b" using assms by (simp add: appearance_inv_def)
  let ?b = "b\<lparr>scheme_radios := map (\<lambda>s. (scheme_id s, None)) COLOR_SCHEMES,
              mode_radios := map (\<lambda>p. (theme_id p, None)) MODE_OPTIONS\<rparr>"
  have "readSchemeFromDom ?b = stored_scheme b" "readThemePreferenceFromDom ?b = stored_preference b"
    using sh by (simp_all add: readSchemeFromDom_def readThemePreferenceFromDom_def shows_stored_def)
  then have eq: "AppearanceControls b = b\<lparr>
      data_scheme := Some (scheme_id (stored_scheme b)),
      data_theme := Some (theme_id (resolveTheme (Some (os_dark b)) (stored_preference b))),
      data_themePreference := Some (theme_id (stored_preference b)),
      scheme_radios := marked scheme_id (stored_scheme b) COLOR_SCHEMES,
      mode_radios := marked theme_id (stored_preference b) MODE_OPTIONS, listening := True\<rparr>"
    by (simp add: AppearanceControls_def Let_def syncModeAria_def syncSchemeAria_def
        applyAppearance_def sync_marked)
  show ?thesis
    using sh by (intro inv_same_store [OF assms]) (auto simp: eq same_store_def shows_stored_def)
qed

lemma inv_unmount:
  assumes "appearance_inv b"
  shows "appearance_inv (unmount_controls b)"
  using assms
  by (intro inv_same_store [OF assms])
    (auto simp: unmount_controls_def same_store_def appearance_inv_def shows_stored_def)

lemma inv_os_change:
  assumes "appearance_inv b"
  shows "appearance_inv (let b' = b\<lparr>os_dark := d\<rparr> in if listening b then onChange b' else b')"
    (is "appearance_inv ?b'")
proof -
  have sh: "shows_stored b" using assms by (simp add: appearance_inv_def)
  have read: "readSchemeFromDom (b\<lparr>os_dark := d\<rparr>) = stored_scheme b"
    "readThemePreferenceFromDom (b\<lparr>os_dark := d\<rparr>) = stored_preference b"
    using sh by (simp_all add: readSchemeFromDom_def readThemePreferenceFromDom_def shows_stored_def)
  have other: "?b' = b\<lparr>os_dark := d\<rparr>" if "\<not> (listening b \<and> stored_preference b = System)"
    using that read by (auto simp: Let_def onChange_def)
  have follow: "?b' = applyAppearance (stored_scheme b) System (b\<lparr>os_dark := d\<rparr>)"
    if "listening b \<and> stored_preference b = System"
    using that read by (simp add: Let_def onChange_def)
  have explicit: "resolveTheme w (stored_preference b) = stored_preference b"
    if "stored_preference b \<noteq> System" for w
    using that by (simp add: resolveTheme_def)
  show ?thesis
  proof (cases "listening b \<and> stored_preference b = System")
    case True
    with sh show ?thesis unfolding follow [OF True]
      by (intro inv_same_store [OF assms])
        (simp_all add: same_store_def applyAppearance_def Let_def shows_stored_def)
  next
    case False
    show ?thesis unfolding other [OF False]
    proof (rule inv_same_store [OF assms])
      show "\<exists>d'. data_theme (b\<lparr>os_dark := d\<rparr>) =
              Some (theme_id (resolveTheme (Some d') (stored_preference b))) \<and>
            (listening (b\<lparr>os_dark := d\<rparr>) \<longrightarrow> d' = os_dark (b\<lparr>os_dark := d\<rparr>))"
        using sh False explicit by (cases "listening b") (auto simp: shows_stored_def)
    qed (use sh in \<open>simp_all add: same_store_def shows_stored_def\<close>)
  qed
qed

lemma inv_select:
  assumes "appearance_inv b" and "listening b"
  shows "appearance_inv (selectScheme s b)" and "stored_scheme (selectScheme s b) = s"
    and "appearance_inv (selectMode p b)" and "stored_preference (selectMode p b) = p"
proof -
  have sh: "shows_stored b" and sane: "sane b" and rem: "remembers b"
    using assms by (simp_all add: appearance_inv_def)
  let ?bs = "persist SCHEME_STORAGE_KEY (scheme_id s) b"
  let ?bp = "persist THEME_STORAGE_KEY (theme_id p) b"
  have s: "same_store ?bs (selectScheme s b)" and p: "same_store ?bp (selectMode p b)"
    by (simp_all add: same_store_def selectScheme_def selectMode_def syncSchemeAria_def
        syncModeAria_def persistScheme_eq persistThemePreference_eq applyAppearance_def Let_def)
  note keep = same_storeD [OF s] same_storeD [OF p] stored_scheme_persist [OF sane rem]
    stored_preference_persist [OF sane rem]
  have inv: "sane ?bs" "remembers ?bs" "sane ?bp" "remembers ?bp"
    using sane rem by (simp_all add: sane_persist ids_in_script_values)
  show "stored_scheme (selectScheme s b) = s" "stored_preference (selectMode p b) = p"
    by (simp_all add: keep)
  show "appearance_inv (selectScheme s b)"
    using inv sh assms(2) unfolding appearance_inv_def shows_stored_def keep
    by (auto simp: selectScheme_def syncSchemeAria_def persistScheme_eq applyAppearance_def Let_def
        read_from_dom sync_marked shows_stored_def)
  show "appearance_inv (selectMode p b)"
    using inv sh assms(2) unfolding appearance_inv_def shows_stored_def keep
    by (auto simp: selectMode_def syncModeAria_def persistThemePreference_eq applyAppearance_def Let_def
        read_from_dom sync_marked shows_stored_def)
qed

lemma inv_appearance_step:
  assumes "appearance_inv b"
  shows "appearance_inv (appearance_step cs e b)"
proof (cases e)
  case LoadPage
  then show ?thesis using assms inv_load_page(1) by (simp add: appearance_inv_def)
qed (use assms in \<open>simp_all add: inv_AppearanceControls inv_unmount inv_os_change inv_select
      del: Let_def\<close>)

lemma inv_appearance_run:
  assumes "appearance_inv b"
  shows "appearance_inv (appearance_run cs es b)"
  using assms
  by (induction es arbitrary: b) (simp_all add: appearance_run_def inv_appearance_step)

text \<open>Only a click on a mode changes the stored mode, and only a click on a scheme the scheme.\<close>

fun selects :: "appearance_event \<Rightarrow> bool" where
  "selects (SelectScheme s) = True"
| "selects (SelectMode p) = True"
| "selects _ = False"

lemma step_keeps_stored:
  assumes "appearance_inv b" and "\<not> selects e"
  shows "stored_scheme (appearance_step cs e b) = stored_scheme b"
    and "stored_preference (appearance_step cs e b) = stored_preference b"
proof -
  have "same_store b (appearance_step cs e b)" if "e \<noteq> LoadPage"
    using that assms(2)
    by (cases e)
      (simp_all add: same_store_def AppearanceControls_def unmount_controls_def onChange_def Let_def
        applyAppearance_def syncModeAria_def syncSchemeAria_def)
  then show "stored_scheme (appearance_step cs e b) = stored_scheme b"
    and "stored_preference (appearance_step cs e b) = stored_preference b"
    using same_storeD(2,3) inv_load_page(2,3) assms(1)
    by (cases "e = LoadPage"; simp add: appearance_inv_def)+
qed

lemma run_keeps_stored:
  assumes "appearance_inv b" and "\<forall>e \<in> set es. \<not> selects e"
  shows "stored_scheme (appearance_run cs es b) = stored_scheme b \<and>
     stored_preference (appearance_run cs es b) = stored_preference b"
  using assms
  by (induction es arbitrary: b)
    (simp_all add: appearance_run_def inv_appearance_step step_keeps_stored)

lemma selectScheme_keeps_listening: "listening (selectScheme s b) = listening b"
  by (simp add: selectScheme_def syncSchemeAria_def persistScheme_eq applyAppearance_def Let_def)

lemma selectMode_keeps_scheme:
  assumes "appearance_inv b"
  shows "stored_scheme (selectMode p b) = stored_scheme b"
proof -
  have "same_store (persist THEME_STORAGE_KEY (theme_id p) b) (selectMode p b)"
    by (simp add: same_store_def selectMode_def syncModeAria_def persistThemePreference_eq
        applyAppearance_def Let_def)
  from same_storeD(2) [OF this] show ?thesis
    using assms by (simp add: stored_preference_persist appearance_inv_def)
qed

text \<open>The mode cycles through its three values, and the server paints the scheme a click chose.\<close>

lemma nextThemePreference_cycle:
  "nextThemePreference (nextThemePreference (nextThemePreference p)) = p"
  "nextThemePreference p \<noteq> p"
  by (cases p; simp add: nextThemePreference_def THEME_CYCLE_def)+

lemma server_paints_scheme:
  assumes "cookies_on b" and "\<And>jar k v. map_of jar k = Some v \<Longrightarrow> v \<in> set script_values \<Longrightarrow> cs jar k = Some v"
  shows "data_scheme (RootLayout t (cs (cookie_jar (selectScheme s b)) ''ad-platform-scheme'') b')
     = Some (scheme_id s)"
proof -
  have "cookie_jar (selectScheme s b)
      = AList.update SCHEME_STORAGE_KEY (scheme_id s) (cookie_jar b)"
    using assms(1) by (simp add: selectScheme_def syncSchemeAria_def persistScheme_eq
        applyAppearance_def Let_def)
  then have "cs (cookie_jar (selectScheme s b)) ''ad-platform-scheme'' = Some (scheme_id s)"
    using ids_in_script_values(2)
    by (intro assms(2)) (simp_all add: AList.update_conv SCHEME_STORAGE_KEY_def)
  then show ?thesis by (simp add: RootLayout_def Let_def)
qed

section \<open>The properties\<close>

text \<open>
  Round trip of the appearance settings. From any page loaded in a browser that keeps cookies
  or local storage, with the controls on the page, choosing a scheme and a mode shows them, and
  they are still what the page shows after any number of page loads, mounts, unmounts and changes
  of the operating system's mode; an explicit mode is shown as it is, and while the controls are
  mounted the System mode shows the operating system's.
\<close>

lemma appearance_choice_survives:
  assumes "sane b0" and "remembers b0" and "b1 = appearance_run cs es (load_page cs b0)"
    and "listening b1" and "\<forall>e \<in> set es'. \<not> selects e"
    and "b2 = appearance_run cs es' (selectMode p (selectScheme s b1))"
  shows "data_scheme b2 = Some (scheme_id s) \<and> data_themePreference b2 = Some (theme_id p) \<and>
     (p \<noteq> System \<longrightarrow> data_theme b2 = Some (theme_id p)) \<and>
     (p = System \<and> listening b2 \<longrightarrow> data_theme b2 = Some (if os_dark b2 then ''dark'' else ''light''))"
proof -
  have i1: "appearance_inv b1"
    using assms(1-3) by (simp add: inv_appearance_run inv_load_page)
  have sel: "appearance_inv (selectScheme s b1)" and ls: "listening (selectScheme s b1)"
    using inv_select(1) [OF i1 assms(4)] assms(4) by (simp_all add: selectScheme_keeps_listening)
  have im: "appearance_inv (selectMode p (selectScheme s b1))"
    by (rule inv_select(3) [OF sel ls])
  have stored: "stored_scheme b2 = s" "stored_preference b2 = p"
    using run_keeps_stored [OF im assms(5), of cs] selectMode_keeps_scheme [OF sel]
      inv_select(2) [OF i1 assms(4)] inv_select(4) [OF sel ls]
    by (simp_all add: assms(6))
  have "shows_stored b2"
    using inv_appearance_run [OF im] by (simp add: assms(6) appearance_inv_def)
  then show ?thesis
    by (auto simp: shows_stored_def stored resolveTheme_def)
qed

definition sample_browser :: browser where
  "sample_browser =
     \<lparr>data_scheme = None, data_theme = None, data_themePreference = None,
      local_storage = (\<lambda>_. None), storage_readable = False, storage_writable = False,
      cookies_on = True, cookie_jar = [(''lang'', ''en'')], os_dark = True,
      scheme_radios = [], mode_radios = [], listening = False\<rparr>"

lemma sample_browser_ok: "sane sample_browser" "remembers sample_browser"
  by (simp_all add: sane_def remembers_def plain_jar_def sample_browser_def)

lemma listening_Mount: "listening (appearance_run cs [Mount] b)"
  by (simp add: appearance_run_def AppearanceControls_def Let_def)

lemma appearance_choice_survives_witness:
  "data_scheme (appearance_run map_of [Unmount, LoadPage, Mount, OsChange False]
     (selectMode System (selectScheme Ink
       (appearance_run map_of [Mount] (load_page map_of sample_browser))))) = Some (scheme_id Ink)"
  by (rule appearance_choice_survives [OF sample_browser_ok refl listening_Mount _ refl,
        THEN conjunct1]) simp

text \<open>
  C35. Type soundness of the data attributes. Take a browser whose local storage works and does not hold,
  in place of the scheme, the name of a property every object inherits (such a name, \<open>constructor\<close> say,
  passes the first-paint script of \<open>app/layout.tsx\<close> as a scheme). Whatever else is in its stores, after a
  page load, and whatever clicks, reloads and changes follow, the root element carries one of the four schemes, a mode that is one of light,
  dark and system, and a shown mode that is light or dark; the mode of the page is never the shown
  mode of System, so following the operating system is not lost.
\<close>

theorem appearance_attributes_typed:
  assumes "sane b0" and "remembers b0" and "b = appearance_run cs es (load_page cs b0)"
  shows "(\<exists>s. data_scheme b = Some (scheme_id s) \<and> readSchemeFromDom b = s) \<and>
     (\<exists>p. data_themePreference b = Some (theme_id p) \<and> readThemePreferenceFromDom b = p \<and>
          isThemePreference (data_theme b) \<in> {Some Light, Some Dark} \<and>
          (p \<noteq> System \<longrightarrow> isThemePreference (data_theme b) = Some p)) \<and>
     readThemePreferenceFromDom (load_page cs b) = readThemePreferenceFromDom b"
proof -
  have inv: "appearance_inv b"
    using assms by (simp add: inv_appearance_run inv_load_page)
  then have sh: "shows_stored b" by (simp add: appearance_inv_def)
  then obtain d where d: "data_theme b = Some (theme_id (resolveTheme (Some d) (stored_preference b)))"
    by (auto simp: shows_stored_def)
  have typed: "isThemePreference (data_theme b) \<in> {Some Light, Some Dark}"
    "stored_preference b \<noteq> System \<longrightarrow> isThemePreference (data_theme b) = Some (stored_preference b)"
    by (cases d; cases "stored_preference b"; simp add: d resolveTheme_def isThemePreference_def)+
  have "sane b" "remembers b" using inv by (simp_all add: appearance_inv_def)
  from inv_load_page [OF this, of cs] sh
  have "readThemePreferenceFromDom (load_page cs b) = readThemePreferenceFromDom b"
    by (simp add: appearance_inv_def read_from_dom)
  with sh typed show ?thesis
    using read_from_dom [OF sh] by (simp add: shows_stored_def)
qed

theorem appearance_attributes_typed_witness:
  "isThemePreference (data_theme
     (appearance_run map_of [Mount, SelectMode Dark, SelectMode System] (load_page map_of sample_browser)))
     \<in> {Some Light, Some Dark}"
  using appearance_attributes_typed [OF sample_browser_ok refl,
      of map_of "[Mount, SelectMode Dark, SelectMode System]"]
  by blast

end
