(* ===== verification/Attack_Sfx.thy ===== *)
theory Attack_Sfx
  imports Js_Number "HOL-Library.Multiset"
begin

text \<open>
  The attack sound effects of \<open>components/hooks/use-attack-sfx.ts\<close>: the preferences in local
  storage, the three hooks that follow them (\<open>useAttackSfxPreferences\<close>, \<open>useAttackSfxPreview\<close> and
  \<open>useAttackSfx\<close>), and what they schedule on an audio context. The state is one window with one
  mounted instance of each hook; what the browser decides (the clock, the audio constructor, the
  state of a context, the outcome of fetching and decoding the sample) arrives with the events.
\<close>

section \<open>Preferences\<close>

definition ATTACK_SFX_THROTTLE_MS :: rat where
  "ATTACK_SFX_THROTTLE_MS = 700"

definition ATTACK_SFX_MAX_BLIPS :: nat where
  "ATTACK_SFX_MAX_BLIPS = 3"

definition ATTACK_SFX_ENABLED_KEY :: string where
  "ATTACK_SFX_ENABLED_KEY = ''ad-platform-attack-sfx-enabled''"

definition ATTACK_SFX_VOLUME_KEY :: string where
  "ATTACK_SFX_VOLUME_KEY = ''ad-platform-attack-sfx-volume''"

definition ATTACK_SFX_DEFAULT_VOLUME :: js_num where
  "ATTACK_SFX_DEFAULT_VOLUME = Finite (3 / 4)"

record AttackSfxPreferences =
  sfx_enabled :: bool
  sfx_volume :: js_num

definition SERVER_DEFAULT_PREFERENCES :: AttackSfxPreferences where
  "SERVER_DEFAULT_PREFERENCES = \<lparr>sfx_enabled = True, sfx_volume = ATTACK_SFX_DEFAULT_VOLUME\<rparr>"

definition clampVolume :: "js_num \<Rightarrow> js_num" where
  "clampVolume volume = math_min (Finite 1) (math_max (Finite 0) volume)"

text \<open>The window: local storage, whose methods may throw, and the motion preference, absent where
  \<open>matchMedia\<close> is.\<close>

record sfx_window =
  stored :: "string \<Rightarrow> string option"
  can_read :: bool
  can_write :: bool
  reduced_motion :: "bool option"

definition readStoredValue :: "sfx_window \<Rightarrow> string \<Rightarrow> string option" where
  "readStoredValue w key = (if can_read w then stored w key else None)"

definition readAttackSfxPreferences :: "sfx_window option \<Rightarrow> AttackSfxPreferences" where
  "readAttackSfxPreferences window = (case window of
     None \<Rightarrow> \<lparr>sfx_enabled = True, sfx_volume = ATTACK_SFX_DEFAULT_VOLUME\<rparr>
   | Some w \<Rightarrow>
       (let storedEnabled = readStoredValue w ATTACK_SFX_ENABLED_KEY;
            storedVolume = readStoredValue w ATTACK_SFX_VOLUME_KEY;
            reducedMotion = coalesce (reduced_motion w) False;
            volume = (case storedVolume of None \<Rightarrow> NaN | Some v \<Rightarrow> js_Number v)
        in \<lparr>sfx_enabled = (case storedEnabled of
              None \<Rightarrow> \<not> reducedMotion
            | Some v \<Rightarrow> v = ''on'' \<or> v = ''true''),
            sfx_volume = (if is_finite volume then clampVolume volume
                          else ATTACK_SFX_DEFAULT_VOLUME)\<rparr>))"

text \<open>Both writes stand in one \<open>try\<close>; storage that refuses the first refuses the second.\<close>

definition set_stored :: "string \<Rightarrow> string \<Rightarrow> sfx_window \<Rightarrow> sfx_window" where
  "set_stored key v w = (if can_write w then w\<lparr>stored := (stored w)(key \<mapsto> v)\<rparr> else w)"

definition writeAttackSfxPreferences :: "bool option \<Rightarrow> js_num option \<Rightarrow> sfx_window \<Rightarrow> sfx_window" where
  "writeAttackSfxPreferences enabled volume w =
     (let w1 = (case enabled of
            None \<Rightarrow> w
          | Some e \<Rightarrow> set_stored ATTACK_SFX_ENABLED_KEY (if e then ''on'' else ''off'') w)
      in case volume of
           None \<Rightarrow> w1
         | Some v \<Rightarrow> set_stored ATTACK_SFX_VOLUME_KEY (num_to_string (clampVolume v)) w1)"

section \<open>Audio\<close>

datatype context_state = Suspended | Running | Closed

record audio_context =
  ctx_state :: context_state
  currentTime :: js_num

record blip =
  bl_startTime :: js_num
  bl_index :: nat
  bl_volume :: js_num

text \<open>The constructor's answer: \<open>None\<close> where there is none, or where it throws.\<close>

definition getOrCreateAudioContext ::
    "audio_context option \<Rightarrow> audio_context option \<Rightarrow> audio_context option" where
  "getOrCreateAudioContext constructed current =
     (case current of Some context \<Rightarrow> Some context | None \<Rightarrow> constructed)"

record sfx_state =
  window :: sfx_window
  preferences :: AttackSfxPreferences
  pv_context :: "audio_context option"
  pv_preferences :: AttackSfxPreferences
  armedRef :: bool
  audioContextRef :: "audio_context option"
  lastPlayedAtRef :: js_num
  preferencesRef :: AttackSfxPreferences
  resumes :: nat
  cachedAudioBuffer :: bool
  loading :: "blip list"
  sounded :: "blip list"
  bursts :: "(js_num \<times> blip list) list"
  previews :: "blip list list"
  closed_contexts :: nat

text \<open>
  \<open>playAttackBlip\<close>: with the sample cached the source starts at once; otherwise this blip waits for
  its own fetch, whose success also fills the cache and whose failure is swallowed.
\<close>

definition playAttackBlip :: "blip \<Rightarrow> sfx_state \<Rightarrow> sfx_state" where
  "playAttackBlip b st =
     (if cachedAudioBuffer st then st\<lparr>sounded := sounded st @ [b]\<rparr>
      else st\<lparr>loading := loading st @ [b]\<rparr>)"

definition getAttackAudioBuffer_settles :: "nat \<Rightarrow> bool \<Rightarrow> sfx_state \<Rightarrow> sfx_state" where
  "getAttackAudioBuffer_settles i fetched st =
     (if i < length (loading st)
      then (let st' = st\<lparr>loading := take i (loading st) @ drop (Suc i) (loading st)\<rparr>
            in if fetched
               then st'\<lparr>cachedAudioBuffer := True, sounded := sounded st @ [loading st ! i]\<rparr>
               else st')
      else st)"

text \<open>\<open>Math.pow(0.85, index)\<close> is approximated by the host and enters as the function \<open>pow\<close>.\<close>

definition blip_gain :: "(nat \<Rightarrow> rat) \<Rightarrow> blip \<Rightarrow> js_num" where
  "blip_gain pow b = js_mul_finite (js_mul_finite (bl_volume b) (1 / 2)) (pow (bl_index b))"

text \<open>The literals below are the doubles nearest to the decimals of the source.\<close>

definition dbl :: "rat \<Rightarrow> rat" where
  "dbl q = (case to_double q of Finite r \<Rightarrow> r | _ \<Rightarrow> 0)"

definition preview_blips :: "audio_context \<Rightarrow> js_num \<Rightarrow> blip list" where
  "preview_blips context volume =
     (let startTime = js_add (currentTime context) (Finite (dbl (15 / 1000)))
      in [\<lparr>bl_startTime = startTime, bl_index = 0, bl_volume = volume\<rparr>,
          \<lparr>bl_startTime = js_add startTime (Finite (dbl (9 / 100))), bl_index = 1,
           bl_volume = js_mul_finite volume (dbl (85 / 100))\<rparr>,
          \<lparr>bl_startTime = js_add startTime (Finite (dbl (18 / 100))), bl_index = 2,
           bl_volume = js_mul_finite volume (dbl (7 / 10))\<rparr>])"

definition silent :: "AttackSfxPreferences \<Rightarrow> bool" where
  "silent p \<longleftrightarrow> \<not> sfx_enabled p \<or> \<not> js_less (Finite 0) (sfx_volume p) \<and> sfx_volume p \<noteq> NaN"

definition useAttackSfxPreview :: "audio_context option \<Rightarrow> sfx_state \<Rightarrow> sfx_state" where
  "useAttackSfxPreview constructed st =
     (let prefs = pv_preferences st in
      if silent prefs then st
      else (let c = getOrCreateAudioContext constructed (pv_context st);
                st1 = st\<lparr>pv_context := c\<rparr>
            in case c of
                 None \<Rightarrow> st1
               | Some context \<Rightarrow>
                   if ctx_state context = Closed then st1
                   else (let st2 = (if ctx_state context = Suspended
                               then st1\<lparr>resumes := Suc (resumes st1)\<rparr> else st1);
                             bs = preview_blips context (sfx_volume prefs)
                         in (fold playAttackBlip bs st2)\<lparr>previews := bs # previews st\<rparr>)))"

definition armAudio :: "audio_context option \<Rightarrow> sfx_state \<Rightarrow> sfx_state" where
  "armAudio constructed st =
     (let c = getOrCreateAudioContext constructed (audioContextRef st);
          st1 = st\<lparr>armedRef := True, audioContextRef := c\<rparr>
      in case c of
           None \<Rightarrow> st1
         | Some context \<Rightarrow>
             if ctx_state context = Suspended then st1\<lparr>resumes := Suc (resumes st1)\<rparr> else st1)"

definition burst_blips :: "audio_context \<Rightarrow> nat \<Rightarrow> js_num \<Rightarrow> blip list" where
  "burst_blips context n volume =
     (let startTime = js_add (currentTime context) (Finite (dbl (15 / 1000)));
          blipCount = min n ATTACK_SFX_MAX_BLIPS
      in map (\<lambda>index. \<lparr>bl_startTime =
             js_add startTime (js_mul_finite (Finite (of_nat index)) (dbl (72 / 1000))),
           bl_index = index, bl_volume = volume\<rparr>) [0..<blipCount])"

definition useAttackSfx :: "js_num \<Rightarrow> audio_context option \<Rightarrow> string list \<Rightarrow> sfx_state \<Rightarrow> sfx_state" where
  "useAttackSfx now constructed attackIds st =
     (if attackIds = [] \<or> \<not> armedRef st then st
      else if silent (preferencesRef st) then st
      else if js_less (js_sub now (lastPlayedAtRef st)) (Finite ATTACK_SFX_THROTTLE_MS) then st
      else (let c = getOrCreateAudioContext constructed (audioContextRef st);
                st1 = st\<lparr>lastPlayedAtRef := now, audioContextRef := c\<rparr>;
                bs = (case c of
                        None \<Rightarrow> []
                      | Some context \<Rightarrow>
                          if ctx_state context = Closed then []
                          else burst_blips context (length attackIds) (sfx_volume (preferencesRef st)))
            in (fold playAttackBlip bs st1)\<lparr>bursts := (now, bs) # bursts st\<rparr>))"

section \<open>Events\<close>

text \<open>The hooks that listen for a preference change read the window again. Only two of them listen
  for a change of the motion preference.\<close>

definition sync_all :: "sfx_state \<Rightarrow> sfx_state" where
  "sync_all st = (let p = readAttackSfxPreferences (Some (window st))
     in st\<lparr>preferences := p, pv_preferences := p, preferencesRef := p\<rparr>)"

definition sync_motion :: "sfx_state \<Rightarrow> sfx_state" where
  "sync_motion st = (let p = readAttackSfxPreferences (Some (window st))
     in st\<lparr>preferences := p, preferencesRef := p\<rparr>)"

definition setEnabled :: "bool \<Rightarrow> sfx_state \<Rightarrow> sfx_state" where
  "setEnabled enabled st =
     sync_all (st\<lparr>window := writeAttackSfxPreferences (Some enabled) None (window st)\<rparr>)"

definition setVolume :: "js_num \<Rightarrow> sfx_state \<Rightarrow> sfx_state" where
  "setVolume volume st =
     sync_all (st\<lparr>window := writeAttackSfxPreferences None (Some volume) (window st)\<rparr>)"

definition toggleEnabled :: "sfx_state \<Rightarrow> sfx_state" where
  "toggleEnabled st =
     sync_all (st\<lparr>window := writeAttackSfxPreferences
       (Some (\<not> sfx_enabled (readAttackSfxPreferences (Some (window st))))) None (window st)\<rparr>)"

text \<open>Leaving the page: each hook drops its context and closes it unless it is closed already.\<close>

definition to_close :: "audio_context option \<Rightarrow> nat" where
  "to_close c = (case c of None \<Rightarrow> 0 | Some context \<Rightarrow> if ctx_state context = Closed then 0 else 1)"

definition sfx_unmount :: "sfx_state \<Rightarrow> sfx_state" where
  "sfx_unmount st =
     st\<lparr>audioContextRef := None, pv_context := None,
        closed_contexts := closed_contexts st + to_close (audioContextRef st) + to_close (pv_context st)\<rparr>"

datatype sfx_event =
    Gesture "audio_context option"
  | Attacks js_num "audio_context option" "string list"
  | Preview "audio_context option"
  | SetEnabled bool | SetVolume js_num | ToggleEnabled
  | StorageEvent "string \<Rightarrow> string option"
  | MotionChange bool
  | ContextMoves "audio_context option" "audio_context option"
  | SampleSettles nat bool

fun sfx_step :: "sfx_event \<Rightarrow> sfx_state \<Rightarrow> sfx_state" where
  "sfx_step (Gesture c) st = armAudio c st"
| "sfx_step (Attacks now c ids) st = useAttackSfx now c ids st"
| "sfx_step (Preview c) st = useAttackSfxPreview c st"
| "sfx_step (SetEnabled e) st = setEnabled e st"
| "sfx_step (SetVolume v) st = setVolume v st"
| "sfx_step ToggleEnabled st = toggleEnabled st"
| "sfx_step (StorageEvent s) st = sync_all (st\<lparr>window := (window st)\<lparr>stored := s\<rparr>\<rparr>)"
| "sfx_step (MotionChange r) st = sync_motion (st\<lparr>window := (window st)\<lparr>reduced_motion := Some r\<rparr>\<rparr>)"
| "sfx_step (ContextMoves a p) st =
     st\<lparr>audioContextRef := (if audioContextRef st = None then None else a),
        pv_context := (if pv_context st = None then None else p)\<rparr>"
| "sfx_step (SampleSettles i ok) st = getAttackAudioBuffer_settles i ok st"

text \<open>The first render, whose effects read the window.\<close>

definition sfx_mount :: "sfx_window \<Rightarrow> bool \<Rightarrow> sfx_state" where
  "sfx_mount w cached = sync_all
     \<lparr>window = w, preferences = SERVER_DEFAULT_PREFERENCES, pv_context = None,
      pv_preferences = SERVER_DEFAULT_PREFERENCES, armedRef = False, audioContextRef = None,
      lastPlayedAtRef = Finite 0, preferencesRef = readAttackSfxPreferences (Some w), resumes = 0,
      cachedAudioBuffer = cached, loading = [], sounded = [], bursts = [], previews = [], closed_contexts = 0\<rparr>"

definition sfx_run :: "sfx_event list \<Rightarrow> sfx_state \<Rightarrow> sfx_state" where
  "sfx_run es st = foldl (\<lambda>st e. sfx_step e st) st es"

section \<open>Volumes\<close>

definition volume_ok :: "js_num \<Rightarrow> bool" where
  "volume_ok v = (case v of Finite q \<Rightarrow> 0 \<le> q \<and> q \<le> 1 | _ \<Rightarrow> False)"

lemma clampVolume_ok: "v \<noteq> NaN \<Longrightarrow> volume_ok (clampVolume v)"
  by (cases v) (auto simp: clampVolume_def math_min_def math_max_def js_less_def volume_ok_def)

lemma clampVolume_id: "volume_ok v \<Longrightarrow> clampVolume v = v"
  by (cases v) (auto simp: clampVolume_def math_min_def math_max_def js_less_def volume_ok_def)

lemma read_volume_ok: "volume_ok (sfx_volume (readAttackSfxPreferences w))"
proof -
  have "volume_ok ATTACK_SFX_DEFAULT_VOLUME"
    by (simp add: ATTACK_SFX_DEFAULT_VOLUME_def volume_ok_def)
  moreover have "is_finite v \<Longrightarrow> volume_ok (clampVolume v)" for v
    using clampVolume_ok by (cases v) (auto simp: is_finite_def)
  ultimately show ?thesis
    by (cases w) (simp_all add: readAttackSfxPreferences_def Let_def)
qed

lemma silent_iff: "volume_ok (sfx_volume p) \<Longrightarrow> \<not> silent p \<longleftrightarrow>
    sfx_enabled p \<and> (\<exists>q. sfx_volume p = Finite q \<and> 0 < q \<and> q \<le> 1)"
  by (cases "sfx_volume p") (auto simp: silent_def js_less_def volume_ok_def)


section \<open>What the hooks hold, and what they have played\<close>

definition burst_ok :: "js_num \<times> blip list \<Rightarrow> bool" where
  "burst_ok b \<longleftrightarrow> length (snd b) \<le> 3 \<and>
     list_all (\<lambda>x. \<exists>q. bl_volume x = Finite q \<and> 0 < q \<and> q \<le> 1) (snd b)"

definition apart :: "js_num \<times> blip list \<Rightarrow> js_num \<times> blip list \<Rightarrow> bool" where
  "apart later earlier \<longleftrightarrow> \<not> js_less (js_sub (fst later) (fst earlier)) (Finite 700)"

definition scheduled :: "sfx_state \<Rightarrow> blip list" where
  "scheduled st = concat (map snd (bursts st)) @ concat (previews st)"

definition heard :: "sfx_state \<Rightarrow> blip multiset" where
  "heard st = mset (sounded st) + mset (loading st)"

definition sfx_inv :: "sfx_state \<Rightarrow> bool" where
  "sfx_inv st \<longleftrightarrow>
     preferences st = readAttackSfxPreferences (Some (window st)) \<and>
     preferencesRef st = readAttackSfxPreferences (Some (window st)) \<and>
     list_all burst_ok (bursts st) \<and> successively apart (bursts st) \<and>
     (bursts st \<noteq> [] \<longrightarrow> armedRef st \<and> fst (hd (bursts st)) = lastPlayedAtRef st) \<and>
     heard st \<subseteq># mset (scheduled st)"

lemma fold_playAttackBlip_fields [simp]:
  "window (fold playAttackBlip bs st) = window st"
  "preferences (fold playAttackBlip bs st) = preferences st"
  "preferencesRef (fold playAttackBlip bs st) = preferencesRef st"
  "bursts (fold playAttackBlip bs st) = bursts st"
  "previews (fold playAttackBlip bs st) = previews st"
  "armedRef (fold playAttackBlip bs st) = armedRef st"
  "lastPlayedAtRef (fold playAttackBlip bs st) = lastPlayedAtRef st"
  by (induction bs arbitrary: st) (simp_all add: playAttackBlip_def)

lemma heard_fold_playAttackBlip [simp]:
  "heard (fold playAttackBlip bs st) = heard st + mset bs"
  by (induction bs arbitrary: st) (simp_all add: playAttackBlip_def heard_def)

lemma heard_settles: "heard (getAttackAudioBuffer_settles i ok st) \<subseteq># heard st"
proof (cases "i < length (loading st)")
  case True
  then have "mset (loading st)
      = add_mset (loading st ! i) (mset (take i (loading st)) + mset (drop (Suc i) (loading st)))"
    by (metis Cons_nth_drop_Suc append_take_drop_id mset.simps(2) mset_append union_mset_add_mset_right)
  with True show ?thesis
    by (simp add: getAttackAudioBuffer_settles_def Let_def heard_def)
qed (simp add: getAttackAudioBuffer_settles_def)

lemma length_burst_blips: "length (burst_blips c n v) = min n 3"
  by (simp add: burst_blips_def ATTACK_SFX_MAX_BLIPS_def Let_def)

lemma burst_blips_ok:
  assumes "v = Finite q" and "0 < q" and "q \<le> 1"
  shows "burst_ok (t, burst_blips c n v)"
  using assms
  by (auto simp: burst_ok_def length_burst_blips list_all_iff) (auto simp: burst_blips_def Let_def)

lemma heard_update [simp]:
  "heard (st\<lparr>window := w\<rparr>) = heard st" "heard (st\<lparr>preferences := p\<rparr>) = heard st"
  "heard (st\<lparr>pv_preferences := p\<rparr>) = heard st" "heard (st\<lparr>preferencesRef := p\<rparr>) = heard st"
  "heard (st\<lparr>pv_context := c\<rparr>) = heard st" "heard (st\<lparr>audioContextRef := c\<rparr>) = heard st"
  "heard (st\<lparr>resumes := n\<rparr>) = heard st" "heard (st\<lparr>armedRef := b\<rparr>) = heard st"
  "heard (st\<lparr>lastPlayedAtRef := t\<rparr>) = heard st" "heard (st\<lparr>bursts := bs\<rparr>) = heard st"
  "heard (st\<lparr>previews := ps\<rparr>) = heard st"
  by (simp_all add: heard_def)

lemma inv_sync:
  "sfx_inv st \<Longrightarrow> sfx_inv (sync_all (st\<lparr>window := w\<rparr>))"
  "sfx_inv st \<Longrightarrow> sfx_inv (sync_motion (st\<lparr>window := w\<rparr>))"
  by (simp_all add: sfx_inv_def sync_all_def sync_motion_def Let_def scheduled_def)

lemma inv_settles:
  assumes "sfx_inv st"
  shows "sfx_inv (getAttackAudioBuffer_settles i ok st)"
proof -
  have "heard (getAttackAudioBuffer_settles i ok st) \<subseteq># mset (scheduled st)"
    using heard_settles assms unfolding sfx_inv_def by (metis subset_mset.order_trans)
  then show ?thesis
    using assms
    by (cases ok; cases "i < length (loading st)")
      (simp_all add: sfx_inv_def getAttackAudioBuffer_settles_def Let_def scheduled_def)
qed

lemma inv_arm: "sfx_inv st \<Longrightarrow> sfx_inv (armAudio c st)"
  by (simp add: sfx_inv_def armAudio_def Let_def scheduled_def split: option.split)

lemma inv_preview:
  assumes "sfx_inv st"
  shows "sfx_inv (useAttackSfxPreview c st)"
proof -
  have "heard st + mset bs
      \<subseteq># mset (concat (map snd (bursts st))) + (mset bs + mset (concat (previews st)))" for bs
    using assms by (simp add: sfx_inv_def scheduled_def ac_simps)
  with assms show ?thesis
    by (simp add: sfx_inv_def useAttackSfxPreview_def Let_def scheduled_def split: option.split)
qed

lemma inv_attacks:
  assumes "sfx_inv st"
  shows "sfx_inv (useAttackSfx now c ids st)"
proof (cases "ids = [] \<or> \<not> armedRef st \<or> silent (preferencesRef st) \<or>
    js_less (js_sub now (lastPlayedAtRef st)) (Finite ATTACK_SFX_THROTTLE_MS)")
  case True
  with assms show ?thesis by (auto simp: useAttackSfx_def)
next
  case False
  define bs where "bs = (case getOrCreateAudioContext c (audioContextRef st) of None \<Rightarrow> []
     | Some context \<Rightarrow> if ctx_state context = Closed then []
         else burst_blips context (length ids) (sfx_volume (preferencesRef st)))"
  have st': "useAttackSfx now c ids st
      = (fold playAttackBlip bs (st\<lparr>lastPlayedAtRef := now,
            audioContextRef := getOrCreateAudioContext c (audioContextRef st)\<rparr>))
          \<lparr>bursts := (now, bs) # bursts st\<rparr>"
    using False by (simp add: useAttackSfx_def Let_def bs_def)
  have bs: "bs = [] \<or> (\<exists>context. bs = burst_blips context (length ids) (sfx_volume (preferencesRef st)))"
    by (auto simp: bs_def split: option.split)
  have "volume_ok (sfx_volume (preferencesRef st))"
    using assms read_volume_ok by (simp add: sfx_inv_def)
  from silent_iff [OF this] False
  obtain q where "sfx_volume (preferencesRef st) = Finite q" "0 < q" "q \<le> 1" by auto
  then have ok: "burst_ok (now, bs)"
    using bs burst_blips_ok by (auto simp: burst_ok_def [of "(now, [])"])
  have ap: "successively apart ((now, bs) # bursts st)"
    using assms False
    by (cases "bursts st") (auto simp: sfx_inv_def apart_def ATTACK_SFX_THROTTLE_MS_def)
  show ?thesis
    using assms ok ap False unfolding st'
    by (simp add: sfx_inv_def scheduled_def ac_simps)
qed

lemma inv_sfx_step: "sfx_inv st \<Longrightarrow> sfx_inv (sfx_step e st)"
  by (cases e)
    (simp_all add: inv_arm inv_attacks inv_preview inv_settles setEnabled_def setVolume_def
      toggleEnabled_def inv_sync, simp add: sfx_inv_def scheduled_def)

lemma inv_sfx_run: "sfx_inv st \<Longrightarrow> sfx_inv (sfx_run es st)"
  by (induction es arbitrary: st) (simp_all add: sfx_run_def inv_sfx_step)

lemma inv_mount: "sfx_inv (sfx_mount w cached)"
  by (simp add: sfx_inv_def sfx_mount_def sync_all_def Let_def scheduled_def heard_def)

text \<open>Before the first gesture the attack hook is not armed, and leaving drops every context.\<close>

lemma unarmed_run:
  assumes "\<not> armedRef st" and "\<forall>c. Gesture c \<notin> set es"
  shows "\<not> armedRef (sfx_run es st) \<and> bursts (sfx_run es st) = bursts st"
proof -
  have step: "\<not> armedRef (sfx_step e st) \<and> bursts (sfx_step e st) = bursts st"
    if "\<not> armedRef st" "\<forall>c. Gesture c \<noteq> e" for e st
    using that
    by (cases e) (simp_all add: useAttackSfx_def useAttackSfxPreview_def setEnabled_def setVolume_def
        toggleEnabled_def sync_all_def sync_motion_def getAttackAudioBuffer_settles_def Let_def
        split: option.split)
  show ?thesis
    using assms
  proof (induction es arbitrary: st)
    case (Cons e es)
    with step [of st e] show ?case by (simp add: sfx_run_def)
  qed (simp add: sfx_run_def)
qed

lemma unmount_closes:
  "audioContextRef (sfx_unmount st) = None \<and> pv_context (sfx_unmount st) = None"
  by (simp add: sfx_unmount_def)

section \<open>The properties\<close>

text \<open>
  The sound of attacks is bounded. Whatever the page's events are, an announcement of attacks
  plays at most three blips, at a volume above 0 and at most 1; two successive announcements that
  play are at least 700 ms apart on the page's clock; what sounds or waits for its sample was
  scheduled by an announcement or by the test button; and before the first gesture of the user no
  announcement plays.
\<close>

lemma attack_sounds_bounded:
  assumes "st = sfx_run es (sfx_mount w cached)"
  shows "list_all (\<lambda>(t, bs). length bs \<le> 3 \<and>
            list_all (\<lambda>b. \<exists>q. bl_volume b = Finite q \<and> 0 < q \<and> q \<le> 1) bs) (bursts st) \<and>
     successively (\<lambda>(t2, _) (t1, _). \<not> js_less (js_sub t2 t1) (Finite 700)) (bursts st) \<and>
     mset (sounded st) + mset (loading st)
       \<subseteq># mset (concat (map snd (bursts st)) @ concat (previews st)) \<and>
     ((\<forall>c. Gesture c \<notin> set es) \<longrightarrow> bursts st = [])"
proof -
  have inv: "sfx_inv st" by (simp add: assms inv_sfx_run inv_mount)
  have "\<not> armedRef (sfx_mount w cached)" "bursts (sfx_mount w cached) = []"
    by (simp_all add: sfx_mount_def sync_all_def Let_def)
  then have "(\<forall>c. Gesture c \<notin> set es) \<longrightarrow> bursts st = []"
    using unarmed_run assms by simp
  moreover have "burst_ok = (\<lambda>(t, bs). length bs \<le> 3 \<and>
      list_all (\<lambda>b. \<exists>q. bl_volume b = Finite q \<and> 0 < q \<and> q \<le> 1) bs)"
    "apart = (\<lambda>(t2, _) (t1, _). \<not> js_less (js_sub t2 t1) (Finite 700))"
    by (auto simp: burst_ok_def apart_def fun_eq_iff)
  ultimately show ?thesis
    using inv unfolding sfx_inv_def heard_def scheduled_def by simp
qed

text \<open>Two announcements, the second too soon after the first.\<close>

definition sample_window :: sfx_window where
  "sample_window = \<lparr>stored = (\<lambda>_. None), can_read = True, can_write = True, reduced_motion = None\<rparr>"

definition sample_events :: "sfx_event list" where
  "sample_events = [Gesture (Some \<lparr>ctx_state = Running, currentTime = Finite 0\<rparr>),
     Attacks (Finite 1000) None [''a'', ''b'', ''c'', ''d''], Attacks (Finite 1500) None [''e'']]"

lemma attack_sounds_bounded_witness:
  "successively (\<lambda>(t2, _) (t1, _). \<not> js_less (js_sub t2 t1) (Finite 700))
     (bursts (sfx_run sample_events (sfx_mount sample_window False)))"
  using attack_sounds_bounded [OF refl] by blast

text \<open>
  Preferences round trip. Where local storage works, after any events, setting a volume in
  the range gives that volume (when its decimal form reads back to it, as the language promises)
  to all three hooks, setting the switch gives them that switch, and toggling it twice gives back
  what was set; and whatever local storage holds, the volume read from it is between 0 and 1.
\<close>

lemma sfx_preferences_roundtrip:
  assumes "st = sfx_run es (sfx_mount w cached)" and "can_read w" and "can_write w"
    and "volume_ok v" and "js_Number (num_to_string v) = v"
  shows "sfx_volume (preferences (setVolume v st)) = v \<and>
     sfx_volume (pv_preferences (setVolume v st)) = v \<and>
     sfx_volume (preferencesRef (setVolume v st)) = v \<and>
     sfx_enabled (preferences (setEnabled e st)) = e \<and>
     sfx_enabled (pv_preferences (setEnabled e st)) = e \<and>
     sfx_enabled (preferencesRef (setEnabled e st)) = e \<and>
     preferences (toggleEnabled (toggleEnabled (setEnabled e st))) = preferences (setEnabled e st) \<and>
     (\<forall>w'. volume_ok (sfx_volume (readAttackSfxPreferences w')))"
proof -
  have step: "can_read (window (sfx_step e st)) = can_read (window st) \<and>
      can_write (window (sfx_step e st)) = can_write (window st)" for e st
    by (cases e) (simp_all add: armAudio_def useAttackSfx_def useAttackSfxPreview_def setEnabled_def
        setVolume_def toggleEnabled_def sync_all_def sync_motion_def getAttackAudioBuffer_settles_def
        writeAttackSfxPreferences_def set_stored_def Let_def split: option.split)
  have "can_read (window (sfx_run es st)) = can_read (window st) \<and>
      can_write (window (sfx_run es st)) = can_write (window st)" for st
    using step by (induction es arbitrary: st) (simp_all add: sfx_run_def)
  then have rw: "can_read (window st)" "can_write (window st)"
    using assms(1-3) by (simp_all add: sfx_mount_def sync_all_def Let_def)
  have keys: "ATTACK_SFX_ENABLED_KEY \<noteq> ATTACK_SFX_VOLUME_KEY"
    by (simp add: ATTACK_SFX_ENABLED_KEY_def ATTACK_SFX_VOLUME_KEY_def)
  have fin: "is_finite v" using assms(4) by (cases v) (simp_all add: volume_ok_def is_finite_def)
  show ?thesis
    using rw keys fin assms(4,5) read_volume_ok clampVolume_id [OF assms(4)]
    by (simp add: setVolume_def setEnabled_def toggleEnabled_def sync_all_def Let_def
        writeAttackSfxPreferences_def set_stored_def readAttackSfxPreferences_def readStoredValue_def)
qed

lemma full_volume_reads_back: "js_Number (num_to_string (Finite 1)) = Finite 1"
  using js_Number_int_to_string [of 1] num_to_string_int [of 1] by simp

lemma sfx_preferences_roundtrip_witness:
  "sfx_volume (preferencesRef (setVolume (Finite 1) (sfx_run sample_events (sfx_mount sample_window True))))
     = Finite 1"
  using sfx_preferences_roundtrip [OF refl, of sample_window "Finite 1" sample_events True True]
  by (simp add: sample_window_def volume_ok_def full_volume_reads_back)

end
