(* ===== verification/Scoreboard_View.thy ===== *)
theory Scoreboard_View
  imports Scoring_Leaders Js_Number
begin

text \<open>
  The scoreboard both dashboards show: \<open>components/ui/scoreboard-table.tsx\<close> and
  \<open>components/ui/scoreboard-rank.tsx\<close>. What the components render is modelled as data: the texts,
  labels and colour tones of each cell, in the order of the page; style classes that do not depend
  on the data are left out. Scores are finite numbers, so a difference of two scores has the sign
  of the exact difference.
\<close>

section \<open>Rows and formatting\<close>

record ScoreboardServiceRow =
  sv_challenge_id :: int
  sv_service :: string
  sv_attack :: rat
  sv_defense :: rat
  sv_sla :: rat
  sv_total :: rat

record ScoreboardRow =
  rw_rank :: int
  rw_delta :: string
  rw_team :: string
  rw_attack :: rat
  rw_defense :: rat
  rw_sla :: rat
  rw_total :: rat
  rw_services :: "ScoreboardServiceRow list option"

record ServiceColumn =
  co_key :: string
  co_challengeID :: int
  co_service :: string

definition serviceColumnKey :: "ScoreboardServiceRow \<Rightarrow> string" where
  "serviceColumnKey service = int_to_string (sv_challenge_id service) @ '':'' @ sv_service service"

definition services_of :: "ScoreboardRow \<Rightarrow> ScoreboardServiceRow list" where
  "services_of row = coalesce (rw_services row) []"

text \<open>The inner loop of \<open>collectServiceColumns\<close>: the keys seen so far and the columns pushed.\<close>

fun add_columns :: "ScoreboardServiceRow list \<Rightarrow> string set \<times> ServiceColumn list
    \<Rightarrow> string set \<times> ServiceColumn list" where
  "add_columns [] acc = acc"
| "add_columns (service # rest) (seen, columns) =
     (let key = serviceColumnKey service in
      if key \<in> seen then add_columns rest (seen, columns)
      else add_columns rest (insert key seen, columns @
        [\<lparr>co_key = key, co_challengeID = sv_challenge_id service, co_service = sv_service service\<rparr>]))"

definition column_compare :: "(string \<Rightarrow> string \<Rightarrow> int) \<Rightarrow> ServiceColumn \<Rightarrow> ServiceColumn \<Rightarrow> int" where
  "column_compare lc a b =
     (if co_challengeID a \<noteq> co_challengeID b then co_challengeID a - co_challengeID b
      else lc (co_service a) (co_service b))"

definition collectServiceColumns ::
    "(string \<Rightarrow> string \<Rightarrow> int) \<Rightarrow> ScoreboardRow list \<Rightarrow> ServiceColumn list" where
  "collectServiceColumns lc scoreRows =
     sort_cmp (\<lambda>a b. column_compare lc a b \<le> 0)
       (snd (fold (\<lambda>row. add_columns (services_of row)) scoreRows ({}, [])))"

text \<open>A \<open>Map\<close> built from pairs: a later pair with the same key replaces an earlier one.\<close>

definition serviceLookup :: "ScoreboardRow \<Rightarrow> string \<Rightarrow> ScoreboardServiceRow option" where
  "serviceLookup row = map_of (rev (map (\<lambda>s. (serviceColumnKey s, s)) (services_of row)))"

text \<open>\<open>Intl.NumberFormat("en-US")\<close> with exactly two fraction digits: half away from zero, groups
  of three, and a minus sign on every negative number, even one that rounds to zero.\<close>

fun group_thousands :: "nat \<Rightarrow> string \<Rightarrow> string" where
  "group_thousands n [] = []"
| "group_thousands n (c # rest) =
     group_thousands (Suc n) rest @ (if n \<noteq> 0 \<and> n mod 3 = 0 then [c, CHR '',''] else [c])"

definition compactNumber :: "rat \<Rightarrow> string" where
  "compactNumber v =
     (let cents = nat \<lfloor>\<bar>v\<bar> * 100 + 1 / 2\<rfloor>
      in (if v < 0 then ''-'' else []) @ group_thousands 0 (rev (digits_of (cents div 100))) @ ''.'' @
         digits_of (cents mod 100 div 10) @ digits_of (cents mod 10))"

definition scoreTone :: "rat \<Rightarrow> string \<Rightarrow> string" where
  "scoreTone v fallback =
     (if v > 0 then ''text-positive'' else if v < 0 then ''text-negative'' else fallback)"

record metric_line =
  ml_aria :: string
  ml_shortLabel :: string
  ml_tone :: string
  ml_text :: string

definition MetricLine :: "string \<Rightarrow> string \<Rightarrow> string \<Rightarrow> rat \<Rightarrow> metric_line" where
  "MetricLine label shortLabel tone v =
     \<lparr>ml_aria = label @ '': '' @ compactNumber v, ml_shortLabel = shortLabel, ml_tone = tone,
      ml_text = compactNumber v\<rparr>"

datatype cell_tone = PositiveCell | NegativeCell | NeutralCell

datatype service_cell =
    EmptyCell
  | FilledCell (fc_aria: string) (fc_cell: cell_tone) (fc_lines: "metric_line list")
      (fc_totalTone: string) (fc_total: string)

definition ServiceCell :: "ScoreboardServiceRow option \<Rightarrow> service_cell" where
  "ServiceCell v = (case v of
     None \<Rightarrow> EmptyCell
   | Some s \<Rightarrow> FilledCell
       (''Service '' @ sv_service s @ '': total '' @ compactNumber (sv_total s) @ '', attack '' @
        compactNumber (sv_attack s) @ '', defense '' @ compactNumber (sv_defense s) @ '', SLA '' @
        compactNumber (sv_sla s) @ ''%'')
       (if sv_total s > 0 then PositiveCell else if sv_total s < 0 then NegativeCell else NeutralCell)
       [MetricLine ''Attack'' ''A'' (scoreTone (sv_attack s) ''text-foreground'') (sv_attack s),
        MetricLine ''Defense'' ''D'' (scoreTone (sv_defense s) ''text-foreground'') (sv_defense s),
        MetricLine ''SLA'' ''SLA'' (scoreTone (sv_sla s) ''text-muted-foreground'') (sv_sla s)]
       (scoreTone (sv_total s) ''text-foreground'')
       ((if sv_total s > 0 then ''+'' else []) @ compactNumber (sv_total s)))"

section \<open>Ranks\<close>

datatype rank_badge = Medal (medalClass: string) (medalTitle: string) int | PlainRank string

definition RankBadge :: "int \<Rightarrow> rank_badge" where
  "RankBadge rank =
     (if rank = 1 then Medal ''medal-gold'' ''1st Place (Gold)'' 1
      else if rank = 2 then Medal ''medal-silver'' ''2nd Place (Silver)'' 2
      else if rank = 3 then Medal ''medal-bronze'' ''3rd Place (Bronze)'' 3
      else PlainRank (''#'' @ int_to_string rank))"

text \<open>\<open>parseInt\<close> gives an integral number or \<open>NaN\<close> (an infinity for more than 308 digits).\<close>

definition num_above_0 :: "js_num \<Rightarrow> bool" where
  "num_above_0 x = (case x of Finite q \<Rightarrow> 0 < q | PosInfinity \<Rightarrow> True | _ \<Rightarrow> False)"

definition num_below_0 :: "js_num \<Rightarrow> bool" where
  "num_below_0 x = (case x of Finite q \<Rightarrow> q < 0 | NegInfinity \<Rightarrow> True | _ \<Rightarrow> False)"

definition math_abs :: "js_num \<Rightarrow> js_num" where
  "math_abs x = (case x of Finite q \<Rightarrow> Finite \<bar>q\<bar> | NegInfinity \<Rightarrow> PosInfinity | _ \<Rightarrow> x)"

definition describeDelta :: "string \<Rightarrow> string" where
  "describeDelta delta =
     (let deltaValue = parseInt delta in
      if delta = ''new'' then ''new entry''
      else if deltaValue = NaN \<or> deltaValue = Finite 0 then ''unchanged''
      else if num_above_0 deltaValue then ''up '' @ num_to_string deltaValue
      else ''down '' @ num_to_string (math_abs deltaValue))"

datatype delta_mark = UpMark string | DownMark string | StaticMark | NewMark

record rank_view =
  rv_aria :: string
  rv_badge :: rank_badge
  rv_marks :: "delta_mark list"

definition ScoreboardRank :: "int \<Rightarrow> string \<Rightarrow> bool \<Rightarrow> rank_view" where
  "ScoreboardRank rank delta isCurrentTeam =
     (let deltaValue = parseInt delta;
          isNew = (delta = ''new'');
          isUp = (deltaValue \<noteq> NaN \<and> num_above_0 deltaValue);
          isDown = (deltaValue \<noteq> NaN \<and> num_below_0 deltaValue);
          isStatic = (deltaValue \<noteq> NaN \<and> deltaValue = Finite 0)
      in \<lparr>rv_aria = ''Rank '' @ int_to_string rank @ '', '' @ describeDelta delta @
            (if isCurrentTeam then '', current team'' else []),
          rv_badge = RankBadge rank,
          rv_marks = (if isUp then [UpMark (num_to_string (math_abs deltaValue))] else []) @
            (if isDown then [DownMark (num_to_string (math_abs deltaValue))] else []) @
            (if isStatic then [StaticMark] else []) @ (if isNew then [NewMark] else [])\<rparr>)"

section \<open>Sorting\<close>

datatype sort_field = ByRank | ByTeam | ByAttack | ByDefense | BySla | ByTotal

datatype sort_direction = Asc | Desc

definition row_compare ::
    "(string \<Rightarrow> string \<Rightarrow> int) \<Rightarrow> sort_field \<Rightarrow> sort_direction \<Rightarrow> ScoreboardRow \<Rightarrow> ScoreboardRow \<Rightarrow> rat" where
  "row_compare lc sortField sortDirection left right =
     (let direction = (if sortDirection = Asc then 1 else - 1) in
      case sortField of
        ByTeam \<Rightarrow> of_int (lc (rw_team left) (rw_team right)) * direction
      | ByAttack \<Rightarrow> (rw_attack left - rw_attack right) * direction
      | ByDefense \<Rightarrow> (rw_defense left - rw_defense right) * direction
      | BySla \<Rightarrow> (rw_sla left - rw_sla right) * direction
      | ByTotal \<Rightarrow> (rw_total left - rw_total right) * direction
      | ByRank \<Rightarrow> of_int (rw_rank left - rw_rank right) * direction)"

definition sortedRows ::
    "(string \<Rightarrow> string \<Rightarrow> int) \<Rightarrow> sort_field \<Rightarrow> sort_direction \<Rightarrow> ScoreboardRow list \<Rightarrow> ScoreboardRow list" where
  "sortedRows lc sortField sortDirection scoreRows =
     sort_cmp (\<lambda>left right. row_compare lc sortField sortDirection left right \<le> 0) scoreRows"

record table_state =
  sortField :: sort_field
  sortDirection :: sort_direction
  expandedTeams :: "string \<Rightarrow> bool"

definition initial_table :: table_state where
  "initial_table = \<lparr>sortField = ByRank, sortDirection = Asc, expandedTeams = (\<lambda>_. False)\<rparr>"

definition handleSort :: "sort_field \<Rightarrow> table_state \<Rightarrow> table_state" where
  "handleSort field st =
     (if sortField st = field
      then st\<lparr>sortDirection := (if sortDirection st = Asc then Desc else Asc)\<rparr>
      else st\<lparr>sortField := field, sortDirection := Asc\<rparr>)"

definition onSortFieldChange :: "sort_field \<Rightarrow> table_state \<Rightarrow> table_state" where
  "onSortFieldChange field st = st\<lparr>sortField := field\<rparr>"

definition onSortDirectionChange :: "sort_direction \<Rightarrow> table_state \<Rightarrow> table_state" where
  "onSortDirectionChange dir st = st\<lparr>sortDirection := dir\<rparr>"

definition toggleExpand :: "string \<Rightarrow> table_state \<Rightarrow> table_state" where
  "toggleExpand teamName st =
     st\<lparr>expandedTeams := (expandedTeams st)(teamName := \<not> expandedTeams st teamName)\<rparr>"

datatype header_arrow = ArrowUp | ArrowDown | FaintArrow

definition renderSortHeader :: "table_state \<Rightarrow> sort_field \<Rightarrow> string \<Rightarrow> string \<times> header_arrow" where
  "renderSortHeader st field label =
     (label, if sortField st = field
             then (if sortDirection st = Asc then ArrowUp else ArrowDown) else FaintArrow)"

section \<open>The rendered board\<close>

record row_view =
  vw_team :: string
  vw_isCurrentTeam :: bool
  vw_rank :: rank_view
  vw_cells :: "service_cell list"
  vw_totals :: "string list"

definition isCurrentTeam :: "string option \<Rightarrow> ScoreboardRow \<Rightarrow> bool" where
  "isCurrentTeam currentTeamName score =
     (case currentTeamName of None \<Rightarrow> False | Some n \<Rightarrow> rw_team score = n)"

definition render_row :: "string option \<Rightarrow> ServiceColumn list \<Rightarrow> ScoreboardRow \<Rightarrow> row_view" where
  "render_row currentTeamName serviceColumns score =
     (let current = isCurrentTeam currentTeamName score; services = serviceLookup score
      in \<lparr>vw_team = rw_team score, vw_isCurrentTeam = current,
          vw_rank = ScoreboardRank (rw_rank score) (rw_delta score) current,
          vw_cells = map (\<lambda>service. ServiceCell (services (co_key service))) serviceColumns,
          vw_totals = map compactNumber [rw_attack score, rw_defense score, rw_sla score, rw_total score]\<rparr>)"

definition ScoreSummary :: "string \<Rightarrow> string \<Rightarrow> rat \<Rightarrow> string \<times> string \<times> string" where
  "ScoreSummary label tone v = (label, tone, compactNumber v)"

record card_view =
  cd_aria :: string
  cd_badge :: rank_badge
  cd_team :: string
  cd_isCurrentTeam :: bool
  cd_total :: string
  cd_summary :: "(string \<times> string \<times> string) list"
  cd_services :: "(string \<times> (string \<times> string \<times> string) list) list"
  cd_button :: "string option"

definition summary3 :: "rat \<Rightarrow> rat \<Rightarrow> rat \<Rightarrow> (string \<times> string \<times> string) list" where
  "summary3 a d s =
     [ScoreSummary ''A'' (scoreTone a ''text-foreground'') a,
      ScoreSummary ''D'' (scoreTone d ''text-foreground'') d,
      ScoreSummary ''SLA'' (scoreTone s ''text-muted-foreground'') s]"

definition visibleServices :: "bool \<Rightarrow> ScoreboardServiceRow list \<Rightarrow> ScoreboardServiceRow list" where
  "visibleServices isExpanded allServices = (if isExpanded then allServices else take 3 allServices)"

definition render_card :: "string option \<Rightarrow> table_state \<Rightarrow> ScoreboardRow \<Rightarrow> card_view" where
  "render_card currentTeamName st score =
     (let isExpanded = expandedTeams st (rw_team score);
          allServices = services_of score
      in \<lparr>cd_aria = ''Rank '' @ int_to_string (rw_rank score) @ '', '' @ rw_team score @ '', total '' @
            compactNumber (rw_total score),
          cd_badge = RankBadge (rw_rank score), cd_team = rw_team score,
          cd_isCurrentTeam = isCurrentTeam currentTeamName score,
          cd_total = compactNumber (rw_total score),
          cd_summary = summary3 (rw_attack score) (rw_defense score) (rw_sla score),
          cd_services = map (\<lambda>s. (sv_service s, summary3 (sv_attack s) (sv_defense s) (sv_sla s)))
            (visibleServices isExpanded allServices),
          cd_button = (if length allServices > 3
            then Some (if isExpanded then ''Collapse services view''
              else ''Show all services (+'' @ int_to_string (int (length allServices) - 3) @ '' more)'')
            else None)\<rparr>)"

datatype mobile_view = MobileEmpty string | MobileCards "card_view list"

definition MobileScoreboardCards ::
    "string option \<Rightarrow> string \<Rightarrow> table_state \<Rightarrow> ScoreboardRow list \<Rightarrow> mobile_view" where
  "MobileScoreboardCards currentTeamName emptyMessage st scoreRows =
     (if scoreRows = [] then MobileEmpty emptyMessage
      else MobileCards (map (render_card currentTeamName st) scoreRows))"

record board_view =
  bd_mobile :: mobile_view
  bd_horizontalScroll :: bool
  bd_widthRem :: "rat option"
  bd_headers :: "(string \<times> header_arrow) list"
  bd_columns :: "ServiceColumn list"
  bd_rows :: "row_view list"

datatype scoreboard = EmptyBoard string | Board board_view

definition ScoreboardTable ::
    "(string \<Rightarrow> string \<Rightarrow> int) \<Rightarrow> ScoreboardRow list \<Rightarrow> string \<Rightarrow> string option \<Rightarrow> table_state \<Rightarrow> scoreboard" where
  "ScoreboardTable lc scoreRows emptyMessage currentTeamName st =
     (let sorted = sortedRows lc (sortField st) (sortDirection st) scoreRows;
          serviceColumns = collectServiceColumns lc scoreRows;
          isEmpty = (length sorted = 0);
          useHorizontalScroll = (\<not> isEmpty \<and> length serviceColumns \<ge> 3);
          contentWidthRem = 11 / 2 + 11 + of_nat (length serviceColumns) * (17 / 2) + 4 * (11 / 2)
      in if isEmpty then EmptyBoard emptyMessage
         else Board
           \<lparr>bd_mobile = MobileScoreboardCards currentTeamName emptyMessage st sorted,
            bd_horizontalScroll = useHorizontalScroll,
            bd_widthRem = (if useHorizontalScroll then Some contentWidthRem else None),
            bd_headers = [renderSortHeader st ByRank ''Rank'', renderSortHeader st ByTeam ''Team'',
              renderSortHeader st ByAttack ''Attack'', renderSortHeader st ByDefense ''Defense'',
              renderSortHeader st BySla ''SLA'', renderSortHeader st ByTotal ''Total''],
            bd_columns = serviceColumns,
            bd_rows = map (render_row currentTeamName serviceColumns) sorted\<rparr>)"

section \<open>Comparators\<close>

text \<open>
  A descending sort negates the comparison, so it relies on more of \<open>localeCompare\<close> than a total
  preorder: the comparison of two names in the other order has the opposite sign.
\<close>

locale signed_collation = collation +
  assumes opposite: "0 \<le> lc a b \<longleftrightarrow> lc b a \<le> 0"

lemma ordinal_compare_opposite: "0 \<le> ordinal_compare a b \<longleftrightarrow> ordinal_compare b a \<le> 0"
  by (induction a b rule: ordinal_compare.induct) auto

interpretation ordinal_signed: signed_collation ordinal_compare
  by unfold_locales (rule ordinal_compare_opposite)

lemma row_compare_Desc: "row_compare lc f Desc l r = - row_compare lc f Asc l r"
  by (cases f) (simp_all add: row_compare_def)

context signed_collation
begin

lemma opposite_rat: "(0::rat) \<le> of_int (lc a b) \<longleftrightarrow> lc b a \<le> 0"
  using opposite by simp

lemma row_compare_total: "row_compare lc f d l r \<le> 0 \<or> row_compare lc f d r l \<le> 0"
  using names.le_total [of "rw_team l" "rw_team r"] opposite [of "rw_team l" "rw_team r"] opposite [of "rw_team r" "rw_team l"]
  by (cases f; cases d) (auto simp: row_compare_def)

lemma row_compare_trans:
  "row_compare lc f d x y \<le> 0 \<Longrightarrow> row_compare lc f d y z \<le> 0 \<Longrightarrow> row_compare lc f d x z \<le> 0"
  using names.le_trans [of "rw_team x" "rw_team y" "rw_team z"] names.le_trans [of "rw_team z" "rw_team y" "rw_team x"]
    opposite [of "rw_team x" "rw_team y"] opposite [of "rw_team y" "rw_team z"] opposite [of "rw_team x" "rw_team z"]
  by (cases f; cases d) (auto simp: row_compare_def)

lemma row_compare_opposite: "0 \<le> row_compare lc f d l r \<longleftrightarrow> row_compare lc f d r l \<le> 0"
  using opposite [of "rw_team l" "rw_team r"] opposite [of "rw_team r" "rw_team l"]
  by (cases f; cases d) (simp_all add: row_compare_def)

end

sublocale signed_collation \<subseteq> rows: total_preorder "\<lambda>l r. row_compare lc f d l r \<le> 0" for f d
  by unfold_locales (rule row_compare_total, rule row_compare_trans)

context collation
begin

lemma column_compare_total: "column_compare lc a b \<le> 0 \<or> column_compare lc b a \<le> 0"
  using names.le_total by (auto simp: column_compare_def)

lemma column_compare_trans:
  "column_compare lc a b \<le> 0 \<Longrightarrow> column_compare lc b c \<le> 0 \<Longrightarrow> column_compare lc a c \<le> 0"
  using names.le_trans by (auto simp: column_compare_def split: if_splits)

end

sublocale collation \<subseteq> columns: total_preorder "\<lambda>a b. column_compare lc a b \<le> 0"
  by unfold_locales (rule column_compare_total, rule column_compare_trans)

context collation
begin

lemma columns_sorted:
  "sorted_wrt (\<lambda>a b. column_compare lc a b \<le> 0) (collectServiceColumns lc rs)"
  unfolding collectServiceColumns_def by (rule columns.sorted_sort_cmp)

end

context signed_collation
begin

lemma sortedRows_sorted: "sorted_wrt (\<lambda>l r. row_compare lc f d l r \<le> 0) (sortedRows lc f d rs)"
  unfolding sortedRows_def by (rule rows.sorted_sort_cmp)

lemma sortedRows_stable:
  "filter (\<lambda>r. row_compare lc f d a r = 0) (sortedRows lc f d rs)
     = filter (\<lambda>r. row_compare lc f d a r = 0) rs"
proof -
  have "(\<lambda>r. row_compare lc f d a r = 0) = (\<lambda>r. row_compare lc f d a r \<le> 0 \<and> row_compare lc f d r a \<le> 0)"
  proof (rule ext)
    fix r
    show "(row_compare lc f d a r = 0) = (row_compare lc f d a r \<le> 0 \<and> row_compare lc f d r a \<le> 0)"
      using row_compare_opposite [of f d a r] by linarith
  qed
  then show ?thesis
    unfolding sortedRows_def using rows.sort_cmp_stable [of f d a rs] by simp
qed

end

section \<open>Columns\<close>

lemma no_colon_in_int: "CHR '':'' \<notin> set (int_to_string n)"
proof -
  have "CHR '':'' \<notin> set (digits_of m)" for m
    using digits_of_all_digits [of m] by (auto simp: list_all_iff is_digit_def)
  then show ?thesis by (simp add: int_to_string_def)
qed

lemma split_at_colon:
  assumes "c \<notin> set a" and "c \<notin> set b" and "a @ c # x = b @ c # y"
  shows "a = b \<and> x = y"
  using assms
proof (induction a arbitrary: b)
  case Nil
  then show ?case by (cases b) auto
next
  case (Cons d a)
  then show ?case by (cases b) auto
qed

lemma serviceColumnKey_inject:
  "serviceColumnKey s = serviceColumnKey t \<longleftrightarrow>
     sv_challenge_id s = sv_challenge_id t \<and> sv_service s = sv_service t"
  using split_at_colon [OF no_colon_in_int no_colon_in_int]
  by (auto simp: serviceColumnKey_def)

definition column_of :: "ScoreboardServiceRow \<Rightarrow> ServiceColumn" where
  "column_of s = \<lparr>co_key = serviceColumnKey s, co_challengeID = sv_challenge_id s,
                  co_service = sv_service s\<rparr>"

lemma add_columns_facts:
  assumes "distinct (map co_key columns)" and "set (map co_key columns) = seen"
    and "add_columns services (seen, columns) = (seen', columns')"
  shows "distinct (map co_key columns') \<and> set (map co_key columns') = seen' \<and>
     seen' = seen \<union> serviceColumnKey ` set services \<and>
     set columns' \<subseteq> set columns \<union> column_of ` set services"
  using assms
proof (induction services arbitrary: seen columns)
  case (Cons s rest)
  show ?case
  proof (cases "serviceColumnKey s \<in> seen")
    case True
    with Cons.IH [OF Cons.prems(1,2)] Cons.prems show ?thesis by auto
  next
    case False
    let ?columns = "columns @ [column_of s]"
    have eq: "add_columns rest (insert (serviceColumnKey s) seen, ?columns) = (seen', columns')"
      using False Cons.prems(3) by (simp add: column_of_def Let_def)
    have "distinct (map co_key ?columns)" "set (map co_key ?columns) = insert (serviceColumnKey s) seen"
      using False Cons.prems(1,2) by (auto simp: column_of_def)
    from Cons.IH [OF this eq] show ?thesis by auto
  qed
qed auto

lemma collect_fold:
  assumes "distinct (map co_key columns)" and "set (map co_key columns) = seen"
    and "fold (\<lambda>row. add_columns (services_of row)) rs (seen, columns) = (seen', columns')"
  shows "distinct (map co_key columns') \<and> set (map co_key columns') = seen' \<and>
     seen' = seen \<union> serviceColumnKey ` (\<Union>r \<in> set rs. set (services_of r)) \<and>
     set columns' \<subseteq> set columns \<union> column_of ` (\<Union>r \<in> set rs. set (services_of r))"
  using assms
proof (induction rs arbitrary: seen columns)
  case (Cons r rs)
  obtain seen1 columns1 where step: "add_columns (services_of r) (seen, columns) = (seen1, columns1)"
    by (cases "add_columns (services_of r) (seen, columns)")
  note one = add_columns_facts [OF Cons.prems(1,2) step]
  from Cons.IH [of columns1 seen1] one Cons.prems(3) step
  have "distinct (map co_key columns') \<and> set (map co_key columns') = seen' \<and>
     seen' = seen1 \<union> serviceColumnKey ` (\<Union>r \<in> set rs. set (services_of r)) \<and>
     set columns' \<subseteq> set columns1 \<union> column_of ` (\<Union>r \<in> set rs. set (services_of r))"
    by simp
  with one show ?case by (simp add: image_Un) blast
qed simp

lemma collectServiceColumns_facts:
  "distinct (map co_key (collectServiceColumns lc rs))"
  "set (collectServiceColumns lc rs) = column_of ` (\<Union>r \<in> set rs. set (services_of r))"
proof -
  obtain seen columns where
    f: "fold (\<lambda>row. add_columns (services_of row)) rs ({}, []) = (seen, columns)"
    by (cases "fold (\<lambda>row. add_columns (services_of row)) rs ({}, [])")
  from collect_fold [OF _ _ f]
  have d: "distinct (map co_key columns)"
    and k: "set (map co_key columns) = serviceColumnKey ` (\<Union>r \<in> set rs. set (services_of r))"
    and sub: "set columns \<subseteq> column_of ` (\<Union>r \<in> set rs. set (services_of r))"
    by auto
  have "mset (map co_key (collectServiceColumns lc rs)) = mset (map co_key columns)"
    by (simp add: collectServiceColumns_def f)
  then show "distinct (map co_key (collectServiceColumns lc rs))"
    using d mset_eq_imp_distinct_iff by blast
  have "column_of s \<in> set columns" if "s \<in> (\<Union>r \<in> set rs. set (services_of r))" for s
  proof -
    from that k have "serviceColumnKey s \<in> set (map co_key columns)" by blast
    then obtain c where c: "c \<in> set columns" "co_key c = serviceColumnKey s" by auto
    with sub obtain t where t: "c = column_of t" by blast
    with c have "serviceColumnKey t = serviceColumnKey s" by (simp add: column_of_def)
    then have "column_of t = column_of s" by (simp add: column_of_def serviceColumnKey_inject)
    with c t show ?thesis by simp
  qed
  with sub show "set (collectServiceColumns lc rs) = column_of ` (\<Union>r \<in> set rs. set (services_of r))"
    by (auto simp: collectServiceColumns_def f)
qed

section \<open>Cells, ranks and numbers\<close>

lemma serviceLookup_in:
  assumes "distinct (map serviceColumnKey (services_of row))" and "s \<in> set (services_of row)"
  shows "serviceLookup row (serviceColumnKey s) = Some s"
  unfolding serviceLookup_def using assms
  by (intro map_of_is_SomeI) (auto simp: o_def rev_map [symmetric] simp flip: rev_map)

lemma dom_serviceLookup: "serviceLookup row k \<noteq> None \<longleftrightarrow> k \<in> serviceColumnKey ` set (services_of row)"
  unfolding serviceLookup_def by (auto simp: map_of_eq_None_iff image_image)

lemma row_cells:
  assumes "row \<in> set rs" and d: "distinct (map serviceColumnKey (services_of row))"
  shows "mset (filter (\<lambda>c. c \<noteq> EmptyCell) (vw_cells (render_row cur (collectServiceColumns lc rs) row)))
     = image_mset (\<lambda>s. ServiceCell (Some s)) (mset (services_of row))"
proof -
  let ?keys = "map co_key (collectServiceColumns lc rs)"
  let ?K = "filter (\<lambda>k. serviceLookup row k \<noteq> None) ?keys"
  have "serviceColumnKey ` set (services_of row) \<subseteq> set ?keys"
    using assms(1) by (force simp: collectServiceColumns_facts(2) column_of_def)
  then have "set ?K = set (map serviceColumnKey (services_of row))"
    using dom_serviceLookup by auto
  moreover have "distinct ?K" using collectServiceColumns_facts(1) by (rule distinct_filter)
  ultimately have K: "mset ?K = mset (map serviceColumnKey (services_of row))"
    using d set_eq_iff_mset_eq_distinct by blast
  have empty: "ServiceCell v \<noteq> EmptyCell \<longleftrightarrow> v \<noteq> None" for v
    by (cases v) (simp_all add: ServiceCell_def)
  have "filter (\<lambda>c. c \<noteq> EmptyCell) (vw_cells (render_row cur (collectServiceColumns lc rs) row))
      = map (\<lambda>k. ServiceCell (serviceLookup row k)) ?K"
    by (simp add: render_row_def Let_def filter_map o_def empty)
  then have "mset (filter (\<lambda>c. c \<noteq> EmptyCell) (vw_cells (render_row cur (collectServiceColumns lc rs) row)))
      = image_mset (\<lambda>k. ServiceCell (serviceLookup row k)) (mset (map serviceColumnKey (services_of row)))"
    by (simp only: mset_map K)
  also have "\<dots> = image_mset (\<lambda>s. ServiceCell (serviceLookup row (serviceColumnKey s))) (mset (services_of row))"
    by (simp add: image_mset.compositionality o_def)
  also have "\<dots> = image_mset (\<lambda>s. ServiceCell (Some s)) (mset (services_of row))"
    using serviceLookup_in [OF d] by (intro image_mset_cong) simp
  finally show ?thesis .
qed

lemma parseInt_new: "parseInt ''new'' = NaN"
  by (simp add: parseInt_def trim_start_def is_ws_def read_sign_def is_digit_def)

text \<open>The mark beside a rank and its spoken description agree, and there is at most one mark.\<close>

lemma rank_marks_agree:
  "length (rv_marks (ScoreboardRank r d c)) \<le> 1"
  "rv_marks (ScoreboardRank r d c) = [UpMark t] \<Longrightarrow> describeDelta d = ''up '' @ t"
  "rv_marks (ScoreboardRank r d c) = [DownMark t] \<Longrightarrow> describeDelta d = ''down '' @ t"
  "rv_marks (ScoreboardRank r d c) = [NewMark] \<Longrightarrow> describeDelta d = ''new entry''"
  "rv_marks (ScoreboardRank r d c) = [StaticMark] \<Longrightarrow> describeDelta d = ''unchanged''"
  using parseInt_new
  by (cases "parseInt d";
      auto simp: ScoreboardRank_def describeDelta_def Let_def num_above_0_def num_below_0_def
        math_abs_def split: if_splits)+

lemma filter_group_thousands:
  "CHR '','' \<notin> set s \<Longrightarrow> filter (\<lambda>c. c \<noteq> CHR '','') (group_thousands n s) = rev s"
  by (induction n s rule: group_thousands.induct) auto

lemma digits_of_digit: "d < 10 \<Longrightarrow> digits_of d = [char_of (48 + d)]"
  by (simp add: digits_of.simps)

lemma digits_value_append:
  "digits_value (a @ [c, d]) = 100 * digits_value a + 10 * digit_val c + digit_val d"
  using digits_value_snoc [of "a @ [c]" d] digits_value_snoc [of a c] by simp

lemma no_comma_in_digits: "CHR '','' \<notin> set (digits_of n)" "CHR ''.'' \<notin> set (digits_of n)"
  using digits_of_all_digits [of n] by (auto simp: list_all_iff is_digit_def)

lemma read_two_decimals:
  assumes "a < 10" and "b < 10"
  shows "read_decimal (digits_of n @ ''.'' @ digits_of a @ digits_of b)
     = Some (of_nat (100 * n + 10 * a + b) / 100)"
proof -
  have all: "list_all is_digit (digits_of n)" by (rule digits_of_all_digits)
  have dot: "\<not> is_digit (CHR ''.'')" by (simp add: is_digit_def)
  have tw: "takeWhile is_digit (digits_of n @ CHR ''.'' # r) = digits_of n"
    "dropWhile is_digit (digits_of n @ CHR ''.'' # r) = CHR ''.'' # r" for r
    using all dot by (simp_all add: takeWhile_append dropWhile_append list_all_iff)
  have ab: "digits_of a @ digits_of b = [char_of (48 + a), char_of (48 + b)]"
    using assms by (simp add: digits_of_digit)
  have v: "digits_value (digits_of n @ [char_of (48 + a), char_of (48 + b)]) = 100 * n + 10 * a + b"
    using assms by (simp add: digits_value_append)
  have "(10::rat) powi (0 - int 2) = 1 / 100" by (simp add: power_int_def power2_eq_square)
  then show ?thesis
    using assms by (simp add: read_decimal_def Let_def tw ab v read_exponent_def)
qed

text \<open>The number shown is within half a cent of the score.\<close>

lemma compactNumber_value:
  assumes "0 \<le> v"
  shows "\<exists>q. read_decimal (filter (\<lambda>c. c \<noteq> CHR '','') (compactNumber v)) = Some q \<and> \<bar>q - v\<bar> \<le> 1 / 200"
proof -
  define cents where "cents = nat \<lfloor>\<bar>v\<bar> * 100 + 1 / 2\<rfloor>"
  have shown: "filter (\<lambda>c. c \<noteq> CHR '','') (compactNumber v)
      = digits_of (cents div 100) @ ''.'' @ digits_of (cents mod 100 div 10) @ digits_of (cents mod 10)"
  proof -
    have plain: "filter (\<lambda>c. c \<noteq> CHR '','') (digits_of n) = digits_of n" for n
      by (rule filter_True) (use no_comma_in_digits(1) [of n] in blast)
    have grouped: "filter (\<lambda>c. c \<noteq> CHR '','') (group_thousands 0 (rev (digits_of n))) = digits_of n" for n
      using filter_group_thousands [of "rev (digits_of n)" 0] no_comma_in_digits(1) [of n] by simp
    have dot: "filter (\<lambda>c. c \<noteq> CHR '','') ''.'' = ''.''" by simp
    have "compactNumber v = group_thousands 0 (rev (digits_of (cents div 100))) @ ''.'' @
        digits_of (cents mod 100 div 10) @ digits_of (cents mod 10)"
      using assms by (simp add: compactNumber_def cents_def Let_def)
    then show ?thesis by (simp only: filter_append plain grouped dot)
  qed
  have sum: "100 * (cents div 100) + 10 * (cents mod 100 div 10) + cents mod 10 = cents"
  proof -
    have "100 * (cents div 100) + cents mod 100 = cents" by (rule mult_div_mod_eq)
    moreover have "10 * (cents mod 100 div 10) + cents mod 10 = cents mod 100"
      using mult_div_mod_eq [of 10 "cents mod 100"] mod_mod_cancel [of 10 100 cents] by simp
    ultimately show ?thesis by linarith
  qed
  have "read_decimal (filter (\<lambda>c. c \<noteq> CHR '','') (compactNumber v)) = Some (of_nat cents / 100)"
    unfolding shown using read_two_decimals [of "cents mod 100 div 10" "cents mod 10" "cents div 100"]
    unfolding sum by simp
  moreover have "\<bar>of_nat cents / 100 - v\<bar> \<le> 1 / 200"
  proof -
    have "(of_nat cents :: rat) = of_int \<lfloor>v * 100 + 1 / 2\<rfloor>"
      using assms by (simp add: cents_def of_nat_nat)
    moreover have "of_int \<lfloor>v * 100 + 1 / 2\<rfloor> \<le> v * 100 + 1 / 2" "v * 100 + 1 / 2 < of_int \<lfloor>v * 100 + 1 / 2\<rfloor> + 1"
      by linarith+
    ultimately show ?thesis by linarith
  qed
  ultimately show ?thesis by blast
qed

section \<open>The properties\<close>

text \<open>
  The service grid of the scoreboard. The columns are the distinct services of all rows, by
  challenge number and then by name; and in the row of a team whose services are distinct, the
  cells that are filled are exactly the team's services, each once.
\<close>

lemma scoreboard_shows_every_service:
  assumes "collation lc" and "row \<in> set rs"
    and "distinct (map serviceColumnKey (services_of row))"
  shows "distinct (map co_key (collectServiceColumns lc rs)) \<and>
     (\<lambda>c. (co_challengeID c, co_service c)) ` set (collectServiceColumns lc rs)
       = (\<Union>r \<in> set rs. (\<lambda>s. (sv_challenge_id s, sv_service s)) ` set (services_of r)) \<and>
     sorted_wrt (\<lambda>a b. column_compare lc a b \<le> 0) (collectServiceColumns lc rs) \<and>
     mset (filter (\<lambda>c. c \<noteq> EmptyCell) (vw_cells (render_row cur (collectServiceColumns lc rs) row)))
       = image_mset (\<lambda>s. ServiceCell (Some s)) (mset (services_of row))"
proof -
  have "sorted_wrt (\<lambda>a b. column_compare lc a b \<le> 0) (collectServiceColumns lc rs)"
    using collation.columns_sorted [OF assms(1)] by simp
  moreover have "(\<lambda>c. (co_challengeID c, co_service c)) ` set (collectServiceColumns lc rs)
      = (\<Union>r \<in> set rs. (\<lambda>s. (sv_challenge_id s, sv_service s)) ` set (services_of r))"
    by (auto simp: collectServiceColumns_facts(2) column_of_def image_UN image_image)
  ultimately show ?thesis
    using collectServiceColumns_facts(1) row_cells [OF assms(2,3)] by (intro conjI) assumption+
qed

definition sample_service :: "int \<Rightarrow> string \<Rightarrow> rat \<Rightarrow> ScoreboardServiceRow" where
  "sample_service i n t = \<lparr>sv_challenge_id = i, sv_service = n, sv_attack = t, sv_defense = 0,
     sv_sla = 100, sv_total = t\<rparr>"

definition sample_score :: "int \<Rightarrow> string \<Rightarrow> ScoreboardServiceRow list \<Rightarrow> ScoreboardRow" where
  "sample_score r n ss = \<lparr>rw_rank = r, rw_delta = ''0'', rw_team = n, rw_attack = 1, rw_defense = 2,
     rw_sla = 100, rw_total = 3, rw_services = Some ss\<rparr>"

definition sample_board :: "ScoreboardRow list" where
  "sample_board = [sample_score 1 ''red'' [sample_service 2 ''web'' 5, sample_service 1 ''pwn'' 7],
     sample_score 2 ''blue'' [sample_service 1 ''pwn'' 1]]"

lemma services_sample_score [simp]: "services_of (sample_score r n ss) = ss"
  by (simp add: sample_score_def services_of_def)

lemma scoreboard_shows_every_service_witness:
  "mset (filter (\<lambda>c. c \<noteq> EmptyCell)
       (vw_cells (render_row None (collectServiceColumns ordinal_compare sample_board)
          (sample_score 2 ''blue'' [sample_service 1 ''pwn'' 1]))))
     = {#ServiceCell (Some (sample_service 1 ''pwn'' 1))#}"
  using scoreboard_shows_every_service [OF ordinal.collation_axioms,
      of "sample_score 2 ''blue'' [sample_service 1 ''pwn'' 1]" sample_board]
  by (simp add: sample_board_def)

text \<open>
  Sorting the scoreboard. Whatever column and direction is chosen, the table and the cards show
  every row exactly once, in the chosen order, and rows that the chosen column does not separate
  stay in the order of the ranking; an empty scoreboard shows the message instead.
\<close>

lemma scoreboard_sorted_and_stable:
  assumes "signed_collation lc" and "rs \<noteq> []"
  shows "\<exists>b sorted. ScoreboardTable lc rs msg cur st = Board b \<and> mset sorted = mset rs \<and>
     sorted_wrt (\<lambda>l r. row_compare lc (sortField st) (sortDirection st) l r \<le> 0) sorted \<and>
     (\<forall>a. filter (\<lambda>r. row_compare lc (sortField st) (sortDirection st) a r = 0) sorted
        = filter (\<lambda>r. row_compare lc (sortField st) (sortDirection st) a r = 0) rs) \<and>
     bd_rows b = map (render_row cur (collectServiceColumns lc rs)) sorted \<and>
     bd_mobile b = MobileCards (map (render_card cur st) sorted)"
proof -
  let ?s = "sortedRows lc (sortField st) (sortDirection st) rs"
  have m: "mset ?s = mset rs" by (simp add: sortedRows_def)
  with assms(2) have ne: "?s \<noteq> []" by auto
  then have "\<exists>b. ScoreboardTable lc rs msg cur st = Board b \<and>
      bd_rows b = map (render_row cur (collectServiceColumns lc rs)) ?s \<and>
      bd_mobile b = MobileCards (map (render_card cur st) ?s)"
    by (simp add: ScoreboardTable_def Let_def MobileScoreboardCards_def)
  then show ?thesis
    using m signed_collation.sortedRows_sorted [OF assms(1)]
      signed_collation.sortedRows_stable [OF assms(1)]
    by metis
qed

lemma scoreboard_sorted_and_stable_witness:
  "\<exists>b sorted. ScoreboardTable ordinal_compare sample_board [] None (handleSort ByTotal initial_table) = Board b \<and>
     mset sorted = mset sample_board \<and>
     bd_rows b = map (render_row None (collectServiceColumns ordinal_compare sample_board)) sorted"
  using scoreboard_sorted_and_stable [OF ordinal_signed.signed_collation_axioms, of sample_board "[]" None
      "handleSort ByTotal initial_table"]
  by (auto simp: sample_board_def)

text \<open>
  The number a cell shows. Read back without its separators, the text of a score is a number
  within half a hundredth of the score; a negative score shows the text of its magnitude behind a
  minus sign.
\<close>

lemma compactNumber_exact:
  "(\<exists>q. read_decimal (filter (\<lambda>c. c \<noteq> CHR '','') (compactNumber \<bar>v\<bar>)) = Some q \<and> \<bar>q - \<bar>v\<bar>\<bar> \<le> 1 / 200) \<and>
   compactNumber v = (if v < 0 then ''-'' else []) @ compactNumber \<bar>v\<bar>"
  using compactNumber_value [of "\<bar>v\<bar>"] by (simp add: compactNumber_def Let_def)

end
