(* ===== verification/Attack_Map_Panel.thy ===== *)
theory Attack_Map_Panel
  imports Attack_Feed
begin

text \<open>
  The attack map's panel, \<open>components/ui/attack-map-panel.tsx\<close>: the tick navigation and playback,
  the view modes, the team search, the selection of a team or an attack, the replay of a tick with
  its animation frame and its timer, and what the inspector shows. The state is the component's
  \<open>useState\<close> and \<open>useRef\<close> cells with the prop \<open>attackRows\<close> and the pending frames and timers of the
  window; a handler is followed by the component's effects, as React runs them after a render.
  Ticks are integers. The preferences of the sound effects have their own theory.
\<close>

section \<open>Sets in insertion order\<close>

text \<open>\<open>Array.from(new Set(xs))\<close> keeps the first occurrence of each element.\<close>

fun unique_from :: "'a set \<Rightarrow> 'a list \<Rightarrow> 'a list" where
  "unique_from seen [] = []"
| "unique_from seen (x # xs) =
     (if x \<in> seen then unique_from seen xs else x # unique_from (insert x seen) xs)"

definition js_unique :: "'a list \<Rightarrow> 'a list" where
  "js_unique xs = unique_from {} xs"

lemma set_unique_from: "set (unique_from seen xs) = set xs - seen"
  by (induction seen xs rule: unique_from.induct) auto

lemma distinct_unique_from: "distinct (unique_from seen xs)"
  by (induction seen xs rule: unique_from.induct) (auto simp: set_unique_from)

lemma set_js_unique [simp]: "set (js_unique xs) = set xs"
  by (simp add: js_unique_def set_unique_from)

lemma distinct_js_unique [simp]: "distinct (js_unique xs)"
  by (simp add: js_unique_def distinct_unique_from)

section \<open>Rows, ticks and views\<close>

record geo_point =
  lat :: rat
  lon :: rat

record AttackMapEvent =
  am_id :: string
  am_attacker :: string
  am_attackerLocation :: "geo_point option"
  am_victim :: string
  am_victimLocation :: "geo_point option"
  am_service :: string
  am_tick :: int
  am_verdict :: string

datatype ViewMode = AllFeed | Recent | Current

definition RECENT_TICK_WINDOW :: int where
  "RECENT_TICK_WINDOW = 5"

definition PLAYBACK_SPEEDS :: "(string \<times> int) list" where
  "PLAYBACK_SPEEDS = [(''Fast'', 900), (''Normal'', 1500), (''Slow'', 2300)]"

definition tickValues :: "AttackMapEvent list \<Rightarrow> int list" where
  "tickValues attackRows = sort (js_unique (map am_tick attackRows))"

definition at_last :: "int list \<Rightarrow> int" where
  "at_last values = (if values = [] then 0 else last values)"

definition latestTick :: "AttackMapEvent list \<Rightarrow> int" where
  "latestTick attackRows = at_last (tickValues attackRows)"

fun find_index :: "'a \<Rightarrow> 'a list \<Rightarrow> nat option" where
  "find_index x [] = None"
| "find_index x (y # ys) = (if x = y then Some 0 else map_option Suc (find_index x ys))"

definition getAdjacentTick :: "int list \<Rightarrow> int \<Rightarrow> direction \<Rightarrow> int" where
  "getAdjacentTick values current direction =
     (case find_index current values of
        None \<Rightarrow> at_last values
      | Some currentIndex \<Rightarrow>
          (if direction = Prev
           then values ! ((currentIndex + length values - 1) mod length values)
           else values ! ((currentIndex + 1) mod length values)))"

definition describeViewMode :: "ViewMode \<Rightarrow> string" where
  "describeViewMode mode =
     (case mode of Current \<Rightarrow> ''Current Tick'' | Recent \<Rightarrow> ''Recent'' | AllFeed \<Rightarrow> ''All Feed'')"

definition formatTickWindow :: "int list \<Rightarrow> string" where
  "formatTickWindow values =
     (case values of
        [] \<Rightarrow> ''no ticks''
      | first # _ \<Rightarrow>
          (let l = last values in
           if first = l then ''tick #'' @ int_to_string first
           else ''ticks #'' @ int_to_string first @ ''-#'' @ int_to_string l))"

section \<open>The panel's state\<close>

record panel =
  attackRows :: "AttackMapEvent list"
  expanded :: bool
  teamQuery :: string
  replayAttackIDs :: "string list"
  viewMode :: ViewMode
  selectedTick :: "int option"
  playbackRunning :: bool
  playbackSpeed :: int
  selectedTeamId :: "string option"
  selectedAttackId :: "string option"
  featuredAttackId :: "string option"
  replayTimeoutRef :: "nat option"
  replayFrameRef :: "nat option"
  frames :: "(nat \<times> string list) list"
  timers :: "nat list"
  next_handle :: nat

definition selectedTickValue :: "panel \<Rightarrow> int" where
  "selectedTickValue st = coalesce (selectedTick st) (latestTick (attackRows st))"

definition visibleRows :: "panel \<Rightarrow> AttackMapEvent list" where
  "visibleRows st =
     (let rows = attackRows st; tick = selectedTickValue st in
      if length rows = 0 \<or> tick = 0 then rows
      else (case viewMode st of
              Current \<Rightarrow> filter (\<lambda>row. am_tick row = tick) rows
            | Recent \<Rightarrow>
                (let windowStart = max 0 (tick - (RECENT_TICK_WINDOW - 1))
                 in filter (\<lambda>row. am_tick row \<ge> windowStart \<and> am_tick row \<le> tick) rows)
            | AllFeed \<Rightarrow> rows))"

definition sorted_names :: "string list \<Rightarrow> string list" where
  "sorted_names xs = sort_cmp (\<lambda>a b. ordinal_compare a b \<le> 0) (js_unique xs)"

definition visibleTeamCount :: "panel \<Rightarrow> nat" where
  "visibleTeamCount st =
     card (set (map am_attacker (visibleRows st)) \<union> set (map am_victim (visibleRows st)))"

definition visibleServiceCount :: "panel \<Rightarrow> nat" where
  "visibleServiceCount st = card (set (map am_service (visibleRows st)))"

definition visibleTicks :: "panel \<Rightarrow> int list" where
  "visibleTicks st = tickValues (visibleRows st)"

definition allTeams :: "panel \<Rightarrow> string list" where
  "allTeams st = sorted_names (map am_attacker (attackRows st) @ map am_victim (attackRows st))"

definition normalizedTeamQuery :: "panel \<Rightarrow> string" where
  "normalizedTeamQuery st = toLowerCase (trim (teamQuery st))"

definition searchedTeams :: "panel \<Rightarrow> string list" where
  "searchedTeams st =
     (if normalizedTeamQuery st = [] then []
      else filter (\<lambda>team. includes_str (toLowerCase team) (normalizedTeamQuery st)) (allTeams st))"

definition truthy :: "string option \<Rightarrow> bool" where
  "truthy x = (case x of None \<Rightarrow> False | Some s \<Rightarrow> s \<noteq> [])"

definition focusedTeams :: "panel \<Rightarrow> string list" where
  "focusedTeams st =
     js_unique (searchedTeams st @ (if truthy (selectedTeamId st) then [the (selectedTeamId st)] else []))"

definition currentTickAttackIDs :: "panel \<Rightarrow> string list" where
  "currentTickAttackIDs st =
     (if selectedTickValue st > 0
      then map am_id (filter (\<lambda>row. am_tick row = selectedTickValue st) (attackRows st)) else [])"

definition activeHighlightIDs :: "string list \<Rightarrow> panel \<Rightarrow> string list" where
  "activeHighlightIDs highlightedIDs st =
     js_unique (highlightedIDs @ replayAttackIDs st @
       (if truthy (selectedAttackId st) then [the (selectedAttackId st)] else []))"

definition teamLocations :: "AttackMapEvent list \<Rightarrow> string \<Rightarrow> geo_point option" where
  "teamLocations rows =
     fold (\<lambda>row locations.
       (let l1 = (case am_attackerLocation row of
              None \<Rightarrow> locations | Some p \<Rightarrow> locations(am_attacker row \<mapsto> p))
        in case am_victimLocation row of None \<Rightarrow> l1 | Some p \<Rightarrow> l1(am_victim row \<mapsto> p)))
       rows Map.empty"

definition find_attack :: "panel \<Rightarrow> string option \<Rightarrow> AttackMapEvent option" where
  "find_attack st i = find (\<lambda>row. Some (am_id row) = i) (attackRows st)"

definition inspectedAttack :: "panel \<Rightarrow> AttackMapEvent option" where
  "inspectedAttack st =
     (case find_attack st (selectedAttackId st) of
        Some a \<Rightarrow> Some a | None \<Rightarrow> find_attack st (featuredAttackId st))"

section \<open>The team summary\<close>

record team_summary =
  ts_attacks :: nat
  ts_inbound :: nat
  ts_outbound :: nat
  ts_latestTick :: "int option"
  ts_opponents :: "(string \<times> nat) list"
  ts_services :: "string list"
  ts_team :: string

text \<open>A \<open>Map\<close> of counters in insertion order.\<close>

fun count_up :: "string \<Rightarrow> (string \<times> nat) list \<Rightarrow> (string \<times> nat) list" where
  "count_up k [] = [(k, 1)]"
| "count_up k ((k', n) # rest) = (if k = k' then (k', n + 1) # rest else (k', n) # count_up k rest)"

definition opponent_compare ::
    "(string \<Rightarrow> string \<Rightarrow> int) \<Rightarrow> string \<times> nat \<Rightarrow> string \<times> nat \<Rightarrow> int" where
  "opponent_compare lc left right =
     (let d = int (snd right) - int (snd left) in if d \<noteq> 0 then d else lc (fst left) (fst right))"

definition selectedTeamSummary :: "(string \<Rightarrow> string \<Rightarrow> int) \<Rightarrow> panel \<Rightarrow> team_summary option" where
  "selectedTeamSummary lc st =
     (if \<not> truthy (selectedTeamId st) then None
      else (let team = the (selectedTeamId st);
                involvedRows = filter (\<lambda>row. am_attacker row = team \<or> am_victim row = team) (visibleRows st)
            in if length involvedRows = 0
               then Some \<lparr>ts_attacks = 0, ts_inbound = 0, ts_outbound = 0, ts_latestTick = None,
                          ts_opponents = [], ts_services = [], ts_team = team\<rparr>
               else (let outbound = filter (\<lambda>row. am_attacker row = team) involvedRows;
                         inbound = filter (\<lambda>row. am_victim row = team) involvedRows;
                         opponentCounts = fold (\<lambda>row. count_up
                           (if am_attacker row = team then am_victim row else am_attacker row))
                           involvedRows []
                     in Some \<lparr>ts_attacks = length involvedRows, ts_inbound = length inbound,
                          ts_outbound = length outbound,
                          ts_latestTick = Some (foldl (\<lambda>c row. max c (am_tick row)) 0 involvedRows),
                          ts_opponents = take 6
                            (sort_cmp (\<lambda>l r. opponent_compare lc l r \<le> 0) opponentCounts),
                          ts_services = sorted_names (map am_service involvedRows),
                          ts_team = team\<rparr>)))"

section \<open>Effects\<close>

definition tick_effect :: "panel \<Rightarrow> panel" where
  "tick_effect st =
     (let values = tickValues (attackRows st) in
      if length values = 0 then st\<lparr>selectedTick := None, playbackRunning := False\<rparr>
      else if selectedTick st = None \<or> the (selectedTick st) \<notin> set values
      then st\<lparr>selectedTick := Some (latestTick (attackRows st))\<rparr>
      else st)"

definition attack_effect :: "panel \<Rightarrow> panel" where
  "attack_effect st =
     (if truthy (selectedAttackId st) \<and>
         \<not> list_ex (\<lambda>row. Some (am_id row) = selectedAttackId st) (attackRows st)
      then st\<lparr>selectedAttackId := None\<rparr> else st)"

definition featured_effect :: "panel \<Rightarrow> panel" where
  "featured_effect st =
     (if truthy (featuredAttackId st) \<and>
         \<not> list_ex (\<lambda>row. Some (am_id row) = featuredAttackId st) (attackRows st)
      then st\<lparr>featuredAttackId := None\<rparr> else st)"

definition team_effect :: "panel \<Rightarrow> panel" where
  "team_effect st =
     (if truthy (selectedTeamId st) \<and> the (selectedTeamId st) \<notin> set (allTeams st)
      then st\<lparr>selectedTeamId := None\<rparr> else st)"

definition panel_effects :: "panel \<Rightarrow> panel" where
  "panel_effects st = team_effect (featured_effect (attack_effect (tick_effect st)))"

section \<open>Handlers\<close>

definition clear_timer :: "nat option \<Rightarrow> panel \<Rightarrow> panel" where
  "clear_timer h st = (case h of None \<Rightarrow> st | Some i \<Rightarrow> st\<lparr>timers := removeAll i (timers st)\<rparr>)"

definition cancel_frame :: "nat option \<Rightarrow> panel \<Rightarrow> panel" where
  "cancel_frame h st =
     (case h of None \<Rightarrow> st | Some i \<Rightarrow> st\<lparr>frames := filter (\<lambda>(j, _). j \<noteq> i) (frames st)\<rparr>)"

definition replayTick :: "int \<Rightarrow> panel \<Rightarrow> panel" where
  "replayTick tick st =
     (let tickAttackIDs = map am_id (filter (\<lambda>row. am_tick row = tick) (attackRows st)) in
      if length tickAttackIDs = 0 then st
      else (let st1 = cancel_frame (replayFrameRef st) (clear_timer (replayTimeoutRef st) st);
                h = next_handle st1
            in st1\<lparr>replayAttackIDs := [], frames := frames st1 @ [(h, tickAttackIDs)],
                   replayFrameRef := Some h, next_handle := Suc h\<rparr>))"

text \<open>The frame's callback shows the attacks and starts the timer, whose callback hides them.\<close>

definition frame_fires :: "nat \<Rightarrow> panel \<Rightarrow> panel" where
  "frame_fires h st =
     (case map_of (frames st) h of
        None \<Rightarrow> st
      | Some ids \<Rightarrow>
          (let t = next_handle st
           in st\<lparr>frames := filter (\<lambda>(j, _). j \<noteq> h) (frames st), replayAttackIDs := ids,
                 timers := timers st @ [t], replayTimeoutRef := Some t, next_handle := Suc t\<rparr>))"

definition timer_fires :: "nat \<Rightarrow> panel \<Rightarrow> panel" where
  "timer_fires h st =
     (if h \<in> set (timers st)
      then st\<lparr>timers := removeAll h (timers st), replayAttackIDs := [], replayTimeoutRef := None\<rparr>
      else st)"

definition unmount_panel :: "panel \<Rightarrow> panel" where
  "unmount_panel st = cancel_frame (replayFrameRef st) (clear_timer (replayTimeoutRef st) st)"

definition leave_all_view :: "panel \<Rightarrow> panel" where
  "leave_all_view st = (if viewMode st = AllFeed then st\<lparr>viewMode := Current\<rparr> else st)"

definition replayCurrentTick :: "panel \<Rightarrow> panel" where
  "replayCurrentTick st =
     (if selectedTickValue st = 0 then st else replayTick (selectedTickValue st) (leave_all_view st))"

definition moveTick :: "direction \<Rightarrow> panel \<Rightarrow> panel" where
  "moveTick direction st =
     (if selectedTickValue st = 0 then st
      else (leave_all_view st)\<lparr>selectedTick := Some (getAdjacentTick (tickValues (attackRows st))
             (coalesce (selectedTick st) (latestTick (attackRows st))) direction)\<rparr>)"

definition togglePlayback :: "panel \<Rightarrow> panel" where
  "togglePlayback st =
     (let nxt = (\<not> playbackRunning st)
      in (if nxt then leave_all_view st else st)\<lparr>playbackRunning := nxt\<rparr>)"

text \<open>The interval exists while playback runs over at least two ticks.\<close>

definition playback_active :: "panel \<Rightarrow> bool" where
  "playback_active st \<longleftrightarrow> playbackRunning st \<and> length (tickValues (attackRows st)) \<ge> 2 \<and>
     selectedTickValue st \<noteq> 0"

definition playback_tick :: "panel \<Rightarrow> panel" where
  "playback_tick st =
     (if playback_active st
      then st\<lparr>selectedTick := Some (case selectedTick st of
             None \<Rightarrow> latestTick (attackRows st)
           | Some current \<Rightarrow> getAdjacentTick (tickValues (attackRows st)) current Next)\<rparr>
      else st)"

definition onSelectAttack :: "string option \<Rightarrow> panel \<Rightarrow> panel" where
  "onSelectAttack attackId st =
     (let st1 = st\<lparr>selectedAttackId := attackId\<rparr>
      in if truthy attackId then st1\<lparr>selectedTeamId := None\<rparr> else st1)"

definition onSelectTeam :: "string option \<Rightarrow> panel \<Rightarrow> panel" where
  "onSelectTeam teamId st =
     (let st1 = st\<lparr>selectedTeamId := teamId\<rparr>
      in if truthy teamId then st1\<lparr>selectedAttackId := None\<rparr> else st1)"

section \<open>The inspector\<close>

record inspector =
  in_eyebrow :: string
  in_title :: string
  in_lines :: "(string \<times> string) list"
  in_services :: "string list"
  in_opponents :: "(string \<times> nat) list"
  in_button :: "string option"

definition nat_to_string :: "nat \<Rightarrow> string" where
  "nat_to_string n = int_to_string (int n)"

definition renderInspector :: "(string \<Rightarrow> string \<Rightarrow> int) \<Rightarrow> panel \<Rightarrow> inspector" where
  "renderInspector lc st =
     (case inspectedAttack st of
        Some a \<Rightarrow>
          \<lparr>in_eyebrow = (if find_attack st (selectedAttackId st) = None
              then ''Featured transmission'' else ''Attack''),
           in_title = am_attacker a @ '' -> '' @ am_victim a,
           in_lines = [(''Tick'', ''#'' @ int_to_string (am_tick a)), (''Service'', am_service a),
             (''Verdict'', am_verdict a)],
           in_services = [], in_opponents = [],
           in_button = (if find_attack st (selectedAttackId st) = None
              then None else Some ''Clear attack focus'')\<rparr>
      | None \<Rightarrow>
          (case selectedTeamSummary lc st of
             Some s \<Rightarrow>
               \<lparr>in_eyebrow = ''Team'', in_title = ts_team s,
                in_lines = [(''Outbound'', nat_to_string (ts_outbound s)),
                  (''Inbound'', nat_to_string (ts_inbound s)),
                  (''Total involved'', nat_to_string (ts_attacks s)),
                  (''Latest tick'', case ts_latestTick s of
                     None \<Rightarrow> ''not visible'' | Some t \<Rightarrow> ''#'' @ int_to_string t)],
                in_services = ts_services s, in_opponents = ts_opponents s,
                in_button = Some ''Clear team focus''\<rparr>
           | None \<Rightarrow>
               \<lparr>in_eyebrow = ''Inspector'', in_title = ''Map overview'',
                in_lines = [(''Visible attacks'', nat_to_string (length (visibleRows st))),
                  (''Visible teams'', nat_to_string (visibleTeamCount st)),
                  (''Visible services'', nat_to_string (visibleServiceCount st)),
                  (''Tick window'', formatTickWindow (visibleTicks st))],
                in_services = [], in_opponents = [], in_button = None\<rparr>))"

definition tick_caption :: "panel \<Rightarrow> string \<times> string" where
  "tick_caption st =
     (if selectedTickValue st > 0 then ''Tick #'' @ int_to_string (selectedTickValue st) else ''No ticks'',
      if normalizedTeamQuery st = []
      then describeViewMode (viewMode st) @ '' view across '' @ formatTickWindow (visibleTicks st) @ ''.''
      else ''Showing labels for '' @ nat_to_string (length (searchedTeams st)) @ '' matching team(s).'')"

section \<open>Events\<close>

datatype panel_event =
    NewRows "AttackMapEvent list" | SetExpanded bool | SetTeamQuery string | SetViewMode ViewMode
  | SetSpeed int | MoveTick direction | TogglePlayback | PlaybackTick | Replay
  | FrameFires nat | TimerFires nat
  | SelectAttack "string option" | SelectTeam "string option" | FeaturedChange "string option"

text \<open>A button that is disabled ignores the click.\<close>

fun panel_handler :: "panel_event \<Rightarrow> panel \<Rightarrow> panel" where
  "panel_handler (NewRows rows) st = st\<lparr>attackRows := rows\<rparr>"
| "panel_handler (SetExpanded e) st = st\<lparr>expanded := e\<rparr>"
| "panel_handler (SetTeamQuery q) st = st\<lparr>teamQuery := q\<rparr>"
| "panel_handler (SetViewMode m) st = st\<lparr>viewMode := m\<rparr>"
| "panel_handler (SetSpeed s) st = st\<lparr>playbackSpeed := s\<rparr>"
| "panel_handler (MoveTick d) st =
     (if length (tickValues (attackRows st)) = 0 then st else moveTick d st)"
| "panel_handler TogglePlayback st =
     (if length (tickValues (attackRows st)) < 2 then st else togglePlayback st)"
| "panel_handler PlaybackTick st = playback_tick st"
| "panel_handler Replay st =
     (if length (currentTickAttackIDs st) = 0 then st else replayCurrentTick st)"
| "panel_handler (FrameFires h) st = frame_fires h st"
| "panel_handler (TimerFires h) st = timer_fires h st"
| "panel_handler (SelectAttack a) st = onSelectAttack a st"
| "panel_handler (SelectTeam t) st = onSelectTeam t st"
| "panel_handler (FeaturedChange a) st = st\<lparr>featuredAttackId := a\<rparr>"

definition panel_step :: "panel_event \<Rightarrow> panel \<Rightarrow> panel" where
  "panel_step e st = panel_effects (panel_handler e st)"

definition initial_panel :: "AttackMapEvent list \<Rightarrow> panel" where
  "initial_panel rows =
     \<lparr>attackRows = rows, expanded = False, teamQuery = [], replayAttackIDs = [], viewMode = AllFeed,
      selectedTick = None, playbackRunning = False, playbackSpeed = 1500, selectedTeamId = None,
      selectedAttackId = None, featuredAttackId = None, replayTimeoutRef = None,
      replayFrameRef = None, frames = [], timers = [], next_handle = 0\<rparr>"

inductive panel_reachable :: "panel \<Rightarrow> bool" where
  mount: "panel_reachable (panel_effects (initial_panel rows))"
| event: "panel_reachable st \<Longrightarrow> panel_reachable (panel_step e st)"

section \<open>The invariant\<close>

definition ticks_ok :: "panel \<Rightarrow> bool" where
  "ticks_ok st \<longleftrightarrow>
     (case selectedTick st of
        None \<Rightarrow> attackRows st = [] \<and> \<not> playbackRunning st
      | Some t \<Rightarrow> t \<in> am_tick ` set (attackRows st))"

definition selection_ok :: "panel \<Rightarrow> bool" where
  "selection_ok st \<longleftrightarrow>
     (truthy (selectedAttackId st) \<longrightarrow> the (selectedAttackId st) \<in> am_id ` set (attackRows st)) \<and>
     (truthy (featuredAttackId st) \<longrightarrow> the (featuredAttackId st) \<in> am_id ` set (attackRows st)) \<and>
     (truthy (selectedTeamId st) \<longrightarrow>
        the (selectedTeamId st) \<in> am_attacker ` set (attackRows st) \<union> am_victim ` set (attackRows st))"

definition exclusive :: "panel \<Rightarrow> bool" where
  "exclusive st \<longleftrightarrow> \<not> (truthy (selectedAttackId st) \<and> truthy (selectedTeamId st))"

text \<open>At most one frame and one timer of the replay are pending, they are the ones the references
  name, and attacks are highlighted only while a timer that ends it is pending.\<close>

definition replay_ok :: "panel \<Rightarrow> bool" where
  "replay_ok st \<longleftrightarrow>
     (\<forall>(h, ids) \<in> set (frames st). replayFrameRef st = Some h) \<and> length (frames st) \<le> 1 \<and>
     set (timers st) \<subseteq> set_option (replayTimeoutRef st) \<and> length (timers st) \<le> 1 \<and>
     (replayAttackIDs st \<noteq> [] \<longrightarrow> timers st \<noteq> []) \<and>
     (frames st \<noteq> [] \<longrightarrow> timers st = [])"

lemma set_tickValues [simp]: "set (tickValues rows) = am_tick ` set rows"
  by (simp add: tickValues_def)

lemma tickValues_Nil [simp]: "tickValues rows = [] \<longleftrightarrow> rows = []"
  by (metis image_is_empty set_empty set_tickValues)

lemma latestTick_in: "rows \<noteq> [] \<Longrightarrow> latestTick rows \<in> am_tick ` set rows"
proof -
  assume "rows \<noteq> []"
  then have "tickValues rows \<noteq> []" by simp
  then have "last (tickValues rows) \<in> set (tickValues rows)" by (rule last_in_set)
  with \<open>tickValues rows \<noteq> []\<close> show ?thesis by (simp add: latestTick_def at_last_def)
qed

lemma set_allTeams [simp]:
  "set (allTeams st) = am_attacker ` set (attackRows st) \<union> am_victim ` set (attackRows st)"
  by (simp add: allTeams_def sorted_names_def)

lemma effects_fields [simp]:
  "attackRows (panel_effects st) = attackRows st" "frames (panel_effects st) = frames st"
  "timers (panel_effects st) = timers st" "replayFrameRef (panel_effects st) = replayFrameRef st"
  "replayTimeoutRef (panel_effects st) = replayTimeoutRef st"
  "replayAttackIDs (panel_effects st) = replayAttackIDs st"
  by (simp_all add: panel_effects_def tick_effect_def attack_effect_def featured_effect_def
      team_effect_def Let_def)

lemma later_effects [simp]:
  "selectedTick (attack_effect st) = selectedTick st" "selectedTick (featured_effect st) = selectedTick st"
  "selectedTick (team_effect st) = selectedTick st"
  "playbackRunning (attack_effect st) = playbackRunning st"
  "playbackRunning (featured_effect st) = playbackRunning st"
  "playbackRunning (team_effect st) = playbackRunning st"
  "attackRows (attack_effect st) = attackRows st" "attackRows (featured_effect st) = attackRows st"
  "attackRows (team_effect st) = attackRows st" "attackRows (tick_effect st) = attackRows st"
  by (simp_all add: attack_effect_def featured_effect_def team_effect_def tick_effect_def Let_def)

text \<open>One round of effects suffices: whatever the handlers did, afterwards the selected tick, attack
  and team belong to the rows.\<close>

lemma tick_effect_ok: "ticks_ok (tick_effect st)"
  using latestTick_in [of "attackRows st"]
  by (auto simp: tick_effect_def Let_def ticks_ok_def split: option.splits)

lemma truthy_None [simp]: "\<not> truthy None"
  by (simp add: truthy_def)

lemma panel_effects_ok: "ticks_ok (panel_effects st)" "selection_ok (panel_effects st)"
proof -
  have "ticks_ok (panel_effects st) = ticks_ok (tick_effect st)"
    unfolding ticks_ok_def panel_effects_def by (simp split: option.split)
  then show "ticks_ok (panel_effects st)" using tick_effect_ok by simp
  have ex: "truthy x \<Longrightarrow> list_ex (\<lambda>row. Some (am_id row) = x) rows \<longleftrightarrow> the x \<in> am_id ` set rows" for x rows
    by (cases x) (auto simp: list_ex_iff)
  have "truthy (selectedAttackId (attack_effect st)) \<longrightarrow>
      the (selectedAttackId (attack_effect st)) \<in> am_id ` set (attackRows st)"
    "truthy (featuredAttackId (featured_effect st)) \<longrightarrow>
      the (featuredAttackId (featured_effect st)) \<in> am_id ` set (attackRows st)"
    "truthy (selectedTeamId (team_effect st)) \<longrightarrow>
      the (selectedTeamId (team_effect st))
        \<in> am_attacker ` set (attackRows st) \<union> am_victim ` set (attackRows st)" for st
    by (auto simp: attack_effect_def featured_effect_def team_effect_def ex)
  moreover have "selectedAttackId (featured_effect st) = selectedAttackId st"
    "selectedAttackId (team_effect st) = selectedAttackId st"
    "featuredAttackId (team_effect st) = featuredAttackId st" for st
    by (simp_all add: featured_effect_def team_effect_def)
  ultimately show "selection_ok (panel_effects st)"
    unfolding selection_ok_def panel_effects_def by (metis later_effects(7-10))
qed

lemma panel_effects_exclusive: "exclusive st \<Longrightarrow> exclusive (panel_effects st)"
  by (simp add: exclusive_def panel_effects_def tick_effect_def attack_effect_def featured_effect_def
      team_effect_def Let_def)

lemma handler_exclusive: "exclusive st \<Longrightarrow> exclusive (panel_handler e st)"
  by (cases e)
    (simp_all add: exclusive_def moveTick_def leave_all_view_def togglePlayback_def Let_def
      playback_tick_def replayCurrentTick_def replayTick_def cancel_frame_def clear_timer_def
      frame_fires_def timer_fires_def onSelectAttack_def onSelectTeam_def split: option.split)

lemma replayTick_ok: "replay_ok st \<Longrightarrow> replay_ok (replayTick t st)"
proof -
  assume ok: "replay_ok st"
  let ?st = "cancel_frame (replayFrameRef st) (clear_timer (replayTimeoutRef st) st)"
  have "frames ?st = []"
    using ok by (cases "frames st"; cases "replayFrameRef st")
      (auto simp: cancel_frame_def clear_timer_def replay_ok_def split: option.splits)
  moreover have "timers ?st = []"
    using ok by (cases "timers st"; cases "replayTimeoutRef st")
      (auto simp: cancel_frame_def clear_timer_def replay_ok_def split: option.splits)
  ultimately show ?thesis
    using ok by (simp add: replayTick_def Let_def) (simp add: replay_ok_def)
qed

lemma frame_fires_ok:
  assumes "replay_ok st"
  shows "replay_ok (frame_fires h st)"
proof (cases "map_of (frames st) h")
  case (Some ids)
  then have "(h, ids) \<in> set (frames st)" by (rule map_of_SomeD)
  with assms have "frames st = [(h, ids)]" "timers st = []"
    by (cases "frames st"; auto simp: replay_ok_def)+
  with Some show ?thesis by (simp add: frame_fires_def Let_def replay_ok_def)
qed (use assms in \<open>simp add: frame_fires_def\<close>)

lemma timer_fires_ok: "replay_ok st \<Longrightarrow> replay_ok (timer_fires h st)"
  by (cases "timers st") (auto simp: replay_ok_def timer_fires_def)

lemma replay_ok_cong:
  "frames st' = frames st \<Longrightarrow> timers st' = timers st \<Longrightarrow> replayFrameRef st' = replayFrameRef st \<Longrightarrow>
   replayTimeoutRef st' = replayTimeoutRef st \<Longrightarrow> replayAttackIDs st' = replayAttackIDs st \<Longrightarrow>
   replay_ok st' = replay_ok st"
  by (simp add: replay_ok_def)

lemma handler_replay_ok:
  assumes "replay_ok st"
  shows "replay_ok (panel_handler e st)"
proof (cases e)
  case Replay
  have "replay_ok (leave_all_view st)"
    using assms by (subst replay_ok_cong [of _ st]) (simp_all add: leave_all_view_def)
  with assms Replay show ?thesis by (simp add: replayCurrentTick_def replayTick_ok)
next
  case (FrameFires h)
  with assms show ?thesis by (simp add: frame_fires_ok)
next
  case (TimerFires h)
  with assms show ?thesis by (simp add: timer_fires_ok)
qed (use assms in \<open>simp_all add: replay_ok_def moveTick_def leave_all_view_def togglePlayback_def
    Let_def playback_tick_def onSelectAttack_def onSelectTeam_def\<close>)

lemma panel_reachable_inv:
  "panel_reachable st \<Longrightarrow> ticks_ok st \<and> selection_ok st \<and> exclusive st \<and> replay_ok st"
proof (induction rule: panel_reachable.induct)
  case (mount rows)
  have "replay_ok (initial_panel rows)" "exclusive (initial_panel rows)"
    by (simp_all add: replay_ok_def exclusive_def initial_panel_def)
  then show ?case
    using panel_effects_ok panel_effects_exclusive by (simp add: replay_ok_cong [of "panel_effects _"])
next
  case (event st e)
  then have "exclusive (panel_step e st)"
    by (simp add: panel_step_def panel_effects_exclusive handler_exclusive)
  moreover have "replay_ok (panel_handler e st)" using event handler_replay_ok by blast
  then have "replay_ok (panel_step e st)"
    unfolding panel_step_def by (subst replay_ok_cong [of _ "panel_handler e st"]) simp_all
  ultimately show ?case
    using panel_effects_ok by (simp add: panel_step_def)
qed

section \<open>Walking the ticks\<close>

lemma find_index_nth: "distinct xs \<Longrightarrow> i < length xs \<Longrightarrow> find_index (xs ! i) xs = Some i"
proof (induction xs arbitrary: i)
  case (Cons x xs)
  then show ?case by (cases i) (auto simp: nth_eq_iff_index_eq)
qed simp

lemma distinct_tickValues: "distinct (tickValues rows)"
  by (simp add: tickValues_def)

lemma adjacent_nth:
  assumes "distinct xs" and "i < length xs"
  shows "getAdjacentTick xs (xs ! i) Next = xs ! ((i + 1) mod length xs)"
    and "getAdjacentTick xs (xs ! i) Prev = xs ! ((i + length xs - 1) mod length xs)"
  using assms by (simp_all add: getAdjacentTick_def find_index_nth)

lemma adjacent_Next_pow:
  assumes "distinct xs" and "i < length xs"
  shows "((\<lambda>t. getAdjacentTick xs t Next) ^^ n) (xs ! i) = xs ! ((i + n) mod length xs)"
proof (induction n)
  case (Suc n)
  have "(i + n) mod length xs < length xs" using assms(2) by (intro mod_less_divisor) auto
  with adjacent_nth(1) [OF assms(1) this] Suc show ?case by (simp add: mod_simps)
qed (use assms in simp)

lemma adjacent_inverse:
  assumes "distinct xs" and "t \<in> set xs"
  shows "getAdjacentTick xs (getAdjacentTick xs t Next) Prev = t"
    and "getAdjacentTick xs (getAdjacentTick xs t Prev) Next = t"
proof -
  obtain i where i: "i < length xs" "t = xs ! i" using assms(2) by (metis in_set_conv_nth)
  let ?n = "length xs"
  have lt: "(i + 1) mod ?n < ?n" "(i + ?n - 1) mod ?n < ?n"
    using i by (intro mod_less_divisor; auto)+
  have "((i + 1) mod ?n + ?n - 1) mod ?n = i"
  proof (cases "i + 1 = ?n")
    case True
    then show ?thesis using i by simp
  next
    case False
    then have "i + 1 < ?n" using i by simp
    then show ?thesis using i by simp
  qed
  with i lt show "getAdjacentTick xs (getAdjacentTick xs t Next) Prev = t"
    by (simp add: adjacent_nth [OF assms(1)] del: mod_less)
  have "((i + ?n - 1) mod ?n + 1) mod ?n = i"
  proof (cases i)
    case 0
    then show ?thesis using i by (cases ?n) auto
  next
    case (Suc j)
    then show ?thesis using i by simp
  qed
  with i lt show "getAdjacentTick xs (getAdjacentTick xs t Prev) Next = t"
    by (simp add: adjacent_nth [OF assms(1)] del: mod_less)
qed

text \<open>Effects change nothing in a state that is in order.\<close>

lemma panel_effects_idle:
  assumes "ticks_ok st" and "selection_ok st"
  shows "panel_effects st = st"
proof -
  have t: "tick_effect st = st"
    using assms(1)
    by (cases "selectedTick st") (auto simp: ticks_ok_def tick_effect_def Let_def)
  have "attack_effect st = st"
    using assms(2)
    by (cases "selectedAttackId st") (auto simp: selection_ok_def attack_effect_def list_ex_iff)
  moreover have "featured_effect st = st"
    using assms(2)
    by (cases "featuredAttackId st") (auto simp: selection_ok_def featured_effect_def list_ex_iff)
  moreover have "team_effect st = st"
    using assms(2) by (cases "selectedTeamId st") (auto simp: selection_ok_def team_effect_def)
  ultimately show ?thesis using t by (simp add: panel_effects_def)
qed

lemma playback_step:
  assumes ok: "ticks_ok st" "selection_ok st" and "playback_active st" and sel: "selectedTick st = Some t"
  shows "panel_step PlaybackTick st
     = st\<lparr>selectedTick := Some (getAdjacentTick (tickValues (attackRows st)) t Next)\<rparr>"
    and "getAdjacentTick (tickValues (attackRows st)) t Next \<in> am_tick ` set (attackRows st)"
proof -
  have "t \<in> set (tickValues (attackRows st))"
    using ok(1) sel by (simp add: ticks_ok_def)
  then obtain i where i: "i < length (tickValues (attackRows st))" "t = tickValues (attackRows st) ! i"
    by (metis in_set_conv_nth)
  let ?n = "getAdjacentTick (tickValues (attackRows st)) t Next"
  have "?n = tickValues (attackRows st) ! ((i + 1) mod length (tickValues (attackRows st)))"
    using i adjacent_nth(1) [OF distinct_tickValues i(1)] by simp
  moreover have "(i + 1) mod length (tickValues (attackRows st)) < length (tickValues (attackRows st))"
    using i(1) by (intro mod_less_divisor) linarith
  ultimately have "?n \<in> set (tickValues (attackRows st))" using nth_mem by metis
  then show mem: "?n \<in> am_tick ` set (attackRows st)" by simp
  have "ticks_ok (st\<lparr>selectedTick := Some ?n\<rparr>)" "selection_ok (st\<lparr>selectedTick := Some ?n\<rparr>)"
    using mem ok(2) by (simp_all add: ticks_ok_def selection_ok_def)
  then show "panel_step PlaybackTick st = st\<lparr>selectedTick := Some ?n\<rparr>"
    using assms(3) sel by (simp add: panel_step_def playback_tick_def panel_effects_idle)
qed

lemma playback_run:
  assumes ok: "ticks_ok st" "selection_ok st" and run: "playbackRunning st"
    and two: "length (tickValues (attackRows st)) \<ge> 2"
    and pos: "\<forall>row \<in> set (attackRows st). 0 < am_tick row"
    and sel: "selectedTick st = Some t"
  shows "(panel_step PlaybackTick ^^ n) st
     = st\<lparr>selectedTick := Some (((\<lambda>t. getAdjacentTick (tickValues (attackRows st)) t Next) ^^ n) t)\<rparr>
     \<and> ((\<lambda>t. getAdjacentTick (tickValues (attackRows st)) t Next) ^^ n) t \<in> am_tick ` set (attackRows st)"
proof (induction n)
  case 0
  then show ?case using ok(1) sel by (simp add: ticks_ok_def)
next
  case (Suc n)
  let ?t = "((\<lambda>t. getAdjacentTick (tickValues (attackRows st)) t Next) ^^ n) t"
  let ?st = "st\<lparr>selectedTick := Some ?t\<rparr>"
  have mem: "?t \<in> am_tick ` set (attackRows st)" using Suc by simp
  then have "ticks_ok ?st" "selection_ok ?st"
    using ok by (simp_all add: ticks_ok_def selection_ok_def)
  moreover have "playback_active ?st"
    using run two pos mem by (auto simp: playback_active_def selectedTickValue_def)
  ultimately show ?case
    using playback_step [of ?st ?t] Suc by simp
qed

section \<open>The properties\<close>

text \<open>
  C32. Invariant of the attack map's panel. In every reachable state the selected tick is a tick of
  the rows (none, with playback stopped, only when there are no rows); a selected or featured
  attack and a selected team belong to the rows; an attack and a team are never selected together;
  and attacks are highlighted by a replay only while exactly one timer that will hide them is
  pending, the one the component would clear.
\<close>

theorem attack_map_panel_invariant:
  assumes "panel_reachable st"
  shows "(case selectedTick st of
            None \<Rightarrow> attackRows st = [] \<and> \<not> playbackRunning st
          | Some t \<Rightarrow> t \<in> am_tick ` set (attackRows st)) \<and>
     (truthy (selectedAttackId st) \<longrightarrow> the (selectedAttackId st) \<in> am_id ` set (attackRows st)) \<and>
     (truthy (featuredAttackId st) \<longrightarrow> the (featuredAttackId st) \<in> am_id ` set (attackRows st)) \<and>
     (truthy (selectedTeamId st) \<longrightarrow>
        the (selectedTeamId st) \<in> am_attacker ` set (attackRows st) \<union> am_victim ` set (attackRows st)) \<and>
     \<not> (truthy (selectedAttackId st) \<and> truthy (selectedTeamId st)) \<and>
     (replayAttackIDs st \<noteq> [] \<longrightarrow> (\<exists>h. timers st = [h] \<and> replayTimeoutRef st = Some h)) \<and>
     timers (unmount_panel st) = [] \<and> frames (unmount_panel st) = []"
proof -
  note inv = panel_reachable_inv [OF assms]
  have r: "replay_ok st" using inv by blast
  have "replayAttackIDs st \<noteq> [] \<longrightarrow> (\<exists>h. timers st = [h] \<and> replayTimeoutRef st = Some h)"
    using r by (cases "timers st") (auto simp: replay_ok_def)
  moreover have "timers (unmount_panel st) = []"
    using r by (cases "timers st"; cases "replayTimeoutRef st")
      (auto simp: unmount_panel_def cancel_frame_def clear_timer_def replay_ok_def split: option.splits)
  moreover have "frames (unmount_panel st) = []"
    using r by (cases "frames st"; cases "replayFrameRef st")
      (auto simp: unmount_panel_def cancel_frame_def clear_timer_def replay_ok_def split: option.splits)
  ultimately show ?thesis
    using inv unfolding ticks_ok_def selection_ok_def exclusive_def by blast
qed

definition sample_attack :: "string \<Rightarrow> int \<Rightarrow> AttackMapEvent" where
  "sample_attack i t = \<lparr>am_id = i, am_attacker = ''red'', am_attackerLocation = None,
     am_victim = ''blue'', am_victimLocation = None, am_service = ''web'', am_tick = t,
     am_verdict = ''accepted''\<rparr>"

definition sample_panel :: panel where
  "sample_panel = panel_effects (initial_panel [sample_attack ''a'' 3, sample_attack ''b'' 7])"

theorem attack_map_panel_invariant_witness:
  "\<not> (truthy (selectedAttackId (panel_step (SelectAttack (Some ''b'')) sample_panel)) \<and>
     truthy (selectedTeamId (panel_step (SelectAttack (Some ''b'')) sample_panel)))"
  using attack_map_panel_invariant [OF panel_reachable.event [OF panel_reachable.mount]]
  unfolding sample_panel_def by blast

text \<open>
  Playback shows every tick. From any reachable state in which playback runs over at least two
  ticks, all of them positive, the playback timer brings each tick of the rows onto the screen
  within as many steps as there are ticks; and stepping forward and back is the identity.
\<close>

lemma attack_map_playback_visits_every_tick:
  assumes "panel_reachable st" and "playbackRunning st"
    and "length (tickValues (attackRows st)) \<ge> 2"
    and "\<forall>row \<in> set (attackRows st). 0 < am_tick row"
    and "t \<in> am_tick ` set (attackRows st)"
  shows "(\<exists>n < length (tickValues (attackRows st)).
       selectedTick ((panel_step PlaybackTick ^^ n) st) = Some t) \<and>
     getAdjacentTick (tickValues (attackRows st))
       (getAdjacentTick (tickValues (attackRows st)) t Next) Prev = t"
proof -
  let ?xs = "tickValues (attackRows st)"
  have inv: "ticks_ok st" "selection_ok st" using panel_reachable_inv [OF assms(1)] by blast+
  obtain u where u: "selectedTick st = Some u" "u \<in> set ?xs"
    using inv(1) assms(2) by (cases "selectedTick st") (auto simp: ticks_ok_def)
  obtain i where i: "i < length ?xs" "u = ?xs ! i" using u(2) by (metis in_set_conv_nth)
  obtain j where j: "j < length ?xs" "t = ?xs ! j"
    using assms(5) by (metis in_set_conv_nth set_tickValues)
  let ?n = "(j + length ?xs - i) mod length ?xs"
  have n: "?n < length ?xs" using j(1) by (intro mod_less_divisor) linarith
  have "(i + ?n) mod length ?xs = j"
    using i(1) j(1) by (simp add: mod_simps)
  then have "selectedTick ((panel_step PlaybackTick ^^ ?n) st) = Some t"
    using playback_run [OF inv assms(2,3,4) u(1), of ?n] i j
      adjacent_Next_pow [OF distinct_tickValues i(1), of ?n] by simp
  with n show ?thesis
    using adjacent_inverse(1) [OF distinct_tickValues] assms(5) by auto
qed

definition playing_panel :: panel where
  "playing_panel = panel_step TogglePlayback sample_panel"

lemma reachable_playing: "panel_reachable playing_panel"
  unfolding playing_panel_def sample_panel_def by (intro panel_reachable.intros)

lemma playing_facts:
  "attackRows playing_panel = [sample_attack ''a'' 3, sample_attack ''b'' 7]" "playbackRunning playing_panel"
  "tickValues (attackRows playing_panel) = [3, 7]"
  by (simp_all add: playing_panel_def sample_panel_def panel_step_def initial_panel_def
      panel_effects_def tick_effect_def attack_effect_def featured_effect_def team_effect_def
      togglePlayback_def leave_all_view_def Let_def tickValues_def js_unique_def sample_attack_def
      latestTick_def at_last_def)

lemma attack_map_playback_visits_every_tick_witness:
  "\<exists>n < length (tickValues (attackRows playing_panel)).
     selectedTick ((panel_step PlaybackTick ^^ n) playing_panel) = Some 3"
proof -
  have "length (tickValues (attackRows playing_panel)) \<ge> 2"
    by (simp only: playing_facts(3)) simp
  moreover have "\<forall>row \<in> set (attackRows playing_panel). 0 < am_tick row"
    "3 \<in> am_tick ` set (attackRows playing_panel)"
    by (simp_all add: playing_facts(1) sample_attack_def)
  ultimately show ?thesis
    using attack_map_playback_visits_every_tick [OF reachable_playing playing_facts(2)] by blast
qed

end
