(* ===== verification/Attack_Map_Data.thy ===== *)
theory Attack_Map_Data
  imports Attack_Map_Panel Attack_Sfx Http_Core "HOL-Library.Word"
begin

text \<open>
  The data side of the globe, from \<open>components/ui/cyber-attack-map.tsx\<close>: the bundling of attacks
  into routes, team statistics, the queue of featured attacks, the placement of teams on
  landmarks, the reading of the country outlines, and the placement of labels. Coordinates and
  label widths are exact rationals; scores of the featured queue are doubles. \<open>Math.log2\<close> is
  approximated by the host and is a parameter.
\<close>

unbundle bit_operations_syntax

section \<open>Lists, ticks and hashes\<close>

definition MAP_WIDTH :: rat where "MAP_WIDTH = 1000"

definition MAP_HEIGHT :: rat where "MAP_HEIGHT = 560"

definition LABEL_HEIGHT :: rat where "LABEL_HEIGHT = 40"

definition LABEL_PADDING_X :: rat where "LABEL_PADDING_X = 6"

definition LABEL_SAFE_INSET_X :: rat where "LABEL_SAFE_INSET_X = 24"

definition LABEL_SAFE_INSET_Y :: rat where "LABEL_SAFE_INSET_Y = 28"

definition LABEL_VERTICAL_GAP :: rat where "LABEL_VERTICAL_GAP = 14"

definition clamp :: "rat \<Rightarrow> rat \<Rightarrow> rat \<Rightarrow> rat" where
  "clamp value mn mx = min mx (max mn value)"

definition listAttackServices :: "AttackMapEvent list \<Rightarrow> string list" where
  "listAttackServices attacks = sorted_names (map am_service attacks)"

definition listAttackTeams :: "AttackMapEvent list \<Rightarrow> string list" where
  "listAttackTeams attacks = sorted_names (map am_attacker attacks @ map am_victim attacks)"

record tick_range =
  tr_max :: int
  tr_min :: int

definition getAttackTickRange :: "AttackMapEvent list \<Rightarrow> tick_range" where
  "getAttackTickRange attacks =
     (case attacks of
        [] \<Rightarrow> \<lparr>tr_max = 0, tr_min = 0\<rparr>
      | a # _ \<Rightarrow>
          foldl (\<lambda>range attack. \<lparr>tr_max = max (tr_max range) (am_tick attack),
                                  tr_min = min (tr_min range) (am_tick attack)\<rparr>)
            \<lparr>tr_max = am_tick a, tr_min = am_tick a\<rparr> attacks)"

definition getAttackRecency :: "int \<Rightarrow> tick_range \<Rightarrow> rat" where
  "getAttackRecency tick tickRange =
     (if tr_max tickRange \<le> tr_min tickRange then 1
      else clamp (dbl (of_int (tick - tr_min tickRange) / of_int (tr_max tickRange - tr_min tickRange))) 0 1)"

text \<open>
  The hash: the shift works on 32-bit signed integers, the additions on exact numbers (they stay far
  below \<open>2^53\<close>), and \<open>>>> 0\<close> takes the result modulo \<open>2^32\<close>.
\<close>

definition to_int32 :: "int \<Rightarrow> int" where
  "to_int32 n = (let m = n mod 2 ^ 32 in if m \<ge> 2 ^ 31 then m - 2 ^ 32 else m)"

definition hash_step :: "int \<Rightarrow> char \<Rightarrow> int" where
  "hash_step hash c = (to_int32 (to_int32 hash * 2 ^ 5) + hash + of_char c) mod 2 ^ 32"

definition hashString :: "string \<Rightarrow> int" where
  "hashString v = foldl hash_step 5381 v"

definition getAttackRegion :: "string \<Rightarrow> int" where
  "getAttackRegion teamName = hashString teamName mod 4"

record route_style =
  activeDash :: string
  activeDuration :: string
  activeWidth :: string
  featuredDuration :: string
  idleDash :: string
  idleDuration :: rat
  idleWidth :: string
  partialDash :: string

definition getServiceRouteStyle :: "string \<Rightarrow> route_style" where
  "getServiceRouteStyle service =
     (let normalized = toLowerCase service in
      if includes_str normalized ''redis''
      then \<lparr>activeDash = ''16 22 5 34'', activeDuration = ''2.75s'', activeWidth = ''3.1'',
            featuredDuration = ''1.65s'', idleDash = ''10 32'', idleDuration = 52 / 10, idleWidth = ''2'',
            partialDash = ''2 8''\<rparr>
      else if includes_str normalized ''postgres'' \<or> includes_str normalized ''db''
      then \<lparr>activeDash = ''42 34'', activeDuration = ''3.7s'', activeWidth = ''3.8'',
            featuredDuration = ''2.6s'', idleDash = ''28 48'', idleDuration = 66 / 10, idleWidth = ''2.5'',
            partialDash = ''6 9''\<rparr>
      else \<lparr>activeDash = ''28 34'', activeDuration = ''3.15s'', activeWidth = ''3.3'',
            featuredDuration = ''2.05s'', idleDash = ''18 46'', idleDuration = 58 / 10, idleWidth = ''2.2'',
            partialDash = ''2 9''\<rparr>)"

definition listPlacementTeams :: "string list \<Rightarrow> string list option \<Rightarrow> string list" where
  "listPlacementTeams attackTeamNames placementScopeTeams =
     (case placementScopeTeams of
        None \<Rightarrow> attackTeamNames
      | Some scope \<Rightarrow>
          if length scope = 0 then attackTeamNames else sorted_names (scope @ attackTeamNames))"

definition attackPalette :: "string list" where
  "attackPalette =
     [''var(--attack-map-route-1)'', ''var(--attack-map-route-2)'', ''var(--attack-map-route-3)'',
      ''var(--attack-map-route-4)'', ''var(--attack-map-route-5)'', ''var(--attack-map-route-6)'',
      ''var(--attack-map-route-7)'', ''var(--attack-map-route-8)'']"

definition buildServiceColors :: "string list \<Rightarrow> string \<Rightarrow> string option" where
  "buildServiceColors services =
     fold (\<lambda>(index, service) colors. colors(service \<mapsto> attackPalette ! (index mod length attackPalette)))
       (enumerate 0 services) Map.empty"

section \<open>Statistics\<close>

record TeamStats =
  incoming :: nat
  outgoing :: nat

definition stats_step :: "AttackMapEvent \<Rightarrow> (string \<Rightarrow> TeamStats option) \<Rightarrow> string \<Rightarrow> TeamStats option" where
  "stats_step attack stats =
     (let s1 = (case stats (am_attacker attack) of
            None \<Rightarrow> stats | Some t \<Rightarrow> stats(am_attacker attack \<mapsto> t\<lparr>outgoing := outgoing t + 1\<rparr>))
      in case s1 (am_victim attack) of
           None \<Rightarrow> s1 | Some t \<Rightarrow> s1(am_victim attack \<mapsto> t\<lparr>incoming := incoming t + 1\<rparr>))"

definition buildTeamStats :: "AttackMapEvent list \<Rightarrow> string list \<Rightarrow> string \<Rightarrow> TeamStats option" where
  "buildTeamStats attacks attackTeamNames =
     fold stats_step attacks
       (fold (\<lambda>name stats. stats(name \<mapsto> \<lparr>incoming = 0, outgoing = 0\<rparr>)) attackTeamNames Map.empty)"

section \<open>Routes\<close>

record AttackRoute = AttackMapEvent +
  attackIds :: "string list"
  rt_count :: nat

definition NUL :: char where
  "NUL = CHR 0x00"

definition route_key :: "AttackMapEvent \<Rightarrow> string" where
  "route_key attack = am_attacker attack @ [NUL] @ am_victim attack @ [NUL] @ am_service attack"

definition new_route :: "AttackMapEvent \<Rightarrow> AttackRoute" where
  "new_route attack = AttackMapEvent.extend attack (AttackRoute.fields [am_id attack] 1)"

definition extend_route :: "AttackMapEvent \<Rightarrow> AttackRoute \<Rightarrow> AttackRoute" where
  "extend_route attack existing =
     (let r = existing\<lparr>attackIds := attackIds existing @ [am_id attack], rt_count := rt_count existing + 1\<rparr>
      in if am_tick attack \<ge> am_tick existing
         then r\<lparr>am_id := am_id attack, am_tick := am_tick attack\<rparr> else r)"

text \<open>A \<open>Map\<close> in insertion order.\<close>

fun add_route :: "AttackMapEvent \<Rightarrow> (string \<times> AttackRoute) list \<Rightarrow> (string \<times> AttackRoute) list" where
  "add_route attack [] = [(route_key attack, new_route attack)]"
| "add_route attack ((k, r) # rest) =
     (if route_key attack = k then (k, extend_route attack r) # rest
      else (k, r) # add_route attack rest)"

definition route_compare :: "(string \<Rightarrow> string \<Rightarrow> int) \<Rightarrow> AttackRoute \<Rightarrow> AttackRoute \<Rightarrow> int" where
  "route_compare lc left right =
     (if am_tick left \<noteq> am_tick right then am_tick left - am_tick right
      else if lc (am_attacker left) (am_attacker right) \<noteq> 0
      then lc (am_attacker left) (am_attacker right)
      else if lc (am_victim left) (am_victim right) \<noteq> 0 then lc (am_victim left) (am_victim right)
      else lc (am_service left) (am_service right))"

definition bundleAttackRoutes :: "(string \<Rightarrow> string \<Rightarrow> int) \<Rightarrow> AttackMapEvent list \<Rightarrow> AttackRoute list" where
  "bundleAttackRoutes lc attacks =
     sort_cmp (\<lambda>l r. route_compare lc l r \<le> 0) (map snd (fold add_route attacks []))"

section \<open>The queue of featured attacks\<close>

definition counter :: "(string \<times> nat) list \<Rightarrow> string \<Rightarrow> nat option" where
  "counter = map_of"

definition scoreFeaturedAttack ::
    "(nat \<Rightarrow> js_num) \<Rightarrow> AttackMapEvent \<Rightarrow> tick_range \<Rightarrow> (string \<times> nat) list \<Rightarrow> (string \<times> nat) list \<Rightarrow> js_num" where
  "scoreFeaturedAttack log2 attack tickRange serviceCounts teamCounts =
     (let recency = getAttackRecency (am_tick attack) tickRange;
          serviceRarity = dbl (1 / of_nat (max 1 (coalesce (counter serviceCounts (am_service attack)) 1)));
          teamActivity = coalesce (counter teamCounts (am_attacker attack)) 0 +
            coalesce (counter teamCounts (am_victim attack)) 0;
          crossRegion = (if getAttackRegion (am_attacker attack) = getAttackRegion (am_victim attack)
            then 0 else 1)
      in js_add (js_add (js_add (to_double (recency * 7)) (to_double (crossRegion * dbl (24 / 10))))
           (to_double (serviceRarity * dbl (16 / 10)))) (log2 (teamActivity + 1)))"

definition falsy_num :: "js_num \<Rightarrow> bool" where
  "falsy_num x \<longleftrightarrow> x = NaN \<or> x = Finite 0"

definition featured_le ::
    "(string \<Rightarrow> string \<Rightarrow> int) \<Rightarrow> (AttackMapEvent \<Rightarrow> js_num) \<Rightarrow> AttackMapEvent \<Rightarrow> AttackMapEvent \<Rightarrow> bool" where
  "featured_le lc score left right =
     (let d = js_sub (score right) (score left) in
      if \<not> falsy_num d then js_less d (Finite 0)
      else if am_tick right \<noteq> am_tick left then am_tick right - am_tick left \<le> 0
      else lc (am_id left) (am_id right) \<le> 0)"

definition buildFeaturedAttackQueue ::
    "(nat \<Rightarrow> js_num) \<Rightarrow> (string \<Rightarrow> string \<Rightarrow> int) \<Rightarrow> AttackMapEvent list \<Rightarrow> AttackMapEvent list" where
  "buildFeaturedAttackQueue log2 lc attacks =
     (let tickRange = getAttackTickRange attacks;
          serviceCounts = fold (\<lambda>a. count_up (am_service a)) attacks [];
          teamCounts = fold (\<lambda>a c. count_up (am_victim a) (count_up (am_attacker a) c)) attacks []
      in sort_cmp (featured_le lc (\<lambda>a. scoreFeaturedAttack log2 a tickRange serviceCounts teamCounts)) attacks)"

section \<open>Landmarks\<close>

record Landmark = geo_point +
  lm_code :: string
  lm_name :: string

definition landmark :: "string \<Rightarrow> string \<Rightarrow> rat \<Rightarrow> rat \<Rightarrow> Landmark" where
  "landmark c n la lo = \<lparr>lat = la, lon = lo, lm_code = c, lm_name = n\<rparr>"

definition LANDMARKS :: "Landmark list" where
  "LANDMARKS =
     [landmark ''usa-central'' ''United States'' (396 / 10) (- 985 / 10),
      landmark ''uk-midlands'' ''United Kingdom'' (526 / 10) (- 15 / 10),
      landmark ''java-central'' ''Indonesia'' (- 74 / 10) 110,
      landmark ''usa-east'' ''US East'' (394 / 10) (- 778 / 10),
      landmark ''malaysia-peninsula'' ''Malaysia'' (42 / 10) 102,
      landmark ''germany-central'' ''Germany'' 51 (102 / 10),
      landmark ''australia-inland'' ''Australia'' (- 253 / 10) (1342 / 10),
      landmark ''canada-ontario'' ''Canada'' (505 / 10) (- 86),
      landmark ''arabia'' ''Arabian Peninsula'' (237 / 10) (453 / 10),
      landmark ''brazil-central'' ''Brazil'' (- 108 / 10) (- 527 / 10),
      landmark ''japan-honshu'' ''Japan'' 37 (1385 / 10),
      landmark ''east-africa'' ''East Africa'' (4 / 10) (378 / 10),
      landmark ''usa-west'' ''US West'' (392 / 10) (- 115),
      landmark ''india-central'' ''India'' (225 / 10) 79,
      landmark ''south-africa'' ''South Africa'' (- 29) 24,
      landmark ''south-china'' ''South China'' 25 110,
      landmark ''benelux'' ''Benelux'' (515 / 10) (52 / 10),
      landmark ''france-central'' ''France'' (466 / 10) (24 / 10)]"

text \<open>The same loop as the panel's \<open>teamLocations\<close>, over the attacks of the map.\<close>

definition getAttackProvidedLocations :: "AttackMapEvent list \<Rightarrow> string \<Rightarrow> geo_point option" where
  "getAttackProvidedLocations attacks =
     fold (\<lambda>attack locations.
       (let l1 = (case am_attackerLocation attack of
              None \<Rightarrow> locations | Some p \<Rightarrow> locations(am_attacker attack \<mapsto> p))
        in case am_victimLocation attack of None \<Rightarrow> l1 | Some p \<Rightarrow> l1(am_victim attack \<mapsto> p)))
       attacks Map.empty"

definition getLandmarkPlacements ::
    "string list \<Rightarrow> AttackMapEvent list \<Rightarrow> (string \<Rightarrow> geo_point option) \<Rightarrow> string \<Rightarrow> Landmark option" where
  "getLandmarkPlacements teamNames attacks locations =
     (let orderedTeams = sort_cmp (\<lambda>a b. ordinal_compare a b \<le> 0) teamNames;
          attackLocations = getAttackProvidedLocations attacks
      in fold (\<lambda>(index, team) placements.
           placements(team \<mapsto>
             (case (case locations team of Some p \<Rightarrow> Some p | None \<Rightarrow> attackLocations team) of
                Some p \<Rightarrow> \<lparr>lat = lat p, lon = lon p,
                           lm_code = ''provided-'' @ int_to_string (hashString team),
                           lm_name = ''Configured location''\<rparr>
              | None \<Rightarrow> LANDMARKS ! (index mod length LANDMARKS))))
           (enumerate 0 orderedTeams) Map.empty)"

section \<open>Country outlines\<close>

record globe_feature =
  ft_type :: string
  ft_coordinates :: json
  ft_name :: "string option"

record CountryRing =
  cr_id :: string
  cr_name :: string
  cr_points :: "geo_point list"

definition ring_point :: "json \<Rightarrow> (rat \<times> rat) list" where
  "ring_point coordinate =
     (case coordinate of JArr (JNum a # JNum b # _) \<Rightarrow> [(a, b)] | _ \<Rightarrow> [])"

definition parseLinearRing :: "json \<Rightarrow> (rat \<times> rat) list" where
  "parseLinearRing ring = (case ring of JArr cs \<Rightarrow> concat (map ring_point cs) | _ \<Rightarrow> [])"

definition parsePolygonCoordinates :: "json \<Rightarrow> (rat \<times> rat) list list list" where
  "parsePolygonCoordinates coordinates =
     (case coordinates of
        JArr rings \<Rightarrow>
          filter (\<lambda>polygon. length polygon > 0)
            [filter (\<lambda>ring. length ring \<ge> 3) (map parseLinearRing rings)]
      | _ \<Rightarrow> [])"

definition parseMultiPolygonCoordinates :: "json \<Rightarrow> (rat \<times> rat) list list list" where
  "parseMultiPolygonCoordinates coordinates =
     (case coordinates of JArr polygons \<Rightarrow> concat (map parsePolygonCoordinates polygons) | _ \<Rightarrow> [])"

definition getFeaturePolygons :: "globe_feature \<Rightarrow> (rat \<times> rat) list list list" where
  "getFeaturePolygons feature =
     (if ft_type feature = ''Polygon'' then parsePolygonCoordinates (ft_coordinates feature)
      else parseMultiPolygonCoordinates (ft_coordinates feature))"

definition feature_rings :: "nat \<Rightarrow> globe_feature \<Rightarrow> CountryRing list" where
  "feature_rings featureIndex feature =
     (let name = coalesce (ft_name feature) (''country-'' @ nat_to_string featureIndex)
      in concat (map (\<lambda>(polygonIndex, polygon).
           case polygon of
             [] \<Rightarrow> []
           | outerRing # _ \<Rightarrow>
               if length outerRing < 3 then []
               else [\<lparr>cr_id = nat_to_string featureIndex @ ''-'' @ nat_to_string polygonIndex,
                      cr_name = name,
                      cr_points = map (\<lambda>(lo, la). \<lparr>lat = la, lon = lo\<rparr>) outerRing\<rparr>])
           (enumerate 0 (getFeaturePolygons feature))))"

definition parseCountryRings :: "globe_feature list \<Rightarrow> CountryRing list" where
  "parseCountryRings features = concat (map (\<lambda>(i, f). feature_rings i f) (enumerate 0 features))"

section \<open>Labels\<close>

datatype label_anchor = Start | Middle | End

record ProjectedPoint = geo_point +
  pt_visible :: bool
  pt_x :: rat
  pt_y :: rat
  pt_z :: rat

text \<open>A node's identifier is its name.\<close>

record TeamNode = ProjectedPoint +
  nd_name :: string
  nd_landmark :: Landmark
  labelX :: rat
  labelY :: rat
  labelAnchor :: label_anchor
  nd_highlighted :: bool
  nd_selected :: bool
  nd_incoming :: nat
  nd_outgoing :: nat

definition getTeamLabelWidth :: "TeamNode \<Rightarrow> rat" where
  "getTeamLabelWidth node =
     (let titleWidth = of_nat (length (nd_name node)) * (65 / 10);
          metaWidth = of_nat (length (nat_to_string (nd_outgoing node) @ '' out'')) * (52 / 10)
      in clamp (max titleWidth metaWidth + 22) 82 178)"

definition getRawLabelWidth :: "string \<Rightarrow> rat" where
  "getRawLabelWidth v = clamp (of_nat (length v) * (62 / 10) + 22) 82 178"

record label_box =
  bx_bottom :: rat
  bx_left :: rat
  bx_right :: rat
  bx_top :: rat

definition getLabelBox :: "TeamNode \<Rightarrow> label_box" where
  "getLabelBox node =
     (let width = getTeamLabelWidth node;
          left = (case labelAnchor node of
              End \<Rightarrow> labelX node + LABEL_PADDING_X - width
            | Middle \<Rightarrow> labelX node - width / 2
            | Start \<Rightarrow> labelX node - LABEL_PADDING_X)
      in \<lparr>bx_bottom = labelY node + LABEL_HEIGHT / 2, bx_left = left, bx_right = left + width,
          bx_top = labelY node - LABEL_HEIGHT / 2\<rparr>)"

definition labelsOverlap :: "TeamNode \<Rightarrow> TeamNode \<Rightarrow> bool" where
  "labelsOverlap left right =
     (let l = getLabelBox left; r = getLabelBox right
      in \<not> (bx_right l < bx_left r \<or> bx_left l > bx_right r \<or> bx_bottom l < bx_top r \<or>
             bx_top l > bx_bottom r))"

definition clampLabelAnchorX :: "rat \<Rightarrow> rat \<Rightarrow> label_anchor \<Rightarrow> rat" where
  "clampLabelAnchorX preferredX width anchor =
     (case anchor of
        End \<Rightarrow> clamp preferredX (LABEL_SAFE_INSET_X + width - LABEL_PADDING_X)
                 (MAP_WIDTH - LABEL_SAFE_INSET_X - LABEL_PADDING_X)
      | Middle \<Rightarrow> clamp preferredX (LABEL_SAFE_INSET_X + width / 2)
                 (MAP_WIDTH - LABEL_SAFE_INSET_X - width / 2)
      | Start \<Rightarrow> clamp preferredX (LABEL_SAFE_INSET_X + LABEL_PADDING_X)
                 (MAP_WIDTH - LABEL_SAFE_INSET_X - width + LABEL_PADDING_X))"

definition clamp_y :: "rat \<Rightarrow> rat" where
  "clamp_y y = clamp y (LABEL_SAFE_INSET_Y + LABEL_HEIGHT / 2)
     (MAP_HEIGHT - LABEL_SAFE_INSET_Y - LABEL_HEIGHT / 2)"

text \<open>
  The nodes are objects that the sort and the list of placed nodes share; each carries the index of
  its place in the array, by which the result finds the moved labels again.
\<close>

definition label_le :: "nat \<times> TeamNode \<Rightarrow> nat \<times> TeamNode \<Rightarrow> bool" where
  "label_le l r =
     (let d = labelY (snd l) - labelY (snd r) in
      if d \<noteq> 0 then d \<le> 0 else labelX (snd l) - labelX (snd r) \<le> 0)"

definition place_label :: "nat \<times> TeamNode \<Rightarrow> (nat \<times> TeamNode) list \<Rightarrow> (nat \<times> TeamNode) list" where
  "place_label inode placed =
     (let node = snd inode;
          nextY = foldl (\<lambda>y p. if labelsOverlap (node\<lparr>labelY := y\<rparr>) (snd p)
                                then labelY (snd p) + LABEL_HEIGHT + LABEL_VERTICAL_GAP else y)
                    (labelY node) placed;
          node1 = node\<lparr>labelY := clamp_y nextY\<rparr>;
          node2 = node1\<lparr>labelX := clampLabelAnchorX (labelX node) (getTeamLabelWidth node) (labelAnchor node)\<rparr>
      in placed @ [(fst inode, node2)])"

definition placed_labels :: "TeamNode list \<Rightarrow> (nat \<times> TeamNode) list" where
  "placed_labels nodes =
     fold place_label (sort_cmp label_le (filter (\<lambda>(_, n). pt_visible n) (enumerate 0 nodes))) []"

definition label_overflow :: "TeamNode list \<Rightarrow> rat" where
  "label_overflow nodes =
     fold max (map (\<lambda>(_, n). labelY n + LABEL_HEIGHT / 2 - (MAP_HEIGHT - LABEL_SAFE_INSET_Y))
       (placed_labels nodes)) 0"

definition resolveLabelCollisions :: "TeamNode list \<Rightarrow> TeamNode list" where
  "resolveLabelCollisions nodes =
     (let placed = placed_labels nodes;
          overflow = label_overflow nodes;
          moved = (if overflow > 0
            then map (\<lambda>(i, n). (i, n\<lparr>labelY := clamp_y (labelY n - overflow)\<rparr>)) placed else placed)
      in map (\<lambda>(i, n). coalesce (map_of moved i) n) (enumerate 0 nodes))"

definition shouldShowTeamLabel :: "TeamNode \<Rightarrow> string option \<Rightarrow> string set \<Rightarrow> bool" where
  "shouldShowTeamLabel node hoveredTeamId focused \<longleftrightarrow>
     nd_highlighted node \<or> nd_selected node \<or> hoveredTeamId = Some (nd_name node) \<or> nd_name node \<in> focused"

definition isFeaturedTeam :: "TeamNode \<Rightarrow> AttackMapEvent option \<Rightarrow> bool" where
  "isFeaturedTeam node featuredAttack =
     (case featuredAttack of
        None \<Rightarrow> False
      | Some a \<Rightarrow> nd_name node = am_attacker a \<or> nd_name node = am_victim a)"

section \<open>Labels stay on the map\<close>

lemma clamp_bounds: "mn \<le> mx \<Longrightarrow> mn \<le> clamp v mn mx \<and> clamp v mn mx \<le> mx"
  by (auto simp: clamp_def)

lemma label_width: "82 \<le> getTeamLabelWidth n" "getTeamLabelWidth n \<le> 178"
  using clamp_bounds [of 82 178] by (simp_all add: getTeamLabelWidth_def Let_def)

lemma label_width_update [simp]:
  "getTeamLabelWidth (n\<lparr>labelX := x\<rparr>) = getTeamLabelWidth n"
  "getTeamLabelWidth (n\<lparr>labelY := y\<rparr>) = getTeamLabelWidth n"
  by (simp_all add: getTeamLabelWidth_def)

definition inside :: "TeamNode \<Rightarrow> bool" where
  "inside n \<longleftrightarrow> (let b = getLabelBox n in
     24 \<le> bx_left b \<and> bx_right b \<le> 976 \<and> 28 \<le> bx_top b \<and> bx_bottom b \<le> 532)"

lemmas label_constants = MAP_WIDTH_def MAP_HEIGHT_def LABEL_HEIGHT_def LABEL_PADDING_X_def
  LABEL_SAFE_INSET_X_def LABEL_SAFE_INSET_Y_def LABEL_VERTICAL_GAP_def

lemma clamp_y_bounds: "48 \<le> clamp_y y" "clamp_y y \<le> 512"
  by (simp_all add: clamp_y_def clamp_def label_constants)

lemma clampLabelAnchorX_inside:
  "inside (n\<lparr>labelY := clamp_y y, labelX := clampLabelAnchorX x (getTeamLabelWidth n) (labelAnchor n)\<rparr>)"
  using label_width [of n] clamp_y_bounds [of y]
  by (cases "labelAnchor n")
    (auto simp: inside_def getLabelBox_def Let_def clampLabelAnchorX_def clamp_def label_constants
      max_def min_def)

lemma place_label_inside:
  "\<exists>n. place_label inode placed = placed @ [(fst inode, n)] \<and> inside n \<and> labelY n \<le> 512 \<and>
     pt_visible n = pt_visible (snd inode) \<and> nd_name n = nd_name (snd inode)"
proof -
  obtain y where p: "place_label inode placed = placed @ [(fst inode,
      (snd inode)\<lparr>labelY := clamp_y y, labelX := clampLabelAnchorX (labelX (snd inode))
         (getTeamLabelWidth (snd inode)) (labelAnchor (snd inode))\<rparr>)]"
    by (auto simp: place_label_def Let_def)
  then show ?thesis
    using clampLabelAnchorX_inside [where n = "snd inode" and x = "labelX (snd inode)" and y = y] clamp_y_bounds(2) [of y]
    by simp
qed

lemma placed_labels_facts:
  "map fst (fold place_label xs placed) = map fst placed @ map fst xs \<and>
   (list_all (\<lambda>(_, n). inside n \<and> labelY n \<le> 512) placed \<longrightarrow>
    list_all (\<lambda>(_, n). inside n \<and> labelY n \<le> 512) (fold place_label xs placed))"
proof (induction xs arbitrary: placed)
  case (Cons x xs)
  obtain n where "place_label x placed = placed @ [(fst x, n)]" "inside n" "labelY n \<le> 512"
    using place_label_inside by blast
  with Cons [of "place_label x placed"] show ?case by simp
qed simp

lemma fold_max_nonpos: "\<forall>x \<in> set xs. x \<le> (0::rat) \<Longrightarrow> fold max xs 0 = 0"
  by (induction xs) (auto simp: max_def)

lemma label_overflow_zero: "label_overflow nodes = 0"
proof -
  have "list_all (\<lambda>(_, n). inside n \<and> labelY n \<le> 512) (placed_labels nodes)"
    unfolding placed_labels_def using placed_labels_facts [of _ "[]"] by simp
  then show ?thesis
    unfolding label_overflow_def
    by (intro fold_max_nonpos) (auto simp: list_all_iff label_constants)
qed

lemma placed_index:
  "i < length nodes \<Longrightarrow> pt_visible (nodes ! i) \<Longrightarrow> i \<in> fst ` set (placed_labels nodes)"
proof -
  assume i: "i < length nodes" "pt_visible (nodes ! i)"
  have "map fst (placed_labels nodes)
      = map fst (sort_cmp label_le (filter (\<lambda>(_, n). pt_visible n) (enumerate 0 nodes)))"
    unfolding placed_labels_def using placed_labels_facts [of _ "[]"] by simp
  then have "fst ` set (placed_labels nodes) = fst ` set (filter (\<lambda>(_, n). pt_visible n) (enumerate 0 nodes))"
    by (metis list.set_map set_sort_cmp)
  moreover have "(i, nodes ! i) \<in> set (enumerate 0 nodes)"
    using i(1) by (simp add: in_set_enumerate_eq)
  ultimately show ?thesis using i(2) by force
qed

section \<open>Routes keep every attack\<close>

lemma new_route_fields [simp]:
  "attackIds (new_route a) = [am_id a]" "rt_count (new_route a) = 1" "am_id (new_route a) = am_id a"
  "am_tick (new_route a) = am_tick a" "am_attacker (new_route a) = am_attacker a"
  "am_victim (new_route a) = am_victim a" "am_service (new_route a) = am_service a"
  by (simp_all add: new_route_def AttackMapEvent.defs AttackRoute.defs)

lemma extend_route_fields [simp]:
  "attackIds (extend_route a r) = attackIds r @ [am_id a]" "rt_count (extend_route a r) = rt_count r + 1"
  "am_tick (extend_route a r) = max (am_tick r) (am_tick a)"
  "am_id (extend_route a r) = (if am_tick r \<le> am_tick a then am_id a else am_id r)"
  "am_attacker (extend_route a r) = am_attacker r" "am_victim (extend_route a r) = am_victim r"
  "am_service (extend_route a r) = am_service r"
  by (simp_all add: extend_route_def Let_def)

lemma route_key_inject:
  assumes "NUL \<notin> set (am_attacker a)" "NUL \<notin> set (am_victim a)"
    and "NUL \<notin> set (am_attacker b)" "NUL \<notin> set (am_victim b)"
  shows "route_key a = route_key b \<longleftrightarrow>
     am_attacker a = am_attacker b \<and> am_victim a = am_victim b \<and> am_service a = am_service b"
proof -
  have split: "x = x' \<and> y = y'"
    if "c \<notin> set x" "c \<notin> set x'" "x @ c # y = x' @ c # y'" for x x' y y' :: string and c
    using that
  proof (induction x arbitrary: x')
    case Nil
    then show ?case by (cases x') auto
  next
    case (Cons d x)
    then show ?case by (cases x') auto
  qed
  show ?thesis
  proof
    assume "route_key a = route_key b"
    then have eq: "am_attacker a @ NUL # (am_victim a @ NUL # am_service a)
        = am_attacker b @ NUL # (am_victim b @ NUL # am_service b)"
      by (simp add: route_key_def)
    from split [OF assms(1,3) eq] have att: "am_attacker a = am_attacker b"
      and rest: "am_victim a @ NUL # am_service a = am_victim b @ NUL # am_service b" by blast+
    from split [OF assms(2,4) rest] att
    show "am_attacker a = am_attacker b \<and> am_victim a = am_victim b \<and> am_service a = am_service b"
      by blast
  qed (simp add: route_key_def)
qed

text \<open>The route of a key: what the attacks with that key amount to.\<close>

definition route_ok :: "AttackMapEvent list \<Rightarrow> string \<times> AttackRoute \<Rightarrow> bool" where
  "route_ok attacks kr \<longleftrightarrow> (let mine = filter (\<lambda>a. route_key a = fst kr) attacks; r = snd kr in
     mine \<noteq> [] \<and> attackIds r = map am_id mine \<and> rt_count r = length mine \<and>
     am_tick r = Max (am_tick ` set mine) \<and>
     (\<exists>a \<in> set mine. am_id r = am_id a \<and> am_tick r = am_tick a) \<and>
     (\<exists>a \<in> set mine. am_attacker r = am_attacker a \<and> am_victim r = am_victim a \<and>
        am_service r = am_service a))"

lemma route_ok_other: "route_ok attacks kr \<Longrightarrow> route_key a \<noteq> fst kr \<Longrightarrow> route_ok (attacks @ [a]) kr"
  by (simp add: route_ok_def)

lemma route_ok_extend:
  assumes "route_ok attacks (route_key a, r)"
  shows "route_ok (attacks @ [a]) (route_key a, extend_route a r)"
proof -
  define mine where "mine = filter (\<lambda>b. route_key b = route_key a) attacks"
  have ne: "mine \<noteq> []" and t: "am_tick r = Max (am_tick ` set mine)"
    using assms by (simp_all add: route_ok_def mine_def Let_def)
  have "Max (insert (am_tick a) (am_tick ` set mine)) = max (am_tick a) (Max (am_tick ` set mine))"
    using ne by (intro Max_insert) auto
  then have mx: "Max (am_tick ` set (mine @ [a])) = max (am_tick r) (am_tick a)"
    by (simp add: t max.commute)
  show ?thesis
    using assms mx unfolding route_ok_def fst_conv snd_conv filter_append mine_def [symmetric] Let_def
    by (auto simp: max_def split: if_splits)
qed

lemma add_route_ok:
  assumes "list_all (route_ok attacks) rs" and "distinct (map fst rs)"
    and "\<forall>b \<in> set attacks. route_key b \<in> fst ` set rs"
  shows "list_all (route_ok (attacks @ [a])) (add_route a rs) \<and> distinct (map fst (add_route a rs)) \<and>
     fst ` set (add_route a rs) = insert (route_key a) (fst ` set rs)"
proof -
  have main: "list_all (route_ok (attacks @ [a])) (add_route a rs') \<and>
      distinct (map fst (add_route a rs')) \<and>
      fst ` set (add_route a rs') = insert (route_key a) (fst ` set rs')"
    if "list_all (route_ok attacks) rs'" "distinct (map fst rs')"
      "route_key a \<notin> fst ` set rs' \<Longrightarrow> route_key a \<notin> route_key ` set attacks" for rs'
    using that
  proof (induction rs')
    case Nil
    have none: "filter (\<lambda>b. route_key b = route_key a) attacks = []"
      using Nil.prems(3) by (auto simp: filter_empty_conv image_iff)
    show ?case unfolding route_ok_def add_route.simps by (simp add: none del: set_filter)
  next
    case (Cons kr rest)
    obtain k r where kr: "kr = (k, r)" by (cases kr)
    show ?case
    proof (cases "route_key a = k")
      case True
      have "list_all (route_ok (attacks @ [a])) rest"
        using Cons.prems True kr route_ok_other by (force simp: list_all_iff)
      with True Cons.prems kr route_ok_extend [of attacks a r] show ?thesis by simp
    next
      case False
      have "route_ok (attacks @ [a]) kr" using Cons.prems False kr route_ok_other by simp
      with False Cons kr show ?thesis by auto
    qed
  qed
  show ?thesis
    by (rule main [OF assms(1,2)]) (use assms(3) in auto)
qed

lemma bundle_fold_ok:
  "list_all (route_ok attacks) (fold add_route attacks []) \<and> distinct (map fst (fold add_route attacks [])) \<and>
   fst ` set (fold add_route attacks []) = route_key ` set attacks"
proof (induction attacks rule: rev_induct)
  case (snoc a attacks)
  then show ?case
    using add_route_ok [of attacks "fold add_route attacks []" a] by auto
qed simp

section \<open>Statistics and hashes\<close>

lemma stats_step_none: "stats_step a s n = None \<longleftrightarrow> s n = None"
  by (auto simp: stats_step_def Let_def split: option.splits if_splits)

lemma stats_step_some:
  assumes "s n = Some t"
  shows "stats_step a s n = Some \<lparr>incoming = incoming t + (if am_victim a = n then 1 else 0),
     outgoing = outgoing t + (if am_attacker a = n then 1 else 0)\<rparr>"
  using assms by (auto simp: stats_step_def Let_def split: option.splits)

lemma fold_stats_step:
  "s n = Some t \<Longrightarrow> fold stats_step attacks s n =
     Some \<lparr>incoming = incoming t + length (filter (\<lambda>a. am_victim a = n) attacks),
           outgoing = outgoing t + length (filter (\<lambda>a. am_attacker a = n) attacks)\<rparr>"
proof (induction attacks arbitrary: s t)
  case (Cons a attacks)
  show ?case
    using Cons.IH [of "stats_step a s"] stats_step_some [of s n t a] Cons.prems by simp
qed simp

lemma initial_stats:
  "n \<in> set names \<Longrightarrow>
     fold (\<lambda>name stats. stats(name \<mapsto> \<lparr>incoming = 0, outgoing = 0\<rparr>)) names s n
       = Some \<lparr>incoming = 0, outgoing = 0\<rparr>"
proof (induction names arbitrary: s)
  case (Cons m names)
  have keep: "s n = Some x \<Longrightarrow>
      fold (\<lambda>name stats. stats(name \<mapsto> x)) names s n = Some x" for s x
    by (induction names arbitrary: s) auto
  show ?case
    using Cons keep [of "s(m \<mapsto> \<lparr>incoming = 0, outgoing = 0\<rparr>)"]
    by (cases "n \<in> set names") (auto simp del: fun_upd_apply simp: fun_upd_same)
qed simp

text \<open>The hash is the polynomial hash with multiplier 33 on 32-bit words.\<close>

lemma to_int32_mod: "to_int32 n mod 2 ^ 32 = n mod 2 ^ 32"
proof -
  have "(n mod 2 ^ 32 - 2 ^ 32) mod 2 ^ 32 = n mod (2 ^ 32 :: int)"
    by (metis minus_mod_self2 mod_mod_trivial)
  then show ?thesis by (simp add: to_int32_def Let_def)
qed

lemma hash_step_mod: "hash_step h c = (33 * h + of_char c) mod 2 ^ 32"
proof -
  let ?m = "2 ^ 32 :: int"
  have "to_int32 (to_int32 h * 2 ^ 5) mod ?m = (to_int32 h * 2 ^ 5) mod ?m" by (rule to_int32_mod)
  also have "\<dots> = (h * 2 ^ 5) mod ?m" by (metis to_int32_mod mod_mult_left_eq)
  finally have "to_int32 (to_int32 h * 2 ^ 5) mod ?m = (h * 2 ^ 5) mod ?m" .
  then have "(to_int32 (to_int32 h * 2 ^ 5) + (h + of_char c)) mod ?m = (h * 2 ^ 5 + (h + of_char c)) mod ?m"
    by (rule mod_add_cong) simp
  then show ?thesis by (simp add: hash_step_def algebra_simps)
qed

lemma hashString_word:
  "(word_of_int (hashString s) :: 32 word) = foldl (\<lambda>h c. 33 * h + of_char c) 5381 s"
proof -
  have step: "(word_of_int (hash_step h c) :: 32 word) = 33 * word_of_int h + of_char c" for h c
  proof -
    have "(word_of_int (n mod 2 ^ 32) :: 32 word) = word_of_int n" for n
      by (simp add: word_of_int_eq_iff take_bit_eq_mod)
    moreover have "(word_of_int (of_char c) :: 32 word) = of_char c"
      using of_int_of_char [of c, where 'a = "32 word"] by simp
    ultimately show ?thesis by (simp add: hash_step_mod)
  qed
  have "(word_of_int (foldl hash_step h s) :: 32 word)
      = foldl (\<lambda>h c. 33 * h + of_char c) (word_of_int h) s" for h
    by (induction s arbitrary: h) (simp_all add: step)
  then show ?thesis by (simp add: hashString_def)
qed

lemma hashString_range: "0 \<le> hashString s \<and> hashString s < 2 ^ 32"
proof (cases s rule: rev_cases)
  case (snoc t c)
  then show ?thesis by (simp add: hashString_def hash_step_def)
qed (simp add: hashString_def)

lemma add_route_mset:
  "mset (concat (map (attackIds \<circ> snd) (add_route a rs)))
     = add_mset (am_id a) (mset (concat (map (attackIds \<circ> snd) rs)))"
  by (induction a rs rule: add_route.induct) auto

lemma fold_add_route_mset:
  "mset (concat (map (attackIds \<circ> snd) (fold add_route attacks rs)))
     = mset (map am_id attacks) + mset (concat (map (attackIds \<circ> snd) rs))"
  by (induction attacks arbitrary: rs) (simp_all add: add_route_mset)

lemma mset_concat_perm:
  assumes "mset xs = mset ys"
  shows "mset (concat (map f xs)) = mset (concat (map f ys))"
proof -
  have "mset (concat (map f zs)) = sum_mset (image_mset (\<lambda>x. mset (f x)) (mset zs))" for zs
    by (induction zs) simp_all
  with assms show ?thesis by simp
qed

definition same_route :: "AttackMapEvent \<Rightarrow> AttackRoute \<Rightarrow> bool" where
  "same_route a r \<longleftrightarrow>
     am_attacker a = am_attacker r \<and> am_victim a = am_victim r \<and> am_service a = am_service r"

lemma route_ok_triple:
  assumes ok: "route_ok attacks (k, r)"
    and plain: "\<forall>a \<in> set attacks. NUL \<notin> set (am_attacker a) \<and> NUL \<notin> set (am_victim a)"
  shows "\<forall>a \<in> set attacks. route_key a = k \<longleftrightarrow> same_route a r"
proof -
  have "\<exists>b \<in> set (filter (\<lambda>a. route_key a = k) attacks).
      am_attacker r = am_attacker b \<and> am_victim r = am_victim b \<and> am_service r = am_service b"
    using ok unfolding route_ok_def Let_def fst_conv snd_conv by blast
  then obtain b where b: "b \<in> set attacks" "route_key b = k" "same_route b r"
    by (auto simp: same_route_def)
  have "route_key a = route_key b \<longleftrightarrow> same_route a r" if "a \<in> set attacks" for a
    using route_key_inject [of a b] plain that b by (auto simp: same_route_def)
  then show ?thesis using b(2) by simp
qed

lemma distinct_routes:
  assumes "list_all (route_ok attacks) rs" and "distinct (map fst rs)"
    and plain: "\<forall>a \<in> set attacks. NUL \<notin> set (am_attacker a) \<and> NUL \<notin> set (am_victim a)"
  shows "distinct (map (\<lambda>(k, r). (am_attacker r, am_victim r, am_service r)) rs)"
proof -
  have "inj_on (\<lambda>(k, r). (am_attacker r, am_victim r, am_service r)) (set rs)"
  proof (rule inj_onI, clarify)
    fix k r k' r'
    assume in1: "(k, r) \<in> set rs" and in2: "(k', r') \<in> set rs"
      and eq: "am_attacker r = am_attacker r'" "am_victim r = am_victim r'" "am_service r = am_service r'"
    have ok: "route_ok attacks (k, r)" "route_ok attacks (k', r')"
      using assms(1) in1 in2 by (auto simp: list_all_iff)
    have "filter (\<lambda>a. route_key a = k) attacks \<noteq> []"
      using ok(1) unfolding route_ok_def Let_def fst_conv snd_conv by blast
    then obtain a where a: "a \<in> set attacks" "route_key a = k" by (auto simp: filter_empty_conv)
    have "same_route a r" using route_ok_triple [OF ok(1) plain] a by blast
    then have "same_route a r'" using eq by (simp add: same_route_def)
    then have "k = k'" using route_ok_triple [OF ok(2) plain] a by blast
    with in1 in2 assms(2) show "k = k' \<and> r = r'"
      by (metis eq_key_imp_eq_value)
  qed
  moreover have "distinct rs" using assms(2) by (simp add: distinct_map)
  ultimately show ?thesis by (simp add: distinct_map)
qed

section \<open>The properties\<close>

text \<open>
  C33. Routes lose no attack. Bundling partitions the attacks by attacker, victim and service: no
  two routes share the three, every attack appears in exactly one route, and each route lists
  exactly its attacks in order, counts them, and carries the largest tick among them and the
  identifier of an attack with that tick (team names without the separator character).
\<close>

theorem bundleAttackRoutes_partition:
  assumes "\<forall>a \<in> set attacks. NUL \<notin> set (am_attacker a) \<and> NUL \<notin> set (am_victim a)"
  shows "distinct (map (\<lambda>r. (am_attacker r, am_victim r, am_service r)) (bundleAttackRoutes lc attacks)) \<and>
     mset (concat (map attackIds (bundleAttackRoutes lc attacks))) = mset (map am_id attacks) \<and>
     list_all (\<lambda>r. let mine = filter (\<lambda>a. same_route a r) attacks in
         mine \<noteq> [] \<and> attackIds r = map am_id mine \<and> rt_count r = length mine \<and>
         am_tick r = Max (am_tick ` set mine) \<and>
         (\<exists>a \<in> set mine. am_id r = am_id a \<and> am_tick r = am_tick a))
       (bundleAttackRoutes lc attacks)"
proof -
  let ?rs = "fold add_route attacks []"
  have ok: "list_all (route_ok attacks) ?rs" "distinct (map fst ?rs)" using bundle_fold_ok by blast+
  have perm: "mset (bundleAttackRoutes lc attacks) = mset (map snd ?rs)"
    by (simp add: bundleAttackRoutes_def)
  have "distinct (map (\<lambda>r. (am_attacker r, am_victim r, am_service r)) (map snd ?rs))"
    using distinct_routes [OF ok assms] by (simp add: case_prod_beta' comp_def)
  moreover have "mset (map (\<lambda>r. (am_attacker r, am_victim r, am_service r)) (bundleAttackRoutes lc attacks))
      = mset (map (\<lambda>r. (am_attacker r, am_victim r, am_service r)) (map snd ?rs))"
    by (simp only: mset_map perm)
  ultimately have d: "distinct (map (\<lambda>r. (am_attacker r, am_victim r, am_service r)) (bundleAttackRoutes lc attacks))"
    by (rule mset_eq_imp_distinct_iff [THEN iffD2, rotated])
  have "mset (concat (map attackIds (bundleAttackRoutes lc attacks)))
      = mset (concat (map attackIds (map snd ?rs)))"
    by (rule mset_concat_perm [OF perm])
  also have "\<dots> = mset (concat (map (attackIds \<circ> snd) ?rs))" by simp
  also have "\<dots> = mset (map am_id attacks)" using fold_add_route_mset [of attacks "[]"] by simp
  finally have m: "mset (concat (map attackIds (bundleAttackRoutes lc attacks))) = mset (map am_id attacks)" .
  have "let mine = filter (\<lambda>a. same_route a r) attacks in
         mine \<noteq> [] \<and> attackIds r = map am_id mine \<and> rt_count r = length mine \<and>
         am_tick r = Max (am_tick ` set mine) \<and>
         (\<exists>a \<in> set mine. am_id r = am_id a \<and> am_tick r = am_tick a)"
    if "r \<in> set (bundleAttackRoutes lc attacks)" for r
  proof -
    from that have "r \<in> set (map snd ?rs)" using perm by (metis set_mset_mset)
    then obtain k where k: "(k, r) \<in> set ?rs" by auto
    then have rk: "route_ok attacks (k, r)" using ok(1) by (auto simp: list_all_iff)
    have eq: "filter (\<lambda>a. same_route a r) attacks = filter (\<lambda>a. route_key a = k) attacks"
      using route_ok_triple [OF rk assms] by (intro filter_cong) auto
    show ?thesis
      using rk unfolding eq unfolding route_ok_def Let_def fst_conv snd_conv by (elim conjE) (intro conjI)
  qed
  with d m show ?thesis unfolding list_all_iff by blast
qed

theorem bundleAttackRoutes_partition_witness:
  "mset (concat (map attackIds (bundleAttackRoutes ordinal_compare
      [sample_attack ''a'' 3, sample_attack ''b'' 7]))) = {#''a'', ''b''#}"
proof -
  have "\<forall>a \<in> set [sample_attack ''a'' 3, sample_attack ''b'' 7].
      NUL \<notin> set (am_attacker a) \<and> NUL \<notin> set (am_victim a)"
    by (simp add: sample_attack_def NUL_def)
  from bundleAttackRoutes_partition [OF this, of ordinal_compare] show ?thesis
    by (simp add: sample_attack_def)
qed

text \<open>
  Team statistics and regions. Every team that appears in an attack has statistics, and they
  count the attacks on it and by it; a team's colour region is the 33-multiplier hash of its name
  on 32-bit words, reduced modulo 4, so it is one of four.
\<close>

lemma team_statistics_count:
  "(n \<in> am_attacker ` set attacks \<union> am_victim ` set attacks \<longrightarrow>
     buildTeamStats attacks (listAttackTeams attacks) n
       = Some \<lparr>incoming = length (filter (\<lambda>a. am_victim a = n) attacks),
               outgoing = length (filter (\<lambda>a. am_attacker a = n) attacks)\<rparr>) \<and>
   getAttackRegion n = uint (foldl (\<lambda>h c. 33 * h + of_char c) (5381 :: 32 word) n) mod 4 \<and>
   getAttackRegion n \<in> {0..3}"
proof -
  have "buildTeamStats attacks (listAttackTeams attacks) n
      = Some \<lparr>incoming = length (filter (\<lambda>a. am_victim a = n) attacks),
              outgoing = length (filter (\<lambda>a. am_attacker a = n) attacks)\<rparr>"
    if "n \<in> am_attacker ` set attacks \<union> am_victim ` set attacks"
  proof -
    have "n \<in> set (listAttackTeams attacks)"
      using that by (simp add: listAttackTeams_def sorted_names_def)
    then have z: "fold (\<lambda>name stats. stats(name \<mapsto> \<lparr>incoming = 0, outgoing = 0\<rparr>))
        (listAttackTeams attacks) Map.empty n = Some \<lparr>incoming = 0, outgoing = 0\<rparr>"
      by (rule initial_stats)
    show ?thesis
      unfolding buildTeamStats_def
      by (subst fold_stats_step [where n = n and t = "\<lparr>incoming = 0, outgoing = 0\<rparr>"], rule z) simp
  qed
  moreover have "uint (foldl (\<lambda>h c. 33 * h + of_char c) (5381 :: 32 word) n) = hashString n"
    using hashString_range [of n] unfolding hashString_word [symmetric]
    by (simp add: uint_word_of_int)
  ultimately show ?thesis by (simp add: getAttackRegion_def)
qed

lemma team_statistics_count_witness:
  "buildTeamStats [sample_attack ''a'' 3] (listAttackTeams [sample_attack ''a'' 3]) ''blue''
     = Some \<lparr>incoming = 1, outgoing = 0\<rparr>"
  using team_statistics_count [of "''blue''" "[sample_attack ''a'' 3]"]
  by (simp add: sample_attack_def)

text \<open>
  C34. Labels stay on the map. After collisions are resolved the plate of every visible team label
  lies inside the safe area of the map, between 24 and 976 across and between 28 and 532 down.
\<close>

theorem labels_stay_on_map:
  assumes "i < length nodes" and "pt_visible (nodes ! i)"
  shows "let b = getLabelBox (resolveLabelCollisions nodes ! i) in
     24 \<le> bx_left b \<and> bx_right b \<le> 976 \<and> 28 \<le> bx_top b \<and> bx_bottom b \<le> 532"
proof -
  have "list_all (\<lambda>(_, n). inside n \<and> labelY n \<le> 512) (placed_labels nodes)"
    unfolding placed_labels_def using placed_labels_facts [of _ "[]"] by simp
  moreover obtain n where n: "map_of (placed_labels nodes) i = Some n"
    using placed_index [OF assms] by (metis not_None_eq map_of_eq_None_iff)
  ultimately have "inside n" using map_of_SomeD [OF n] by (auto simp: list_all_iff)
  moreover have "resolveLabelCollisions nodes ! i = n"
    using n assms(1) by (simp add: resolveLabelCollisions_def label_overflow_zero nth_enumerate_eq)
  ultimately show ?thesis by (simp add: inside_def)
qed

definition sample_node :: "string \<Rightarrow> TeamNode" where
  "sample_node n = \<lparr>lat = 0, lon = 0, pt_visible = True, pt_x = 500, pt_y = 500, pt_z = 1, nd_name = n,
     nd_landmark = LANDMARKS ! 0, labelX = 500, labelY = 512, labelAnchor = Middle,
     nd_highlighted = False, nd_selected = False, nd_incoming = 0, nd_outgoing = 1\<rparr>"

theorem labels_stay_on_map_witness:
  "let b = getLabelBox (resolveLabelCollisions [sample_node ''red'', sample_node ''blue''] ! 1) in
     24 \<le> bx_left b \<and> bx_right b \<le> 976 \<and> 28 \<le> bx_top b \<and> bx_bottom b \<le> 532"
  by (rule labels_stay_on_map) (simp_all add: sample_node_def)

text \<open>
  The correction for labels that overflow the bottom never happens: the overflow it measures is
  always zero, because the labels were clamped before, and two labels at the bottom stay on top of
  each other.
\<close>

lemma label_overflow_never_corrected:
  "label_overflow nodes = 0 \<and>
   labelsOverlap (resolveLabelCollisions [sample_node ''red'', sample_node ''blue''] ! 0)
     (resolveLabelCollisions [sample_node ''red'', sample_node ''blue''] ! 1)"
proof -
  have "labelsOverlap (resolveLabelCollisions [sample_node ''red'', sample_node ''blue''] ! 0)
     (resolveLabelCollisions [sample_node ''red'', sample_node ''blue''] ! 1)"
    by code_simp
  then show ?thesis using label_overflow_zero by blast
qed

end
