(* ===== verification/Globe_Projection.thy ===== *)
theory Globe_Projection
  imports Attack_Map_Data
begin

text \<open>
  The geometry of the globe in \<open>components/ui/cyber-attack-map.tsx\<close>: projection, visibility, the
  rotation that shows a featured attack, the paths of arcs and outlines, and the scene of nodes and
  arcs the component draws. Numbers are exact rationals (the rounding of doubles is left out), and
  the functions of \<open>Math\<close> that the host approximates are the fields of the record \<open>math\<close>, an
  argument of every definition that uses them.
\<close>

record math =
  m_pi :: rat
  m_sin :: "rat \<Rightarrow> rat"
  m_cos :: "rat \<Rightarrow> rat"
  m_sqrt :: "rat \<Rightarrow> rat"

text \<open>\<open>Math.hypot\<close> on two arguments is the root of the sum of the squares.\<close>

definition m_hypot :: "math \<Rightarrow> rat \<Rightarrow> rat \<Rightarrow> rat" where
  "m_hypot m a b = m_sqrt m (a * a + b * b)"

section \<open>Longitudes and projection\<close>

definition CENTER_X :: rat where "CENTER_X = MAP_WIDTH / 2 - 22"

definition CENTER_Y :: rat where "CENTER_Y = MAP_HEIGHT / 2 + 2"

definition GLOBE_RADIUS :: rat where "GLOBE_RADIUS = 256"

definition MAX_ROTATION_LAT :: rat where "MAX_ROTATION_LAT = 62"

definition FEATURED_ROUTE_SAFE_RADIUS :: rat where
  "FEATURED_ROUTE_SAFE_RADIUS = GLOBE_RADIUS * (68 / 100)"

definition FEATURED_ROUTE_HARD_RIM_RADIUS :: rat where
  "FEATURED_ROUTE_HARD_RIM_RADIUS = GLOBE_RADIUS * (84 / 100)"

text \<open>The operator \<open>%\<close>: the remainder takes the sign of the dividend.\<close>

definition js_rem :: "rat \<Rightarrow> rat \<Rightarrow> rat" where
  "js_rem a b = (let q = a / b; t = (if q < 0 then \<lceil>q\<rceil> else \<lfloor>q\<rfloor>) in a - b * of_int t)"

definition normalizeLongitude :: "rat \<Rightarrow> rat" where
  "normalizeLongitude v = js_rem (js_rem (v + 180) 360 + 360) 360 - 180"

definition toRadians :: "math \<Rightarrow> rat \<Rightarrow> rat" where
  "toRadians m v = v * m_pi m / 180"

definition getMidLongitude :: "rat \<Rightarrow> rat \<Rightarrow> rat" where
  "getMidLongitude left right = normalizeLongitude (left + normalizeLongitude (right - left) / 2)"

definition projectGlobePoint :: "math \<Rightarrow> rat \<times> rat \<Rightarrow> rat \<times> rat \<Rightarrow> ProjectedPoint" where
  "projectGlobePoint m point rotation =
     (let la = toRadians m (fst point);
          lo = toRadians m (normalizeLongitude (snd point - snd rotation));
          tilt = toRadians m (fst rotation);
          cosLat = m_cos m la;
          x = GLOBE_RADIUS * cosLat * m_sin m lo;
          rawY = GLOBE_RADIUS * (m_sin m la * m_cos m tilt - cosLat * m_cos m lo * m_sin m tilt);
          z = m_sin m la * m_sin m tilt + cosLat * m_cos m lo * m_cos m tilt
      in \<lparr>lat = fst point, lon = snd point, pt_visible = (z > - 4 / 100), pt_x = CENTER_X + x,
          pt_y = CENTER_Y - rawY, pt_z = z\<rparr>)"

definition normalize :: "math \<Rightarrow> rat \<Rightarrow> rat \<Rightarrow> rat \<times> rat" where
  "normalize m x y =
     (let length = m_sqrt m (x * x + y * y) in if length = 0 then (0, - 1) else (x / length, y / length))"

definition getLabelPlacement :: "math \<Rightarrow> ProjectedPoint \<Rightarrow> label_anchor \<times> rat \<times> rat" where
  "getLabelPlacement m point =
     (let vector = normalize m (pt_x point - CENTER_X) (pt_y point - CENTER_Y);
          anchor = (if fst vector < - 22 / 100 then End else if fst vector > 22 / 100 then Start else Middle);
          width = getRawLabelWidth [];
          preferredX = pt_x point + fst vector * 44;
          x = clampLabelAnchorX preferredX width anchor;
          y = clamp_y (pt_y point + snd vector * 34)
      in (anchor, x, y))"

section \<open>The rotation that shows a featured attack\<close>

definition getFeaturedEndpointPenalty :: "math \<Rightarrow> ProjectedPoint \<Rightarrow> rat" where
  "getFeaturedEndpointPenalty m point =
     (let distanceFromCenter = m_hypot m (pt_x point - CENTER_X) (pt_y point - CENTER_Y);
          softPenalty = max 0 ((distanceFromCenter - FEATURED_ROUTE_SAFE_RADIUS) / 10);
          hardPenalty = max 0 ((distanceFromCenter - FEATURED_ROUTE_HARD_RIM_RADIUS) / 3)
      in softPenalty + hardPenalty * hardPenalty)"

definition getLabelRoomScore :: "ProjectedPoint \<Rightarrow> rat" where
  "getLabelRoomScore point =
     (let horizontalRoom = min (pt_x point - LABEL_SAFE_INSET_X) (MAP_WIDTH - LABEL_SAFE_INSET_X - pt_x point);
          verticalRoom = min (pt_y point - LABEL_SAFE_INSET_Y) (MAP_HEIGHT - LABEL_SAFE_INSET_Y - pt_y point)
      in clamp (min (horizontalRoom / 140) (verticalRoom / 90)) (- 1) 1)"

definition bool_num :: "bool \<Rightarrow> rat" where
  "bool_num b = (if b then 1 else 0)"

definition scoreFeaturedRotation :: "math \<Rightarrow> rat \<times> rat \<Rightarrow> Landmark \<Rightarrow> Landmark \<Rightarrow> rat" where
  "scoreFeaturedRotation m rotation attacker victim =
     (let start = projectGlobePoint m (lat attacker, lon attacker) rotation;
          finish = projectGlobePoint m (lat victim, lon victim) rotation;
          weakestEndpoint = min (pt_z start) (pt_z finish);
          combinedDepth = pt_z start + pt_z finish;
          centerDistancePenalty = getFeaturedEndpointPenalty m start + getFeaturedEndpointPenalty m finish;
          horizontalImbalancePenalty = \<bar>(pt_x start + pt_x finish) / 2 - CENTER_X\<bar> / 26;
          verticalImbalancePenalty = \<bar>(pt_y start + pt_y finish) / 2 - CENTER_Y\<bar> / 42;
          hiddenPenalty = bool_num (\<not> pt_visible start) * 32 + bool_num (\<not> pt_visible finish) * 32;
          labelRoomBonus = getLabelRoomScore start + getLabelRoomScore finish
      in weakestEndpoint * 9 + combinedDepth * (24 / 10) + labelRoomBonus * (22 / 10) -
         centerDistancePenalty - horizontalImbalancePenalty - verticalImbalancePenalty - hiddenPenalty)"

definition math_round :: "rat \<Rightarrow> rat" where
  "math_round x = of_int \<lfloor>x + 1 / 2\<rfloor>"

definition clamp_lat :: "rat \<Rightarrow> rat" where
  "clamp_lat v = clamp v (- MAX_ROTATION_LAT) MAX_ROTATION_LAT"

definition lat_candidates :: "Landmark \<Rightarrow> Landmark \<Rightarrow> rat \<Rightarrow> rat list" where
  "lat_candidates attacker victim mid =
     js_unique (map (\<lambda>l. math_round (l * 10) / 10)
       [clamp_lat mid, clamp_lat (mid * (72 / 100)), clamp_lat (mid - 12), clamp_lat (mid + 12),
        clamp_lat (lat attacker * (58 / 100) + lat victim * (42 / 100)),
        clamp_lat (lat attacker * (42 / 100) + lat victim * (58 / 100))])"

definition lon_candidates :: "Landmark \<Rightarrow> Landmark \<Rightarrow> rat \<Rightarrow> rat list" where
  "lon_candidates attacker victim mid =
     js_unique (concat (map (\<lambda>l. map (\<lambda>offset. math_round (normalizeLongitude (l + offset) * 10) / 10)
         [- 42, - 28, - 16, 0, 16, 28, 42])
       [mid, getMidLongitude (lon attacker) mid, getMidLongitude mid (lon victim), lon victim, lon attacker]))"

text \<open>\<open>reduce\<close> without an initial value starts from the first candidate.\<close>

fun best_of :: "('a \<Rightarrow> rat) \<Rightarrow> 'a \<Rightarrow> 'a list \<Rightarrow> 'a" where
  "best_of score best [] = best"
| "best_of score best (c # cs) = best_of score (if score c > score best then c else best) cs"

definition getFeaturedAttackRotation ::
    "math \<Rightarrow> Landmark option \<Rightarrow> Landmark option \<Rightarrow> (rat \<times> rat) option" where
  "getFeaturedAttackRotation m attacker victim =
     (case (attacker, victim) of
        (None, None) \<Rightarrow> None
      | (Some t, None) \<Rightarrow> Some (clamp_lat (lat t * (72 / 100)), lon t)
      | (None, Some t) \<Rightarrow> Some (clamp_lat (lat t * (72 / 100)), lon t)
      | (Some a, Some v) \<Rightarrow>
          (let mid_lat = clamp_lat ((lat a + lat v) / 2);
               mid_lon = getMidLongitude (lon a) (lon v);
               candidates = concat (map (\<lambda>la. map (Pair la) (lon_candidates a v mid_lon))
                 (lat_candidates a v mid_lat))
           in Some (best_of (\<lambda>c. scoreFeaturedRotation m c a v) (hd candidates) (tl candidates))))"

section \<open>Arcs\<close>

record ArcPoint = ProjectedPoint +
  ap_id :: string

definition interpolateGeoPoint :: "rat \<times> rat \<Rightarrow> rat \<times> rat \<Rightarrow> rat \<Rightarrow> rat \<times> rat" where
  "interpolateGeoPoint start finish progress =
     (fst start + (fst finish - fst start) * progress,
      normalizeLongitude (snd start + normalizeLongitude (snd finish - snd start) * progress))"

text \<open>The bisection of \<open>findHorizonPoint\<close>: \<open>n\<close> rounds remain.\<close>

fun bisect_horizon ::
    "math \<Rightarrow> rat \<times> rat \<Rightarrow> rat \<times> rat \<Rightarrow> rat \<times> rat \<Rightarrow> nat \<Rightarrow> rat \<Rightarrow> rat \<Rightarrow> ProjectedPoint \<Rightarrow> ProjectedPoint" where
  "bisect_horizon m v h rotation 0 low high projected = projected"
| "bisect_horizon m v h rotation (Suc n) low high projected =
     (let middle = (low + high) / 2;
          candidate = projectGlobePoint m (interpolateGeoPoint v h middle) rotation
      in if pt_z candidate > 15 / 1000
         then bisect_horizon m v h rotation n middle high candidate
         else bisect_horizon m v h rotation n low middle projected)"

definition arc_point :: "ProjectedPoint \<Rightarrow> string \<Rightarrow> ArcPoint" where
  "arc_point p i = ProjectedPoint.extend p (ArcPoint.fields i)"

definition findHorizonPoint ::
    "math \<Rightarrow> (rat \<Rightarrow> string) \<Rightarrow> rat \<times> rat \<Rightarrow> rat \<times> rat \<Rightarrow> rat \<times> rat \<Rightarrow> ArcPoint" where
  "findHorizonPoint m txt_of visiblePoint hiddenPoint rotation =
     (let projected = bisect_horizon m visiblePoint hiddenPoint rotation 24 0 1
            (projectGlobePoint m visiblePoint rotation)
      in arc_point (projected\<lparr>pt_visible := True\<rparr>)
           (txt_of (fst hiddenPoint) @ '':'' @ txt_of (snd hiddenPoint) @ '':horizon''))"

definition node_point :: "TeamNode \<Rightarrow> ArcPoint" where
  "node_point n = arc_point (ProjectedPoint.truncate n) (nd_name n)"

definition geo :: "TeamNode \<Rightarrow> rat \<times> rat" where
  "geo n = (lat n, lon n)"

definition getArcEndpoints ::
    "math \<Rightarrow> (rat \<Rightarrow> string) \<Rightarrow> TeamNode \<Rightarrow> TeamNode \<Rightarrow> rat \<times> rat \<Rightarrow> ArcPoint \<times> ArcPoint" where
  "getArcEndpoints m txt_of start finish rotation =
     (if pt_visible start = pt_visible finish then (node_point start, node_point finish)
      else if pt_visible start
      then (node_point start, findHorizonPoint m txt_of (geo start) (geo finish) rotation)
      else (findHorizonPoint m txt_of (geo finish) (geo start) rotation, node_point finish))"

definition getArcVisibility :: "TeamNode \<Rightarrow> TeamNode \<Rightarrow> rat" where
  "getArcVisibility start finish =
     (if \<not> pt_visible start \<and> \<not> pt_visible finish then 0
      else if pt_visible start \<noteq> pt_visible finish
      then clamp ((max (pt_z start) (pt_z finish) + 4 / 100) / (104 / 100)) 0 (1 / 2)
      else clamp ((min (pt_z start) (pt_z finish) + 4 / 100) / (104 / 100)) 0 1)"

text \<open>An SVG path as its commands.\<close>

datatype path_command =
    MoveTo rat rat | LineTo rat rat | QuadTo rat rat rat rat
  | CubicTo rat rat rat rat rat rat | ClosePath

definition buildAttackPath :: "math \<Rightarrow> ArcPoint \<Rightarrow> ArcPoint \<Rightarrow> string \<Rightarrow> path_command list" where
  "buildAttackPath m start finish attackId =
     (if ap_id start = ap_id finish
      then (let radius = 24 + of_int (hashString attackId mod 18)
            in [MoveTo (pt_x start) (pt_y start),
                CubicTo (pt_x start - radius) (pt_y start - radius * 2)
                  (pt_x start + radius) (pt_y start - radius * 2) (pt_x start) (pt_y start)])
      else (let midX = (pt_x start + pt_x finish) / 2;
                midY = (pt_y start + pt_y finish) / 2;
                centerVector = normalize m (midX - CENTER_X) (midY - CENTER_Y);
                distance = m_hypot m (pt_x finish - pt_x start) (pt_y finish - pt_y start);
                lift = clamp (distance * (34 / 100)) 46 148 + of_int (hashString attackId mod 30);
                controlX = midX + fst centerVector * lift;
                controlY = midY + snd centerVector * lift - 18
            in [MoveTo (pt_x start) (pt_y start), QuadTo controlX controlY (pt_x finish) (pt_y finish)]))"

definition buildProjectedCountryFillPath :: "math \<Rightarrow> (rat \<times> rat) list \<Rightarrow> rat \<times> rat \<Rightarrow> path_command list" where
  "buildProjectedCountryFillPath m points rotation =
     (let projected = map (\<lambda>p. projectGlobePoint m p rotation) points in
      if length projected < 3 \<or> \<not> list_all pt_visible projected then []
      else map (\<lambda>(index, p). if index = 0 then MoveTo (pt_x p) (pt_y p) else LineTo (pt_x p) (pt_y p))
             (enumerate 0 projected) @ [ClosePath])"

fun line_path :: "math \<Rightarrow> rat \<times> rat \<Rightarrow> bool \<Rightarrow> (rat \<times> rat) list \<Rightarrow> path_command list" where
  "line_path m rotation drawing [] = []"
| "line_path m rotation drawing (point # points) =
     (let projected = projectGlobePoint m point rotation in
      if \<not> pt_visible projected then line_path m rotation False points
      else (if drawing then LineTo (pt_x projected) (pt_y projected)
            else MoveTo (pt_x projected) (pt_y projected)) # line_path m rotation True points)"

definition buildProjectedLinePath :: "math \<Rightarrow> (rat \<times> rat) list \<Rightarrow> rat \<times> rat \<Rightarrow> path_command list" where
  "buildProjectedLinePath m points rotation = line_path m rotation False points"

section \<open>The scene\<close>

record map_props =
  mp_attacks :: "AttackMapEvent list"
  mp_highlightedAttackIDs :: "string list"
  mp_focusedTeams :: "string list"
  mp_placementScopeTeams :: "string list option"
  mp_selectedAttackId :: "string option"
  mp_selectedTeamId :: "string option"
  mp_teamLocations :: "string \<Rightarrow> geo_point option"
  mp_featuredAttackId :: "string option"
  mp_freshAttackIds :: "string set"
  mp_rotation :: "rat \<times> rat"

record AttackArc =
  ar_attackIds :: "string list"
  ar_id :: string
  ar_index :: nat
  ar_attacker :: string
  ar_victim :: string
  ar_service :: string
  ar_tick :: int
  ar_count :: nat
  ar_color :: "string option"
  ar_start :: "rat \<times> rat"
  ar_end :: "rat \<times> rat"
  ar_featured :: bool
  ar_highlighted :: bool
  ar_fresh :: bool
  ar_selected :: bool
  ar_recency :: rat
  ar_active :: bool
  ar_path :: "path_command list"
  ar_delay :: rat
  ar_partial :: bool
  ar_visible :: bool
  ar_visibility :: rat

definition make_node :: "math \<Rightarrow> map_props \<Rightarrow> string \<Rightarrow> TeamNode" where
  "make_node m props name =
     (let attackTeamNames = listAttackTeams (mp_attacks props);
          placementTeamNames = listPlacementTeams attackTeamNames (mp_placementScopeTeams props);
          teamStats = buildTeamStats (mp_attacks props) attackTeamNames;
          landmarksByTeam = getLandmarkPlacements placementTeamNames (mp_attacks props) (mp_teamLocations props);
          place = coalesce (landmarksByTeam name) (LANDMARKS ! 0);
          point = projectGlobePoint m (lat place, lon place) (mp_rotation props);
          label = getLabelPlacement m point;
          stats = coalesce (teamStats name) \<lparr>incoming = 0, outgoing = 0\<rparr>
      in ProjectedPoint.extend point
           (TeamNode.fields name place (fst (snd label)) (snd (snd label)) (fst label)
             (name \<in> set (mp_focusedTeams props)) (mp_selectedTeamId props = Some name)
             (incoming stats) (outgoing stats)))"

text \<open>
  One route: its nodes are looked up by name (\<open>None\<close> is the \<open>TypeError\<close> of a missing node), an active
  route highlights both, and the arc is built from them.
\<close>

definition route_active :: "map_props \<Rightarrow> AttackRoute \<Rightarrow> bool" where
  "route_active props attack \<longleftrightarrow>
     list_ex (\<lambda>i. i \<in> set (mp_highlightedAttackIDs props)) (attackIds attack) \<or>
     (case mp_selectedAttackId props of None \<Rightarrow> False | Some i \<Rightarrow> i \<in> set (attackIds attack)) \<or>
     (case mp_featuredAttackId props of None \<Rightarrow> False | Some i \<Rightarrow> i \<in> set (attackIds attack)) \<or>
     am_attacker attack \<in> set (mp_focusedTeams props) \<or> am_victim attack \<in> set (mp_focusedTeams props) \<or>
     mp_selectedTeamId props = Some (am_attacker attack) \<or> mp_selectedTeamId props = Some (am_victim attack)"

definition make_arc ::
    "math \<Rightarrow> (rat \<Rightarrow> string) \<Rightarrow> map_props \<Rightarrow> nat \<Rightarrow> AttackRoute \<Rightarrow> TeamNode \<Rightarrow> TeamNode \<Rightarrow> AttackArc" where
  "make_arc m txt_of props index attack start finish =
     (let (s, e) = getArcEndpoints m txt_of start finish (mp_rotation props)
      in \<lparr>ar_attackIds = attackIds attack, ar_id = am_id attack, ar_index = index,
          ar_attacker = am_attacker attack, ar_victim = am_victim attack, ar_service = am_service attack,
          ar_tick = am_tick attack, ar_count = rt_count attack,
          ar_color = buildServiceColors (listAttackServices (mp_attacks props)) (am_service attack),
          ar_start = (pt_x s, pt_y s), ar_end = (pt_x e, pt_y e),
          ar_featured = (case mp_featuredAttackId props of None \<Rightarrow> False | Some i \<Rightarrow> i \<in> set (attackIds attack)),
          ar_highlighted = list_ex (\<lambda>i. i \<in> set (mp_highlightedAttackIDs props)) (attackIds attack),
          ar_fresh = list_ex (\<lambda>i. i \<in> mp_freshAttackIds props) (attackIds attack),
          ar_selected = (case mp_selectedAttackId props of None \<Rightarrow> False | Some i \<Rightarrow> i \<in> set (attackIds attack)),
          ar_recency = getAttackRecency (am_tick attack) (getAttackTickRange (mp_attacks props)),
          ar_active = route_active props attack,
          ar_path = buildAttackPath m s e (am_id attack),
          ar_delay = of_nat (index mod 9) * (28 / 100),
          ar_partial = (pt_visible start \<noteq> pt_visible finish),
          ar_visible = (pt_visible start \<or> pt_visible finish),
          ar_visibility = getArcVisibility start finish\<rparr>)"

fun build_arcs ::
    "math \<Rightarrow> (rat \<Rightarrow> string) \<Rightarrow> map_props \<Rightarrow> (nat \<times> AttackRoute) list \<Rightarrow> (string \<Rightarrow> TeamNode option)
     \<Rightarrow> ((string \<Rightarrow> TeamNode option) \<times> AttackArc list) option" where
  "build_arcs m txt_of props [] nodes = Some (nodes, [])"
| "build_arcs m txt_of props ((index, attack) # rest) nodes =
     (case (nodes (am_attacker attack), nodes (am_victim attack)) of
        (Some start, Some finish) \<Rightarrow>
          (let light = (\<lambda>k ns. ns(k := map_option (\<lambda>n. n\<lparr>nd_highlighted := True\<rparr>) (ns k)));
               nodes' = (if route_active props attack
                 then light (am_victim attack) (light (am_attacker attack) nodes) else nodes)
           in map_option (\<lambda>(ns, arcs). (ns, make_arc m txt_of props index attack start finish # arcs))
                (build_arcs m txt_of props rest nodes'))
      | _ \<Rightarrow> None)"

text \<open>\<open>Object.values\<close> lists the keys that are array indices first, in ascending order.\<close>

definition is_array_index :: "string \<Rightarrow> bool" where
  "is_array_index s \<longleftrightarrow> all_digits s \<and> digits_of (digits_value s) = s \<and> digits_value s < 2 ^ 32 - 1"

definition object_key_order :: "string list \<Rightarrow> string list" where
  "object_key_order keys =
     sort_cmp (\<lambda>a b. digits_value a \<le> digits_value b) (filter is_array_index keys) @
     filter (\<lambda>k. \<not> is_array_index k) keys"

record globe_scene =
  sc_arcs :: "AttackArc list"
  sc_featuredAttack :: "AttackMapEvent option"
  sc_nodes :: "TeamNode list"
  sc_services :: "(string option \<times> string) list"

definition build_scene ::
    "math \<Rightarrow> (rat \<Rightarrow> string) \<Rightarrow> (string \<Rightarrow> string \<Rightarrow> int) \<Rightarrow> map_props \<Rightarrow> globe_scene option" where
  "build_scene m txt_of lc props =
     (let attackTeamNames = listAttackTeams (mp_attacks props);
          serviceNames = listAttackServices (mp_attacks props);
          serviceColors = buildServiceColors serviceNames;
          nodesByName = (\<lambda>n. if n \<in> set attackTeamNames then Some (make_node m props n) else None)
      in map_option (\<lambda>(nodes, arcs).
           \<lparr>sc_arcs = sort_cmp (\<lambda>l r. bool_num (ar_active l) - bool_num (ar_active r) \<le> 0) arcs,
            sc_featuredAttack = find (\<lambda>a. Some (am_id a) = mp_featuredAttackId props) (mp_attacks props),
            sc_nodes = sort_cmp (\<lambda>l r. pt_z l - pt_z r \<le> 0)
              (resolveLabelCollisions (map (\<lambda>k. the (nodes k)) (object_key_order attackTeamNames))),
            sc_services = map (\<lambda>service. (serviceColors service, service)) serviceNames\<rparr>)
         (build_arcs m txt_of props (enumerate 0 (bundleAttackRoutes lc (mp_attacks props))) nodesByName))"

definition hasFocus :: "map_props \<Rightarrow> bool" where
  "hasFocus props \<longleftrightarrow> mp_selectedAttackId props \<noteq> None \<or> mp_selectedTeamId props \<noteq> None \<or>
     mp_featuredAttackId props \<noteq> None \<or> length (mp_highlightedAttackIDs props) > 0 \<or>
     length (mp_focusedTeams props) > 0"

definition showDefaultLabels :: "map_props \<Rightarrow> globe_scene \<Rightarrow> bool" where
  "showDefaultLabels props sc \<longleftrightarrow>
     \<not> hasFocus props \<and> length (sc_nodes sc) > 0 \<and> length (sc_nodes sc) \<le> 10"

definition denseKeyboardMode :: "globe_scene \<Rightarrow> bool" where
  "denseKeyboardMode sc \<longleftrightarrow> length (sc_arcs sc) + length (sc_nodes sc) > 28"

definition motionEnabled :: "map_props \<Rightarrow> globe_scene \<Rightarrow> bool" where
  "motionEnabled props sc \<longleftrightarrow> length (mp_attacks props) \<le> 160 \<and> length (sc_arcs sc) \<le> 80"

section \<open>Longitudes\<close>

lemma js_rem_bounds:
  assumes "0 < b"
  shows "\<bar>js_rem a b\<bar> < b" and "0 \<le> a \<Longrightarrow> 0 \<le> js_rem a b"
    and "\<exists>k :: int. js_rem a b = a - b * of_int k"
proof -
  have q: "b * (a / b) = a" using assms by simp
  have mono: "b * x \<le> b * y" if "x \<le> y" for x y using that assms by (simp add: mult_left_mono)
  have smono: "b * x < b * y" if "x < y" for x y using that assms by simp
  have c: "of_int \<lceil>a / b\<rceil> - 1 < a / b" "a / b \<le> of_int \<lceil>a / b\<rceil>"
    "of_int \<lfloor>a / b\<rfloor> \<le> a / b" "a / b < of_int \<lfloor>a / b\<rfloor> + 1" by linarith+
  have "b * (of_int \<lceil>a / b\<rceil> - 1) < a" "a \<le> b * of_int \<lceil>a / b\<rceil>"
    "b * of_int \<lfloor>a / b\<rfloor> \<le> a" "a < b * (of_int \<lfloor>a / b\<rfloor> + 1)"
    using smono [OF c(1)] mono [OF c(2)] mono [OF c(3)] smono [OF c(4)] unfolding q by linarith+
  then show "\<bar>js_rem a b\<bar> < b" by (simp add: js_rem_def Let_def abs_less_iff algebra_simps)
  show "0 \<le> js_rem a b" if "0 \<le> a"
  proof -
    have "\<not> a / b < 0" using that assms by (simp add: divide_less_0_iff)
    with \<open>b * of_int \<lfloor>a / b\<rfloor> \<le> a\<close> show ?thesis by (simp add: js_rem_def Let_def)
  qed
  show "\<exists>k :: int. js_rem a b = a - b * of_int k" by (auto simp: js_rem_def Let_def)
qed

lemma normalizeLongitude_range: "- 180 \<le> normalizeLongitude v" "normalizeLongitude v < 180"
proof -
  let ?a = "js_rem (v + 180) 360 + 360"
  have "0 \<le> ?a" using js_rem_bounds(1) [of 360 "v + 180"] by linarith
  from js_rem_bounds(2) [OF _ this, of 360] js_rem_bounds(1) [of 360 ?a]
  show "- 180 \<le> normalizeLongitude v" "normalizeLongitude v < 180"
    by (simp_all add: normalizeLongitude_def abs_less_iff)
qed

lemma normalizeLongitude_turns: "\<exists>k :: int. normalizeLongitude v = v + 360 * of_int k"
proof -
  obtain i where i: "js_rem (v + 180) 360 = v + 180 - 360 * of_int i"
    using js_rem_bounds(3) [of 360 "v + 180"] by auto
  obtain j where "js_rem (js_rem (v + 180) 360 + 360) 360
      = js_rem (v + 180) 360 + 360 - 360 * of_int j"
    using js_rem_bounds(3) [of 360 "js_rem (v + 180) 360 + 360"] by auto
  with i have "normalizeLongitude v = v + 360 * of_int (1 - i - j)"
    by (simp add: normalizeLongitude_def algebra_simps)
  then show ?thesis by blast
qed

section \<open>Rotations and arcs\<close>

lemma best_of_in: "best_of score b cs \<in> insert b (set cs)"
  by (induction score b cs rule: best_of.induct) auto

lemma best_of_max: "c \<in> insert b (set cs) \<Longrightarrow> score c \<le> score (best_of score b cs)"
proof (induction score b cs arbitrary: c rule: best_of.induct)
  case (2 score b d cs)
  let ?b = "if score d > score b then d else b"
  have top: "score ?b \<le> score (best_of score ?b cs)" by (rule "2.IH") simp
  have "score c \<le> score ?b \<or> c \<in> set cs" using "2.prems" by auto
  then show ?case using top "2.IH" [of c] by auto
qed simp

lemma clamp_lat_range: "- 62 \<le> clamp_lat v" "clamp_lat v \<le> 62"
  by (simp_all add: clamp_lat_def clamp_def MAX_ROTATION_LAT_def)

lemma math_round_range:
  assumes "of_int a \<le> x" and "x \<le> of_int b"
  shows "of_int a \<le> math_round x" and "math_round x \<le> of_int b"
proof -
  have "a \<le> \<lfloor>x + 1 / 2\<rfloor>" using assms(1) by (simp add: le_floor_iff)
  moreover have "\<lfloor>x + 1 / 2\<rfloor> \<le> b" using assms(2) by (simp add: floor_le_iff)
  ultimately show "of_int a \<le> math_round x" and "math_round x \<le> of_int b"
    by (simp_all add: math_round_def)
qed

lemma lat_candidates_range: "l \<in> set (lat_candidates a v mid) \<Longrightarrow> - 62 \<le> l \<and> l \<le> 62"
proof -
  have r: "- 62 \<le> math_round (x * 10) / 10 \<and> math_round (x * 10) / 10 \<le> 62"
    if "- 62 \<le> x" "x \<le> 62" for x
    using math_round_range [of "- 620" "x * 10" 620] that by simp
  assume "l \<in> set (lat_candidates a v mid)"
  then obtain y where l: "l = math_round (clamp_lat y * 10) / 10"
    by (auto simp: lat_candidates_def)
  show ?thesis unfolding l by (rule r) (rule clamp_lat_range)+
qed

lemma lon_candidates_range: "l \<in> set (lon_candidates a v mid) \<Longrightarrow> - 180 \<le> l \<and> l \<le> 180"
proof -
  assume "l \<in> set (lon_candidates a v mid)"
  then obtain y where l: "l = math_round (normalizeLongitude y * 10) / 10"
    by (auto simp: lon_candidates_def)
  have "- 180 \<le> normalizeLongitude y" "normalizeLongitude y \<le> 180"
    using normalizeLongitude_range [of y] by simp_all
  then show ?thesis
    unfolding l using math_round_range [of "- 1800" "normalizeLongitude y * 10" 1800] by simp
qed

lemma candidates_not_empty: "lat_candidates a v x \<noteq> []" "lon_candidates a v y \<noteq> []"
proof -
  have "set (lat_candidates a v x) \<noteq> {}" "set (lon_candidates a v y) \<noteq> {}"
    unfolding lat_candidates_def lon_candidates_def set_js_unique by simp_all
  then show "lat_candidates a v x \<noteq> []" "lon_candidates a v y \<noteq> []" by force+
qed

lemma bisect_horizon_front:
  "pt_z (bisect_horizon m v h rot n low high p) > 15 / 1000 \<or>
   bisect_horizon m v h rot n low high p = p"
proof (induction n arbitrary: low high p)
  case (Suc n)
  let ?mid = "(low + high) / 2"
  let ?c = "projectGlobePoint m (interpolateGeoPoint v h ?mid) rot"
  show ?case
  proof (cases "pt_z ?c > 15 / 1000")
    case True
    then have "bisect_horizon m v h rot (Suc n) low high p = bisect_horizon m v h rot n ?mid high ?c"
      by (simp add: Let_def)
    with True Suc.IH [of ?mid high ?c] show ?thesis by auto
  next
    case False
    then have "bisect_horizon m v h rot (Suc n) low high p = bisect_horizon m v h rot n low ?mid p"
      by (simp add: Let_def)
    with Suc.IH [of low ?mid p] show ?thesis by simp
  qed
qed simp

lemma getArcVisibility_range: "0 \<le> getArcVisibility a b" "getArcVisibility a b \<le> 1"
  by (auto simp: getArcVisibility_def clamp_def min_def max_def)

text \<open>Every drawn segment continues from a point of the same run: a path never starts with a line.\<close>

lemma line_path_starts: "line_path m rot False ps = [] \<or> (\<exists>x y rest. line_path m rot False ps = MoveTo x y # rest)"
  by (induction ps) (auto simp: Let_def)

section \<open>The scene is total\<close>

lemma build_arcs_total:
  assumes "\<forall>(i, a) \<in> set rs. am_attacker a \<in> dom nodes \<and> am_victim a \<in> dom nodes"
  shows "\<exists>nodes' arcs. build_arcs m txt_of props rs nodes = Some (nodes', arcs) \<and> dom nodes' = dom nodes \<and>
     (\<forall>k n. nodes k = Some n \<longrightarrow> (\<exists>b. nodes' k = Some (n\<lparr>nd_highlighted := b\<rparr>))) \<and>
     map ar_index arcs = map fst rs \<and> map ar_attackIds arcs = map (attackIds \<circ> snd) rs"
  using assms
proof (induction rs arbitrary: nodes)
  case Nil
  have "\<exists>b. n = n\<lparr>nd_highlighted := b\<rparr>" for n :: TeamNode
    by (rule exI [of _ "nd_highlighted n"]) simp
  then show ?case by simp
next
  case (Cons r rs)
  obtain i a where r: "r = (i, a)" by (cases r)
  obtain s e where se: "nodes (am_attacker a) = Some s" "nodes (am_victim a) = Some e"
    using Cons.prems r by auto
  let ?light = "\<lambda>k (ns :: string \<Rightarrow> TeamNode option). ns(k := map_option (\<lambda>n. n\<lparr>nd_highlighted := True\<rparr>) (ns k))"
  let ?nodes = "if route_active props a then ?light (am_victim a) (?light (am_attacker a) nodes) else nodes"
  have dom: "dom ?nodes = dom nodes" using se by (auto simp: dom_def)
  have keep: "\<exists>b. ?nodes k = Some (n\<lparr>nd_highlighted := b\<rparr>)" if "nodes k = Some n" for k n
  proof -
    have "n = n\<lparr>nd_highlighted := nd_highlighted n\<rparr>" by simp
    then show ?thesis using that by (auto intro: exI [of _ True] exI [of _ "nd_highlighted n"])
  qed
  from Cons.IH [of ?nodes] Cons.prems dom obtain nodes' arcs where
    rest: "build_arcs m txt_of props rs ?nodes = Some (nodes', arcs)" "dom nodes' = dom ?nodes"
      "\<forall>k n. ?nodes k = Some n \<longrightarrow> (\<exists>b. nodes' k = Some (n\<lparr>nd_highlighted := b\<rparr>))"
      "map ar_index arcs = map fst rs" "map ar_attackIds arcs = map (attackIds \<circ> snd) rs"
    by auto
  have "\<exists>b. nodes' k = Some (n\<lparr>nd_highlighted := b\<rparr>)" if "nodes k = Some n" for k n
    using keep [OF that] rest(3) by fastforce
  moreover have "ar_index (make_arc m txt_of props i a s e) = i"
    "ar_attackIds (make_arc m txt_of props i a s e) = attackIds a"
    by (simp_all add: make_arc_def case_prod_beta)
  ultimately show ?case
    using rest dom by (simp add: r se Let_def)
qed

lemma enumerate_snd: "(i, a) \<in> set (enumerate 0 xs) \<Longrightarrow> a \<in> set xs"
  by (auto simp: in_set_enumerate_eq)

lemma bundled_routes_have_teams:
  assumes "r \<in> set (bundleAttackRoutes lc attacks)"
  shows "am_attacker r \<in> set (listAttackTeams attacks) \<and> am_victim r \<in> set (listAttackTeams attacks)"
proof -
  have "r \<in> set (map snd (fold add_route attacks []))"
    using assms by (simp add: bundleAttackRoutes_def)
  then obtain k where "(k, r) \<in> set (fold add_route attacks [])" by auto
  then have "route_ok attacks (k, r)" using bundle_fold_ok [of attacks] by (auto simp: list_all_iff)
  then have "\<exists>a \<in> set (filter (\<lambda>a. route_key a = k) attacks).
      am_attacker r = am_attacker a \<and> am_victim r = am_victim a \<and> am_service r = am_service a"
    unfolding route_ok_def Let_def fst_conv snd_conv by blast
  then obtain a where "a \<in> set attacks" "am_attacker r = am_attacker a" "am_victim r = am_victim a"
    by auto
  then show ?thesis by (auto simp: listAttackTeams_def sorted_names_def)
qed

lemma mset_object_key_order: "mset (object_key_order keys) = mset keys"
  by (induction keys) (simp_all add: object_key_order_def)

interpretation arc_order: total_preorder "\<lambda>l r. bool_num (ar_active l) - bool_num (ar_active r) \<le> 0"
  by unfold_locales auto

lemma map_resolve_names: "map nd_name (resolveLabelCollisions nodes) = map nd_name nodes"
proof -
  have step: "list_all (\<lambda>(i, n). i < length nodes \<and> nd_name n = nd_name (nodes ! i)) (fold place_label xs placed)"
    if "list_all (\<lambda>(i, n). i < length nodes \<and> nd_name n = nd_name (nodes ! i)) placed"
      "list_all (\<lambda>(i, n). i < length nodes \<and> nd_name n = nd_name (nodes ! i)) xs" for xs placed
    using that
  proof (induction xs arbitrary: placed)
    case (Cons x xs)
    obtain n where "place_label x placed = placed @ [(fst x, n)]" "nd_name n = nd_name (snd x)"
      using place_label_inside by blast
    with Cons.IH [of "place_label x placed"] Cons.prems show ?case by (simp add: case_prod_beta)
  qed simp
  have "list_all (\<lambda>(i, n). i < length nodes \<and> nd_name n = nd_name (nodes ! i)) (placed_labels nodes)"
    unfolding placed_labels_def by (rule step) (auto simp: list_all_iff in_set_enumerate_eq)
  then have "nd_name (coalesce (map_of (placed_labels nodes) i) (nodes ! i)) = nd_name (nodes ! i)" for i
    by (cases "map_of (placed_labels nodes) i") (auto simp: list_all_iff dest: map_of_SomeD)
  then show ?thesis
    by (intro nth_equalityI)
      (simp_all add: resolveLabelCollisions_def label_overflow_zero nth_enumerate_eq)
qed

section \<open>The properties\<close>

text \<open>
  The scene of the map never fails. Whatever the attacks, the selection, the rotation and the
  host's arithmetic are, building the scene does not run into a missing node: it draws one arc for
  every route, with the routes' attacks, the active arcs after all others, and exactly one node for
  every team of the attacks.
\<close>

lemma globe_scene_total:
  "\<exists>sc. build_scene m txt_of lc props = Some sc \<and>
     mset (map ar_attackIds (sc_arcs sc)) = mset (map attackIds (bundleAttackRoutes lc (mp_attacks props))) \<and>
     sorted_wrt (\<lambda>a b. ar_active a \<longrightarrow> ar_active b) (sc_arcs sc) \<and>
     mset (map nd_name (sc_nodes sc)) = mset (listAttackTeams (mp_attacks props))"
proof -
  let ?names = "listAttackTeams (mp_attacks props)"
  let ?routes = "bundleAttackRoutes lc (mp_attacks props)"
  let ?nodes = "\<lambda>n. if n \<in> set ?names then Some (make_node m props n) else None"
  have "\<forall>(i, a) \<in> set (enumerate 0 ?routes). am_attacker a \<in> dom ?nodes \<and> am_victim a \<in> dom ?nodes"
    using bundled_routes_have_teams enumerate_snd by (fastforce simp: dom_def split: if_splits)
  from build_arcs_total [OF this, of m txt_of props] obtain nodes' arcs where
    b: "build_arcs m txt_of props (enumerate 0 ?routes) ?nodes = Some (nodes', arcs)"
      "\<forall>k n. ?nodes k = Some n \<longrightarrow> (\<exists>b. nodes' k = Some (n\<lparr>nd_highlighted := b\<rparr>))"
      "map ar_attackIds arcs = map (attackIds \<circ> snd) (enumerate 0 ?routes)"
    by blast
  define sc where "sc = \<lparr>sc_arcs = sort_cmp (\<lambda>l r. bool_num (ar_active l) - bool_num (ar_active r) \<le> 0) arcs,
      sc_featuredAttack = find (\<lambda>a. Some (am_id a) = mp_featuredAttackId props) (mp_attacks props),
      sc_nodes = sort_cmp (\<lambda>l r. pt_z l - pt_z r \<le> 0)
        (resolveLabelCollisions (map (\<lambda>k. the (nodes' k)) (object_key_order ?names))),
      sc_services = map (\<lambda>service. (buildServiceColors (listAttackServices (mp_attacks props)) service, service))
        (listAttackServices (mp_attacks props))\<rparr>"
  have "build_scene m txt_of lc props = Some sc"
    by (simp add: build_scene_def Let_def b(1) sc_def)
  moreover have "map (attackIds \<circ> snd) (enumerate 0 ?routes) = map attackIds ?routes"
    by (metis map_map map_snd_enumerate)
  then have "mset (map ar_attackIds (sc_arcs sc)) = mset (map attackIds ?routes)"
    using b(3) by (simp add: sc_def) (metis mset_map)
  moreover have "sorted_wrt (\<lambda>l r. bool_num (ar_active l) - bool_num (ar_active r) \<le> 0) (sc_arcs sc)"
    unfolding sc_def globe_scene.simps by (rule arc_order.sorted_sort_cmp)
  then have "sorted_wrt (\<lambda>a b. ar_active a \<longrightarrow> ar_active b) (sc_arcs sc)"
    by (rule sorted_wrt_mono_rel [rotated]) (auto simp: bool_num_def split: if_splits)
  moreover have "mset (map nd_name (sc_nodes sc)) = mset ?names"
  proof -
    have name: "nd_name (the (nodes' k)) = k" if mem: "k \<in> set ?names" for k
    proof -
      obtain c where "nodes' k = Some ((make_node m props k)\<lparr>nd_highlighted := c\<rparr>)"
        using b(2) [rule_format, of k "make_node m props k"] mem by auto
      then show ?thesis
        by (simp add: make_node_def Let_def ProjectedPoint.defs TeamNode.defs)
    qed
    have "set (object_key_order ?names) = set ?names"
      using mset_object_key_order by (metis set_mset_mset)
    then have "map nd_name (map (\<lambda>k. the (nodes' k)) (object_key_order ?names)) = object_key_order ?names"
      unfolding map_map by (intro map_idI) (simp add: name)
    moreover have "mset (map nd_name (sc_nodes sc))
        = mset (map nd_name (resolveLabelCollisions (map (\<lambda>k. the (nodes' k)) (object_key_order ?names))))"
      by (simp add: sc_def)
    ultimately show ?thesis
      unfolding map_resolve_names by (simp add: mset_object_key_order)
  qed
  ultimately show ?thesis by blast
qed

text \<open>
  Bounds of the globe's rotation. A normalised longitude differs from its argument by whole
  turns and lies in [-180, 180); the rotation that shows a featured attack has a latitude between
  -62 and 62 and, when both teams have a place, a longitude between -180 and 180 and the best score
  of all candidates.
\<close>

lemma featured_rotation_in_range:
  assumes "getFeaturedAttackRotation m attacker victim = Some r"
  shows "- 62 \<le> fst r \<and> fst r \<le> 62 \<and>
     (case (attacker, victim) of
        (Some a, Some v) \<Rightarrow> - 180 \<le> snd r \<and> snd r \<le> 180 \<and>
          (\<forall>la \<in> set (lat_candidates a v (clamp_lat ((lat a + lat v) / 2))).
             \<forall>lo \<in> set (lon_candidates a v (getMidLongitude (lon a) (lon v))).
               scoreFeaturedRotation m (la, lo) a v \<le> scoreFeaturedRotation m r a v)
      | _ \<Rightarrow> True) \<and>
     - 180 \<le> normalizeLongitude x \<and> normalizeLongitude x < 180 \<and>
     (\<exists>k :: int. normalizeLongitude x = x + 360 * of_int k)"
proof (cases "attacker = None \<or> victim = None")
  case True
  then show ?thesis
    using assms clamp_lat_range normalizeLongitude_range normalizeLongitude_turns
    by (cases attacker; cases victim) (auto simp: getFeaturedAttackRotation_def)
next
  case False
  then obtain a v where av: "attacker = Some a" "victim = Some v" by auto
  define cs where "cs = concat (map (\<lambda>la. map (Pair la) (lon_candidates a v (getMidLongitude (lon a) (lon v))))
      (lat_candidates a v (clamp_lat ((lat a + lat v) / 2))))"
  have set_cs: "set cs = set (lat_candidates a v (clamp_lat ((lat a + lat v) / 2))) \<times>
      set (lon_candidates a v (getMidLongitude (lon a) (lon v)))"
    by (auto simp: cs_def)
  have "set cs \<noteq> {}" unfolding set_cs using candidates_not_empty by simp
  then have ne: "insert (hd cs) (set (tl cs)) = set cs" by (cases cs) auto
  have r: "r = best_of (\<lambda>c. scoreFeaturedRotation m c a v) (hd cs) (tl cs)"
    using assms by (simp add: av getFeaturedAttackRotation_def Let_def cs_def)
  have mem: "r \<in> set cs" unfolding r ne [symmetric] by (rule best_of_in)
  then have "fst r \<in> set (lat_candidates a v (clamp_lat ((lat a + lat v) / 2)))"
    "snd r \<in> set (lon_candidates a v (getMidLongitude (lon a) (lon v)))"
    unfolding set_cs by (auto simp: mem_Times_iff)
  from lat_candidates_range [OF this(1)] lon_candidates_range [OF this(2)]
  have range: "- 62 \<le> fst r \<and> fst r \<le> 62 \<and> - 180 \<le> snd r \<and> snd r \<le> 180" by blast
  have "scoreFeaturedRotation m c a v \<le> scoreFeaturedRotation m r a v" if "c \<in> set cs" for c
    unfolding r using best_of_max [of c "hd cs" "tl cs" "\<lambda>c. scoreFeaturedRotation m c a v"] that
    unfolding ne by simp
  then show ?thesis
    using range normalizeLongitude_range normalizeLongitude_turns unfolding av set_cs by auto
qed

definition sample_math :: math where
  "sample_math = \<lparr>m_pi = 3, m_sin = (\<lambda>x. x), m_cos = (\<lambda>x. 1 - x * x / 2), m_sqrt = (\<lambda>x. x)\<rparr>"

end
