(* ===== verification/Globe_Motion.thy ===== *)
theory Globe_Motion
  imports Globe_Projection
begin

text \<open>
  What moves on the globe of \<open>components/ui/cyber-attack-map.tsx\<close>: the showcase of featured attacks
  with its idle timer and its interval, the marks of fresh attacks with their timers, the animated
  rotation, dragging and zooming. The state is the component's refs and state cells together with
  the window's pending timers, each with the time it is due and the task it runs; a task captures
  the attacks of the render that created it. Timers fire in the order in which they are due.
\<close>

section \<open>State\<close>

datatype timer_task =
    IdleTask "AttackMapEvent list"
  | IntervalTask "AttackMapEvent list"
  | FlyTask string
  | FrameTask "AttackMapEvent list" string

record pending_timer =
  pt_handle :: nat
  pt_due :: rat
  pt_task :: timer_task

record DragState =
  dr_pointerId :: int
  dr_startLat :: rat
  dr_startLon :: rat
  dr_x :: rat
  dr_y :: rat

record animation =
  an_start :: "rat \<times> rat"
  an_target :: "rat \<times> rat"
  an_startTime :: rat

record globe =
  gl_attacks :: "AttackMapEvent list"
  gl_featured :: "string option"
  gl_featuredRef :: "string option"
  gl_index :: nat
  gl_interval :: "nat option"
  gl_idle :: "nat option"
  gl_paused :: bool
  gl_drag :: "DragState option"
  gl_dragging :: bool
  gl_previous :: "string set option"
  gl_freshTimers :: "(string \<times> nat) list"
  gl_freshFrame :: "nat option"
  gl_fresh :: "string set"
  gl_lastActivity :: rat
  gl_rotation :: "rat \<times> rat"
  gl_animation :: "animation option"
  gl_zoom :: rat
  gl_now :: rat
  gl_timers :: "pending_timer list"
  gl_handle :: nat

text \<open>
  What the globe takes from elsewhere: the host's arithmetic, the motion preference, the order of
  the featured queue, the places of the teams.
\<close>

record globe_env =
  ge_math :: math
  ge_reducedMotion :: bool
  ge_queue :: "AttackMapEvent list \<Rightarrow> AttackMapEvent list"
  ge_places :: "AttackMapEvent list \<Rightarrow> string \<Rightarrow> Landmark option"

definition AUTO_ROTATE_IDLE_MS :: rat where "AUTO_ROTATE_IDLE_MS = 10000"

definition FEATURED_ATTACK_STEP_MS :: rat where "FEATURED_ATTACK_STEP_MS = 6400"

definition FRESH_ATTACK_FLY_MS :: rat where "FRESH_ATTACK_FLY_MS = 1500"

definition FRESH_FRAME_DEBOUNCE_MS :: rat where "FRESH_FRAME_DEBOUNCE_MS = 350"

definition ZOOM_MIN :: rat where "ZOOM_MIN = 1"

definition ZOOM_MAX :: rat where "ZOOM_MAX = 26 / 10"

definition ZOOM_STEP :: rat where "ZOOM_STEP = 35 / 100"

definition clear_handle :: "nat option \<Rightarrow> globe \<Rightarrow> globe" where
  "clear_handle h g =
     (case h of None \<Rightarrow> g | Some i \<Rightarrow> g\<lparr>gl_timers := filter (\<lambda>t. pt_handle t \<noteq> i) (gl_timers g)\<rparr>)"

definition add_timer :: "rat \<Rightarrow> timer_task \<Rightarrow> globe \<Rightarrow> globe" where
  "add_timer delay task g =
     g\<lparr>gl_timers := gl_timers g @ [\<lparr>pt_handle = gl_handle g, pt_due = gl_now g + delay, pt_task = task\<rparr>],
       gl_handle := Suc (gl_handle g)\<rparr>"

section \<open>The showcase\<close>

definition cancelRotationAnimation :: "globe \<Rightarrow> globe" where
  "cancelRotationAnimation g = g\<lparr>gl_animation := None\<rparr>"

definition clearAutoRotationTimers :: "bool \<Rightarrow> globe \<Rightarrow> globe" where
  "clearAutoRotationTimers clearFeatured g =
     (let g1 = (clear_handle (gl_idle g) g)\<lparr>gl_idle := None\<rparr>;
          g2 = (clear_handle (gl_interval g1) g1)\<lparr>gl_interval := None\<rparr>;
          g3 = (if clearFeatured \<and> gl_featuredRef g2 \<noteq> None
                then g2\<lparr>gl_featuredRef := None, gl_featured := None\<rparr> else g2)
      in cancelRotationAnimation g3)"

definition animateRotationTo :: "globe_env \<Rightarrow> rat \<times> rat \<Rightarrow> globe \<Rightarrow> globe" where
  "animateRotationTo ge target g =
     (let g1 = cancelRotationAnimation g in
      if ge_reducedMotion ge then g1\<lparr>gl_rotation := target\<rparr>
      else g1\<lparr>gl_animation := Some \<lparr>an_start = gl_rotation g, an_target = target, an_startTime = gl_now g\<rparr>\<rparr>)"

text \<open>The callback of an animation frame; the fourth power is exact here.\<close>

definition animation_tick :: "rat \<Rightarrow> globe \<Rightarrow> globe" where
  "animation_tick timestamp g =
     (case gl_animation g of
        None \<Rightarrow> g
      | Some an \<Rightarrow>
          (let progress = clamp ((timestamp - an_startTime an) / 2800) 0 1;
               eased = 1 - (1 - progress) ^ 4;
               deltaLon = normalizeLongitude (snd (an_target an) - snd (an_start an));
               deltaLat = fst (an_target an) - fst (an_start an);
               nextRotation = (fst (an_start an) + deltaLat * eased,
                 normalizeLongitude (snd (an_start an) + deltaLon * eased))
           in g\<lparr>gl_rotation := nextRotation,
                gl_animation := (if progress < 1 then Some an else None)\<rparr>))"

definition featureAttack ::
    "globe_env \<Rightarrow> AttackMapEvent list \<Rightarrow> AttackMapEvent \<Rightarrow> bool \<Rightarrow> bool \<Rightarrow> globe \<Rightarrow> globe" where
  "featureAttack ge attacks attack animate turn g =
     (let g1 = g\<lparr>gl_featured := Some (am_id attack)\<rparr> in
      if \<not> turn then g1
      else (let places = ge_places ge attacks;
                target = getFeaturedAttackRotation (ge_math ge) (places (am_attacker attack))
                  (places (am_victim attack))
            in case target of
                 None \<Rightarrow> g1
               | Some t \<Rightarrow> if animate then animateRotationTo ge t g1 else g1\<lparr>gl_rotation := t\<rparr>))"

definition featureNextAttack :: "globe_env \<Rightarrow> AttackMapEvent list \<Rightarrow> globe \<Rightarrow> globe" where
  "featureNextAttack ge attacks g =
     (if length attacks = 0 then g
      else (let featuredQueue = ge_queue ge attacks;
                queue = (if length featuredQueue > 0 then featuredQueue else attacks);
                attack = queue ! (gl_index g mod length queue)
            in featureAttack ge attacks attack True True (g\<lparr>gl_index := gl_index g + 1\<rparr>)))"

definition start_interval :: "AttackMapEvent list \<Rightarrow> globe \<Rightarrow> globe" where
  "start_interval attacks g =
     (add_timer FEATURED_ATTACK_STEP_MS (IntervalTask attacks) g)\<lparr>gl_interval := Some (gl_handle g)\<rparr>"

definition startAutoRotationFromIdle :: "AttackMapEvent list \<Rightarrow> globe \<Rightarrow> globe" where
  "startAutoRotationFromIdle attacks g =
     (let g1 = clearAutoRotationTimers False g in
      if length attacks = 0 \<or> gl_paused g1 then g1
      else (add_timer AUTO_ROTATE_IDLE_MS (IdleTask attacks) g1)\<lparr>gl_idle := Some (gl_handle g1)\<rparr>)"

definition markUserActivity :: "globe \<Rightarrow> globe" where
  "markUserActivity g =
     (if gl_featuredRef g = None \<and> gl_now g - gl_lastActivity g < 250 then g
      else startAutoRotationFromIdle (gl_attacks g)
             (clearAutoRotationTimers True (g\<lparr>gl_lastActivity := gl_now g, gl_paused := False\<rparr>)))"

definition handlePauseFeaturedAttacks :: "globe \<Rightarrow> globe" where
  "handlePauseFeaturedAttacks g = clearAutoRotationTimers False (g\<lparr>gl_paused := True\<rparr>)"

definition handleResumeFeaturedAttacks :: "globe \<Rightarrow> globe" where
  "handleResumeFeaturedAttacks g = startAutoRotationFromIdle (gl_attacks g) (g\<lparr>gl_paused := False\<rparr>)"

definition handleFeatureNextAttack :: "globe_env \<Rightarrow> globe \<Rightarrow> globe" where
  "handleFeatureNextAttack ge g =
     start_interval (gl_attacks g)
       (featureNextAttack ge (gl_attacks g) (clearAutoRotationTimers False (g\<lparr>gl_paused := False\<rparr>)))"

definition handleFeatureAttack ::
    "globe_env \<Rightarrow> string option \<Rightarrow> (rat \<times> rat) option \<Rightarrow> bool option \<Rightarrow> globe \<Rightarrow> globe" where
  "handleFeatureAttack ge attackId rotation animate g =
     (if \<not> Attack_Map_Panel.truthy attackId then g
      else case find (\<lambda>a. am_id a = the attackId) (gl_attacks g) of
             None \<Rightarrow> g
           | Some attack \<Rightarrow>
               (let g1 = clearAutoRotationTimers False g;
                    g2 = (case rotation of
                        None \<Rightarrow> g1
                      | Some r \<Rightarrow> g1\<lparr>gl_rotation := (clamp_lat (fst r), normalizeLongitude (snd r))\<rparr>)
                in featureAttack ge (gl_attacks g) attack
                     (if rotation \<noteq> None then False else animate \<noteq> Some False) (rotation = None) g2))"

section \<open>Fresh attacks\<close>

definition fly_timer :: "string \<Rightarrow> globe \<Rightarrow> globe" where
  "fly_timer i g =
     (let g1 = clear_handle (map_of (gl_freshTimers g) i) g
      in (add_timer FRESH_ATTACK_FLY_MS (FlyTask i) g1)
           \<lparr>gl_freshTimers := (i, gl_handle g1) # filter (\<lambda>(j, _). j \<noteq> i) (gl_freshTimers g1)\<rparr>)"

definition fresh_effect :: "globe \<Rightarrow> globe" where
  "fresh_effect g =
     (let attacks = gl_attacks g;
          nextAttackIds = set (map am_id attacks);
          g1 = g\<lparr>gl_previous := Some nextAttackIds\<rparr>
      in case gl_previous g of
           None \<Rightarrow> g1
         | Some previousAttackIds \<Rightarrow>
             (let freshIds = filter (\<lambda>i. i \<notin> previousAttackIds) (map am_id attacks) in
              if length freshIds = 0 then g1
              else (let g2 = g1\<lparr>gl_fresh := gl_fresh g1 \<union> set freshIds\<rparr>;
                        g3 = fold fly_timer freshIds g2;
                        g4 = clear_handle (gl_freshFrame g3) g3
                    in (add_timer FRESH_FRAME_DEBOUNCE_MS (FrameTask attacks (last freshIds)) g4)
                         \<lparr>gl_freshFrame := Some (gl_handle g4)\<rparr>)))"

text \<open>A change of the attacks: the cleanup of the showcase's effect, its body, and the effect of the
  fresh attacks, in the order in which React runs them.\<close>

definition new_attacks :: "AttackMapEvent list \<Rightarrow> globe \<Rightarrow> globe" where
  "new_attacks attacks g =
     fresh_effect (startAutoRotationFromIdle attacks
       ((clearAutoRotationTimers True g)\<lparr>gl_attacks := attacks\<rparr>))"

text \<open>The effect on the featured attack copies it into its ref.\<close>

definition sync_featured :: "globe \<Rightarrow> globe" where
  "sync_featured g = g\<lparr>gl_featuredRef := gl_featured g\<rparr>"

section \<open>Timers that fire\<close>

definition run_idle :: "globe_env \<Rightarrow> AttackMapEvent list \<Rightarrow> globe \<Rightarrow> globe" where
  "run_idle ge attacks g =
     (if gl_drag g \<noteq> None then startAutoRotationFromIdle attacks g
      else start_interval attacks (featureNextAttack ge attacks g))"

definition run_fly :: "string \<Rightarrow> globe \<Rightarrow> globe" where
  "run_fly i g =
     g\<lparr>gl_freshTimers := filter (\<lambda>(j, _). j \<noteq> i) (gl_freshTimers g), gl_fresh := gl_fresh g - {i}\<rparr>"

definition run_frame :: "globe_env \<Rightarrow> AttackMapEvent list \<Rightarrow> string \<Rightarrow> globe \<Rightarrow> globe" where
  "run_frame ge attacks latestFreshId g =
     (let g1 = g\<lparr>gl_freshFrame := None\<rparr> in
      if gl_interval g1 = None \<or> gl_drag g1 \<noteq> None then g1
      else case find (\<lambda>a. am_id a = latestFreshId) attacks of
             None \<Rightarrow> g1
           | Some target \<Rightarrow>
               (let g2 = featureAttack ge attacks target True True g1
                in start_interval attacks (clear_handle (gl_interval g2) g2)))"

text \<open>The window runs the timer that is due first; an interval stays and is due again later.\<close>

definition earliest :: "globe \<Rightarrow> pending_timer \<Rightarrow> bool" where
  "earliest g t \<longleftrightarrow> t \<in> set (gl_timers g) \<and> list_all (\<lambda>u. pt_due t \<le> pt_due u) (gl_timers g)"

definition fire :: "globe_env \<Rightarrow> pending_timer \<Rightarrow> globe \<Rightarrow> globe" where
  "fire ge t g =
     (let g1 = g\<lparr>gl_now := max (gl_now g) (pt_due t)\<rparr>;
          once = g1\<lparr>gl_timers := filter (\<lambda>u. pt_handle u \<noteq> pt_handle t) (gl_timers g1)\<rparr>
      in case pt_task t of
           IdleTask attacks \<Rightarrow> run_idle ge attacks once
         | IntervalTask attacks \<Rightarrow>
             featureNextAttack ge attacks
               (g1\<lparr>gl_timers := map (\<lambda>u. if pt_handle u = pt_handle t
                  then u\<lparr>pt_due := pt_due u + FEATURED_ATTACK_STEP_MS\<rparr> else u) (gl_timers g1)\<rparr>)
         | FlyTask i \<Rightarrow> run_fly i once
         | FrameTask attacks i \<Rightarrow> run_frame ge attacks i once)"

section \<open>Pointer, zoom and unmounting\<close>

definition handlePointerDown :: "int \<Rightarrow> bool \<Rightarrow> int \<Rightarrow> rat \<Rightarrow> rat \<Rightarrow> globe \<Rightarrow> globe" where
  "handlePointerDown button interactive pointerId x y g =
     (if button \<noteq> 0 \<or> interactive then g
      else (markUserActivity g)\<lparr>gl_dragging := True,
             gl_drag := Some \<lparr>dr_pointerId = pointerId, dr_startLat = fst (gl_rotation g),
               dr_startLon = snd (gl_rotation g), dr_x = x, dr_y = y\<rparr>\<rparr>)"

definition handlePointerMove :: "int \<Rightarrow> rat \<Rightarrow> rat \<Rightarrow> globe \<Rightarrow> globe" where
  "handlePointerMove pointerId x y g =
     (case gl_drag g of
        None \<Rightarrow> g
      | Some drag \<Rightarrow>
          if dr_pointerId drag \<noteq> pointerId then g
          else (let nextLon = normalizeLongitude (dr_startLon drag - (x - dr_x drag) * (42 / 100));
                    nextLat = clamp_lat (dr_startLat drag + (y - dr_y drag) * (34 / 100))
                in (markUserActivity g)\<lparr>gl_rotation := (nextLat, nextLon)\<rparr>))"

definition handlePointerLostCapture :: "int \<Rightarrow> globe \<Rightarrow> globe" where
  "handlePointerLostCapture pointerId g =
     (case gl_drag g of
        None \<Rightarrow> g
      | Some drag \<Rightarrow>
          if dr_pointerId drag = pointerId then g\<lparr>gl_drag := None, gl_dragging := False\<rparr> else g)"

definition handlePointerUp :: "int \<Rightarrow> globe \<Rightarrow> globe" where
  "handlePointerUp pointerId g = handlePointerLostCapture pointerId (markUserActivity g)"

definition zoomBy :: "rat \<Rightarrow> globe \<Rightarrow> globe" where
  "zoomBy delta g = g\<lparr>gl_zoom := math_round (clamp (gl_zoom g + delta) ZOOM_MIN ZOOM_MAX * 100) / 100\<rparr>"

definition viewBox :: "globe \<Rightarrow> rat \<times> rat \<times> rat \<times> rat" where
  "viewBox g =
     (let viewWidth = MAP_WIDTH / gl_zoom g; viewHeight = MAP_HEIGHT / gl_zoom g
      in (CENTER_X - viewWidth / 2, CENTER_Y - viewHeight / 2, viewWidth, viewHeight))"

definition unmount_globe :: "globe \<Rightarrow> globe" where
  "unmount_globe g =
     (let g1 = clearAutoRotationTimers True g;
          g2 = (fold (\<lambda>(_, h). clear_handle (Some h)) (gl_freshTimers g1) g1)\<lparr>gl_freshTimers := []\<rparr>
      in (clear_handle (gl_freshFrame g2) g2)\<lparr>gl_freshFrame := None\<rparr>)"

section \<open>Events\<close>

datatype globe_event =
    NewAttacks "AttackMapEvent list" | FireTimer pending_timer | AnimationFrame rat
  | PointerDown int bool int rat rat | PointerMove int rat rat | PointerUp int | LostCapture int
  | MouseMove | ZoomIn | ZoomOut | Wait rat
  | PauseFeatured | ResumeFeatured | FeatureNext
  | FeatureAttack "string option" "(rat \<times> rat) option" "bool option"

fun globe_handler :: "globe_env \<Rightarrow> globe_event \<Rightarrow> globe \<Rightarrow> globe" where
  "globe_handler ge (NewAttacks as) g = new_attacks as g"
| "globe_handler ge (FireTimer t) g = (if earliest g t then fire ge t g else g)"
| "globe_handler ge (AnimationFrame ts) g = animation_tick ts g"
| "globe_handler ge (PointerDown b i p x y) g = handlePointerDown b i p x y g"
| "globe_handler ge (PointerMove p x y) g = handlePointerMove p x y g"
| "globe_handler ge (PointerUp p) g = handlePointerUp p g"
| "globe_handler ge (LostCapture p) g = handlePointerLostCapture p g"
| "globe_handler ge MouseMove g = markUserActivity g"
| "globe_handler ge ZoomIn g = (if gl_zoom g \<ge> ZOOM_MAX then g else zoomBy ZOOM_STEP g)"
| "globe_handler ge ZoomOut g = (if gl_zoom g \<le> ZOOM_MIN then g else zoomBy (- ZOOM_STEP) g)"
| "globe_handler ge (Wait d) g =
     (let t = gl_now g + max 0 d in
      if list_all (\<lambda>u. t \<le> pt_due u) (gl_timers g) then g\<lparr>gl_now := t\<rparr> else g)"
| "globe_handler ge PauseFeatured g = handlePauseFeaturedAttacks g"
| "globe_handler ge ResumeFeatured g = handleResumeFeaturedAttacks g"
| "globe_handler ge FeatureNext g = handleFeatureNextAttack ge g"
| "globe_handler ge (FeatureAttack i r a) g = handleFeatureAttack ge i r a g"

definition globe_step :: "globe_env \<Rightarrow> globe_event \<Rightarrow> globe \<Rightarrow> globe" where
  "globe_step ge e g = sync_featured (globe_handler ge e g)"

definition mount_globe :: "AttackMapEvent list \<Rightarrow> globe" where
  "mount_globe attacks =
     fresh_effect (startAutoRotationFromIdle attacks
       \<lparr>gl_attacks = attacks, gl_featured = None, gl_featuredRef = None, gl_index = 0,
        gl_interval = None, gl_idle = None, gl_paused = False, gl_drag = None, gl_dragging = False,
        gl_previous = None, gl_freshTimers = [], gl_freshFrame = None, gl_fresh = {},
        gl_lastActivity = 0, gl_rotation = (- 6, 34), gl_animation = None, gl_zoom = 1,
        gl_now = 0, gl_timers = [], gl_handle = 0\<rparr>)"

definition globe_run :: "globe_env \<Rightarrow> globe_event list \<Rightarrow> globe \<Rightarrow> globe" where
  "globe_run ge es g = foldl (\<lambda>g e. globe_step ge e g) g es"

section \<open>Timers are tracked\<close>

fun is_idle :: "timer_task \<Rightarrow> bool" where
  "is_idle (IdleTask _) = True"
| "is_idle _ = False"

fun is_interval :: "timer_task \<Rightarrow> bool" where
  "is_interval (IntervalTask _) = True"
| "is_interval _ = False"

fun is_frame :: "timer_task \<Rightarrow> bool" where
  "is_frame (FrameTask _ _) = True"
| "is_frame _ = False"

text \<open>Each pending timer is the one its reference names, and references name nothing else.\<close>

definition timer_ok :: "globe \<Rightarrow> pending_timer \<Rightarrow> bool" where
  "timer_ok g t \<longleftrightarrow> pt_handle t < gl_handle g \<and>
     (is_idle (pt_task t) \<longleftrightarrow> gl_idle g = Some (pt_handle t)) \<and>
     (is_interval (pt_task t) \<longleftrightarrow> gl_interval g = Some (pt_handle t)) \<and>
     (is_frame (pt_task t) \<longleftrightarrow> gl_freshFrame g = Some (pt_handle t)) \<and>
     (\<forall>i. pt_task t = FlyTask i \<longleftrightarrow> (i, pt_handle t) \<in> set (gl_freshTimers g))"

definition refs_old :: "globe \<Rightarrow> bool" where
  "refs_old g \<longleftrightarrow> (\<forall>h. gl_idle g = Some h \<or> gl_interval g = Some h \<or> gl_freshFrame g = Some h
        \<or> h \<in> snd ` set (gl_freshTimers g) \<longrightarrow> h < gl_handle g)"

definition fly_ids :: "globe \<Rightarrow> string set" where
  "fly_ids g = {i. \<exists>t \<in> set (gl_timers g). pt_task t = FlyTask i}"

definition pending_idle :: "globe \<Rightarrow> bool" where
  "pending_idle g \<longleftrightarrow> (\<exists>t \<in> set (gl_timers g). is_idle (pt_task t))"

definition pending_interval :: "globe \<Rightarrow> bool" where
  "pending_interval g \<longleftrightarrow> (\<exists>t \<in> set (gl_timers g). is_interval (pt_task t))"

definition tracked :: "globe \<Rightarrow> bool" where
  "tracked g \<longleftrightarrow> (\<forall>t \<in> set (gl_timers g). timer_ok g t) \<and> refs_old g \<and>
     distinct (map pt_handle (gl_timers g)) \<and> distinct (map fst (gl_freshTimers g)) \<and>
     (pending_idle g \<longrightarrow> gl_interval g = None)"

text \<open>The fields that tracking looks at.\<close>

definition timer_fields where
  "timer_fields g = (gl_timers g, gl_handle g, gl_idle g, gl_interval g, gl_freshFrame g, gl_freshTimers g)"

lemma timer_fields_cong:
  assumes "timer_fields g' = timer_fields g"
  shows "tracked g' = tracked g" and "fly_ids g' = fly_ids g" and "pending_idle g' = pending_idle g"
    and "pending_interval g' = pending_interval g"
  using assms by (simp_all add: timer_fields_def tracked_def timer_ok_def refs_old_def fly_ids_def
      pending_idle_def pending_interval_def)

lemma timer_fields_update [simp]:
  "timer_fields (g\<lparr>gl_rotation := r\<rparr>) = timer_fields g" "timer_fields (g\<lparr>gl_animation := a\<rparr>) = timer_fields g"
  "timer_fields (g\<lparr>gl_featured := f\<rparr>) = timer_fields g" "timer_fields (g\<lparr>gl_featuredRef := f\<rparr>) = timer_fields g"
  "timer_fields (g\<lparr>gl_index := n\<rparr>) = timer_fields g" "timer_fields (g\<lparr>gl_paused := b\<rparr>) = timer_fields g"
  "timer_fields (g\<lparr>gl_drag := d\<rparr>) = timer_fields g" "timer_fields (g\<lparr>gl_dragging := b\<rparr>) = timer_fields g"
  "timer_fields (g\<lparr>gl_zoom := z\<rparr>) = timer_fields g" "timer_fields (g\<lparr>gl_now := t\<rparr>) = timer_fields g"
  "timer_fields (g\<lparr>gl_lastActivity := t\<rparr>) = timer_fields g" "timer_fields (g\<lparr>gl_attacks := as\<rparr>) = timer_fields g"
  "timer_fields (g\<lparr>gl_previous := p\<rparr>) = timer_fields g" "timer_fields (g\<lparr>gl_fresh := s\<rparr>) = timer_fields g"
  by (simp_all add: timer_fields_def)

lemma timer_fields_featureAttack [simp]:
  "timer_fields (featureAttack ge as a an ro g) = timer_fields g"
  by (simp add: featureAttack_def Let_def animateRotationTo_def cancelRotationAnimation_def
      split: option.split)

lemma timer_fields_motion [simp]:
  "timer_fields (featureNextAttack ge as g) = timer_fields g"
  "timer_fields (animation_tick ts g) = timer_fields g"
  "timer_fields (sync_featured g) = timer_fields g"
  "timer_fields (zoomBy d g) = timer_fields g"
  "timer_fields (handlePointerLostCapture p g) = timer_fields g"
  by (simp_all add: featureNextAttack_def animation_tick_def sync_featured_def zoomBy_def
      handlePointerLostCapture_def Let_def split: option.split)

lemma clearAuto_fields:
  "gl_timers (clearAutoRotationTimers b g)
     = filter (\<lambda>t. gl_idle g \<noteq> Some (pt_handle t) \<and> gl_interval g \<noteq> Some (pt_handle t)) (gl_timers g)"
  "gl_idle (clearAutoRotationTimers b g) = None" "gl_interval (clearAutoRotationTimers b g) = None"
  "gl_handle (clearAutoRotationTimers b g) = gl_handle g" "gl_now (clearAutoRotationTimers b g) = gl_now g"
  "gl_freshFrame (clearAutoRotationTimers b g) = gl_freshFrame g"
  "gl_freshTimers (clearAutoRotationTimers b g) = gl_freshTimers g"
  "gl_fresh (clearAutoRotationTimers b g) = gl_fresh g" "gl_paused (clearAutoRotationTimers b g) = gl_paused g"
  "gl_drag (clearAutoRotationTimers b g) = gl_drag g" "gl_previous (clearAutoRotationTimers b g) = gl_previous g"
  "gl_rotation (clearAutoRotationTimers b g) = gl_rotation g" "gl_zoom (clearAutoRotationTimers b g) = gl_zoom g"
  "gl_animation (clearAutoRotationTimers b g) = None" "gl_attacks (clearAutoRotationTimers b g) = gl_attacks g"
  by (cases "gl_idle g"; cases "gl_interval g";
      auto simp: clearAutoRotationTimers_def Let_def clear_handle_def cancelRotationAnimation_def
        intro!: filter_cong split: option.splits)+

lemma tracked_clearAuto:
  assumes "tracked g"
  shows "tracked (clearAutoRotationTimers b g)" and "\<not> pending_idle (clearAutoRotationTimers b g)"
    and "\<not> pending_interval (clearAutoRotationTimers b g)"
    and "fly_ids (clearAutoRotationTimers b g) = fly_ids g"
proof -
  have keep: "t \<in> set (gl_timers (clearAutoRotationTimers b g)) \<longleftrightarrow>
      t \<in> set (gl_timers g) \<and> \<not> is_idle (pt_task t) \<and> \<not> is_interval (pt_task t)" for t
    using assms by (auto simp: clearAuto_fields tracked_def timer_ok_def)
  show idle: "\<not> pending_idle (clearAutoRotationTimers b g)"
    and "\<not> pending_interval (clearAutoRotationTimers b g)"
    using keep by (auto simp: pending_idle_def pending_interval_def)
  show "fly_ids (clearAutoRotationTimers b g) = fly_ids g"
    using keep by (fastforce simp: fly_ids_def)
  have "timer_ok (clearAutoRotationTimers b g) t" if "t \<in> set (gl_timers (clearAutoRotationTimers b g))" for t
    using that assms keep [of t] by (simp add: tracked_def timer_ok_def clearAuto_fields)
  moreover have "distinct (map pt_handle (gl_timers (clearAutoRotationTimers b g)))"
    using assms by (simp add: tracked_def clearAuto_fields distinct_map_filter)
  ultimately show "tracked (clearAutoRotationTimers b g)"
    using assms idle by (simp add: tracked_def refs_old_def clearAuto_fields(2-8))
qed

text \<open>A new timer whose handle becomes the reference of its kind.\<close>

lemma tracked_start_interval:
  assumes "tracked g" "\<not> pending_idle g" "\<not> pending_interval g"
  shows "tracked (start_interval as g)" and "fly_ids (start_interval as g) = fly_ids g"
proof -
  show "tracked (start_interval as g)"
    using assms by (fastforce simp: start_interval_def add_timer_def tracked_def timer_ok_def refs_old_def
        pending_idle_def pending_interval_def)
  show "fly_ids (start_interval as g) = fly_ids g"
    by (auto simp: start_interval_def add_timer_def fly_ids_def)
qed

lemma tracked_start_idle:
  assumes "tracked g"
  shows "tracked (startAutoRotationFromIdle as g)" and "fly_ids (startAutoRotationFromIdle as g) = fly_ids g"
proof -
  define g1 where "g1 = clearAutoRotationTimers False g"
  note c = tracked_clearAuto [OF assms, of False, folded g1_def]
  have "gl_interval g1 = None" by (simp add: g1_def clearAuto_fields)
  then have "tracked ((add_timer d (IdleTask as) g1)\<lparr>gl_idle := Some (gl_handle g1)\<rparr>)" for d
    using c(1,2) by (fastforce simp: add_timer_def tracked_def timer_ok_def refs_old_def pending_idle_def)
  moreover have "fly_ids ((add_timer d (IdleTask as) g1)\<lparr>gl_idle := Some (gl_handle g1)\<rparr>) = fly_ids g1" for d
    by (auto simp: add_timer_def fly_ids_def)
  ultimately show "tracked (startAutoRotationFromIdle as g)"
    "fly_ids (startAutoRotationFromIdle as g) = fly_ids g"
    using c by (simp_all add: startAutoRotationFromIdle_def Let_def flip: g1_def)
qed

text \<open>A timer that is removed by its handle.\<close>

lemma clear_handle_fields:
  "gl_timers (clear_handle h g) = filter (\<lambda>t. h \<noteq> Some (pt_handle t)) (gl_timers g)"
  "gl_idle (clear_handle h g) = gl_idle g" "gl_interval (clear_handle h g) = gl_interval g"
  "gl_handle (clear_handle h g) = gl_handle g" "gl_now (clear_handle h g) = gl_now g"
  "gl_freshFrame (clear_handle h g) = gl_freshFrame g" "gl_freshTimers (clear_handle h g) = gl_freshTimers g"
  "gl_fresh (clear_handle h g) = gl_fresh g" "gl_rotation (clear_handle h g) = gl_rotation g"
  "gl_zoom (clear_handle h g) = gl_zoom g" "gl_animation (clear_handle h g) = gl_animation g"
  "gl_drag (clear_handle h g) = gl_drag g"
  by (auto simp: clear_handle_def eq_commute intro!: filter_cong split: option.split)

lemma tracked_clear_handle:
  assumes "tracked g"
  shows "tracked (clear_handle h g)"
  using assms by (auto simp: tracked_def timer_ok_def refs_old_def pending_idle_def clear_handle_fields
      distinct_map_filter)

lemma tracked_same_handle:
  assumes "tracked g" "t \<in> set (gl_timers g)" "u \<in> set (gl_timers g)" "pt_handle t = pt_handle u"
  shows "t = u"
  using assms by (auto simp: tracked_def distinct_map dest: inj_onD)

lemma tracked_fly_timer:
  assumes "tracked g"
  shows "tracked (fly_timer i g)" and "fly_ids (fly_timer i g) = insert i (fly_ids g)"
proof -
  define g1 where "g1 = clear_handle (map_of (gl_freshTimers g) i) g"
  have g1: "tracked g1" "gl_freshTimers g1 = gl_freshTimers g"
    using tracked_clear_handle [OF assms] by (simp_all add: g1_def clear_handle_fields)
  have gone: "pt_task t \<noteq> FlyTask i" if "t \<in> set (gl_timers g1)" for t
  proof
    assume "pt_task t = FlyTask i"
    then have "(i, pt_handle t) \<in> set (gl_freshTimers g)"
      using that g1 by (simp add: tracked_def timer_ok_def)
    then have "map_of (gl_freshTimers g) i = Some (pt_handle t)"
      using assms by (simp add: tracked_def)
    then show False using that by (simp add: g1_def clear_handle_fields)
  qed
  have others: "t \<in> set (gl_timers g1)" if "t \<in> set (gl_timers g)" "pt_task t = FlyTask j" "j \<noteq> i" for t j
  proof -
    have "timer_ok g t" using that assms by (simp add: tracked_def)
    then have "(i, pt_handle t) \<notin> set (gl_freshTimers g)"
      using that by (metis timer_ok_def timer_task.inject(3))
    then have "map_of (gl_freshTimers g) i \<noteq> Some (pt_handle t)" by (auto dest: map_of_SomeD)
    then show ?thesis using that by (simp add: g1_def clear_handle_fields)
  qed
  have fresh: "(j, gl_handle g1) \<notin> set (gl_freshTimers g1)" for j
    using g1(1) by (force simp: tracked_def refs_old_def)
  show "tracked (fly_timer i g)"
    using g1(1) gone fresh
    by (fastforce simp: fly_timer_def Let_def add_timer_def tracked_def timer_ok_def refs_old_def
        pending_idle_def distinct_map_filter simp flip: g1_def)
  show "fly_ids (fly_timer i g) = insert i (fly_ids g)"
    using gone others
    by (auto simp: fly_timer_def Let_def add_timer_def fly_ids_def g1_def [symmetric])
      (auto simp: g1_def clear_handle_fields)
qed

lemma tracked_fly_timers:
  "tracked g \<Longrightarrow> tracked (fold fly_timer is g) \<and> fly_ids (fold fly_timer is g) = set is \<union> fly_ids g"
  by (induction "is" arbitrary: g) (auto simp: tracked_fly_timer)

lemma fly_timers_fresh [simp]: "gl_fresh (fold fly_timer is g) = gl_fresh g"
  by (induction "is" arbitrary: g) (simp_all add: fly_timer_def Let_def add_timer_def clear_handle_fields)

lemma tracked_frame_timer:
  assumes "tracked g"
  shows "tracked ((add_timer d (FrameTask as i) (clear_handle (gl_freshFrame g) g))
      \<lparr>gl_freshFrame := Some (gl_handle (clear_handle (gl_freshFrame g) g))\<rparr>)"
    and "fly_ids ((add_timer d (FrameTask as i) (clear_handle (gl_freshFrame g) g))
      \<lparr>gl_freshFrame := Some (gl_handle (clear_handle (gl_freshFrame g) g))\<rparr>) = fly_ids g"
proof -
  have none: "\<not> is_frame (pt_task t)" if "t \<in> set (gl_timers (clear_handle (gl_freshFrame g) g))" for t
    using that assms by (auto simp: clear_handle_fields tracked_def timer_ok_def)
  show "tracked ((add_timer d (FrameTask as i) (clear_handle (gl_freshFrame g) g))
      \<lparr>gl_freshFrame := Some (gl_handle (clear_handle (gl_freshFrame g) g))\<rparr>)"
    using tracked_clear_handle [OF assms, of "gl_freshFrame g"] none
    by (fastforce simp: add_timer_def tracked_def timer_ok_def refs_old_def pending_idle_def)
  have "is_frame (pt_task t)" if "t \<in> set (gl_timers g)" "gl_freshFrame g = Some (pt_handle t)" for t
    using that assms by (simp add: tracked_def timer_ok_def)
  then have "gl_freshFrame g \<noteq> Some (pt_handle t)" if "t \<in> set (gl_timers g)" "pt_task t = FlyTask j" for t j
    using that by fastforce
  then show "fly_ids ((add_timer d (FrameTask as i) (clear_handle (gl_freshFrame g) g))
      \<lparr>gl_freshFrame := Some (gl_handle (clear_handle (gl_freshFrame g) g))\<rparr>) = fly_ids g"
    by (auto simp: add_timer_def fly_ids_def clear_handle_fields)
qed

section \<open>Invariant of the timers\<close>

text \<open>Every fresh mark has a timer that will remove it.\<close>

definition timers_inv :: "globe \<Rightarrow> bool" where
  "timers_inv g \<longleftrightarrow> tracked g \<and> gl_fresh g \<subseteq> fly_ids g"

lemma timers_inv_cong:
  assumes "timer_fields g' = timer_fields g" "gl_fresh g' = gl_fresh g"
  shows "timers_inv g' = timers_inv g"
  using timer_fields_cong(1,2) [OF assms(1)] assms(2) by (simp add: timers_inv_def)

lemma timers_inv_update [simp]:
  "timers_inv (g\<lparr>gl_rotation := r\<rparr>) = timers_inv g" "timers_inv (g\<lparr>gl_animation := a\<rparr>) = timers_inv g"
  "timers_inv (g\<lparr>gl_featured := f\<rparr>) = timers_inv g" "timers_inv (g\<lparr>gl_featuredRef := f\<rparr>) = timers_inv g"
  "timers_inv (g\<lparr>gl_index := n\<rparr>) = timers_inv g" "timers_inv (g\<lparr>gl_paused := b\<rparr>) = timers_inv g"
  "timers_inv (g\<lparr>gl_drag := d\<rparr>) = timers_inv g" "timers_inv (g\<lparr>gl_dragging := b\<rparr>) = timers_inv g"
  "timers_inv (g\<lparr>gl_zoom := z\<rparr>) = timers_inv g" "timers_inv (g\<lparr>gl_now := t\<rparr>) = timers_inv g"
  "timers_inv (g\<lparr>gl_lastActivity := t\<rparr>) = timers_inv g" "timers_inv (g\<lparr>gl_attacks := as\<rparr>) = timers_inv g"
  "timers_inv (g\<lparr>gl_previous := p\<rparr>) = timers_inv g"
  by (rule timers_inv_cong; simp)+

lemma timers_inv_featureAttack [simp]:
  "timers_inv (featureAttack ge as a an ro g) = timers_inv g"
  by (simp add: featureAttack_def Let_def animateRotationTo_def cancelRotationAnimation_def
      split: option.split)

lemma timers_inv_motion [simp]:
  "timers_inv (featureNextAttack ge as g) = timers_inv g"
  "timers_inv (animation_tick ts g) = timers_inv g"
  "timers_inv (sync_featured g) = timers_inv g"
  "timers_inv (zoomBy d g) = timers_inv g"
  "timers_inv (handlePointerLostCapture p g) = timers_inv g"
  by (simp_all add: featureNextAttack_def animation_tick_def sync_featured_def zoomBy_def
      handlePointerLostCapture_def Let_def split: option.split)

lemma fresh_effect_inv:
  assumes "timers_inv g"
  shows "timers_inv (fresh_effect g)"
proof -
  have *: "timers_inv ((add_timer d (FrameTask as i) (clear_handle (gl_freshFrame h) h))
      \<lparr>gl_freshFrame := Some (gl_handle (clear_handle (gl_freshFrame h) h))\<rparr>)"
    if "timers_inv h" for d as i h
    using that tracked_frame_timer [of h d as i]
    by (simp add: timers_inv_def add_timer_def clear_handle_fields)
  have "timers_inv (fold fly_timer is (g\<lparr>gl_previous := p, gl_fresh := gl_fresh g \<union> set is\<rparr>))" for "is" p
  proof -
    let ?g = "g\<lparr>gl_previous := p, gl_fresh := gl_fresh g \<union> set is\<rparr>"
    have "timer_fields ?g = timer_fields g" by simp
    then have "tracked ?g" "fly_ids ?g = fly_ids g"
      using assms timer_fields_cong [of ?g g] by (simp_all add: timers_inv_def)
    then show ?thesis using tracked_fly_timers [of ?g "is"] assms by (auto simp: timers_inv_def)
  qed
  then show ?thesis
    using assms by (auto simp: fresh_effect_def Let_def intro!: * simp del: set_map set_filter split: option.split)
qed

lemma start_idle_fresh [simp]: "gl_fresh (startAutoRotationFromIdle as g) = gl_fresh g"
  by (simp add: startAutoRotationFromIdle_def Let_def add_timer_def clearAuto_fields)

lemma timers_inv_clearAuto: "timers_inv g \<Longrightarrow> timers_inv (clearAutoRotationTimers b g)"
  by (simp add: timers_inv_def tracked_clearAuto clearAuto_fields)

lemma timers_inv_start_idle: "timers_inv g \<Longrightarrow> timers_inv (startAutoRotationFromIdle as g)"
  by (simp add: timers_inv_def tracked_start_idle)

lemma timers_inv_new_attacks: "timers_inv g \<Longrightarrow> timers_inv (new_attacks as g)"
  unfolding new_attacks_def
  by (intro fresh_effect_inv timers_inv_start_idle) (simp add: timers_inv_clearAuto)

lemma timers_inv_activity: "timers_inv g \<Longrightarrow> timers_inv (markUserActivity g)"
  by (simp add: markUserActivity_def timers_inv_start_idle timers_inv_clearAuto)

lemma featured_fresh [simp]:
  "gl_fresh (featureAttack ge as a an ro g) = gl_fresh g"
  "gl_fresh (featureNextAttack ge as g) = gl_fresh g"
  "gl_fresh (animation_tick ts g) = gl_fresh g"
  by (simp_all add: featureNextAttack_def featureAttack_def animation_tick_def Let_def animateRotationTo_def
      cancelRotationAnimation_def split: option.split)

lemma timers_inv_start_interval:
  assumes "timers_inv g" "\<not> pending_idle g" "\<not> pending_interval g"
  shows "timers_inv (start_interval as g)"
  using assms tracked_start_interval [of g as] by (simp add: timers_inv_def start_interval_def add_timer_def)

lemma run_idle_inv:
  assumes "timers_inv g" "\<not> pending_idle g" "\<not> pending_interval g"
  shows "timers_inv (run_idle ge as g)"
proof -
  let ?g = "featureNextAttack ge as g"
  have "timers_inv ?g" "\<not> pending_idle ?g" "\<not> pending_interval ?g"
    using assms timers_inv_cong [of ?g g] timer_fields_cong [of ?g g] by simp_all
  then show ?thesis
    using assms timers_inv_start_interval timers_inv_start_idle by (simp add: run_idle_def)
qed

text \<open>Taking a one-shot timer that is not the timer of a mark off the list.\<close>

lemma timers_inv_take_off:
  assumes "timers_inv g" "t \<in> set (gl_timers g)" "\<forall>i. pt_task t \<noteq> FlyTask i"
  shows "timers_inv (clear_handle (Some (pt_handle t)) g)"
proof -
  have "tracked g" using assms(1) by (simp add: timers_inv_def)
  then have "fly_ids (clear_handle (Some (pt_handle t)) g) = fly_ids g"
    using tracked_same_handle [OF _ assms(2)] assms(2,3)
    by (fastforce simp: fly_ids_def clear_handle_fields)
  then show ?thesis
    using assms(1) tracked_clear_handle by (simp add: timers_inv_def clear_handle_fields)
qed

lemma run_frame_inv:
  assumes inv: "timers_inv g" and t: "t \<in> set (gl_timers g)" "pt_task t = FrameTask bs j"
  shows "timers_inv (run_frame ge as i (clear_handle (Some (pt_handle t)) g))"
proof -
  define g1 where "g1 = (clear_handle (Some (pt_handle t)) g)\<lparr>gl_freshFrame := None\<rparr>"
  have off: "timers_inv (clear_handle (Some (pt_handle t)) g)"
    using timers_inv_take_off inv t by simp
  have frame: "\<not> is_frame (pt_task u)" if "u \<in> set (gl_timers g1)" for u
  proof -
    have "u \<in> set (gl_timers g)" "pt_handle u \<noteq> pt_handle t"
      using that by (auto simp: g1_def clear_handle_fields)
    then show ?thesis using inv t by (fastforce simp: timers_inv_def tracked_def timer_ok_def)
  qed
  have g1: "timers_inv g1"
    using off frame by (auto simp: timers_inv_def tracked_def timer_ok_def refs_old_def fly_ids_def
        pending_idle_def g1_def)
  have "timers_inv (start_interval as (clear_handle (Some y) g2))"
    if g2: "timers_inv g2" "gl_interval g2 = Some y" for g2 y
  proof -
    let ?h = "clear_handle (Some y) g2"
    have n: "\<not> pending_idle ?h" "\<not> pending_interval ?h"
      using g2 by (auto simp: timers_inv_def tracked_def timer_ok_def pending_idle_def pending_interval_def
          clear_handle_fields)
    have "is_interval (pt_task u)" if "u \<in> set (gl_timers g2)" "gl_interval g2 = Some (pt_handle u)" for u
      using that g2 by (simp add: timers_inv_def tracked_def timer_ok_def)
    then have "gl_interval g2 \<noteq> Some (pt_handle u)"
      if "u \<in> set (gl_timers g2)" "pt_task u = FlyTask k" for u k using that by fastforce
    then have "fly_ids ?h = fly_ids g2" using g2(2) by (fastforce simp: fly_ids_def clear_handle_fields)
    then have "timers_inv ?h"
      using g2 tracked_clear_handle by (simp add: timers_inv_def clear_handle_fields)
    then show ?thesis using n by (rule timers_inv_start_interval)
  qed
  moreover have "timers_inv (featureAttack ge as x True True g1)"
      "gl_interval (featureAttack ge as x True True g1) = gl_interval g1" for x
    using g1 timers_inv_cong [of "featureAttack ge as x True True g1" g1]
      timer_fields_featureAttack [of ge as x True True g1]
    by (simp_all add: timer_fields_def)
  ultimately show ?thesis
    using g1 unfolding run_frame_def Let_def g1_def [symmetric] by (auto split: option.split)
qed

lemma run_fly_inv:
  assumes inv: "timers_inv g" and t: "t \<in> set (gl_timers g)" "pt_task t = FlyTask i"
  shows "timers_inv (run_fly i (clear_handle (Some (pt_handle t)) g))"
proof -
  let ?g = "run_fly i (clear_handle (Some (pt_handle t)) g)"
  have tr: "tracked g" using inv by (simp add: timers_inv_def)
  then have ref: "map_of (gl_freshTimers g) i = Some (pt_handle t)"
    using t by (simp add: tracked_def timer_ok_def)
  have other: "pt_task u \<noteq> FlyTask i" if u: "u \<in> set (gl_timers g)" "pt_handle u \<noteq> pt_handle t" for u
  proof
    assume "pt_task u = FlyTask i"
    then have "map_of (gl_freshTimers g) i = Some (pt_handle u)"
      using u tr by (simp add: tracked_def timer_ok_def)
    then show False using ref u by simp
  qed
  have "timer_ok ?g u" if "u \<in> set (gl_timers ?g)" for u
    using that other [of u] tr
    by (auto simp: run_fly_def clear_handle_fields tracked_def timer_ok_def)
  then have "tracked ?g"
    using tr by (auto simp: run_fly_def clear_handle_fields tracked_def refs_old_def pending_idle_def
        distinct_map_filter)
  moreover have "fly_ids g - {i} \<subseteq> fly_ids ?g"
    using tracked_same_handle [OF tr t(1)] t(2)
    by (fastforce simp: fly_ids_def run_fly_def clear_handle_fields)
  ultimately show ?thesis using inv by (auto simp: timers_inv_def run_fly_def clear_handle_fields)
qed

lemma timers_inv_map:
  assumes "timers_inv g" "\<And>u. pt_handle (f u) = pt_handle u" "\<And>u. pt_task (f u) = pt_task u"
  shows "timers_inv (g\<lparr>gl_timers := map f (gl_timers g)\<rparr>)"
proof -
  have h: "pt_handle \<circ> f = pt_handle" using assms(2) by (simp add: comp_def)
  let ?g = "g\<lparr>gl_timers := map f (gl_timers g)\<rparr>"
  have "fly_ids ?g = fly_ids g" "pending_idle ?g = pending_idle g"
    using assms(3) by (simp_all add: fly_ids_def pending_idle_def)
  then show ?thesis
    using assms h by (simp add: timers_inv_def tracked_def timer_ok_def refs_old_def)
qed

lemma fire_inv:
  assumes inv: "timers_inv g" and t: "t \<in> set (gl_timers g)"
  shows "timers_inv (fire ge t g)"
proof -
  define g1 where "g1 = g\<lparr>gl_now := max (gl_now g) (pt_due t)\<rparr>"
  have g1: "timers_inv g1" "t \<in> set (gl_timers g1)"
    using inv t timers_inv_cong [of g1 g] by (simp_all add: g1_def)
  have once: "g1\<lparr>gl_timers := filter (\<lambda>u. pt_handle u \<noteq> pt_handle t) (gl_timers g1)\<rparr>
      = clear_handle (Some (pt_handle t)) g1"
    by (simp add: clear_handle_def)
  show ?thesis
  proof (cases "pt_task t")
    case (IdleTask as)
    let ?h = "clear_handle (Some (pt_handle t)) g1"
    have "timers_inv ?h" using timers_inv_take_off g1 IdleTask by simp
    moreover have "\<not> pending_idle ?h" "\<not> pending_interval ?h"
      using g1 IdleTask by (auto simp: timers_inv_def tracked_def timer_ok_def pending_idle_def
          pending_interval_def clear_handle_fields)
    ultimately show ?thesis
      using run_idle_inv IdleTask by (simp add: fire_def Let_def flip: g1_def once)
  next
    case (IntervalTask as)
    let ?h = "g1\<lparr>gl_timers := map (\<lambda>u. if pt_handle u = pt_handle t
                  then u\<lparr>pt_due := pt_due u + FEATURED_ATTACK_STEP_MS\<rparr> else u) (gl_timers g1)\<rparr>"
    have "timers_inv (featureNextAttack ge as ?h)"
      using timers_inv_map [OF g1(1)] timers_inv_cong [of "featureNextAttack ge as ?h" ?h] by simp
    then show ?thesis using IntervalTask by (simp add: fire_def Let_def g1_def)
  next
    case (FlyTask i)
    then show ?thesis
      using run_fly_inv [OF g1 FlyTask] by (simp add: fire_def Let_def flip: g1_def once)
  next
    case (FrameTask as i)
    then show ?thesis
      using run_frame_inv [OF g1 FrameTask] by (simp add: fire_def Let_def flip: g1_def once)
  qed
qed

lemma pointer_inv:
  assumes "timers_inv g"
  shows "timers_inv (handlePointerDown b i p x y g)" "timers_inv (handlePointerMove p x y g)"
    "timers_inv (handlePointerUp p g)"
  using assms timers_inv_activity [OF assms]
  by (simp_all add: handlePointerDown_def handlePointerMove_def handlePointerUp_def Let_def split: option.split)

lemma showcase_inv:
  assumes "timers_inv g"
  shows "timers_inv (handlePauseFeaturedAttacks g)" "timers_inv (handleResumeFeaturedAttacks g)"
    "timers_inv (handleFeatureNextAttack ge g)" "timers_inv (handleFeatureAttack ge aid r an g)"
proof -
  show "timers_inv (handlePauseFeaturedAttacks g)" "timers_inv (handleResumeFeaturedAttacks g)"
    using assms timers_inv_clearAuto timers_inv_start_idle
    by (simp_all add: handlePauseFeaturedAttacks_def handleResumeFeaturedAttacks_def)
  let ?h = "clearAutoRotationTimers False (g\<lparr>gl_paused := False\<rparr>)"
  let ?n = "featureNextAttack ge (gl_attacks g) ?h"
  have h: "timers_inv ?h" using assms by (simp add: timers_inv_clearAuto)
  have "tracked (g\<lparr>gl_paused := False\<rparr>)"
    using assms timers_inv_def timers_inv_update(6) by blast
  then have "\<not> pending_idle ?n" "\<not> pending_interval ?n"
    using timer_fields_cong(3,4) [of ?n ?h] tracked_clearAuto(2,3) by simp_all
  with h show "timers_inv (handleFeatureNextAttack ge g)"
    unfolding handleFeatureNextAttack_def by (intro timers_inv_start_interval) simp_all
  show "timers_inv (handleFeatureAttack ge aid r an g)"
    using assms timers_inv_clearAuto [OF assms, of False]
    by (simp add: handleFeatureAttack_def Let_def split: option.split)
qed

lemma globe_step_inv:
  assumes "timers_inv g"
  shows "timers_inv (globe_step ge e g)"
  unfolding globe_step_def
  by (cases e) (use assms in \<open>simp_all add: timers_inv_new_attacks earliest_def fire_inv pointer_inv
      showcase_inv timers_inv_activity Let_def\<close>)

lemma mount_globe_inv: "timers_inv (mount_globe as)"
  unfolding mount_globe_def
  by (intro fresh_effect_inv timers_inv_start_idle)
    (simp add: timers_inv_def tracked_def refs_old_def fly_ids_def pending_idle_def)

lemma globe_run_inv: "timers_inv g \<Longrightarrow> timers_inv (globe_run ge es g)"
  by (induction es arbitrary: g) (simp_all add: globe_run_def globe_step_inv)

text \<open>Unmounting clears every reference, hence every timer.\<close>

lemma clear_all_timers:
  "gl_timers (fold (\<lambda>(_, h). clear_handle (Some h)) ts g)
     = filter (\<lambda>t. pt_handle t \<notin> snd ` set ts) (gl_timers g)"
proof (induction ts arbitrary: g)
  case (Cons p ts)
  then show ?case by (cases p) (auto simp: clear_handle_fields intro: filter_cong)
qed simp

lemma clear_all_frame [simp]:
  "gl_freshFrame (fold (\<lambda>(_, h). clear_handle (Some h)) ts g) = gl_freshFrame g"
  by (induction ts arbitrary: g) (auto simp: clear_handle_fields)

lemma task_cases: "is_idle k \<or> is_interval k \<or> is_frame k \<or> (\<exists>i. k = FlyTask i)"
  by (cases k) simp_all

lemma unmount_clears:
  assumes "tracked g"
  shows "gl_timers (unmount_globe g) = []"
proof -
  let ?g = "clearAutoRotationTimers True g"
  note tr = tracked_clearAuto [OF assms, of True]
  have "pt_handle t \<in> snd ` set (gl_freshTimers ?g) \<or> gl_freshFrame ?g = Some (pt_handle t)"
    if "t \<in> set (gl_timers ?g)" for t
  proof -
    have ok: "timer_ok ?g t" using that tr(1) by (simp add: tracked_def)
    have "\<not> is_idle (pt_task t)" "\<not> is_interval (pt_task t)"
      using that tr(2,3) by (auto simp: pending_idle_def pending_interval_def)
    then consider "is_frame (pt_task t)" | i where "pt_task t = FlyTask i" using task_cases by blast
    then show ?thesis
    proof cases
      case 1
      then show ?thesis using ok by (simp add: timer_ok_def)
    next
      case 2
      then have "(i, pt_handle t) \<in> set (gl_freshTimers ?g)" using ok unfolding timer_ok_def by blast
      then show ?thesis by force
    qed
  qed
  then show ?thesis
    by (auto simp: unmount_globe_def Let_def clear_handle_fields clear_all_timers filter_empty_conv)
qed

section \<open>The view stays in range\<close>

definition view_inv :: "globe \<Rightarrow> bool" where
  "view_inv g \<longleftrightarrow> \<bar>fst (gl_rotation g)\<bar> \<le> MAX_ROTATION_LAT \<and> ZOOM_MIN \<le> gl_zoom g \<and> gl_zoom g \<le> ZOOM_MAX \<and>
     (case gl_animation g of
        None \<Rightarrow> True
      | Some an \<Rightarrow> \<bar>fst (an_start an)\<bar> \<le> MAX_ROTATION_LAT \<and> \<bar>fst (an_target an)\<bar> \<le> MAX_ROTATION_LAT)"

lemma view_inv_cong:
  "gl_rotation g' = gl_rotation g \<Longrightarrow> gl_zoom g' = gl_zoom g \<Longrightarrow>
   gl_animation g' = gl_animation g \<or> gl_animation g' = None \<Longrightarrow> view_inv g \<Longrightarrow> view_inv g'"
  by (auto simp: view_inv_def split: option.splits)

lemma view_inv_update [simp]:
  "view_inv (g\<lparr>gl_featured := f\<rparr>) = view_inv g" "view_inv (g\<lparr>gl_featuredRef := f\<rparr>) = view_inv g"
  "view_inv (g\<lparr>gl_index := n\<rparr>) = view_inv g" "view_inv (g\<lparr>gl_paused := b\<rparr>) = view_inv g"
  "view_inv (g\<lparr>gl_drag := d\<rparr>) = view_inv g" "view_inv (g\<lparr>gl_dragging := b\<rparr>) = view_inv g"
  "view_inv (g\<lparr>gl_now := t\<rparr>) = view_inv g" "view_inv (g\<lparr>gl_lastActivity := t\<rparr>) = view_inv g"
  "view_inv (g\<lparr>gl_attacks := as\<rparr>) = view_inv g" "view_inv (g\<lparr>gl_previous := p\<rparr>) = view_inv g"
  "view_inv (g\<lparr>gl_timers := ts\<rparr>) = view_inv g" "view_inv (g\<lparr>gl_handle := n\<rparr>) = view_inv g"
  "view_inv (g\<lparr>gl_idle := h\<rparr>) = view_inv g" "view_inv (g\<lparr>gl_interval := h\<rparr>) = view_inv g"
  "view_inv (g\<lparr>gl_freshFrame := h\<rparr>) = view_inv g" "view_inv (g\<lparr>gl_freshTimers := xs\<rparr>) = view_inv g"
  "view_inv (g\<lparr>gl_fresh := is\<rparr>) = view_inv g"
  by (simp_all add: view_inv_def)

lemma view_inv_timers [simp]:
  "view_inv (clear_handle h g) = view_inv g" "view_inv (add_timer d k g) = view_inv g"
  "view_inv (start_interval as g) = view_inv g" "view_inv (fly_timer i g) = view_inv g"
  "view_inv (fold fly_timer is g) = view_inv g" "view_inv (run_fly i g) = view_inv g"
proof -
  show c: "view_inv (clear_handle h g) = view_inv g" "view_inv (add_timer d k g) = view_inv g" for h d k g
    by (simp_all add: clear_handle_def add_timer_def split: option.split)
  show f: "view_inv (start_interval as g) = view_inv g" "view_inv (fly_timer i g) = view_inv g"
    "view_inv (run_fly i g) = view_inv g" for g i
    by (simp_all add: start_interval_def fly_timer_def run_fly_def Let_def c)
  show "view_inv (fold fly_timer is g) = view_inv g"
    by (induction "is" arbitrary: g) (simp_all add: f)
qed

lemma view_inv_clearAuto: "view_inv g \<Longrightarrow> view_inv (clearAutoRotationTimers b g)"
  by (rule view_inv_cong) (simp_all add: clearAuto_fields)

lemma view_inv_start_idle: "view_inv g \<Longrightarrow> view_inv (startAutoRotationFromIdle as g)"
  by (simp add: startAutoRotationFromIdle_def Let_def view_inv_clearAuto)

lemma view_inv_activity: "view_inv g \<Longrightarrow> view_inv (markUserActivity g)"
  by (simp add: markUserActivity_def view_inv_start_idle view_inv_clearAuto)

lemma view_inv_fresh_effect: "view_inv g \<Longrightarrow> view_inv (fresh_effect g)"
  by (simp add: fresh_effect_def Let_def split: option.split)

lemma view_inv_turn:
  assumes "view_inv g" "\<bar>fst r\<bar> \<le> MAX_ROTATION_LAT"
  shows "view_inv (g\<lparr>gl_rotation := r\<rparr>)" "view_inv (animateRotationTo ge r g)"
  using assms by (auto simp: view_inv_def animateRotationTo_def cancelRotationAnimation_def Let_def)

lemma view_inv_featureAttack: "view_inv g \<Longrightarrow> view_inv (featureAttack ge as a an ro g)"
proof -
  assume g: "view_inv g"
  have "\<bar>fst r\<bar> \<le> MAX_ROTATION_LAT" if "getFeaturedAttackRotation m x y = Some r" for m x y r
    using featured_rotation_in_range [OF that, of 0] by (simp add: MAX_ROTATION_LAT_def abs_le_iff)
  then show ?thesis
    using g by (auto simp: featureAttack_def Let_def intro!: view_inv_turn split: option.split)
qed

lemma view_inv_featureNext: "view_inv g \<Longrightarrow> view_inv (featureNextAttack ge as g)"
  by (simp add: featureNextAttack_def Let_def view_inv_featureAttack)

text \<open>Between the start and the target of an animation.\<close>

lemma convex_abs_le:
  fixes a b e :: rat
  assumes "\<bar>a\<bar> \<le> m" "\<bar>b\<bar> \<le> m" "0 \<le> e" "e \<le> 1"
  shows "\<bar>a + (b - a) * e\<bar> \<le> m"
proof -
  have eq: "a + (b - a) * e = a * (1 - e) + b * e" by (simp add: algebra_simps)
  have "\<bar>a * (1 - e)\<bar> \<le> m * (1 - e)" "\<bar>b * e\<bar> \<le> m * e"
    using assms by (simp_all add: abs_mult mult_right_mono)
  then have "\<bar>a * (1 - e) + b * e\<bar> \<le> m * (1 - e) + m * e" by linarith
  then show ?thesis unfolding eq by (simp add: algebra_simps)
qed

lemma view_inv_animation:
  assumes "view_inv g"
  shows "view_inv (animation_tick ts g)"
proof (cases "gl_animation g")
  case (Some an)
  define q where "q = clamp ((ts - an_startTime an) / 2800) 0 1"
  have "0 \<le> 1 - q" "1 - q \<le> 1" using clamp_bounds [of 0 1] by (simp_all add: q_def)
  then have "0 \<le> (1 - q) ^ 4" "(1 - q) ^ 4 \<le> 1" by (simp_all add: power_le_one)
  then have "\<bar>fst (an_start an) + (fst (an_target an) - fst (an_start an)) * (1 - (1 - q) ^ 4)\<bar> \<le> MAX_ROTATION_LAT"
    using assms Some by (intro convex_abs_le) (simp_all add: view_inv_def)
  then show ?thesis
    using assms Some by (simp add: animation_tick_def Let_def view_inv_def flip: q_def)
qed (use assms in \<open>simp add: animation_tick_def\<close>)

lemma zoomBy_range: "ZOOM_MIN \<le> gl_zoom (zoomBy d g) \<and> gl_zoom (zoomBy d g) \<le> ZOOM_MAX"
proof -
  have "of_int 100 \<le> clamp (gl_zoom g + d) ZOOM_MIN ZOOM_MAX * 100"
    "clamp (gl_zoom g + d) ZOOM_MIN ZOOM_MAX * 100 \<le> of_int 260"
    using clamp_bounds [of ZOOM_MIN ZOOM_MAX "gl_zoom g + d"] by (simp_all add: ZOOM_MIN_def ZOOM_MAX_def)
  from math_round_range [OF this] show ?thesis by (simp add: zoomBy_def ZOOM_MIN_def ZOOM_MAX_def)
qed

lemma view_inv_fire: "view_inv g \<Longrightarrow> view_inv (fire ge t g)"
  by (cases "pt_task t")
    (simp_all add: fire_def Let_def run_idle_def run_frame_def view_inv_start_idle view_inv_featureNext
      view_inv_featureAttack split: option.split)

lemma clamp_lat_abs: "\<bar>clamp_lat v\<bar> \<le> MAX_ROTATION_LAT"
  using clamp_lat_range [of v] by (simp add: MAX_ROTATION_LAT_def abs_le_iff)

lemma view_inv_pointer:
  assumes "view_inv g"
  shows "view_inv (handlePointerDown b i p x y g)" "view_inv (handlePointerMove p x y g)"
    "view_inv (handlePointerLostCapture p g)" "view_inv (handlePointerUp p g)"
  using assms view_inv_activity [OF assms]
  by (simp_all add: handlePointerDown_def handlePointerMove_def handlePointerLostCapture_def
      handlePointerUp_def Let_def view_inv_turn clamp_lat_abs split: option.split)

lemma view_inv_handler:
  assumes "view_inv g"
  shows "view_inv (globe_handler ge e g)"
proof (cases e)
  case (FeatureAttack i r a)
  then show ?thesis
    using assms view_inv_clearAuto [OF assms]
    by (simp add: handleFeatureAttack_def Let_def view_inv_featureAttack view_inv_turn clamp_lat_abs
        split: option.split)
next
  case ZoomIn
  then show ?thesis using assms zoomBy_range [of ZOOM_STEP g] by (simp add: view_inv_def zoomBy_def)
next
  case ZoomOut
  then show ?thesis using assms zoomBy_range [of "- ZOOM_STEP" g] by (simp add: view_inv_def zoomBy_def)
qed (use assms in \<open>simp_all add: new_attacks_def view_inv_fresh_effect view_inv_start_idle view_inv_clearAuto
      view_inv_fire view_inv_animation view_inv_pointer view_inv_activity Let_def view_inv_featureNext
      handlePauseFeaturedAttacks_def handleResumeFeaturedAttacks_def handleFeatureNextAttack_def\<close>)

lemma view_inv_run: "view_inv g \<Longrightarrow> view_inv (globe_run ge es g)"
  by (induction es arbitrary: g)
    (simp_all add: globe_run_def globe_step_def sync_featured_def view_inv_handler)

lemma view_inv_mount: "view_inv (mount_globe as)"
  unfolding mount_globe_def
  by (intro view_inv_fresh_effect view_inv_start_idle)
    (simp add: view_inv_def MAX_ROTATION_LAT_def ZOOM_MIN_def ZOOM_MAX_def)

section \<open>A fresh attack and the showcase\<close>

text \<open>
  No timer is overdue, and while the frame of a fresh attack waits, the showcase is not running and
  cannot start before it.
\<close>

definition order_inv :: "globe \<Rightarrow> bool" where
  "order_inv g \<longleftrightarrow> (\<forall>t \<in> set (gl_timers g). gl_now g \<le> pt_due t) \<and>
     (\<forall>t \<in> set (gl_timers g). is_frame (pt_task t) \<longrightarrow>
        gl_interval g = None \<and> pt_due t \<le> gl_now g + FRESH_FRAME_DEBOUNCE_MS \<and>
        (\<forall>u \<in> set (gl_timers g). is_idle (pt_task u) \<longrightarrow> pt_due t < pt_due u))"

lemma order_inv_update [simp]:
  "order_inv (g\<lparr>gl_rotation := r\<rparr>) = order_inv g" "order_inv (g\<lparr>gl_animation := a\<rparr>) = order_inv g"
  "order_inv (g\<lparr>gl_featured := f\<rparr>) = order_inv g" "order_inv (g\<lparr>gl_featuredRef := f\<rparr>) = order_inv g"
  "order_inv (g\<lparr>gl_index := n\<rparr>) = order_inv g" "order_inv (g\<lparr>gl_paused := b\<rparr>) = order_inv g"
  "order_inv (g\<lparr>gl_drag := d\<rparr>) = order_inv g" "order_inv (g\<lparr>gl_dragging := b\<rparr>) = order_inv g"
  "order_inv (g\<lparr>gl_zoom := z\<rparr>) = order_inv g" "order_inv (g\<lparr>gl_freshFrame := h\<rparr>) = order_inv g"
  "order_inv (g\<lparr>gl_lastActivity := t\<rparr>) = order_inv g" "order_inv (g\<lparr>gl_attacks := as\<rparr>) = order_inv g"
  "order_inv (g\<lparr>gl_previous := p\<rparr>) = order_inv g" "order_inv (g\<lparr>gl_fresh := is\<rparr>) = order_inv g"
  "order_inv (g\<lparr>gl_idle := h\<rparr>) = order_inv g" "order_inv (g\<lparr>gl_freshTimers := xs\<rparr>) = order_inv g"
  "order_inv (g\<lparr>gl_handle := n\<rparr>) = order_inv g"
  by (simp_all add: order_inv_def)

lemma order_inv_motion [simp]:
  "order_inv (featureAttack ge as a an ro g) = order_inv g"
  "order_inv (featureNextAttack ge as g) = order_inv g"
  "order_inv (animation_tick ts g) = order_inv g"
  "order_inv (zoomBy d g) = order_inv g"
  "order_inv (handlePointerLostCapture p g) = order_inv g"
proof -
  show f: "order_inv (featureAttack ge as a an ro g) = order_inv g" for a an ro g
    by (simp add: featureAttack_def Let_def animateRotationTo_def cancelRotationAnimation_def
        split: option.split)
  show "order_inv (featureNextAttack ge as g) = order_inv g" "order_inv (animation_tick ts g) = order_inv g"
    "order_inv (zoomBy d g) = order_inv g" "order_inv (handlePointerLostCapture p g) = order_inv g"
    by (simp_all add: featureNextAttack_def animation_tick_def zoomBy_def handlePointerLostCapture_def
        Let_def f split: option.split)
qed

lemma order_inv_fewer:
  assumes "order_inv g" "set (gl_timers g') \<subseteq> set (gl_timers g)" "gl_now g' = gl_now g"
    "gl_interval g' = gl_interval g \<or> gl_interval g' = None"
  shows "order_inv g'"
  using assms unfolding order_inv_def by (metis subsetD)

lemma order_inv_clearAuto: "order_inv g \<Longrightarrow> order_inv (clearAutoRotationTimers b g)"
  by (erule order_inv_fewer) (auto simp: clearAuto_fields)

lemma order_inv_clear_handle: "order_inv g \<Longrightarrow> order_inv (clear_handle h g)"
  by (erule order_inv_fewer) (auto simp: clear_handle_fields)

lemma order_inv_start_idle:
  assumes "order_inv g"
  shows "order_inv (startAutoRotationFromIdle as g)"
proof -
  have "order_inv (clearAutoRotationTimers False g)" using assms by (rule order_inv_clearAuto)
  then have "order_inv (add_timer AUTO_ROTATE_IDLE_MS (IdleTask as) (clearAutoRotationTimers False g))"
    by (force simp: order_inv_def add_timer_def AUTO_ROTATE_IDLE_MS_def FRESH_FRAME_DEBOUNCE_MS_def)
  with order_inv_clearAuto [OF assms] show ?thesis
    by (simp add: startAutoRotationFromIdle_def Let_def)
qed

lemma start_idle_fields [simp]:
  "gl_interval (startAutoRotationFromIdle as g) = None" "gl_now (startAutoRotationFromIdle as g) = gl_now g"
  by (simp_all add: startAutoRotationFromIdle_def Let_def add_timer_def clearAuto_fields)

lemma start_idle_due:
  assumes "tracked g" "t \<in> set (gl_timers (startAutoRotationFromIdle as g))" "is_idle (pt_task t)"
  shows "pt_due t = gl_now g + AUTO_ROTATE_IDLE_MS"
  using assms tracked_clearAuto(2) [OF assms(1), of False]
  by (auto simp: startAutoRotationFromIdle_def Let_def add_timer_def pending_idle_def clearAuto_fields(5)
      split: if_splits)

lemma fly_timers_fields [simp]:
  "gl_interval (fold fly_timer is g) = gl_interval g" "gl_now (fold fly_timer is g) = gl_now g"
  by (induction "is" arbitrary: g)
    (simp_all add: fly_timer_def Let_def add_timer_def clear_handle_fields)

lemma fly_timers_timers:
  "t \<in> set (gl_timers (fold fly_timer is g)) \<Longrightarrow>
     t \<in> set (gl_timers g) \<or> (\<exists>i. pt_task t = FlyTask i) \<and> pt_due t = gl_now g + FRESH_ATTACK_FLY_MS"
proof (induction "is" arbitrary: g)
  case (Cons i "is")
  have "gl_now (fly_timer i g) = gl_now g"
    by (simp add: fly_timer_def Let_def add_timer_def clear_handle_fields)
  with Cons.IH [of "fly_timer i g"] Cons.prems show ?case
    by (auto simp: fly_timer_def Let_def add_timer_def clear_handle_fields)
qed simp

lemma order_inv_fresh_effect:
  assumes "order_inv g" "gl_interval g = None"
    and idle: "\<forall>t \<in> set (gl_timers g). is_idle (pt_task t) \<longrightarrow> pt_due t = gl_now g + AUTO_ROTATE_IDLE_MS"
  shows "order_inv (fresh_effect g)"
proof -
  have "order_inv (add_timer FRESH_FRAME_DEBOUNCE_MS (FrameTask as i) (clear_handle h (fold fly_timer is
      (g\<lparr>gl_previous := p, gl_fresh := f\<rparr>))))" (is "order_inv ?h") for as i h p f "is"
  proof -
    let ?g = "g\<lparr>gl_previous := p, gl_fresh := f\<rparr>"
    have t: "t \<in> set (gl_timers g) \<or> pt_due t = gl_now g + FRESH_ATTACK_FLY_MS \<and> (\<exists>i. pt_task t = FlyTask i)
        \<or> pt_due t = gl_now g + FRESH_FRAME_DEBOUNCE_MS \<and> pt_task t = FrameTask as i"
      if "t \<in> set (gl_timers ?h)" for t
      using that fly_timers_timers [of t "is" ?g] by (auto simp: add_timer_def clear_handle_fields)
    have c: "gl_now ?h = gl_now g" "gl_interval ?h = None"
      using assms(2) by (simp_all add: add_timer_def clear_handle_fields)
    have "gl_now g \<le> pt_due t" if "t \<in> set (gl_timers ?h)" for t
      using t [OF that] assms(1)
      by (auto simp: order_inv_def FRESH_ATTACK_FLY_MS_def FRESH_FRAME_DEBOUNCE_MS_def)
    moreover have "pt_due t \<le> gl_now g + FRESH_FRAME_DEBOUNCE_MS"
      if "t \<in> set (gl_timers ?h)" "is_frame (pt_task t)" for t
      using t [OF that(1)] that(2) assms(1) by (auto simp: order_inv_def)
    moreover have "gl_now g + FRESH_FRAME_DEBOUNCE_MS < pt_due u"
      if "u \<in> set (gl_timers ?h)" "is_idle (pt_task u)" for u
      using t [OF that(1)] that(2) idle by (auto simp: AUTO_ROTATE_IDLE_MS_def FRESH_FRAME_DEBOUNCE_MS_def)
    ultimately show ?thesis unfolding order_inv_def c by (meson le_less_trans)
  qed
  then show ?thesis using assms(1) by (simp add: fresh_effect_def Let_def split: option.split)
qed

lemma order_inv_new_attacks:
  assumes "order_inv g" "tracked g"
  shows "order_inv (new_attacks as g)"
proof -
  let ?g = "(clearAutoRotationTimers True g)\<lparr>gl_attacks := as\<rparr>"
  have "tracked ?g"
    using timer_fields_cong(1) [of ?g "clearAutoRotationTimers True g"] tracked_clearAuto(1) assms(2) by simp
  then show ?thesis
    unfolding new_attacks_def
    by (intro order_inv_fresh_effect order_inv_start_idle)
      (use assms(1) in \<open>auto simp: order_inv_clearAuto start_idle_due\<close>)
qed

lemma order_inv_no_frame:
  assumes "\<forall>t \<in> set (gl_timers g). gl_now g \<le> pt_due t \<and> \<not> is_frame (pt_task t)"
  shows "order_inv g"
  using assms by (simp add: order_inv_def)

lemma frame_fires:
  assumes "order_inv g" "earliest g t" "pt_task t = FrameTask as i"
  shows "fire ge t g = g\<lparr>gl_now := pt_due t,
     gl_timers := filter (\<lambda>u. pt_handle u \<noteq> pt_handle t) (gl_timers g), gl_freshFrame := None\<rparr>"
proof -
  have t: "t \<in> set (gl_timers g)" using assms(2) by (simp add: earliest_def)
  then have "max (gl_now g) (pt_due t) = pt_due t" "gl_interval g = None"
    using assms(1,3) by (auto simp: order_inv_def max_def)
  then show ?thesis using assms(3) by (simp add: fire_def Let_def run_frame_def)
qed

lemma start_interval_order:
  assumes "\<forall>t \<in> set (gl_timers g). gl_now g \<le> pt_due t \<and> \<not> is_frame (pt_task t)"
  shows "order_inv (start_interval as g)"
  using assms by (intro order_inv_no_frame) (auto simp: start_interval_def add_timer_def FEATURED_ATTACK_STEP_MS_def)

lemma featureNext_fields [simp]:
  "gl_timers (featureNextAttack ge as g) = gl_timers g" "gl_now (featureNextAttack ge as g) = gl_now g"
  by (simp_all add: featureNextAttack_def featureAttack_def Let_def animateRotationTo_def
      cancelRotationAnimation_def split: option.split)

lemma order_inv_fire:
  assumes "order_inv g" "tracked g" "earliest g t"
  shows "order_inv (fire ge t g)"
proof -
  have t: "t \<in> set (gl_timers g)" and first: "\<forall>u \<in> set (gl_timers g). pt_due t \<le> pt_due u"
    using assms(3) by (auto simp: earliest_def list_all_iff)
  define g1 where "g1 = g\<lparr>gl_now := pt_due t\<rparr>"
  have late: "gl_now g \<le> pt_due t" using assms(1) t by (simp add: order_inv_def)
  then have now: "max (gl_now g) (pt_due t) = pt_due t" by simp
  have g1: "order_inv g1" using assms(1) late first by (force simp: order_inv_def g1_def)
  then have once: "order_inv (clear_handle (Some (pt_handle t)) g1)" by (rule order_inv_clear_handle)
  have eq: "g1\<lparr>gl_timers := filter (\<lambda>u. pt_handle u \<noteq> pt_handle t) (gl_timers g1)\<rparr>
      = clear_handle (Some (pt_handle t)) g1" by (simp add: clear_handle_def)
  show ?thesis
  proof (cases "pt_task t")
    case (IdleTask as)
    then have "\<not> is_frame (pt_task u)" if "u \<in> set (gl_timers g)" for u
      using assms(1) first t that by (fastforce simp: order_inv_def)
    then have "order_inv (start_interval as (featureNextAttack ge as (clear_handle (Some (pt_handle t)) g1)))"
      using first by (intro start_interval_order) (auto simp: clear_handle_fields g1_def)
    with once IdleTask order_inv_start_idle show ?thesis
      by (simp add: fire_def Let_def now run_idle_def eq flip: g1_def)
  next
    case (IntervalTask as)
    then have "gl_interval g \<noteq> None" using assms(2) t by (auto simp: tracked_def timer_ok_def)
    then have "\<not> is_frame (pt_task u)" if "u \<in> set (gl_timers g)" for u
      using assms(1) that by (fastforce simp: order_inv_def)
    then have "order_inv (g1\<lparr>gl_timers := map (\<lambda>u. if pt_handle u = pt_handle t
                  then u\<lparr>pt_due := pt_due u + FEATURED_ATTACK_STEP_MS\<rparr> else u) (gl_timers g1)\<rparr>)"
      using first by (intro order_inv_no_frame) (auto simp: g1_def FEATURED_ATTACK_STEP_MS_def)
    then show ?thesis using IntervalTask by (simp add: fire_def Let_def now g1_def)
  next
    case (FlyTask i)
    with once show ?thesis by (simp add: fire_def Let_def now run_fly_def eq flip: g1_def)
  next
    case (FrameTask as i)
    have "order_inv ((clear_handle (Some (pt_handle t)) g1)\<lparr>gl_freshFrame := None\<rparr>)" using once by simp
    then show ?thesis
      by (simp add: frame_fires [OF assms(1,3) FrameTask] clear_handle_def g1_def)
  qed
qed

lemma order_inv_activity: "order_inv g \<Longrightarrow> order_inv (markUserActivity g)"
  by (simp add: markUserActivity_def order_inv_start_idle order_inv_clearAuto)

lemma order_inv_step:
  assumes "order_inv g" "tracked g" "e \<noteq> FeatureNext"
  shows "order_inv (globe_step ge e g)"
proof -
  have "order_inv (globe_handler ge e g)"
  proof (cases e)
    case (Wait d)
    then show ?thesis
      using assms(1) by (auto simp: Let_def order_inv_def list_all_iff max_def)
  qed (use assms order_inv_clearAuto [OF assms(1)] order_inv_activity [OF assms(1)] in
      \<open>simp_all add: order_inv_new_attacks order_inv_fire handlePointerDown_def handlePointerMove_def
        handlePointerUp_def handlePauseFeaturedAttacks_def handleResumeFeaturedAttacks_def
        handleFeatureAttack_def Let_def order_inv_start_idle order_inv_clearAuto split: option.split\<close>)
  then show ?thesis by (simp add: globe_step_def sync_featured_def)
qed

lemma order_inv_mount: "order_inv (mount_globe as)"
  by (simp add: mount_globe_def fresh_effect_def startAutoRotationFromIdle_def Let_def add_timer_def
      clearAutoRotationTimers_def clear_handle_def cancelRotationAnimation_def order_inv_def AUTO_ROTATE_IDLE_MS_def)

lemma order_inv_run:
  "order_inv g \<Longrightarrow> timers_inv g \<Longrightarrow> FeatureNext \<notin> set es \<Longrightarrow> order_inv (globe_run ge es g)"
proof (induction es arbitrary: g)
  case (Cons e es)
  then have "order_inv (globe_step ge e g)" "timers_inv (globe_step ge e g)"
    using order_inv_step [of g e ge] globe_step_inv [of g ge e] by (auto simp: timers_inv_def)
  with Cons show ?case by (simp add: globe_run_def)
qed (simp add: globe_run_def)

section \<open>Properties of the globe\<close>

lemma filter_at_most_one:
  assumes "distinct (map f xs)" and "\<forall>x \<in> set xs. P x \<longrightarrow> f x = c"
  shows "length (filter P xs) \<le> 1"
proof -
  have "distinct (map f (filter P xs))" using assms(1) by (rule distinct_map_filter)
  then have "length (filter P xs) = card (f ` set (filter P xs))" using distinct_card by fastforce
  also have "\<dots> \<le> card {c}" using assms(2) by (intro card_mono) auto
  finally show ?thesis by simp
qed

text \<open>
  C31. Whatever happens on the globe (new attacks, timers, animation frames, dragging, zooming, the
  events of the showcase, in any order), its latitude stays within the 62 degrees the
  projection is made for and its zoom between 1 and 2.6, every mark of a fresh attack has a pending
  timer that removes it, at most one showcase timer of each kind is pending, and unmounting the
  globe leaves no timer behind.
\<close>

theorem globe_invariant:
  "let g = globe_run ge es (mount_globe as) in
     \<bar>fst (gl_rotation g)\<bar> \<le> 62 \<and> 1 \<le> gl_zoom g \<and> gl_zoom g \<le> 26 / 10 \<and>
     gl_fresh g \<subseteq> {i. \<exists>t \<in> set (gl_timers g). pt_task t = FlyTask i} \<and>
     length (filter (is_idle \<circ> pt_task) (gl_timers g)) + length (filter (is_interval \<circ> pt_task) (gl_timers g)) \<le> 1 \<and>
     gl_timers (unmount_globe g) = []"
proof -
  define g where "g = globe_run ge es (mount_globe as)"
  have inv: "timers_inv g" "view_inv g"
    by (simp_all add: g_def globe_run_inv mount_globe_inv view_inv_run view_inv_mount)
  then have tr: "tracked g" by (simp add: timers_inv_def)
  have "length (filter (is_idle \<circ> pt_task) (gl_timers g)) \<le> 1"
      "length (filter (is_interval \<circ> pt_task) (gl_timers g)) \<le> 1"
    using tr filter_at_most_one [of pt_handle "gl_timers g" "is_idle \<circ> pt_task" "the (gl_idle g)"]
      filter_at_most_one [of pt_handle "gl_timers g" "is_interval \<circ> pt_task" "the (gl_interval g)"]
    by (simp_all add: tracked_def timer_ok_def)
  moreover have "filter (is_idle \<circ> pt_task) (gl_timers g) = [] \<or> filter (is_interval \<circ> pt_task) (gl_timers g) = []"
    using tr by (auto simp: filter_empty_conv tracked_def timer_ok_def pending_idle_def)
  ultimately have "length (filter (is_idle \<circ> pt_task) (gl_timers g))
      + length (filter (is_interval \<circ> pt_task) (gl_timers g)) \<le> 1" by auto
  then show ?thesis
    using inv unmount_clears [OF tr] unfolding g_def [symmetric] Let_def
    by (simp add: view_inv_def timers_inv_def fly_ids_def MAX_ROTATION_LAT_def ZOOM_MIN_def ZOOM_MAX_def)
qed

text \<open>
  C36. The globe means to turn to a fresh attack 350 ms after it arrives while the showcase runs. It
  never does: the arrival itself stops the showcase, which needs ten idle seconds to start again, so
  that in every run without the event that features the next attack by hand the timer of a
  fresh attack only forgets itself; the featured attack, the rotation and the animation stay as they are.
\<close>

theorem fresh_attack_never_featured:
  assumes "FeatureNext \<notin> set es" and "g = globe_run ge es (mount_globe as)"
    and "earliest g t" and "pt_task t = FrameTask bs i"
  shows "globe_handler ge (FireTimer t) g
    = g\<lparr>gl_now := pt_due t, gl_timers := filter (\<lambda>u. pt_handle u \<noteq> pt_handle t) (gl_timers g), gl_freshFrame := None\<rparr>"
proof -
  have "order_inv g" using assms(1,2) order_inv_mount mount_globe_inv by (simp add: order_inv_run)
  from frame_fires [OF this assms(3,4)] assms(3) show ?thesis by simp
qed

definition two_attacks :: "AttackMapEvent list" where
  "two_attacks = map (\<lambda>i. \<lparr>am_id = i, am_attacker = ''red'', am_attackerLocation = None, am_victim = ''blue'',
     am_victimLocation = None, am_service = ''web'', am_tick = 1, am_verdict = ''accepted''\<rparr>) [''a'', ''b'']"

definition sample_globe_env :: globe_env where
  "sample_globe_env = \<lparr>ge_math = sample_math, ge_reducedMotion = False, ge_queue = (\<lambda>as. as),
     ge_places = (\<lambda>_ _. Some (LANDMARKS ! 2))\<rparr>"

definition fresh_frame :: pending_timer where
  "fresh_frame = \<lparr>pt_handle = 3, pt_due = 350, pt_task = FrameTask two_attacks ''b''\<rparr>"

lemmas globe_eval = globe_run_def globe_step_def mount_globe_def new_attacks_def fresh_effect_def
  startAutoRotationFromIdle_def clearAutoRotationTimers_def clear_handle_def cancelRotationAnimation_def
  add_timer_def fly_timer_def sync_featured_def Let_def AUTO_ROTATE_IDLE_MS_def FRESH_ATTACK_FLY_MS_def
  FRESH_FRAME_DEBOUNCE_MS_def

theorem fresh_attack_never_featured_witness:
  "gl_featured (globe_handler sample_globe_env (FireTimer fresh_frame)
     (globe_run sample_globe_env [NewAttacks two_attacks] (mount_globe (take 1 two_attacks)))) = None"
  using fresh_attack_never_featured [OF _ refl, of "[NewAttacks two_attacks]" sample_globe_env
      "take 1 two_attacks" fresh_frame two_attacks "''b''"]
  by (simp add: globe_eval two_attacks_def fresh_frame_def earliest_def)

end
