(* ===== verification/Organizer_Forms.thy ===== *)
theory Organizer_Forms
  imports Organizer_Handlers
begin

text \<open>
  The logic inside the organizer's views (\<open>components/admin/organizer-dashboard-sections.tsx\<close>): the
  checks of the team, player and challenge forms and the dialog that submits them, the schedule and
  scheduler cards, which match controls are offered, the runtime health snapshot and the service
  summaries, the texts, tones and filters of the tables. The lemmas show what an accepted form
  means, when runtime health is reported as healthy or critical, and what the controls allow.
\<close>

section \<open>Dates\<close>

text \<open>What the browser knows of dates: parsing to milliseconds (\<open>None\<close> is an invalid date), the
  local offset in minutes, and the parts of a date in the Jakarta time zone by their types.\<close>

record date_host =
  dh_parse :: "string \<Rightarrow> int option"
  dh_offset :: "int \<Rightarrow> int"
  dh_part :: "int \<Rightarrow> string \<Rightarrow> string option"

definition formatIndonesianDate :: "date_host \<Rightarrow> string option \<Rightarrow> string" where
  "formatIndonesianDate d isoString =
     (case or_undefined isoString of
        None \<Rightarrow> ''n/a''
      | Some s \<Rightarrow>
          if s = ''not applied yet'' then s
          else (case dh_parse d s of
             None \<Rightarrow> s
           | Some date \<Rightarrow>
               (let getPart = (\<lambda>k. coalesce (dh_part d date k) ''undefined'')
                in getPart ''year'' @ ''-'' @ getPart ''month'' @ ''-'' @ getPart ''day'' @ '' '' @
                   getPart ''hour'' @ '':'' @ getPart ''minute'' @ '':'' @ getPart ''second'' @ '' WIB'')))"

definition toDateTimeLocalValue :: "date_host \<Rightarrow> string option \<Rightarrow> string" where
  "toDateTimeLocalValue d isoString =
     (case or_undefined isoString of
        None \<Rightarrow> []
      | Some s \<Rightarrow>
          (case dh_parse d s of
             None \<Rightarrow> []
           | Some parsed \<Rightarrow> take 16 (toISOString (parsed - dh_offset d parsed * 60000))))"

definition fromDateTimeLocalValue :: "date_host \<Rightarrow> string \<Rightarrow> string option" where
  "fromDateTimeLocalValue d v =
     (if v = [] then None else map_option toISOString (dh_parse d v))"

definition datePartFromDateTimeLocalValue :: "string \<Rightarrow> string" where
  "datePartFromDateTimeLocalValue v = (if v = [] then [] else hd (split_on (CHR ''T'') v))"

definition timePartFromDateTimeLocalValue :: "string \<Rightarrow> string" where
  "timePartFromDateTimeLocalValue v =
     (if v = [] then [] else (case split_on (CHR ''T'') v of _ # timePart # _ \<Rightarrow> timePart | _ \<Rightarrow> []))"

definition withUpdatedDatePart :: "string \<Rightarrow> string \<Rightarrow> string" where
  "withUpdatedDatePart currentValue nextDate =
     (if nextDate = [] then []
      else nextDate @ ''T'' @
        coalesce (or_undefined (Some (timePartFromDateTimeLocalValue currentValue))) ''00:00'')"

definition withUpdatedTimePart :: "string \<Rightarrow> string \<Rightarrow> string" where
  "withUpdatedTimePart currentValue nextTime =
     (if nextTime = [] then []
      else (let datePart = datePartFromDateTimeLocalValue currentValue in
        if datePart = [] then [] else datePart @ ''T'' @ nextTime))"

section \<open>The schedule card\<close>

record schedule_draft =
  draftScheduledStart :: string
  draftScheduledEnd :: string

definition shown_schedule :: "date_host \<Rightarrow> AdminGameMatchStatus option \<Rightarrow> schedule_draft" where
  "shown_schedule d matchState =
     \<lparr>draftScheduledStart = toDateTimeLocalValue d (Option.bind matchState am_scheduled_start_at),
      draftScheduledEnd = toDateTimeLocalValue d (Option.bind matchState am_scheduled_end_at)\<rparr>"

definition scheduleChanged :: "date_host \<Rightarrow> AdminGameMatchStatus option \<Rightarrow> schedule_draft \<Rightarrow> bool" where
  "scheduleChanged d matchState draft \<longleftrightarrow>
     draftScheduledStart draft \<noteq> draftScheduledStart (shown_schedule d matchState) \<or>
     draftScheduledEnd draft \<noteq> draftScheduledEnd (shown_schedule d matchState)"

definition scheduleRangeInvalid :: "schedule_draft \<Rightarrow> bool" where
  "scheduleRangeInvalid draft \<longleftrightarrow> draftScheduledStart draft \<noteq> [] \<and> draftScheduledEnd draft \<noteq> [] \<and>
     ordinal_compare (draftScheduledEnd draft) (draftScheduledStart draft) < 0"

text \<open>The two buttons: what they pass to the hook, or nothing when they are disabled.\<close>

definition save_window ::
    "date_host \<Rightarrow> AdminGameMatchStatus option \<Rightarrow> string option \<Rightarrow> schedule_draft \<Rightarrow>
     (string option \<times> string option) option" where
  "save_window d matchState pendingAction draft =
     (if pendingAction \<noteq> None \<or> \<not> scheduleChanged d matchState draft \<or> scheduleRangeInvalid draft then None
      else Some (fromDateTimeLocalValue d (draftScheduledStart draft),
                 fromDateTimeLocalValue d (draftScheduledEnd draft)))"

definition clear_window ::
    "string option \<Rightarrow> schedule_draft \<Rightarrow> schedule_draft \<times> (string option \<times> string option) option" where
  "clear_window pendingAction draft =
     (if pendingAction \<noteq> None \<or> (draftScheduledStart draft = [] \<and> draftScheduledEnd draft = []) then (draft, None)
      else (\<lparr>draftScheduledStart = [], draftScheduledEnd = []\<rparr>, Some (None, None)))"

datatype schedule_edit = StartDate string | StartTime string | EndDate string | EndTime string

fun edit_schedule :: "schedule_edit \<Rightarrow> schedule_draft \<Rightarrow> schedule_draft" where
  "edit_schedule (StartDate v) s = s\<lparr>draftScheduledStart := withUpdatedDatePart (draftScheduledStart s) v\<rparr>"
| "edit_schedule (StartTime v) s = s\<lparr>draftScheduledStart := withUpdatedTimePart (draftScheduledStart s) v\<rparr>"
| "edit_schedule (EndDate v) s = s\<lparr>draftScheduledEnd := withUpdatedDatePart (draftScheduledEnd s) v\<rparr>"
| "edit_schedule (EndTime v) s = s\<lparr>draftScheduledEnd := withUpdatedTimePart (draftScheduledEnd s) v\<rparr>"

section \<open>Match and scheduler controls\<close>

definition canStart :: "AdminGameMatchStatus option \<Rightarrow> bool" where
  "canStart m \<longleftrightarrow> map_option am_state m \<notin> {Some ''running'', Some ''paused'', Some ''finished''}"

definition canPause :: "AdminGameMatchStatus option \<Rightarrow> bool" where
  "canPause m \<longleftrightarrow> map_option am_state m = Some ''running''"

definition canResume :: "AdminGameMatchStatus option \<Rightarrow> bool" where
  "canResume m \<longleftrightarrow> map_option am_state m = Some ''paused''"

definition canStop :: "AdminGameMatchStatus option \<Rightarrow> bool" where
  "canStop m \<longleftrightarrow> map_option am_state m = Some ''running'' \<or> map_option am_state m = Some ''paused''"

definition shown_interval :: "AdminGameSchedulerStatus option \<Rightarrow> string" where
  "shown_interval scheduler = int_to_string (case scheduler of Some s \<Rightarrow> as_interval_seconds s | None \<Rightarrow> 60)"

definition intervalChanged :: "AdminGameSchedulerStatus option \<Rightarrow> string \<Rightarrow> bool" where
  "intervalChanged scheduler draftInterval \<longleftrightarrow>
     (let parsedInterval = parseInt draftInterval
      in parsedInterval \<noteq> (case scheduler of Some s \<Rightarrow> Finite (of_int (as_interval_seconds s)) | None \<Rightarrow> NaN) \<and>
         js_less (Finite 0) parsedInterval)"

definition updateDisabled :: "AdminGameSchedulerStatus option \<Rightarrow> string option \<Rightarrow> string \<Rightarrow> bool" where
  "updateDisabled scheduler pendingAction draftInterval \<longleftrightarrow>
     pendingAction \<noteq> None \<or> \<not> intervalChanged scheduler draftInterval \<or> parseInt draftInterval = NaN"

definition click_update :: "AdminGameSchedulerStatus option \<Rightarrow> string option \<Rightarrow> string \<Rightarrow> js_num option" where
  "click_update scheduler pendingAction draftInterval =
     (if updateDisabled scheduler pendingAction draftInterval then None else Some (parseInt draftInterval))"

definition press_key :: "AdminGameSchedulerStatus option \<Rightarrow> string \<Rightarrow> string \<Rightarrow> js_num option" where
  "press_key scheduler key draftInterval =
     (if key = ''Enter'' \<and> intervalChanged scheduler draftInterval then Some (parseInt draftInterval) else None)"

section \<open>Numbers in the views\<close>

text \<open>\<open>Number.prototype.toFixed\<close>: of two nearest decimals the larger in magnitude.\<close>

definition toFixed :: "nat \<Rightarrow> js_num \<Rightarrow> string" where
  "toFixed f x =
     (case x of
        Finite q \<Rightarrow>
          if 10 ^ 21 \<le> \<bar>q\<bar> then num_to_string x
          else (let s = digits_of (nat \<lfloor>\<bar>q\<bar> * 10 ^ f + 1 / 2\<rfloor>);
                    m = replicate (f + 1 - length s) (CHR ''0'') @ s;
                    k = length m - f
                in (if q < 0 then ''-'' else []) @ take k m @ (if f = 0 then [] else ''.'' @ drop k m))
      | _ \<Rightarrow> num_to_string x)"

definition formatMetricNumber :: "js_num option \<Rightarrow> string" where
  "formatMetricNumber v =
     (case v of None \<Rightarrow> ''n/a'' | Some x \<Rightarrow> if is_integer x then num_to_string x else toFixed 2 x)"

definition formatMetricBool :: "bool option \<Rightarrow> string" where
  "formatMetricBool v = (case v of None \<Rightarrow> ''n/a'' | Some b \<Rightarrow> if b then ''yes'' else ''no'')"

definition formatScoreValue :: "js_num \<Rightarrow> string" where
  "formatScoreValue v = (if is_integer v then num_to_string v else toFixed 3 v)"

definition formatScoringAuditSummary :: "AdminScoringAudit option \<Rightarrow> string" where
  "formatScoringAuditSummary audit =
     (case audit of
        None \<Rightarrow> ''not run''
      | Some a \<Rightarrow> if sa_status a = ''ok'' then ''ok / '' @ int_to_string (sa_replayed_rows a) @ '' rows''
                  else int_to_string (sa_mismatch_count a) @ '' mismatch'')"

section \<open>Tones and labels\<close>

definition norm_status :: "string option \<Rightarrow> string" where
  "norm_status v = toLowerCase (trim (coalesce v []))"

definition getChallengeRuntimeTone :: "string option \<Rightarrow> string" where
  "getChallengeRuntimeTone status =
     (let norm = norm_status status in
      if norm = ''ready'' then ''tone-success''
      else if norm = ''deploying'' then ''tone-info''
      else if norm = ''failed'' \<or> norm = ''error'' \<or> norm = ''degraded'' then ''tone-danger''
      else ''tone-warning'')"

definition getValidationStatusTone :: "string \<Rightarrow> string" where
  "getValidationStatusTone status =
     (if status = ''valid'' then ''tone-success'' else if status = ''invalid'' then ''tone-danger''
      else if status = ''unavailable'' then ''tone-warning'' else ''tone-neutral'')"

definition getGatewayTone :: "string option \<Rightarrow> string" where
  "getGatewayTone st =
     (let norm = norm_status st in
      if norm = ''applied'' \<or> norm = ''success'' then ''tone-success''
      else if norm = ''error'' \<or> norm = ''failed'' \<or> norm = ''degraded'' then ''tone-danger''
      else if norm = ''disabled'' then ''tone-neutral'' else ''tone-warning'')"

definition getTickStatusTone :: "string option \<Rightarrow> string" where
  "getTickStatusTone status =
     (let norm = norm_status status in
      if norm = ''completed'' \<or> norm = ''success'' then ''tone-success''
      else if norm = ''running'' \<or> norm = ''deploying'' then ''tone-info''
      else if norm = ''failed'' \<or> norm = ''error'' \<or> norm = ''degraded'' then ''tone-danger''
      else if norm = ''queued'' \<or> norm = ''pending'' \<or> norm = ''draft'' \<or> norm = ''reconciling'' then ''tone-warning''
      else ''tone-neutral'')"

definition getCheckerRunStatusTone :: "string \<Rightarrow> string" where
  "getCheckerRunStatusTone status =
     (if status = ''success'' then ''tone-success'' else if status = ''failed'' then ''tone-danger''
      else if status = ''skipped'' then ''tone-warning'' else ''tone-neutral'')"

definition getServiceStateTone :: "string option \<Rightarrow> string" where
  "getServiceStateTone status =
     (let norm = norm_status status in
      if norm = ''ok'' then ''tone-success'' else if norm = ''recovering'' then ''tone-info''
      else if norm \<in> {''flag_not_found'', ''faulty'', ''down''} then ''tone-danger'' else ''tone-neutral'')"

definition formatServiceStateLabel :: "string option \<Rightarrow> string" where
  "formatServiceStateLabel status =
     (let norm = norm_status status in
      if norm = ''flag_not_found'' then ''flag not found''
      else if norm \<in> {''ok'', ''recovering'', ''faulty'', ''down''} then norm else ''unknown'')"

section \<open>Filters and rows\<close>

definition hasSchedulerFiltersApplied :: "SchedulerEventFilters \<Rightarrow> bool" where
  "hasSchedulerFiltersApplied f \<longleftrightarrow> trim (ef_eventType f) \<noteq> [] \<or> trim (ef_source f) \<noteq> [] \<or> trim (ef_state f) \<noteq> []"

definition hasAttackFiltersApplied :: "AttackFilters \<Rightarrow> bool" where
  "hasAttackFiltersApplied f \<longleftrightarrow> trim (af_attacker f) \<noteq> [] \<or> trim (af_victim f) \<noteq> [] \<or> trim (af_service f) \<noteq> [] \<or>
     trim (af_tickFrom f) \<noteq> [] \<or> trim (af_tickTo f) \<noteq> [] \<or> js_less (Finite 0) (parseInt (af_offset f))"

definition hasCheckerRunFiltersApplied :: "CheckerRunFilters \<Rightarrow> bool" where
  "hasCheckerRunFiltersApplied f \<longleftrightarrow> trim (cf_tickId f) \<noteq> [] \<or> trim (cf_teamId f) \<noteq> [] \<or> trim (cf_challengeId f) \<noteq> [] \<or>
     trim (cf_phase f) \<noteq> [] \<or> trim (cf_status f) \<noteq> []"

definition checkerAttentionActive :: "AdminOperationsStatus option \<Rightarrow> bool \<Rightarrow> CheckerRunFilters \<Rightarrow> bool" where
  "checkerAttentionActive operationsStatus checkerRunsLiveMode f \<longleftrightarrow>
     (\<exists>a \<in> set (case operationsStatus of Some ops \<Rightarrow> os_alerts ops | None \<Rightarrow> []). al_source a = ''checker'') \<or>
     \<not> checkerRunsLiveMode \<or> hasCheckerRunFiltersApplied f"

definition filteredRows :: "string \<Rightarrow> AdminGameScoreRow list \<Rightarrow> AdminGameScoreRow list" where
  "filteredRows teamFilter scoreRows =
     (let normalizedFilter = toLowerCase (trim teamFilter) in
      if normalizedFilter = [] then scoreRows
      else filter (\<lambda>row. includes_str (toLowerCase (sr_team row)) normalizedFilter) scoreRows)"

text \<open>How many runs of the page have each status.\<close>

definition sliceStatusCounts :: "AdminCheckerRun list \<Rightarrow> string \<Rightarrow> nat option" where
  "sliceStatusCounts rows =
     foldl (\<lambda>counts run. counts(cr_status run \<mapsto> coalesce (counts (cr_status run)) 0 + 1)) Map.empty rows"

definition hasWireGuardPeer :: "AdminPlayer \<Rightarrow> bool" where
  "hasWireGuardPeer p \<longleftrightarrow> pl_wireguard_peer p \<noteq> [] \<and> pl_wireguard_address p \<noteq> [] \<and> pl_wireguard_status p \<noteq> []"

definition can_revoke :: "string option \<Rightarrow> AdminPlayer \<Rightarrow> bool" where
  "can_revoke pendingAction p \<longleftrightarrow> pendingAction = None \<and> hasWireGuardPeer p \<and> pl_wireguard_status p \<noteq> ''revoked''"

type_synonym status_row = "string \<times> string option"

definition runtimeNotLoadedRows :: "string list \<Rightarrow> status_row list \<Rightarrow> status_row list" where
  "runtimeNotLoadedRows emptyLabels rows = rows @ map (\<lambda>label. (label, None)) emptyLabels"

definition formatWireGuardPeerCounts :: "AdminWireGuardGatewayStatus \<Rightarrow> string" where
  "formatWireGuardPeerCounts s = int_to_string (wg_peers_active s) @ '' active / '' @
     int_to_string (wg_peers_revoked s) @ '' revoked / '' @ int_to_string (wg_peers_total s) @ '' total''"

definition wireGuardGatewayRows :: "date_host \<Rightarrow> AdminWireGuardGatewayStatus option \<Rightarrow> status_row list" where
  "wireGuardGatewayRows d status =
     (case status of
        None \<Rightarrow> runtimeNotLoadedRows [''Interface'', ''Firewall'', ''Config'', ''Rules'']
          [(''Mode'', Some ''unknown''), (''Peers'', Some ''not loaded''),
           (''Revision'', Some ''not applied yet''), (''Applied at'', Some ''n/a'')]
      | Some s \<Rightarrow>
          [(''Mode'', Some (wg_mode s)), (''Interface'', wg_interface s), (''Firewall'', wg_firewall_backend s),
           (''Peers'', Some (formatWireGuardPeerCounts s)), (''Revision'', wg_revision s),
           (''Applied at'', Some (formatIndonesianDate d (wg_applied_at s))),
           (''Config'', wg_config_path s), (''Rules'', wg_rules_path s)])"

definition formatAccessPolicyCounts :: "AdminControllerAccessStatus \<Rightarrow> string" where
  "formatAccessPolicyCounts s = int_to_string (cs_policies_total s) @ '' total / '' @
     int_to_string (cs_ssh_open_services s) @ '' SSH-open / '' @ int_to_string (cs_ssh_locked_services s) @ '' SSH-locked''"

definition formatAllowedPeerCount :: "AdminControllerAccessStatus \<Rightarrow> string" where
  "formatAllowedPeerCount s = int_to_string (cs_allowed_peers_total s)"

definition accessPolicyRows :: "date_host \<Rightarrow> AdminControllerAccessStatus option \<Rightarrow> status_row list" where
  "accessPolicyRows d status =
     (case status of
        None \<Rightarrow> runtimeNotLoadedRows [''Interface'', ''Firewall'', ''Rules'']
          [(''Mode'', Some ''unknown''), (''Policies'', Some ''not loaded''), (''Allowed peers'', Some ''not loaded''),
           (''Revision'', Some ''not applied yet''), (''Applied at'', Some ''n/a'')]
      | Some s \<Rightarrow>
          [(''Mode'', Some (cs_mode s)), (''Interface'', cs_interface s), (''Firewall'', cs_firewall_backend s),
           (''Policies'', Some (formatAccessPolicyCounts s)), (''Allowed peers'', Some (formatAllowedPeerCount s)),
           (''Revision'', cs_revision s), (''Applied at'', Some (formatIndonesianDate d (cs_applied_at s))),
           (''Rules'', cs_rules_path s)])"

section \<open>Service metrics\<close>

text \<open>The snapshot of the services' metrics, its five objects in one record.\<close>

record AdminServiceMetricSnapshot =
  sn_generated_at :: string
  gc_match_state :: string
  gc_total_ticks :: "js_num option"
  gc_checker_runs_total :: "js_num option"
  gc_checker_runs_failed :: "js_num option"
  gc_scheduler_running :: "bool option"
  ss_submit_requests_total :: "js_num option"
  ss_submit_failures_total :: "js_num option"
  ss_attack_feed_requests_total :: "js_num option"
  ss_verdicts_correct :: "js_num option"
  ss_verdicts_duplicate :: "js_num option"
  ss_verdicts_invalid :: "js_num option"
  ss_verdicts_unknown :: "js_num option"
  ct_deployment_reconcile_requests :: "js_num option"
  ct_access_reconcile_requests :: "js_num option"
  ct_service_access_reconcile_requests :: "js_num option"
  ct_ssh_credential_requests :: "js_num option"
  ct_access_policies_total :: "js_num option"
  ct_access_last_apply_success :: "bool option"
  rg_last_sync_success :: "bool option"
  rg_sync_errors_total :: "js_num option"
  rg_subscribers_total :: "js_num option"
  rg_snapshot_bytes_total :: "js_num option"
  wgm_reconcile_requests :: "js_num option"
  wgm_peers_total :: "js_num option"
  wgm_peers_active :: "js_num option"
  wgm_peers_revoked :: "js_num option"
  wgm_last_apply_success :: "bool option"

record ServiceHealthSummary =
  sh_title :: string
  sh_status :: string
  sh_statusLabel :: string
  sh_statusClassName :: string
  sh_detail :: string

definition summarizeServiceHealth :: "string \<Rightarrow> string list \<Rightarrow> ServiceHealthSummary" where
  "summarizeServiceHealth title warnings =
     (if warnings = []
      then \<lparr>sh_title = title, sh_status = ''healthy'', sh_statusLabel = ''healthy'', sh_statusClassName = ''tone-success'',
            sh_detail = ''No obvious issues in the current metrics snapshot.''\<rparr>
      else \<lparr>sh_title = title, sh_status = ''warning'', sh_statusLabel = ''attention'', sh_statusClassName = ''tone-warning'',
            sh_detail = join_with '', '' warnings\<rparr>)"

definition some_of :: "js_num option \<Rightarrow> string \<Rightarrow> string list" where
  "some_of v what =
     (if js_less (Finite 0) (coalesce v (Finite 0)) then [formatMetricNumber v @ '' '' @ what] else [])"

definition buildServiceHealthSummaries :: "AdminServiceMetricSnapshot \<Rightarrow> ServiceHealthSummary list" where
  "buildServiceHealthSummaries m =
     [summarizeServiceHealth ''Game Core''
        ((if gc_match_state m = ''running'' \<and> gc_scheduler_running m = Some False then [''scheduler stopped''] else []) @
         some_of (gc_checker_runs_failed m) ''checker failures''),
      summarizeServiceHealth ''Submission'' (some_of (ss_submit_failures_total m) ''submit failures''),
      summarizeServiceHealth ''Controller''
        (if ct_access_last_apply_success m = Some False then [''access apply not successful''] else []),
      summarizeServiceHealth ''Realtime''
        ((if rg_last_sync_success m = Some False then [''last sync failed''] else []) @
         some_of (rg_sync_errors_total m) ''sync errors''),
      summarizeServiceHealth ''WireGuard''
        (if wgm_last_apply_success m = Some False then [''last apply failed''] else [])]"

definition unhealthyCount :: "AdminServiceMetricSnapshot option \<Rightarrow> nat" where
  "unhealthyCount m =
     length (filter (\<lambda>e. sh_status e \<noteq> ''healthy'') (case m of Some x \<Rightarrow> buildServiceHealthSummaries x | None \<Rightarrow> []))"

definition operationsAlertAction :: "AdminOperationsAlert \<Rightarrow> (string \<times> string) option" where
  "operationsAlertAction alert =
     (if al_source alert = ''scheduler'' then Some (''/admin/game#scheduler-card'', ''Scheduler Controls'')
      else if al_source alert = ''checker'' then Some (''/admin/game#checker-runs-card'', ''Checker History'')
      else if al_source alert = ''deployments'' then Some (''/admin/deployments'', ''Deployment Jobs'')
      else if al_source alert = ''wireguard'' \<or> al_source alert = ''access'' then Some (''/admin/players'', ''Runtime Access'')
      else None)"

section \<open>Runtime health\<close>

datatype RuntimeHealthSeverity = Healthy | Warning | Critical

record RuntimeHealthSnapshot =
  rh_accessLabel :: string
  rh_deploymentFailedCount :: nat
  rh_deploymentPendingCount :: nat
  rh_generatedAt :: string
  rh_metricsAttentionCount :: nat
  rh_operationsCriticalCount :: nat
  rh_operationsWarningCount :: nat
  rh_severity :: RuntimeHealthSeverity
  rh_summary :: string
  rh_wireGuardLabel :: string
  rh_warnings :: "string list"

definition metricsWarnings :: "AdminServiceMetricSnapshot option \<Rightarrow> string list" where
  "metricsWarnings serviceMetrics =
     (case serviceMetrics of
        None \<Rightarrow> [''Live service metrics snapshot is unavailable.'']
      | Some m \<Rightarrow>
          (if ct_access_last_apply_success m = Some False
           then [''Controller metrics report the last access apply was unsuccessful.''] else []) @
          (if wgm_last_apply_success m = Some False
           then [''WireGuard metrics report the last gateway apply was unsuccessful.''] else []) @
          (if rg_last_sync_success m = Some False
           then [''Realtime metrics report the last snapshot sync was unsuccessful.''] else []))"

definition count_warning :: "nat \<Rightarrow> string \<Rightarrow> string list" where
  "count_warning n what = (if n > 0 then [int_to_string (int n) @ what] else [])"

definition state_warning :: "string option \<Rightarrow> string \<Rightarrow> string \<Rightarrow> string \<Rightarrow> string list" where
  "state_warning st subject consequence missing =
     (case st of
        Some s \<Rightarrow> if s \<noteq> ''applied'' then [subject @ '' is '' @ s @ consequence] else []
      | None \<Rightarrow> [missing])"

definition buildRuntimeHealthSnapshot ::
    "date_host \<Rightarrow> AdminControllerAccessStatus option \<Rightarrow> AdminDeploymentJob list \<Rightarrow> AdminOperationsStatus option \<Rightarrow>
     AdminServiceMetricSnapshot option \<Rightarrow> AdminWireGuardGatewayStatus option \<Rightarrow> RuntimeHealthSnapshot" where
  "buildRuntimeHealthSnapshot d accessStatus deploymentRows operationsStatus serviceMetrics gatewayStatus =
     (let pendingCount = length (filter (\<lambda>j. dj_status j \<notin> {''completed'', ''failed'', ''superseded''}) deploymentRows);
          failedCount = length (filter (\<lambda>j. dj_status j = ''failed'' \<or> dj_failed_team_count j > 0) deploymentRows);
          alerts = (case operationsStatus of Some ops \<Rightarrow> os_alerts ops | None \<Rightarrow> []);
          criticalCount = length (filter (\<lambda>a. al_severity a = ''critical'') alerts);
          warningCount = length alerts - criticalCount;
          warnings =
            count_warning pendingCount '' deployment job(s) still need trusted reconcile completion.'' @
            count_warning failedCount '' deployment job(s) have failed team runtime work recorded.'' @
            state_warning (map_option cs_state accessStatus) ''Controller access policy'' '', so SSH truth may be stale.''
              ''Controller access policy status is not loaded yet.'' @
            state_warning (map_option wg_state gatewayStatus) ''WireGuard gateway'' '', so peer truth may be stale.''
              ''WireGuard gateway status is not loaded yet.'' @
            count_warning criticalCount '' critical runtime alert(s) are active.'' @
            count_warning warningCount '' warning runtime alert(s) are active.'' @
            metricsWarnings serviceMetrics;
          severity =
            (if criticalCount > 0 \<or> failedCount > 0 \<or> map_option cs_state accessStatus = Some ''error'' \<or>
                map_option wg_state gatewayStatus = Some ''error''
             then Critical else if warnings \<noteq> [] then Warning else Healthy)
      in \<lparr>rh_accessLabel = (case accessStatus of Some s \<Rightarrow> cs_state s @ '' ('' @ cs_mode s @ '')'' | None \<Rightarrow> ''not loaded''),
          rh_deploymentFailedCount = failedCount, rh_deploymentPendingCount = pendingCount,
          rh_generatedAt = formatIndonesianDate d (case operationsStatus of
             Some ops \<Rightarrow> Some (os_generated_at ops)
           | None \<Rightarrow> (case Option.bind accessStatus cs_applied_at of
                Some t \<Rightarrow> Some t | None \<Rightarrow> Option.bind gatewayStatus wg_applied_at)),
          rh_metricsAttentionCount = length (metricsWarnings serviceMetrics),
          rh_operationsCriticalCount = criticalCount, rh_operationsWarningCount = warningCount,
          rh_severity = severity,
          rh_summary = (case severity of
             Healthy \<Rightarrow> ''Trusted reconcile, controller access, WireGuard, deployments, and live metrics currently agree.''
           | Critical \<Rightarrow> ''Runtime truth is degraded. Reconcile or inspect the failing layer before trusting SSH access or deployment state.''
           | Warning \<Rightarrow> ''Runtime drift warnings are active. Review deployments, access, and gateway state before assuming the stack is converged.''),
          rh_wireGuardLabel = (case gatewayStatus of Some s \<Rightarrow> wg_state s @ '' ('' @ wg_mode s @ '')'' | None \<Rightarrow> ''not loaded''),
          rh_warnings = warnings\<rparr>)"

fun runtimeHealthSeverityLabel :: "RuntimeHealthSeverity \<Rightarrow> string" where
  "runtimeHealthSeverityLabel Critical = ''critical''"
| "runtimeHealthSeverityLabel Warning = ''attention''"
| "runtimeHealthSeverityLabel Healthy = ''healthy''"

section \<open>Form checks\<close>

text \<open>The errors of a form, in the order they are pushed, and the message of each field.\<close>

record 'f form_check =
  fc_errors :: "string list"
  fc_fieldErrors :: "'f \<Rightarrow> string option"

definition no_errors :: "'f form_check" where
  "no_errors = \<lparr>fc_errors = [], fc_fieldErrors = Map.empty\<rparr>"

definition reject :: "'f \<Rightarrow> string \<Rightarrow> string \<Rightarrow> 'f form_check \<Rightarrow> 'f form_check" where
  "reject field message error c =
     \<lparr>fc_errors = fc_errors c @ [error], fc_fieldErrors = (fc_fieldErrors c)(field \<mapsto> message)\<rparr>"

definition reject_if :: "bool \<Rightarrow> 'f \<Rightarrow> string \<Rightarrow> string \<Rightarrow> 'f form_check \<Rightarrow> 'f form_check" where
  "reject_if bad field message error c = (if bad then reject field message error c else c)"

text \<open>The regular expression \<open>/^[^\s@]+@[^\s@]+\.[^\s@]+$/\<close> as a scan: up to the at sign, then a part
  without at sign or white space that has a dot strictly inside.\<close>

definition email_char :: "char \<Rightarrow> bool" where
  "email_char ch \<longleftrightarrow> \<not> is_ws ch \<and> ch \<noteq> CHR ''@''"

definition emailPattern :: "string \<Rightarrow> bool" where
  "emailPattern s \<longleftrightarrow>
     takeWhile email_char s \<noteq> [] \<and>
     (case dropWhile email_char s of
        sep # rest \<Rightarrow> sep = CHR ''@'' \<and> list_all email_char rest \<and> CHR ''.'' \<in> set (butlast (tl rest))
      | [] \<Rightarrow> False)"

datatype TeamDraftField = TeamNameField | ContactEmailField

definition validateTeamDraft :: "TeamDraft \<Rightarrow> TeamDraftField form_check" where
  "validateTeamDraft draft =
     (let c = reject_if (trim (td_name draft) = []) TeamNameField ''Enter a team name.'' ''Team name is required.'' no_errors;
          email = trim (td_contactEmail draft)
      in if email = [] then reject ContactEmailField ''Enter a contact email.'' ''Contact email is required.'' c
         else reject_if (\<not> emailPattern email) ContactEmailField ''Enter a valid email address.''
                ''Contact email must be a valid email address.'' c)"

datatype PlayerDraftField = TeamIdField | DisplayNameField | EmailField | PasswordField | RoleField

definition check_email :: "string \<Rightarrow> PlayerDraftField form_check \<Rightarrow> PlayerDraftField form_check" where
  "check_email email c =
     (if email = [] then reject EmailField ''Enter an email address.'' ''Email is required.'' c
      else reject_if (\<not> emailPattern email) EmailField ''Enter a valid email address.''
             ''Email must be a valid email address.'' c)"

definition check_password :: "string \<Rightarrow> PlayerDraftField form_check \<Rightarrow> PlayerDraftField form_check" where
  "check_password password c =
     (if trim password = [] then reject PasswordField ''Enter a password.'' ''Password is required.'' c
      else reject_if (length password < 8) PasswordField ''Use at least 8 characters.''
             ''Password must be at least 8 characters.'' c)"

definition validatePlayerDraft :: "PlayerDraft \<Rightarrow> form_mode option \<Rightarrow> PlayerDraftField form_check" where
  "validatePlayerDraft draft formMode =
     (let creating = (formMode = Some CreateMode);
          c1 = reject_if (creating \<and> pd_teamId draft \<le> 0) TeamIdField ''Select a team.'' ''Team selection is required.'' no_errors;
          c2 = reject_if (trim (pd_displayName draft) = []) DisplayNameField ''Enter a display name.'' ''Display name is required.'' c1;
          c3 = check_email (trim (pd_email draft)) c2;
          c4 = (if creating then check_password (pd_password draft) c3 else c3)
      in reject_if (pd_role draft \<noteq> ''member'' \<and> pd_role draft \<noteq> ''captain'') RoleField ''Select a valid role.''
           ''Role must be member or captain.'' c4)"

definition parseOptionalInteger :: "string \<Rightarrow> js_num option" where
  "parseOptionalInteger raw =
     (let trimmed = trim raw in
      if trimmed = [] then None
      else if \<not> list_all is_digit trimmed then Some NaN
      else Some (js_Number trimmed))"

definition nextChallengeID :: "AdminChallenge list \<Rightarrow> int" where
  "nextChallengeID challengeRows = foldl (\<lambda>maxID c. max maxID (ac_id c)) 0 challengeRows + 1"

datatype ChallengeDraftField = NameField | BaselineImageField | CheckerImageField | SourceBundlePathField
  | ServicePortField | ServiceSubnetOctetField

record ChallengeDraftValidation = "ChallengeDraftField form_check" +
  effectiveChallengeID :: int
  effectiveServicePort :: js_num
  effectiveServiceSubnetOctet :: js_num
  endpointExample :: string

definition escapes_root :: "string \<Rightarrow> bool" where
  "escapes_root path \<longleftrightarrow> path \<noteq> [] \<and>
     (starts_with path ''/'' \<or> path = ''.'' \<or> path = ''..'' \<or> ''..'' \<in> set (split_on (CHR ''/'') path))"

text \<open>A number field that is filled in must be a number between 1 and a bound.\<close>

definition out_of_range :: "js_num option \<Rightarrow> rat \<Rightarrow> bool" where
  "out_of_range parsed mx \<longleftrightarrow>
     (case parsed of
        None \<Rightarrow> False
      | Some x \<Rightarrow> x = NaN \<or> \<not> js_less (Finite 0) x \<or> js_less (Finite mx) x)"

definition octet_conflict :: "AdminChallenge list \<Rightarrow> int option \<Rightarrow> js_num \<Rightarrow> AdminChallenge option" where
  "octet_conflict challengeRows editingID octet =
     (if octet \<noteq> NaN \<and> js_less (Finite 0) octet \<and> \<not> js_less (Finite 254) octet
      then find (\<lambda>c. Some (ac_id c) \<noteq> editingID \<and> Finite (of_int (ac_service_subnet_octet c)) = octet) challengeRows
      else None)"

definition effective :: "js_num option \<Rightarrow> int \<Rightarrow> js_num" where
  "effective parsed fallback =
     (case parsed of None \<Rightarrow> Finite (of_int fallback) | Some x \<Rightarrow> if x = NaN then Finite (of_int fallback) else x)"

definition validateChallengeDraft ::
    "ChallengeDraft \<Rightarrow> AdminChallenge list \<Rightarrow> form_mode option \<Rightarrow> int option \<Rightarrow> AdminTeam list \<Rightarrow> ChallengeDraftValidation" where
  "validateChallengeDraft draft challengeRows formMode editingID teamRows =
     (let challengeID = (if formMode = Some EditMode \<and> editingID \<noteq> None then the editingID else nextChallengeID challengeRows);
          c1 = reject_if (trim (cd_name draft) = []) NameField ''Enter a challenge name.'' ''Challenge name is required.'' no_errors;
          c2 = reject_if (trim (cd_baselineImage draft) = []) BaselineImageField ''Enter the baseline runtime image.''
                 ''Baseline image is required.'' c1;
          c3 = reject_if (trim (cd_checkerImage draft) = []) CheckerImageField ''Enter the checker image.''
                 ''Checker image is required.'' c2;
          c4 = reject_if (escapes_root (trim (cd_sourceBundlePath draft))) SourceBundlePathField
                 ''Use a relative path inside AD_CHALLENGE_SOURCE_ROOT.''
                 ''Source bundle path must stay inside AD_CHALLENGE_SOURCE_ROOT.'' c3;
          port = parseOptionalInteger (cd_servicePort draft);
          octet = parseOptionalInteger (cd_serviceSubnetOctet draft);
          effectivePort = effective port (10000 + challengeID);
          effectiveOctet = effective octet (max 1 challengeID);
          c5 = (if formMode = Some CreateMode
             then (let p = reject_if (out_of_range port 65535) ServicePortField ''Enter a port between 1 and 65535.''
                         ''Service port must be between 1 and 65535.'' c4;
                       q = reject_if (out_of_range octet 254) ServiceSubnetOctetField ''Enter an octet between 1 and 254.''
                         ''Subnet octet must be between 1 and 254.'' p
                   in case octet_conflict challengeRows editingID effectiveOctet of
                        None \<Rightarrow> q
                      | Some c \<Rightarrow> reject ServiceSubnetOctetField (''Already assigned to '' @ ac_name c @ ''.'')
                          (''Subnet octet '' @ num_to_string effectiveOctet @ '' is already assigned to '' @ ac_name c @ ''.'') q)
             else c4);
          exampleTeamID = (case teamRows of t # _ \<Rightarrow> tm_id t | [] \<Rightarrow> 101)
      in \<lparr>fc_errors = fc_errors c5, fc_fieldErrors = fc_fieldErrors c5,
          effectiveChallengeID = challengeID, effectiveServicePort = effectivePort,
          effectiveServiceSubnetOctet = effectiveOctet,
          endpointExample = ''10.80.'' @ num_to_string effectiveOctet @ ''.'' @
            int_to_string (if exampleTeamID \<ge> 101 then exampleTeamID - 90 else 11) @ '':'' @ num_to_string effectivePort\<rparr>)"

section \<open>The dialogs\<close>

definition isSubmitting :: "string option \<Rightarrow> bool" where
  "isSubmitting pendingAction \<longleftrightarrow>
     (case pendingAction of None \<Rightarrow> False | Some a \<Rightarrow> includes_str a '':create'' \<or> includes_str a '':update'')"

definition formInvalid :: "organizer \<Rightarrow> bool" where
  "formInvalid s \<longleftrightarrow>
     (od_formEntity s = Some TeamForm \<and> fc_errors (validateTeamDraft (od_teamDraft s)) \<noteq> []) \<or>
     (od_formEntity s = Some PlayerForm \<and> fc_errors (validatePlayerDraft (od_playerDraft s) (od_formMode s)) \<noteq> []) \<or>
     (od_formEntity s = Some ChallengeForm \<and>
        fc_errors (validateChallengeDraft (od_challengeDraft s) (od_challengeRows s) (od_formMode s) (od_editingId s)
          (od_teamRows s)) \<noteq> [])"

text \<open>The submit button of the dialog, enabled in an open dialog whose form is valid.\<close>

definition EntityFormDialog :: "organizer \<Rightarrow> bool" where
  "EntityFormDialog s \<longleftrightarrow> od_formMode s \<noteq> None \<and> od_formEntity s \<noteq> None \<and>
     \<not> (isSubmitting (od_pendingAction s) \<or> formInvalid s)"

definition click_submit :: "hook_types \<Rightarrow> organizer \<Rightarrow> organizer prog" where
  "click_submit c s = (if EntityFormDialog s then submitForm c s else Done)"

definition kind_name :: "target_kind \<Rightarrow> string" where
  "kind_name k = (case k of DeleteTeam \<Rightarrow> ''team'' | DeletePlayer \<Rightarrow> ''player'' | DeleteChallenge \<Rightarrow> ''challenge''
     | DeleteDeployment \<Rightarrow> ''deployment'')"

definition isDeleting :: "DeleteTarget option \<Rightarrow> string option \<Rightarrow> bool" where
  "isDeleting target pendingAction \<longleftrightarrow>
     (case target of
        None \<Rightarrow> False
      | Some t \<Rightarrow> pendingAction = Some (kind_name (dt_kind t) @ '':delete:'' @ int_to_string (dt_id t)))"

definition kindLabel :: "DeleteTarget option \<Rightarrow> string" where
  "kindLabel target =
     (case target of
        None \<Rightarrow> ''item''
      | Some t \<Rightarrow> if dt_kind t = DeleteDeployment then ''deployment job'' else kind_name (dt_kind t))"

definition deleteActionLabel :: "DeleteTarget option \<Rightarrow> string" where
  "deleteActionLabel target =
     (case target of
        None \<Rightarrow> ''Delete Item''
      | Some t \<Rightarrow> (case dt_kind t of
          DeleteDeployment \<Rightarrow> ''Delete Job'' | DeleteTeam \<Rightarrow> ''Delete Team'' | DeletePlayer \<Rightarrow> ''Delete Player''
        | DeleteChallenge \<Rightarrow> ''Delete Challenge''))"

definition impactLines :: "DeleteTarget option \<Rightarrow> string list" where
  "impactLines target =
     (case map_option dt_kind target of
        Some DeleteTeam \<Rightarrow>
          [''All associated player accounts are removed from the roster.'',
           ''Published service state owned by this team is removed from organizer views.'',
           ''This changes scoreboard ownership and team service visibility immediately.'']
      | Some DeletePlayer \<Rightarrow>
          [''The player account is removed from the roster immediately.'',
           ''Existing WireGuard or SSH access must be reconciled separately after deletion.'']
      | Some DeleteChallenge \<Rightarrow>
          [''Associated service instances are removed from organizer and participant views.'',
           ''Future deployments for this challenge must be recreated from the catalog.'']
      | Some DeleteDeployment \<Rightarrow>
          [''Only the deployment job record is removed.'', ''Already deployed runtimes remain intact.'']
      | None \<Rightarrow> [])"

section \<open>What an accepted form means\<close>

lemma fc_errors_reject [simp]:
  "fc_errors (reject f m e c) = fc_errors c @ [e]"
  "fc_errors (reject_if b f m e c) = fc_errors c @ (if b then [e] else [])"
  "fc_errors no_errors = []"
  by (simp_all add: reject_def reject_if_def no_errors_def)

text \<open>The scan accepts what the regular expression matches.\<close>

lemma emailPattern_iff:
  "emailPattern s \<longleftrightarrow>
     (\<exists>user host top. s = user @ ''@'' @ host @ ''.'' @ top \<and> user \<noteq> [] \<and> host \<noteq> [] \<and> top \<noteq> [] \<and>
        list_all email_char (user @ host @ top))"
proof
  assume "emailPattern s"
  then obtain rest where rest: "dropWhile email_char s = CHR ''@'' # rest" "takeWhile email_char s \<noteq> []"
      "list_all email_char rest" "CHR ''.'' \<in> set (butlast (tl rest))"
    by (auto simp: emailPattern_def split: list.splits)
  then obtain x xs where x: "rest = x # xs" "xs \<noteq> []" by (cases rest; cases "tl rest") auto
  from rest(4) x obtain us vs where d: "butlast xs = us @ CHR ''.'' # vs" by (auto dest: split_list)
  have "rest = (x # us) @ ''.'' @ (vs @ [last xs])"
    using x d append_butlast_last_id [of xs] by auto
  moreover have "s = takeWhile email_char s @ ''@'' @ rest"
    using takeWhile_dropWhile_id [of email_char s] rest(1) by simp
  moreover have "list_all email_char (takeWhile email_char s)"
    by (auto simp: list_all_iff dest: set_takeWhileD)
  ultimately show "\<exists>user host top. s = user @ ''@'' @ host @ ''.'' @ top \<and> user \<noteq> [] \<and> host \<noteq> [] \<and> top \<noteq> [] \<and>
        list_all email_char (user @ host @ top)"
    using rest(2,3) by (intro exI [of _ "takeWhile email_char s"] exI [of _ "x # us"] exI [of _ "vs @ [last xs]"]) auto
next
  assume "\<exists>user host top. s = user @ ''@'' @ host @ ''.'' @ top \<and> user \<noteq> [] \<and> host \<noteq> [] \<and> top \<noteq> [] \<and>
        list_all email_char (user @ host @ top)"
  then obtain user host top where s: "s = user @ ''@'' @ host @ ''.'' @ top"
      and ne: "user \<noteq> []" "host \<noteq> []" "top \<noteq> []" and ok: "list_all email_char (user @ host @ top)" by blast
  have at: "\<not> email_char (CHR ''@'')" "email_char (CHR ''.'')" by (simp_all add: email_char_def is_ws_def)
  have "takeWhile email_char s = user" "dropWhile email_char s = CHR ''@'' # host @ ''.'' @ top"
    using ok at unfolding s by (auto simp: list_all_iff takeWhile_append dropWhile_append)
  moreover obtain h hs where "host = h # hs" using ne by (cases host) auto
  moreover have "CHR ''.'' \<in> set (butlast (hs @ ''.'' @ top))" for hs
    using ne(3) by (simp add: butlast_append)
  ultimately show "emailPattern s" using ne ok at(2) by (simp add: emailPattern_def list_all_iff)
qed

lemma emailPattern_Nil [simp]: "\<not> emailPattern []"
  by (simp add: emailPattern_def)

lemma validateTeamDraft_ok:
  "fc_errors (validateTeamDraft d) = [] \<longleftrightarrow> trim (td_name d) \<noteq> [] \<and> emailPattern (trim (td_contactEmail d))"
  by (auto simp: validateTeamDraft_def Let_def)

lemma validatePlayerDraft_ok:
  "fc_errors (validatePlayerDraft d m) = [] \<longleftrightarrow>
     trim (pd_displayName d) \<noteq> [] \<and> emailPattern (trim (pd_email d)) \<and> pd_role d \<in> {''member'', ''captain''} \<and>
     (m = Some CreateMode \<longrightarrow> pd_teamId d > 0 \<and> trim (pd_password d) \<noteq> [] \<and> 8 \<le> length (pd_password d))"
  by (auto simp: validatePlayerDraft_def check_email_def check_password_def Let_def not_less)

text \<open>A number field that passes is blank or a whole number in its range.\<close>

lemma parseOptionalInteger_in_range:
  assumes "\<not> out_of_range (parseOptionalInteger raw) mx" "trim raw \<noteq> []"
  obtains n where "parseOptionalInteger raw = Some (Finite (of_int n))" "js_Number raw = Finite (of_int n)"
    "1 \<le> n" "of_int n \<le> mx"
proof -
  let ?t = "trim raw"
  have digits: "list_all is_digit ?t" and p: "parseOptionalInteger raw = Some (js_Number ?t)"
    using assms by (auto simp: parseOptionalInteger_def Let_def out_of_range_def split: if_splits)
  have "js_Number ?t = to_double (of_int (int (digits_value ?t)))"
    using js_Number_digits [OF digits assms(2)] by simp
  moreover obtain q where q: "js_Number ?t = Finite q" "0 < q" "q \<le> mx"
    using assms(1) unfolding p by (auto simp: out_of_range_def js_less_def split: js_num.splits)
  ultimately have "q \<in> \<int>" using to_double_of_int_integral by metis
  then obtain n where n: "q = of_int n" by (auto elim: Ints_cases)
  moreover have "js_Number raw = js_Number ?t" by (simp add: js_Number_def)
  ultimately show thesis using that [of n] p q by simp
qed

lemma octet_conflict_None:
  assumes "octet_conflict rows e (Finite (of_int n)) = None" "1 \<le> n" "n \<le> 254" "c \<in> set rows" "Some (ac_id c) \<noteq> e"
  shows "ac_service_subnet_octet c \<noteq> n"
proof -
  have "find (\<lambda>c. Some (ac_id c) \<noteq> e \<and> Finite (of_int (ac_service_subnet_octet c)) = Finite (of_int n :: rat)) rows = None"
    using assms(1-3) by (simp add: octet_conflict_def js_less_def)
  then show ?thesis using assms(4,5) by (auto simp: find_None_iff)
qed

lemma validateChallengeDraft_ok:
  "fc_errors (validateChallengeDraft d rows m e teams) = [] \<longleftrightarrow>
     trim (cd_name d) \<noteq> [] \<and> trim (cd_baselineImage d) \<noteq> [] \<and> trim (cd_checkerImage d) \<noteq> [] \<and>
     \<not> escapes_root (trim (cd_sourceBundlePath d)) \<and>
     (m = Some CreateMode \<longrightarrow> \<not> out_of_range (parseOptionalInteger (cd_servicePort d)) 65535 \<and>
        \<not> out_of_range (parseOptionalInteger (cd_serviceSubnetOctet d)) 254 \<and>
        octet_conflict rows e (effectiveServiceSubnetOctet (validateChallengeDraft d rows m e teams)) = None)"
  by (auto simp: validateChallengeDraft_def Let_def split: option.split)

text \<open>A form shows a message at some field exactly when it cannot be submitted.\<close>

lemma fields_reject:
  "fc_fieldErrors (reject f m e c) \<noteq> Map.empty" "fc_errors (reject f m e c) \<noteq> []"
  by (simp_all add: reject_def)

lemma shown_reject_if:
  "(fc_fieldErrors c = Map.empty \<longleftrightarrow> fc_errors c = []) \<Longrightarrow>
   (fc_fieldErrors (reject_if b f m e c) = Map.empty \<longleftrightarrow> fc_errors (reject_if b f m e c) = [])"
  by (simp add: reject_if_def reject_def)

lemma shown_no_errors: "fc_fieldErrors no_errors = Map.empty \<longleftrightarrow> fc_errors no_errors = []"
  by (simp add: no_errors_def)

lemma form_errors_shown:
  "fc_fieldErrors (validateTeamDraft td) = Map.empty \<longleftrightarrow> fc_errors (validateTeamDraft td) = []"
  "fc_fieldErrors (validatePlayerDraft pd m) = Map.empty \<longleftrightarrow> fc_errors (validatePlayerDraft pd m) = []"
  "fc_fieldErrors (validateChallengeDraft cd rows m e teams) = Map.empty \<longleftrightarrow>
     fc_errors (validateChallengeDraft cd rows m e teams) = []"
proof -
  show "fc_fieldErrors (validateTeamDraft td) = Map.empty \<longleftrightarrow> fc_errors (validateTeamDraft td) = []"
    unfolding validateTeamDraft_def Let_def
    by (auto simp del: fc_errors_reject simp: reject_def intro!: shown_reject_if shown_no_errors)
  show "fc_fieldErrors (validatePlayerDraft pd m) = Map.empty \<longleftrightarrow> fc_errors (validatePlayerDraft pd m) = []"
    unfolding validatePlayerDraft_def Let_def check_email_def check_password_def
    by (rule shown_reject_if) (simp del: fc_errors_reject add: reject_def shown_reject_if shown_no_errors)
  show "fc_fieldErrors (validateChallengeDraft cd rows m e teams) = Map.empty \<longleftrightarrow>
     fc_errors (validateChallengeDraft cd rows m e teams) = []"
    unfolding validateChallengeDraft_def Let_def
    by (simp del: fc_errors_reject add: fields_reject shown_reject_if shown_no_errors split: option.split)
qed

section \<open>Schedule and controls\<close>

lemma parts_of_value:
  assumes "CHR ''T'' \<notin> set date" "CHR ''T'' \<notin> set time"
  shows "datePartFromDateTimeLocalValue (date @ ''T'' @ time) = date"
    and "timePartFromDateTimeLocalValue (date @ ''T'' @ time) = time"
  using assms
  by (simp_all add: datePartFromDateTimeLocalValue_def timePartFromDateTimeLocalValue_def split_on_append split_on_no_delim)

text \<open>Changing one part of a date keeps the other; a time without a date is dropped.\<close>

lemma update_parts:
  assumes "CHR ''T'' \<notin> set date" "CHR ''T'' \<notin> set time" "CHR ''T'' \<notin> set new" "new \<noteq> []" "date \<noteq> []" "time \<noteq> []"
  shows "withUpdatedDatePart (date @ ''T'' @ time) new = new @ ''T'' @ time"
    and "withUpdatedTimePart (date @ ''T'' @ time) new = date @ ''T'' @ new"
    and "withUpdatedDatePart [] new = new @ ''T00:00''" and "withUpdatedTimePart [] new = []"
  using assms parts_of_value [of date time] neq_Nil_conv [of time]
  by (auto simp: withUpdatedDatePart_def withUpdatedTimePart_def datePartFromDateTimeLocalValue_def [of "[]"]
      timePartFromDateTimeLocalValue_def [of "[]"] or_undefined_def)

text \<open>A saved window changes the schedule and its end is not before its start.\<close>

lemma save_window_ordered:
  assumes "save_window d m p draft = Some (from, until)"
  shows "p = None \<and> draft \<noteq> shown_schedule d m \<and>
    (draftScheduledStart draft = [] \<or> draftScheduledEnd draft = [] \<or>
     0 \<le> ordinal_compare (draftScheduledEnd draft) (draftScheduledStart draft))"
  using assms by (auto simp: save_window_def scheduleChanged_def scheduleRangeInvalid_def split: if_splits)

text \<open>Of the controls of a match exactly one of start, pause and resume is offered until it is
  finished, and stopping exactly when it has started.\<close>

lemma match_controls:
  "canPause m \<longrightarrow> \<not> canStart m \<and> \<not> canResume m" "canResume m \<longrightarrow> \<not> canStart m \<and> \<not> canPause m"
  "canStart m \<or> canPause m \<or> canResume m \<longleftrightarrow> map_option am_state m \<noteq> Some ''finished''"
  "canStop m \<longleftrightarrow> canPause m \<or> canResume m"
  by (auto simp: canStart_def canPause_def canResume_def canStop_def)

text \<open>The scheduler only gets positive intervals that differ from its own.\<close>

lemma interval_positive:
  assumes "click_update sch p v = Some x \<or> press_key sch k v = Some x"
  shows "js_less (Finite 0) x \<and> x \<noteq> (case sch of Some s \<Rightarrow> Finite (of_int (as_interval_seconds s)) | None \<Rightarrow> NaN)"
  using assms by (auto simp: click_update_def press_key_def updateDisabled_def intervalChanged_def Let_def split: if_splits)

text \<open>The Enter key sends the interval although an action is pending, which disables the button.\<close>

lemma enter_ignores_pending:
  assumes "intervalChanged sch v"
  shows "press_key sch ''Enter'' v = Some (parseInt v)" and "click_update sch (Some a) v = None"
  using assms by (simp_all add: press_key_def click_update_def updateDisabled_def)

lemma sliceStatusCounts_counts:
  "coalesce (sliceStatusCounts rows st) 0 = length (filter (\<lambda>r. cr_status r = st) rows)"
proof (induction rows rule: rev_induct)
  case (snoc r rows)
  then show ?case by (auto simp: sliceStatusCounts_def)
qed (simp add: sliceStatusCounts_def)

section \<open>Runtime health\<close>

lemma count_warning_Nil [simp]: "count_warning n what = [] \<longleftrightarrow> n = 0"
  by (simp add: count_warning_def)

lemma state_warning_Nil [simp]: "state_warning st a b c = [] \<longleftrightarrow> st = Some ''applied''"
  by (auto simp: state_warning_def split: option.split)

lemma metricsWarnings_Nil:
  "metricsWarnings m = [] \<longleftrightarrow> (\<exists>x. m = Some x \<and> ct_access_last_apply_success x \<noteq> Some False \<and>
     wgm_last_apply_success x \<noteq> Some False \<and> rg_last_sync_success x \<noteq> Some False)"
  by (auto simp: metricsWarnings_def split: option.split)

lemma length_minus_filter: "length xs - length (filter P xs) = 0 \<and> length (filter P xs) = 0 \<longleftrightarrow> xs = []"
  by auto

text \<open>
  C40. Runtime health says what it found. It is healthy exactly when every deployment is completed or
  superseded without failed teams, the access policy and the gateway are loaded and applied, no
  alert is active and the metrics are loaded without a failed apply or sync; it is critical
  exactly when a deployment failed, a critical alert is active or a controller reports an error; and
  warnings are listed exactly when it is not healthy.
\<close>

theorem runtime_health_sound:
  "let h = buildRuntimeHealthSnapshot d a jobs ops m w in
     (rh_severity h = Healthy \<longleftrightarrow>
        list_all (\<lambda>j. dj_status j \<in> {''completed'', ''superseded''} \<and> dj_failed_team_count j \<le> 0) jobs \<and>
        map_option cs_state a = Some ''applied'' \<and> map_option wg_state w = Some ''applied'' \<and>
        (case ops of Some s \<Rightarrow> os_alerts s = [] | None \<Rightarrow> True) \<and>
        (\<exists>x. m = Some x \<and> ct_access_last_apply_success x \<noteq> Some False \<and>
           wgm_last_apply_success x \<noteq> Some False \<and> rg_last_sync_success x \<noteq> Some False)) \<and>
     (rh_severity h = Critical \<longleftrightarrow>
        list_ex (\<lambda>j. dj_status j = ''failed'' \<or> dj_failed_team_count j > 0) jobs \<or>
        list_ex (\<lambda>x. al_severity x = ''critical'') (case ops of Some s \<Rightarrow> os_alerts s | None \<Rightarrow> []) \<or>
        map_option cs_state a = Some ''error'' \<or> map_option wg_state w = Some ''error'') \<and>
     (rh_warnings h = [] \<longleftrightarrow> rh_severity h = Healthy)"
proof -
  let ?alerts = "case ops of Some s \<Rightarrow> os_alerts s | None \<Rightarrow> []"
  let ?pending = "filter (\<lambda>j. dj_status j \<notin> {''completed'', ''failed'', ''superseded''}) jobs"
  let ?failed = "filter (\<lambda>j. dj_status j = ''failed'' \<or> dj_failed_team_count j > 0) jobs"
  let ?critical = "filter (\<lambda>x. al_severity x = ''critical'') ?alerts"
  define h where "h = buildRuntimeHealthSnapshot d a jobs ops m w"
  have alerts: "?alerts = [] \<longleftrightarrow> (case ops of Some s \<Rightarrow> os_alerts s = [] | None \<Rightarrow> True)" by (simp split: option.split)
  have jobs: "?pending = [] \<and> ?failed = [] \<longleftrightarrow>
      list_all (\<lambda>j. dj_status j \<in> {''completed'', ''superseded''} \<and> dj_failed_team_count j \<le> 0) jobs"
    by (force simp: filter_empty_conv list_all_iff)
  have critical: "rh_severity h = Critical \<longleftrightarrow> ?critical \<noteq> [] \<or> ?failed \<noteq> [] \<or>
      map_option cs_state a = Some ''error'' \<or> map_option wg_state w = Some ''error''"
    by (simp add: h_def buildRuntimeHealthSnapshot_def Let_def)
  have warnings: "rh_warnings h = [] \<longleftrightarrow> ?pending = [] \<and> ?failed = [] \<and> map_option cs_state a = Some ''applied'' \<and>
      map_option wg_state w = Some ''applied'' \<and> ?alerts = [] \<and> metricsWarnings m = []"
    unfolding h_def buildRuntimeHealthSnapshot_def Let_def
    using length_minus_filter [of ?alerts "\<lambda>x. al_severity x = ''critical''"] by auto
  have healthy: "rh_severity h = Healthy \<longleftrightarrow> rh_warnings h = []"
  proof -
    have "rh_severity h = Healthy \<longleftrightarrow> rh_severity h \<noteq> Critical \<and> rh_warnings h = []"
      by (simp add: h_def buildRuntimeHealthSnapshot_def Let_def)
    moreover have "rh_warnings h = [] \<Longrightarrow> rh_severity h \<noteq> Critical" unfolding warnings critical by auto
    ultimately show ?thesis by blast
  qed
  have ex: "list_ex P xs \<longleftrightarrow> filter P xs \<noteq> []" for P and xs :: "'b list" by (simp add: list_ex_iff filter_empty_conv)
  show ?thesis
    unfolding h_def [symmetric] Let_def
    using healthy warnings critical jobs alerts by (simp only: ex metricsWarnings_Nil) blast
qed

end
