(* ===== verification/Panel_Program.thy ===== *)
theory Panel_Program
  imports Organizer_Dashboard
begin

text \<open>
  The small panels of the site: forms with a mark that one of their actions is pending, and buttons that are
  disabled while it is set. The theory holds what they share: how an answer is read (\<open>parseApiError\<close> on an
  error status), and the locale \<open>exclusive_hook\<close>, which proves once for all of them that at most one
  changing request is in flight and that the mark is set exactly as long.
\<close>

section \<open>Reading an answer\<close>

text \<open>\<open>if (!response.ok) throw new Error(await parseApiError(response, path))\<close>.\<close>

definition answer_ok :: "string \<Rightarrow> response result \<Rightarrow> response result" where
  "answer_ok path r = (case r of Inl e \<Rightarrow> Inl e | Inr resp \<Rightarrow>
     if resp_ok resp then Inr resp
     else (case parseApiError resp path of Inl e \<Rightarrow> Inl e | Inr m \<Rightarrow> Inl (ErrorMessage m)))"

text \<open>\<open>await response.json()\<close>.\<close>

definition response_json :: "response \<Rightarrow> json result" where
  "response_json resp = (case rs_json resp of
     Some j \<Rightarrow> Inr j | None \<Rightarrow> Inl (ErrorMessage ''response body is not JSON''))"

definition then_read :: "'a result \<Rightarrow> ('a \<Rightarrow> 'b result) \<Rightarrow> 'b result" where
  "then_read r f = (case r of Inl e \<Rightarrow> Inl e | Inr v \<Rightarrow> f v)"

definition answer_json :: "string \<Rightarrow> response result \<Rightarrow> json result" where
  "answer_json path r = then_read (answer_ok path r) response_json"

definition answer_processed :: "string \<Rightarrow> response result \<Rightarrow> json option result" where
  "answer_processed path r = then_read (answer_ok path r) (\<lambda>resp. processApiResponse resp path)"

definition attempt ::
    "request \<Rightarrow> (response result \<Rightarrow> 'a result) \<Rightarrow> ('a \<Rightarrow> 's prog) \<Rightarrow> (js_error \<Rightarrow> 's prog) \<Rightarrow> 's prog" where
  "attempt rq rd onOk onError = Call rq (\<lambda>r. case rd r of Inl e \<Rightarrow> onError e | Inr v \<Rightarrow> onOk v)"

text \<open>What a page does to its address: \<open>router.push\<close> and \<open>router.refresh\<close>.\<close>

datatype navigation = Push string | Refresh

text \<open>A mark kept as a boolean.\<close>

definition mark :: "bool \<Rightarrow> unit option" where
  "mark b = (if b then Some () else None)"

lemma mark_simps [simp]: "mark b = None \<longleftrightarrow> \<not> b" "mark True = Some ()" "mark a = mark b \<longleftrightarrow> a = b"
  by (auto simp: mark_def)

lemma answer_ok_Inr: "answer_ok path r = Inr resp \<longleftrightarrow> r = Inr resp \<and> resp_ok resp"
  by (auto simp: answer_ok_def split: sum.splits)

lemma then_read_Inr: "then_read r f = Inr v \<longleftrightarrow> (\<exists>x. r = Inr x \<and> f x = Inr v)"
  by (auto simp: then_read_def split: sum.splits)

section \<open>One action at a time\<close>

definition reads :: "request \<Rightarrow> bool" where
  "reads rq \<longleftrightarrow> rq_method rq = ''GET''"

text \<open>A program that only changes state, without waiting and without touching the mark.\<close>

primrec rests :: "('s \<Rightarrow> 'k option) \<Rightarrow> 's prog \<Rightarrow> bool" where
  "rests pending Done = True"
| "rests pending (Atomic f) = (\<forall>s. case map_prod id (rests pending) (f s) of (s', r) \<Rightarrow> pending s' = pending s \<and> r)"
| "rests pending (Call rq k) = False"
| "rests pending (Await k) = False"
| "rests pending (Spawn p q) = False"
| "rests pending (Gather gs q) = False"

text \<open>A program that keeps the mark as it waits and clears it as the last thing it does.\<close>

primrec carries :: "('s \<Rightarrow> 'k option) \<Rightarrow> 's prog \<Rightarrow> bool" where
  "carries pending Done = False"
| "carries pending (Atomic f) = (\<forall>s. case map_prod id (carries pending) (f s) of (s', c) \<Rightarrow>
     pending s' = pending s \<and> c \<or> pending s' = None \<and> rests pending (snd (f s)))"
| "carries pending (Call rq k) = (\<forall>r. carries pending (k r))"
| "carries pending (Await k) = False"
| "carries pending (Spawn p q) = False"
| "carries pending (Gather gs q) = ((\<forall>(rq, f) \<in> set gs. reads rq \<and> (\<forall>r s. pending (f r s) = pending s)) \<and> carries pending q)"

lemma rests_update [simp]: "rests P (update f p) \<longleftrightarrow> (\<forall>s. P (f s) = P s) \<and> rests P p"
  by (auto simp: update_def)

lemma carries_update [simp]:
  "carries P (update f p) \<longleftrightarrow> (\<forall>s. P (f s) = P s \<and> carries P p \<or> P (f s) = None \<and> rests P p)"
  by (simp add: update_def)

lemma rests_Atomic: "rests P (Atomic f) \<longleftrightarrow> (\<forall>s. P (fst (f s)) = P s \<and> rests P (snd (f s)))"
  by (simp add: split_beta)

lemma carries_Atomic: "carries P (Atomic f) \<longleftrightarrow>
    (\<forall>s. P (fst (f s)) = P s \<and> carries P (snd (f s)) \<or> P (fst (f s)) = None \<and> rests P (snd (f s)))"
  by (simp add: split_beta)

declare rests.simps(2) [simp del] carries.simps(2) [simp del]

lemma carries_attempt [simp]: "carries P (attempt rq rd ok err) \<longleftrightarrow>
    (\<forall>r. (\<forall>e. rd r = Inl e \<longrightarrow> carries P (err e)) \<and> (\<forall>v. rd r = Inr v \<longrightarrow> carries P (ok v)))"
  by (simp add: attempt_def split: sum.split)

lemma quiet_attempt [simp]: "quiet P (attempt rq rd ok err) \<longleftrightarrow>
    (\<forall>r. (\<forall>e. rd r = Inl e \<longrightarrow> quiet P (err e)) \<and> (\<forall>v. rd r = Inr v \<longrightarrow> quiet P (ok v)))"
  by (simp add: attempt_def split: sum.split)

lemma sends_only_attempt [simp]: "sends_only Q (attempt rq rd ok err) \<longleftrightarrow> Q rq \<and>
    (\<forall>r. (\<forall>e. rd r = Inl e \<longrightarrow> sends_only Q (err e)) \<and> (\<forall>v. rd r = Inr v \<longrightarrow> sends_only Q (ok v)))"
  by (auto simp: attempt_def split: sum.split)

lemma sends_after_attempt [simp]: "sends_after (attempt rq rd ok err) h rq' \<longleftrightarrow> h = [] \<and> rq' = rq \<or>
    (\<exists>r e h'. h = (rq, r) # h' \<and> rd r = Inl e \<and> sends_after (err e) h' rq') \<or>
    (\<exists>r v h'. h = (rq, r) # h' \<and> rd r = Inr v \<and> sends_after (ok v) h' rq')"
proof -
  have "sends_after (case rd r of Inl e \<Rightarrow> err e | Inr v \<Rightarrow> ok v) h' rq' \<longleftrightarrow>
      (\<exists>e. rd r = Inl e \<and> sends_after (err e) h' rq') \<or> (\<exists>v. rd r = Inr v \<and> sends_after (ok v) h' rq')" for r h'
    by (cases "rd r") auto
  then show ?thesis unfolding attempt_def by auto
qed

lemma rests_quiet: "rests P p \<Longrightarrow> quiet P p"
  by (induction p) (auto simp: rests_Atomic quiet_Atomic, metis fst_conv rangeI snds.intros surjective_pairing)

lemma rests_advance: "rests P p \<Longrightarrow> advance p s = (s', p', sp) \<Longrightarrow> P s' = P s \<and> p' = Done \<and> sp = []"
proof (induction p arbitrary: s s' p' sp)
  case (Atomic f)
  have "snd (f s) \<in> Basic_BNFs.snds (f s)" by (cases "f s") auto
  moreover have "P (fst (f s)) = P s" "rests P (snd (f s))" using Atomic.prems(1) unfolding rests_Atomic by blast+
  ultimately show ?case using Atomic.IH [OF rangeI _ _ Atomic.prems(2) [unfolded advance_Atomic]] by metis
qed auto

lemma carries_closes: "carries P p \<Longrightarrow> closes P p"
proof (induction p)
  case (Atomic f)
  have "closes P (snd (f s))" if "carries P (snd (f s))" for s
  proof -
    have "snd (f s) \<in> Basic_BNFs.snds (f s)" by (cases "f s") auto
    then show ?thesis using Atomic.IH [OF rangeI] that by blast
  qed
  then show ?case using Atomic.prems rests_quiet unfolding carries_Atomic closes_Atomic by blast
qed auto

lemma carries_advance:
  "carries P p \<Longrightarrow> advance p s = (s', p', sp) \<Longrightarrow>
    sp = [] \<and> (P s' = P s \<and> carries P p' \<or> P s' = None \<and> p' = Done)"
proof (induction p arbitrary: s s' p' sp)
  case (Atomic f)
  have "snd (f s) \<in> Basic_BNFs.snds (f s)" by (cases "f s") auto
  then have IH: "sp = [] \<and> (P s' = P (fst (f s)) \<and> carries P p' \<or> P s' = None \<and> p' = Done)" if "carries P (snd (f s))"
    by (rule Atomic.IH [OF rangeI _ that Atomic.prems(2) [unfolded advance_Atomic]])
  consider "P (fst (f s)) = P s" "carries P (snd (f s))" | "P (fst (f s)) = None" "rests P (snd (f s))"
    using spec [OF Atomic.prems(1) [unfolded carries_Atomic], of s] by (elim disjE conjE)
  then show ?case
  proof cases
    case 1
    show ?thesis using IH [OF 1(2)] unfolding 1(1) by assumption
  next
    case 2
    then show ?thesis using rests_advance [of P, OF 2(2) Atomic.prems(2) [unfolded advance_Atomic]] by simp
  qed
next
  case (Gather gs q)
  have "carries P q" using Gather.prems(1) by simp
  then show ?case using Gather.IH Gather.prems by (cases "gs = []") (simp_all only: advance.simps if_True if_False, auto)
qed auto

lemma carries_answered:
  "answered t s s1 p1 \<Longrightarrow> carries P t \<Longrightarrow> P s1 = P s \<and> carries P p1"
proof (induction rule: answered.induct)
  case (one_of i gs q s r)
  then have "carries P q" "\<forall>(rq, f) \<in> set gs. reads rq \<and> (\<forall>r s. P (f r s) = P s)" by simp_all
  moreover have "gs ! i \<in> set gs" using one_of(1) by simp
  moreover have "set (take i gs @ drop (Suc i) gs) \<subseteq> set gs" by (auto dest: in_set_takeD in_set_dropD)
  ultimately show ?case by (auto simp: split_beta)
qed auto

lemma carries_not_quiet:
  assumes "P b \<noteq> None"
  shows "carries P p \<Longrightarrow> \<not> quiet P p"
proof (induction p)
  case (Atomic f)
  have "snd (f b) \<in> Basic_BNFs.snds (f b)" by (cases "f b") auto
  then show ?case using Atomic.IH [OF rangeI] Atomic.prems assms unfolding carries_Atomic quiet_Atomic by metis
qed auto

text \<open>The requests a carrying program waits for: at most one of them changes anything.\<close>

definition changes :: "'s prog \<Rightarrow> request list" where
  "changes t = filter (\<lambda>rq. \<not> reads rq) (outstanding t)"

lemma carries_changes: "carries P t \<Longrightarrow> length (changes t) \<le> 1"
proof (cases t)
  case (Gather gs q)
  moreover assume "carries P t"
  ultimately have "filter (\<lambda>rq. \<not> reads rq) (outstanding t) = []" by (force simp: filter_empty_conv)
  then show ?thesis by (simp add: changes_def)
qed (auto simp: changes_def)

text \<open>What a handler may be when it is started in the state \<open>s\<close>: quiet and only reading, or, with no action pending,
  one that sets the mark and carries it.\<close>

definition well_behaved :: "('s \<Rightarrow> 'k option) \<Rightarrow> 's \<Rightarrow> 's prog \<Rightarrow> bool" where
  "well_behaved P s p \<longleftrightarrow> quiet P p \<and> sends_only reads p \<or>
     P s = None \<and> (\<exists>f q. p = update f q \<and> (\<forall>s'. P (f s') \<noteq> None) \<and> carries P q)"

lemma well_behaved_Done [simp]: "well_behaved P s Done"
  by (simp add: well_behaved_def)

lemma well_behaved_quiet: "quiet P p \<Longrightarrow> sends_only reads p \<Longrightarrow> well_behaved P s p"
  by (simp add: well_behaved_def)

lemma well_behaved_action: "P s = None \<Longrightarrow> (\<And>s'. P (f s') \<noteq> None) \<Longrightarrow> carries P q \<Longrightarrow> well_behaved P s (update f q)"
  unfolding well_behaved_def by blast

locale exclusive_hook =
  fixes pending :: "'s \<Rightarrow> 'k option" and H :: "('s \<Rightarrow> 's prog) set" and I :: "'s set"
  assumes can_be_busy: "\<exists>s. pending s \<noteq> None"
    and starts_idle: "s \<in> I \<Longrightarrow> pending s = None"
    and handler_exclusive: "h \<in> H \<Longrightarrow> well_behaved pending s (h s)"
begin

definition orderly :: "'s prog \<Rightarrow> bool" where
  "orderly t \<longleftrightarrow> quiet pending t \<and> sends_only reads t \<or> carries pending t"

definition exclusive_session :: "'s \<times> 's prog list \<Rightarrow> bool" where
  "exclusive_session x \<longleftrightarrow> list_all orderly (snd x) \<and>
     length (filter (carries pending) (snd x)) = (if pending (fst x) = None then 0 else 1)"

lemma not_both: "quiet pending t \<Longrightarrow> \<not> carries pending t"
proof -
  obtain b where "pending b \<noteq> None" using can_be_busy ..
  from carries_not_quiet [of pending, OF this, of t] show "quiet pending t \<Longrightarrow> \<not> carries pending t" by blast
qed

lemma quiet_parts:
  assumes "quiet pending p" "sends_only reads p" "advance p s = (s', p', sp)"
  shows "pending s' = pending s \<and> list_all orderly (live (p' # sp)) \<and> filter (carries pending) (live (p' # sp)) = []"
proof -
  have "\<forall>t \<in> set (p' # sp). quiet pending t \<and> sends_only reads t"
    using quiet_advance [OF assms(1,3)] sends_only_advance [OF assms(2,3)] by simp
  then have "\<forall>t \<in> set (live (p' # sp)). orderly t \<and> \<not> carries pending t"
    using not_both by (simp add: live_def orderly_def)
  then show ?thesis
    using quiet_advance [OF assms(1,3)] by (simp add: list_all_iff filter_empty_conv)
qed

lemma carrying_parts:
  assumes "carries pending p" "advance p s = (s', p', sp)"
  shows "list_all orderly (live (p' # sp)) \<and>
    (pending s' = pending s \<and> length (filter (carries pending) (live (p' # sp))) = 1 \<or>
     pending s' = None \<and> live (p' # sp) = [])"
  using carries_advance [OF assms] by (cases "p' = Done") (auto simp: live_def orderly_def)

lemma exclusive_answer: "answer_step x y \<Longrightarrow> exclusive_session x \<Longrightarrow> exclusive_session y"
proof (induction rule: answer_step.induct)
  case (go_on t s s1 p1 s2 p2 sp us vs)
  have ords: "list_all orderly us" "list_all orderly vs" "orderly t" using go_on.prems by (simp_all add: exclusive_session_def)
  show ?case
  proof (cases "carries pending t")
    case True
    then have "pending s1 = pending s" "carries pending p1" using carries_answered [OF go_on.hyps(1)] by blast+
    with carrying_parts [OF _ go_on.hyps(2)] True go_on.prems ords show ?thesis
      by (auto simp: exclusive_session_def split: if_splits)
  next
    case False
    then have q: "quiet pending t" "sends_only reads t" using ords(3) by (auto simp: orderly_def)
    then have "pending s1 = pending s" "quiet pending p1" "sends_only reads p1"
      using quiet_answered [OF go_on.hyps(1)] sends_only_answered [OF go_on.hyps(1)] by blast+
    with quiet_parts [OF _ _ go_on.hyps(2)] False go_on.prems ords show ?thesis by (auto simp: exclusive_session_def)
  qed
qed

lemma exclusive_trigger:
  assumes "h \<in> H" and a: "advance (h s) s = (s', p, sp)" and "exclusive_session (s, ts)"
  shows "exclusive_session (s', live (p # sp) @ ts)"
  using handler_exclusive [OF assms(1), of s] unfolding well_behaved_def
proof (elim disjE conjE exE)
  assume "quiet pending (h s)" "sends_only reads (h s)"
  with quiet_parts [OF _ _ a] assms(3) show ?thesis by (auto simp: exclusive_session_def)
next
  fix f q
  assume "pending s = None" "h s = update f q" "\<forall>s'. pending (f s') \<noteq> None" "carries pending q"
  moreover have "advance q (f s) = (s', p, sp)" using a calculation(2) by (simp add: update_def advance_Atomic)
  moreover obtain m where "pending (f s) = Some m" using calculation(3) by blast
  ultimately show ?thesis
    using carrying_parts [of q "f s"] assms(3) by (auto simp: exclusive_session_def)
qed

lemma reachable_exclusive: "hook_reachable H I x \<Longrightarrow> exclusive_session x"
proof (induction rule: hook_reachable.induct)
  case (mounted s)
  then show ?case by (simp add: exclusive_session_def starts_idle)
next
  case (moved x y)
  from moved(2) show ?case
    by (cases rule: hook_step.cases) (use moved(3) exclusive_trigger exclusive_answer in \<open>auto\<close>)
qed

lemma one_change_in_flight:
  assumes "hook_reachable H I (s, ts)"
  shows "length (concat (map changes ts)) \<le> (if pending s = None then 0 else 1)"
proof -
  have x: "exclusive_session (s, ts)" by (rule reachable_exclusive [OF assms])
  have "length (concat (map changes us)) \<le> length (filter (carries pending) us)" if "list_all orderly us" for us
    using that
  proof (induction us)
    case (Cons t us)
    have "length (changes t) \<le> (if carries pending t then 1 else 0)"
    proof (cases "carries pending t")
      case False
      then have "sends_only reads t" using Cons.prems by (auto simp: orderly_def)
      then show ?thesis using sends_only_outstanding by (force simp: changes_def filter_empty_conv)
    qed (use carries_changes in \<open>simp, blast\<close>)
    then show ?case using Cons by auto
  qed simp
  then show ?thesis using x by (fastforce simp: exclusive_session_def)
qed

end

sublocale exclusive_hook \<subseteq> busy_hook pending H I
proof
  show "s \<in> I \<Longrightarrow> pending s = None" for s by (rule starts_idle)
  show "quiet pending (h s) \<or> closes pending (h s)" if "h \<in> H" for h s
    using handler_exclusive [OF that, of s] by (auto simp: well_behaved_def carries_closes)
qed

context exclusive_hook
begin

lemma idle_when_answered: "hook_reachable H I (s, []) \<Longrightarrow> pending s = None"
  by (rule idle_after_answers)

text \<open>Both halves together: no change is sent twice, and once everything is answered the panel is free again.\<close>

lemma never_stuck:
  assumes "hook_reachable H I x"
  shows "\<exists>s. answer_step\<^sup>*\<^sup>* x (s, []) \<and> pending s = None"
proof -
  obtain s where "answer_step\<^sup>*\<^sup>* x (s, [])" using drains [OF all_waiting_reachable [OF assms]] by blast
  then show ?thesis using idle_after_answers reachable_answers assms by blast
qed

end

text \<open>The contract as a statement about a panel that keeps its mark as a boolean.\<close>

definition single_flight :: "('s \<Rightarrow> bool) \<Rightarrow> ('s \<Rightarrow> 's prog) set \<Rightarrow> 's set \<Rightarrow> bool" where
  "single_flight busy H I \<longleftrightarrow> (\<forall>s ts. hook_reachable H I (s, ts) \<longrightarrow>
     length (concat (map changes ts)) \<le> (if busy s then 1 else 0) \<and>
     (ts = [] \<longrightarrow> \<not> busy s) \<and>
     (\<exists>s'. answer_step\<^sup>*\<^sup>* (s, ts) (s', []) \<and> \<not> busy s'))"

lemma single_flightI:
  assumes "exclusive_hook (\<lambda>s. mark (busy s)) H I"
  shows "single_flight busy H I"
  unfolding single_flight_def
proof (intro allI impI)
  fix s ts
  assume r: "hook_reachable H I (s, ts)"
  show "length (concat (map changes ts)) \<le> (if busy s then 1 else 0) \<and> (ts = [] \<longrightarrow> \<not> busy s) \<and>
     (\<exists>s'. answer_step\<^sup>*\<^sup>* (s, ts) (s', []) \<and> \<not> busy s')"
    using exclusive_hook.one_change_in_flight [OF assms r] exclusive_hook.never_stuck [OF assms r]
      exclusive_hook.idle_when_answered [OF assms, of s] r
    by (auto split: if_splits)
qed

end
