(* ===== verification/Participant_Panels.thy ===== *)
theory Participant_Panels
  imports Panel_Program Dashboard_Data
begin

text \<open>
  The participant's panels: flag submission (\<open>flag-submit-panel.tsx\<close>), signing in and registering
  (\<open>participant-login-form.tsx\<close>), joining a team (\<open>participant-join-team-form.tsx\<close>), signing out
  (\<open>participant-session-button.tsx\<close>) and the account dialog (\<open>participant-account-settings.tsx\<close>). Each is a state,
  its handlers as programs, and a datatype of what a user can do; a disabled control does nothing. Beyond
  disabled buttons the browser may block a submission by its own checks of the fields, so the model allows at
  least what a browser does. The lemmas: every panel is an \<open>exclusive_hook\<close>, flags typed one per line are read
  back, and a password is changed only when it is long enough, confirmed and the profile was saved.
\<close>

section \<open>Flag submission\<close>

text \<open>\<open>raw.split(/[p]+/)\<close>: runs of separators split, and a leading or trailing run leaves an empty piece.\<close>

function split_runs :: "(char \<Rightarrow> bool) \<Rightarrow> string \<Rightarrow> string list" where
  "split_runs p [] = [[]]"
| "split_runs p (c # cs) =
     (if p c then [] # split_runs p (dropWhile p cs)
      else (case split_runs p cs of [] \<Rightarrow> [[c]] | w # ws \<Rightarrow> (c # w) # ws))"
  by pat_completeness auto
termination
  by (relation "measure (length \<circ> snd)") (auto simp: length_dropWhile_le le_imp_less_Suc)

definition separator :: "char \<Rightarrow> bool" where
  "separator c \<longleftrightarrow> c = CHR 0x0A \<or> c = CHR '',''"

definition parseFlags :: "string \<Rightarrow> string list" where
  "parseFlags raw = filter (\<lambda>value. value \<noteq> []) (map trim (split_runs separator raw))"

record Verdict =
  vd_flag :: string
  vd_status :: string
  vd_detail :: "string option"
  vd_message :: "string option"

record submit_payload =
  sp_results :: "Verdict list option"
  sp_accepted_count :: "rat option"
  sp_rejected_count :: "rat option"

record flag_panel =
  fp_rawFlags :: string
  fp_pending :: bool
  fp_error :: "string option"
  fp_note :: "string option"
  fp_verdicts :: "Verdict list"

definition FlagSubmitPanel :: flag_panel where
  "FlagSubmitPanel = \<lparr>fp_rawFlags = [], fp_pending = False, fp_error = None, fp_note = None, fp_verdicts = []\<rparr>"

definition flags_closed :: "bool option \<Rightarrow> bool" where
  "flags_closed acceptingSubmissions \<longleftrightarrow> acceptingSubmissions = Some False"

definition hasFeedback :: "flag_panel \<Rightarrow> bool" where
  "hasFeedback s \<longleftrightarrow> or_undefined (fp_error s) \<noteq> None \<or> or_undefined (fp_note s) \<noteq> None \<or> fp_verdicts s \<noteq> []"

definition flags_request :: "string list \<Rightarrow> request" where
  "flags_request flags = browser_request ''POST'' ''/api/platform/submit'' (Some (JObj [(''flags'', JArr (map JStr flags))]))"

definition flags_refused :: "flag_panel \<Rightarrow> flag_panel" where
  "flags_refused s = s\<lparr>fp_error := Some ''Paste at least one flag.'', fp_note := None, fp_verdicts := []\<rparr>"

definition flags_started :: "flag_panel \<Rightarrow> flag_panel" where
  "flags_started s = s\<lparr>fp_pending := True, fp_error := None, fp_note := None, fp_verdicts := []\<rparr>"

definition flags_judged :: "submit_payload \<Rightarrow> flag_panel \<Rightarrow> flag_panel" where
  "flags_judged payload s = (let accepted = coalesce (sp_accepted_count payload) 0 in
     s\<lparr>fp_verdicts := coalesce (sp_results payload) [],
       fp_note := Some (''Accepted '' @ num_to_string (Finite accepted) @ '', rejected '' @
         num_to_string (Finite (coalesce (sp_rejected_count payload) 0)) @ ''.''),
       fp_rawFlags := (if accepted > 0 then [] else fp_rawFlags s)\<rparr>)"

definition flags_failed :: "js_error \<Rightarrow> flag_panel \<Rightarrow> flag_panel" where
  "flags_failed e s = s\<lparr>fp_error := Some (message_or e ''Flag submit failed.'')\<rparr>"

definition flags_finished :: "flag_panel \<Rightarrow> flag_panel" where
  "flags_finished s = s\<lparr>fp_pending := False\<rparr>"

definition onSubmit_flags :: "(json \<Rightarrow> submit_payload) \<Rightarrow> flag_panel \<Rightarrow> flag_panel prog" where
  "onSubmit_flags rd s0 = (let flags = parseFlags (fp_rawFlags s0) in
     if length flags = 0 then update flags_refused Done
     else update flags_started (attempt (flags_request flags) (answer_json ''/api/platform/submit'')
       (\<lambda>j. update (flags_judged (rd j)) (update flags_finished Done))
       (\<lambda>e. update (flags_failed e) (update flags_finished Done))))"

text \<open>A key press: its name and whether the meta or the control key is down.\<close>

datatype flag_event = TypeFlags string | ClickSubmitFlags | FlagKeyDown string bool bool

definition onTextareaKeyDown :: "bool option \<Rightarrow> (json \<Rightarrow> submit_payload) \<Rightarrow> string \<Rightarrow> bool \<Rightarrow> bool \<Rightarrow> flag_panel \<Rightarrow> flag_panel prog" where
  "onTextareaKeyDown accepting rd key metaKey ctrlKey s =
     (if key \<noteq> ''Enter'' \<or> \<not> metaKey \<and> \<not> ctrlKey then Done
      else if fp_pending s \<or> flags_closed accepting then Done
      else onSubmit_flags rd s)"

definition onChange_flags :: "string \<Rightarrow> flag_panel \<Rightarrow> flag_panel" where
  "onChange_flags v s = s\<lparr>fp_rawFlags := v,
     fp_error := (if or_undefined (fp_error s) \<noteq> None then None else fp_error s)\<rparr>"

fun flag_handle :: "bool option \<Rightarrow> (json \<Rightarrow> submit_payload) \<Rightarrow> flag_event \<Rightarrow> flag_panel \<Rightarrow> flag_panel prog" where
  "flag_handle accepting rd (TypeFlags v) s =
     (if fp_pending s \<or> flags_closed accepting then Done else update (onChange_flags v) Done)"
| "flag_handle accepting rd ClickSubmitFlags s =
     (if fp_pending s \<or> flags_closed accepting then Done else onSubmit_flags rd s)"
| "flag_handle accepting rd (FlagKeyDown key metaKey ctrlKey) s =
     (if fp_pending s \<or> flags_closed accepting then Done else onTextareaKeyDown accepting rd key metaKey ctrlKey s)"

datatype rail_hint = HintClosed | HintReady nat | HintEmpty

definition railHint :: "bool option \<Rightarrow> flag_panel \<Rightarrow> rail_hint" where
  "railHint accepting s = (let flagCount = length (parseFlags (fp_rawFlags s)) in
     if flags_closed accepting then HintClosed else if flagCount > 0 then HintReady flagCount else HintEmpty)"

record verdict_line =
  vl_accepted :: bool
  vl_status :: string
  vl_flag :: string
  vl_detail :: "string option"

definition verdict_row :: "Verdict \<Rightarrow> verdict_line" where
  "verdict_row v = \<lparr>vl_accepted = includes_str (toLowerCase (vd_status v)) ''accept'', vl_status = vd_status v,
     vl_flag = vd_flag v,
     vl_detail = (case or_undefined (vd_detail v) of Some d \<Rightarrow> Some d | None \<Rightarrow> or_undefined (vd_message v))\<rparr>"

section \<open>Signing in, joining a team, signing out\<close>

datatype login_mode = LoginMode | RegisterMode

record login_form =
  lf_mode :: login_mode
  lf_displayName :: string
  lf_email :: string
  lf_password :: string
  lf_pending :: bool
  lf_error :: "string option"
  lf_router :: "navigation list"

definition ParticipantLoginForm :: login_form where
  "ParticipantLoginForm = \<lparr>lf_mode = LoginMode, lf_displayName = [], lf_email = [], lf_password = [], lf_pending = False,
     lf_error = None, lf_router = []\<rparr>"

definition login_endpoint :: "login_mode \<Rightarrow> string" where
  "login_endpoint m = (if m = RegisterMode then ''/api/platform/session/register'' else ''/api/platform/session/login'')"

definition login_payload :: "login_form \<Rightarrow> json" where
  "login_payload s = (if lf_mode s = RegisterMode
     then JObj [(''display_name'', JStr (lf_displayName s)), (''email'', JStr (lf_email s)), (''password'', JStr (lf_password s))]
     else JObj [(''email'', JStr (lf_email s)), (''password'', JStr (lf_password s))])"

definition submit_login :: "login_form \<Rightarrow> login_form prog" where
  "submit_login s0 = (let endpoint = login_endpoint (lf_mode s0) in
     update (\<lambda>s. s\<lparr>lf_pending := True, lf_error := None\<rparr>)
       (attempt (browser_request ''POST'' endpoint (Some (login_payload s0))) (answer_ok endpoint)
         (\<lambda>resp. update (\<lambda>s. s\<lparr>lf_router := lf_router s @ [Push ''/services'', Refresh]\<rparr>)
           (update (\<lambda>s. s\<lparr>lf_pending := False\<rparr>) Done))
         (\<lambda>e. update (\<lambda>s. s\<lparr>lf_error := Some (message_or e
              (if lf_mode s0 = RegisterMode then ''player registration failed'' else ''participant login failed''))\<rparr>)
           (update (\<lambda>s. s\<lparr>lf_pending := False\<rparr>) Done))))"

datatype login_event = ChooseMode login_mode | TypeDisplayName string | TypeEmail string | TypePassword string | SubmitLogin

fun login_handle :: "login_event \<Rightarrow> login_form \<Rightarrow> login_form prog" where
  "login_handle (ChooseMode m) s = update (\<lambda>s. s\<lparr>lf_mode := m, lf_error := None\<rparr>) Done"
| "login_handle (TypeDisplayName v) s =
     (if lf_mode s = RegisterMode then update (\<lambda>s. s\<lparr>lf_displayName := v\<rparr>) Done else Done)"
| "login_handle (TypeEmail v) s = update (\<lambda>s. s\<lparr>lf_email := v\<rparr>) Done"
| "login_handle (TypePassword v) s = update (\<lambda>s. s\<lparr>lf_password := v\<rparr>) Done"
| "login_handle SubmitLogin s = (if lf_pending s then Done else submit_login s)"

record join_form =
  jf_teamKey :: string
  jf_pending :: bool
  jf_error :: "string option"
  jf_router :: "navigation list"

definition ParticipantJoinTeamForm :: join_form where
  "ParticipantJoinTeamForm = \<lparr>jf_teamKey = [], jf_pending = False, jf_error = None, jf_router = []\<rparr>"

definition submit_join :: "join_form \<Rightarrow> join_form prog" where
  "submit_join s0 =
     update (\<lambda>s. s\<lparr>jf_pending := True, jf_error := None\<rparr>)
       (attempt (browser_request ''POST'' ''/api/platform/session/team'' (Some (JObj [(''team_key'', JStr (jf_teamKey s0))])))
         (answer_ok ''/api/platform/session/team'')
         (\<lambda>resp. update (\<lambda>s. s\<lparr>jf_router := jf_router s @ [Refresh]\<rparr>) (update (\<lambda>s. s\<lparr>jf_pending := False\<rparr>) Done))
         (\<lambda>e. update (\<lambda>s. s\<lparr>jf_error := Some (message_or e ''team join failed'')\<rparr>)
           (update (\<lambda>s. s\<lparr>jf_pending := False\<rparr>) Done)))"

datatype join_event = TypeTeamKey string | SubmitJoin

fun join_handle :: "join_event \<Rightarrow> join_form \<Rightarrow> join_form prog" where
  "join_handle (TypeTeamKey v) s = update (\<lambda>s. s\<lparr>jf_teamKey := v\<rparr>) Done"
| "join_handle SubmitJoin s = (if jf_pending s then Done else submit_join s)"

text \<open>Signing out does not look at the status of the answer; a failed fetch leaves the page where it is.\<close>

record logout_button =
  lo_pending :: bool
  lo_router :: "navigation list"

definition ParticipantLogoutButton :: logout_button where
  "ParticipantLogoutButton = \<lparr>lo_pending = False, lo_router = []\<rparr>"

definition logout :: "logout_button prog" where
  "logout = update (\<lambda>s. s\<lparr>lo_pending := True\<rparr>)
     (attempt (browser_request ''POST'' ''/api/platform/session/logout'' None) id
       (\<lambda>resp. update (\<lambda>s. s\<lparr>lo_router := lo_router s @ [Push ''/'', Refresh]\<rparr>) (update (\<lambda>s. s\<lparr>lo_pending := False\<rparr>) Done))
       (\<lambda>e. update (\<lambda>s. s\<lparr>lo_pending := False\<rparr>) Done))"

definition click_logout :: "logout_button \<Rightarrow> logout_button prog" where
  "click_logout s = (if lo_pending s then Done else logout)"

section \<open>The account dialog\<close>

record TeamMember =
  mb_player_id :: rat
  mb_display_name :: string
  mb_email :: string
  mb_role :: string

record account_draft =
  ad_displayName :: string
  ad_email :: string
  ad_teamName :: string
  ad_teamContactEmail :: string

record password_draft =
  pw_current :: string
  pw_new :: string
  pw_confirm :: string

text \<open>\<open>as_load\<close> is the number of the effect that loads the members: a load whose number is no longer
  the current one is cancelled. \<open>as_transferPlayerID\<close> is \<open>None\<close> for the empty choice.\<close>

record account =
  as_overview :: PlatformOverview
  as_open :: bool
  as_pending :: bool
  as_message :: "string option"
  as_error :: "string option"
  as_draft :: account_draft
  as_passwordDraft :: password_draft
  as_members :: "TeamMember list"
  as_membersLoading :: bool
  as_transferPlayerID :: "rat option"
  as_load :: nat
  as_router :: "navigation list"

definition draftFromOverview :: "PlatformOverview \<Rightarrow> account_draft" where
  "draftFromOverview ov = \<lparr>ad_displayName = coalesce (po_displayName ov) [], ad_email = coalesce (po_email ov) [],
     ad_teamName = coalesce (po_teamName ov) [], ad_teamContactEmail = coalesce (po_teamContactEmail ov) []\<rparr>"

definition no_passwords :: password_draft where
  "no_passwords = \<lparr>pw_current = [], pw_new = [], pw_confirm = []\<rparr>"

definition ParticipantAccountSettings :: "PlatformOverview \<Rightarrow> account" where
  "ParticipantAccountSettings ov = \<lparr>as_overview = ov, as_open = False, as_pending = False, as_message = None, as_error = None,
     as_draft = draftFromOverview ov, as_passwordDraft = no_passwords, as_members = [], as_membersLoading = False,
     as_transferPlayerID = None, as_load = 0, as_router = []\<rparr>"

definition hasTeam :: "account \<Rightarrow> bool" where
  "hasTeam s \<longleftrightarrow> coalesce (po_teamID (as_overview s)) 0 > 0 \<and> po_role (as_overview s) \<noteq> Some ''organizer''"

definition canEditTeam :: "account \<Rightarrow> bool" where
  "canEditTeam s \<longleftrightarrow> hasTeam s \<and> po_role (as_overview s) = Some ''captain''"

definition transferableMembers :: "account \<Rightarrow> TeamMember list" where
  "transferableMembers s = filter (\<lambda>m. mb_role m \<noteq> ''organizer'' \<and> mb_role m \<noteq> ''captain'' \<and>
     Some (mb_player_id m) \<noteq> po_playerID (as_overview s)) (as_members s)"

definition reset_account :: "account \<Rightarrow> account" where
  "reset_account s = s\<lparr>as_draft := draftFromOverview (as_overview s), as_passwordDraft := no_passwords, as_message := None,
     as_error := None, as_transferPlayerID := None\<rparr>"

definition members_url :: string where
  "members_url = ''/api/platform/session/team/members''"

definition unless_cancelled :: "nat \<Rightarrow> (account \<Rightarrow> account) \<Rightarrow> account \<Rightarrow> account" where
  "unless_cancelled n f s = (if as_load s = n then f s else s)"

definition members_payload :: "(json \<Rightarrow> TeamMember) \<Rightarrow> json \<Rightarrow> TeamMember list" where
  "members_payload rd j = (case j of JArr xs \<Rightarrow> map rd xs | _ \<Rightarrow> [])"

definition load_members :: "(json \<Rightarrow> TeamMember) \<Rightarrow> nat \<Rightarrow> account prog" where
  "load_members rd n = attempt (GET members_url) (answer_json members_url)
     (\<lambda>j. update (unless_cancelled n (\<lambda>s. s\<lparr>as_members := members_payload rd j\<rparr>))
       (update (unless_cancelled n (\<lambda>s. s\<lparr>as_membersLoading := False\<rparr>)) Done))
     (\<lambda>e. update (unless_cancelled n (\<lambda>s. s\<lparr>as_members := [], as_error := Some (message_or e ''failed to load team members'')\<rparr>))
       (update (unless_cancelled n (\<lambda>s. s\<lparr>as_membersLoading := False\<rparr>)) Done))"

text \<open>The effect on \<open>[open, canEditTeam]\<close>: its clean-up cancels the load before it.\<close>

definition members_effect :: "(json \<Rightarrow> TeamMember) \<Rightarrow> account prog" where
  "members_effect rd = Atomic (\<lambda>s. let n = Suc (as_load s) in
     if \<not> as_open s \<or> \<not> canEditTeam s then (s\<lparr>as_members := [], as_load := n\<rparr>, Done)
     else (s\<lparr>as_membersLoading := True, as_load := n\<rparr>, load_members rd n))"

definition setOpen :: "(json \<Rightarrow> TeamMember) \<Rightarrow> bool \<Rightarrow> account \<Rightarrow> account prog" where
  "setOpen rd b s0 = (if as_open s0 = b then Done
     else update (\<lambda>s. (if b then reset_account else id) (s\<lparr>as_open := b\<rparr>)) (members_effect rd))"

definition server_render :: "(json \<Rightarrow> TeamMember) \<Rightarrow> PlatformOverview \<Rightarrow> account \<Rightarrow> account prog" where
  "server_render rd ov s0 = update (\<lambda>s. s\<lparr>as_overview := ov\<rparr>)
     (if canEditTeam (s0\<lparr>as_overview := ov\<rparr>) = canEditTeam s0 then Done else members_effect rd)"

definition account_start :: "account \<Rightarrow> account" where
  "account_start s = s\<lparr>as_pending := True, as_message := None, as_error := None\<rparr>"

definition account_fail :: "string \<Rightarrow> js_error \<Rightarrow> account \<Rightarrow> account" where
  "account_fail fallback e s = s\<lparr>as_error := Some (message_or e fallback)\<rparr>"

definition account_finish :: "account \<Rightarrow> account" where
  "account_finish s = s\<lparr>as_pending := False\<rparr>"

definition account_saved :: "string \<Rightarrow> account \<Rightarrow> account" where
  "account_saved m s = s\<lparr>as_message := Some m, as_router := as_router s @ [Refresh]\<rparr>"

definition profile_body :: "account \<Rightarrow> json" where
  "profile_body s = JObj ([(''display_name'', JStr (ad_displayName (as_draft s))), (''email'', JStr (ad_email (as_draft s)))] @
     (if canEditTeam s then [(''team_name'', JStr (ad_teamName (as_draft s))),
        (''team_contact_email'', JStr (ad_teamContactEmail (as_draft s)))] else []))"

definition profile_url :: string where "profile_url = ''/api/platform/session/profile''"
definition password_url :: string where "password_url = ''/api/platform/session/password''"
definition captain_url :: string where "captain_url = ''/api/platform/session/team/captain''"

definition profile_request :: "account \<Rightarrow> request" where
  "profile_request s = browser_request ''PUT'' profile_url (Some (profile_body s))"

definition password_request :: "password_draft \<Rightarrow> request" where
  "password_request d = browser_request ''PUT'' password_url
     (Some (JObj [(''current_password'', JStr (pw_current d)), (''new_password'', JStr (pw_new d))]))"

definition wantsPasswordChange :: "password_draft \<Rightarrow> bool" where
  "wantsPasswordChange d \<longleftrightarrow> pw_current d \<noteq> [] \<or> pw_new d \<noteq> [] \<or> pw_confirm d \<noteq> []"

definition submit_account :: "account \<Rightarrow> account prog" where
  "submit_account s0 = (let d = as_passwordDraft s0;
       failed = (\<lambda>e. update (account_fail ''profile update failed'' e) (update account_finish Done)) in
     update account_start (attempt (profile_request s0) (answer_ok profile_url)
       (\<lambda>resp. if wantsPasswordChange d then
          (if length (pw_new d) < 8 then failed (ErrorMessage ''new password must be at least 8 characters'')
           else if pw_new d \<noteq> pw_confirm d then failed (ErrorMessage ''new password confirmation does not match'')
           else attempt (password_request d) (answer_ok password_url)
             (\<lambda>resp'. update (\<lambda>s. account_saved ''Account settings and password saved.'' (s\<lparr>as_passwordDraft := no_passwords\<rparr>))
               (update account_finish Done))
             failed)
        else update (account_saved ''Account settings saved.'') (update account_finish Done))
       failed))"

definition transferCaptain :: "account \<Rightarrow> account prog" where
  "transferCaptain s0 = (case as_transferPlayerID s0 of
     None \<Rightarrow> update (\<lambda>s. s\<lparr>as_error := Some ''choose a teammate to receive captainship''\<rparr>) Done
   | Some i \<Rightarrow>
       if i \<le> 0 then update (\<lambda>s. s\<lparr>as_error := Some ''choose a teammate to receive captainship''\<rparr>) Done
       else update account_start
         (attempt (browser_request ''POST'' captain_url (Some (JObj [(''player_id'', JNum i)]))) (answer_ok captain_url)
           (\<lambda>resp. update (account_saved ''Captainship transferred. You are now a team member.'') (update account_finish Done))
           (\<lambda>e. update (account_fail ''captain transfer failed'' e) (update account_finish Done))))"

datatype account_event =
    SetOpen bool
  | ServerRender PlatformOverview
  | EditDisplayName string
  | EditEmail string
  | EditTeamName string
  | EditTeamEmail string
  | EditCurrentPassword string
  | EditNewPassword string
  | EditConfirmPassword string
  | ChooseTeammate "rat option"
  | ClickTransfer
  | SubmitAccount

definition edit_draft :: "bool \<Rightarrow> (account_draft \<Rightarrow> account_draft) \<Rightarrow> account prog" where
  "edit_draft shown f = (if shown then update (\<lambda>s. s\<lparr>as_draft := f (as_draft s)\<rparr>) Done else Done)"

definition edit_passwords :: "bool \<Rightarrow> (password_draft \<Rightarrow> password_draft) \<Rightarrow> account prog" where
  "edit_passwords shown f = (if shown then update (\<lambda>s. s\<lparr>as_passwordDraft := f (as_passwordDraft s)\<rparr>) Done else Done)"

fun account_handle :: "(json \<Rightarrow> TeamMember) \<Rightarrow> account_event \<Rightarrow> account \<Rightarrow> account prog" where
  "account_handle rd (SetOpen b) s = setOpen rd b s"
| "account_handle rd (ServerRender ov) s = server_render rd ov s"
| "account_handle rd (EditDisplayName v) s = edit_draft (as_open s) (\<lambda>d. d\<lparr>ad_displayName := v\<rparr>)"
| "account_handle rd (EditEmail v) s = edit_draft (as_open s) (\<lambda>d. d\<lparr>ad_email := v\<rparr>)"
| "account_handle rd (EditTeamName v) s = edit_draft (as_open s \<and> canEditTeam s) (\<lambda>d. d\<lparr>ad_teamName := v\<rparr>)"
| "account_handle rd (EditTeamEmail v) s = edit_draft (as_open s \<and> canEditTeam s) (\<lambda>d. d\<lparr>ad_teamContactEmail := v\<rparr>)"
| "account_handle rd (EditCurrentPassword v) s = edit_passwords (as_open s) (\<lambda>d. d\<lparr>pw_current := v\<rparr>)"
| "account_handle rd (EditNewPassword v) s = edit_passwords (as_open s) (\<lambda>d. d\<lparr>pw_new := v\<rparr>)"
| "account_handle rd (EditConfirmPassword v) s = edit_passwords (as_open s) (\<lambda>d. d\<lparr>pw_confirm := v\<rparr>)"
| "account_handle rd (ChooseTeammate c) s =
     (if as_open s \<and> canEditTeam s \<and> \<not> as_membersLoading s \<and>
         (case c of None \<Rightarrow> True | Some i \<Rightarrow> i \<in> mb_player_id ` set (transferableMembers s))
      then update (\<lambda>s. s\<lparr>as_transferPlayerID := c\<rparr>) Done else Done)"
| "account_handle rd ClickTransfer s =
     (if as_open s \<and> canEditTeam s \<and> \<not> as_membersLoading s \<and> transferableMembers s \<noteq> [] \<and>
         \<not> as_pending s \<and> as_transferPlayerID s \<noteq> None then transferCaptain s else Done)"
| "account_handle rd SubmitAccount s = (if as_open s \<and> \<not> as_pending s then submit_account s else Done)"

section \<open>Typed flags\<close>

definition plain_flag :: "string \<Rightarrow> bool" where
  "plain_flag f \<longleftrightarrow> f \<noteq> [] \<and> trim f = f \<and> list_all (\<lambda>c. \<not> separator c) f"

lemma split_runs_plain: "list_all (\<lambda>c. \<not> p c) w \<Longrightarrow> split_runs p w = [w]"
  by (induction w) auto

lemma split_runs_nonempty: "split_runs p w \<noteq> []"
  by (induction p w rule: split_runs.induct) (auto split: list.split)

lemma split_runs_append:
  "list_all (\<lambda>c. \<not> p c) w \<Longrightarrow> p c \<Longrightarrow> split_runs p (w @ c # rest) = w # split_runs p (dropWhile p rest)"
  by (induction w) auto

lemma dropWhile_plain: "plain_flag f \<Longrightarrow> dropWhile separator (f @ r) = f @ r"
  by (cases f) (auto simp: plain_flag_def)

lemma split_runs_join:
  "fs \<noteq> [] \<Longrightarrow> list_all plain_flag fs \<Longrightarrow> split_runs separator (join_with [CHR 0x0A] fs) = fs"
proof (induction "[CHR 0x0A]" fs rule: join_with.induct)
  case (2 f)
  then show ?case by (simp add: split_runs_plain plain_flag_def)
next
  case (3 f g fs)
  have "dropWhile separator (join_with [CHR 0x0A] (g # fs)) = join_with [CHR 0x0A] (g # fs)"
    using 3 dropWhile_plain [of g "[]"] dropWhile_plain [of g] by (cases fs) simp_all
  moreover have "split_runs separator (join_with [CHR 0x0A] (g # fs)) = g # fs" using 3 by simp
  ultimately show ?case
    using 3(3) split_runs_append [of separator f "CHR 0x0A"] by (simp add: plain_flag_def separator_def)
qed simp

lemma parseFlags_join:
  assumes "list_all plain_flag fs"
  shows "parseFlags (join_with [CHR 0x0A] fs) = fs"
proof (cases "fs = []")
  case True
  then show ?thesis by (simp add: parseFlags_def trim_def trim_start_def trim_end_def)
next
  case False
  have "map trim fs = fs" "filter (\<lambda>f. f \<noteq> []) fs = fs"
    using assms by (auto simp: plain_flag_def list_all_iff map_idI filter_id_conv)
  then show ?thesis using split_runs_join [OF False assms] by (simp add: parseFlags_def)
qed

lemma parseFlags_clean: "f \<in> set (parseFlags raw) \<Longrightarrow> f \<noteq> [] \<and> trim f = f"
  by (auto simp: parseFlags_def)

section \<open>The panels act one at a time\<close>

definition flag_handlers :: "(json \<Rightarrow> submit_payload) \<Rightarrow> (flag_panel \<Rightarrow> flag_panel prog) set" where
  "flag_handlers rd = {flag_handle accepting rd e | accepting e. True}"

lemmas flag_updates = flags_refused_def flags_started_def flags_judged_def flags_failed_def flags_finished_def onChange_flags_def

lemma flag_handle_behaved: "well_behaved (\<lambda>s. mark (fp_pending s)) s (flag_handle accepting rd e s)"
proof -
  have "well_behaved (\<lambda>s. mark (fp_pending s)) s (onSubmit_flags rd s)" if "\<not> fp_pending s"
    using that by (auto simp: onSubmit_flags_def flag_updates Let_def intro: well_behaved_quiet well_behaved_action)
  then show ?thesis by (cases e) (auto simp: onTextareaKeyDown_def onChange_flags_def intro: well_behaved_quiet)
qed

interpretation flag_submission: exclusive_hook "\<lambda>s. mark (fp_pending s)" "flag_handlers rd" "{FlagSubmitPanel}" for rd
proof
  show "\<exists>s :: flag_panel. mark (fp_pending s) \<noteq> (None :: unit option)"
    by (rule exI [of _ "flags_started FlagSubmitPanel"]) (simp add: flags_started_def)
  show "s \<in> {FlagSubmitPanel} \<Longrightarrow> mark (fp_pending s) = (None :: unit option)" for s by (simp add: FlagSubmitPanel_def)
qed (use flag_handle_behaved in \<open>auto simp: flag_handlers_def\<close>)

definition login_handlers :: "(login_form \<Rightarrow> login_form prog) set" where
  "login_handlers = range login_handle"

lemma login_handle_behaved: "well_behaved (\<lambda>s. mark (lf_pending s)) s (login_handle e s)"
proof (cases e)
  case SubmitLogin
  then show ?thesis by (auto simp: submit_login_def Let_def intro!: well_behaved_action)
qed (auto intro: well_behaved_quiet)

interpretation sign_in: exclusive_hook "\<lambda>s. mark (lf_pending s)" login_handlers "{ParticipantLoginForm}"
proof
  show "\<exists>s :: login_form. mark (lf_pending s) \<noteq> (None :: unit option)"
    by (rule exI [of _ "ParticipantLoginForm\<lparr>lf_pending := True\<rparr>"]) simp
  show "s \<in> {ParticipantLoginForm} \<Longrightarrow> mark (lf_pending s) = (None :: unit option)" for s by (simp add: ParticipantLoginForm_def)
qed (use login_handle_behaved in \<open>auto simp: login_handlers_def\<close>)

definition join_handlers :: "(join_form \<Rightarrow> join_form prog) set" where
  "join_handlers = range join_handle"

lemma join_handle_behaved: "well_behaved (\<lambda>s. mark (jf_pending s)) s (join_handle e s)"
proof (cases e)
  case SubmitJoin
  then show ?thesis by (auto simp: submit_join_def intro!: well_behaved_action)
qed (auto intro: well_behaved_quiet)

interpretation team_join: exclusive_hook "\<lambda>s. mark (jf_pending s)" join_handlers "{ParticipantJoinTeamForm}"
proof
  show "\<exists>s :: join_form. mark (jf_pending s) \<noteq> (None :: unit option)"
    by (rule exI [of _ "ParticipantJoinTeamForm\<lparr>jf_pending := True\<rparr>"]) simp
  show "s \<in> {ParticipantJoinTeamForm} \<Longrightarrow> mark (jf_pending s) = (None :: unit option)" for s
    by (simp add: ParticipantJoinTeamForm_def)
qed (use join_handle_behaved in \<open>auto simp: join_handlers_def\<close>)

interpretation sign_out: exclusive_hook "\<lambda>s. mark (lo_pending s)" "{click_logout}" "{ParticipantLogoutButton}"
proof
  show "\<exists>s :: logout_button. mark (lo_pending s) \<noteq> (None :: unit option)"
    by (rule exI [of _ "ParticipantLogoutButton\<lparr>lo_pending := True\<rparr>"]) simp
  show "s \<in> {ParticipantLogoutButton} \<Longrightarrow> mark (lo_pending s) = (None :: unit option)" for s
    by (simp add: ParticipantLogoutButton_def)
  show "h \<in> {click_logout} \<Longrightarrow> well_behaved (\<lambda>s. mark (lo_pending s)) s (h s)" for h s
    by (auto simp: click_logout_def logout_def intro!: well_behaved_action)
qed

definition account_handlers :: "(json \<Rightarrow> TeamMember) \<Rightarrow> (account \<Rightarrow> account prog) set" where
  "account_handlers rd = range (account_handle rd)"

lemmas account_updates = account_start_def account_fail_def account_finish_def account_saved_def reset_account_def
  unless_cancelled_def

lemma members_effect_quiet:
  "quiet (\<lambda>s. mark (as_pending s)) (members_effect rd) \<and> sends_only reads (members_effect rd)"
  by (auto simp: members_effect_def load_members_def account_updates quiet_Atomic Let_def reads_def GET_def browser_request_def)

lemma account_actions_carry:
  "\<not> as_pending s \<Longrightarrow> well_behaved (\<lambda>s. mark (as_pending s)) s (submit_account s)"
  "\<not> as_pending s \<Longrightarrow> well_behaved (\<lambda>s. mark (as_pending s)) s (transferCaptain s)"
  by (auto simp: submit_account_def transferCaptain_def account_updates Let_def
      intro: well_behaved_quiet well_behaved_action split: option.split)

lemma account_handle_behaved: "well_behaved (\<lambda>s. mark (as_pending s)) s (account_handle rd e s)"
  using account_actions_carry [of s] members_effect_quiet [of rd]
  by (cases e) (auto simp: setOpen_def server_render_def edit_draft_def edit_passwords_def reset_account_def
      intro: well_behaved_quiet)

interpretation account_dialog:
  exclusive_hook "\<lambda>s. mark (as_pending s)" "account_handlers rd" "range ParticipantAccountSettings" for rd
proof
  show "\<exists>s :: account. mark (as_pending s) \<noteq> (None :: unit option)"
    by (rule exI [of _ "account_start undefined"]) (simp add: account_start_def)
  show "s \<in> range ParticipantAccountSettings \<Longrightarrow> mark (as_pending s) = (None :: unit option)" for s
    by (auto simp: ParticipantAccountSettings_def)
qed (use account_handle_behaved in \<open>auto simp: account_handlers_def\<close>)

text \<open>
  C19. No participant panel sends a change twice or stays blocked: in every state that any interleaving of typing, clicks,
  server renders and answers can lead the flag panel, the sign-in form, the team form, the sign-out button or the account
  dialog to, at most one changing request is in flight, and only while the panel shows its action as
  pending; with nothing in flight nothing is pending; and answering what is in flight always leads there.
\<close>

theorem participant_panels_single_flight:
  "single_flight fp_pending (flag_handlers rdf) {FlagSubmitPanel} \<and>
   single_flight lf_pending login_handlers {ParticipantLoginForm} \<and>
   single_flight jf_pending join_handlers {ParticipantJoinTeamForm} \<and>
   single_flight lo_pending {click_logout} {ParticipantLogoutButton} \<and>
   single_flight as_pending (account_handlers rda) (range ParticipantAccountSettings)"
  by (intro conjI single_flightI flag_submission.exclusive_hook_axioms sign_in.exclusive_hook_axioms
      team_join.exclusive_hook_axioms sign_out.exclusive_hook_axioms account_dialog.exclusive_hook_axioms)

section \<open>Changing the password\<close>

lemma account_urls: "profile_url \<noteq> password_url" "captain_url \<noteq> password_url" "members_url \<noteq> password_url"
  by (simp_all add: profile_url_def password_url_def captain_url_def members_url_def)

lemma members_effect_sends: "sends_after (members_effect rd) h rq \<Longrightarrow> rq = GET members_url"
  by (auto simp: members_effect_def load_members_def Let_def split: if_splits)

lemma transferCaptain_sends: "sends_after (transferCaptain s) h rq \<Longrightarrow> rq_url rq = captain_url"
  by (auto simp: transferCaptain_def browser_request_def split: option.splits if_splits)

lemma submit_account_password:
  assumes "sends_after (submit_account s) h rq" and "rq_url rq = password_url"
  shows "wantsPasswordChange (as_passwordDraft s) \<and> 8 \<le> length (pw_new (as_passwordDraft s)) \<and>
    pw_new (as_passwordDraft s) = pw_confirm (as_passwordDraft s) \<and> rq = password_request (as_passwordDraft s) \<and>
    (\<exists>resp. h = [(profile_request s, Inr resp)] \<and> resp_ok resp)"
  using assms account_urls
  by (auto simp: submit_account_def Let_def profile_request_def browser_request_def answer_ok_Inr
      split: if_splits)

text \<open>
  C20. A password is changed only on purpose: of everything a user can do in the account dialog, only a
  submission can send a request to the password route, and then the new password has at least eight characters and
  equals its confirmation, the request carries exactly the two typed passwords, and the only exchange before it
  is the update of the profile, which succeeded.
\<close>

theorem password_change_guarded:
  assumes "sends_after (account_handle rd e s) h rq" and "rq_url rq = password_url"
  shows "e = SubmitAccount \<and> as_open s \<and> \<not> as_pending s \<and>
    8 \<le> length (pw_new (as_passwordDraft s)) \<and> pw_new (as_passwordDraft s) = pw_confirm (as_passwordDraft s) \<and>
    rq = password_request (as_passwordDraft s) \<and> (\<exists>resp. h = [(profile_request s, Inr resp)] \<and> resp_ok resp)"
proof (cases e)
  case SubmitAccount
  then show ?thesis using assms submit_account_password [of s h rq] by (auto split: if_splits)
next
  case ClickTransfer
  then show ?thesis using assms transferCaptain_sends [of s h rq] account_urls by (auto split: if_splits)
qed (use assms members_effect_sends [of rd h rq] account_urls in
    \<open>auto simp: setOpen_def server_render_def edit_draft_def edit_passwords_def GET_def browser_request_def split: if_splits\<close>)

text \<open>The passwords are looked at only after the profile was sent: a refused new password leaves the profile saved
  and shows an error.\<close>

lemma refused_password_saves_profile:
  assumes "length (pw_new (as_passwordDraft s)) < 8" "wantsPasswordChange (as_passwordDraft s)" "resp_ok resp"
  shows "play [Inr resp] (submit_account s) s
    = (s\<lparr>as_pending := False, as_message := None,
         as_error := Some ''new password must be at least 8 characters''\<rparr>, [profile_request s])"
  using assms by (simp add: submit_account_def update_def attempt_def Let_def answer_ok_def
      account_start_def account_fail_def account_finish_def)

definition sample_account :: "PlatformOverview \<Rightarrow> account" where
  "sample_account ov = (ParticipantAccountSettings ov)
     \<lparr>as_open := True, as_passwordDraft := \<lparr>pw_current = ''old'', pw_new = ''new-password'', pw_confirm = ''new-password''\<rparr>\<rparr>"

lemma sample_account_parts:
  "as_open (sample_account ov)" "\<not> as_pending (sample_account ov)"
  "as_passwordDraft (sample_account ov) = \<lparr>pw_current = ''old'', pw_new = ''new-password'', pw_confirm = ''new-password''\<rparr>"
  by (simp_all add: sample_account_def ParticipantAccountSettings_def)

definition saved_response :: response where
  "saved_response = \<lparr>rs_status = 200, rs_headers = [], rs_json = Some JNull, rs_body = None\<rparr>"

theorem password_change_guarded_witness:
  "\<exists>rd :: json \<Rightarrow> TeamMember. \<forall>ov. sends_after (account_handle rd SubmitAccount (sample_account ov))
       [(profile_request (sample_account ov), Inr saved_response)]
       (password_request (as_passwordDraft (sample_account ov))) \<and>
     8 \<le> length (pw_new (as_passwordDraft (sample_account ov)))"
proof (intro exI allI conjI)
  fix rd :: "json \<Rightarrow> TeamMember" and ov
  show sent: "sends_after (account_handle rd SubmitAccount (sample_account ov))
       [(profile_request (sample_account ov), Inr saved_response)]
       (password_request (as_passwordDraft (sample_account ov)))"
    by (simp add: sample_account_parts submit_account_def wantsPasswordChange_def Let_def
        saved_response_def answer_ok_def resp_ok_def)
  show "8 \<le> length (pw_new (as_passwordDraft (sample_account ov)))"
    using password_change_guarded [OF sent] by (auto simp: password_request_def browser_request_def)
qed

end
