(* ===== verification/Participant_Views.thy ===== *)
theory Participant_Views
  imports Panel_Program Dashboard_Data
begin

text \<open>
  The logic inside the participant's views: the match card with its countdown, the badges and buttons of a service card
  and the attack filters (\<open>control-center-sections.tsx\<close>), the checker detail (\<open>service-sla-detail.tsx\<close>), the leaders of an
  attack slice (\<open>attack-slice-summary.tsx\<close>), the alerts of the shell (\<open>participant-shell.tsx\<close>), the readiness checklist
  (\<open>match-readiness.tsx\<close>, \<open>onboarding-checklist.tsx\<close>) and the announcements (\<open>announcement-banner.tsx\<close>). The lemmas: the
  countdown always aims at the next boundary of the tick interval, a mounted banner shows the last snapshot that
  arrived, and the leaders of a slice are its most frequent names.
\<close>

section \<open>The match card\<close>

definition match_label :: "string \<Rightarrow> string option" where
  "match_label key = map_of [(''not_started'', ''Not started''), (''running'', ''Running''), (''paused'', ''Paused''),
     (''stopped'', ''Stopped''), (''finished'', ''Finished'')] key"

definition formatMatchStateLabel :: "string option \<Rightarrow> string" where
  "formatMatchStateLabel state = (case or_undefined state of
     None \<Rightarrow> ''Inactive''
   | Some s \<Rightarrow> coalesce (match_label (toLowerCase s)) (replace_char (CHR ''_'') (CHR '' '') s))"

text \<open>The countdown is a whole number of seconds, or not a number when the next tick is not a date.\<close>

definition formatCountdown :: "int option \<Rightarrow> string" where
  "formatCountdown seconds = (case seconds of
     None \<Rightarrow> ''NaNm NaNs''
   | Some n \<Rightarrow> if n < 60 then int_to_string n @ ''s''
       else int_to_string (n div 60) @ ''m '' @ pad_left 2 (int_to_string (n mod 60)) @ ''s'')"

text \<open>\<open>while (projected <= now) projected += intervalMs\<close>, which runs only for a positive interval.\<close>

function project_tick :: "rat \<Rightarrow> rat \<Rightarrow> rat \<Rightarrow> rat" where
  "project_tick intervalMs now projected =
     (if intervalMs > 0 \<and> projected \<le> now then project_tick intervalMs now (projected + intervalMs) else projected)"
  by pat_completeness auto

definition ticks_left :: "rat \<Rightarrow> rat \<Rightarrow> rat \<Rightarrow> nat" where
  "ticks_left i now p = (if i > 0 \<and> p \<le> now then Suc (nat \<lfloor>(now - p) / i\<rfloor>) else 0)"

lemma ticks_left_step: "i > 0 \<Longrightarrow> p \<le> now \<Longrightarrow> ticks_left i now p = Suc (ticks_left i now (p + i))"
proof -
  assume i: "i > 0" "p \<le> now"
  have d: "(now - (p + i)) / i = (now - p) / i - 1" using i(1) by (simp add: field_simps)
  show ?thesis
  proof (cases "p + i \<le> now")
    case True
    then have "1 \<le> (now - p) / i" using i(1) by (simp add: field_simps)
    then have "1 \<le> \<lfloor>(now - p) / i\<rfloor>" by simp
    then have "nat \<lfloor>(now - p) / i\<rfloor> = Suc (nat (\<lfloor>(now - p) / i\<rfloor> - 1))" by linarith
    then show ?thesis using True i by (simp add: ticks_left_def d)
  next
    case False
    then have "0 \<le> (now - p) / i" "(now - p) / i < 1" using i by (simp_all add: field_simps)
    then have "\<lfloor>(now - p) / i\<rfloor> = 0" by (simp add: floor_eq_iff)
    then show ?thesis using False i by (simp add: ticks_left_def)
  qed
qed

termination project_tick
  by (relation "measure (\<lambda>(i, now, p). ticks_left i now p)") (auto simp: ticks_left_step)

declare project_tick.simps [simp del]

definition js_round :: "rat \<Rightarrow> int" where
  "js_round x = \<lfloor>x + 1 / 2\<rfloor>"

record tick_card =
  tc_timeLeft :: "int option option"
  tc_overdue :: bool

text \<open>One run of the effect and of its timer, at the time \<open>now\<close> in milliseconds; \<open>parse\<close> is \<open>new Date(..).getTime()\<close>.\<close>

definition TickIntervalCard :: "(string \<Rightarrow> int option) \<Rightarrow> string option \<Rightarrow> rat option \<Rightarrow> int \<Rightarrow> tick_card" where
  "TickIntervalCard parse nextTickAt tickInterval now = (case or_undefined nextTickAt of
     None \<Rightarrow> \<lparr>tc_timeLeft = None, tc_overdue = False\<rparr>
   | Some stamp \<Rightarrow> (case parse stamp of
        None \<Rightarrow> \<lparr>tc_timeLeft = Some None, tc_overdue = False\<rparr>
      | Some target \<Rightarrow>
          (let intervalMs = coalesce tickInterval 0 * 1000;
               projected = project_tick intervalMs (of_int now) (of_int target);
               diff = max 0 (js_round ((projected - of_int now) / 1000))
           in \<lparr>tc_timeLeft = Some (Some diff), tc_overdue = (now \<ge> target)\<rparr>)))"

record countdown_view =
  cv_primary :: "string option"
  cv_secondary :: "string option"

text \<open>The countdown of the card; the primary text is missing where the card shows a dash.\<close>

definition countdown :: "string option \<Rightarrow> rat option \<Rightarrow> tick_card \<Rightarrow> countdown_view" where
  "countdown matchState tickInterval t = (let state = map_option toLowerCase matchState;
       stopped = (state \<in> {Some ''stopped'', Some ''finished'', Some ''not_started''} \<or> or_undefined state = None)
     in if state = Some ''paused'' then \<lparr>cv_primary = Some ''Suspended'', cv_secondary = Some ''Match paused''\<rparr>
        else if stopped then \<lparr>cv_primary = Some ''Idle'', cv_secondary = Some (
             if state = Some ''finished'' then ''Match finished''
             else if state = Some ''not_started'' then ''Match not started'' else ''Ticks not running'')\<rparr>
        else (case tc_timeLeft t of
            Some left \<Rightarrow> \<lparr>cv_primary = Some (formatCountdown left),
              cv_secondary = (case tickInterval of Some i \<Rightarrow>
                  if i \<noteq> 0 then Some (''Every '' @ num_to_string (Finite i) @ ''s'') else None | None \<Rightarrow> None)\<rparr>
          | None \<Rightarrow> \<lparr>cv_primary = None, cv_secondary = None\<rparr>))"

text \<open>How often the card asks the server for a new page while the boundary has passed: at once and every 3.5 seconds.\<close>

definition recovery_refreshes :: "tick_card \<Rightarrow> string option \<Rightarrow> int \<Rightarrow> int" where
  "recovery_refreshes t nextTickAt elapsedMs =
     (if \<not> tc_overdue t \<or> or_undefined nextTickAt = None then 0 else 1 + elapsedMs div 3500)"

section \<open>Service cards\<close>

datatype lock_reason = MatchPaused | MatchNotStarted | Deferred | Maintenance

definition explicit_reason :: "string \<Rightarrow> lock_reason option" where
  "explicit_reason s = map_of [(''match_paused'', MatchPaused), (''match_not_started'', MatchNotStarted),
     (''deferred'', Deferred), (''maintenance'', Maintenance)] s"

definition resolveServiceLockReason :: "ServiceRow \<Rightarrow> string option \<Rightarrow> lock_reason" where
  "resolveServiceLockReason service matchState =
     (let explicit = trim (coalesce (or_undefined (sv_lockReason service)) []) in
      case explicit_reason explicit of
        Some r \<Rightarrow> r
      | None \<Rightarrow>
          (let match = toLowerCase (coalesce (or_undefined matchState) []); last = toLowerCase (sv_lastEvent service);
               reset = toLowerCase (sv_resetCooldown service); hint = toLowerCase (sv_sshHint service)
           in if match = ''paused'' \<or> includes_str reset ''paused'' \<or> includes_str last ''paused'' \<or> includes_str hint ''paused''
              then MatchPaused
              else if match = ''not_started'' \<or> includes_str reset ''not started'' \<or> includes_str last ''waiting for match start''
              then MatchNotStarted
              else if explicit = ''deferred'' \<or> includes_str last ''next tick'' \<or> includes_str reset ''next tick'' then Deferred
              else Maintenance))"

definition serviceLockBadgeLabel :: "ServiceRow \<Rightarrow> string option \<Rightarrow> string" where
  "serviceLockBadgeLabel service matchState = (case resolveServiceLockReason service matchState of
     MatchPaused \<Rightarrow> ''Match paused'' | MatchNotStarted \<Rightarrow> ''Match not started'' | Deferred \<Rightarrow> ''Opens next tick''
   | Maintenance \<Rightarrow> ''Under maintenance'')"

definition serviceLockHelpText :: "ServiceRow \<Rightarrow> string option \<Rightarrow> string" where
  "serviceLockHelpText service matchState = (case resolveServiceLockReason service matchState of
     MatchPaused \<Rightarrow> ''Actions and network access are suspended while the match is paused.''
   | MatchNotStarted \<Rightarrow> ''Service is locked until the organizer starts the match. Network access stays closed.''
   | Deferred \<Rightarrow> ''Challenge is warm-redeployed and will reopen on the next tick.''
   | Maintenance \<Rightarrow> ''Actions unavailable while this challenge is under maintenance.'')"

record action_bar =
  ab_disabled :: bool
  ab_primaryPending :: bool
  ab_restartPending :: bool
  ab_resetPending :: bool
  ab_primaryLabel :: string
  ab_sourceLink :: "string option"
  ab_help :: "string option"

definition ServiceActionBar :: "string option \<Rightarrow> string option \<Rightarrow> ServiceRow \<Rightarrow> action_bar" where
  "ServiceActionBar matchState pendingAction service =
     \<lparr>ab_disabled = (pendingAction \<noteq> None \<or> sv_maintenance service),
      ab_primaryPending = (pendingAction = Some (''unlock:'' @ sv_id service) \<or> pendingAction = Some (''ssh:'' @ sv_id service)),
      ab_restartPending = (pendingAction = Some (''restart:'' @ sv_id service)),
      ab_resetPending = (pendingAction = Some (''reset:'' @ sv_id service)),
      ab_primaryLabel = (if sv_unlocked service then ''SSH Access'' else ''Unlock Service''),
      ab_sourceLink = (if sv_hasSourceDownload service \<and> \<not> sv_maintenance service
        then Some (''/api/platform/challenges/'' @ num_to_string (sv_challengeId service) @ ''/source'') else None),
      ab_help = (if sv_maintenance service then Some (serviceLockHelpText service matchState) else None)\<rparr>"

datatype service_badge = LockBadge string | StatusBadge service_status

definition ServiceCard_badge :: "string option \<Rightarrow> ServiceRow \<Rightarrow> service_badge" where
  "ServiceCard_badge matchState service =
     (if sv_maintenance service then LockBadge (serviceLockBadgeLabel service matchState) else StatusBadge (sv_status service))"

text \<open>The checker detail; a tick of zero counts as missing.\<close>

definition formatSLAPhaseLabel :: "string \<Rightarrow> string" where
  "formatSLAPhaseLabel phase = coalesce (map_of [(''put'', ''flag storage''), (''get'', ''flag retrieval''),
     (''check'', ''service functionality'')] (toLowerCase (trim phase))) (trim phase)"

definition sla_tick :: "ServiceRow \<Rightarrow> string option" where
  "sla_tick service = (case sv_slaTickId service of
     Some t \<Rightarrow> if t = Finite 0 \<or> t = NaN then None else Some (num_to_string t) | None \<Rightarrow> None)"

datatype sla_tone = Positive | Highlight | Negative | Muted

definition formatSLAState :: "ServiceRow \<Rightarrow> sla_tone \<times> string" where
  "formatSLAState service =
     (let phase = formatSLAPhaseLabel (sv_slaPhase service); tick = sla_tick service;
          tickSuffix = (case tick of Some t \<Rightarrow> '' on tick #'' @ t | None \<Rightarrow> []);
          with_phase = (\<lambda>word joiner. word @ (if phase \<noteq> [] then joiner @ phase else []) @ tickSuffix)
      in if sv_slaStatus service = ''ok'' then (Positive, ''ok'' @ tickSuffix)
         else if sv_slaStatus service = ''recovering'' then (Highlight, with_phase ''recovering'' '' after '')
         else if sv_slaStatus service = ''flag_not_found'' then (Negative, with_phase ''flag not found'' '' during '')
         else if sv_slaStatus service = ''faulty'' then (Negative, with_phase ''faulty'' '' during '')
         else if sv_slaStatus service = ''down'' then (Negative, with_phase ''down'' '' during '')
         else (case tick of Some t \<Rightarrow> (Muted, ''awaiting detail after tick #'' @ t) | None \<Rightarrow> (Muted, ''awaiting checker detail'')))"

section \<open>The attack view\<close>

definition slice_latestTick :: "AttackEvent list \<Rightarrow> int" where
  "slice_latestTick attackRows = foldl (\<lambda>v row. max v (ae_tick row)) 0 attackRows"

definition filtersApplied :: "AttackFilters \<Rightarrow> bool" where
  "filtersApplied f \<longleftrightarrow> trim (af_attacker f) \<noteq> [] \<or> trim (af_victim f) \<noteq> [] \<or> trim (af_service f) \<noteq> [] \<or>
     trim (af_tickFrom f) \<noteq> [] \<or> trim (af_tickTo f) \<noteq> []"

datatype summary_part = Named string string | TickRange string string

definition formatAttackFilterSummary :: "AttackFilters \<Rightarrow> summary_part list" where
  "formatAttackFilterSummary f = (let named = (\<lambda>k v. if trim v \<noteq> [] then [Named k (trim v)] else []) in
     named ''attacker'' (af_attacker f) @ named ''victim'' (af_victim f) @ named ''service'' (af_service f) @
     (if trim (af_tickFrom f) \<noteq> [] \<or> trim (af_tickTo f) \<noteq> []
      then [TickRange (coalesce (or_undefined (Some (trim (af_tickFrom f)))) ''start'')
                      (coalesce (or_undefined (Some (trim (af_tickTo f)))) ''latest'')] else []))"

record slice_leader =
  sl_label :: string
  sl_count :: nat

text \<open>A \<open>Map\<close> keeps its keys in the order of their first insertion.\<close>

fun bump :: "string \<Rightarrow> (string \<times> nat) list \<Rightarrow> (string \<times> nat) list" where
  "bump label [] = [(label, 1)]"
| "bump label ((l, n) # counts) = (if l = label then (l, n + 1) # counts else (l, n) # bump label counts)"

definition slice_compare :: "(string \<Rightarrow> string \<Rightarrow> int) \<Rightarrow> slice_leader \<Rightarrow> slice_leader \<Rightarrow> int" where
  "slice_compare lc l r = (if sl_count r \<noteq> sl_count l then int (sl_count r) - int (sl_count l) else lc (sl_label l) (sl_label r))"

definition summarizeAttackField :: "(string \<Rightarrow> string \<Rightarrow> int) \<Rightarrow> (AttackEvent \<Rightarrow> string) \<Rightarrow> AttackEvent list \<Rightarrow> slice_leader list" where
  "summarizeAttackField lc field attackRows = (let counts = fold (\<lambda>row. bump (field row)) attackRows [] in
     take 3 (sort_cmp (\<lambda>l r. slice_compare lc l r \<le> 0)
       (map (\<lambda>(label, count). \<lparr>sl_label = label, sl_count = count\<rparr>) counts)))"

definition SliceCountBadge :: "string option \<Rightarrow> int \<Rightarrow> int \<Rightarrow> int \<Rightarrow> string" where
  "SliceCountBadge sfx totalCount visibleCount offset =
     (let start = (if visibleCount > 0 then offset + 1 else 0); end' = offset + visibleCount
      in ''Showing '' @ int_to_string start @ ''-'' @ int_to_string end' @ '' of '' @ int_to_string totalCount @
         (case or_undefined sfx of Some s \<Rightarrow> '' '' @ s | None \<Rightarrow> []))"

section \<open>The shell and the readiness checklist\<close>

definition getParticipantGameAlertMessage :: "PlatformOverview \<Rightarrow> string option" where
  "getParticipantGameAlertMessage ov =
     (if po_matchState ov = Some ''finished'' then Some (''The match has finished'' @
        (case po_currentTick ov of Some t \<Rightarrow> '' at tick #'' @ num_to_string t | None \<Rightarrow> []) @ ''. Participant submissions are closed.'')
      else if po_matchState ov = Some ''stopped'' then Some ''The match is currently stopped. Participant submissions are closed.''
      else if po_matchState ov = Some ''paused'' then Some ''The match is currently paused. Tick progression and checker runs are temporarily suspended. Submissions, service access, and SSH are blocked until organizers resume.''
      else if po_scoreboardFrozen ov then Some ''The public scoreboard is frozen. Attack submissions and service controls still follow match state.''
      else None)"

definition hasParticipantTeam :: "PlatformOverview \<Rightarrow> bool" where
  "hasParticipantTeam ov \<longleftrightarrow> po_authenticated ov \<and> po_role ov \<noteq> Some ''organizer'' \<and> coalesce (po_teamID ov) 0 > 0"

definition needsTeamJoin :: "PlatformOverview \<Rightarrow> bool" where
  "needsTeamJoin ov \<longleftrightarrow> po_authenticated ov \<and> po_role ov \<noteq> Some ''organizer'' \<and> coalesce (po_teamID ov) 0 \<le> 0"

record ChecklistItem =
  ck_id :: string
  ck_label :: string
  ck_detail :: string
  ck_done :: bool

text \<open>The local storage: \<open>None\<close> when it throws, otherwise the value under the key.\<close>

definition readVpnDownloaded :: "string option option \<Rightarrow> bool" where
  "readVpnDownloaded stored \<longleftrightarrow> stored = Some (Some ''1'')"

definition markVpnConfigDownloaded :: "string option option \<Rightarrow> string option option \<times> bool" where
  "markVpnConfigDownloaded stored = (if stored = None then (None, False) else (Some (Some ''1''), True))"

definition buildItems :: "PlatformOverview \<Rightarrow> bool \<Rightarrow> ChecklistItem list" where
  "buildItems ov vpnDownloaded = (let hasTeam = (coalesce (po_teamID ov) 0 > 0); hasServices = (po_ownServiceCount ov > 0) in
     [\<lparr>ck_id = ''team'', ck_label = ''Join a team'',
        ck_detail = ''Use a team join key if you registered without one.'', ck_done = hasTeam\<rparr>,
      \<lparr>ck_id = ''vpn'', ck_label = ''Download WireGuard config'',
        ck_detail = ''Use the VPN Config button in the header, then bring the tunnel up.'', ck_done = (hasTeam \<and> vpnDownloaded)\<rparr>,
      \<lparr>ck_id = ''services'', ck_label = ''Confirm owned services are listed'',
        ck_detail = ''Open Services after the organizer deploys challenges.'', ck_done = hasServices\<rparr>])"

record readiness =
  mr_open :: bool
  mr_clientReady :: bool
  mr_vpnDownloaded :: bool

definition readiness_remaining :: "PlatformOverview \<Rightarrow> readiness \<Rightarrow> nat" where
  "readiness_remaining ov s = length (filter (\<lambda>i. \<not> ck_done i) (buildItems ov (mr_vpnDownloaded s)))"

definition readiness_visible :: "PlatformOverview \<Rightarrow> readiness \<Rightarrow> bool" where
  "readiness_visible ov s \<longleftrightarrow> mr_clientReady s \<and> po_authenticated ov \<and> po_role ov \<noteq> Some ''organizer'' \<and> readiness_remaining ov s > 0"

definition close_effect :: "PlatformOverview \<Rightarrow> readiness \<Rightarrow> readiness" where
  "close_effect ov s = (if \<not> readiness_visible ov s \<and> mr_open s then s\<lparr>mr_open := False\<rparr> else s)"

definition hydrate :: "string option option \<Rightarrow> readiness \<Rightarrow> readiness" where
  "hydrate stored s = s\<lparr>mr_vpnDownloaded := readVpnDownloaded stored, mr_clientReady := True\<rparr>"

datatype readiness_event = Hydrate "string option option" | VpnEvent | ToggleReadiness | SetReadiness bool

fun readiness_step :: "PlatformOverview \<Rightarrow> readiness_event \<Rightarrow> readiness \<Rightarrow> readiness" where
  "readiness_step ov (Hydrate stored) s = close_effect ov (hydrate stored s)"
| "readiness_step ov VpnEvent s = close_effect ov (s\<lparr>mr_vpnDownloaded := True\<rparr>)"
| "readiness_step ov ToggleReadiness s = close_effect ov (s\<lparr>mr_open := \<not> mr_open s\<rparr>)"
| "readiness_step ov (SetReadiness b) s = close_effect ov (s\<lparr>mr_open := b\<rparr>)"

section \<open>Announcements\<close>

record Announcement =
  an_id :: int
  an_body :: string
  an_created_at :: string

text \<open>The module's cache and its request in flight, with the banner that is mounted. Every mount has a number;
  \<open>bn_waiting\<close> are the numbers of the mounts that await the request in flight.\<close>

record banner =
  bn_cached :: "Announcement list"
  bn_request :: bool
  bn_waiting :: "nat list"
  bn_items :: "Announcement list"
  bn_mount :: "nat option"
  bn_next :: nat

definition AnnouncementBanner :: banner where
  "AnnouncementBanner = \<lparr>bn_cached = [], bn_request = False, bn_waiting = [], bn_items = [], bn_mount = None, bn_next = 0\<rparr>"

definition announcements_url :: string where "announcements_url = ''/api/platform/announcements''"

definition announcements_answer :: "(json \<Rightarrow> Announcement list) \<Rightarrow> response result \<Rightarrow> Announcement list option" where
  "announcements_answer rd r = (case r of Inl e \<Rightarrow> None | Inr resp \<Rightarrow>
     if \<not> resp_ok resp then None
     else (case processApiResponse resp announcements_url of
        Inr (Some j) \<Rightarrow> Some (take 5 (rd j)) | _ \<Rightarrow> None))"

definition announcements_settled :: "Announcement list option \<Rightarrow> banner \<Rightarrow> banner" where
  "announcements_settled answer s = (case answer of
     None \<Rightarrow> s\<lparr>bn_request := False, bn_waiting := []\<rparr>
   | Some nextItems \<Rightarrow> s\<lparr>bn_cached := nextItems, bn_request := False, bn_waiting := [],
       bn_items := (if \<exists>g \<in> set (bn_waiting s). bn_mount s = Some g then nextItems else bn_items s)\<rparr>)"

definition settle_announcements :: "(json \<Rightarrow> Announcement list) \<Rightarrow> response result \<Rightarrow> banner prog" where
  "settle_announcements rd r = update (announcements_settled (announcements_answer rd r)) Done"

definition loadAnnouncements :: "(json \<Rightarrow> Announcement list) \<Rightarrow> nat \<Rightarrow> banner prog" where
  "loadAnnouncements rd g = Atomic (\<lambda>s.
     if bn_request s then (s\<lparr>bn_waiting := g # bn_waiting s\<rparr>, Done)
     else (s\<lparr>bn_request := True, bn_waiting := [g]\<rparr>, Call (GET announcements_url) (settle_announcements rd)))"

datatype banner_event = MountBanner | UnmountBanner | BannerTimer

fun banner_handle :: "(json \<Rightarrow> Announcement list) \<Rightarrow> banner_event \<Rightarrow> banner \<Rightarrow> banner prog" where
  "banner_handle rd MountBanner s = (if bn_mount s \<noteq> None then Done
     else update (\<lambda>s. s\<lparr>bn_mount := Some (bn_next s), bn_next := Suc (bn_next s), bn_items := bn_cached s\<rparr>)
       (loadAnnouncements rd (bn_next s)))"
| "banner_handle rd UnmountBanner s = update (\<lambda>s. s\<lparr>bn_mount := None\<rparr>) Done"
| "banner_handle rd BannerTimer s = (case bn_mount s of None \<Rightarrow> Done | Some g \<Rightarrow> loadAnnouncements rd g)"

section \<open>The countdown\<close>

text \<open>The loop in closed form, and where it ends.\<close>

lemma project_tick_closed: "project_tick i now p = p + of_nat (ticks_left i now p) * i"
proof (induction i now p rule: project_tick.induct)
  case (1 i now p)
  show ?case
  proof (cases "i > 0 \<and> p \<le> now")
    case True
    then have "project_tick i now p = p + i + of_nat (ticks_left i now (p + i)) * i"
      using 1 by (subst project_tick.simps) simp
    then show ?thesis using ticks_left_step True by (simp add: algebra_simps)
  next
    case False
    then show ?thesis by (subst project_tick.simps) (auto simp: ticks_left_def)
  qed
qed

lemma project_tick_bounds:
  assumes i: "i > 0"
  shows "now < project_tick i now p" and "p \<le> now \<Longrightarrow> project_tick i now p \<le> now + i"
proof -
  have late: "now < project_tick i now p \<and> project_tick i now p \<le> now + i" if "p \<le> now"
  proof -
    define q where "q = (now - p) / i"
    have q: "0 \<le> q" "now = p + q * i" using i that by (simp_all add: q_def)
    have "project_tick i now p = p + (of_int \<lfloor>q\<rfloor> + 1) * i"
      using i that q(1) by (simp add: project_tick_closed ticks_left_def q_def [symmetric] algebra_simps)
    moreover have "of_int \<lfloor>q\<rfloor> * i \<le> q * i" "q * i < (of_int \<lfloor>q\<rfloor> + 1) * i"
      using i by (intro mult_right_mono mult_strict_right_mono, simp_all) linarith+
    ultimately show ?thesis using q(2) by (simp add: algebra_simps)
  qed
  moreover have "project_tick i now p = p" if "now < p" using that by (simp add: project_tick_closed ticks_left_def)
  ultimately show "now < project_tick i now p" by (cases "p \<le> now") simp_all
  show "p \<le> now \<Longrightarrow> project_tick i now p \<le> now + i" using late by blast
qed

lemma js_round_mono: "x \<le> y \<Longrightarrow> js_round x \<le> js_round y"
  by (simp add: js_round_def floor_mono)

text \<open>
  C38. The countdown aims at the next tick. With a positive interval it counts to the announced time if that is still to
  come, and else to the first later time that lies a whole number of intervals after it: a time after now
  and at most one interval away. The card is overdue exactly when the announced time has passed.
\<close>

theorem countdown_aims_at_next_tick:
  assumes "0 < i" and "stamp \<noteq> []" and "parse stamp = Some target"
  shows "\<exists>k. let aim = rat_of_int target + of_nat k * (i * 1000); card = TickIntervalCard parse (Some stamp) (Some i) now in
    of_int now < aim \<and> (k = 0 \<longleftrightarrow> now < target) \<and> (k > 0 \<longrightarrow> aim \<le> of_int now + i * 1000) \<and>
    tc_timeLeft card = Some (Some (js_round ((aim - of_int now) / 1000))) \<and>
    (k > 0 \<longrightarrow> js_round ((aim - of_int now) / 1000) \<le> js_round i) \<and>
    0 \<le> js_round ((aim - of_int now) / 1000) \<and> (tc_overdue card \<longleftrightarrow> target \<le> now)"
proof -
  define aim where "aim = project_tick (i * 1000) (of_int now) (of_int target)"
  define k where "k = ticks_left (i * 1000) (of_int now) (of_int target)"
  have i: "0 < i * 1000" using assms(1) by simp
  have a: "of_int now < aim" "target \<le> now \<Longrightarrow> aim \<le> of_int now + i * 1000"
    using project_tick_bounds [OF i] by (simp_all add: aim_def)
  have k: "aim = of_int target + of_nat k * (i * 1000)" "k = 0 \<longleftrightarrow> now < target"
    using project_tick_closed i by (auto simp: aim_def k_def ticks_left_def)
  have "0 \<le> js_round ((aim - of_int now) / 1000)" using a(1) by (simp add: js_round_def field_simps)
  moreover have "js_round ((aim - of_int now) / 1000) \<le> js_round i" if "k > 0"
    using that a(2) k(2) by (intro js_round_mono) (simp add: field_simps)
  moreover have "aim \<le> of_int now + i * 1000" if "k > 0" using that a(2) k(2) by simp
  moreover obtain c cs where "stamp = c # cs" using assms(2) by (cases stamp) auto
  ultimately show ?thesis
    using a k(2) assms(3) unfolding Let_def TickIntervalCard_def
    by (intro exI [of _ k]) (simp add: aim_def [symmetric] k(1) [symmetric])
qed

definition sample_parse :: "string \<Rightarrow> int option" where
  "sample_parse stamp = (if stamp = ''2026-01-01T00:00:00Z'' then Some 1767225600000 else None)"

theorem countdown_aims_at_next_tick_witness:
  "0 < (60 :: rat) \<and> sample_parse ''2026-01-01T00:00:00Z'' = Some 1767225600000 \<and>
   tc_overdue (TickIntervalCard sample_parse (Some ''2026-01-01T00:00:00Z'') (Some 60) 1767225725000)"
proof -
  have p: "sample_parse ''2026-01-01T00:00:00Z'' = Some 1767225600000" by (simp add: sample_parse_def)
  show ?thesis
    using countdown_aims_at_next_tick [of 60 "''2026-01-01T00:00:00Z''" sample_parse 1767225600000 1767225725000, OF _ _ p]
    by (auto simp: p Let_def)
qed

section \<open>Lock reasons\<close>

text \<open>A known reason sent by the API is shown whatever the texts and the match say.\<close>

lemma explicit_reason_wins:
  "explicit_reason (trim lr) = Some r \<Longrightarrow> sv_lockReason service = Some lr \<Longrightarrow> resolveServiceLockReason service matchState = r"
  by (cases lr) (auto simp: resolveServiceLockReason_def explicit_reason_def trim_def trim_start_def trim_end_def)

lemma locked_card_disabled:
  "sv_maintenance service \<Longrightarrow> ab_disabled (ServiceActionBar matchState pendingAction service) \<and>
     ab_sourceLink (ServiceActionBar matchState pendingAction service) = None"
  by (simp add: ServiceActionBar_def)

section \<open>Readiness\<close>

lemma readiness_finished: "readiness_remaining ov s = 0 \<longleftrightarrow>
    coalesce (po_teamID ov) 0 > 0 \<and> mr_vpnDownloaded s \<and> po_ownServiceCount ov > 0"
  by (auto simp: readiness_remaining_def buildItems_def Let_def)

lemma readiness_open_visible: "mr_open (readiness_step ov e s) \<Longrightarrow> readiness_visible ov (readiness_step ov e s)"
  by (cases e) (auto simp: close_effect_def split: if_splits)

section \<open>The banner shows the last snapshot\<close>

definition banner_handlers :: "(json \<Rightarrow> Announcement list) \<Rightarrow> (banner \<Rightarrow> banner prog) set" where
  "banner_handlers rd = range (banner_handle rd)"

definition banner_ok :: "(json \<Rightarrow> Announcement list) \<Rightarrow> banner \<times> banner prog list \<Rightarrow> bool" where
  "banner_ok rd x \<longleftrightarrow> (case x of (s, ts) \<Rightarrow>
     ts = (if bn_request s then [Call (GET announcements_url) (settle_announcements rd)] else []) \<and>
     length (bn_cached s) \<le> 5 \<and> (bn_mount s \<noteq> None \<longrightarrow> bn_items s = bn_cached s) \<and>
     (\<forall>g. bn_request s \<and> bn_mount s = Some g \<longrightarrow> g \<in> set (bn_waiting s)))"

lemma settled_ok:
  assumes "banner_ok rd (s, [Call (GET announcements_url) (settle_announcements rd)])"
  shows "banner_ok rd (announcements_settled (announcements_answer rd r) s, [])"
proof -
  have r: "bn_request s" using assms by (auto simp: banner_ok_def split: if_splits)
  show ?thesis
  proof (cases "announcements_answer rd r")
    case None
    then show ?thesis using assms by (simp add: banner_ok_def announcements_settled_def)
  next
    case (Some xs)
    then have "length xs \<le> 5"
      by (auto simp: announcements_answer_def split: sum.splits if_splits option.splits)
    then show ?thesis using Some assms r by (auto simp: banner_ok_def announcements_settled_def)
  qed
qed

lemma banner_trigger:
  assumes "advance (banner_handle rd e s) s = (s', p, sp)" and "banner_ok rd (s, ts)"
  shows "banner_ok rd (s', live (p # sp) @ ts)"
  using assms
  by (cases e) (auto simp: banner_ok_def loadAnnouncements_def update_def advance_Atomic live_def
      split: if_splits option.splits)

lemma banner_answer: "answer_step x y \<Longrightarrow> banner_ok rd x \<Longrightarrow> banner_ok rd y"
proof (induction rule: answer_step.induct)
  case (go_on t s s1 p1 s2 p2 sp us vs)
  then have t: "t = Call (GET announcements_url) (settle_announcements rd)" "us = []" "vs = []"
    by (auto simp: banner_ok_def append_eq_Cons_conv split: if_splits)
  then obtain r where "p1 = settle_announcements rd r" "s1 = s" using go_on.hyps(1) by (auto elim: answered_CallE)
  then show ?case
    using go_on.hyps(2) go_on.prems settled_ok [of rd s r] t
    by (auto simp: settle_announcements_def update_def advance_Atomic live_def)
qed

text \<open>
  C15. The announcements a participant sees are the last ones that arrived. However mounts, unmounts, timers and
  answers interleave, at most one request for announcements is in flight, and a mounted banner shows exactly
  the snapshot in the cache, at most five entries. The cache changes with nothing but an answer: a successful
  one replaces it, a failed one and every mount, unmount and timer leave it as it was.
\<close>

theorem banner_shows_last_snapshot:
  assumes "hook_reachable (banner_handlers rd) {AnnouncementBanner} (s, ts)"
  shows "length ts = (if bn_request s then 1 else 0) \<and> (bn_mount s \<noteq> None \<longrightarrow> bn_items s = bn_cached s) \<and>
    length (bn_cached s) \<le> 5 \<and>
    (\<forall>r s' ts'. ts = [Call (GET announcements_url) (settle_announcements rd)] \<and>
       advance (settle_announcements rd r) s = (s', ts', []) \<longrightarrow>
       bn_cached s' = coalesce (announcements_answer rd r) (bn_cached s) \<and> \<not> bn_request s') \<and>
    (\<forall>e. bn_cached (fst (advance (banner_handle rd e s) s)) = bn_cached s)"
proof -
  have "banner_ok rd x" if "hook_reachable (banner_handlers rd) {AnnouncementBanner} x" for x
    using that
  proof (induction rule: hook_reachable.induct)
    case (mounted s)
    then show ?case by (simp add: banner_ok_def AnnouncementBanner_def)
  next
    case (moved x y)
    from moved(2) show ?case
      by (cases rule: hook_step.cases) (use moved(3) banner_trigger banner_answer in \<open>auto simp: banner_handlers_def\<close>)
  qed
  moreover have "bn_cached (fst (advance (banner_handle rd e s) s)) = bn_cached s" for e
    by (cases e) (auto simp: loadAnnouncements_def update_def advance_Atomic split: option.splits)
  ultimately show ?thesis
    using assms by (fastforce simp: banner_ok_def settle_announcements_def update_def advance_Atomic announcements_settled_def
        split: option.splits)
qed

theorem banner_shows_last_snapshot_witness:
  "\<exists>s ts. hook_reachable (banner_handlers (\<lambda>j. [])) {AnnouncementBanner} (s, ts) \<and> length ts = 1 \<and> bn_mount s = Some 0"
proof -
  have step: "hook_step (banner_handlers (\<lambda>j. [])) (AnnouncementBanner, [])
      (AnnouncementBanner\<lparr>bn_mount := Some 0, bn_next := 1, bn_request := True, bn_waiting := [0]\<rparr>,
        [Call (GET announcements_url) (settle_announcements (\<lambda>j. []))])"
    using hook_step.trigger [of "banner_handle (\<lambda>j. []) MountBanner" "banner_handlers (\<lambda>j. [])" AnnouncementBanner]
    by (auto simp: banner_handlers_def loadAnnouncements_def update_def advance_Atomic live_def AnnouncementBanner_def)
  then have "hook_reachable (banner_handlers (\<lambda>j. [])) {AnnouncementBanner}
      (AnnouncementBanner\<lparr>bn_mount := Some 0, bn_next := 1, bn_request := True, bn_waiting := [0]\<rparr>,
        [Call (GET announcements_url) (settle_announcements (\<lambda>j. []))])"
    by (blast intro: hook_reachable.intros)
  from this banner_shows_last_snapshot [OF this] show ?thesis by (intro exI conjI) auto
qed

section \<open>Leaders of a slice\<close>

definition occurrences :: "(AttackEvent \<Rightarrow> string) \<Rightarrow> AttackEvent list \<Rightarrow> string \<Rightarrow> nat" where
  "occurrences field rows l = length (filter (\<lambda>row. field row = l) rows)"

lemma map_of_bump: "map_of (bump l cs) k = (if k = l then Some (coalesce (map_of cs l) 0 + 1) else map_of cs k)"
  by (induction l cs rule: bump.induct) auto

lemma distinct_bump: "distinct (map fst cs) \<Longrightarrow> distinct (map fst (bump l cs)) \<and> fst ` set (bump l cs) = insert l (fst ` set cs)"
  by (induction l cs rule: bump.induct) auto

lemma counted:
  assumes "distinct (map fst cs)"
  shows "distinct (map fst (fold (\<lambda>row. bump (field row)) rows cs))"
    and "map_of (fold (\<lambda>row. bump (field row)) rows cs) l =
      (if l \<in> field ` set rows then Some (coalesce (map_of cs l) 0 + occurrences field rows l) else map_of cs l)"
  using assms
proof (induction rows arbitrary: cs)
  case (Cons row rows)
  {
    case 1
    then show ?case using Cons.IH(1) distinct_bump by simp
  next
    case 2
    have "filter (\<lambda>r. field r = l) rows = []" if "l \<notin> field ` set rows" using that by (auto simp: filter_empty_conv)
    then show ?case using 2 Cons.IH(2) [of "bump (field row) cs"] distinct_bump [OF 2]
      by (auto simp: map_of_bump occurrences_def)
  }
qed simp_all

context collation
begin

lemma slice_compare_total: "slice_compare lc l r \<le> 0 \<or> slice_compare lc r l \<le> 0"
  using names.le_total [of "sl_label l" "sl_label r"] by (auto simp: slice_compare_def)

lemma slice_compare_trans: "slice_compare lc x y \<le> 0 \<Longrightarrow> slice_compare lc y z \<le> 0 \<Longrightarrow> slice_compare lc x z \<le> 0"
  using names.le_trans [of "sl_label x" "sl_label y" "sl_label z"] by (auto simp: slice_compare_def split: if_splits)

end

sublocale collation \<subseteq> slice: total_preorder "\<lambda>l r. slice_compare lc l r \<le> 0"
  by unfold_locales (rule slice_compare_total, rule slice_compare_trans)

context collation
begin

lemma slice_leaders:
  assumes "x \<in> set (summarizeAttackField lc field rows)"
  shows "sl_count x = occurrences field rows (sl_label x) \<and> sl_label x \<in> field ` set rows \<and>
    (\<forall>row \<in> set rows. field row \<notin> sl_label ` set (summarizeAttackField lc field rows) \<longrightarrow>
       occurrences field rows (field row) \<le> sl_count x)"
proof -
  define counts where "counts = fold (\<lambda>row. bump (field row)) rows []"
  define leaders where "leaders = map (\<lambda>(label, count). \<lparr>sl_label = label, sl_count = count\<rparr>) counts"
  define sorted where "sorted = sort_cmp (\<lambda>l r. slice_compare lc l r \<le> 0) leaders"
  have parts: "summarizeAttackField lc field rows = take 3 sorted"
    by (simp add: summarizeAttackField_def sorted_def leaders_def counts_def Let_def)
  have entry: "(l, n) \<in> set counts \<longleftrightarrow> l \<in> field ` set rows \<and> n = occurrences field rows l" for l n
  proof -
    have "distinct (map fst counts)" unfolding counts_def by (rule counted) simp
    moreover have "map_of counts l = (if l \<in> field ` set rows then Some (occurrences field rows l) else None)"
      unfolding counts_def by (subst counted) simp_all
    ultimately show ?thesis by (metis (no_types) map_of_eq_Some_iff option.distinct(1) option.inject)
  qed
  have leader: "y \<in> set sorted \<longleftrightarrow> sl_label y \<in> field ` set rows \<and> sl_count y = occurrences field rows (sl_label y)" for y
  proof -
    have "y \<in> set sorted \<longleftrightarrow> (sl_label y, sl_count y) \<in> set counts"
      by (cases y) (force simp: sorted_def leaders_def image_iff)
    then show ?thesis by (simp add: entry)
  qed
  have x: "x \<in> set sorted" using assms in_set_takeD parts by metis
  have "occurrences field rows (field row) \<le> sl_count x"
    if "row \<in> set rows" "field row \<notin> sl_label ` set (take 3 sorted)" for row
  proof -
    let ?y = "\<lparr>sl_label = field row, sl_count = occurrences field rows (field row)\<rparr>"
    have "?y \<in> set sorted" using that(1) by (simp add: leader)
    moreover have "?y \<notin> set (take 3 sorted)" using that(2) by force
    ultimately have "?y \<in> set (drop 3 sorted)" by (metis UnE append_take_drop_id set_append)
    then have "slice_compare lc x ?y \<le> 0"
      using slice.take_sort_cmp_dominates [of x 3 leaders ?y] assms parts by (simp add: sorted_def)
    then show ?thesis by (auto simp: slice_compare_def split: if_splits)
  qed
  then show ?thesis using x leader parts by simp
qed

end

end
