(* ===== verification/Organizer_Panels.thy ===== *)
theory Organizer_Panels
  imports Panel_Program Team_Csv Prometheus
begin

text \<open>
  The organizer's panels: announcements (\<open>announcements-panel.tsx\<close>), bulk import and export (\<open>bulk-import-panel.tsx\<close>,
  \<open>export-data-panel.tsx\<close>), platform settings (\<open>platform-settings-card.tsx\<close>), the scoreboard freeze
  (\<open>ScoreboardFreezeControl\<close> of \<open>organizer-dashboard-sections.tsx\<close>), the trusted runtime state (\<open>trusted-state-panel.tsx\<close>)
  and the audit page (\<open>app/admin/audit/page.tsx\<close>). All of them but the settings are an \<open>exclusive_hook\<close>; the
  lemmas also show what the settings card sends, when it claims more than it did, what an import that
  created nothing reports, and that the links of the audit page keep its filters.
\<close>

section \<open>Announcements\<close>

record AdminMatchAnnouncement =
  ma_id :: int
  ma_body :: string
  ma_created_by :: "string option"
  ma_created_at :: string

record announcements_panel =
  ap_items :: "AdminMatchAnnouncement list"
  ap_body :: string
  ap_pending :: bool
  ap_error :: "string option"
  ap_note :: "string option"

definition AnnouncementsPanel :: announcements_panel where
  "AnnouncementsPanel = \<lparr>ap_items = [], ap_body = [], ap_pending = False, ap_error = None, ap_note = None\<rparr>"

definition admin_announcements_url :: string where "admin_announcements_url = ''/api/admin/announcements''"

definition announcements_fail :: "string \<Rightarrow> js_error \<Rightarrow> announcements_panel \<Rightarrow> announcements_panel" where
  "announcements_fail fallback e s = s\<lparr>ap_error := Some (message_or e fallback)\<rparr>"

definition announcements_finish :: "announcements_panel \<Rightarrow> announcements_panel" where
  "announcements_finish s = s\<lparr>ap_pending := False\<rparr>"

definition refresh_announcements ::
    "(json option \<Rightarrow> AdminMatchAnnouncement list) \<Rightarrow> announcements_panel prog \<Rightarrow> (js_error \<Rightarrow> announcements_panel prog) \<Rightarrow>
     announcements_panel prog" where
  "refresh_announcements rd k onError = attempt (GET admin_announcements_url) (answer_processed admin_announcements_url)
     (\<lambda>j. update (\<lambda>s. s\<lparr>ap_items := rd j\<rparr>) k) onError"

definition createAnnouncement ::
    "(json option \<Rightarrow> AdminMatchAnnouncement list) \<Rightarrow> announcements_panel \<Rightarrow> announcements_panel prog" where
  "createAnnouncement rd s0 =
     (let failed = (\<lambda>e. update (announcements_fail ''create announcement failed'' e) (update announcements_finish Done)) in
      update (\<lambda>s. s\<lparr>ap_pending := True, ap_error := None, ap_note := None\<rparr>)
       (attempt (browser_request ''POST'' admin_announcements_url (Some (JObj [(''body'', JStr (ap_body s0))])))
         (answer_ok admin_announcements_url)
         (\<lambda>resp. update (\<lambda>s. s\<lparr>ap_body := [], ap_note := Some ''Announcement published to participants.''\<rparr>)
           (refresh_announcements rd (update announcements_finish Done) failed))
         failed))"

definition removeAnnouncement :: "(json option \<Rightarrow> AdminMatchAnnouncement list) \<Rightarrow> int \<Rightarrow> announcements_panel prog" where
  "removeAnnouncement rd i =
     (let failed = (\<lambda>e. update (announcements_fail ''delete announcement failed'' e) (update announcements_finish Done));
          url = admin_announcements_url @ ''/'' @ int_to_string i in
      update (\<lambda>s. s\<lparr>ap_pending := True, ap_error := None\<rparr>)
       (attempt (DELETE url) (answer_ok url)
         (\<lambda>resp. refresh_announcements rd (update announcements_finish Done) failed) failed))"

datatype announcements_event = MountAnnouncements | TypeAnnouncement string | Publish | DeleteAnnouncement int

fun announcements_handle ::
    "(json option \<Rightarrow> AdminMatchAnnouncement list) \<Rightarrow> announcements_event \<Rightarrow> announcements_panel \<Rightarrow> announcements_panel prog" where
  "announcements_handle rd MountAnnouncements s =
     refresh_announcements rd Done (\<lambda>e. update (announcements_fail ''failed to load announcements'' e) Done)"
| "announcements_handle rd (TypeAnnouncement v) s =
     (if length v \<le> 4000 then update (\<lambda>s. s\<lparr>ap_body := v\<rparr>) Done else Done)"
| "announcements_handle rd Publish s = (if ap_pending s \<or> trim (ap_body s) = [] then Done else createAnnouncement rd s)"
| "announcements_handle rd (DeleteAnnouncement i) s =
     (if ap_pending s \<or> i \<notin> ma_id ` set (ap_items s) then Done else removeAnnouncement rd i)"

section \<open>Bulk import and export\<close>

record AdminBulkImportResult =
  bi_teams_created :: rat
  bi_players_created :: rat
  bi_errors :: "string list option"

record import_panel =
  ip_csvText :: string
  ip_pending :: bool
  ip_error :: "string option"
  ip_note :: "string option"
  ip_details :: "string list"

definition BulkImportPanel :: import_panel where
  "BulkImportPanel = \<lparr>ip_csvText = ''team_name,contact_email,player_display_name,player_email,player_password,player_role'' @ [LF],
     ip_pending = False, ip_error = None, ip_note = None, ip_details = []\<rparr>"

definition player_json :: "TeamCsvPlayer \<Rightarrow> json" where
  "player_json p = JObj [(''display_name'', JStr (cp_display_name p)), (''email'', JStr (cp_email p)),
     (''password'', JStr (cp_password p)), (''role'', JStr (cp_role p))]"

definition team_json :: "TeamCsvRow \<Rightarrow> json" where
  "team_json t = JObj [(''name'', JStr (ct_name t)), (''contact_email'', JStr (ct_contact_email t)),
     (''players'', JArr (map player_json (ct_players t)))]"

definition import_url :: string where "import_url = ''/api/admin/import/teams''"

definition import_request :: "TeamCsvRow list \<Rightarrow> request" where
  "import_request teams = browser_request ''POST'' import_url (Some (JObj [(''teams'', JArr (map team_json teams))]))"

definition import_start :: "import_panel \<Rightarrow> import_panel" where
  "import_start s = s\<lparr>ip_pending := True, ip_error := None, ip_note := None, ip_details := []\<rparr>"

definition import_finish :: "import_panel \<Rightarrow> import_panel" where
  "import_finish s = s\<lparr>ip_pending := False\<rparr>"

definition import_failed :: "js_error \<Rightarrow> import_panel prog" where
  "import_failed e = update (\<lambda>s. s\<lparr>ip_error := Some (message_or e ''import failed'')\<rparr>) (update import_finish Done)"

definition import_rejected :: "AdminBulkImportResult \<Rightarrow> import_panel \<Rightarrow> import_panel" where
  "import_rejected result s = (let errors = coalesce (bi_errors result) [] in
     s\<lparr>ip_error := Some (trim (''Import created no teams. '' @ join_with '' '' errors)), ip_details := errors\<rparr>)"

definition import_done :: "AdminBulkImportResult \<Rightarrow> import_panel \<Rightarrow> import_panel" where
  "import_done result s = s\<lparr>ip_note := Some (''Created '' @ num_to_string (Finite (bi_teams_created result)) @ '' teams and '' @
     num_to_string (Finite (bi_players_created result)) @ '' players.''), ip_details := coalesce (bi_errors result) []\<rparr>"

definition import_answered :: "(json option \<Rightarrow> AdminBulkImportResult) \<Rightarrow> response result \<Rightarrow> import_panel prog" where
  "import_answered rd r = (case r of
     Inl e \<Rightarrow> import_failed e
   | Inr resp \<Rightarrow>
       if rs_status resp = 422 then
         (case response_json resp of
            Inl e \<Rightarrow> import_failed e
          | Inr j \<Rightarrow> update (import_rejected (rd (Some j))) (update import_finish Done))
       else (case answer_processed import_url (Inr resp) of
            Inl e \<Rightarrow> import_failed e
          | Inr j \<Rightarrow> update (import_done (rd j)) (update import_finish Done)))"

definition onSubmit_import :: "(json option \<Rightarrow> AdminBulkImportResult) \<Rightarrow> import_panel \<Rightarrow> import_panel prog" where
  "onSubmit_import rd s0 = (let teams = parseTeamCsv (ip_csvText s0) in
     update import_start
      (if length teams = 0 then import_failed (ErrorMessage ''No valid team rows found in CSV.'')
       else Call (import_request teams) (import_answered rd)))"

datatype import_event = TypeCsv string | SubmitImport

fun import_handle :: "(json option \<Rightarrow> AdminBulkImportResult) \<Rightarrow> import_event \<Rightarrow> import_panel \<Rightarrow> import_panel prog" where
  "import_handle rd (TypeCsv v) s = update (\<lambda>s. s\<lparr>ip_csvText := v\<rparr>) Done"
| "import_handle rd SubmitImport s = (if ip_pending s then Done else onSubmit_import rd s)"

record export_score_row =
  es_rank :: rat
  es_team :: string
  es_attack :: rat
  es_defense :: rat
  es_sla :: rat
  es_total :: rat
  es_delta :: string

record export_attack_row =
  ea_id :: string
  ea_attacker :: string
  ea_victim :: string
  ea_service :: string
  ea_tick :: rat
  ea_verdict :: string

definition export_scoreboard :: "export_score_row list \<Rightarrow> string" where
  "export_scoreboard scoreboard = (let n = (\<lambda>x. num_to_string (Finite x)) in
     toCsv ([''rank'', ''team'', ''attack'', ''defense'', ''sla'', ''total'', ''delta''] #
       map (\<lambda>row. [n (es_rank row), es_team row, n (es_attack row), n (es_defense row), n (es_sla row), n (es_total row),
         es_delta row]) scoreboard))"

definition export_attacks :: "export_attack_row list \<Rightarrow> string" where
  "export_attacks attacks =
     toCsv ([''id'', ''attacker'', ''victim'', ''service'', ''tick'', ''verdict''] #
       map (\<lambda>row. [ea_id row, ea_attacker row, ea_victim row, ea_service row, num_to_string (Finite (ea_tick row)),
         ea_verdict row]) attacks)"

section \<open>Platform settings\<close>

record AdminPlatformSettings =
  ps_flag_format_prefix :: string
  ps_flag_format_active :: string
  ps_max_team_members :: "rat option"
  ps_updated_at :: string
  ps_updated_by :: string

datatype save_state = Idle | Saving | Reloading | Saved | SaveError string

record settings_card =
  sc_settings :: "AdminPlatformSettings option"
  sc_prefix :: string
  sc_maxTeamMembers :: string
  sc_saveState :: save_state

definition PlatformSettingsCard :: settings_card where
  "PlatformSettingsCard = \<lparr>sc_settings = None, sc_prefix = [], sc_maxTeamMembers = ''0'', sc_saveState = Idle\<rparr>"

definition ascii_letter :: "char \<Rightarrow> bool" where
  "ascii_letter c \<longleftrightarrow> (let n = (of_char c :: nat) in 65 \<le> n \<and> n \<le> 90 \<or> 97 \<le> n \<and> n \<le> 122)"

definition prefix_char :: "char \<Rightarrow> bool" where
  "prefix_char c \<longleftrightarrow> ascii_letter c \<or> (let n = (of_char c :: nat) in 48 \<le> n \<and> n \<le> 57) \<or> c = CHR ''_'' \<or> c = CHR ''-''"

definition flagFormatPattern :: "string \<Rightarrow> bool" where
  "flagFormatPattern s \<longleftrightarrow> (case s of [] \<Rightarrow> False
     | c # cs \<Rightarrow> ascii_letter c \<and> length cs \<le> 31 \<and> list_all prefix_char cs)"

text \<open>\<open>payload?.detail ?? payload?.message ?? payload?.title ?? ...\<close>; the fields are strings by their type.\<close>

definition settings_error :: "response \<Rightarrow> string" where
  "settings_error resp = (let field = (\<lambda>k. json_prop (rs_json resp) k);
       first = (case field ''detail'' of Some v \<Rightarrow> if v = JNull then None else Some v | None \<Rightarrow> None);
       second = (case field ''message'' of Some v \<Rightarrow> if v = JNull then None else Some v | None \<Rightarrow> None);
       third = (case field ''title'' of Some v \<Rightarrow> if v = JNull then None else Some v | None \<Rightarrow> None)
     in case first of Some v \<Rightarrow> json_to_string v | None \<Rightarrow>
       (case second of Some v \<Rightarrow> json_to_string v | None \<Rightarrow>
         (case third of Some v \<Rightarrow> json_to_string v | None \<Rightarrow>
            ''platform settings request failed with status '' @ int_to_string (rs_status resp))))"

definition readPlatformSettingsResponse :: "(json \<Rightarrow> AdminPlatformSettings) \<Rightarrow> response result \<Rightarrow> AdminPlatformSettings result" where
  "readPlatformSettingsResponse rd r = then_read r (\<lambda>resp.
     if resp_ok resp then then_read (response_json resp) (\<lambda>j. Inr (rd j)) else Inl (ErrorMessage (settings_error resp)))"

definition settings_url :: string where "settings_url = ''/api/admin/platform/settings''"

definition parsedMaxTeamMembers :: "settings_card \<Rightarrow> js_num" where
  "parsedMaxTeamMembers s = js_Number (trim (sc_maxTeamMembers s))"

definition maxTeamMembersValid :: "settings_card \<Rightarrow> bool" where
  "maxTeamMembersValid s \<longleftrightarrow> (case parsedMaxTeamMembers s of Finite q \<Rightarrow> of_int \<lfloor>q\<rfloor> = q \<and> q \<ge> 0 | _ \<Rightarrow> False)"

definition prefixValid :: "settings_card \<Rightarrow> bool" where
  "prefixValid s \<longleftrightarrow> flagFormatPattern (trim (sc_prefix s))"

definition inSync :: "settings_card \<Rightarrow> bool" where
  "inSync s \<longleftrightarrow> (case sc_settings s of Some v \<Rightarrow> ps_flag_format_prefix v = ps_flag_format_active v | None \<Rightarrow> True)"

definition settings_dirty :: "settings_card \<Rightarrow> bool" where
  "settings_dirty s \<longleftrightarrow> (case sc_settings s of
     Some v \<Rightarrow> trim (sc_prefix s) \<noteq> ps_flag_format_prefix v \<or> map_option Finite (ps_max_team_members v) \<noteq> Some (parsedMaxTeamMembers s)
   | None \<Rightarrow> False)"

definition finite_value :: "js_num \<Rightarrow> rat" where
  "finite_value x = (case x of Finite q \<Rightarrow> q | _ \<Rightarrow> 0)"

definition settings_request :: "settings_card \<Rightarrow> request" where
  "settings_request s = browser_request ''PUT'' settings_url (Some (JObj
     [(''flag_format_prefix'', JStr (trim (sc_prefix s))), (''max_team_members'', JNum (finite_value (parsedMaxTeamMembers s)))]))"

definition reload_request :: request where
  "reload_request = browser_request ''POST'' (settings_url @ ''/reload'') None"

definition settings_fail :: "string \<Rightarrow> js_error \<Rightarrow> settings_card prog" where
  "settings_fail fallback e = update (\<lambda>s. s\<lparr>sc_saveState := SaveError (message_or e fallback)\<rparr>) Done"

definition settings_invalid :: "settings_card prog" where
  "settings_invalid = update (\<lambda>s. s\<lparr>sc_saveState := SaveError
     ''flag_format_prefix must be valid and max_team_members must be a non-negative whole number.''\<rparr>) Done"

definition load_settings :: "(json \<Rightarrow> AdminPlatformSettings) \<Rightarrow> settings_card prog" where
  "load_settings rd = attempt (GET settings_url) (readPlatformSettingsResponse rd)
     (\<lambda>v. update (\<lambda>s. s\<lparr>sc_settings := Some v, sc_prefix := ps_flag_format_prefix v,
        sc_maxTeamMembers := num_to_string (Finite (coalesce (ps_max_team_members v) 0))\<rparr>) Done)
     (settings_fail ''failed to load platform settings.'')"

definition onSave :: "(json \<Rightarrow> AdminPlatformSettings) \<Rightarrow> settings_card \<Rightarrow> settings_card prog" where
  "onSave rd s0 = (if \<not> prefixValid s0 \<or> \<not> maxTeamMembersValid s0 then settings_invalid
     else update (\<lambda>s. s\<lparr>sc_saveState := Saving\<rparr>)
       (attempt (settings_request s0) (readPlatformSettingsResponse rd)
         (\<lambda>v. update (\<lambda>s. s\<lparr>sc_settings := Some v, sc_saveState := Saved\<rparr>) Done)
         (settings_fail ''failed to save platform settings.'')))"

definition onSaveAndReload :: "(json \<Rightarrow> AdminPlatformSettings) \<Rightarrow> settings_card \<Rightarrow> settings_card prog" where
  "onSaveAndReload rd s0 = (let failed = settings_fail ''failed to save or reload flag format.'' in
     if \<not> prefixValid s0 \<or> \<not> maxTeamMembersValid s0 then settings_invalid
     else update (\<lambda>s. s\<lparr>sc_saveState := Saving\<rparr>)
       (attempt (settings_request s0) (readPlatformSettingsResponse rd)
         (\<lambda>v. update (\<lambda>s. s\<lparr>sc_settings := Some v, sc_saveState := Reloading\<rparr>)
           (attempt reload_request (readPlatformSettingsResponse rd)
             (\<lambda>v'. update (\<lambda>s. s\<lparr>sc_settings := Some v', sc_saveState := Saved\<rparr>) Done)
             failed))
         failed))"

definition onReloadOnly :: "(json \<Rightarrow> AdminPlatformSettings) \<Rightarrow> settings_card prog" where
  "onReloadOnly rd = update (\<lambda>s. s\<lparr>sc_saveState := Reloading\<rparr>)
     (attempt reload_request (readPlatformSettingsResponse rd)
       (\<lambda>v. update (\<lambda>s. s\<lparr>sc_settings := Some v, sc_saveState := Saved\<rparr>) Done)
       (settings_fail ''flag format reload failed.''))"

datatype settings_event = MountSettings | TypePrefix string | TypeLimit string | ClickSave | ClickSaveAndReload | ClickReloadOnly

definition settings_busy :: "settings_card \<Rightarrow> bool" where
  "settings_busy s \<longleftrightarrow> sc_saveState s = Saving \<or> sc_saveState s = Reloading"

fun settings_handle :: "(json \<Rightarrow> AdminPlatformSettings) \<Rightarrow> settings_event \<Rightarrow> settings_card \<Rightarrow> settings_card prog" where
  "settings_handle rd MountSettings s = load_settings rd"
| "settings_handle rd (TypePrefix v) s = (if settings_busy s then Done else update (\<lambda>s. s\<lparr>sc_prefix := v\<rparr>) Done)"
| "settings_handle rd (TypeLimit v) s = (if settings_busy s then Done else update (\<lambda>s. s\<lparr>sc_maxTeamMembers := v\<rparr>) Done)"
| "settings_handle rd ClickSave s =
     (if \<not> prefixValid s \<or> \<not> maxTeamMembersValid s \<or> \<not> settings_dirty s \<or> settings_busy s then Done else onSave rd s)"
| "settings_handle rd ClickSaveAndReload s =
     (if \<not> prefixValid s \<or> \<not> maxTeamMembersValid s \<or> \<not> settings_dirty s \<or> settings_busy s then Done else onSaveAndReload rd s)"
| "settings_handle rd ClickReloadOnly s = (if settings_busy s then Done else onReloadOnly rd)"

definition saved_note :: "settings_card \<Rightarrow> string option" where
  "saved_note s = (if sc_saveState s = Saved
     then Some ''Platform settings saved. Flags issued by the checker now use the new prefix.'' else None)"

section \<open>The scoreboard freeze\<close>

record AdminScoreboardFreeze =
  fz_frozen :: bool
  fz_configured :: bool
  fz_freeze_at :: "string option"
  fz_unfreeze_at :: "string option"
  fz_snapshot_taken_at :: "string option"

record freeze_control =
  fc_status :: "AdminScoreboardFreeze option"
  fc_freezeAt :: string
  fc_unfreezeAt :: string
  fc_busy :: bool
  fc_error :: "string option"
  fc_note :: "string option"

definition ScoreboardFreezeControl :: freeze_control where
  "ScoreboardFreezeControl = \<lparr>fc_status = None, fc_freezeAt = [], fc_unfreezeAt = [], fc_busy = False, fc_error = None,
     fc_note = None\<rparr>"

definition freezeStateLabel :: "AdminScoreboardFreeze option \<Rightarrow> string \<times> string" where
  "freezeStateLabel status = (case status of None \<Rightarrow> (''Live'', ''tone-success'')
     | Some f \<Rightarrow> if \<not> fz_configured f then (''Live'', ''tone-success'')
         else if fz_frozen f then (''Frozen'', ''tone-warning'') else (''Scheduled'', ''tone-info''))"

definition freeze_url :: string where "freeze_url = ''/api/admin/game/scoreboard/freeze''"

text \<open>\<open>problem?.detail ?? fallback\<close> on an error, the body otherwise.\<close>

definition freeze_answer :: "string \<Rightarrow> (json \<Rightarrow> AdminScoreboardFreeze) \<Rightarrow> response result \<Rightarrow> AdminScoreboardFreeze result" where
  "freeze_answer fallback rd r = then_read r (\<lambda>resp.
     if resp_ok resp then then_read (response_json resp) (\<lambda>j. Inr (rd j))
     else Inl (ErrorMessage (case json_prop (rs_json resp) ''detail'' of
       Some v \<Rightarrow> if v = JNull then fallback else json_to_string v | None \<Rightarrow> fallback)))"

definition load_freeze :: "(json \<Rightarrow> AdminScoreboardFreeze) \<Rightarrow> freeze_control prog" where
  "load_freeze rd = attempt (GET freeze_url) (freeze_answer [] rd)
     (\<lambda>f. update (\<lambda>s. s\<lparr>fc_status := Some f\<rparr>) Done) (\<lambda>e. Done)"

definition freeze_start :: "freeze_control \<Rightarrow> freeze_control" where
  "freeze_start s = s\<lparr>fc_busy := True, fc_error := None, fc_note := None\<rparr>"

definition freeze_fail :: "string \<Rightarrow> js_error \<Rightarrow> freeze_control prog" where
  "freeze_fail fallback e = update (\<lambda>s. s\<lparr>fc_error := Some (message_or e fallback)\<rparr>) (update (\<lambda>s. s\<lparr>fc_busy := False\<rparr>) Done)"

text \<open>The body of a freeze request; \<open>toISOString\<close> throws on an invalid date.\<close>

definition freeze_body :: "(string \<Rightarrow> int option) \<Rightarrow> freeze_control \<Rightarrow> json result" where
  "freeze_body parse s = (case parse (fc_freezeAt s) of
     None \<Rightarrow> Inl (ErrorMessage ''Invalid time value'')
   | Some at0 \<Rightarrow>
       if fc_unfreezeAt s = [] then Inr (JObj [(''freeze_at'', JStr (toISOString at0))])
       else (case parse (fc_unfreezeAt s) of
          None \<Rightarrow> Inl (ErrorMessage ''Invalid time value'')
        | Some at1 \<Rightarrow> Inr (JObj [(''freeze_at'', JStr (toISOString at0)), (''unfreeze_at'', JStr (toISOString at1))])))"

definition applyFreeze :: "(string \<Rightarrow> int option) \<Rightarrow> (json \<Rightarrow> AdminScoreboardFreeze) \<Rightarrow> freeze_control \<Rightarrow> freeze_control prog" where
  "applyFreeze parse rd s0 =
     (if fc_freezeAt s0 = [] then update (\<lambda>s. s\<lparr>fc_error := Some ''Pick a freeze start time.''\<rparr>) Done
      else update freeze_start (case freeze_body parse s0 of
          Inl e \<Rightarrow> freeze_fail ''freeze update failed'' e
        | Inr body \<Rightarrow> attempt (browser_request ''POST'' freeze_url (Some body)) (freeze_answer ''freeze update failed'' rd)
            (\<lambda>f. update (\<lambda>s. s\<lparr>fc_status := Some f, fc_note := Some ''Freeze window saved.''\<rparr>) (update (\<lambda>s. s\<lparr>fc_busy := False\<rparr>) Done))
            (freeze_fail ''freeze update failed'')))"

definition clearFreeze :: "(json \<Rightarrow> AdminScoreboardFreeze) \<Rightarrow> freeze_control prog" where
  "clearFreeze rd = update freeze_start
     (attempt (POST ''/api/admin/game/scoreboard/unfreeze'') (freeze_answer ''freeze clear failed'' rd)
       (\<lambda>f. update (\<lambda>s. s\<lparr>fc_status := Some f, fc_freezeAt := [], fc_unfreezeAt := [],
           fc_note := Some ''Freeze cleared. Participant board is live.''\<rparr>) (update (\<lambda>s. s\<lparr>fc_busy := False\<rparr>) Done))
       (freeze_fail ''freeze clear failed''))"

datatype freeze_event = MountFreeze | PickFreezeAt string | PickUnfreezeAt string | ClickFreeze | ClickClearFreeze

fun freeze_handle ::
    "(string \<Rightarrow> int option) \<Rightarrow> (json \<Rightarrow> AdminScoreboardFreeze) \<Rightarrow> freeze_event \<Rightarrow> freeze_control \<Rightarrow> freeze_control prog" where
  "freeze_handle parse rd MountFreeze s = load_freeze rd"
| "freeze_handle parse rd (PickFreezeAt v) s = update (\<lambda>s. s\<lparr>fc_freezeAt := v\<rparr>) Done"
| "freeze_handle parse rd (PickUnfreezeAt v) s = update (\<lambda>s. s\<lparr>fc_unfreezeAt := v\<rparr>) Done"
| "freeze_handle parse rd ClickFreeze s = (if fc_busy s then Done else applyFreeze parse rd s)"
| "freeze_handle parse rd ClickClearFreeze s =
     (if fc_busy s \<or> (case fc_status s of None \<Rightarrow> True | Some f \<Rightarrow> \<not> fz_configured f) then Done else clearFreeze rd)"

section \<open>The trusted runtime state\<close>

datatype TrustTone = TrustOk | TrustWarn | TrustBad | TrustUnknown

definition toneForState :: "string option \<Rightarrow> TrustTone" where
  "toneForState state = (let v = toLowerCase (coalesce state []) in
     if v = ''applied'' \<or> v = ''ready'' \<or> v = ''ok'' then TrustOk
     else if v = ''loading'' \<or> v = [] \<or> v = ''unknown'' then TrustUnknown
     else if includes_str v ''error'' \<or> includes_str v ''fail'' \<or> includes_str v ''unknown'' then TrustBad
     else TrustWarn)"

record deployment_job_view =
  jv_status :: "string option"
  jv_state :: "string option"

record trusted_types =
  tt_access :: "json option \<Rightarrow> AdminControllerAccessStatus"
  tt_wireguard :: "json option \<Rightarrow> AdminWireGuardGatewayStatus"
  tt_jobs :: "json option \<Rightarrow> deployment_job_view list"

record trusted_panel =
  tr_access :: "AdminControllerAccessStatus option"
  tr_wireguard :: "AdminWireGuardGatewayStatus option"
  tr_pendingDeployments :: "nat option"
  tr_error :: "string option"
  tr_pending :: bool
  tr_note :: "string option"
  tr_reconciledEvents :: nat

definition TrustedStatePanel :: trusted_panel where
  "TrustedStatePanel = \<lparr>tr_access = None, tr_wireguard = None, tr_pendingDeployments = None, tr_error = None, tr_pending = False,
     tr_note = None, tr_reconciledEvents = 0\<rparr>"

definition job_pending :: "deployment_job_view \<Rightarrow> bool" where
  "job_pending job = (let status = toLowerCase (coalesce (case jv_status job of Some v \<Rightarrow> Some v | None \<Rightarrow> jv_state job) []) in
     includes_str status ''pending'' \<or> includes_str status ''queued'' \<or> includes_str status ''running'')"

text \<open>What one of the three responses of a refresh does to the panel: an error status is skipped, a body that cannot
  be read throws.\<close>

definition read_part :: "string \<Rightarrow> (json option \<Rightarrow> trusted_panel \<Rightarrow> trusted_panel) \<Rightarrow> response \<Rightarrow> (trusted_panel \<Rightarrow> trusted_panel) result" where
  "read_part path f resp = (if \<not> resp_ok resp then Inr id else then_read (processApiResponse resp path) (\<lambda>j. Inr (f j)))"

definition access_url :: string where "access_url = ''/api/admin/access/status''"
definition wireguard_url :: string where "wireguard_url = ''/api/admin/wireguard/status''"
definition deployments_url :: string where "deployments_url = ''/api/admin/deployments''"

definition set_access :: "trusted_types \<Rightarrow> json option \<Rightarrow> trusted_panel \<Rightarrow> trusted_panel" where
  "set_access c j s = s\<lparr>tr_access := Some (tt_access c j)\<rparr>"

definition set_wireguard :: "trusted_types \<Rightarrow> json option \<Rightarrow> trusted_panel \<Rightarrow> trusted_panel" where
  "set_wireguard c j s = s\<lparr>tr_wireguard := Some (tt_wireguard c j)\<rparr>"

definition set_jobs :: "trusted_types \<Rightarrow> json option \<Rightarrow> trusted_panel \<Rightarrow> trusted_panel" where
  "set_jobs c j s = s\<lparr>tr_pendingDeployments := Some (length (filter job_pending (tt_jobs c j)))\<rparr>"

definition refresh_failed :: "js_error \<Rightarrow> trusted_panel \<Rightarrow> trusted_panel" where
  "refresh_failed e s = s\<lparr>tr_error := Some (message_or e ''trusted state refresh failed'')\<rparr>"

text \<open>The three responses read in order; the first that throws ends the refresh.\<close>

definition read_parts :: "trusted_types \<Rightarrow> response \<Rightarrow> response \<Rightarrow> response \<Rightarrow> trusted_panel \<Rightarrow> trusted_panel" where
  "read_parts c accessRes wgRes deployRes s = (case read_part access_url (set_access c) accessRes of
     Inl e \<Rightarrow> refresh_failed e s
   | Inr f \<Rightarrow> (case read_part wireguard_url (set_wireguard c) wgRes of
       Inl e \<Rightarrow> refresh_failed e (f s)
     | Inr g \<Rightarrow> (case read_part deployments_url (set_jobs c) deployRes of
         Inl e \<Rightarrow> refresh_failed e (g (f s))
       | Inr h \<Rightarrow> h (g (f s)))))"

text \<open>\<open>Promise.all\<close> of three fetches, after which the panel changes. The requests are asked for one after
  another here; the panel cannot tell, since it changes only when all are answered or one has failed.\<close>

definition refresh_trusted :: "trusted_types \<Rightarrow> trusted_panel prog \<Rightarrow> trusted_panel prog" where
  "refresh_trusted c k = (let failed = (\<lambda>e. update (refresh_failed e) k) in
     update (\<lambda>s. s\<lparr>tr_error := None\<rparr>)
       (attempt (GET access_url) id (\<lambda>accessRes.
         attempt (GET wireguard_url) id (\<lambda>wgRes.
           attempt (GET deployments_url) id (\<lambda>deployRes. update (read_parts c accessRes wgRes deployRes) k) failed) failed) failed))"

text \<open>\<open>response.json().then(payload => payload.detail).catch(() => "...")\<close>, as the message of an \<open>Error\<close>.\<close>

definition reconcile_error :: "response \<Rightarrow> string" where
  "reconcile_error resp = (case rs_json resp of
     None \<Rightarrow> ''trusted reconcile failed''
   | Some JNull \<Rightarrow> ''trusted reconcile failed''
   | Some j \<Rightarrow> (case json_prop (Some j) ''detail'' of Some v \<Rightarrow> json_to_string v | None \<Rightarrow> []))"

definition reconcile_answer :: "response result \<Rightarrow> response result" where
  "reconcile_answer r = then_read r (\<lambda>resp. if resp_ok resp then Inr resp else Inl (ErrorMessage (reconcile_error resp)))"

definition runTrustedReconcile :: "trusted_types \<Rightarrow> trusted_panel prog" where
  "runTrustedReconcile c =
     update (\<lambda>s. s\<lparr>tr_pending := True, tr_note := None, tr_error := None\<rparr>)
       (attempt (POST ''/api/admin/deployments/reconcile'') reconcile_answer
         (\<lambda>resp. update (\<lambda>s. s\<lparr>tr_note := Some
              ''Reconcile finished: deployments, SSH access, and WireGuard should match host truth.''\<rparr>)
           (refresh_trusted c (update (\<lambda>s. s\<lparr>tr_reconciledEvents := Suc (tr_reconciledEvents s)\<rparr>)
             (update (\<lambda>s. s\<lparr>tr_pending := False\<rparr>) Done))))
         (\<lambda>e. update (\<lambda>s. s\<lparr>tr_error := Some (message_or e ''trusted reconcile failed'')\<rparr>)
           (update (\<lambda>s. s\<lparr>tr_pending := False\<rparr>) Done)))"

datatype trusted_event = TrustedTimer | ClickRefreshTrusted | ClickReconcile

fun trusted_handle :: "trusted_types \<Rightarrow> trusted_event \<Rightarrow> trusted_panel \<Rightarrow> trusted_panel prog" where
  "trusted_handle c TrustedTimer s = refresh_trusted c Done"
| "trusted_handle c ClickRefreshTrusted s = (if tr_pending s then Done else refresh_trusted c Done)"
| "trusted_handle c ClickReconcile s = (if tr_pending s then Done else runTrustedReconcile c)"

definition trusted_parts_ok :: "trusted_panel \<Rightarrow> bool" where
  "trusted_parts_ok s \<longleftrightarrow> toneForState (map_option cs_state (tr_access s)) = TrustOk \<and>
     toneForState (map_option wg_state (tr_wireguard s)) = TrustOk"

text \<open>The message of the banner (healthy or not) and whether the banner has the colour of success.\<close>

definition overall_healthy :: "trusted_panel \<Rightarrow> bool" where
  "overall_healthy s \<longleftrightarrow> trusted_parts_ok s \<and> coalesce (tr_pendingDeployments s) 0 = 0"

definition banner_success :: "trusted_panel \<Rightarrow> bool" where
  "banner_success s \<longleftrightarrow> trusted_parts_ok s"

definition pending_row :: "trusted_panel \<Rightarrow> string" where
  "pending_row s = (case tr_pendingDeployments s of None \<Rightarrow> ''unknown''
     | Some n \<Rightarrow> if n = 0 then ''ready'' else int_to_string (int n) @ '' active'')"

section \<open>The audit page\<close>

text \<open>The search parameters of a page: a name has one value or an array of them.\<close>

type_synonym page_params = "(string \<times> string list) list"

definition firstValue :: "string list option \<Rightarrow> string" where
  "firstValue value = (case value of Some (v # _) \<Rightarrow> v | _ \<Rightarrow> [])"

definition parsePositive :: "string \<Rightarrow> rat \<Rightarrow> rat" where
  "parsePositive value fallback = (case parseInt value of Finite q \<Rightarrow> if q \<le> 0 then fallback else q | _ \<Rightarrow> fallback)"

record audit_query =
  au_actorType :: string
  au_action :: string
  au_targetType :: string
  au_status :: string
  au_limit :: rat
  au_offset :: js_num

text \<open>\<open>Math.max(0, x)\<close> on a number that is not NaN, and the sum of a number and a finite one.\<close>

definition js_max0 :: "js_num \<Rightarrow> js_num" where
  "js_max0 x = (case x of Finite q \<Rightarrow> Finite (max 0 q) | PosInfinity \<Rightarrow> PosInfinity | NegInfinity \<Rightarrow> Finite 0 | NaN \<Rightarrow> NaN)"

definition js_plus :: "js_num \<Rightarrow> rat \<Rightarrow> js_num" where
  "js_plus x d = (case x of Finite q \<Rightarrow> to_double (q + d) | _ \<Rightarrow> x)"

definition parseOffset :: "string \<Rightarrow> js_num" where
  "parseOffset value = (let parsed = parseInt value in js_max0 (if parsed = NaN then Finite 0 else parsed))"

definition audit_filter :: "page_params \<Rightarrow> string \<Rightarrow> string" where
  "audit_filter params k = toLowerCase (trim (firstValue (map_of params k)))"

definition AdminAuditPage_query :: "page_params \<Rightarrow> audit_query" where
  "AdminAuditPage_query params = \<lparr>au_actorType = audit_filter params ''actor_type'', au_action = audit_filter params ''action'',
     au_targetType = audit_filter params ''target_type'', au_status = audit_filter params ''status'',
     au_limit = parsePositive (firstValue (map_of params ''limit'')) 25, au_offset = parseOffset (firstValue (map_of params ''offset''))\<rparr>"

text \<open>What the page asks the admin API for.\<close>

definition audit_api_query :: "audit_query \<Rightarrow> (string \<times> query_value option) list" where
  "audit_api_query q = (let text = (\<lambda>v. map_option QStr (or_undefined (Some v))) in
     [(''actor_type'', text (au_actorType q)), (''action'', text (au_action q)), (''target_type'', text (au_targetType q)),
      (''status'', text (au_status q)), (''limit'', Some (QNum (Finite (au_limit q)))), (''offset'', Some (QNum (au_offset q)))])"

definition buildPageHref :: "audit_query \<Rightarrow> js_num \<Rightarrow> string" where
  "buildPageHref q offset = (let text = (\<lambda>k v. if v \<noteq> [] then [(k, v)] else []) in
     ''/admin/audit?'' @ encode_params (
       text ''actor_type'' (au_actorType q) @ text ''action'' (au_action q) @ text ''target_type'' (au_targetType q) @
       text ''status'' (au_status q) @
       [(''limit'', num_to_string (Finite (au_limit q))), (''offset'', num_to_string (js_max0 offset))]))"

definition previous_href :: "audit_query \<Rightarrow> string" where
  "previous_href q = buildPageHref q (js_max0 (js_plus (au_offset q) (- au_limit q)))"

definition next_href :: "audit_query \<Rightarrow> string" where
  "next_href q = buildPageHref q (js_plus (au_offset q) (au_limit q))"

text \<open>The two links, where the page the API answered has a previous or a next one; else the buttons are disabled.\<close>

definition audit_links :: "audit_query \<Rightarrow> bool \<Rightarrow> bool \<Rightarrow> string option \<times> string option" where
  "audit_links q has_previous has_following =
     (if has_previous then Some (previous_href q) else None, if has_following then Some (next_href q) else None)"

definition audit_tone :: "string \<Rightarrow> string" where
  "audit_tone status = (let norm = toLowerCase (trim status) in
     if norm = ''success'' then ''tone-success''
     else if norm = ''fail'' \<or> norm = ''failed'' \<or> norm = ''error'' then ''tone-danger'' else ''tone-neutral'')"

section \<open>The links of the audit page\<close>

lemma to_lower_char_idem: "to_lower_char (to_lower_char ch) = to_lower_char ch"
  by (auto simp: to_lower_char_def Let_def)

lemma is_ws_to_lower: "is_ws (to_lower_char ch) \<longleftrightarrow> is_ws ch"
  by (auto simp: to_lower_char_def is_ws_def Let_def)

lemma toLowerCase_idem: "toLowerCase (toLowerCase s) = toLowerCase s"
  by (simp add: toLowerCase_def to_lower_char_idem)

lemma trim_toLowerCase: "trim (toLowerCase (trim s)) = toLowerCase (trim s)"
proof (rule trim_id)
  have "trimmed (trim s)" by simp
  then show "trimmed (toLowerCase (trim s))"
    by (cases "trim s = []") (auto simp: trimmed_def toLowerCase_def hd_map last_map is_ws_to_lower)
qed

text \<open>The search parameters the page gets when a link is followed.\<close>

definition follow :: "string \<Rightarrow> page_params" where
  "follow href = map (\<lambda>(k, v). (k, [v])) (parse_query (drop (length ''/admin/audit'') href))"

definition normal_text :: "string \<Rightarrow> bool" where
  "normal_text v \<longleftrightarrow> toLowerCase (trim v) = v"

lemma follow_href:
  "follow (buildPageHref q off) = map (\<lambda>(k, v). (k, [v]))
     ((if au_actorType q \<noteq> [] then [(''actor_type'', au_actorType q)] else []) @
      (if au_action q \<noteq> [] then [(''action'', au_action q)] else []) @
      (if au_targetType q \<noteq> [] then [(''target_type'', au_targetType q)] else []) @
      (if au_status q \<noteq> [] then [(''status'', au_status q)] else []) @
      [(''limit'', num_to_string (Finite (au_limit q))), (''offset'', num_to_string (js_max0 off))])"
  unfolding follow_def buildPageHref_def Let_def parse_query_def
  by (simp only: append.simps length_Cons list.size drop_Suc_Cons drop0 list.case) (subst parse_encode_params; simp)

lemma audit_filter_normal: "normal_text (audit_filter params k)"
  by (simp add: normal_text_def audit_filter_def trim_toLowerCase toLowerCase_idem)

lemma href_reads_back:
  assumes "normal_text (au_actorType q)" "normal_text (au_action q)" "normal_text (au_targetType q)" "normal_text (au_status q)"
    and "au_limit q = of_int l" "1 \<le> l" "l \<le> 2 ^ 53" "0 \<le> m" "m \<le> 2 ^ 53"
  shows "AdminAuditPage_query (follow (buildPageHref q (Finite (of_int m)))) = q\<lparr>au_offset := Finite (of_int m)\<rparr>"
proof -
  have l: "num_to_string (Finite (au_limit q)) = int_to_string l" "parseInt (int_to_string l) = Finite (of_int l)"
    using assms num_to_string_int [of l] parseInt_int_to_string [of l] by simp_all
  have m: "js_max0 (Finite (of_int m)) = Finite (of_int m)" "num_to_string (Finite (of_int m)) = int_to_string m"
    "parseInt (int_to_string m) = Finite (of_int m)"
    using assms num_to_string_int [of m] parseInt_int_to_string [of m] by (simp_all add: js_max0_def)
  show ?thesis
    using assms(1-6) unfolding follow_href l m
    by (cases q) (auto simp: AdminAuditPage_query_def audit_filter_def firstValue_def normal_text_def parsePositive_def
        parseOffset_def l m Let_def toLowerCase_def)
qed

text \<open>
  C39. Paging through the audit log keeps the question. Take any address whose offset and page size add up
  to at most \<open>2^53\<close>, so that all numbers involved are exact. The page has a \<open>Previous\<close> and a \<open>Next\<close> link exactly
  where the API says so, and the page reached by one of them has the same filters and page size, with an
  offset moved by the page size of the address, never below zero. (The API returns at most 200 rows at a
  time: with a larger page size in the address, \<open>Next\<close> moves past rows that were not shown.)
\<close>

theorem audit_links_keep_query:
  assumes "q = AdminAuditPage_query params" and "au_limit q = of_int l" and "au_offset q = Finite (of_int n)"
    and "n + l \<le> 2 ^ 53" and "audit_links q has_previous has_following = (previous_link, next_link)"
  shows "(next_link \<noteq> None \<longleftrightarrow> has_following) \<and> (previous_link \<noteq> None \<longleftrightarrow> has_previous) \<and>
    pred_option (\<lambda>href. AdminAuditPage_query (follow href) = q\<lparr>au_offset := Finite (of_int (n + l))\<rparr>) next_link \<and>
    pred_option (\<lambda>href. AdminAuditPage_query (follow href) = q\<lparr>au_offset := Finite (of_int (max 0 (n - l)))\<rparr>) previous_link"
proof -
  have "0 < au_limit q" using assms(1) by (auto simp: AdminAuditPage_query_def parsePositive_def split: js_num.splits)
  then have l: "1 \<le> l" using assms(2) by simp
  have "au_offset q = js_max0 x" if "x = parseInt (firstValue (map_of params ''offset''))" "x \<noteq> NaN" for x
    using that assms(1) by (simp add: AdminAuditPage_query_def parseOffset_def Let_def)
  then have n: "0 \<le> n" using assms(1,3)
    by (auto simp: AdminAuditPage_query_def parseOffset_def js_max0_def Let_def split: js_num.splits if_splits)
  have texts: "normal_text (au_actorType q)" "normal_text (au_action q)" "normal_text (au_targetType q)" "normal_text (au_status q)"
    using assms(1) audit_filter_normal by (simp_all add: AdminAuditPage_query_def)
  have "js_plus (au_offset q) (au_limit q) = Finite (of_int (n + l))"
    using to_double_of_int [of "n + l"] assms n l by (simp add: js_plus_def)
  moreover have "js_max0 (js_plus (au_offset q) (- au_limit q)) = Finite (of_int (max 0 (n - l)))"
    using to_double_of_int [of "n - l"] assms n l by (simp add: js_plus_def js_max0_def)
  ultimately have "AdminAuditPage_query (follow (next_href q)) = q\<lparr>au_offset := Finite (of_int (n + l))\<rparr>"
    "AdminAuditPage_query (follow (previous_href q)) = q\<lparr>au_offset := Finite (of_int (max 0 (n - l)))\<rparr>"
    using href_reads_back [OF texts assms(2) l, of "n + l"] href_reads_back [OF texts assms(2) l, of "max 0 (n - l)"] n l assms(4)
    unfolding next_href_def previous_href_def by simp_all
  then show ?thesis using assms(5) by (cases has_previous; cases has_following) (auto simp: audit_links_def)
qed

definition sample_address :: page_params where
  "sample_address = [(''action'', ['' Service.Unlock '']), (''limit'', [''50'']), (''offset'', [''100''])]"

theorem audit_links_keep_query_witness:
  "AdminAuditPage_query (follow (next_href (AdminAuditPage_query sample_address)))
    = (AdminAuditPage_query sample_address)\<lparr>au_offset := Finite 150\<rparr>"
proof -
  have "int_to_string 50 = ''50''" "int_to_string 100 = ''100''" by code_simp+
  then have ints: "parseInt ''50'' = Finite 50" "parseInt ''100'' = Finite 100"
    using parseInt_int_to_string [of 50] parseInt_int_to_string [of 100] by simp_all
  have p: "au_limit (AdminAuditPage_query sample_address) = of_int 50"
    "au_offset (AdminAuditPage_query sample_address) = Finite (of_int 100)"
    by (simp_all add: AdminAuditPage_query_def sample_address_def firstValue_def parsePositive_def parseOffset_def js_max0_def ints)
  show ?thesis
    using audit_links_keep_query [where has_previous = True and has_following = True, OF refl p _ audit_links_def] by simp
qed

section \<open>The panels act one at a time\<close>

definition announcements_handlers :: "(json option \<Rightarrow> AdminMatchAnnouncement list) \<Rightarrow> (announcements_panel \<Rightarrow> announcements_panel prog) set" where
  "announcements_handlers rd = range (announcements_handle rd)"

lemma GET_reads [simp]: "reads (GET url)"
  by (simp add: reads_def GET_def browser_request_def)

lemma announcements_behaved: "well_behaved (\<lambda>s. mark (ap_pending s)) s (announcements_handle rd e s)"
  by (cases e) (auto simp: refresh_announcements_def createAnnouncement_def removeAnnouncement_def announcements_fail_def
      announcements_finish_def Let_def intro: well_behaved_quiet well_behaved_action)

interpretation announcing: exclusive_hook "\<lambda>s. mark (ap_pending s)" "announcements_handlers rd" "{AnnouncementsPanel}" for rd
proof
  show "\<exists>s :: announcements_panel. mark (ap_pending s) \<noteq> (None :: unit option)"
    by (rule exI [of _ "AnnouncementsPanel\<lparr>ap_pending := True\<rparr>"]) simp
  show "s \<in> {AnnouncementsPanel} \<Longrightarrow> mark (ap_pending s) = (None :: unit option)" for s by (simp add: AnnouncementsPanel_def)
qed (use announcements_behaved in \<open>auto simp: announcements_handlers_def\<close>)

definition import_handlers :: "(json option \<Rightarrow> AdminBulkImportResult) \<Rightarrow> (import_panel \<Rightarrow> import_panel prog) set" where
  "import_handlers rd = range (import_handle rd)"

lemma import_answered_carries: "carries (\<lambda>s. mark (ip_pending s)) (import_answered rd r)"
  by (auto simp: import_answered_def import_failed_def import_finish_def import_rejected_def import_done_def Let_def
      split: sum.splits if_splits)

lemma import_behaved: "well_behaved (\<lambda>s. mark (ip_pending s)) s (import_handle rd e s)"
proof (cases e)
  case SubmitImport
  then show ?thesis
    by (auto simp: onSubmit_import_def import_start_def import_failed_def import_finish_def import_answered_carries Let_def
        intro!: well_behaved_action)
qed (auto intro: well_behaved_quiet)

interpretation importing: exclusive_hook "\<lambda>s. mark (ip_pending s)" "import_handlers rd" "{BulkImportPanel}" for rd
proof
  show "\<exists>s :: import_panel. mark (ip_pending s) \<noteq> (None :: unit option)"
    by (rule exI [of _ "BulkImportPanel\<lparr>ip_pending := True\<rparr>"]) simp
  show "s \<in> {BulkImportPanel} \<Longrightarrow> mark (ip_pending s) = (None :: unit option)" for s by (simp add: BulkImportPanel_def)
qed (use import_behaved in \<open>auto simp: import_handlers_def\<close>)

definition freeze_handlers ::
    "(string \<Rightarrow> int option) \<Rightarrow> (json \<Rightarrow> AdminScoreboardFreeze) \<Rightarrow> (freeze_control \<Rightarrow> freeze_control prog) set" where
  "freeze_handlers parse rd = range (freeze_handle parse rd)"

lemma applyFreeze_behaved: "\<not> fc_busy s \<Longrightarrow> well_behaved (\<lambda>s. mark (fc_busy s)) s (applyFreeze parse rd s)"
  by (cases "freeze_body parse s")
    (auto simp: applyFreeze_def freeze_start_def freeze_fail_def intro: well_behaved_quiet well_behaved_action)

lemma freeze_behaved: "well_behaved (\<lambda>s. mark (fc_busy s)) s (freeze_handle parse rd e s)"
  by (cases e) (auto simp: load_freeze_def clearFreeze_def freeze_start_def freeze_fail_def applyFreeze_behaved
      intro: well_behaved_quiet well_behaved_action split: option.splits)

interpretation freezing: exclusive_hook "\<lambda>s. mark (fc_busy s)" "freeze_handlers parse rd" "{ScoreboardFreezeControl}" for parse rd
proof
  show "\<exists>s :: freeze_control. mark (fc_busy s) \<noteq> (None :: unit option)"
    by (rule exI [of _ "ScoreboardFreezeControl\<lparr>fc_busy := True\<rparr>"]) simp
  show "s \<in> {ScoreboardFreezeControl} \<Longrightarrow> mark (fc_busy s) = (None :: unit option)" for s
    by (simp add: ScoreboardFreezeControl_def)
qed (use freeze_behaved in \<open>auto simp: freeze_handlers_def\<close>)

definition trusted_handlers :: "trusted_types \<Rightarrow> (trusted_panel \<Rightarrow> trusted_panel prog) set" where
  "trusted_handlers c = range (trusted_handle c)"

lemma read_part_pending: "(\<And>j s. tr_pending (g j s) = tr_pending s) \<Longrightarrow> read_part path g resp = Inr f \<Longrightarrow> tr_pending (f s) = tr_pending s"
  by (auto simp: read_part_def then_read_Inr split: if_splits)

lemma read_parts_pending: "tr_pending (read_parts c a w d s) = tr_pending s"
proof -
  have p: "tr_pending (set_access c j s) = tr_pending s" "tr_pending (set_wireguard c j s) = tr_pending s"
    "tr_pending (set_jobs c j s) = tr_pending s" "tr_pending (refresh_failed e s) = tr_pending s" for j s e
    by (simp_all add: set_access_def set_wireguard_def set_jobs_def refresh_failed_def)
  have r: "read_part access_url (set_access c) a = Inr f \<Longrightarrow> tr_pending (f s) = tr_pending s"
    "read_part wireguard_url (set_wireguard c) w = Inr f \<Longrightarrow> tr_pending (f s) = tr_pending s"
    "read_part deployments_url (set_jobs c) d = Inr f \<Longrightarrow> tr_pending (f s) = tr_pending s" for f s
    using read_part_pending p by blast+
  show ?thesis by (simp add: read_parts_def p r split: sum.split)
qed

lemma refresh_trusted_parts:
  "quiet (\<lambda>s. mark (tr_pending s)) (refresh_trusted c k) \<longleftrightarrow> quiet (\<lambda>s. mark (tr_pending s)) k"
  "sends_only reads (refresh_trusted c k) \<longleftrightarrow> sends_only reads k"
  "carries (\<lambda>s. mark (tr_pending s)) k \<Longrightarrow> carries (\<lambda>s. mark (tr_pending s)) (refresh_trusted c k)"
  by (auto simp: refresh_trusted_def refresh_failed_def read_parts_pending Let_def)

lemma trusted_behaved: "well_behaved (\<lambda>s. mark (tr_pending s)) s (trusted_handle c e s)"
  by (cases e) (auto simp: runTrustedReconcile_def refresh_trusted_parts intro: well_behaved_quiet well_behaved_action)

interpretation trusting: exclusive_hook "\<lambda>s. mark (tr_pending s)" "trusted_handlers c" "{TrustedStatePanel}" for c
proof
  show "\<exists>s :: trusted_panel. mark (tr_pending s) \<noteq> (None :: unit option)"
    by (rule exI [of _ "TrustedStatePanel\<lparr>tr_pending := True\<rparr>"]) simp
  show "s \<in> {TrustedStatePanel} \<Longrightarrow> mark (tr_pending s) = (None :: unit option)" for s by (simp add: TrustedStatePanel_def)
qed (use trusted_behaved in \<open>auto simp: trusted_handlers_def\<close>)

lemma organizer_panels_single_flight:
  "single_flight ap_pending (announcements_handlers rda) {AnnouncementsPanel} \<and>
   single_flight ip_pending (import_handlers rdi) {BulkImportPanel} \<and>
   single_flight fc_busy (freeze_handlers parse rdf) {ScoreboardFreezeControl} \<and>
   single_flight tr_pending (trusted_handlers c) {TrustedStatePanel}"
  by (intro conjI single_flightI announcing.exclusive_hook_axioms importing.exclusive_hook_axioms
      freezing.exclusive_hook_axioms trusting.exclusive_hook_axioms)

section \<open>Settings, imports and trust\<close>

lemma settings_handle_PUT:
  assumes "sends_after (settings_handle rd e s) h rq" and "rq_method rq = ''PUT''"
  shows "rq = settings_request s \<and> prefixValid s \<and> maxTeamMembersValid s \<and> \<not> settings_busy s"
  using assms by (cases e) (auto simp: load_settings_def onSave_def onSaveAndReload_def onReloadOnly_def settings_fail_def
      settings_invalid_def reload_request_def GET_def browser_request_def Let_def split: if_splits)

lemma flagFormatPattern_safe:
  "flagFormatPattern p \<Longrightarrow> p \<noteq> [] \<and> length p \<le> 32 \<and> trim p = p \<and> list_all prefix_char p"
proof -
  assume a: "flagFormatPattern p"
  have nw: "prefix_char c \<Longrightarrow> \<not> is_ws c" for c
    by (auto simp: prefix_char_def ascii_letter_def is_ws_def Let_def)
  have l: "list_all prefix_char p" "p \<noteq> []" using a by (auto simp: flagFormatPattern_def prefix_char_def split: list.splits)
  then have "trimmed p" using nw by (auto simp: trimmed_def list_all_iff)
  then show ?thesis using a l by (auto simp: trim_id flagFormatPattern_def split: list.splits)
qed

text \<open>\<open>Save\<close> alone stores the prefix; the card says that flags use it although the game core still has the old one.\<close>

lemma saved_note_while_out_of_sync:
  assumes "prefixValid s" "maxTeamMembersValid s" "resp_ok resp" "rs_json resp = Some j"
    and "ps_flag_format_prefix (rd j) \<noteq> ps_flag_format_active (rd j)"
  shows "\<exists>s' rqs. play [Inr resp] (onSave rd s) s = (s', rqs) \<and> rqs = [settings_request s] \<and>
     saved_note s' \<noteq> None \<and> \<not> inSync s'"
  using assms by (simp add: onSave_def update_def attempt_def readPlatformSettingsResponse_def then_read_def response_json_def
      saved_note_def inSync_def)

text \<open>An import without a valid row sends nothing; one that created no team is reported as an error with its reasons.\<close>

lemma empty_import_sends_nothing:
  "parseTeamCsv (ip_csvText s) = [] \<Longrightarrow> \<not> sends_after (onSubmit_import rd s) h rq"
  by (simp add: onSubmit_import_def import_failed_def)

lemma rejected_import_reported:
  assumes "parseTeamCsv (ip_csvText s) = t # ts" "rs_status resp = 422" "rs_json resp = Some j" "bi_errors (rd (Some j)) = Some errors"
  shows "\<exists>s'. play [Inr resp] (onSubmit_import rd s) s = (s', [import_request (t # ts)]) \<and> ip_details s' = errors \<and>
    ip_error s' \<noteq> None \<and> ip_note s' = None \<and> \<not> ip_pending s'"
  using assms by (simp add: onSubmit_import_def update_def import_answered_def response_json_def import_start_def
      import_rejected_def import_finish_def)

text \<open>A deployment list that never loaded counts as no pending deployment, and the colour of the banner ignores
  deployments that are pending.\<close>

lemma trusted_banner_gaps:
  "trusted_parts_ok s \<Longrightarrow> tr_pendingDeployments s = None \<Longrightarrow> overall_healthy s \<and> pending_row s = ''unknown''"
  "trusted_parts_ok s \<Longrightarrow> tr_pendingDeployments s = Some (Suc n) \<Longrightarrow> banner_success s \<and> \<not> overall_healthy s"
  by (simp_all add: overall_healthy_def banner_success_def pending_row_def)

end
