(* ===== verification/Spec2Isabelle.thy ===== *)
theory Spec2Isabelle
  imports Js_Prelude Js_Number Attack_Feed Scoring_Leaders Team_Csv Http_Core Session_Token Edge_Proxy
    Participant_Api Admin_Api Prometheus Api_Routes Control_Center Dashboard_Data Admin_Dashboard
    Hook_Program Organizer_State Organizer_Handlers Organizer_Dashboard Organizer_Registry
    Appearance Attack_Sfx Scoreboard_View Attack_Map_Panel Attack_Map_Data Globe_Projection Globe_Motion
    Organizer_Forms Panel_Program Participant_Panels Participant_Views Organizer_Panels
begin

text \<open>
  A verification of the web application of ADTickPlatform, the TypeScript program under \<open>src/apps/web\<close>:
  the site on which attack-defense competitions are played and run. Its parts and how they work together:

  \<^item> A browser loads a page. \<open>proxy.ts\<close> stands before every admin page, admin route and session route; it
    refuses cross-site mutations and lets only organizers through to organizer surfaces.
  \<^item> The route handlers under \<open>app/api\<close> answer the browser. They check their input, call the platform's
    services through the clients \<open>lib/platform-api.ts\<close> (with the participant's own session) and
    \<open>lib/admin-api.ts\<close> (with a token the server holds), and turn failures into problem documents.
  \<^item> The server-side loaders \<open>lib/dashboard-data.ts\<close> and \<open>lib/admin-dashboard-data.ts\<close> collect what the two
    dashboards show, and mark it as degraded when a source fails.
  \<^item> In the browser, \<open>use-control-center.ts\<close> (participants) and \<open>use-organizer-dashboard.ts\<close> (organizers) keep
    the state of the dashboards: they call the routes, follow event streams and wait for many things at once.

  \<^bold>\<open>Theories.\<close>

  \<^item> \<open>Js_Prelude\<close>, \<open>Js_Number\<close>: what the code uses of ECMAScript. Strings with \<open>trim\<close>, \<open>toLowerCase\<close>, \<open>split\<close>
    and stable sorting; numbers as doubles (a rational, an infinity or not-a-number, rounded by \<open>to_double\<close>),
    \<open>parseInt\<close>, \<open>Number\<close> and number printing. Lemmas: integers up to 2 to the 53 print and parse back.
  \<^item> \<open>Http_Core\<close>: \<open>lib/api-utils.ts\<close> and \<open>lib/api-handler.ts\<close>. Requests, responses, JSON, errors as a sum type,
    the monad \<open>js\<close> of code that fetches and may throw (it logs every request sent), the query string builder and
    its inverse, the wrappers of the routes. The record \<open>host\<close> holds what is outside the program: the network,
    the environment, the clock, the MAC, the JSON and URL parsers.
  \<^item> \<open>Session_Token\<close>: \<open>session-token.ts\<close>, \<open>session-validation.ts\<close>, \<open>participant-session-cookie.ts\<close>. Base64url on
    words, the constant-time comparison, soundness and completeness of token verification.
  \<^item> \<open>Edge_Proxy\<close>: \<open>proxy.ts\<close>. Who passes, and what is refused.
  \<^item> \<open>Participant_Api\<close>, \<open>Admin_Api\<close>, \<open>Prometheus\<close>: the two clients, the proxied event streams
    (\<open>realtime-proxy.ts\<close>) and the reader of metrics. Where tokens go, and that comments and samples as the services
    write them (\<open>render_exposition\<close>, a specification and not code of the application) read back.
  \<^item> \<open>Api_Routes\<close>: every \<open>route.ts\<close> under \<open>app/api\<close>.
  \<^item> \<open>Attack_Feed\<close>, \<open>Scoring_Leaders\<close>, \<open>Team_Csv\<close>: \<open>dashboard-utils.ts\<close>, \<open>route-query.ts\<close>,
    \<open>use-attack-highlights.ts\<close>, \<open>scoring-leaders.ts\<close>, \<open>team-csv.ts\<close>. Paging, merging of streamed pages, award
    ranking against a specification, CSV round trips and formula injection.
  \<^item> \<open>Control_Center\<close>: \<open>use-control-center.ts\<close> as a state machine (\<open>cc_step\<close>) whose sessions hold the requests in
    flight; events and answers interleave freely. \<open>cc_answered\<close> is the part of it that is answers alone: it ends, and it
    ends with nothing pending. A credential that arrives after its dialog was closed is shown in the next one.
  \<^item> \<open>Dashboard_Data\<close>, \<open>Admin_Dashboard\<close>: the two loaders with \<open>promise-utils.ts\<close>.
  \<^item> \<open>Hook_Program\<close>: handlers of a hook as programs that wait at each \<open>await\<close>, sessions of a hook with any number of
    handlers in flight, and what holds for all hooks: answering always ends (a multiset order on what is in
    flight), a hook whose handlers are quiet or closing cannot stay busy (locale \<open>busy_hook\<close>), a policy on
    requests is kept by every session (locale \<open>request_policy\<close>).
  \<^item> \<open>Organizer_State\<close>, \<open>Organizer_Handlers\<close>, \<open>Organizer_Dashboard\<close>: \<open>use-organizer-dashboard.ts\<close> on top of it: the
    state, one definition per function of the hook, and everything that can start one (\<open>organizer_event\<close>).
  \<^item> \<open>Organizer_Registry\<close>: its four tables refine maps from identifiers to rows (locale \<open>row_table\<close>,
    interpreted for teams, players, challenges and deployments).
  \<^item> \<open>Organizer_Forms\<close>: the logic inside \<open>organizer-dashboard-sections.tsx\<close>, with \<open>date-format.ts\<close>. What an accepted form
    means, which match controls are offered, when runtime health is reported as healthy or critical.
  \<^item> \<open>Panel_Program\<close>: the small panels as hooks. The locale \<open>exclusive_hook\<close> (which extends to \<open>busy_hook\<close>) shows that a
    panel whose actions carry a pending mark has at most one changing request in flight and never stays blocked.
  \<^item> \<open>Participant_Panels\<close>, \<open>Organizer_Panels\<close>: its instances. Flag submission, signing in and out, joining a team and
    the account dialog; announcements, bulk import, export, platform settings, scoreboard freeze, trusted state and
    the audit page. When a password is changed, what is read back from typed flags, what the links of the audit page keep.
  \<^item> \<open>Participant_Views\<close>: the logic inside \<open>control-center-sections.tsx\<close>, \<open>service-sla-detail.tsx\<close>, \<open>match-readiness.tsx\<close>,
    \<open>announcement-banner.tsx\<close>, \<open>participant-shell.tsx\<close> and \<open>attack-slice-summary.tsx\<close>. The countdown to the next tick (a loop with
    its closed form), the banner's shared cache, the leaders of a slice.
  \<^item> \<open>Appearance\<close>: \<open>appearance.ts\<close>, \<open>appearance-controls.tsx\<close> and the script of \<open>layout.tsx\<close>. A chosen scheme and mode survive
    a reload, and the attributes of the page are always ones the style sheet knows, unless local storage holds the
    name of an inherited property as the scheme.
  \<^item> \<open>Attack_Sfx\<close>: \<open>use-attack-sfx.ts\<close>. Preferences read back, and sounds are bounded and throttled.
  \<^item> \<open>Scoreboard_View\<close>: \<open>scoreboard-table.tsx\<close>. Columns, cells, sorting, badges and number formats.
  \<^item> \<open>Attack_Map_Panel\<close>, \<open>Attack_Map_Data\<close>, \<open>Globe_Projection\<close>, \<open>Globe_Motion\<close>: \<open>attack-map-panel.tsx\<close> and
    \<open>cyber-attack-map.tsx\<close>. The panel with its playback, routes and statistics and the placement of labels, the projection
    (over a record of trigonometric functions), and the globe as a state machine with the timers of the window.
  \<^item> This theory: what spans the browser and the server. Every request of the organizer's dashboard is guarded
    by the edge proxy; the filters of its views reach the routes unchanged; a form, a list of flags or settings that
    a panel lets through are taken by the routes and asked of the platform as they were typed, but for the egress
    switch of a challenge, which a route leaves out.

  \<^bold>\<open>Conventions.\<close> A thrown error is a value on the left of a sum. A request is written down before it is answered, so
  a theorem about requests holds for failed calls too. The state of a React hook is a record; a handler that
  closes over state gets the state of the render it was created in, and \<open>setState\<close> with a function acts on the
  state at that moment. Refs that only mirror state are that state. \<open>Promise.allSettled\<close> on the server runs its calls in
  list order; \<open>Promise.all\<close> in the organizer's hook answers its members in any order.

  \<^bold>\<open>Bounds.\<close> No theorem depends on fuel. \<open>shortest_digits\<close> searches 17 significant digits, which always suffice for a
  double, and the position of the decimal point within 400 places, more than the exponent range of a double.

  \<^bold>\<open>Assumptions.\<close> Strings are over the 256 characters of \<open>char\<close>, negative zero is zero, and numbers in JSON are rationals.
  The shape of an answer is what its TypeScript type asserts: the records \<open>answer_types\<close>, \<open>admin_types\<close> and
  \<open>hook_types\<close> read the asserted types, and an answer of another shape is outside the model. Header values are not
  validated, and a reply may carry a body with any status.

  \<^bold>\<open>Not modelled.\<close> React rendering: markup, class names, SVG elements and the vector data of the coast lines. What a
  browser checks by itself on form fields, so that the panels here accept at least what it lets through. The
  trigonometric functions, which are the record \<open>math\<close> of the projection; coordinates are exact rationals. React \<open>cache\<close>, browser
  downloads, and opening and closing event sources, which change no state that the code above reads. The pages that only
  put the parts together (\<open>control-center.tsx\<close>, \<open>organizer-dashboard.tsx\<close>, \<open>app-shell.tsx\<close>), \<open>lib/repo-docs.ts\<close> and \<open>lib/utils.ts\<close>.
  The Go services are another program; the web application sees only their answers, which are arbitrary here.

  \<^bold>\<open>Extending it.\<close> A new panel is a state record, its handlers and an interpretation of \<open>exclusive_hook\<close>; a new route is a
  definition over \<open>Http_Core\<close>; a new table of the organizer is an interpretation of \<open>row_table\<close>.
\<close>

section \<open>The organizer's dashboard and the edge proxy\<close>

text \<open>The path of the address a request goes to: what \<open>nextUrl.pathname\<close> is for it.\<close>

definition url_path :: "string \<Rightarrow> string" where
  "url_path url = takeWhile (\<lambda>ch. ch \<noteq> CHR ''?'' \<and> ch \<noteq> CHR ''#'') url"

lemma url_path_admin: "starts_with url ''/api/admin/'' \<Longrightarrow> starts_with (url_path url) ''/api/admin/''"
  by (auto simp: starts_with_iff url_path_def)

lemma proxy_denies:
  assumes "starts_with (nr_pathname nr) ''/api/admin/''" and "organizerSession h nr w = (Inr v, w')"
    and "\<forall>se. v = Some se \<longrightarrow> vs_role se \<noteq> ''organizer''"
  shows "\<exists>rep w''. proxy h nr w = (Inr (DenyWith rep), w'') \<and> rp_status rep = 403"
  using assms by (auto simp: proxy_def js_defs unauthorizedApi_def Let_def split: option.splits)

text \<open>
  C11. The organizer's dashboard is served to organizers only: every request it has in flight, in any state any
  interleaving of events and answers can reach, is one the edge proxy refuses with 403 when the caller has no
  session that is verified and confirmed as an organizer's. A new call of the dashboard that left the guarded
  paths would break this.
\<close>

theorem organizer_requests_guarded:
  assumes "hook_reachable (organizer_handlers c) (range useOrganizerDashboard) (s, ts)"
    and "rq \<in> set (concat (map outstanding ts))" and "nr_pathname nr = url_path (rq_url rq)"
    and "organizerSession h nr w = (Inr v, w')" and "\<forall>se. v = Some se \<longrightarrow> vs_role se \<noteq> ''organizer''"
  shows "\<exists>rep w''. proxy h nr w = (Inr (DenyWith rep), w'') \<and> rp_status rep = 403"
proof -
  have "admin_request_only rq" using organizer.reachable_outstanding [OF assms(1)] assms(2) by blast
  then have "starts_with (nr_pathname nr) ''/api/admin/''" using url_path_admin assms(3) by (simp add: admin_request_only_def)
  then show ?thesis using proxy_denies assms(4,5) by blast
qed

theorem organizer_requests_guarded_witness:
  "\<exists>s t rq. hook_reachable (organizer_handlers sample_types) (range useOrganizerDashboard) (s, [t]) \<and>
    rq \<in> set (outstanding t) \<and> rq_url rq = ''/api/admin/game/match/stop'' \<and>
    (\<exists>rep w''. proxy (token_host organizer_answer) (admin_request\<lparr>nr_pathname := url_path (rq_url rq), nr_cookies := (\<lambda>_. None)\<rparr>) idle =
       (Inr (DenyWith rep), w'') \<and> rp_status rep = 403)"
proof -
  let ?rq = "POST ''/api/admin/game/match/stop''"
  let ?nr = "admin_request\<lparr>nr_pathname := url_path (rq_url ?rq), nr_cookies := (\<lambda>_. None)\<rparr>"
  obtain s t where st: "advance (handle sample_types (Game StopMatch) sample_organizer) sample_organizer = (s, t, [])"
    "t \<noteq> Done" "outstanding t = [?rq]"
    by (simp add: stopGameMatch_def advance_game_action fetchJson_def)
  have r: "hook_reachable (organizer_handlers sample_types) (range useOrganizerDashboard) (s, [t])"
    using clicked_reachable [OF st(1)] st(2) by (simp add: live_def)
  have o: "organizerSession (token_host organizer_answer) ?nr idle = (Inr None, idle)"
    by (simp add: organizerSession_def or_undefined_def)
  from organizer_requests_guarded [OF r, of ?rq ?nr, OF _ _ o] r st(3) show ?thesis
    by (intro exI [of _ s] exI [of _ t] exI [of _ ?rq]) (simp add: POST_def browser_request_def)
qed

section \<open>The organizer's filters and the admin routes\<close>

text \<open>\<open>URLSearchParams.get\<close> on the query of an address.\<close>

definition search_params :: "string \<Rightarrow> string \<Rightarrow> string option" where
  "search_params query = map_of (parse_query query)"

text \<open>A number field whose value a double holds exactly and prints without an exponent.\<close>

definition exact_field :: "string \<Rightarrow> bool" where
  "exact_field s = (case parseInt s of Finite q \<Rightarrow> q \<le> 2 ^ 53 | _ \<Rightarrow> True)"

lemma map_of_query_entries:
  "distinct (map fst query) \<Longrightarrow> map_of (query_entries query) key = Option.bind (map_of query key) query_text"
proof (induction query)
  case (Cons kv query)
  obtain k v where kv: "kv = (k, v)" by (cases kv)
  have "map_of query k = None" using Cons.prems kv by (simp add: map_of_eq_None_iff)
  then show ?case using Cons kv by (cases "query_text v") (auto simp: query_entries_def map_filter_simps)
qed (simp add: query_entries_def map_filter_simps)

lemma search_params_built:
  "distinct (map fst query) \<Longrightarrow> search_params (buildQueryString query) key = Option.bind (map_of query key) query_text"
  by (cases "query_entries query = []")
    (simp_all add: search_params_def buildQueryString_def Let_def encode_params_eq_Nil parse_query_def parse_encode_params
      map_of_query_entries [symmetric])

lemma query_text_int: "0 \<le> n \<Longrightarrow> n \<le> 2 ^ 53 \<Longrightarrow> query_text (query_int (Some n)) = Some (int_to_string n)"
  by (simp add: query_text_def query_int_def num_to_string_int)

lemma exact_floor: "exact_field s \<Longrightarrow> parseInt s = Finite q \<Longrightarrow> \<lfloor>q\<rfloor> \<le> 2 ^ 53"
  by (simp add: exact_field_def floor_le_iff)

lemma nonneg_survives:
  assumes "exact_field s"
  shows "parseNonNegativeInteger (query_text (query_int (parseNonNegativeInteger (Some s)))) = parseNonNegativeInteger (Some s)"
proof (cases "parseNonNegativeInteger (Some s)")
  case None
  then show ?thesis by (simp add: query_int_def query_text_def parseNonNegativeInteger_def)
next
  case (Some n)
  then have "n \<le> 2 ^ 53" using exact_floor [OF assms] by (auto simp: parseNonNegativeInteger_def split: if_splits js_num.splits)
  then show ?thesis
    using Some parseNonNegativeInteger_nonneg [OF Some] by (simp add: query_text_int parseNonNegativeInteger_int_to_string)
qed

lemma nonzero_survives:
  assumes "exact_field s"
  shows "parseNonNegativeInteger (query_text (query_int (nonzero (parseNonNegativeInteger (Some s))))) = nonzero (parseNonNegativeInteger (Some s))"
  using nonneg_survives [OF assms]
  by (auto simp: nonzero_def query_int_def query_text_def parseNonNegativeInteger_def [of None] split: option.splits)

lemma positive_value:
  assumes "parsePositiveInteger (Some s) fallback mx = Some n" and "0 \<le> mx" and "fallback = Some n \<Longrightarrow> 1 \<le> n \<and> (0 < mx \<longrightarrow> n \<le> mx)"
  shows "1 \<le> n \<and> (0 < mx \<longrightarrow> n \<le> mx)"
proof (cases "fallback = Some n")
  case False
  then obtain q where q: "parseInt s = Finite q" "0 < q" "n = (if 0 < mx \<and> q > of_int mx then mx else \<lfloor>q\<rfloor>)"
    using assms(1) by (auto simp: parsePositiveInteger_def split: if_splits js_num.splits)
  obtain z where "q = of_int z" using parseInt_integral [OF q(1)] by (auto elim: Ints_cases)
  then show ?thesis using q assms(2) by (auto split: if_splits)
qed (use assms in blast)

lemma positive_int_to_string:
  "1 \<le> n \<Longrightarrow> n \<le> 2 ^ 53 \<Longrightarrow> 0 \<le> mx \<Longrightarrow> (0 < mx \<longrightarrow> n \<le> mx) \<Longrightarrow> parsePositiveInteger (Some (int_to_string n)) fallback mx = Some n"
  using parseInt_int_to_string [of n] by (auto simp: parsePositiveInteger_def)

lemma text_survives: "parseTextFilter (query_text (map_option QStr (text_field s))) = text_field s"
  by (auto simp: parseTextFilter_def query_text_def text_field_def or_undefined_def Let_def)


lemma lower_survives: "map_option QStr (parseLowercaseTextFilter (query_text (lower_field s))) = lower_field s"
  by (auto simp: parseLowercaseTextFilter_def parseTextFilter_def query_text_def lower_field_def or_undefined_def Let_def
      trim_toLowerCase toLowerCase_idem)

lemma limit_survives:
  assumes "1 \<le> d" and "d \<le> 200"
  shows "parsePositiveInteger (query_text (query_int (parsePositiveInteger (Some s) (Some d) 200))) (Some d') 200 =
    parsePositiveInteger (Some s) (Some d) 200"
proof -
  obtain n where n: "parsePositiveInteger (Some s) (Some d) 200 = Some n" "1 \<le> n" "n \<le> 200"
    using parsePositiveInteger_range [of d 200 "Some s"] assms by auto
  then show ?thesis using positive_int_to_string [of n 200 "Some d'"] query_text_int [of n] by simp
qed

lemma positive_survives:
  assumes "exact_field s"
  shows "parsePositiveInteger (query_text (query_int (parsePositiveInteger (Some s) None 0))) None 0 = parsePositiveInteger (Some s) None 0"
proof (cases "parsePositiveInteger (Some s) None 0")
  case None
  then show ?thesis by (simp add: query_int_def query_text_def parsePositiveInteger_def)
next
  case (Some n)
  then have "n \<le> 2 ^ 53" using exact_floor [OF assms] by (auto simp: parsePositiveInteger_def split: if_splits js_num.splits)
  then show ?thesis
    using Some positive_value [OF Some] positive_int_to_string [of n 0 None] query_text_int [of n] by simp
qed

lemmas survives = limit_survives nonneg_survives nonzero_survives positive_survives text_survives lower_survives

text \<open>
  C16. What the organizer filters for is what the platform API is asked for: the three filtered views of the
  dashboard put their filters into the query of the request, the route behind it reads the query again, and what
  it reads is the query the dashboard built, for any text in the fields and any numbers up to 2 to the 53.
\<close>

theorem organizer_filters_reach_route:
  assumes "list_all exact_field [af_offset f, af_tickFrom f, af_tickTo f, cf_offset g, cf_tickId g, cf_teamId g, cf_challengeId g, ef_offset e]"
  shows "parseAttackFeedQuery (search_params (buildAttackQueryString f)) 12 200 = organizer_attack_query f \<and>
    checker_run_query (search_params (buildCheckerRunQueryString g)) = buildCheckerRunQuery g \<and>
    scheduler_event_query (search_params (buildSchedulerEventQueryString e)) = buildSchedulerEventQuery e"
proof (intro conjI)
  show "parseAttackFeedQuery (search_params (buildAttackQueryString f)) 12 200 = organizer_attack_query f"
    unfolding buildAttackQueryString_def parseAttackFeedQuery_def
    using assms by (simp add: search_params_built attack_query_def organizer_attack_query_def survives)
  show "checker_run_query (search_params (buildCheckerRunQueryString g)) = buildCheckerRunQuery g"
    unfolding buildCheckerRunQueryString_def checker_run_query_def
    using assms by (simp add: search_params_built buildCheckerRunQuery_def survives)
  show "scheduler_event_query (search_params (buildSchedulerEventQueryString e)) = buildSchedulerEventQuery e"
    unfolding buildSchedulerEventQueryString_def scheduler_event_query_def
    using assms by (simp add: search_params_built buildSchedulerEventQuery_def survives)
qed

definition sample_filters :: AttackFilters where
  "sample_filters = \<lparr>af_limit = ''25'', af_offset = ''0'', af_attacker = '' red&team_id=7 '', af_victim = [], af_service = [],
     af_tickFrom = ''0'', af_tickTo = []\<rparr>"

theorem organizer_filters_reach_route_witness:
  "aq_attacker (parseAttackFeedQuery (search_params (buildAttackQueryString sample_filters)) 12 200) = Some ''red&team_id=7'' \<and>
   scheduler_event_query (search_params (buildSchedulerEventQueryString defaultSchedulerEventFilters)) =
     buildSchedulerEventQuery defaultSchedulerEventFilters"
proof -
  have exact: "exact_field ''0''" "exact_field []" by code_simp+
  have "trim '' red&team_id=7 '' = ''red&team_id=7''" by code_simp
  moreover have "list_all exact_field [af_offset sample_filters, af_tickFrom sample_filters, af_tickTo sample_filters,
      cf_offset defaultCheckerRunFilters, cf_tickId defaultCheckerRunFilters, cf_teamId defaultCheckerRunFilters,
      cf_challengeId defaultCheckerRunFilters, ef_offset defaultSchedulerEventFilters]"
    by (simp add: sample_filters_def defaultCheckerRunFilters_def defaultSchedulerEventFilters_def exact)
  ultimately show ?thesis
    using organizer_filters_reach_route [of sample_filters defaultCheckerRunFilters defaultSchedulerEventFilters]
    by (simp add: organizer_attack_query_def text_field_def or_undefined_def sample_filters_def)
qed

section \<open>The organizer's forms and the admin routes\<close>

text \<open>The body of the request a program waits on.\<close>

definition sent_body :: "string \<Rightarrow> 's prog \<Rightarrow> json option" where
  "sent_body url t = (case outstanding t of
     [rq] \<Rightarrow> if rq = browser_request ''POST'' url (rq_body rq) then rq_body rq else None
   | _ \<Rightarrow> None)"

lemma advance_update: "advance (update f p) s = advance p (f s)"
  by (simp add: update_def advance_Atomic)

lemma json_prop_object [simp]:
  "k' \<noteq> k \<Longrightarrow> json_prop (Some (json_object ((k', v) # ps))) k = json_prop (Some (json_object ps)) k"
  "list_all (\<lambda>(k', _). k' \<noteq> k) ps \<Longrightarrow> json_prop (Some (json_object ((k, v) # ps))) k = v"
proof -
  show "k' \<noteq> k \<Longrightarrow> json_prop (Some (json_object ((k', v) # ps))) k = json_prop (Some (json_object ps)) k"
    by (simp add: json_prop_def json_object_def map_filter_simps split: option.split)
  assume "list_all (\<lambda>(k', _). k' \<noteq> k) ps"
  then have "json_prop (Some (json_object ps)) k = None"
    by (intro json_object_absent) (auto simp: list_all_iff)
  then show "json_prop (Some (json_object ((k, v) # ps))) k = v"
    by (simp add: json_prop_def json_object_def map_filter_simps split: option.split)
qed

lemma truthy_port:
  "\<not> out_of_range (parseOptionalInteger raw) mx \<Longrightarrow>
     truthy_num (json_Number (number_field raw)) = parseOptionalInteger raw"
proof (cases "trim raw = []")
  case True
  then show ?thesis by (simp add: number_field_def json_Number_def truthy_num_def parseOptionalInteger_def)
next
  case False
  assume "\<not> out_of_range (parseOptionalInteger raw) mx"
  then obtain n where "parseOptionalInteger raw = Some (Finite (of_int n))" "js_Number raw = Finite (of_int n)" "1 \<le> n"
    using False by (rule parseOptionalInteger_in_range)
  then show ?thesis using False by (simp add: number_field_def num_json_def json_Number_def truthy_num_def)
qed

lemma team_form_accepted:
  assumes "fc_errors (validateTeamDraft d) = []"
  shows "admin_teams_POST h (Some (JObj [(''name'', JStr (td_name d)), (''contact_email'', JStr (td_contactEmail d))]))
    = json_route (createAdminTeam h \<lparr>ti_name = trim (td_name d), ti_contact_email = trim (td_contactEmail d)\<rparr>)
        ''team create failed'' upstream_title"
proof -
  have "trim (td_name d) \<noteq> []" "trim (td_contactEmail d) \<noteq> []"
    using assms by (auto simp: validateTeamDraft_ok)
  then show ?thesis
    by (simp add: admin_teams_POST_def parseTeamBody_def json_prop_def trim_prop_def js_defs or_undefined_def
        fun_eq_iff split: list.split)
qed

lemma player_form_accepted:
  assumes "fc_errors (validatePlayerDraft d (Some CreateMode)) = []"
  shows "admin_players_POST h (Some (JObj [(''team_id'', JNum (of_int (pd_teamId d))), (''display_name'', JStr (pd_displayName d)),
      (''email'', JStr (pd_email d)), (''password'', JStr (pd_password d)), (''role'', JStr (pd_role d))]))
    = json_route (createAdminPlayer h \<lparr>pi_team_id = JNum (of_int (pd_teamId d)), pi_display_name = trim (pd_displayName d),
        pi_email = trim (pd_email d), pi_password = JStr (pd_password d), pi_role = pd_role d\<rparr>)
        ''player create failed'' upstream_title"
proof -
  note ok = assms [unfolded validatePlayerDraft_ok]
  have "trim (pd_email d) \<noteq> []" using ok by auto
  moreover have "trim (pd_role d) = pd_role d" "pd_role d \<noteq> []"
    using ok by (auto simp: trimmed_def is_ws_def intro!: trim_id)
  moreover have "pd_password d \<noteq> []" using ok by auto
  ultimately show ?thesis
    using ok by (simp add: admin_players_POST_def json_prop_def trim_prop_def js_defs or_undefined_def Let_def
        Http_Core.truthy_def password_check_def fun_eq_iff split: list.split)
qed

lemma challenge_form_accepted:
  assumes "fc_errors (validateChallengeDraft d rows (Some CreateMode) e teams) = []"
  shows "admin_challenges_POST h (Some (json_object
         [(''name'', Some (JStr (cd_name d))), (''baseline_image'', Some (JStr (cd_baselineImage d))),
          (''checker_image'', Some (JStr (cd_checkerImage d))), (''source_bundle_path'', Some (JStr (cd_sourceBundlePath d))),
          (''service_port'', number_field (cd_servicePort d)),
          (''service_subnet_octet'', number_field (cd_serviceSubnetOctet d)),
          (''egress_enabled'', Some (JBool (cd_egressEnabled d)))]))
    = json_route (createAdminChallenge h \<lparr>ci_name = trim (cd_name d), ci_baseline_image = trim (cd_baselineImage d),
        ci_checker_image = trim (cd_checkerImage d), ci_source_bundle_path = Some (trim (cd_sourceBundlePath d)),
        ci_service_port = parseOptionalInteger (cd_servicePort d),
        ci_service_subnet_octet = parseOptionalInteger (cd_serviceSubnetOctet d), ci_egress_enabled = None\<rparr>)
        ''challenge create failed'' upstream_title"
proof -
  note ok = assms [unfolded validateChallengeDraft_ok]
  have n: "trim (cd_name d) \<noteq> []" "truthy_num (json_Number (number_field (cd_servicePort d))) = parseOptionalInteger (cd_servicePort d)"
    "truthy_num (json_Number (number_field (cd_serviceSubnetOctet d))) = parseOptionalInteger (cd_serviceSubnetOctet d)"
    using ok truthy_port [of "cd_servicePort d" 65535] truthy_port [of "cd_serviceSubnetOctet d" 254] by simp_all
  then show ?thesis
    by (simp add: admin_challenges_POST_def trim_prop_def js_defs or_undefined_def text_or_empty_def fun_eq_iff
        split: list.split)
qed

lemma challenge_numbers_ok:
  assumes "fc_errors (validateChallengeDraft d rows (Some CreateMode) e teams) = []"
  shows "\<not> escapes_root (trim (cd_sourceBundlePath d)) \<and>
    (parseOptionalInteger (cd_servicePort d) = None \<or>
       (\<exists>n. parseOptionalInteger (cd_servicePort d) = Some (Finite (of_int n)) \<and> 1 \<le> n \<and> n \<le> 65535)) \<and>
    (parseOptionalInteger (cd_serviceSubnetOctet d) = None \<or>
       (\<exists>n. parseOptionalInteger (cd_serviceSubnetOctet d) = Some (Finite (of_int n)) \<and> 1 \<le> n \<and> n \<le> 254 \<and>
          list_all (\<lambda>ch. Some (ac_id ch) = e \<or> ac_service_subnet_octet ch \<noteq> n) rows))"
proof -
  note ok = assms [unfolded validateChallengeDraft_ok]
  have blank: "parseOptionalInteger raw = None" if "trim raw = []" for raw
    using that by (simp add: parseOptionalInteger_def)
  have port: "\<exists>n. parseOptionalInteger (cd_servicePort d) = Some (Finite (of_int n)) \<and> 1 \<le> n \<and> n \<le> 65535"
    if "trim (cd_servicePort d) \<noteq> []"
    using parseOptionalInteger_in_range [OF _ that, of 65535] ok by (metis of_int_le_iff of_int_numeral)
  have octet: "\<exists>n. parseOptionalInteger (cd_serviceSubnetOctet d) = Some (Finite (of_int n)) \<and> 1 \<le> n \<and> n \<le> 254 \<and>
          list_all (\<lambda>ch. Some (ac_id ch) = e \<or> ac_service_subnet_octet ch \<noteq> n) rows"
    if f: "trim (cd_serviceSubnetOctet d) \<noteq> []"
  proof -
    obtain n where n: "parseOptionalInteger (cd_serviceSubnetOctet d) = Some (Finite (of_int n))" "1 \<le> n" "n \<le> 254"
      using parseOptionalInteger_in_range [OF _ f, of 254] ok by (metis of_int_le_iff of_int_numeral)
    have "effectiveServiceSubnetOctet (validateChallengeDraft d rows (Some CreateMode) e teams) = Finite (of_int n)"
      using n(1) by (simp add: validateChallengeDraft_def Let_def effective_def)
    then have "octet_conflict rows e (Finite (of_int n)) = None" using ok by simp
    then have "list_all (\<lambda>ch. Some (ac_id ch) = e \<or> ac_service_subnet_octet ch \<noteq> n) rows"
      using octet_conflict_None [of rows e n] n(2,3) unfolding list_all_iff by blast
    then show ?thesis using n by blast
  qed
  show ?thesis using ok blank port octet by blast
qed

lemma click_sends:
  "EntityFormDialog s \<Longrightarrow> advance (click_submit c s) s = (s', t, sp) \<Longrightarrow> t = fst (snd (advance (submitForm c s) s))"
  by (simp add: click_submit_def)

lemmas submitForm_request = submitForm_def advance_update persistEntity_def fetchJson_def browser_request_def Let_def

text \<open>What the click on the dialog's button sends, by entity.\<close>

lemma team_form_sent:
  assumes "EntityFormDialog s" "od_formMode s = Some CreateMode" "od_formEntity s = Some TeamForm"
    and "advance (click_submit c s) s = (s', t, sp)"
  defines "d \<equiv> od_teamDraft s"
  shows "sent_body ''/api/admin/teams'' t
    = Some (JObj [(''name'', JStr (td_name d)), (''contact_email'', JStr (td_contactEmail d))])"
  using assms(2,3) unfolding click_sends [OF assms(1,4)] d_def
  by (simp add: sent_body_def submitForm_request createTeam_def)

lemma player_form_sent:
  assumes "EntityFormDialog s" "od_formMode s = Some CreateMode" "od_formEntity s = Some PlayerForm"
    and "advance (click_submit c s) s = (s', t, sp)" and "0 < pd_teamId (od_playerDraft s)"
  defines "d \<equiv> od_playerDraft s"
  shows "sent_body ''/api/admin/players'' t = Some (JObj [(''team_id'', JNum (of_int (pd_teamId d))),
      (''display_name'', JStr (pd_displayName d)), (''email'', JStr (pd_email d)),
      (''password'', JStr (pd_password d)), (''role'', JStr (pd_role d))])"
  using assms(2,3,5) unfolding click_sends [OF assms(1,4)] d_def
  by (simp add: sent_body_def submitForm_request createPlayer_def)

lemma challenge_form_sent:
  assumes "EntityFormDialog s" "od_formMode s = Some CreateMode" "od_formEntity s = Some ChallengeForm"
    and "advance (click_submit c s) s = (s', t, sp)"
  defines "d \<equiv> od_challengeDraft s"
  shows "sent_body ''/api/admin/challenges'' t = Some (json_object
     [(''name'', Some (JStr (cd_name d))), (''baseline_image'', Some (JStr (cd_baselineImage d))),
      (''checker_image'', Some (JStr (cd_checkerImage d))), (''source_bundle_path'', Some (JStr (cd_sourceBundlePath d))),
      (''service_port'', number_field (cd_servicePort d)),
      (''service_subnet_octet'', number_field (cd_serviceSubnetOctet d)),
      (''egress_enabled'', Some (JBool (cd_egressEnabled d)))])"
  using assms(2,3) unfolding click_sends [OF assms(1,4)] d_def
  by (simp add: sent_body_def submitForm_request createChallenge_def)

text \<open>
  C17. A form the organizer can submit is one the server takes. When the dialog lets a new team, player
  or challenge be submitted, the click sends exactly one request, and the route behind it does
  not refuse it but asks the platform API for what the fields say: names, addresses, images and paths
  trimmed, the password as typed, the numbers read, with a proper e-mail address, a password of at least
  eight characters, a port between 1 and 65535, a subnet octet between 1 and 254 that no other challenge
  has, and a source path that stays inside its root. The one field that does not arrive is the egress
  switch of a challenge: the dialog sends it and the route leaves it out.
\<close>

theorem submitted_form_reaches_api:
  assumes "EntityFormDialog s" and "od_formMode s = Some CreateMode"
    and "advance (click_submit c s) s = (s', t, sp)"
  shows "(od_formEntity s = Some TeamForm \<longrightarrow>
       (let d = od_teamDraft s in emailPattern (trim (td_contactEmail d)) \<and>
        admin_teams_POST h (sent_body ''/api/admin/teams'' t)
          = json_route (createAdminTeam h \<lparr>ti_name = trim (td_name d), ti_contact_email = trim (td_contactEmail d)\<rparr>)
              ''team create failed'' upstream_title)) \<and>
     (od_formEntity s = Some PlayerForm \<longrightarrow>
       (let d = od_playerDraft s in emailPattern (trim (pd_email d)) \<and> 8 \<le> length (pd_password d) \<and> 0 < pd_teamId d \<and>
        admin_players_POST h (sent_body ''/api/admin/players'' t)
          = json_route (createAdminPlayer h \<lparr>pi_team_id = JNum (of_int (pd_teamId d)),
                pi_display_name = trim (pd_displayName d), pi_email = trim (pd_email d),
                pi_password = JStr (pd_password d), pi_role = pd_role d\<rparr>)
              ''player create failed'' upstream_title)) \<and>
     (od_formEntity s = Some ChallengeForm \<longrightarrow>
       (let d = od_challengeDraft s; port = parseOptionalInteger (cd_servicePort d);
            octet = parseOptionalInteger (cd_serviceSubnetOctet d) in
        \<not> escapes_root (trim (cd_sourceBundlePath d)) \<and>
        (port = None \<or> (\<exists>n. port = Some (Finite (of_int n)) \<and> 1 \<le> n \<and> n \<le> 65535)) \<and>
        (octet = None \<or> (\<exists>n. octet = Some (Finite (of_int n)) \<and> 1 \<le> n \<and> n \<le> 254 \<and>
           list_all (\<lambda>ch. Some (ac_id ch) = od_editingId s \<or> ac_service_subnet_octet ch \<noteq> n) (od_challengeRows s))) \<and>
        admin_challenges_POST h (sent_body ''/api/admin/challenges'' t)
          = json_route (createAdminChallenge h \<lparr>ci_name = trim (cd_name d), ci_baseline_image = trim (cd_baselineImage d),
                ci_checker_image = trim (cd_checkerImage d), ci_source_bundle_path = Some (trim (cd_sourceBundlePath d)),
                ci_service_port = port, ci_service_subnet_octet = octet, ci_egress_enabled = None\<rparr>)
              ''challenge create failed'' upstream_title))"
    (is "(_ \<longrightarrow> ?team) \<and> (_ \<longrightarrow> ?player) \<and> (_ \<longrightarrow> ?challenge)")
proof (intro conjI impI)
  have ok: "\<not> formInvalid s" using assms(1) by (simp add: EntityFormDialog_def)
  note open_form = assms(1,2) and started = assms(3)
  {
    assume e: "od_formEntity s = Some TeamForm"
    then have "fc_errors (validateTeamDraft (od_teamDraft s)) = []" using ok by (simp add: formInvalid_def)
    then show "?team"
      using team_form_accepted team_form_sent [OF open_form e started] by (simp add: validateTeamDraft_ok Let_def)
  }
  {
    assume e: "od_formEntity s = Some PlayerForm"
    then have v: "fc_errors (validatePlayerDraft (od_playerDraft s) (Some CreateMode)) = []"
      using ok assms(2) by (simp add: formInvalid_def)
    note f = v [unfolded validatePlayerDraft_ok]
    then show "?player"
      using player_form_accepted [OF v] player_form_sent [OF open_form e started] by (simp add: Let_def)
  }
  {
    assume e: "od_formEntity s = Some ChallengeForm"
    then have v: "fc_errors (validateChallengeDraft (od_challengeDraft s) (od_challengeRows s) (Some CreateMode)
        (od_editingId s) (od_teamRows s)) = []"
      using ok assms(2) by (simp add: formInvalid_def)
    then show "?challenge"
      using challenge_form_accepted [OF v, of h] challenge_numbers_ok [OF v] challenge_form_sent [OF open_form e started]
      by (simp add: Let_def)
  }
qed

definition sample_form :: organizer where
  "sample_form = sample_organizer\<lparr>od_formMode := Some CreateMode, od_formEntity := Some TeamForm,
     od_teamDraft := \<lparr>td_contactEmail = '' red@team.id'', td_name = ''Red ''\<rparr>\<rparr>"

theorem submitted_form_reaches_api_witness:
  "\<exists>s' t sp. advance (click_submit sample_types sample_form) sample_form = (s', t, sp) \<and>
     (\<forall>h :: unit host. admin_teams_POST h (sent_body ''/api/admin/teams'' t)
        = json_route (createAdminTeam h \<lparr>ti_name = ''Red'', ti_contact_email = ''red@team.id''\<rparr>)
            ''team create failed'' upstream_title)"
proof -
  let ?d = "\<lparr>td_contactEmail = '' red@team.id'', td_name = ''Red ''\<rparr>"
  have trims: "trim ''Red '' = ''Red''" "trim '' red@team.id'' = ''red@team.id''" "emailPattern ''red@team.id''"
    by code_simp+
  have f: "od_formMode sample_form = Some CreateMode" "od_formEntity sample_form = Some TeamForm"
    "od_teamDraft sample_form = ?d" "od_pendingAction sample_form = None"
    by (simp_all add: sample_form_def useOrganizerDashboard_def)
  then have dialog: "EntityFormDialog sample_form"
    by (simp add: EntityFormDialog_def isSubmitting_def formInvalid_def validateTeamDraft_ok trims)
  obtain s' t sp where a: "advance (click_submit sample_types sample_form) sample_form = (s', t, sp)"
    by (cases "advance (click_submit sample_types sample_form) sample_form") auto
  have "admin_teams_POST h (sent_body ''/api/admin/teams'' t)
        = json_route (createAdminTeam h \<lparr>ti_name = ''Red'', ti_contact_email = ''red@team.id''\<rparr>)
            ''team create failed'' upstream_title" for h :: "unit host"
    using submitted_form_reaches_api [OF dialog f(1) a, of h] f by (simp add: Let_def trims)
  with a show ?thesis by blast
qed

section \<open>The small panels and their routes\<close>

lemma submit_flags_of_sent:
  "list_all (\<lambda>f. f \<noteq> [] \<and> trim f = f) flags \<Longrightarrow> submit_flags_of (Some (JObj [(''flags'', JArr (map JStr flags))])) = flags"
  by (induction flags) (auto simp: submit_flags_of_def json_prop_def)

text \<open>
  C18. The flags a participant types are the flags the platform gets. When the panel is free and open and its text holds
  any flag, the click sends one request, and the route behind it submits exactly the flags that were typed, trimmed
  and in their order; flags that hold no separator and are pasted one per line arrive as they are. Afterwards the
  text is emptied if a flag was accepted and kept otherwise, and the panel is free again.
\<close>

theorem typed_flags_reach_platform:
  assumes "\<not> fp_pending s" and "accepting \<noteq> Some False" and "parseFlags (fp_rawFlags s) \<noteq> []"
    and "advance (flag_handle accepting rd ClickSubmitFlags s) s = (s', t, sp)"
  shows "\<exists>k. t = Call (flags_request (parseFlags (fp_rawFlags s))) k \<and> sp = [] \<and> fp_pending s' \<and>
    submit_POST h (rq_body (flags_request (parseFlags (fp_rawFlags s))))
      = json_route (submitFlags h (parseFlags (fp_rawFlags s))) ''submit failed'' ''Submit unavailable'' \<and>
    (\<forall>flags. list_all plain_flag flags \<and> fp_rawFlags s = join_with [CHR 0x0A] flags \<longrightarrow> parseFlags (fp_rawFlags s) = flags) \<and>
    (\<forall>r. \<exists>s''. advance (k r) s' = (s'', Done, []) \<and> \<not> fp_pending s'' \<and>
       fp_rawFlags s'' = (case answer_json ''/api/platform/submit'' r of
          Inr j \<Rightarrow> if coalesce (sp_accepted_count (rd j)) 0 > 0 then [] else fp_rawFlags s
        | Inl e \<Rightarrow> fp_rawFlags s))"
proof -
  let ?flags = "parseFlags (fp_rawFlags s)"
  have run: "s' = flags_started s" "sp = []" "t = attempt (flags_request ?flags) (answer_json ''/api/platform/submit'')
       (\<lambda>j. update (flags_judged (rd j)) (update flags_finished Done))
       (\<lambda>e. update (flags_failed e) (update flags_finished Done))"
    using assms by (auto simp: flags_closed_def onSubmit_flags_def Let_def update_def advance_Atomic attempt_def)
  have "submit_flags_of (rq_body (flags_request ?flags)) = ?flags"
    using submit_flags_of_sent [of ?flags] parseFlags_clean
    by (auto simp: flags_request_def browser_request_def list_all_iff)
  then have "submit_POST h (rq_body (flags_request ?flags)) = json_route (submitFlags h ?flags) ''submit failed'' ''Submit unavailable''"
    using assms(3) by (simp add: submit_POST_def Let_def)
  then show ?thesis
    unfolding run attempt_def using parseFlags_join
    by (intro exI conjI) (auto simp: flag_updates update_def advance_Atomic Let_def split: sum.splits)
qed

definition sample_flags :: flag_panel where
  "sample_flags = FlagSubmitPanel\<lparr>fp_rawFlags := join_with [CHR 0x0A] [''FLAG{a}'', ''FLAG{b}'']\<rparr>"

theorem typed_flags_reach_platform_witness:
  "\<exists>s' t sp. advance (flag_handle None (\<lambda>j. \<lparr>sp_results = None, sp_accepted_count = None, sp_rejected_count = None\<rparr>)
       ClickSubmitFlags sample_flags) sample_flags = (s', t, sp) \<and>
     outstanding t = [flags_request [''FLAG{a}'', ''FLAG{b}'']]"
proof -
  let ?rd = "\<lambda>j :: json. \<lparr>sp_results = None, sp_accepted_count = None, sp_rejected_count = None\<rparr> :: submit_payload"
  have "list_all plain_flag [''FLAG{a}'', ''FLAG{b}'']" by code_simp
  then have p: "parseFlags (fp_rawFlags sample_flags) = [''FLAG{a}'', ''FLAG{b}'']"
    using parseFlags_join [of "[''FLAG{a}'', ''FLAG{b}'']"] by (simp add: sample_flags_def)
  have idle: "\<not> fp_pending sample_flags" by (simp add: sample_flags_def FlagSubmitPanel_def)
  obtain s' t sp where a: "advance (flag_handle None ?rd ClickSubmitFlags sample_flags) sample_flags = (s', t, sp)"
    by (cases "advance (flag_handle None ?rd ClickSubmitFlags sample_flags) sample_flags") auto
  from typed_flags_reach_platform [OF idle _ _ a, of "undefined :: unit host"] p obtain k where "t = Call (flags_request [''FLAG{a}'', ''FLAG{b}'']) k" by auto
  with a show ?thesis by auto
qed

text \<open>
  C37. The settings an organizer can save are settings the server stores. Of everything the settings card can do, whatever
  is in flight, a request that stores settings carries a prefix of at most 32 letters, digits, underscores and hyphens
  that begins with a letter, and a whole number of members that is not negative; and the route takes both over unchanged.
\<close>

theorem saved_settings_reach_api:
  assumes "sends_after (settings_handle rd e s) hist rq" and "rq_method rq = ''PUT''"
  shows "\<exists>p n. flagFormatPattern p \<and> length p \<le> 32 \<and> (0 :: int) \<le> n \<and> p = trim (sc_prefix s) \<and>
    parsedMaxTeamMembers s = Finite (of_int n) \<and> rq_url rq = ''/api/admin/platform/settings'' \<and>
    admin_settings_PUT h (rq_body rq)
      = json_route (updateAdminPlatformSettings h p (of_int n)) ''platform settings update failed'' upstream_title"
proof -
  have rq: "rq = settings_request s" "prefixValid s" "maxTeamMembersValid s" using settings_handle_PUT [OF assms] by simp_all
  obtain q where q: "parsedMaxTeamMembers s = Finite q" "of_int \<lfloor>q\<rfloor> = q" "0 \<le> q"
    using rq(3) by (auto simp: maxTeamMembersValid_def split: js_num.splits)
  define n where "n = \<lfloor>q\<rfloor>"
  have n: "q = of_int n" "0 \<le> n" unfolding n_def q(2) using q(3) by simp_all
  define p where "p = trim (sc_prefix s)"
  have p: "flagFormatPattern p" using rq(2) by (simp add: prefixValid_def p_def)
  then obtain c cs where "p = c # cs" "length p \<le> 32" "trim p = p" using flagFormatPattern_safe [OF p] by (cases p) auto
  moreover have "admin_settings_PUT h (rq_body rq)
      = json_route (updateAdminPlatformSettings h p (of_int n)) ''platform settings update failed'' upstream_title"
    using calculation n q(1)
    by (simp add: rq(1) settings_request_def browser_request_def admin_settings_PUT_def json_prop_def trim_prop_def p_def [symmetric]
        js_bind_def js_lift_def json_Number_def nullish_or_def finite_value_def fun_eq_iff)
  ultimately show ?thesis
    using p n q(1) by (intro exI [of _ p] exI [of _ n]) (simp add: rq(1) settings_request_def browser_request_def settings_url_def p_def)
qed

definition sample_settings :: settings_card where
  "sample_settings = PlatformSettingsCard\<lparr>sc_prefix := ''PLAYIT '', sc_settings := Some
     \<lparr>ps_flag_format_prefix = ''OLD'', ps_flag_format_active = ''OLD'', ps_max_team_members = Some 0, ps_updated_at = [], ps_updated_by = []\<rparr>\<rparr>"

theorem saved_settings_reach_api_witness:
  "\<exists>rd :: json \<Rightarrow> AdminPlatformSettings. sends_after (settings_handle rd ClickSave sample_settings) [] (settings_request sample_settings) \<and>
     flagFormatPattern (trim (sc_prefix sample_settings))"
proof (intro exI conjI)
  fix rd :: "json \<Rightarrow> AdminPlatformSettings"
  have v: "prefixValid sample_settings" "maxTeamMembersValid sample_settings" "settings_dirty sample_settings"
    "\<not> settings_busy sample_settings"
    by code_simp+
  show sent: "sends_after (settings_handle rd ClickSave sample_settings) [] (settings_request sample_settings)"
    by (simp add: v onSave_def)
  have "rq_method (settings_request sample_settings) = ''PUT''" by (simp add: settings_request_def browser_request_def)
  from saved_settings_reach_api [OF sent this, of "undefined :: unit host"]
  show "flagFormatPattern (trim (sc_prefix sample_settings))" by blast
qed

end
